(* ===== verification/Prelude.thy ===== *)
theory Prelude
  imports Complex_Main "HOL-Library.Char_ord" "HOL-Library.List_Lexorder"
begin

text \<open>
  The shared vocabulary of the development: JavaScript strings and the string methods the
  TypeScript sources call, decimal numerals, and the collections the component proofs share.

  A JavaScript string is represented by the bytes of its UTF-8 encoding, one \<^typ>\<open>char\<close> per
  byte. With this representation \<open>new TextEncoder().encode(s).length\<close> is \<^const>\<open>length\<close>,
  and every method the sources use (\<open>startsWith\<close>, \<open>indexOf\<close>, \<open>split\<close>, \<open>slice\<close> at
  positions found by \<open>indexOf\<close>, \<open>includes\<close>) commutes with the encoding. The two methods
  whose Unicode tables are not reproduced are \<open>trim\<close> (ASCII white space only: the
  multi-byte white space characters are kept) and \<open>toLowerCase\<close> (ASCII letters only).
\<close>

section \<open>Collections\<close>

named_theorems js_defs \<open>definitions of the string model, unfolded when a closed term is evaluated\<close>
named_theorems str_iff \<open>logical characterisations of the string predicates\<close>

section \<open>Exceptions\<close>

text \<open>
  A thrown error is a value. \<open>KVRouteValidationError\<close> is the class of the contracts package;
  every other throw of the modelled code and of the runtime is an \<open>Error\<close>, a
  \<open>TypeError\<close> or a \<open>SyntaxError\<close> with a message.
\<close>

datatype js_error =
    KVRouteValidationError string
  | JsError string
  | JsTypeError string
  | JsSyntaxError string

type_synonym 'a result = "js_error + 'a"

section \<open>String methods\<close>

fun startsWith :: "string \<Rightarrow> string \<Rightarrow> bool" where
  "startsWith s [] = True"
| "startsWith [] (p # ps) = False"
| "startsWith (c # cs) (p # ps) = (c = p \<and> startsWith cs ps)"

definition endsWith :: "string \<Rightarrow> string \<Rightarrow> bool" where
  "endsWith s p = startsWith (rev s) (rev p)"

fun str_includes :: "string \<Rightarrow> string \<Rightarrow> bool" where
  "str_includes [] p = (p = [])"
| "str_includes (c # cs) p = (startsWith (c # cs) p \<or> str_includes cs p)"

text \<open>\<open>s.indexOf(p)\<close>: the least offset at which \<open>p\<close> starts, with \<open>-1\<close> as \<^const>\<open>None\<close>.\<close>

fun indexOf :: "string \<Rightarrow> string \<Rightarrow> nat option" where
  "indexOf [] p = (if p = [] then Some 0 else None)"
| "indexOf (c # cs) p = (if startsWith (c # cs) p then Some 0 else map_option Suc (indexOf cs p))"

text \<open>\<open>s.lastIndexOf(c)\<close> for a one-character needle.\<close>

fun lastIndexOf :: "string \<Rightarrow> char \<Rightarrow> nat option" where
  "lastIndexOf [] c = None"
| "lastIndexOf (x # xs) c =
     (case lastIndexOf xs c of Some i \<Rightarrow> Some (Suc i) | None \<Rightarrow> if x = c then Some 0 else None)"

text \<open>\<open>s.split(c)\<close> for a one-character separator: never an empty array.\<close>

fun split_on :: "char \<Rightarrow> string \<Rightarrow> string list" where
  "split_on c [] = [[]]"
| "split_on c (x # xs) =
     (if x = c then [] # split_on c xs
      else (case split_on c xs of [] \<Rightarrow> [[x]] | h # t \<Rightarrow> (x # h) # t))"

fun join :: "string \<Rightarrow> string list \<Rightarrow> string" where
  "join sep [] = []"
| "join sep [x] = x"
| "join sep (x # y # ys) = x @ sep @ join sep (y # ys)"

text \<open>\<open>s.split(c).pop()\<close>: the text after the last separator.\<close>

definition last_segment :: "char \<Rightarrow> string \<Rightarrow> string" where
  [js_defs]: "last_segment c s = last (split_on c s)"

definition is_ws :: "char \<Rightarrow> bool" where
  [js_defs]: "is_ws c \<longleftrightarrow> (let n = (of_char c :: nat) in n = 32 \<or> (9 \<le> n \<and> n \<le> 13))"

definition trimStart :: "string \<Rightarrow> string" where
  [js_defs]: "trimStart s = dropWhile is_ws s"

definition js_trim :: "string \<Rightarrow> string" where
  [js_defs]: "js_trim s = rev (dropWhile is_ws (rev (dropWhile is_ws s)))"

definition lower_char :: "char \<Rightarrow> char" where
  [js_defs]: "lower_char c =
     (let n = (of_char c :: nat) in if 65 \<le> n \<and> n \<le> 90 then char_of (n + 32) else c)"

definition toLowerCase :: "string \<Rightarrow> string" where
  [js_defs]: "toLowerCase s = map lower_char s"

text \<open>\<open>s.replace(pat, rep)\<close> with a string pattern: the first occurrence only. The sources
  pass replacement texts without \<open>$\<close>, so no replacement pattern is expanded.\<close>

fun replace_first :: "string \<Rightarrow> string \<Rightarrow> string \<Rightarrow> string" where
  "replace_first [] pat rep = (if pat = [] then rep else [])"
| "replace_first (c # cs) pat rep =
     (if startsWith (c # cs) pat then rep @ drop (length pat) (c # cs)
      else c # replace_first cs pat rep)"

text \<open>\<open>s.replace(/c/g, rep)\<close> for one character.\<close>

definition replace_all_char :: "char \<Rightarrow> string \<Rightarrow> string \<Rightarrow> string" where
  [js_defs]: "replace_all_char c rep s = concat (map (\<lambda>x. if x = c then rep else [x]) s)"

text \<open>A stable sort by a comparison, as \<open>Array.sort\<close> with a comparator.\<close>

fun insert_by :: "('a \<Rightarrow> 'a \<Rightarrow> bool) \<Rightarrow> 'a \<Rightarrow> 'a list \<Rightarrow> 'a list" where
  "insert_by le x [] = [x]"
| "insert_by le x (y # ys) = (if le x y then x # y # ys else y # insert_by le x ys)"

definition sort_by :: "('a \<Rightarrow> 'a \<Rightarrow> bool) \<Rightarrow> 'a list \<Rightarrow> 'a list" where
  "sort_by le xs = foldr (insert_by le) xs []"

section \<open>Laws of the string methods\<close>

lemma set_insert_by [simp]: "set (insert_by le x ys) = insert x (set ys)"
  by (induction ys) auto

lemma set_sort_by [simp]: "set (sort_by le xs) = set xs"
  by (induction xs) (simp_all add: sort_by_def)

text \<open>A separator that the parts do not contain can be read back.\<close>

lemma append_sep_inj:
  assumes "c \<notin> set a" "c \<notin> set b" "a @ c # x = b @ c # y"
  shows "a = b \<and> x = y"
  using assms
proof (induction a arbitrary: b)
  case Nil
  then show ?case by (cases b) auto
next
  case (Cons d a)
  then show ?case by (cases b) auto
qed

lemma append_sep_inj_last:
  assumes "c \<notin> set x" "c \<notin> set y" "a @ c # x = b @ c # y"
  shows "a = b \<and> x = y"
proof -
  have "rev x @ c # rev a = rev y @ c # rev b" using arg_cong [OF assms(3), of rev] by simp
  with append_sep_inj [of c "rev x" "rev y"] assms(1,2) show ?thesis by auto
qed

lemma startsWith_iff [str_iff]: "startsWith s p \<longleftrightarrow> (\<exists>t. s = p @ t)"
  by (induction s p rule: startsWith.induct) auto

lemma startsWith_append [simp]: "startsWith (p @ t) p"
  by (auto simp: startsWith_iff)

lemma endsWith_iff [str_iff]: "endsWith s p \<longleftrightarrow> (\<exists>t. s = t @ p)"
  unfolding endsWith_def startsWith_iff
  by (metis rev_append rev_rev_ident)

lemma endsWith_append [simp]: "endsWith (t @ p) p"
  by (auto simp: endsWith_iff)

lemma endsWith_char: "endsWith s [c] \<longleftrightarrow> s \<noteq> [] \<and> last s = c"
proof
  assume "endsWith s [c]"
  then show "s \<noteq> [] \<and> last s = c" by (auto simp: endsWith_iff)
next
  assume "s \<noteq> [] \<and> last s = c"
  then have "s = butlast s @ [c]" by (metis append_butlast_last_id)
  then show "endsWith s [c]" unfolding endsWith_iff by blast
qed

lemma str_includes_iff [str_iff]: "str_includes s p \<longleftrightarrow> (\<exists>u v. s = u @ p @ v)"
proof (induction s)
  case Nil
  then show ?case by auto
next
  case (Cons c cs)
  have "(\<exists>u v. c # cs = u @ p @ v) \<longleftrightarrow> (\<exists>v. c # cs = p @ v) \<or> (\<exists>u v. cs = u @ p @ v)"
    by (metis append_Cons append_Nil list.exhaust list.sel(3))
  then show ?case using Cons by (simp add: startsWith_iff)
qed

lemma str_includes_char [simp]: "str_includes s [c] \<longleftrightarrow> c \<in> set s"
  by (induction s) (auto simp: startsWith_iff)

lemma indexOf_None_iff: "indexOf s p = None \<longleftrightarrow> \<not> str_includes s p"
  by (induction s) auto

lemma indexOf_Some_bound: "indexOf s p = Some i \<Longrightarrow> i + length p \<le> length s"
proof (induction s arbitrary: i)
  case (Cons c cs)
  show ?case
  proof (cases "startsWith (c # cs) p")
    case True
    with Cons.prems obtain t where "i = 0" "c # cs = p @ t"
      by (auto simp: startsWith_iff simp del: startsWith.simps)
    then show ?thesis by (metis add_0 length_append le_add1)
  qed (use Cons in auto)
qed (auto split: if_splits)

lemma indexOf_char: "c \<notin> set u \<Longrightarrow> indexOf (u @ c # v) [c] = Some (length u)"
  by (induction u) auto

lemma split_on_not_Nil [simp]: "split_on c s \<noteq> []"
  by (induction s) (auto split: list.splits)

lemma split_on_no_sep [simp]: "p \<in> set (split_on c s) \<Longrightarrow> c \<notin> set p"
proof (induction s arbitrary: p)
  case (Cons x xs)
  then show ?case
    by (cases "split_on c xs") (auto split: if_splits)
qed simp

lemma join_Cons_ne: "ys \<noteq> [] \<Longrightarrow> join sep (x # ys) = x @ sep @ join sep ys"
  by (cases ys) auto

lemma join_split_on [simp]: "join [c] (split_on c s) = s"
proof (induction s)
  case (Cons x xs)
  obtain h t where ht: "split_on c xs = h # t" by (cases "split_on c xs") auto
  show ?case
  proof (cases "x = c")
    case True
    with Cons ht show ?thesis by (simp add: join_Cons_ne)
  next
    case False
    with Cons ht show ?thesis by (cases t) auto
  qed
qed simp

lemma split_on_free [simp]: "c \<notin> set s \<Longrightarrow> split_on c s = [s]"
  by (induction s) auto

lemma split_on_append: "c \<notin> set u \<Longrightarrow> split_on c (u @ c # v) = u # split_on c v"
  by (induction u) auto

lemma split_on_join:
  "(\<And>p. p \<in> set ps \<Longrightarrow> c \<notin> set p) \<Longrightarrow> ps \<noteq> [] \<Longrightarrow> split_on c (join [c] ps) = ps"
proof (induction ps)
  case (Cons x ys)
  then show ?case
    by (cases ys) (auto simp: split_on_append)
qed simp

lemma set_split_on: "x \<in> set p \<Longrightarrow> p \<in> set (split_on c s) \<Longrightarrow> x \<in> set s"
proof (induction s arbitrary: p)
  case (Cons y ys)
  obtain h t where ht: "split_on c ys = h # t" by (cases "split_on c ys") auto
  show ?case
    using Cons.prems Cons.IH [of h] Cons.IH [of p] ht by (auto split: if_splits)
qed simp

lemma set_join: "set (join sep ps) \<subseteq> set sep \<union> (\<Union>p \<in> set ps. set p)"
  by (induction sep ps rule: join.induct) auto

lemma dropWhile_trim [simp]: "is_ws c \<Longrightarrow> dropWhile is_ws (c # s) = dropWhile is_ws s"
  by simp

lemma set_js_trim: "set (js_trim s) \<subseteq> set s"
proof
  fix x assume "x \<in> set (js_trim s)"
  then have "x \<in> set (dropWhile is_ws (rev (dropWhile is_ws s)))"
    by (simp add: js_trim_def)
  then have "x \<in> set (rev (dropWhile is_ws s))" by (rule set_dropWhileD)
  then have "x \<in> set (dropWhile is_ws s)" by simp
  then show "x \<in> set s" by (rule set_dropWhileD)
qed

lemma js_trim_id: "(\<And>c. c \<in> set s \<Longrightarrow> \<not> is_ws c) \<Longrightarrow> js_trim s = s"
proof -
  assume *: "\<And>c. c \<in> set s \<Longrightarrow> \<not> is_ws c"
  have "dropWhile is_ws s = s" by (cases s) (use * in auto)
  moreover have "dropWhile is_ws (rev s) = rev s"
  proof (cases s rule: rev_cases)
    case (snoc t c)
    with * have "\<not> is_ws c" by simp
    with snoc show ?thesis by simp
  qed simp
  ultimately show ?thesis by (simp add: js_trim_def)
qed

lemma lower_char_idem [simp]: "lower_char (lower_char c) = lower_char c"
  by (simp add: lower_char_def Let_def)

lemma toLowerCase_idem [simp]: "toLowerCase (toLowerCase s) = toLowerCase s"
  by (simp add: toLowerCase_def)

lemma length_toLowerCase [simp]: "length (toLowerCase s) = length s"
  by (simp add: toLowerCase_def)

lemma replace_first_none: "\<not> str_includes s pat \<Longrightarrow> replace_first s pat rep = s"
  by (induction s) auto

section \<open>Decimal numerals\<close>

definition digit_char :: "nat \<Rightarrow> char" where
  "digit_char d = char_of (48 + d)"

definition digit_val :: "char \<Rightarrow> nat option" where
  "digit_val c = (let n = (of_char c :: nat) in if 48 \<le> n \<and> n \<le> 57 then Some (n - 48) else None)"

text \<open>\<open>String(n)\<close> for a non-negative integer.\<close>

fun nat_to_string :: "nat \<Rightarrow> string" where
  "nat_to_string n =
     (if n < 10 then [digit_char n] else nat_to_string (n div 10) @ [digit_char (n mod 10)])"

declare nat_to_string.simps [simp del]

definition int_to_string :: "int \<Rightarrow> string" where
  "int_to_string i = (if i < 0 then ''-'' @ nat_to_string (nat (- i)) else nat_to_string (nat i))"

text \<open>The longest prefix of decimal digits, its value and the rest.\<close>

fun read_digits :: "nat \<Rightarrow> string \<Rightarrow> nat \<times> string" where
  "read_digits acc [] = (acc, [])"
| "read_digits acc (c # cs) =
     (case digit_val c of Some d \<Rightarrow> read_digits (10 * acc + d) cs | None \<Rightarrow> (acc, c # cs))"

text \<open>
  \<open>Number.parseInt(s, 10)\<close>: leading white space, an optional sign, the longest digit prefix;
  \<^const>\<open>None\<close> is \<open>NaN\<close>. The result is the exact integer (the double rounding of
  values beyond \<open>2^53\<close> is not modelled).
\<close>

definition parseInt10 :: "string \<Rightarrow> int option" where
  "parseInt10 s =
     (let t = trimStart s;
          (sg, u) = (case t of c # cs \<Rightarrow> (if c = CHR ''-'' then (-1, cs)
                                        else if c = CHR ''+'' then (1, cs) else (1, t))
                             | [] \<Rightarrow> (1::int, t))
      in (case u of [] \<Rightarrow> None
          | c # _ \<Rightarrow> (case digit_val c of None \<Rightarrow> None
                     | Some _ \<Rightarrow> Some (sg * int (fst (read_digits 0 u))))))"

lemma digit_val_digit_char [simp]: "d < 10 \<Longrightarrow> digit_val (digit_char d) = Some d"
  by (simp add: digit_val_def digit_char_def)

lemma nat_to_string_not_Nil [simp]: "nat_to_string n \<noteq> []"
  by (subst nat_to_string.simps) simp

lemma nat_to_string_digits: "c \<in> set (nat_to_string n) \<Longrightarrow> \<exists>d<10. c = digit_char d"
proof (induction n rule: nat_to_string.induct)
  case (1 n)
  show ?case
  proof (cases "n < 10")
    case True
    with 1 show ?thesis by (subst (asm) nat_to_string.simps) auto
  next
    case False
    with "1.prems" have "c \<in> set (nat_to_string (n div 10)) \<or> c = digit_char (n mod 10)"
      by (subst (asm) nat_to_string.simps) auto
    with 1 False show ?thesis by (auto intro: exI [of _ "n mod 10"])
  qed
qed

lemma read_digits_append:
  "(\<And>c. c \<in> set ds \<Longrightarrow> \<exists>d<10. c = digit_char d) \<Longrightarrow>
   read_digits acc (ds @ rest) = read_digits (fst (read_digits acc ds)) rest"
  by (induction ds arbitrary: acc) force+

lemma read_digits_nat_to_string:
  "fst (read_digits 0 (nat_to_string n)) = n"
proof (induction n rule: nat_to_string.induct)
  case (1 n)
  show ?case
  proof (cases "n < 10")
    case True
    then show ?thesis by (subst nat_to_string.simps) simp
  next
    case False
    have "read_digits 0 (nat_to_string (n div 10) @ [digit_char (n mod 10)])
        = read_digits (fst (read_digits 0 (nat_to_string (n div 10)))) [digit_char (n mod 10)]"
      by (rule read_digits_append) (auto dest: nat_to_string_digits)
    with 1 False show ?thesis by (subst nat_to_string.simps) simp
  qed
qed

lemma digit_char_not_ws [simp]: "d < 10 \<Longrightarrow> \<not> is_ws (digit_char d)"
  by (simp add: is_ws_def digit_char_def)

lemma digit_char_not_sign [simp]:
  "d < 10 \<Longrightarrow> digit_char d \<noteq> CHR ''-''" "d < 10 \<Longrightarrow> digit_char d \<noteq> CHR ''+''"
  by (auto simp: digit_char_def dest!: arg_cong [where f = "of_char :: char \<Rightarrow> nat"])

lemma nat_to_string_Cons:
  obtains d cs where "nat_to_string n = digit_char d # cs" "d < 10"
proof (cases "nat_to_string n")
  case (Cons c cs)
  then obtain d where "d < 10" "c = digit_char d"
    using nat_to_string_digits [of c n] by auto
  with Cons show ?thesis using that by blast
qed simp

lemma parseInt10_nat_to_string [simp]: "parseInt10 (nat_to_string n) = Some (int n)"
proof -
  obtain d cs where dcs: "nat_to_string n = digit_char d # cs" "d < 10"
    by (rule nat_to_string_Cons)
  have "trimStart (nat_to_string n) = nat_to_string n"
    using dcs by (simp add: trimStart_def)
  then show ?thesis
    using dcs read_digits_nat_to_string [of n]
    by (simp add: parseInt10_def Let_def)
qed

end
