(* ===== verification/Unicode.thy ===== *)
theory Unicode
  imports Prelude
begin

text \<open>
  The byte-level codecs of the runtime that the sources call: the UTF-8 decoder behind
  \<open>Response.text()\<close> (with its byte-order mark and its replacement character),
  \<open>encodeURIComponent\<close> and \<open>decodeURIComponent\<close>. All three follow the same
  three-variable automaton: how many continuation bytes are still needed, and the range the
  next one has to lie in. The theory ends with the round trip of the URI codec and with the
  inertness of the decoder on well-formed input.
\<close>

section \<open>The UTF-8 automaton\<close>

type_synonym utf8_state = "nat \<times> nat \<times> nat"

abbreviation utf8_init :: utf8_state where
  "utf8_init \<equiv> (0, 128, 191)"

text \<open>The state after a lead byte; \<^const>\<open>None\<close> for a byte that starts no sequence.\<close>

definition utf8_lead :: "nat \<Rightarrow> utf8_state option" where
  "utf8_lead b =
     (if b \<le> 127 then Some utf8_init
      else if 194 \<le> b \<and> b \<le> 223 then Some (1, 128, 191)
      else if 224 \<le> b \<and> b \<le> 239
        then Some (2, if b = 224 then 160 else 128, if b = 237 then 159 else 191)
      else if 240 \<le> b \<and> b \<le> 244
        then Some (3, if b = 240 then 144 else 128, if b = 244 then 143 else 191)
      else None)"

text \<open>One byte in any state.\<close>

fun utf8_step :: "utf8_state \<Rightarrow> nat \<Rightarrow> utf8_state option" where
  "utf8_step (0, lo, up) b = utf8_lead b"
| "utf8_step (Suc n, lo, up) b = (if lo \<le> b \<and> b \<le> up then Some (n, 128, 191) else None)"

fun utf8_run :: "utf8_state \<Rightarrow> string \<Rightarrow> bool" where
  "utf8_run (n, lo, up) [] = (n = 0)"
| "utf8_run st (c # cs) =
     (case utf8_step st (of_char c) of None \<Rightarrow> False | Some st' \<Rightarrow> utf8_run st' cs)"

definition utf8_valid :: "string \<Rightarrow> bool" where
  "utf8_valid s = utf8_run utf8_init s"

text \<open>
  The decoder of the Encoding Standard, with its output written back as UTF-8: a well-formed
  sequence is copied, and an ill-formed one becomes the replacement character U+FFFD.
\<close>

definition replacement :: string where
  "replacement = [CHR 0xEF, CHR 0xBF, CHR 0xBD]"

function utf8_decode :: "string \<Rightarrow> utf8_state \<Rightarrow> string \<Rightarrow> string" where
  "utf8_decode pend (n, lo, up) [] = (if n = 0 then [] else replacement)"
| "utf8_decode pend (0, lo, up) (c # cs) =
     (case utf8_lead (of_char c) of
        None \<Rightarrow> replacement @ utf8_decode [] utf8_init cs
      | Some (0, _) \<Rightarrow> c # utf8_decode [] utf8_init cs
      | Some st \<Rightarrow> utf8_decode [c] st cs)"
| "utf8_decode pend (Suc n, lo, up) (c # cs) =
     (if lo \<le> (of_char c :: nat) \<and> (of_char c :: nat) \<le> up
      then (if n = 0 then rev (c # pend) @ utf8_decode [] utf8_init cs
            else utf8_decode (c # pend) (n, 128, 191) cs)
      else replacement @ utf8_decode [] utf8_init (c # cs))"
  by pat_completeness auto
termination
  by (relation "measures [\<lambda>(p, st, s). length s, \<lambda>(p, st, s). fst st]") auto

definition bom :: string where
  "bom = [CHR 0xEF, CHR 0xBB, CHR 0xBF]"

text \<open>\<open>await response.text()\<close>: a leading byte-order mark is dropped, the rest decoded.\<close>

definition response_text :: "string \<Rightarrow> string" where
  "response_text s =
     utf8_decode [] utf8_init (if startsWith s bom then drop (length bom) s else s)"

section \<open>The URI component codec\<close>

definition hex_digit :: "nat \<Rightarrow> char" where
  "hex_digit d = (if d < 10 then char_of (48 + d) else char_of (55 + d))"

definition hex_digit_lower :: "nat \<Rightarrow> char" where
  "hex_digit_lower d = (if d < 10 then char_of (48 + d) else char_of (87 + d))"

definition hex_val :: "char \<Rightarrow> nat option" where
  "hex_val c = (let n = (of_char c :: nat) in
     if 48 \<le> n \<and> n \<le> 57 then Some (n - 48)
     else if 65 \<le> n \<and> n \<le> 70 then Some (n - 55)
     else if 97 \<le> n \<and> n \<le> 102 then Some (n - 87) else None)"

definition is_alnum :: "char \<Rightarrow> bool" where
  "is_alnum c = (let n = (of_char c :: nat) in
     (48 \<le> n \<and> n \<le> 57) \<or> (65 \<le> n \<and> n \<le> 90) \<or> (97 \<le> n \<and> n \<le> 122))"

definition uri_unreserved :: "char \<Rightarrow> bool" where
  "uri_unreserved c = (is_alnum c \<or> c \<in> set ''-_.!~*()'' \<or> c = CHR 0x27)"

definition pct_byte :: "char \<Rightarrow> string" where
  "pct_byte c = [CHR ''%'', hex_digit (of_char c div 16), hex_digit (of_char c mod 16)]"

definition encodeURIComponent :: "string \<Rightarrow> string" where
  "encodeURIComponent s = concat (map (\<lambda>c. if uri_unreserved c then [c] else pct_byte c) s)"

fun pct_octet :: "string \<Rightarrow> (nat \<times> string) option" where
  "pct_octet (p # h # l # rest) =
     (if p = CHR ''%'' then
        (case (hex_val h, hex_val l) of (Some a, Some b) \<Rightarrow> Some (16 * a + b, rest) | _ \<Rightarrow> None)
      else None)"
| "pct_octet _ = None"

lemma pct_octet_length: "pct_octet s = Some (b, rest) \<Longrightarrow> length rest < length s"
  by (induction s rule: pct_octet.induct) (auto split: if_splits option.splits)

text \<open>
  \<open>decodeURIComponent\<close>: escapes are decoded byte by byte, and a run of escapes with a high
  bit has to spell one well-formed UTF-8 sequence; \<^const>\<open>None\<close> is the \<open>URIError\<close>.
\<close>

function decode_uri :: "utf8_state \<Rightarrow> string \<Rightarrow> string option" where
  "decode_uri (n, lo, up) [] = (if n = 0 then Some [] else None)"
| "decode_uri (n, lo, up) (c # cs) =
     (if n = 0 \<and> c \<noteq> CHR ''%'' then map_option (Cons c) (decode_uri utf8_init cs)
      else (case pct_octet (c # cs) of
              None \<Rightarrow> None
            | Some (b, rest) \<Rightarrow>
                (case utf8_step (n, lo, up) b of
                   None \<Rightarrow> None
                 | Some st \<Rightarrow> map_option (Cons (char_of b)) (decode_uri st rest))))"
  by pat_completeness auto
termination
  by (relation "measure (\<lambda>(st, s). length s)") (auto dest: pct_octet_length simp del: pct_octet.simps)

definition decodeURIComponent :: "string \<Rightarrow> string option" where
  "decodeURIComponent s = decode_uri utf8_init s"

section \<open>Laws\<close>

lemma hex_val_hex_digit_lower [simp]: "d < 16 \<Longrightarrow> hex_val (hex_digit_lower d) = Some d"
  by (auto simp: hex_val_def hex_digit_lower_def Let_def)

lemma hex_val_hex_digit [simp]: "d < 16 \<Longrightarrow> hex_val (hex_digit d) = Some d"
  by (auto simp: hex_val_def hex_digit_def Let_def)

lemma pct_octet_pct_byte [simp]: "pct_octet (pct_byte c @ s) = Some (of_char c, s)"
proof -
  have "(of_char c :: nat) div 16 < 16" using nat_of_char_less_256 [of c] by linarith
  then show ?thesis by (simp add: pct_byte_def)
qed

lemma unreserved_ascii: "uri_unreserved c \<Longrightarrow> (of_char c :: nat) \<le> 127"
  by (auto simp: uri_unreserved_def is_alnum_def Let_def)

lemma unreserved_not_pct: "uri_unreserved c \<Longrightarrow> c \<noteq> CHR ''%''"
  by (auto simp: uri_unreserved_def is_alnum_def Let_def)

lemma utf8_lead_ascii [simp]: "b \<le> 127 \<Longrightarrow> utf8_lead b = Some utf8_init"
  by (simp add: utf8_lead_def)

text \<open>Every state the automaton reaches inside a sequence only accepts bytes above 127.\<close>

definition utf8_mid :: "utf8_state \<Rightarrow> bool" where
  "utf8_mid st = (fst st = 0 \<or> 128 \<le> fst (snd st))"

lemma utf8_lead_mid: "utf8_lead b = Some st \<Longrightarrow> utf8_mid st"
  by (auto simp: utf8_lead_def utf8_mid_def split: if_splits)

lemma utf8_step_mid: "utf8_step st b = Some st' \<Longrightarrow> utf8_mid st'"
  by (cases "(st, b)" rule: utf8_step.cases)
     (auto simp: utf8_mid_def split: if_splits dest: utf8_lead_mid)

lemma decode_uri_encode:
  "utf8_run st s \<Longrightarrow> utf8_mid st \<Longrightarrow> decode_uri st (encodeURIComponent s) = Some s"
proof (induction st s rule: utf8_run.induct)
  case (1 n lo up)
  then show ?case by (simp add: encodeURIComponent_def)
next
  case (2 st c cs)
  obtain n lo up where st: "st = (n, lo, up)" by (cases st)
  from "2.prems"(1) obtain st' where st': "utf8_step st (of_char c) = Some st'"
    and run: "utf8_run st' cs" by (auto split: option.splits)
  have IH: "decode_uri st' (encodeURIComponent cs) = Some cs"
    using "2.IH" [OF st' run] utf8_step_mid [OF st'] by simp
  have enc: "encodeURIComponent (c # cs) =
      (if uri_unreserved c then [c] else pct_byte c) @ encodeURIComponent cs"
    by (simp add: encodeURIComponent_def)
  show ?case
  proof (cases "uri_unreserved c")
    case True
    then have asc: "(of_char c :: nat) \<le> 127" by (rule unreserved_ascii)
    have "n = 0"
      using "2.prems"(2) st st' asc by (cases n) (auto simp: utf8_mid_def split: if_splits)
    with st st' asc have "st' = utf8_init" by simp
    with IH enc True \<open>n = 0\<close> st show ?thesis by (simp add: unreserved_not_pct)
  next
    case False
    have pct: "hd (pct_byte c) = CHR ''%''" "pct_byte c \<noteq> []" by (simp_all add: pct_byte_def)
    then obtain r where r: "pct_byte c @ encodeURIComponent cs = CHR ''%'' # r"
      by (cases "pct_byte c") auto
    have oct: "pct_octet (CHR ''%'' # r) = Some (of_char c, encodeURIComponent cs)"
      using pct_octet_pct_byte [of c "encodeURIComponent cs"] r by simp
    show ?thesis
      using False enc r oct st st' IH by (simp del: pct_octet.simps)
  qed
qed

theorem decode_encodeURIComponent:
  "utf8_valid s \<Longrightarrow> decodeURIComponent (encodeURIComponent s) = Some s"
  unfolding decodeURIComponent_def utf8_valid_def
  by (rule decode_uri_encode) (simp_all add: utf8_mid_def)

lemma decode_uri_plain:
  "CHR ''%'' \<notin> set s \<Longrightarrow> decode_uri utf8_init s = Some s"
  by (induction s) auto

lemma decodeURIComponent_plain [simp]:
  "CHR ''%'' \<notin> set s \<Longrightarrow> decodeURIComponent s = Some s"
  by (simp add: decodeURIComponent_def decode_uri_plain)

lemma decode_uri_append_plain:
  "decode_uri utf8_init s = Some t \<Longrightarrow> c \<noteq> CHR ''%'' \<Longrightarrow>
   decode_uri utf8_init (c # s) = Some (c # t)"
  by simp

text \<open>Decoding distributes over concatenation once the first part is decodable.\<close>

lemma decode_uri_append:
  "decode_uri st s = Some t \<Longrightarrow> decode_uri st (s @ u) = map_option ((@) t) (decode_uri utf8_init u)"
proof (induction st s arbitrary: t rule: decode_uri.induct)
  case (1 n lo up)
  then have n0: "n = 0" "t = []" by (auto split: if_splits)
  have "decode_uri (0, lo, up) u = decode_uri utf8_init u"
    by (cases u) (simp_all split: option.splits prod.splits)
  with n0 show ?case by (simp add: option.map_id0 option.map_ident)
next
  case (2 n lo up c cs)
  show ?case
  proof (cases "n = 0 \<and> c \<noteq> CHR ''%''")
    case True
    with "2.prems" obtain t' where t': "decode_uri utf8_init cs = Some t'" "t = c # t'" by auto
    with True "2.IH"(1) [OF True t'(1)] show ?thesis
      by (simp add: option.map_comp comp_def)
  next
    case False
    with "2.prems" obtain b rest st' t' where *: "pct_octet (c # cs) = Some (b, rest)"
      "utf8_step (n, lo, up) b = Some st'" "decode_uri st' rest = Some t'" "t = char_of b # t'"
      by (auto split: option.splits prod.splits)
    have oct: "pct_octet (c # cs @ u) = Some (b, rest @ u)"
      using *(1) by (induction "c # cs" rule: pct_octet.induct) (auto split: if_splits option.splits)
    have "decode_uri st' (rest @ u) = map_option ((@) t') (decode_uri utf8_init u)"
      using "2.IH"(2) [OF False *(1) refl *(2,3)] .
    with False * oct show ?thesis
      by (auto simp: option.map_comp comp_def simp del: pct_octet.simps)
  qed
qed

lemma utf8_decode_valid:
  "utf8_run st s \<Longrightarrow> fst st = 0 \<or> pend \<noteq> [] \<Longrightarrow>
   utf8_decode pend st s = (if fst st = 0 then s else rev pend @ s)"
proof (induction pend st s rule: utf8_decode.induct)
  case (1 pend n lo up)
  then show ?case by simp
next
  case (2 pend lo up c cs)
  show ?case
  proof (cases "utf8_lead (of_char c)")
    case (Some st)
    obtain k lo' up' where st: "st = (k, lo', up')" by (cases st)
    show ?thesis
    proof (cases k)
      case 0
      with Some st have "st = utf8_init" by (auto simp: utf8_lead_def split: if_splits)
      with 2 Some st 0 show ?thesis by simp
    next
      case (Suc k')
      with 2 Some st show ?thesis by simp
    qed
  qed (use 2 in simp)
next
  case (3 pend n lo up c cs)
  then show ?case by (auto split: if_splits)
qed

text \<open>On well-formed UTF-8 without a byte-order mark, \<open>text()\<close> returns the bytes themselves.\<close>

lemma response_text_valid:
  "utf8_valid s \<Longrightarrow> \<not> startsWith s bom \<Longrightarrow> response_text s = s"
  by (simp add: response_text_def utf8_valid_def utf8_decode_valid)

lemma utf8_run_append:
  "utf8_run st s \<Longrightarrow> utf8_run st (s @ t) = utf8_run utf8_init t"
proof (induction st s rule: utf8_run.induct)
  case (1 n lo up)
  then show ?case by (cases t) auto
next
  case (2 st c cs)
  then show ?case by (auto split: option.splits)
qed

lemma utf8_valid_append [simp]: "utf8_valid s \<Longrightarrow> utf8_valid (s @ t) = utf8_valid t"
  by (simp add: utf8_valid_def utf8_run_append)

lemma utf8_valid_ascii: "(\<And>c. c \<in> set s \<Longrightarrow> (of_char c :: nat) \<le> 127) \<Longrightarrow> utf8_valid s"
  unfolding utf8_valid_def by (induction s) auto

end
