(* ===== verification/Json.thy ===== *)
theory Json
  imports Unicode
begin

text \<open>
  JSON values as the sources see them after \<open>JSON.parse\<close>, the property reads and
  \<open>typeof\<close> tests the validators use, and \<open>JSON.parse\<close> itself.

  A number is an exact rational or one of the three non-finite doubles (\<open>JSON.parse\<close> can
  produce an infinity from an overflowing literal; \<open>NaN\<close> comes from \<open>parseInt\<close> only).
  An object is the list of its own enumerable properties in \<open>Object.entries\<close> order, with
  distinct keys.
\<close>

section \<open>Values\<close>

datatype jsnum = Fin rat | Infty bool | NaN

datatype json =
    JNull
  | JBool bool
  | JNum jsnum
  | JStr string
  | JArr "json list"
  | JObj "(string \<times> json) list"

type_synonym jobj = "(string \<times> json) list"

text \<open>\<open>obj.key\<close>, with \<open>undefined\<close> as \<^const>\<open>None\<close>.\<close>

abbreviation jprop :: "jobj \<Rightarrow> string \<Rightarrow> json option" where
  "jprop obj key \<equiv> map_of obj key"

text \<open>The names that a plain object inherits, next to \<open>__proto__\<close>.\<close>

definition object_prototype :: "string list" where
  "object_prototype = [''constructor'', ''hasOwnProperty'', ''isPrototypeOf'',
     ''propertyIsEnumerable'', ''toLocaleString'', ''toString'', ''valueOf'', ''__defineGetter__'',
     ''__defineSetter__'', ''__lookupGetter__'', ''__lookupSetter__'']"

text \<open>\<open>typeof v === "object" && v !== null && !Array.isArray(v)\<close>, with the properties.\<close>

fun as_object :: "json \<Rightarrow> jobj option" where
  "as_object (JObj o1) = Some o1"
| "as_object _ = None"

text \<open>\<open>typeof v === "string"\<close>, with the string.\<close>

fun as_string :: "json option \<Rightarrow> string option" where
  "as_string (Some (JStr s)) = Some s"
| "as_string _ = None"

text \<open>\<open>typeof v === "number" && Number.isFinite(v)\<close>, with the number.\<close>

fun as_finite :: "json option \<Rightarrow> rat option" where
  "as_finite (Some (JNum (Fin q))) = Some q"
| "as_finite _ = None"

text \<open>\<open>v !== undefined && v !== null\<close>, with the value.\<close>

fun present :: "json option \<Rightarrow> json option" where
  "present None = None"
| "present (Some JNull) = None"
| "present (Some v) = Some v"

text \<open>\<open>Number.isInteger\<close> on a finite number, with the integer.\<close>

definition rat_int :: "rat \<Rightarrow> int option" where
  "rat_int q = (if of_int \<lfloor>q\<rfloor> = q then Some \<lfloor>q\<rfloor> else None)"

lemma rat_int_of_int [simp]: "rat_int (of_int i) = Some i"
  by (simp add: rat_int_def)

lemma rat_int_Some: "rat_int q = Some i \<longleftrightarrow> q = of_int i"
  by (auto simp: rat_int_def)

lemma rat_int_numeral [simp]:
  "rat_int (numeral n) = Some (numeral n)" "rat_int 0 = Some 0" "rat_int 1 = Some 1"
  by (auto simp: rat_int_def)

lemma as_object_Some [simp]: "as_object j = Some o1 \<longleftrightarrow> j = JObj o1"
  by (cases j) auto

lemma as_string_Some [simp]: "as_string v = Some s \<longleftrightarrow> v = Some (JStr s)"
  by (cases v rule: as_string.cases) auto

lemma as_finite_Some [simp]: "as_finite v = Some q \<longleftrightarrow> v = Some (JNum (Fin q))"
  by (cases v rule: as_finite.cases) auto

lemma present_Some [simp]: "present v = Some j \<longleftrightarrow> v = Some j \<and> j \<noteq> JNull"
  by (cases v rule: present.cases) auto

lemma present_None: "present v = None \<longleftrightarrow> v = None \<or> v = Some JNull"
  by (cases v rule: present.cases) auto

section \<open>\<open>JSON.parse\<close>\<close>

text \<open>JSON white space is narrower than \<open>trim\<close>'s: tab, line feed, carriage return, space.\<close>

definition json_ws :: "char \<Rightarrow> bool" where
  "json_ws c = (let n = (of_char c :: nat) in n = 32 \<or> n = 9 \<or> n = 10 \<or> n = 13)"

definition skip_ws :: "string \<Rightarrow> string" where
  "skip_ws s = dropWhile json_ws s"

text \<open>The UTF-8 bytes of a code point.\<close>

definition utf8_of_code :: "nat \<Rightarrow> string" where
  "utf8_of_code n =
     (if n < 128 then [char_of n]
      else if n < 2048 then [char_of (192 + n div 64), char_of (128 + n mod 64)]
      else if n < 65536
        then [char_of (224 + n div 4096), char_of (128 + n div 64 mod 64), char_of (128 + n mod 64)]
      else [char_of (240 + n div 262144), char_of (128 + n div 4096 mod 64),
            char_of (128 + n div 64 mod 64), char_of (128 + n mod 64)])"

fun hex4 :: "string \<Rightarrow> (nat \<times> string) option" where
  "hex4 (a # b # c # d # rest) =
     (case (hex_val a, hex_val b, hex_val c, hex_val d) of
        (Some p, Some q, Some r, Some s) \<Rightarrow> Some (4096 * p + 256 * q + 16 * r + s, rest)
      | _ \<Rightarrow> None)"
| "hex4 _ = None"

text \<open>
  The body of a string literal after its opening quote. A surrogate pair is joined; a lone
  surrogate has no UTF-8 form and is read as U+FFFD. Fuel is the length of the input: every
  step consumes a character.
\<close>

definition json_escape :: "char \<Rightarrow> char option" where
  "json_escape e =
     (if e = CHR 0x22 then Some (CHR 0x22) else if e = CHR 0x5C then Some (CHR 0x5C)
      else if e = CHR ''/'' then Some (CHR ''/'') else if e = CHR ''b'' then Some (CHR 0x08)
      else if e = CHR ''f'' then Some (CHR 0x0C) else if e = CHR ''n'' then Some (CHR 0x0A)
      else if e = CHR ''r'' then Some (CHR 0x0D) else if e = CHR ''t'' then Some (CHR 0x09)
      else None)"

definition json_u_escape :: "string \<Rightarrow> (string \<times> string) option" where
  "json_u_escape s =
     (case hex4 s of
        None \<Rightarrow> None
      | Some (n, rest) \<Rightarrow>
          if 55296 \<le> n \<and> n \<le> 56319 then
            (case rest of
               b # u # rest' \<Rightarrow>
                 (if b = CHR 0x5C \<and> u = CHR ''u'' then
                    (case hex4 rest' of
                       Some (m, rest'') \<Rightarrow>
                         if 56320 \<le> m \<and> m \<le> 57343
                         then Some (utf8_of_code (65536 + (n - 55296) * 1024 + (m - 56320)), rest'')
                         else Some (replacement, rest)
                     | None \<Rightarrow> None)
                  else Some (replacement, rest))
             | _ \<Rightarrow> Some (replacement, rest))
          else if 56320 \<le> n \<and> n \<le> 57343 then Some (replacement, rest)
          else Some (utf8_of_code n, rest))"

primrec json_string_body :: "nat \<Rightarrow> string \<Rightarrow> (string \<times> string) option" where
  "json_string_body 0 s = None"
| "json_string_body (Suc fuel) s =
     (case s of
        [] \<Rightarrow> None
      | c # cs \<Rightarrow>
          if c = CHR 0x22 then Some ([], cs)
          else if (of_char c :: nat) < 32 then None
          else if c = CHR 0x5C then
            (case cs of
               [] \<Rightarrow> None
             | e # rest \<Rightarrow>
                 (if e = CHR ''u'' then
                    (case json_u_escape rest of
                       None \<Rightarrow> None
                     | Some (t, rest') \<Rightarrow>
                         map_option (\<lambda>(u, r). (t @ u, r)) (json_string_body fuel rest'))
                  else (case json_escape e of
                          None \<Rightarrow> None
                        | Some x \<Rightarrow>
                            map_option (\<lambda>(u, r). (x # u, r)) (json_string_body fuel rest))))
          else map_option (\<lambda>(u, r). (c # u, r)) (json_string_body fuel cs))"

text \<open>
  The digits of an integer part, and of a fraction or an exponent, with how many there were.
\<close>

fun read_digits_n :: "nat \<Rightarrow> nat \<Rightarrow> string \<Rightarrow> nat \<times> nat \<times> string" where
  "read_digits_n k acc [] = (k, acc, [])"
| "read_digits_n k acc (c # cs) =
     (case digit_val c of Some d \<Rightarrow> read_digits_n (Suc k) (10 * acc + d) cs
                        | None \<Rightarrow> (k, acc, c # cs))"

text \<open>
  A number literal: sign, integer part without a leading zero, optional fraction, optional
  exponent. A literal beyond the range of doubles becomes an infinity.
\<close>

definition double_overflow :: rat where
  "double_overflow = (2 - 1 / 2 ^ 53) * 2 ^ 1023"

definition to_jsnum :: "rat \<Rightarrow> jsnum" where
  "to_jsnum q = (if double_overflow \<le> q then Infty True
                 else if q \<le> - double_overflow then Infty False else Fin q)"

text \<open>For evaluation: a small number needs no comparison with the overflow bound.\<close>

lemma to_jsnum_code [code]:
  "to_jsnum q =
     (if q < 1000000000 \<and> - 1000000000 < q then Fin q
      else if double_overflow \<le> q then Infty True
      else if q \<le> - double_overflow then Infty False else Fin q)"
proof -
  have "(1000000000 :: rat) \<le> double_overflow" unfolding double_overflow_def by simp
  then show ?thesis unfolding to_jsnum_def by auto
qed

definition json_frac :: "string \<Rightarrow> (rat \<times> string) option" where
  "json_frac s =
     (case s of
        c # cs \<Rightarrow>
          (if c = CHR ''.'' then
             (case read_digits_n 0 0 cs of
                (k, n, rest) \<Rightarrow> if k = 0 then None else Some (of_nat n / 10 ^ k, rest))
           else Some (0, s))
      | [] \<Rightarrow> Some (0, s))"

definition json_exp :: "string \<Rightarrow> (int \<times> string) option" where
  "json_exp s =
     (case s of
        c # cs \<Rightarrow>
          (if c = CHR ''e'' \<or> c = CHR ''E'' then
             (let (sg, ds) = (case cs of d # ds \<Rightarrow> (if d = CHR ''-'' then (-1, ds)
                                                  else if d = CHR ''+'' then (1, ds) else (1, cs))
                                       | [] \<Rightarrow> (1::int, cs))
              in (case read_digits_n 0 0 ds of
                    (k, n, rest) \<Rightarrow> if k = 0 then None else Some (sg * int n, rest)))
           else Some (0, s))
      | [] \<Rightarrow> Some (0, s))"

definition json_number :: "string \<Rightarrow> (json \<times> string) option" where
  "json_number s =
     (let (sg, t) = (case s of c # cs \<Rightarrow> if c = CHR ''-'' then (-1, cs) else (1, s) | [] \<Rightarrow> (1::rat, s))
      in (case read_digits_n 0 0 t of
            (k, n, rest) \<Rightarrow>
              if k = 0 \<or> (1 < k \<and> hd t = CHR ''0'') then None
              else (case json_frac rest of
                      None \<Rightarrow> None
                    | Some (f, rest') \<Rightarrow>
                        (case json_exp rest' of
                           None \<Rightarrow> None
                         | Some (e, rest'') \<Rightarrow>
                             Some (JNum (to_jsnum (sg * (of_nat n + f) * (10 powi e))), rest'')))))"

text \<open>A repeated key overwrites the value and keeps the first position.\<close>

fun obj_put :: "string \<Rightarrow> json \<Rightarrow> jobj \<Rightarrow> jobj" where
  "obj_put k v [] = [(k, v)]"
| "obj_put k v ((k', v') # xs) = (if k = k' then (k, v) # xs else (k', v') # obj_put k v xs)"

text \<open>The three productions, as one recursion on the fuel.\<close>

datatype json_task = ReadValue | ReadElems "json list" | ReadMembers jobj

primrec json_read :: "nat \<Rightarrow> json_task \<Rightarrow> string \<Rightarrow> (json \<times> string) option" where
  "json_read 0 task s = None"
| "json_read (Suc fuel) task s =
     (case task of
        ReadValue \<Rightarrow>
          (case skip_ws s of
             [] \<Rightarrow> None
           | c # cs \<Rightarrow>
               (if c = CHR 0x22 then
                  map_option (\<lambda>(u, r). (JStr u, r)) (json_string_body (Suc (length cs)) cs)
                else if c = CHR ''['' then
                  (case skip_ws cs of
                     d # ds \<Rightarrow> if d = CHR '']'' then Some (JArr [], ds)
                                else json_read fuel (ReadElems []) cs
                   | [] \<Rightarrow> None)
                else if c = CHR ''{'' then
                  (case skip_ws cs of
                     d # ds \<Rightarrow> if d = CHR ''}'' then Some (JObj [], ds)
                                else json_read fuel (ReadMembers []) cs
                   | [] \<Rightarrow> None)
                else if startsWith (c # cs) ''true'' then Some (JBool True, drop 4 (c # cs))
                else if startsWith (c # cs) ''false'' then Some (JBool False, drop 5 (c # cs))
                else if startsWith (c # cs) ''null'' then Some (JNull, drop 4 (c # cs))
                else json_number (c # cs)))
      | ReadElems acc \<Rightarrow>
          (case json_read fuel ReadValue s of
             None \<Rightarrow> None
           | Some (v, r) \<Rightarrow>
               (case skip_ws r of
                  c # cs \<Rightarrow> (if c = CHR '','' then json_read fuel (ReadElems (acc @ [v])) cs
                            else if c = CHR '']'' then Some (JArr (acc @ [v]), cs) else None)
                | [] \<Rightarrow> None))
      | ReadMembers acc \<Rightarrow>
          (case skip_ws s of
             [] \<Rightarrow> None
           | q # qs \<Rightarrow>
               if q \<noteq> CHR 0x22 then None
               else (case json_string_body (Suc (length qs)) qs of
                       None \<Rightarrow> None
                     | Some (k, r) \<Rightarrow>
                         (case skip_ws r of
                            [] \<Rightarrow> None
                          | c # cs \<Rightarrow>
                              if c \<noteq> CHR '':'' then None
                              else (case json_read fuel ReadValue cs of
                                      None \<Rightarrow> None
                                    | Some (v, r') \<Rightarrow>
                                        (case skip_ws r' of
                                           d # ds \<Rightarrow>
                                             (if d = CHR '','' then
                                                json_read fuel (ReadMembers (obj_put k v acc)) ds
                                              else if d = CHR ''}''
                                              then Some (JObj (obj_put k v acc), ds)
                                              else None)
                                         | [] \<Rightarrow> None))))))"

text \<open>
  \<open>JSON.parse(s)\<close>; \<^const>\<open>None\<close> is the \<open>SyntaxError\<close>. One unit of fuel is spent per
  value, element or member, and each of those consumes at least one character.
\<close>

definition JSON_parse :: "string \<Rightarrow> json option" where
  "JSON_parse s =
     (case json_read (2 * length s + 2) ReadValue s of
        Some (v, r) \<Rightarrow> if skip_ws r = [] then Some v else None
      | None \<Rightarrow> None)"

lemma read_digits_n_append:
  "(\<And>c. c \<in> set ds \<Longrightarrow> \<exists>d<10. c = digit_char d) \<Longrightarrow>
   read_digits_n k acc (ds @ rest) =
     read_digits_n (k + length ds) (fst (read_digits acc ds)) rest"
proof (induction ds arbitrary: k acc)
  case (Cons c cs)
  obtain d where "d < 10" "c = digit_char d" using Cons.prems [of c] by auto
  with Cons show ?case by simp
qed simp

text \<open>The first digit of a numeral of two or more digits is not zero.\<close>

lemma nat_to_string_no_leading_zero:
  "1 < length (nat_to_string n) \<Longrightarrow> hd (nat_to_string n) \<noteq> CHR ''0''"
proof (induction n rule: nat_to_string.induct)
  case (1 n)
  show ?case
  proof (cases "n < 10")
    case True
    with 1 show ?thesis by (subst (asm) nat_to_string.simps) simp
  next
    case False
    have eq: "nat_to_string n = nat_to_string (n div 10) @ [digit_char (n mod 10)]"
      using False by (subst nat_to_string.simps) simp
    show ?thesis
    proof (cases "1 < length (nat_to_string (n div 10))")
      case True
      with 1 False eq show ?thesis by (auto simp: hd_append)
    next
      case False2: False
      have "n div 10 < 10"
      proof (rule ccontr)
        assume "\<not> n div 10 < 10"
        then have "nat_to_string (n div 10)
            = nat_to_string (n div 10 div 10) @ [digit_char (n div 10 mod 10)]"
          by (subst nat_to_string.simps) simp
        with False2 show False by (cases "nat_to_string (n div 10 div 10)") auto
      qed
      then have "nat_to_string (n div 10) = [digit_char (n div 10)]"
        by (subst nat_to_string.simps) simp
      moreover have "0 < n div 10" using False by simp
      moreover have "digit_char d \<noteq> CHR ''0''" if "0 < d" "d < 10" for d
        using that by (auto simp: digit_char_def dest!: arg_cong [where f = "of_char :: char \<Rightarrow> nat"])
      ultimately show ?thesis using eq \<open>n div 10 < 10\<close> by simp
    qed
  qed
qed

section \<open>\<open>JSON.stringify\<close>\<close>

text \<open>The escape of one character inside a string literal.\<close>

definition json_esc_char :: "char \<Rightarrow> string" where
  "json_esc_char c =
     (if c = CHR 0x22 then [CHR 0x5C, CHR 0x22] else if c = CHR 0x5C then [CHR 0x5C, CHR 0x5C]
      else if c = CHR 0x08 then [CHR 0x5C, CHR ''b''] else if c = CHR 0x0C then [CHR 0x5C, CHR ''f'']
      else if c = CHR 0x0A then [CHR 0x5C, CHR ''n''] else if c = CHR 0x0D then [CHR 0x5C, CHR ''r'']
      else if c = CHR 0x09 then [CHR 0x5C, CHR ''t'']
      else if (of_char c :: nat) < 32
        then [CHR 0x5C, CHR ''u'', CHR ''0'', CHR ''0'',
              hex_digit_lower (of_char c div 16), hex_digit_lower (of_char c mod 16)]
      else [c])"

definition json_quote :: "string \<Rightarrow> string" where
  "json_quote s = [CHR 0x22] @ concat (map json_esc_char s) @ [CHR 0x22]"

text \<open>The values the sources serialize in flat objects: strings and non-negative integers.\<close>

datatype flat = FStr string | FNum nat

fun flat_json :: "flat \<Rightarrow> json" where
  "flat_json (FStr s) = JStr s"
| "flat_json (FNum n) = JNum (Fin (of_nat n))"

fun flat_text :: "flat \<Rightarrow> string" where
  "flat_text (FStr s) = json_quote s"
| "flat_text (FNum n) = nat_to_string n"

definition flat_member :: "string \<times> flat \<Rightarrow> string" where
  "flat_member kv = json_quote (fst kv) @ '':'' @ flat_text (snd kv)"

definition JSON_stringify_flat :: "(string \<times> flat) list \<Rightarrow> string" where
  "JSON_stringify_flat kvs = ''{'' @ join '','' (map flat_member kvs) @ ''}''"

lemma utf8_of_code_ctrl: "n < 128 \<Longrightarrow> utf8_of_code n = [char_of n]"
  by (simp add: utf8_of_code_def)

lemma json_u_escape_ctrl:
  assumes "(of_char c :: nat) < 32"
  shows "json_u_escape (CHR ''0'' # CHR ''0'' # hex_digit_lower (of_char c div 16) #
           hex_digit_lower (of_char c mod 16) # rest) = Some ([c], rest)"
proof -
  have h: "hex_val (CHR ''0'') = Some 0" by (simp add: hex_val_def)
  have d: "(of_char c :: nat) div 16 < 16" using assms by linarith
  have e: "16 * ((of_char c :: nat) div 16) + of_char c mod 16 = of_char c" by simp
  show ?thesis using assms by (simp add: json_u_escape_def h d e utf8_of_code_ctrl)
qed

lemma json_esc_char_step:
  "json_string_body (Suc fuel) (json_esc_char c @ rest) =
     map_option (\<lambda>(u, r). (c # u, r)) (json_string_body fuel rest)"
proof (cases "json_esc_char c = [c]")
  case True
  then have "c \<noteq> CHR 0x22" "c \<noteq> CHR 0x5C" "\<not> (of_char c :: nat) < 32"
    by (auto simp: json_esc_char_def split: if_splits)
  with True show ?thesis by simp
next
  case False
  show ?thesis
  proof (cases "c \<in> {CHR 0x22, CHR 0x5C, CHR 0x08, CHR 0x0C, CHR 0x0A, CHR 0x0D, CHR 0x09}")
    case True
    then show ?thesis by (auto simp: json_esc_char_def json_escape_def)
  next
    case c: False
    with False have "(of_char c :: nat) < 32" by (auto simp: json_esc_char_def split: if_splits)
    with c show ?thesis by (simp add: json_esc_char_def json_u_escape_ctrl)
  qed
qed

lemma json_string_body_quote:
  "length s < fuel \<Longrightarrow>
   json_string_body fuel (concat (map json_esc_char s) @ CHR 0x22 # rest) = Some (s, rest)"
proof (induction s arbitrary: fuel)
  case Nil
  then show ?case by (cases fuel) auto
next
  case (Cons c cs)
  then obtain f where f: "fuel = Suc f" "length cs < f" by (cases fuel) auto
  with Cons.IH [of f] show ?case
    by (simp add: json_esc_char_step del: json_string_body.simps)
qed

lemma length_esc: "length s \<le> length (concat (map json_esc_char s))"
proof (induction s)
  case (Cons c cs)
  have "1 \<le> length (json_esc_char c)" by (simp add: json_esc_char_def)
  with Cons show ?case by simp
qed simp

lemma json_string_body_quote':
  "json_string_body (Suc (length (concat (map json_esc_char s) @ CHR 0x22 # rest)))
     (concat (map json_esc_char s) @ CHR 0x22 # rest) = Some (s, rest)"
  by (rule json_string_body_quote) (use length_esc [of s] in simp)

lemma skip_ws_quote [simp]: "skip_ws (CHR 0x22 # s) = CHR 0x22 # s"
  by (simp add: skip_ws_def json_ws_def)

lemma json_read_quote:
  "json_read (Suc f) ReadValue (json_quote s @ rest) = Some (JStr s, rest)"
  using json_string_body_quote' [of s rest]
  by (simp add: json_quote_def del: json_string_body.simps)

lemma digit_char_plain:
  assumes "d < 10"
  shows "\<not> json_ws (digit_char d)" "digit_char d \<noteq> CHR 0x22" "digit_char d \<noteq> CHR ''[''"
    "digit_char d \<noteq> CHR ''{''" "digit_char d \<noteq> CHR ''t''" "digit_char d \<noteq> CHR ''f''"
    "digit_char d \<noteq> CHR ''n''"
  using assms
  by (auto simp: json_ws_def digit_char_def dest!: arg_cong [where f = "of_char :: char \<Rightarrow> nat"])

lemma of_nat_lt_overflow: "n < 2 ^ 1000 \<Longrightarrow> \<not> double_overflow \<le> (of_nat n :: rat)"
proof -
  assume "n < 2 ^ 1000"
  then have "(of_nat n :: rat) < of_nat (2 ^ 1000)" by (simp only: of_nat_less_iff)
  then have "(of_nat n :: rat) < 2 ^ 1000" by simp
  moreover have "(2::rat) ^ 1000 \<le> (2 - 1 / 2 ^ 53) * 2 ^ 1023" by (simp add: field_simps)
  ultimately show ?thesis by (simp add: double_overflow_def)
qed

lemma json_read_nat:
  assumes n: "n < 2 ^ 1000" and rest: "rest = [] \<or> hd rest \<in> {CHR '','', CHR ''}''}"
  shows "json_read (Suc f) ReadValue (nat_to_string n @ rest) = Some (JNum (Fin (of_nat n)), rest)"
proof -
  let ?s = "nat_to_string n"
  obtain d cs where dcs: "?s = digit_char d # cs" "d < 10" by (rule nat_to_string_Cons)
  note pl = digit_char_plain [OF \<open>d < 10\<close>]
  have stop: "read_digits_n k a rest = (k, a, rest)" for k a
    using rest by (cases rest) (auto simp: digit_val_def)
  have rd: "read_digits_n 0 0 (?s @ rest) = (length ?s, n, rest)"
    using read_digits_n_append [OF nat_to_string_digits, where ds = ?s and k = 0 and acc = 0
        and rest = rest]
      read_digits_nat_to_string [of n] stop by simp
  have fr: "json_frac rest = Some (0, rest)" "json_exp rest = Some (0, rest)"
    using rest by (cases rest; auto simp: json_frac_def json_exp_def)+
  have hd: "\<not> (1 < length ?s \<and> hd (?s @ rest) = CHR ''0'')"
    using nat_to_string_no_leading_zero [of n] by (auto simp: hd_append)
  have ov: "to_jsnum (of_nat n) = Fin (of_nat n)"
    using of_nat_lt_overflow [OF n]
    by (auto simp: to_jsnum_def double_overflow_def field_simps)
  have "json_number (?s @ rest) = Some (JNum (Fin (of_nat n)), rest)"
    using rd fr hd ov dcs by (auto simp: json_number_def Let_def)
  moreover have "json_read (Suc f) ReadValue (?s @ rest) = json_number (?s @ rest)"
    using dcs pl by (simp add: skip_ws_def)
  ultimately show ?thesis by simp
qed

fun flat_small :: "flat \<Rightarrow> bool" where
  "flat_small (FStr s) = True"
| "flat_small (FNum n) = (n < 2 ^ 1000)"

lemma json_read_flat:
  "flat_small v \<Longrightarrow> rest = [] \<or> hd rest \<in> {CHR '','', CHR ''}''} \<Longrightarrow>
   json_read (Suc f) ReadValue (flat_text v @ rest) = Some (flat_json v, rest)"
  by (cases v) (simp_all add: json_read_nat json_read_quote del: json_read.simps)

lemma obj_put_new: "k \<notin> fst ` set acc \<Longrightarrow> obj_put k v acc = acc @ [(k, v)]"
  by (induction k v acc rule: obj_put.induct) auto

lemma json_read_member:
  assumes v: "flat_small v" and d: "d \<in> {CHR '','', CHR ''}''}"
  shows "json_read (Suc (Suc f)) (ReadMembers acc) (flat_member (k, v) @ d # rest) =
     (if d = CHR '','' then json_read (Suc f) (ReadMembers (obj_put k (flat_json v) acc)) rest
      else Some (JObj (obj_put k (flat_json v) acc), rest))"
proof -
  let ?tail = "'':'' @ flat_text v @ d # rest"
  have "json_string_body (Suc (length (concat (map json_esc_char k) @ CHR 0x22 # ?tail)))
      (concat (map json_esc_char k) @ CHR 0x22 # ?tail) = Some (k, ?tail)"
    by (rule json_string_body_quote')
  moreover have "json_read (Suc f) ReadValue (flat_text v @ d # rest) = Some (flat_json v, d # rest)"
    by (rule json_read_flat) (use v d in auto)
  moreover have "skip_ws (d # rest) = d # rest" "skip_ws ?tail = ?tail"
    using d by (auto simp: skip_ws_def json_ws_def)
  ultimately show ?thesis
    using d by (subst json_read.simps) (auto simp: flat_member_def json_quote_def
      simp del: json_read.simps json_string_body.simps)
qed

lemma json_read_members:
  "kvs \<noteq> [] \<Longrightarrow> distinct (map fst kvs) \<Longrightarrow> \<forall>kv \<in> set kvs. flat_small (snd kv) \<Longrightarrow>
   fst ` set acc \<inter> fst ` set kvs = {} \<Longrightarrow> length kvs < fuel \<Longrightarrow>
   json_read fuel (ReadMembers acc) (join '','' (map flat_member kvs) @ CHR ''}'' # rest) =
     Some (JObj (acc @ map (\<lambda>(k, v). (k, flat_json v)) kvs), rest)"
proof (induction kvs arbitrary: acc fuel)
  case (Cons kv kvs)
  obtain k v where kv: "kv = (k, v)" by (cases kv)
  obtain f where f: "fuel = Suc (Suc f)" "length kvs < Suc f"
    using Cons.prems(5) by (cases fuel rule: nat.exhaust; cases "fuel - 1") auto
  have put: "obj_put k (flat_json v) acc = acc @ [(k, flat_json v)]"
    using Cons.prems(4) kv by (intro obj_put_new) auto
  have sm: "flat_small v" using Cons.prems(3) kv by simp
  show ?case
  proof (cases "kvs = []")
    case True
    with kv f show ?thesis
      using json_read_member [OF sm, of "CHR ''}''" f acc k rest] put
      by (simp del: json_read.simps)
  next
    case False
    have "json_read (Suc f) (ReadMembers (acc @ [(k, flat_json v)]))
        (join '','' (map flat_member kvs) @ CHR ''}'' # rest) =
        Some (JObj ((acc @ [(k, flat_json v)]) @ map (\<lambda>(k, v). (k, flat_json v)) kvs), rest)"
      by (rule Cons.IH) (use False Cons.prems kv f in auto)
    with False kv f show ?thesis
      using json_read_member [OF sm, of "CHR '',''" f acc k
          "join '','' (map flat_member kvs) @ CHR ''}'' # rest"] put
      by (simp add: join_Cons_ne del: json_read.simps)
  qed
qed simp

text \<open>Parsing the text of a flat object gives the object back.\<close>

lemma length_flat_members:
  "length kvs \<le> length (join '','' (map flat_member kvs))"
proof (induction kvs)
  case (Cons kv kvs)
  have "1 \<le> length (flat_member kv)" by (simp add: flat_member_def)
  with Cons show ?case by (cases kvs) (auto simp: join_Cons_ne)
qed simp

theorem JSON_parse_stringify_flat:
  assumes "kvs \<noteq> []" "distinct (map fst kvs)" "\<forall>kv \<in> set kvs. flat_small (snd kv)"
  shows "JSON_parse (JSON_stringify_flat kvs) = Some (JObj (map (\<lambda>(k, v). (k, flat_json v)) kvs))"
proof -
  let ?b = "join '','' (map flat_member kvs) @ ''}''"
  let ?f = "2 * length (JSON_stringify_flat kvs) + 1"
  obtain q where q: "?b = CHR 0x22 # q"
    using assms(1) by (cases kvs; cases "tl kvs") (auto simp: flat_member_def json_quote_def)
  have len: "length kvs < ?f"
    using length_flat_members [of kvs] by (simp add: JSON_stringify_flat_def)
  have mem: "json_read ?f (ReadMembers []) ?b =
      Some (JObj (map (\<lambda>(k, v). (k, flat_json v)) kvs), [])"
    using json_read_members [OF assms(1,2,3), of "[]" ?f "[]"] len by (simp del: json_read.simps)
  have "json_read (Suc ?f) ReadValue (JSON_stringify_flat kvs) = json_read ?f (ReadMembers []) ?b"
  proof -
    have "skip_ws (JSON_stringify_flat kvs) = CHR ''{'' # ?b"
      by (simp add: JSON_stringify_flat_def skip_ws_def json_ws_def)
    moreover have "skip_ws ?b = CHR 0x22 # q" by (simp add: q)
    ultimately show ?thesis by (subst json_read.simps) (simp del: json_read.simps)
  qed
  with mem show ?thesis by (simp add: JSON_parse_def skip_ws_def del: json_read.simps)
qed

end
