(* ===== verification/Web.thy ===== *)
theory Web
  imports Json
begin

text \<open>
  The Web platform objects the Worker is written against: \<open>Headers\<close>, \<open>Request\<close>,
  \<open>Response\<close>, \<open>URL\<close>, \<open>URLSearchParams\<close> and the two \<open>Date\<close> formats. What the
  sources take from outside the repository (the URL parser, \<open>Date.parse\<close>, the \<open>jose\<close>
  package, the collation behind \<open>localeCompare\<close>, SHA-256) is a field of the record
  \<open>runtime\<close>, a parameter of every definition that uses it.

  \<open>Headers.set\<close> stores a value as given: its rejection of values with line breaks is not
  modelled.
\<close>

section \<open>Headers\<close>

type_synonym headers = "(string \<times> string) list"

fun assoc_put :: "'k \<Rightarrow> 'v \<Rightarrow> ('k \<times> 'v) list \<Rightarrow> ('k \<times> 'v) list" where
  "assoc_put k v [] = [(k, v)]"
| "assoc_put k v ((k', v') # xs) = (if k = k' then (k, v) # xs else (k', v') # assoc_put k v xs)"

definition header_get :: "headers \<Rightarrow> string \<Rightarrow> string option" where
  "header_get h name = map_of h (toLowerCase name)"

definition header_set :: "headers \<Rightarrow> string \<Rightarrow> string \<Rightarrow> headers" where
  "header_set h name v = assoc_put (toLowerCase name) v h"

definition header_delete :: "headers \<Rightarrow> string \<Rightarrow> headers" where
  "header_delete h name = filter (\<lambda>(k, v). k \<noteq> toLowerCase name) h"

text \<open>\<open>new Headers(record)\<close>, and the same loop over an existing object.\<close>

fun headers_of :: "headers \<Rightarrow> (string \<times> string) list \<Rightarrow> headers" where
  "headers_of h [] = h"
| "headers_of h ((k, v) # xs) = headers_of (header_set h k v) xs"

abbreviation new_headers :: "(string \<times> string) list \<Rightarrow> headers" where
  "new_headers r \<equiv> headers_of [] r"

lemma headers_of_append: "headers_of h (xs @ ys) = headers_of (headers_of h xs) ys"
  by (induction h xs rule: headers_of.induct) auto

subsection \<open>The interface of a header store\<close>

text \<open>
  Everything the response builders rely on: names are compared without case, a set is seen by
  the next get of that name and by no other, a delete removes exactly that name. The lemma
  about a whole record of headers is proved once from these laws.
\<close>

locale header_store =
  fixes get :: "'h \<Rightarrow> string \<Rightarrow> string option"
    and put :: "'h \<Rightarrow> string \<Rightarrow> string \<Rightarrow> 'h"
    and del :: "'h \<Rightarrow> string \<Rightarrow> 'h"
    and put_all :: "'h \<Rightarrow> (string \<times> string) list \<Rightarrow> 'h"
  assumes get_put: "get (put h k v) k' = (if toLowerCase k = toLowerCase k' then Some v else get h k')"
    and get_del: "get (del h k) k' = (if toLowerCase k = toLowerCase k' then None else get h k')"
    and put_all_Nil: "put_all h [] = h"
    and put_all_Cons: "put_all h ((k, v) # r) = put_all (put h k v) r"
begin

lemma get_put_all_other:
  "toLowerCase k \<notin> toLowerCase ` fst ` set r \<Longrightarrow> get (put_all h r) k = get h k"
proof (induction r arbitrary: h)
  case Nil
  then show ?case by (simp add: put_all_Nil)
next
  case (Cons kv r)
  then show ?case by (cases kv) (auto simp: put_all_Cons get_put)
qed

text \<open>The last binding of a name in the record is the one that is read back.\<close>

lemma get_put_all:
  "get (put_all h r) k =
     (case map_of (rev (map (\<lambda>(k, v). (toLowerCase k, v)) r)) (toLowerCase k) of
        Some v \<Rightarrow> Some v | None \<Rightarrow> get h k)"
proof (induction r arbitrary: h)
  case Nil
  then show ?case by (simp add: put_all_Nil)
next
  case (Cons kv r)
  obtain a b where kv: "kv = (a, b)" by (cases kv)
  show ?case
    using Cons [of "put h a b"]
    by (auto simp: kv put_all_Cons get_put map_add_def split: option.splits)
qed

end

lemma set_assoc_put: "set (assoc_put k v xs) \<subseteq> insert (k, v) (set xs)"
  by (induction k v xs rule: assoc_put.induct) auto

lemma fst_assoc_put: "fst ` set (assoc_put k v xs) = insert k (fst ` set xs)"
  by (induction k v xs rule: assoc_put.induct) auto

lemma distinct_assoc_put: "distinct (map fst xs) \<Longrightarrow> distinct (map fst (assoc_put k v xs))"
proof (induction k v xs rule: assoc_put.induct)
  case (2 k v k' v' xs)
  then show ?case using fst_assoc_put [of k v xs] by auto
qed simp

lemma set_assoc_put_distinct:
  assumes "distinct (map fst xs)"
  shows "set (assoc_put k v xs) \<subseteq> insert (k, v) {kv \<in> set xs. fst kv \<noteq> k}"
  using assms
proof (induction xs)
  case (Cons kv xs)
  obtain a b where kv: "kv = (a, b)" by fastforce
  show ?case
  proof (cases "k = a")
    case True
    have "fst x \<noteq> a" if "x \<in> set xs" for x using that Cons.prems kv by auto
    with True kv show ?thesis by auto
  next
    case False
    with Cons kv show ?thesis by auto
  qed
qed simp

lemma length_assoc_put: "length (assoc_put k v xs) \<le> Suc (length xs)"
  by (induction xs) auto

lemma map_of_assoc_put [simp]: "map_of (assoc_put k v xs) = (map_of xs)(k \<mapsto> v)"
  by (induction k v xs rule: assoc_put.induct) auto

lemma map_of_filter_neq: "map_of (filter (\<lambda>(k, v). k \<noteq> a) h) b = (if a = b then None else map_of h b)"
  by (induction h) auto

interpretation hs: header_store header_get header_set header_delete headers_of
proof unfold_locales
  show "header_get (header_set h k v) k' =
      (if toLowerCase k = toLowerCase k' then Some v else header_get h k')" for h k v k'
    by (simp add: header_get_def header_set_def)
  show "header_get (header_delete h k) k' =
      (if toLowerCase k = toLowerCase k' then None else header_get h k')" for h k k'
    by (simp add: header_get_def header_delete_def map_of_filter_neq)
qed simp_all

lemma header_get_Nil [simp]: "header_get [] k = None"
  by (simp add: header_get_def)

lemmas header_laws = hs.get_put hs.get_del

section \<open>URLs\<close>

record url =
  url_protocol :: string
  url_host :: string
  url_pathname :: string
  url_search :: string
  url_hash :: string

definition url_href :: "url \<Rightarrow> string" where
  "url_href u = url_protocol u @ ''//'' @ url_host u @ url_pathname u @ url_search u @ url_hash u"

definition url_origin :: "url \<Rightarrow> string" where
  "url_origin u = url_protocol u @ ''//'' @ url_host u"

text \<open>The \<open>application/x-www-form-urlencoded\<close> parser and serializer of \<open>searchParams\<close>.\<close>

fun pct_decode :: "string \<Rightarrow> string" where
  "pct_decode (c # h # l # rest) =
     (if c = CHR ''%'' then
        (case (hex_val h, hex_val l) of
           (Some a, Some b) \<Rightarrow> char_of (16 * a + b) # pct_decode rest
         | _ \<Rightarrow> c # pct_decode (h # l # rest))
      else c # pct_decode (h # l # rest))"
| "pct_decode (c # cs) = c # pct_decode cs"
| "pct_decode [] = []"

definition form_decode :: "string \<Rightarrow> string" where
  "form_decode s =
     utf8_decode [] utf8_init (pct_decode (map (\<lambda>c. if c = CHR ''+'' then CHR '' '' else c) s))"

definition form_pair :: "string \<Rightarrow> string \<times> string" where
  "form_pair s =
     (case indexOf s ''='' of
        None \<Rightarrow> (form_decode s, [])
      | Some i \<Rightarrow> (form_decode (take i s), form_decode (drop (Suc i) s)))"

definition searchParams :: "url \<Rightarrow> (string \<times> string) list" where
  "searchParams u =
     (let q = (case url_search u of c # cs \<Rightarrow> if c = CHR ''?'' then cs else c # cs | [] \<Rightarrow> [])
      in map form_pair (filter (\<lambda>p. p \<noteq> []) (split_on (CHR ''&'') q)))"

definition params_get :: "url \<Rightarrow> string \<Rightarrow> string option" where
  "params_get u name = map_of (searchParams u) name"

definition params_has :: "url \<Rightarrow> string \<Rightarrow> bool" where
  "params_has u name = (name \<in> fst ` set (searchParams u))"

definition form_encode :: "string \<Rightarrow> string" where
  "form_encode s =
     concat (map (\<lambda>c. if is_alnum c \<or> c \<in> set ''*-._'' then [c]
                      else if c = CHR '' '' then ''+'' else pct_byte c) s)"

definition params_string :: "(string \<times> string) list \<Rightarrow> string" where
  "params_string ps = join ''&'' (map (\<lambda>(k, v). form_encode k @ ''='' @ form_encode v) ps)"

text \<open>\<open>searchParams.set\<close>: the first pair of that name gets the value, the others go.\<close>

fun params_put :: "string \<Rightarrow> string \<Rightarrow> (string \<times> string) list \<Rightarrow> (string \<times> string) list" where
  "params_put k v [] = [(k, v)]"
| "params_put k v ((k', v') # ps) =
     (if k = k' then (k, v) # filter (\<lambda>p. fst p \<noteq> k) ps else (k', v') # params_put k v ps)"

definition params_set :: "url \<Rightarrow> string \<Rightarrow> string \<Rightarrow> url" where
  "params_set u k v =
     (let q = params_string (params_put k v (searchParams u))
      in u\<lparr>url_search := (if q = [] then [] else ''?'' @ q)\<rparr>)"

section \<open>Requests and responses\<close>

record request =
  req_method :: string
  req_url :: string
  req_headers :: headers

record response =
  resp_status :: nat
  resp_headers :: headers
  resp_body :: "string option"

definition mk_response :: "string option \<Rightarrow> nat \<Rightarrow> headers \<Rightarrow> response" where
  "mk_response b st h = \<lparr>resp_status = st, resp_headers = h, resp_body = b\<rparr>"

lemma mk_response_simps [simp]:
  "resp_status (mk_response b st h) = st"
  "resp_headers (mk_response b st h) = h"
  "resp_body (mk_response b st h) = b"
  by (simp_all add: mk_response_def)

section \<open>The parts supplied by the platform\<close>

type_synonym crypto_key = string

text \<open>The verification options \<open>edgetoken.ts\<close> passes to \<open>jwtVerify\<close>.\<close>

record jwt_options =
  opt_algorithms :: "string list"
  opt_issuer :: string
  opt_audience :: string
  opt_requiredClaims :: "string list"
  opt_clockTolerance :: int
  opt_currentDate :: int

record runtime =
  date_parse :: "string \<Rightarrow> int option"
  new_url :: "string \<Rightarrow> string option \<Rightarrow> url option"
  set_pathname :: "string \<Rightarrow> string"
  locale_le :: "string \<Rightarrow> string \<Rightarrow> bool"
  sha256_digest :: "string \<Rightarrow> string"
  double_to_string :: "rat \<Rightarrow> string"
  error_stack :: "js_error \<Rightarrow> string option"
  syntax_message :: "string \<Rightarrow> string"
  kv_error :: "string \<Rightarrow> js_error"
  importJWK :: "jobj \<Rightarrow> string \<Rightarrow> crypto_key option"
  jwtVerify :: "string \<Rightarrow> (jobj \<Rightarrow> crypto_key option) \<Rightarrow> jwt_options \<Rightarrow> jobj option"

text \<open>
  \<open>String(n)\<close> of a finite number: decimal for an integer; the shortest-digits algorithm for
  other doubles is left to the platform.
\<close>

definition num_to_string :: "runtime \<Rightarrow> rat \<Rightarrow> string" where
  "num_to_string rt q = (case rat_int q of Some i \<Rightarrow> int_to_string i | None \<Rightarrow> double_to_string rt q)"

section \<open>Dates\<close>

text \<open>
  A \<open>Date\<close> is its number of milliseconds since the epoch. The civil date is computed by the
  usual era arithmetic on days.
\<close>

definition civil_from_days :: "int \<Rightarrow> int \<times> int \<times> int" where
  "civil_from_days z0 =
     (let z = z0 + 719468; era = z div 146097; doe = z - era * 146097;
          yoe = (doe - doe div 1460 + doe div 36524 - doe div 146096) div 365;
          doy = doe - (365 * yoe + yoe div 4 - yoe div 100);
          mp = (5 * doy + 2) div 153;
          d = doy - (153 * mp + 2) div 5 + 1;
          m = (if mp < 10 then mp + 3 else mp - 9);
          y = yoe + era * 400 + (if m \<le> 2 then 1 else 0)
      in (y, m, d))"

definition pad :: "nat \<Rightarrow> int \<Rightarrow> string" where
  "pad w i = (let s = nat_to_string (nat i) in replicate (w - length s) (CHR ''0'') @ s)"

definition year_string :: "int \<Rightarrow> string" where
  "year_string y =
     (if 0 \<le> y \<and> y \<le> 9999 then pad 4 y
      else if y < 0 then ''-'' @ pad 6 (- y) else ''+'' @ pad 6 y)"

text \<open>\<open>date.toISOString()\<close>.\<close>

definition toISOString :: "int \<Rightarrow> string" where
  "toISOString ms =
     (let (y, m, d) = civil_from_days (ms div 86400000); t = ms mod 86400000
      in year_string y @ ''-'' @ pad 2 m @ ''-'' @ pad 2 d @ ''T'' @
         pad 2 (t div 3600000) @ '':'' @ pad 2 (t div 60000 mod 60) @ '':'' @
         pad 2 (t div 1000 mod 60) @ ''.'' @ pad 3 (t mod 1000) @ ''Z'')"

definition weekday_name :: "int \<Rightarrow> string" where
  "weekday_name days =
     [''Thu'', ''Fri'', ''Sat'', ''Sun'', ''Mon'', ''Tue'', ''Wed''] ! nat (days mod 7)"

definition month_name :: "int \<Rightarrow> string" where
  "month_name m = [''Jan'', ''Feb'', ''Mar'', ''Apr'', ''May'', ''Jun'', ''Jul'', ''Aug'',
     ''Sep'', ''Oct'', ''Nov'', ''Dec''] ! nat (m - 1)"

text \<open>\<open>date.toUTCString()\<close>, the format of \<open>Last-Modified\<close>.\<close>

definition toUTCString :: "int \<Rightarrow> string" where
  "toUTCString ms =
     (let (y, m, d) = civil_from_days (ms div 86400000); t = ms mod 86400000
      in weekday_name (ms div 86400000) @ '', '' @ pad 2 d @ '' '' @ month_name m @ '' '' @
         (if y < 0 then ''-'' @ pad 4 (- y) else pad 4 y) @ '' '' @
         pad 2 (t div 3600000) @ '':'' @ pad 2 (t div 60000 mod 60) @ '':'' @
         pad 2 (t div 1000 mod 60) @ '' GMT'')"

section \<open>Key-value namespaces\<close>

text \<open>
  The contents of a namespace, and how its binding behaves: which reads throw and which writes
  are rejected.
\<close>

type_synonym kv_store = "string \<Rightarrow> string option"

record kv_binding =
  kv_get_fails :: "string \<Rightarrow> bool"
  kv_put_fails :: "string \<Rightarrow> bool"

definition healthy :: "kv_binding \<Rightarrow> bool" where
  "healthy b \<longleftrightarrow> (\<forall>k. \<not> kv_get_fails b k) \<and> (\<forall>k. \<not> kv_put_fails b k)"

definition good_binding :: kv_binding where
  "good_binding = \<lparr>kv_get_fails = (\<lambda>_. False), kv_put_fails = (\<lambda>_. False)\<rparr>"

lemma healthy_good [simp]: "healthy good_binding"
  by (simp add: healthy_def good_binding_def)

text \<open>\<open>await kv.get(key)\<close>, with a thrown error as \<^const>\<open>None\<close>.\<close>

definition kv_get :: "kv_binding \<Rightarrow> kv_store \<Rightarrow> string \<Rightarrow> string option option" where
  "kv_get b store key = (if kv_get_fails b key then None else Some (store key))"

lemma kv_get_healthy [simp]: "healthy b \<Longrightarrow> kv_get b store key = Some (store key)"
  by (simp add: kv_get_def healthy_def)

section \<open>A concrete platform\<close>

text \<open>
  An instance of the platform parameters, for evaluating the definitions on examples: URLs of
  the form \<open>https://host/path?query\<close>, one known date, byte order as collation, and a
  \<open>jwtVerify\<close> that accepts the token \<open>good\<close> under the key \<open>k1\<close>.
\<close>

definition sample_parse_url :: "string \<Rightarrow> url option" where
  "sample_parse_url s =
     (if startsWith s ''https://'' then
        (let r = drop 8 s; host = takeWhile (\<lambda>c. c \<noteq> CHR ''/'') r; rest = dropWhile (\<lambda>c. c \<noteq> CHR ''/'') r;
             path = takeWhile (\<lambda>c. c \<noteq> CHR ''?'') rest; qs = dropWhile (\<lambda>c. c \<noteq> CHR ''?'') rest
         in Some \<lparr>url_protocol = ''https:'', url_host = host,
                  url_pathname = (if path = [] then ''/'' else path), url_search = qs, url_hash = []\<rparr>)
      else None)"

definition sample_new_url :: "string \<Rightarrow> string option \<Rightarrow> url option" where
  "sample_new_url s base =
     (case base of
        Some b \<Rightarrow> if startsWith s ''/'' then sample_parse_url (b @ s) else sample_parse_url s
      | None \<Rightarrow> sample_parse_url s)"

definition sample_payload :: "string \<Rightarrow> string \<Rightarrow> jobj" where
  "sample_payload issuer host =
     [(''iss'', JStr issuer), (''aud'', JStr host), (''sub'', JStr ''user-1''),
      (''exp'', JNum (Fin 2000)), (''iat'', JNum (Fin 1000)),
      (''site_id'', JStr ''22222222-2222-2222-2222-222222222222''), (''mode'', JStr ''password'')]"

definition sample_runtime :: runtime where
  "sample_runtime =
     \<lparr>date_parse = (\<lambda>s. if s = ''2030-01-01T00:00:00Z'' then Some 1893456000000 else None),
      new_url = sample_new_url,
      set_pathname = (\<lambda>p. p),
      locale_le = (\<lambda>a b. a \<le> b),
      sha256_digest = (\<lambda>s. replicate 32 (CHR ''a'')),
      double_to_string = (\<lambda>q. ''0.5''),
      error_stack = (\<lambda>e. None),
      syntax_message = (\<lambda>s. ''Unexpected token''),
      kv_error = (\<lambda>k. JsError ''KV GET failed''),
      importJWK = (\<lambda>jwk alg. case as_string (jprop jwk ''x'') of Some x \<Rightarrow> Some x | None \<Rightarrow> None),
      jwtVerify = (\<lambda>token keyOf opts.
         if token = ''good'' \<and> keyOf [(''alg'', JStr ''EdDSA''), (''kid'', JStr ''k1'')] \<noteq> None \<and>
            ''EdDSA'' \<in> set (opt_algorithms opts) \<and> opt_clockTolerance opts = 0 \<and>
            set (opt_requiredClaims opts) \<subseteq> {''exp'', ''sub''} \<and> opt_currentDate opts < 2000000
         then Some (sample_payload (opt_issuer opts) (opt_audience opts)) else None)\<rparr>"

end
