(* ===== verification/Contracts.thy ===== *)
theory Contracts
  imports Web
begin

text \<open>
  \<open>contracts/src/index.ts\<close>: the KV route value, the one data contract between the API that
  writes it and the Worker that reads it. The validator is translated check by check, every
  \<open>throw\<close> as an \<^const>\<open>Inl\<close> with the message of the source, followed by the serializer and
  the expiry test. The lemmas give the type invariant of a parsed value, the acceptance of
  exactly the well-formed objects, and the round trip through the JSON text.
\<close>

section \<open>Definitions\<close>

definition ACCESS_MODES :: "string list" where
  "ACCESS_MODES = [''public'', ''password'', ''allowlist'', ''org_only'']"

definition SCHEMA_VERSION :: int where
  "SCHEMA_VERSION = 4"

definition MIN_SCHEMA_VERSION :: int where
  "MIN_SCHEMA_VERSION = 1"

record KVRouteValue =
  org_id :: string
  site_id :: string
  version_id :: string
  access_mode :: string
  schema_version :: int
  expires_at :: "string option"
  plan_tier :: "string option"
  chat_id :: "string option"

text \<open>The regular expression for UUIDs: hexadecimal groups of 8, 4, 4, 4 and 12 digits.\<close>

definition hex_group :: "nat \<Rightarrow> string \<Rightarrow> bool" where
  "hex_group n s = (length s = n \<and> list_all (\<lambda>c. hex_val c \<noteq> None) s)"

definition UUID_RE_test :: "string \<Rightarrow> bool" where
  "UUID_RE_test s =
     (case split_on (CHR ''-'') s of
        [a, b, c, d, e] \<Rightarrow> hex_group 8 a \<and> hex_group 4 b \<and> hex_group 4 c \<and> hex_group 4 d \<and> hex_group 12 e
      | _ \<Rightarrow> False)"

definition isAccessMode :: "json option \<Rightarrow> bool" where
  "isAccessMode v = (case as_string v of Some s \<Rightarrow> s \<in> set ACCESS_MODES | None \<Rightarrow> False)"

definition allowed_keys :: "string list" where
  "allowed_keys = [''org_id'', ''site_id'', ''version_id'', ''access_mode'', ''schema_version'',
     ''expires_at'', ''plan_tier'', ''chat_id'']"

definition route_error :: "string \<Rightarrow> 'a result" where
  "route_error msg = Inl (KVRouteValidationError msg)"

text \<open>The loop over the three required identifiers: the first one that is not a UUID string.\<close>

fun bad_uuid_key :: "jobj \<Rightarrow> string list \<Rightarrow> string option" where
  "bad_uuid_key obj [] = None"
| "bad_uuid_key obj (k # ks) =
     (case as_string (jprop obj k) of
        Some v \<Rightarrow> if UUID_RE_test v then bad_uuid_key obj ks else Some k
      | None \<Rightarrow> Some k)"

text \<open>
  The three optional fields. \<open>undefined\<close> and \<open>null\<close> both read as absent, and an empty
  \<open>plan_tier\<close> does too.
\<close>

definition parse_expires_at :: "runtime \<Rightarrow> jobj \<Rightarrow> string option result" where
  "parse_expires_at rt obj =
     (case present (jprop obj ''expires_at'') of
        None \<Rightarrow> Inr None
      | Some (JStr s) \<Rightarrow>
          (if date_parse rt s = None then route_error ''expires_at must be an RFC3339 timestamp''
           else Inr (Some s))
      | Some _ \<Rightarrow> route_error ''expires_at must be an RFC3339 timestamp'')"

definition parse_plan_tier :: "jobj \<Rightarrow> string option result" where
  "parse_plan_tier obj =
     (case present (jprop obj ''plan_tier'') of
        None \<Rightarrow> Inr None
      | Some (JStr s) \<Rightarrow> Inr (if s = [] then None else Some s)
      | Some _ \<Rightarrow> route_error ''plan_tier must be a string'')"

definition parse_chat_id :: "jobj \<Rightarrow> string option result" where
  "parse_chat_id obj =
     (case present (jprop obj ''chat_id'') of
        None \<Rightarrow> Inr None
      | Some (JStr s) \<Rightarrow>
          (if UUID_RE_test s then Inr (Some s) else route_error ''chat_id must be a UUID string'')
      | Some _ \<Rightarrow> route_error ''chat_id must be a UUID string'')"

definition str_prop :: "jobj \<Rightarrow> string \<Rightarrow> string" where
  "str_prop obj k = (case as_string (jprop obj k) of Some s \<Rightarrow> s | None \<Rightarrow> [])"

definition parseKVRouteValue :: "runtime \<Rightarrow> json \<Rightarrow> KVRouteValue result" where
  "parseKVRouteValue rt input =
     (case as_object input of
        None \<Rightarrow> route_error ''kv route value must be a JSON object''
      | Some obj \<Rightarrow>
          (case find (\<lambda>k. k \<notin> set allowed_keys) (map fst obj) of
             Some key \<Rightarrow> route_error (''unexpected field: '' @ key)
           | None \<Rightarrow>
               (case bad_uuid_key obj [''org_id'', ''site_id'', ''version_id''] of
                  Some key \<Rightarrow> route_error (key @ '' must be a UUID string'')
                | None \<Rightarrow>
                    if \<not> isAccessMode (jprop obj ''access_mode'')
                    then route_error (''access_mode must be one of '' @ join '', '' ACCESS_MODES)
                    else
                      (case Option.bind (as_finite (jprop obj ''schema_version'')) rat_int of
                         None \<Rightarrow> route_error ''schema_version must be a positive integer''
                       | Some v \<Rightarrow>
                           if v < 1 then route_error ''schema_version must be a positive integer''
                           else if v < MIN_SCHEMA_VERSION \<or> SCHEMA_VERSION < v
                           then route_error (''unsupported schema_version '' @ int_to_string v @
                                  ''; this build accepts '' @ int_to_string MIN_SCHEMA_VERSION @
                                  ''..'' @ int_to_string SCHEMA_VERSION)
                           else
                             (case parse_expires_at rt obj of
                                Inl e \<Rightarrow> Inl e
                              | Inr expiresAt \<Rightarrow>
                                  (case parse_plan_tier obj of
                                     Inl e \<Rightarrow> Inl e
                                   | Inr planTier \<Rightarrow>
                                       (case parse_chat_id obj of
                                          Inl e \<Rightarrow> Inl e
                                        | Inr chatId \<Rightarrow>
                                            Inr \<lparr>org_id = str_prop obj ''org_id'',
                                                 site_id = str_prop obj ''site_id'',
                                                 version_id = str_prop obj ''version_id'',
                                                 access_mode = str_prop obj ''access_mode'',
                                                 schema_version = v,
                                                 expires_at = expiresAt,
                                                 plan_tier = planTier,
                                                 chat_id = chatId\<rparr>)))))))"

definition isRouteExpired :: "runtime \<Rightarrow> KVRouteValue \<Rightarrow> int \<Rightarrow> bool" where
  "isRouteExpired rt value now =
     (case expires_at value of
        None \<Rightarrow> False
      | Some s \<Rightarrow>
          if s = [] then False
          else (case date_parse rt s of None \<Rightarrow> True | Some ex \<Rightarrow> ex \<le> now))"

definition safeParseKVRouteValue :: "runtime \<Rightarrow> json \<Rightarrow> KVRouteValue option" where
  "safeParseKVRouteValue rt input =
     (case parseKVRouteValue rt input of Inr v \<Rightarrow> Some v | Inl _ \<Rightarrow> None)"

text \<open>
  The object of a typed value, with the optional properties that are present. The serializer
  parses it first, and writes the fields in the order of the schema.
\<close>

definition opt_field :: "string \<Rightarrow> string option \<Rightarrow> (string \<times> flat) list" where
  "opt_field k v = (case v of None \<Rightarrow> [] | Some s \<Rightarrow> [(k, FStr s)])"

definition route_fields :: "KVRouteValue \<Rightarrow> (string \<times> flat) list" where
  "route_fields v =
     [(''org_id'', FStr (org_id v)), (''site_id'', FStr (site_id v)),
      (''version_id'', FStr (version_id v)), (''access_mode'', FStr (access_mode v)),
      (''schema_version'', FNum (nat (schema_version v)))] @
     opt_field ''expires_at'' (expires_at v) @
     opt_field ''plan_tier'' (plan_tier v) @
     opt_field ''chat_id'' (chat_id v)"

definition route_object :: "KVRouteValue \<Rightarrow> jobj" where
  "route_object v = map (\<lambda>(k, x). (k, flat_json x)) (route_fields v)"

definition serializeKVRouteValue :: "runtime \<Rightarrow> KVRouteValue \<Rightarrow> string result" where
  "serializeKVRouteValue rt value =
     (case parseKVRouteValue rt (JObj (route_object value)) of
        Inl e \<Rightarrow> Inl e
      | Inr validated \<Rightarrow> Inr (JSON_stringify_flat (route_fields validated)))"

section \<open>The invariant of a parsed route\<close>

text \<open>What the rest of the Worker may rely on after a successful parse.\<close>

definition route_ok :: "runtime \<Rightarrow> KVRouteValue \<Rightarrow> bool" where
  "route_ok rt v \<longleftrightarrow>
     UUID_RE_test (org_id v) \<and> UUID_RE_test (site_id v) \<and> UUID_RE_test (version_id v) \<and>
     access_mode v \<in> set ACCESS_MODES \<and>
     MIN_SCHEMA_VERSION \<le> schema_version v \<and> schema_version v \<le> SCHEMA_VERSION \<and>
     (\<forall>s. expires_at v = Some s \<longrightarrow> date_parse rt s \<noteq> None) \<and>
     plan_tier v \<noteq> Some [] \<and>
     (\<forall>s. chat_id v = Some s \<longrightarrow> UUID_RE_test s)"

lemmas version_defs = SCHEMA_VERSION_def MIN_SCHEMA_VERSION_def

lemma bad_uuid_key_None:
  "bad_uuid_key obj ks = None \<longleftrightarrow> (\<forall>k \<in> set ks. \<exists>s. jprop obj k = Some (JStr s) \<and> UUID_RE_test s)"
  by (induction ks) (auto split: option.splits)

declare bad_uuid_key.simps [simp del]

lemma find_None_allowed:
  "find (\<lambda>k. k \<notin> set allowed_keys) (map fst obj) = None \<longleftrightarrow> fst ` set obj \<subseteq> set allowed_keys"
  by (auto simp: find_None_iff)

lemma str_prop_Some [simp]: "jprop obj k = Some (JStr s) \<Longrightarrow> str_prop obj k = s"
  by (simp add: str_prop_def)

lemma parse_optional_ok:
  "parse_expires_at rt obj = Inr e \<Longrightarrow> e = Some s \<Longrightarrow> date_parse rt s \<noteq> None"
  "parse_plan_tier obj = Inr t \<Longrightarrow> t \<noteq> Some []"
  "parse_chat_id obj = Inr c \<Longrightarrow> c = Some s \<Longrightarrow> UUID_RE_test s"
  by (auto simp: parse_expires_at_def parse_plan_tier_def parse_chat_id_def route_error_def
      split: option.splits json.splits if_splits)

lemma parseKVRouteValue_Inr:
  assumes "parseKVRouteValue rt input = Inr v"
  obtains obj where "input = JObj obj" "fst ` set obj \<subseteq> set allowed_keys"
    "bad_uuid_key obj [''org_id'', ''site_id'', ''version_id''] = None"
    "isAccessMode (jprop obj ''access_mode'')"
    "jprop obj ''schema_version'' = Some (JNum (Fin (of_int (schema_version v))))"
    "1 \<le> schema_version v" "schema_version v \<le> SCHEMA_VERSION"
    "parse_expires_at rt obj = Inr (expires_at v)"
    "parse_plan_tier obj = Inr (plan_tier v)"
    "parse_chat_id obj = Inr (chat_id v)"
    "org_id v = str_prop obj ''org_id''" "site_id v = str_prop obj ''site_id''"
    "version_id v = str_prop obj ''version_id''" "access_mode v = str_prop obj ''access_mode''"
  using assms
  unfolding parseKVRouteValue_def
  by (auto simp: route_error_def rat_int_Some bind_eq_Some_conv version_defs
      split: option.splits if_splits sum.splits dest!: find_None_allowed [THEN iffD1])

lemma parseKVRouteValue_route_ok:
  assumes "parseKVRouteValue rt input = Inr v"
  shows "route_ok rt v"
  using assms
proof (rule parseKVRouteValue_Inr)
  fix obj
  assume *: "bad_uuid_key obj [''org_id'', ''site_id'', ''version_id''] = None"
    "isAccessMode (jprop obj ''access_mode'')" "1 \<le> schema_version v"
    "schema_version v \<le> SCHEMA_VERSION" "parse_expires_at rt obj = Inr (expires_at v)"
    "parse_plan_tier obj = Inr (plan_tier v)" "parse_chat_id obj = Inr (chat_id v)"
    "org_id v = str_prop obj ''org_id''" "site_id v = str_prop obj ''site_id''"
    "version_id v = str_prop obj ''version_id''" "access_mode v = str_prop obj ''access_mode''"
  have "UUID_RE_test (org_id v) \<and> UUID_RE_test (site_id v) \<and> UUID_RE_test (version_id v)"
    using *(1) *(8-10) by (auto simp: bad_uuid_key_None)
  moreover have "access_mode v \<in> set ACCESS_MODES"
    using *(2) *(11) by (auto simp: isAccessMode_def split: option.splits)
  ultimately show "route_ok rt v"
    using * parse_optional_ok by (auto simp: route_ok_def version_defs)
qed

lemma safeParse_route_ok: "safeParseKVRouteValue rt j = Some v \<Longrightarrow> route_ok rt v"
  by (auto simp: safeParseKVRouteValue_def parseKVRouteValue_route_ok split: sum.splits)

section \<open>Round trip\<close>

lemma route_object_props:
  "jprop (route_object v) ''org_id'' = Some (JStr (org_id v))"
  "jprop (route_object v) ''site_id'' = Some (JStr (site_id v))"
  "jprop (route_object v) ''version_id'' = Some (JStr (version_id v))"
  "jprop (route_object v) ''access_mode'' = Some (JStr (access_mode v))"
  "jprop (route_object v) ''schema_version'' = Some (JNum (Fin (of_nat (nat (schema_version v)))))"
  "jprop (route_object v) ''expires_at'' = map_option JStr (expires_at v)"
  "jprop (route_object v) ''plan_tier'' = map_option JStr (plan_tier v)"
  "jprop (route_object v) ''chat_id'' = map_option JStr (chat_id v)"
  by (cases "expires_at v"; cases "plan_tier v"; cases "chat_id v";
      simp add: route_object_def route_fields_def opt_field_def)+

lemma route_object_keys: "fst ` set (route_object v) \<subseteq> set allowed_keys"
  by (cases "expires_at v"; cases "plan_tier v"; cases "chat_id v")
     (simp_all add: route_object_def route_fields_def opt_field_def allowed_keys_def)

lemma route_object_optional:
  assumes "route_ok rt v"
  shows "parse_expires_at rt (route_object v) = Inr (expires_at v)"
    "parse_plan_tier (route_object v) = Inr (plan_tier v)"
    "parse_chat_id (route_object v) = Inr (chat_id v)"
  using assms
  by (cases "expires_at v"; cases "plan_tier v"; cases "chat_id v";
      force simp: parse_expires_at_def parse_plan_tier_def parse_chat_id_def
        route_object_props route_ok_def)+

lemma parse_route_object:
  assumes ok: "route_ok rt v"
  shows "parseKVRouteValue rt (JObj (route_object v)) = Inr v"
proof -
  let ?o = "route_object v"
  have keys: "find (\<lambda>k. k \<notin> set allowed_keys) (map fst ?o) = None"
    using route_object_keys [of v] by (simp only: find_None_allowed)
  have uu: "bad_uuid_key ?o [''org_id'', ''site_id'', ''version_id''] = None"
    using ok by (simp add: bad_uuid_key_None route_object_props route_ok_def)
  have mode: "isAccessMode (jprop ?o ''access_mode'')"
    using ok by (simp add: isAccessMode_def route_object_props route_ok_def)
  have rng: "1 \<le> schema_version v" "schema_version v \<le> SCHEMA_VERSION"
    using ok by (simp_all add: route_ok_def version_defs)
  have ver: "Option.bind (as_finite (jprop ?o ''schema_version'')) rat_int = Some (schema_version v)"
    using rng by (simp add: route_object_props rat_int_Some)
  note opt = route_object_optional [OF ok]
  have str: "str_prop ?o ''org_id'' = org_id v" "str_prop ?o ''site_id'' = site_id v"
    "str_prop ?o ''version_id'' = version_id v" "str_prop ?o ''access_mode'' = access_mode v"
    by (simp_all add: route_object_props)
  show ?thesis
    using rng by (simp add: parseKVRouteValue_def keys uu mode ver opt str MIN_SCHEMA_VERSION_def)
qed

lemma route_fields_flat:
  "distinct (map fst (route_fields v))"
  "schema_version v \<le> SCHEMA_VERSION \<Longrightarrow> kv \<in> set (route_fields v) \<Longrightarrow> flat_small (snd kv)"
proof -
  show "distinct (map fst (route_fields v))"
    by (cases "expires_at v"; cases "plan_tier v"; cases "chat_id v")
       (simp_all add: route_fields_def opt_field_def)
next
  assume "schema_version v \<le> SCHEMA_VERSION" and kv: "kv \<in> set (route_fields v)"
  then have "nat (schema_version v) \<le> 4" by (simp add: version_defs)
  then have "nat (schema_version v) < 2 ^ 1000" by simp
  with kv show "flat_small (snd kv)"
    by (auto simp: route_fields_def opt_field_def split: option.splits)
qed

text \<open>A route value for examples.\<close>

definition sample_route :: KVRouteValue where
  "sample_route =
     \<lparr>org_id = ''11111111-1111-1111-1111-111111111111'',
      site_id = ''22222222-2222-2222-2222-222222222222'',
      version_id = ''33333333-3333-3333-3333-333333333333'',
      access_mode = ''password'', schema_version = 4,
      expires_at = Some ''2030-01-01T00:00:00Z'', plan_tier = Some ''free'', chat_id = None\<rparr>"

lemma sample_route_ok: "route_ok sample_runtime sample_route"
proof (rule parseKVRouteValue_route_ok)
  show "parseKVRouteValue sample_runtime (JObj (route_object sample_route)) = Inr sample_route"
    by code_simp
qed

section \<open>Properties\<close>

text \<open>
  C38. Type safety of the contract: whatever JSON value KV holds, a value the validator accepts
  has UUID identifiers, one of the four access modes, a supported schema version, a parseable
  expiry, a non-empty plan tier and a UUID chat id.
\<close>

theorem parsed_route_is_well_formed:
  assumes "parseKVRouteValue rt input = Inr v"
  shows "route_ok rt v"
  using assms by (rule parseKVRouteValue_route_ok)

theorem parsed_route_is_well_formed_witness:
  "parseKVRouteValue sample_runtime (JObj (route_object sample_route)) = Inr sample_route \<and>
   route_ok sample_runtime sample_route"
proof -
  have "parseKVRouteValue sample_runtime (JObj (route_object sample_route)) = Inr sample_route"
    by code_simp
  then show ?thesis using parsed_route_is_well_formed by blast
qed

text \<open>
  Round trip: a well-formed route value serializes, and the JSON text it serializes to
  parses back to the same route value.
\<close>

theorem serialize_parse_roundtrip:
  assumes "route_ok rt v"
  shows "\<exists>text j. serializeKVRouteValue rt v = Inr text \<and> JSON_parse text = Some j \<and>
           parseKVRouteValue rt j = Inr v"
proof -
  have "serializeKVRouteValue rt v = Inr (JSON_stringify_flat (route_fields v))"
    using parse_route_object [OF assms] by (simp add: serializeKVRouteValue_def)
  moreover have "JSON_parse (JSON_stringify_flat (route_fields v)) = Some (JObj (route_object v))"
    unfolding route_object_def
  proof (rule JSON_parse_stringify_flat)
    show "route_fields v \<noteq> []" by (simp add: route_fields_def)
    show "\<forall>kv \<in> set (route_fields v). flat_small (snd kv)"
      using assms route_fields_flat(2) unfolding route_ok_def by blast
  qed (rule route_fields_flat(1))
  ultimately show ?thesis using parse_route_object [OF assms] by blast
qed

theorem serialize_parse_roundtrip_witness:
  "\<exists>text j. serializeKVRouteValue sample_runtime sample_route = Inr text \<and> JSON_parse text = Some j \<and>
     parseKVRouteValue sample_runtime j = Inr sample_route"
  by (rule serialize_parse_roundtrip [OF sample_route_ok])

end
