(* ===== verification/Route.thy ===== *)
theory Route
  imports Contracts
begin

text \<open>
  \<open>edge/serving-worker/src/route.ts\<close>: host normalization and the KV route key, the
  fail-closed parse with its diagnosis, and the request-path sanitizer. The lemmas characterise
  the sanitizer: what it returns is a clean relative path, and an encoded clean path is
  returned unchanged.
\<close>

section \<open>Definitions\<close>

definition normalizeHost :: "string \<Rightarrow> string" where
  "normalizeHost rawHost =
     (let host = toLowerCase (js_trim rawHost);
          host = (case lastIndexOf host (CHR '':'') of Some colon \<Rightarrow> take colon host | None \<Rightarrow> host)
      in if endsWith host ''.'' then butlast host else host)"

definition routeKey :: "string \<Rightarrow> string" where
  "routeKey host = ''route:'' @ normalizeHost host"

definition parseRouteValue :: "runtime \<Rightarrow> json \<Rightarrow> KVRouteValue option" where
  "parseRouteValue rt raw = safeParseKVRouteValue rt raw"

record RouteParseFailure =
  reason :: string
  schemaVersion :: "rat option"
  schemaTooNew :: bool

definition diagnoseRouteParseFailure :: "runtime \<Rightarrow> json \<Rightarrow> RouteParseFailure" where
  "diagnoseRouteParseFailure rt raw =
     (let rsn = (case parseKVRouteValue rt raw of
                   Inr _ \<Rightarrow> ''route value parsed on retry (transient)''
                 | Inl (KVRouteValidationError msg) \<Rightarrow> msg
                 | Inl _ \<Rightarrow> ''route value failed validation'');
          sv = (case as_object raw of
                  None \<Rightarrow> None
                | Some obj \<Rightarrow> as_finite (jprop obj ''schema_version''))
      in \<lparr>reason = rsn, schemaVersion = sv,
          schemaTooNew = (case sv of None \<Rightarrow> False | Some v \<Rightarrow> of_int SCHEMA_VERSION < v)\<rparr>)"

text \<open>The segment loop of \<open>cleanPath\<close>: empty and dot segments vanish, \<open>..\<close> fails.\<close>

fun clean_segments :: "string list \<Rightarrow> string list option" where
  "clean_segments [] = Some []"
| "clean_segments (seg # segs) =
     (if seg = [] \<or> seg = ''.'' then clean_segments segs
      else if seg = ''..'' then None
      else map_option (Cons seg) (clean_segments segs))"

definition cleanPath :: "string \<Rightarrow> string option" where
  "cleanPath rawPath =
     (let path = takeWhile (\<lambda>c. c \<noteq> CHR ''?'' \<and> c \<noteq> CHR ''#'') rawPath
      in (case decodeURIComponent path of
            None \<Rightarrow> None
          | Some decoded \<Rightarrow>
              if CHR 0x00 \<in> set decoded \<or> CHR 0x5C \<in> set decoded then None
              else
                (let endedWithSlash = (1 < length decoded \<and> endsWith decoded ''/'');
                     rel = dropWhile (\<lambda>c. c = CHR ''/'') decoded
                 in (case clean_segments (split_on (CHR ''/'') rel) of
                       None \<Rightarrow> None
                     | Some out \<Rightarrow>
                         (let rel = join ''/'' out
                          in Some (if endedWithSlash \<and> rel \<noteq> [] then rel @ ''/'' else rel))))))"

section \<open>The sanitizer\<close>

text \<open>A segment a clean path may contain.\<close>

definition clean_seg :: "string \<Rightarrow> bool" where
  "clean_seg s \<longleftrightarrow> s \<noteq> [] \<and> s \<noteq> ''.'' \<and> s \<noteq> ''..'' \<and>
     CHR ''/'' \<notin> set s \<and> CHR 0x00 \<notin> set s \<and> CHR 0x5C \<notin> set s"

text \<open>A clean path: clean segments, and possibly one trailing slash.\<close>

definition clean_path :: "string \<Rightarrow> bool" where
  "clean_path r \<longleftrightarrow> r = [] \<or>
     (\<exists>segs t. segs \<noteq> [] \<and> list_all clean_seg segs \<and> (t = [] \<or> t = ''/'') \<and> r = join ''/'' segs @ t)"

lemma clean_segments_Some:
  "clean_segments segs = Some out \<Longrightarrow>
   out = filter (\<lambda>s. s \<noteq> [] \<and> s \<noteq> ''.'') segs \<and> ''..'' \<notin> set segs"
  by (induction segs arbitrary: out) (auto split: if_splits)

lemma clean_segments_id:
  "(\<And>s. s \<in> set segs \<Longrightarrow> s \<noteq> [] \<and> s \<noteq> ''.'' \<and> s \<noteq> ''..'') \<Longrightarrow> clean_segments segs = Some segs"
  by (induction segs) auto

lemma clean_segments_append:
  "clean_segments (xs @ ys) =
     (case clean_segments xs of None \<Rightarrow> None
      | Some a \<Rightarrow> map_option ((@) a) (clean_segments ys))"
  by (induction xs; cases "clean_segments ys") (auto split: option.splits)

lemma cleanPath_clean:
  assumes "cleanPath p = Some r"
  shows "clean_path r"
proof -
  obtain decoded out where d: "CHR 0x00 \<notin> set decoded" "CHR 0x5C \<notin> set decoded"
    and out: "clean_segments (split_on (CHR ''/'') (dropWhile (\<lambda>c. c = CHR ''/'') decoded)) = Some out"
    and r: "r = join ''/'' out \<or> r = join ''/'' out @ ''/'' \<and> join ''/'' out \<noteq> []"
    using assms by (auto simp: cleanPath_def Let_def split: option.splits if_splits)
  have seg: "clean_seg s" if "s \<in> set out" for s
  proof -
    from clean_segments_Some [OF out] that
    have s: "s \<in> set (split_on (CHR ''/'') (dropWhile (\<lambda>c. c = CHR ''/'') decoded))"
      and ne: "s \<noteq> []" "s \<noteq> ''.''" "s \<noteq> ''..''" by auto
    have "set s \<subseteq> set decoded"
      using set_split_on [OF _ s] set_dropWhileD by fastforce
    with d ne s show ?thesis by (auto simp: clean_seg_def)
  qed
  show ?thesis
  proof (cases "out = []")
    case True
    with r show ?thesis by (auto simp: clean_path_def)
  next
    case False
    have all: "list_all clean_seg out" using seg by (simp add: list_all_iff)
    show ?thesis
      unfolding clean_path_def using r False all by (metis append_Nil2)
  qed
qed

text \<open>What a clean path does not contain.\<close>

lemma join_clean_head:
  "segs \<noteq> [] \<Longrightarrow> list_all clean_seg segs \<Longrightarrow>
   join ''/'' segs \<noteq> [] \<and> hd (join ''/'' segs) \<noteq> CHR ''/'' \<and> last (join ''/'' segs) \<noteq> CHR ''/''"
proof (induction segs)
  case (Cons s segs)
  have s: "s \<noteq> []" "CHR ''/'' \<notin> set s" using Cons.prems by (auto simp: clean_seg_def)
  then have "hd s \<noteq> CHR ''/''" "last s \<noteq> CHR ''/''" by (metis hd_in_set, metis last_in_set)
  with s Cons show ?case
    by (cases segs) auto
qed simp

lemma clean_path_split:
  assumes "segs \<noteq> []" "list_all clean_seg segs"
  shows "split_on (CHR ''/'') (join ''/'' segs) = segs"
  using assms by (intro split_on_join) (auto simp: list_all_iff clean_seg_def)

lemma split_on_snoc: "split_on c (s @ [c]) = split_on c s @ [[]]"
  by (induction s) (auto split: list.splits)

lemma clean_path_segments:
  assumes "clean_path r" "s \<in> set (split_on (CHR ''/'') r)"
  shows "s = [] \<or> clean_seg s"
proof (cases "r = []")
  case False
  then obtain segs t where *: "segs \<noteq> []" "list_all clean_seg segs" "t = [] \<or> t = ''/''"
    "r = join ''/'' segs @ t" using assms(1) by (auto simp: clean_path_def)
  then have "s \<in> set segs \<or> s = []"
    using assms(2) clean_path_split [OF *(1,2)] by (auto simp: split_on_snoc)
  with * show ?thesis by (auto simp: list_all_iff)
qed (use assms in simp)

lemma clean_path_inner:
  assumes "clean_path r"
  shows "[] \<notin> set (butlast (split_on (CHR ''/'') r))"
proof (cases "r = []")
  case False
  then obtain segs t where s: "segs \<noteq> []" "list_all clean_seg segs" "t = [] \<or> t = ''/''" "r = join ''/'' segs @ t"
    using assms by (auto simp: clean_path_def)
  have "set (butlast (split_on (CHR ''/'') r)) \<subseteq> set segs"
    using s(3,4) clean_path_split [OF s(1,2)] by (auto simp: split_on_snoc butlast_append dest: in_set_butlastD)
  then show ?thesis using s(2) by (auto simp: list_all_iff clean_seg_def)
qed simp

lemma clean_path_chars:
  assumes "clean_path r"
  shows "CHR 0x00 \<notin> set r" "CHR 0x5C \<notin> set r" "\<not> startsWith r ''/''"
proof -
  have "CHR 0x00 \<notin> set r \<and> CHR 0x5C \<notin> set r \<and> \<not> startsWith r ''/''"
  proof (cases "r = []")
    case False
    then obtain segs t where *: "segs \<noteq> []" "list_all clean_seg segs" "t = [] \<or> t = ''/''"
      "r = join ''/'' segs @ t" using assms by (auto simp: clean_path_def)
    have "set (join ''/'' segs) \<subseteq> {CHR ''/''} \<union> (\<Union>s \<in> set segs. set s)"
      using set_join [of "''/''" segs] by simp
    then have "CHR 0x00 \<notin> set r \<and> CHR 0x5C \<notin> set r"
      using * by (auto simp: list_all_iff clean_seg_def)
    moreover have "\<not> startsWith r ''/''"
      using join_clean_head [OF *(1,2)] *(4) by (cases "join ''/'' segs") auto
    ultimately show ?thesis by blast
  qed simp
  then show "CHR 0x00 \<notin> set r" "CHR 0x5C \<notin> set r" "\<not> startsWith r ''/''" by auto
qed

section \<open>Encoded paths\<close>

definition uri_safe :: "char \<Rightarrow> bool" where
  "uri_safe c \<longleftrightarrow> c \<noteq> CHR ''?'' \<and> c \<noteq> CHR ''#''"

lemma pct_byte_safe: "x \<in> set (pct_byte c) \<Longrightarrow> uri_safe x"
proof -
  have hx: "uri_safe (hex_digit d)" if "d < 16" for d
    using that by (auto simp: uri_safe_def hex_digit_def
        dest!: arg_cong [where f = "of_char :: char \<Rightarrow> nat"])
  have "(of_char c :: nat) div 16 < 16" using nat_of_char_less_256 [of c] by linarith
  then show "x \<in> set (pct_byte c) \<Longrightarrow> uri_safe x"
    by (auto simp: pct_byte_def intro!: hx) (simp add: uri_safe_def)
qed

lemma encode_safe: "x \<in> set (encodeURIComponent s) \<Longrightarrow> uri_safe x"
  by (auto simp: encodeURIComponent_def dest: pct_byte_safe split: if_splits)
     (auto simp: uri_safe_def uri_unreserved_def is_alnum_def Let_def)

lemma decode_join_encode:
  "(\<And>s. s \<in> set segs \<Longrightarrow> utf8_valid s) \<Longrightarrow>
   decode_uri utf8_init (join ''/'' (map encodeURIComponent segs) @ u) =
     map_option ((@) (join ''/'' segs)) (decode_uri utf8_init u)"
proof (induction segs)
  case Nil
  then show ?case by (simp add: option.map_ident)
next
  case (Cons s segs)
  have dec: "decode_uri utf8_init (encodeURIComponent s) = Some s"
    using decode_encodeURIComponent [of s] Cons.prems by (simp add: decodeURIComponent_def)
  show ?case
  proof (cases "segs = []")
    case True
    with decode_uri_append [OF dec] show ?thesis by simp
  next
    case False
    have IH: "decode_uri utf8_init (join ''/'' (map encodeURIComponent segs) @ u) =
        map_option ((@) (join ''/'' segs)) (decode_uri utf8_init u)"
      using Cons by simp
    have eq: "join ''/'' (map encodeURIComponent (s # segs)) =
        encodeURIComponent s @ CHR ''/'' # join ''/'' (map encodeURIComponent segs)"
      using False by (simp add: join_Cons_ne)
    show ?thesis
      using decode_uri_append [OF dec, of "CHR ''/'' # join ''/'' (map encodeURIComponent segs) @ u"]
        IH False
      by (simp add: eq join_Cons_ne option.map_comp comp_def)
  qed
qed

text \<open>
  The path of a link made of encoded clean segments decodes and cleans to the segments
  themselves.
\<close>

lemma cleanPath_encoded:
  assumes segs: "segs \<noteq> []" "list_all clean_seg segs" "list_all utf8_valid segs"
    and t: "t = [] \<or> t = ''/''"
  shows "cleanPath (''/'' @ join ''/'' (map encodeURIComponent segs) @ t) = Some (join ''/'' segs @ t)"
proof -
  let ?p = "''/'' @ join ''/'' (map encodeURIComponent segs) @ t"
  let ?j = "join ''/'' segs"
  have "uri_safe x" if "x \<in> set (join ''/'' (map encodeURIComponent segs))" for x
    using that set_join [of "''/''" "map encodeURIComponent segs"] encode_safe
    by (fastforce simp: uri_safe_def)
  then have tw: "takeWhile (\<lambda>c. c \<noteq> CHR ''?'' \<and> c \<noteq> CHR ''#'') ?p = ?p"
    using t by (intro takeWhile_eq_all_conv [THEN iffD2]) (auto simp: uri_safe_def)
  have dect: "decode_uri utf8_init t = Some t" using t by auto
  have "decodeURIComponent ?p = Some (''/'' @ ?j @ t)"
    using decode_join_encode [of segs t] segs(3) dect
    by (simp add: decodeURIComponent_def list_all_iff)
  moreover note hd = join_clean_head [OF segs(1,2)]
  have drop: "dropWhile (\<lambda>c. c = CHR ''/'') (''/'' @ ?j @ t) = ?j @ t"
    using hd by (cases ?j) auto
  have path: "clean_path (?j @ t)" using segs t by (auto simp: clean_path_def)
  have cs: "clean_segments segs = Some segs"
    using segs(2) by (intro clean_segments_id) (auto simp: list_all_iff clean_seg_def)
  have split: "clean_segments (split_on (CHR ''/'') (?j @ t)) = Some segs"
    using t cs clean_path_split [OF segs(1,2)] by (auto simp: split_on_snoc clean_segments_append)
  have slash: "(1 < length (''/'' @ ?j @ t) \<and> endsWith (''/'' @ ?j @ t) ''/'') = (t = ''/'')"
    using hd t by (cases ?j rule: rev_cases) (auto simp: endsWith_char)
  ultimately show ?thesis
    using hd t clean_path_chars(1,2) [OF path] slash
    by (auto simp: cleanPath_def tw drop split simp del: append_Cons)
qed

section \<open>Host normalization\<close>

lemma lower_char_inj_special:
  "lower_char c = CHR '':'' \<longleftrightarrow> c = CHR '':''" "lower_char c = CHR ''.'' \<longleftrightarrow> c = CHR ''.''"
  "is_ws (lower_char c) = is_ws c"
  by (auto simp: lower_char_def is_ws_def Let_def dest!: arg_cong [where f = "of_char :: char \<Rightarrow> nat"])

lemma dropWhile_map_lower: "dropWhile is_ws (map lower_char s) = map lower_char (dropWhile is_ws s)"
  by (induction s) (auto simp: lower_char_inj_special)

lemma js_trim_lower: "js_trim (toLowerCase s) = toLowerCase (js_trim s)"
  by (simp add: js_trim_def toLowerCase_def dropWhile_map_lower rev_map)

lemma normalizeHost_lower: "normalizeHost (toLowerCase h) = normalizeHost h"
  by (simp add: normalizeHost_def js_trim_lower)

lemma lastIndexOf_last: "c \<notin> set v \<Longrightarrow> lastIndexOf (u @ c # v) c = Some (length u)"
proof (induction u)
  case Nil
  then have "lastIndexOf v c = None" by (induction v) auto
  then show ?case by simp
qed simp

lemma lastIndexOf_None: "c \<notin> set u \<Longrightarrow> lastIndexOf u c = None"
  by (induction u) auto

section \<open>Properties\<close>

text \<open>
  C37. Path sanitization: a path the Worker looks up never starts with a slash, contains no NUL
  and no backslash, none of its segments is \<open>.\<close> or \<open>..\<close>, and none but the last, that of a trailing
  slash, is empty.
\<close>

theorem cleanPath_safe:
  assumes "cleanPath p = Some r"
  shows "\<not> startsWith r ''/'' \<and> CHR 0x00 \<notin> set r \<and> CHR 0x5C \<notin> set r \<and>
         ''..'' \<notin> set (split_on (CHR ''/'') r) \<and> ''.'' \<notin> set (split_on (CHR ''/'') r) \<and>
         [] \<notin> set (butlast (split_on (CHR ''/'') r))"
proof -
  from assms have r: "clean_path r" by (rule cleanPath_clean)
  have "''..'' \<notin> set (split_on (CHR ''/'') r)" "''.'' \<notin> set (split_on (CHR ''/'') r)"
    using clean_path_segments [OF r] by (force simp: clean_seg_def)+
  with clean_path_chars [OF r] clean_path_inner [OF r] show ?thesis by blast
qed

theorem cleanPath_safe_witness:
  "cleanPath ''//blog/./caf%C3%A9/?q=1'' = Some (''blog/caf'' @ [CHR 0xC3, CHR 0xA9] @ ''/'') \<and>
   ''..'' \<notin> set (split_on (CHR ''/'') (''blog/caf'' @ [CHR 0xC3, CHR 0xA9] @ ''/''))"
proof -
  have "cleanPath ''//blog/./caf%C3%A9/?q=1'' = Some (''blog/caf'' @ [CHR 0xC3, CHR 0xA9] @ ''/'')"
    by code_simp
  then show ?thesis using cleanPath_safe by blast
qed

text \<open>
  The KV key of a host does not depend on the case of the host name, nor on a port: the
  key read for \<open>host:port\<close> is the key the API wrote for the bare host.
\<close>

theorem routeKey_host_equivalence:
  assumes "\<And>c. c \<in> set h \<Longrightarrow> \<not> is_ws c \<and> c \<noteq> CHR '':''"
    and "\<And>c. c \<in> set port \<Longrightarrow> \<not> is_ws c \<and> c \<noteq> CHR '':''"
  shows "routeKey (toLowerCase h) = routeKey h \<and> routeKey (h @ '':'' @ port) = routeKey h"
proof -
  have hp: "js_trim (h @ CHR '':'' # port) = h @ CHR '':'' # port"
    by (rule js_trim_id) (use assms in \<open>auto simp: is_ws_def\<close>)
  have h: "js_trim h = h" by (rule js_trim_id) (use assms in auto)
  have no: "CHR '':'' \<notin> set (toLowerCase port)" "CHR '':'' \<notin> set (toLowerCase h)"
    using assms lower_char_inj_special(1) by (auto simp: toLowerCase_def) metis+
  have low: "toLowerCase (h @ CHR '':'' # port) = toLowerCase h @ CHR '':'' # toLowerCase port"
    by (simp add: toLowerCase_def lower_char_def)
  have "lastIndexOf (toLowerCase (h @ CHR '':'' # port)) (CHR '':'') = Some (length (toLowerCase h))"
    unfolding low by (rule lastIndexOf_last [OF no(1)])
  moreover have "lastIndexOf (toLowerCase h) (CHR '':'') = None"
    by (rule lastIndexOf_None [OF no(2)])
  ultimately have "normalizeHost (h @ CHR '':'' # port) = normalizeHost h"
    by (simp add: normalizeHost_def hp h low)
  then show ?thesis by (simp add: routeKey_def normalizeHost_lower)
qed

theorem routeKey_host_equivalence_witness:
  "routeKey (''Docs.Example.com'' @ '':'' @ ''8787'') = routeKey ''Docs.Example.com''"
proof -
  have "\<not> is_ws c \<and> c \<noteq> CHR '':''" if "c \<in> set ''Docs.Example.com''" for c
    using that by (auto simp: is_ws_def)
  moreover have "\<not> is_ws c \<and> c \<noteq> CHR '':''" if "c \<in> set ''8787''" for c
    using that by (auto simp: is_ws_def)
  ultimately show ?thesis using routeKey_host_equivalence by blast
qed

end
