(* ===== verification/Manifest.thy ===== *)
theory Manifest
  imports Route
begin

text \<open>
  \<open>edge/serving-worker/src/manifest.ts\<close>: the deploy manifest, its validation, the object keys
  of the content-addressed layout and the resolution of a request path to a manifest entry.

  \<open>files\<close> is a plain JavaScript object, so a read \<open>files[path]\<close> also sees what the object
  inherits. The model keeps both parts: the own properties in insertion order, and the
  prototype, which an assignment to the key \<open>__proto__\<close> replaces. A value that is not a
  manifest entry (a method of \<open>Object.prototype\<close>, or a string field of a replaced prototype)
  is \<open>Foreign\<close>: each of its \<open>sha256\<close>, \<open>content_type\<close> and \<open>size\<close> properties is
  \<open>undefined\<close>.
\<close>

section \<open>Definitions\<close>

record ManifestEntry =
  sha256 :: string
  content_type :: string
  size :: "rat option"

record Manifest =
  files :: "(string \<times> ManifestEntry) list"
  files_proto :: "ManifestEntry option"

definition SUPPORTED_MANIFEST_SCHEMA_VERSION :: rat where
  "SUPPORTED_MANIFEST_SCHEMA_VERSION = 1"

definition lower_hex :: "char \<Rightarrow> bool" where
  "lower_hex c = (let n = (of_char c :: nat) in (48 \<le> n \<and> n \<le> 57) \<or> (97 \<le> n \<and> n \<le> 102))"

definition SHA256_RE_test :: "string \<Rightarrow> bool" where
  "SHA256_RE_test s = (length s = 64 \<and> list_all lower_hex s)"

definition manifestKey :: "KVRouteValue \<Rightarrow> string" where
  "manifestKey route =
     ''manifests/'' @ org_id route @ ''/'' @ site_id route @ ''/'' @ version_id route @ ''.json''"

definition blobKey :: "string \<Rightarrow> string \<Rightarrow> string" where
  "blobKey orgId sha = ''blobs/'' @ orgId @ ''/'' @ sha"

definition parseEntry :: "json \<Rightarrow> ManifestEntry option" where
  "parseEntry raw =
     (case as_object raw of
        None \<Rightarrow> None
      | Some e \<Rightarrow>
          (case as_string (jprop e ''sha256'') of
             None \<Rightarrow> None
           | Some h \<Rightarrow>
               if \<not> SHA256_RE_test h then None
               else
                 (case as_string (jprop e ''content_type'') of
                    None \<Rightarrow> None
                  | Some ct \<Rightarrow>
                      if ct = [] then None
                      else Some \<lparr>sha256 = h, content_type = ct,
                                 size = (case as_finite (jprop e ''size'') of
                                           Some n \<Rightarrow> if 0 \<le> n then Some n else None
                                         | None \<Rightarrow> None)\<rparr>)))"

text \<open>
  The loop of \<open>parseManifest\<close>: \<open>files[path] = entry\<close> appends an own property (the keys of an
  object are distinct), except for \<open>__proto__\<close>, whose assignment sets the prototype.
\<close>

fun parse_files :: "(string \<times> json) list \<Rightarrow> Manifest \<Rightarrow> Manifest option" where
  "parse_files [] m = Some m"
| "parse_files ((path, rawEntry) # rest) m =
     (case parseEntry rawEntry of
        None \<Rightarrow> None
      | Some entry \<Rightarrow>
          parse_files rest
            (if path = ''__proto__'' then m\<lparr>files_proto := Some entry\<rparr>
             else m\<lparr>files := assoc_put path entry (files m)\<rparr>))"

definition parseManifest :: "json \<Rightarrow> Manifest option" where
  "parseManifest raw =
     (case as_object raw of
        None \<Rightarrow> None
      | Some v \<Rightarrow>
          if jprop v ''schema_version'' \<noteq> Some (JNum (Fin SUPPORTED_MANIFEST_SCHEMA_VERSION)) then None
          else
            (case jprop v ''files'' of
               Some (JObj entries) \<Rightarrow> parse_files entries \<lparr>files = [], files_proto = None\<rparr>
             | _ \<Rightarrow> None))"

text \<open>Property reads on \<open>manifest.files\<close>.\<close>

datatype prop_value = Entry ManifestEntry | Foreign

definition files_get :: "Manifest \<Rightarrow> string \<Rightarrow> prop_value option" where
  "files_get m k =
     (case map_of (files m) k of
        Some e \<Rightarrow> Some (Entry e)
      | None \<Rightarrow>
          (case files_proto m of
             Some e \<Rightarrow>
               (if k = ''__proto__'' then Some (Entry e)
                else if k = ''sha256'' \<or> k = ''content_type'' \<or> (k = ''size'' \<and> size e \<noteq> None)
                then Some Foreign
                else if k \<in> set object_prototype then Some Foreign else None)
           | None \<Rightarrow>
               (if k = ''__proto__'' \<or> k \<in> set object_prototype then Some Foreign else None)))"

definition hasExtension :: "string \<Rightarrow> bool" where
  "hasExtension cleanRelPath =
     (let last = last_segment (CHR ''/'') cleanRelPath
      in (case lastIndexOf last (CHR ''.'') of
            None \<Rightarrow> False
          | Some dot \<Rightarrow> 0 < dot \<and> Suc dot < length last))"

definition candidatePaths :: "string \<Rightarrow> string list" where
  "candidatePaths cleanRelPath =
     (if cleanRelPath = [] \<or> endsWith cleanRelPath ''/'' then [cleanRelPath @ ''index.html'']
      else [cleanRelPath] @
           (if \<not> hasExtension cleanRelPath
            then [cleanRelPath @ ''/index.html'', cleanRelPath @ ''.html''] else []))"

fun first_match :: "Manifest \<Rightarrow> string list \<Rightarrow> (string \<times> prop_value) option" where
  "first_match m [] = None"
| "first_match m (c # cs) =
     (case files_get m c of Some e \<Rightarrow> Some (c, e) | None \<Rightarrow> first_match m cs)"

definition resolveManifestEntry :: "Manifest \<Rightarrow> string \<Rightarrow> (string \<times> prop_value) option" where
  "resolveManifestEntry manifest cleanRelPath = first_match manifest (candidatePaths cleanRelPath)"

definition NOT_FOUND_PATH :: string where
  "NOT_FOUND_PATH = ''404.html''"

section \<open>The invariant of a parsed manifest\<close>

definition entry_ok :: "ManifestEntry \<Rightarrow> bool" where
  "entry_ok e \<longleftrightarrow> SHA256_RE_test (sha256 e) \<and> content_type e \<noteq> [] \<and>
     (\<forall>n. size e = Some n \<longrightarrow> 0 \<le> n)"

definition manifest_ok :: "Manifest \<Rightarrow> bool" where
  "manifest_ok m \<longleftrightarrow> (\<forall>(k, e) \<in> set (files m). entry_ok e \<and> k \<noteq> ''__proto__'') \<and>
     distinct (map fst (files m)) \<and> (\<forall>e. files_proto m = Some e \<longrightarrow> entry_ok e)"

lemma parseEntry_ok: "parseEntry j = Some e \<Longrightarrow> entry_ok e"
  by (auto simp: parseEntry_def entry_ok_def split: option.splits if_splits)

lemma parse_files_ok:
  "parse_files es m = Some m' \<Longrightarrow> manifest_ok m \<Longrightarrow> manifest_ok m'"
proof (induction es m rule: parse_files.induct)
  case (2 path rawEntry rest m)
  then obtain entry where e: "parseEntry rawEntry = Some entry" by (auto split: option.splits)
  note eok = parseEntry_ok [OF e]
  have "manifest_ok (if path = ''__proto__'' then m\<lparr>files_proto := Some entry\<rparr>
             else m\<lparr>files := assoc_put path entry (files m)\<rparr>)"
    using "2.prems"(2) eok set_assoc_put [of path entry "files m"]
    by (auto simp: manifest_ok_def distinct_assoc_put)
  with 2 e show ?case by simp
qed simp

lemma parseManifest_ok: "parseManifest j = Some m \<Longrightarrow> manifest_ok m"
  by (auto simp: parseManifest_def manifest_ok_def split: option.splits if_splits json.splits
      dest!: parse_files_ok)

lemma files_get_Entry_ok:
  "manifest_ok m \<Longrightarrow> files_get m k = Some (Entry e) \<Longrightarrow> entry_ok e"
  by (auto simp: files_get_def manifest_ok_def split: option.splits if_splits dest!: map_of_SomeD)

section \<open>Resolution\<close>

lemma first_match_Some:
  "first_match m cs = Some (k, e) \<longleftrightarrow>
   (\<exists>us vs. cs = us @ k # vs \<and> files_get m k = Some e \<and> (\<forall>u \<in> set us. files_get m u = None))"
proof (induction cs)
  case (Cons c cs)
  show ?case
  proof (cases "files_get m c")
    case None
    have "(\<exists>us vs. c # cs = us @ k # vs \<and> files_get m k = Some e \<and> (\<forall>u\<in>set us. files_get m u = None)) \<longleftrightarrow>
        (\<exists>us vs. cs = us @ k # vs \<and> files_get m k = Some e \<and> (\<forall>u\<in>set us. files_get m u = None))"
      (is "?L \<longleftrightarrow> ?R")
    proof
      assume ?L
      then obtain us vs where *: "c # cs = us @ k # vs" "files_get m k = Some e"
        "\<forall>u\<in>set us. files_get m u = None" by blast
      with None obtain us' where "us = c # us'" by (cases us) auto
      with * show ?R by auto
    next
      assume ?R
      then obtain us vs where "cs = us @ k # vs" "files_get m k = Some e"
        "\<forall>u\<in>set us. files_get m u = None" by blast
      with None show ?L by (intro exI [of _ "c # us"] exI [of _ vs]) simp
    qed
    with None Cons show ?thesis by simp
  next
    case (Some x)
    show ?thesis
    proof
      assume "first_match m (c # cs) = Some (k, e)"
      with Some show "\<exists>us vs. c # cs = us @ k # vs \<and> files_get m k = Some e \<and> (\<forall>u\<in>set us. files_get m u = None)"
        by (intro exI [of _ "[]"] exI [of _ cs]) auto
    next
      assume "\<exists>us vs. c # cs = us @ k # vs \<and> files_get m k = Some e \<and> (\<forall>u\<in>set us. files_get m u = None)"
      then obtain us vs where *: "c # cs = us @ k # vs" "files_get m k = Some e"
        "\<forall>u\<in>set us. files_get m u = None" by blast
      with Some have "us = []" by (cases us) auto
      with * Some show "first_match m (c # cs) = Some (k, e)" by simp
    qed
  qed
qed simp

lemma first_match_None: "first_match m cs = None \<longleftrightarrow> (\<forall>c \<in> set cs. files_get m c = None)"
  by (induction cs) (auto split: option.splits)

lemma files_get_own: "map_of (files m) k = Some e \<Longrightarrow> files_get m k = Some (Entry e)"
  by (simp add: files_get_def)

lemma resolve_own:
  "map_of (files m) k = Some e \<Longrightarrow> k \<noteq> [] \<Longrightarrow> \<not> endsWith k ''/'' \<Longrightarrow>
   resolveManifestEntry m k = Some (k, Entry e)"
  by (simp add: resolveManifestEntry_def candidatePaths_def files_get_own)

section \<open>Object keys\<close>

lemma uuid_no_slash: "UUID_RE_test s \<Longrightarrow> CHR ''/'' \<notin> set s"
proof
  assume u: "UUID_RE_test s" and "CHR ''/'' \<in> set s"
  then obtain a b c d e where sp: "split_on (CHR ''-'') s = [a, b, c, d, e]"
    and h: "hex_group 8 a" "hex_group 4 b" "hex_group 4 c" "hex_group 4 d" "hex_group 12 e"
    by (auto simp: UUID_RE_test_def split: list.splits)
  have "s = join ''-'' [a, b, c, d, e]" using join_split_on [of "CHR ''-''" s] sp by simp
  with \<open>CHR ''/'' \<in> set s\<close> have "CHR ''/'' \<in> set a \<union> set b \<union> set c \<union> set d \<union> set e" by auto
  with h show False by (auto simp: hex_group_def list_all_iff hex_val_def)
qed

lemmas append_slash_inj = append_sep_inj [where c = "CHR ''/''"]

lemma blobKey_inj:
  assumes "UUID_RE_test o1" "UUID_RE_test o2" "blobKey o1 h1 = blobKey o2 h2"
  shows "o1 = o2 \<and> h1 = h2"
  using assms append_slash_inj [of o1 o2 h1 h2] uuid_no_slash by (auto simp: blobKey_def)

text \<open>A manifest for examples.\<close>

definition sample_hash :: string where
  "sample_hash = replicate 64 (CHR ''a'')"

definition sample_manifest_json :: json where
  "sample_manifest_json = JObj
     [(''schema_version'', JNum (Fin 1)),
      (''files'', JObj
         [(''index.html'', JObj [(''sha256'', JStr sample_hash), (''content_type'', JStr ''text/html''),
             (''size'', JNum (Fin 120))]),
          (''constructor.html'', JObj [(''sha256'', JStr sample_hash), (''content_type'', JStr ''text/html'')]),
          (''guide.html'', JObj [(''sha256'', JStr sample_hash), (''content_type'', JStr ''text/html'')])])]"

definition sample_entry :: ManifestEntry where
  "sample_entry = \<lparr>sha256 = sample_hash, content_type = ''text/html'', size = None\<rparr>"

definition sample_manifest :: Manifest where
  "sample_manifest =
     \<lparr>files = [(''index.html'', sample_entry\<lparr>size := Some 120\<rparr>), (''constructor.html'', sample_entry),
               (''guide.html'', sample_entry)],
      files_proto = None\<rparr>"

lemma parse_sample_manifest: "parseManifest sample_manifest_json = Some sample_manifest"
  by code_simp

section \<open>Properties\<close>

text \<open>
  Resolution order: an answer of the resolver is the first candidate path the manifest
  knows, and there is no answer exactly when the manifest knows none of them.
\<close>

theorem resolveManifestEntry_first_candidate:
  "(resolveManifestEntry m p = Some (k, e) \<longleftrightarrow>
      (\<exists>us vs. candidatePaths p = us @ k # vs \<and> files_get m k = Some e \<and>
               (\<forall>u \<in> set us. files_get m u = None))) \<and>
   (resolveManifestEntry m p = None \<longleftrightarrow> (\<forall>c \<in> set (candidatePaths p). files_get m c = None))"
  unfolding resolveManifestEntry_def by (simp only: first_match_Some first_match_None)

theorem resolveManifestEntry_first_candidate_witness:
  "resolveManifestEntry sample_manifest ''guide'' = Some (''guide.html'', Entry sample_entry) \<and>
   (\<exists>us vs. candidatePaths ''guide'' = us @ ''guide.html'' # vs \<and>
      (\<forall>u \<in> set us. files_get sample_manifest u = None))"
proof -
  have r: "resolveManifestEntry sample_manifest ''guide'' = Some (''guide.html'', Entry sample_entry)"
    by code_simp
  then show ?thesis
    using resolveManifestEntry_first_candidate
      [of sample_manifest "''guide''" "''guide.html''" "Entry sample_entry"] by blast
qed

text \<open>
  Integrity of an accepted manifest: every entry it can resolve carries a lower-case
  64-digit SHA-256 and a non-empty content type, and its paths are distinct.
\<close>

theorem parsed_manifest_is_well_formed:
  assumes "parseManifest raw = Some m"
  shows "distinct (map fst (files m)) \<and>
         (\<forall>k e. files_get m k = Some (Entry e) \<longrightarrow>
            length (sha256 e) = 64 \<and> list_all lower_hex (sha256 e) \<and> content_type e \<noteq> [])"
  using parseManifest_ok [OF assms] files_get_Entry_ok [of m]
  by (auto simp: manifest_ok_def entry_ok_def SHA256_RE_test_def)

theorem parsed_manifest_is_well_formed_witness:
  "parseManifest sample_manifest_json = Some sample_manifest \<and> distinct (map fst (files sample_manifest))"
  using parsed_manifest_is_well_formed [OF parse_sample_manifest] parse_sample_manifest by blast

text \<open>
  A page whose name is a method of \<open>Object.prototype\<close> cannot be reached by its clean
  URL: \<open>files["constructor"]\<close> is inherited, so the resolver stops at the first candidate and
  never tries \<open>constructor/index.html\<close> or \<open>constructor.html\<close>.
\<close>

theorem inherited_name_hides_page:
  assumes "p \<in> set object_prototype" and "map_of (files m) p = None"
  shows "resolveManifestEntry m p = Some (p, Foreign)"
proof -
  have "p \<noteq> ''__proto__''" "p \<noteq> ''sha256''" "p \<noteq> ''content_type''" "p \<noteq> ''size''"
    "p \<noteq> []" "\<not> endsWith p ''/''"
    using assms(1) by (auto simp: object_prototype_def endsWith_def)
  with assms show ?thesis
    by (simp add: resolveManifestEntry_def candidatePaths_def files_get_def split: option.splits)
qed

theorem inherited_name_hides_page_witness:
  "map_of (files sample_manifest) ''constructor.html'' \<noteq> None \<and>
   resolveManifestEntry sample_manifest ''constructor'' = Some (''constructor'', Foreign)"
proof -
  have "''constructor'' \<in> set object_prototype" "map_of (files sample_manifest) ''constructor'' = None"
    by code_simp+
  note r = inherited_name_hides_page [OF this]
  have "map_of (files sample_manifest) ''constructor.html'' \<noteq> None" by code_simp
  with r show ?thesis by blast
qed

end
