(* ===== verification/Security.thy ===== *)
theory Security
  imports Manifest
begin

text \<open>
  \<open>edge/serving-worker/src/security.ts\<close> and \<open>http.ts\<close>: the security header sets, the
  service-worker refusals, content types, the cache policy and the header sets of served
  content. The lemmas give the header values as functions of the name, so that the response
  builders of the other components are reasoned about without unfolding any header list.
\<close>

section \<open>Policies and header sets (\<open>security.ts\<close>)\<close>

definition CONTENT_CSP :: string where
  \<open>CONTENT_CSP =
     ''default-src 'self'; '' @
     ''script-src 'self' 'unsafe-inline' 'unsafe-eval' blob: https:; '' @
     ''style-src 'self' 'unsafe-inline' https:; '' @
     ''img-src 'self' data: blob: https:; '' @
     ''font-src 'self' data: https:; '' @
     ''media-src 'self' data: blob: https:; '' @
     ''connect-src 'self' https:; '' @
     ''frame-ancestors 'none'; '' @
     ''base-uri 'self'; '' @
     ''form-action 'self'; '' @
     ''object-src 'none'' @ [CHR 0x27]\<close>

definition PLATFORM_CSP :: string where
  \<open>PLATFORM_CSP =
     ''default-src 'none'; '' @
     ''style-src 'unsafe-inline'; '' @
     ''img-src 'self' data:; '' @
     ''frame-ancestors 'none'; '' @
     ''base-uri 'none'; '' @
     ''form-action 'none'' @ [CHR 0x27]\<close>

definition frame_none :: string where
  \<open>frame_none = ''frame-ancestors 'none'' @ [CHR 0x27]\<close>

definition frame_any :: string where
  "frame_any = ''frame-ancestors *''"

definition FRAMABLE_CONTENT_CSP :: string where
  "FRAMABLE_CONTENT_CSP = replace_first CONTENT_CSP frame_none frame_any"

definition FRAMABLE_PLATFORM_CSP :: string where
  "FRAMABLE_PLATFORM_CSP = replace_first PLATFORM_CSP frame_none frame_any"

definition baseSecurityHeaders :: "(string \<times> string) list" where
  "baseSecurityHeaders =
     [(''X-Content-Type-Options'', ''nosniff''),
      (''Referrer-Policy'', ''no-referrer''),
      (''X-Frame-Options'', ''DENY''),
      (''Cross-Origin-Opener-Policy'', ''same-origin''),
      (''Cross-Origin-Resource-Policy'', ''same-site'')]"

definition isServiceWorkerRequest :: "request \<Rightarrow> bool" where
  "isServiceWorkerRequest request =
     (header_get (req_headers request) ''Service-Worker'' = Some ''script'')"

definition SERVICE_WORKER_SCRIPTS :: "string list" where
  "SERVICE_WORKER_SCRIPTS =
     [''sw.js'', ''service-worker.js'', ''serviceworker.js'', ''service-worker.min.js'', ''sw.min.js'',
      ''firebase-messaging-sw.js'', ''ngsw-worker.js'', ''workbox-sw.js'']"

definition isServiceWorkerScript :: "string \<Rightarrow> bool" where
  "isServiceWorkerScript cleanRelPath =
     (toLowerCase (last_segment (CHR ''/'') cleanRelPath) \<in> set SERVICE_WORKER_SCRIPTS)"

definition contentSecurityHeaders :: "(string \<times> string) list" where
  "contentSecurityHeaders = baseSecurityHeaders @ [(''Content-Security-Policy'', CONTENT_CSP)]"

definition platformSecurityHeaders :: "(string \<times> string) list" where
  "platformSecurityHeaders = baseSecurityHeaders @ [(''Content-Security-Policy'', PLATFORM_CSP)]"

definition framable_base :: "(string \<times> string) list" where
  "framable_base =
     assoc_put ''Cross-Origin-Resource-Policy'' ''cross-origin''
       (filter (\<lambda>(k, v). k \<noteq> ''X-Frame-Options'') baseSecurityHeaders)"

definition framableContentSecurityHeaders :: "(string \<times> string) list" where
  "framableContentSecurityHeaders =
     framable_base @ [(''Content-Security-Policy'', FRAMABLE_CONTENT_CSP)]"

definition framablePlatformSecurityHeaders :: "(string \<times> string) list" where
  "framablePlatformSecurityHeaders =
     framable_base @ [(''Content-Security-Policy'', FRAMABLE_PLATFORM_CSP)]"

fun applyHeaders :: "headers \<Rightarrow> (string \<times> string) list \<Rightarrow> headers" where
  "applyHeaders h [] = h"
| "applyHeaders h ((k, v) # xs) = applyHeaders (if v \<noteq> [] then header_set h k v else h) xs"

section \<open>Content types and the cache policy (\<open>http.ts\<close>)\<close>

definition MIME :: "(string \<times> string) list" where
  "MIME =
     [(''html'', ''text/html; charset=utf-8''), (''htm'', ''text/html; charset=utf-8''),
      (''xml'', ''application/xml; charset=utf-8''), (''txt'', ''text/plain; charset=utf-8''),
      (''md'', ''text/markdown; charset=utf-8''), (''css'', ''text/css; charset=utf-8''),
      (''js'', ''text/javascript; charset=utf-8''), (''mjs'', ''text/javascript; charset=utf-8''),
      (''map'', ''application/json; charset=utf-8''), (''json'', ''application/json; charset=utf-8''),
      (''png'', ''image/png''), (''jpg'', ''image/jpeg''), (''jpeg'', ''image/jpeg''),
      (''gif'', ''image/gif''), (''webp'', ''image/webp''), (''avif'', ''image/avif''),
      (''svg'', ''image/svg+xml''), (''ico'', ''image/x-icon''), (''woff'', ''font/woff''),
      (''woff2'', ''font/woff2''), (''ttf'', ''font/ttf''), (''otf'', ''font/otf''),
      (''eot'', ''application/vnd.ms-fontobject''), (''wasm'', ''application/wasm''),
      (''pdf'', ''application/pdf''), (''webmanifest'', ''application/manifest+json'')]"

definition DEFAULT_CONTENT_TYPE :: string where
  "DEFAULT_CONTENT_TYPE = ''application/octet-stream''"

definition extensionOf :: "string \<Rightarrow> string" where
  "extensionOf key =
     (let last = last_segment (CHR ''/'') key
      in (case lastIndexOf last (CHR ''.'') of
            None \<Rightarrow> []
          | Some dot \<Rightarrow> if dot = 0 \<or> Suc dot = length last then []
                        else toLowerCase (drop (Suc dot) last)))"

text \<open>
  \<open>MIME[extensionOf(key)] ?? DEFAULT_CONTENT_TYPE\<close>. The two inherited names without an
  upper-case letter answer with a value of \<open>Object.prototype\<close>, given here as the string
  \<open>Headers.set\<close> turns it into.
\<close>

definition contentTypeFor :: "string \<Rightarrow> string" where
  "contentTypeFor key =
     (let ext = extensionOf key
      in (case map_of MIME ext of
            Some ct \<Rightarrow> ct
          | None \<Rightarrow>
              if ext = ''constructor'' then ''function Object() { [native code] }''
              else if ext = ''__proto__'' then ''[object Object]''
              else DEFAULT_CONTENT_TYPE))"

definition isHtml :: "string \<Rightarrow> bool" where
  "isHtml key = (let ext = extensionOf key in ext = ''html'' \<or> ext = ''htm'')"

text \<open>
  The fingerprint pattern on the last segment: a dot, dash or underscore, a run of at least
  eight alphanumeric characters, a dot and an alphanumeric extension at the end.
\<close>

definition hashed_name :: "string \<Rightarrow> bool" where
  "hashed_name s =
     (case lastIndexOf s (CHR ''.'') of
        None \<Rightarrow> False
      | Some dot \<Rightarrow>
          (let ext = drop (Suc dot) s; before = rev (take dot s);
               token = takeWhile is_alnum before; rest = dropWhile is_alnum before
           in ext \<noteq> [] \<and> list_all is_alnum ext \<and> 8 \<le> length token \<and>
              rest \<noteq> [] \<and> hd rest \<in> set ''.-_''))"

definition isHashedAsset :: "string \<Rightarrow> bool" where
  "isHashedAsset key = (if isHtml key then False else hashed_name (last_segment (CHR ''/'') key))"

definition SHORT_TTL_SECONDS :: nat where
  "SHORT_TTL_SECONDS = 60"

definition cacheControlFor :: "string \<Rightarrow> string" where
  "cacheControlFor servedPath =
     (if isHashedAsset servedPath then ''public, max-age=31536000, immutable''
      else ''public, max-age='' @ nat_to_string SHORT_TTL_SECONDS @ '', must-revalidate'')"

definition securityHeaders :: "(string \<times> string) list" where
  "securityHeaders = contentSecurityHeaders"

record header_opts =
  o_contentType :: "string option"
  o_etag :: "string option"
  o_lastModified :: "int option"
  o_contentLength :: "rat option"

text \<open>The optional headers shared by the two header builders.\<close>

definition set_optional :: "runtime \<Rightarrow> header_opts \<Rightarrow> headers \<Rightarrow> headers" where
  "set_optional rt opts h =
     (let h = (case o_etag opts of Some e \<Rightarrow> if e \<noteq> [] then header_set h ''ETag'' e else h | None \<Rightarrow> h);
          h = (case o_lastModified opts of
                 Some d \<Rightarrow> header_set h ''Last-Modified'' (toUTCString d) | None \<Rightarrow> h)
      in (case o_contentLength opts of
            Some n \<Rightarrow> header_set h ''Content-Length'' (num_to_string rt n) | None \<Rightarrow> h))"

definition served_headers ::
  "runtime \<Rightarrow> (string \<times> string) list \<Rightarrow> string \<Rightarrow> header_opts \<Rightarrow> headers" where
  "served_headers rt security servedPath opts =
     (let h = header_set [] ''Content-Type''
                (case o_contentType opts of Some ct \<Rightarrow> ct | None \<Rightarrow> contentTypeFor servedPath);
          h = header_set h ''Cache-Control'' (cacheControlFor servedPath);
          h = applyHeaders h security
      in set_optional rt opts h)"

definition publicResponseHeaders :: "runtime \<Rightarrow> string \<Rightarrow> header_opts \<Rightarrow> headers" where
  "publicResponseHeaders rt servedPath opts = served_headers rt securityHeaders servedPath opts"

definition embedResponseHeaders :: "runtime \<Rightarrow> string \<Rightarrow> header_opts \<Rightarrow> headers" where
  "embedResponseHeaders rt servedPath opts =
     served_headers rt framableContentSecurityHeaders servedPath opts"

section \<open>Reading the header sets\<close>

text \<open>
  The defensive headers a response carries, and the two framing postures. The frame policy is
  read off the \<open>Content-Security-Policy\<close> value.
\<close>

definition hardened :: "headers \<Rightarrow> bool" where
  "hardened h \<longleftrightarrow> header_get h ''X-Content-Type-Options'' = Some ''nosniff'' \<and>
     header_get h ''Referrer-Policy'' = Some ''no-referrer'' \<and>
     header_get h ''Cross-Origin-Opener-Policy'' = Some ''same-origin''"

definition frame_denied :: "headers \<Rightarrow> bool" where
  "frame_denied h \<longleftrightarrow> header_get h ''X-Frame-Options'' = Some ''DENY'' \<and>
     (\<exists>csp. header_get h ''Content-Security-Policy'' = Some csp \<and> str_includes csp frame_none)"

definition framable :: "headers \<Rightarrow> bool" where
  "framable h \<longleftrightarrow> header_get h ''X-Frame-Options'' = None \<and>
     header_get h ''Cross-Origin-Resource-Policy'' = Some ''cross-origin'' \<and>
     (\<forall>csp. header_get h ''Content-Security-Policy'' = Some csp \<longrightarrow> \<not> str_includes csp frame_none)"

named_theorems lower_names \<open>header names in lower case\<close>

lemma lower_header_names [lower_names]:
  "toLowerCase ''X-Content-Type-Options'' = ''x-content-type-options''"
  "toLowerCase ''Referrer-Policy'' = ''referrer-policy''"
  "toLowerCase ''X-Frame-Options'' = ''x-frame-options''"
  "toLowerCase ''Cross-Origin-Opener-Policy'' = ''cross-origin-opener-policy''"
  "toLowerCase ''Cross-Origin-Resource-Policy'' = ''cross-origin-resource-policy''"
  "toLowerCase ''Content-Security-Policy'' = ''content-security-policy''"
  "toLowerCase ''Content-Type'' = ''content-type''"
  "toLowerCase ''Cache-Control'' = ''cache-control''"
  "toLowerCase ''ETag'' = ''etag''"
  "toLowerCase ''Last-Modified'' = ''last-modified''"
  "toLowerCase ''Content-Length'' = ''content-length''"
  "toLowerCase ''Vary'' = ''vary''"
  "toLowerCase ''Location'' = ''location''"
  "toLowerCase ''Set-Cookie'' = ''set-cookie''"
  "toLowerCase ''Allow'' = ''allow''"
  "toLowerCase ''Retry-After'' = ''retry-after''"
  by (code_simp)+

lemma csp_facts:
  "str_includes CONTENT_CSP frame_none" "str_includes PLATFORM_CSP frame_none"
  "\<not> str_includes FRAMABLE_CONTENT_CSP frame_none" "\<not> str_includes FRAMABLE_PLATFORM_CSP frame_none"
  "CONTENT_CSP \<noteq> []" "PLATFORM_CSP \<noteq> []" "FRAMABLE_CONTENT_CSP \<noteq> []" "FRAMABLE_PLATFORM_CSP \<noteq> []"
  by code_simp+

lemma applyHeaders_headers_of:
  "(\<And>k v. (k, v) \<in> set r \<Longrightarrow> v \<noteq> []) \<Longrightarrow> applyHeaders h r = headers_of h r"
proof (induction r arbitrary: h)
  case (Cons kv r)
  then show ?case by (cases kv) auto
qed simp

lemma security_sets_nonempty:
  "(k, v) \<in> set contentSecurityHeaders \<Longrightarrow> v \<noteq> []"
  "(k, v) \<in> set platformSecurityHeaders \<Longrightarrow> v \<noteq> []"
  "(k, v) \<in> set framableContentSecurityHeaders \<Longrightarrow> v \<noteq> []"
  "(k, v) \<in> set framablePlatformSecurityHeaders \<Longrightarrow> v \<noteq> []"
  using csp_facts
  by (auto simp: contentSecurityHeaders_def platformSecurityHeaders_def framable_base_def
      framableContentSecurityHeaders_def framablePlatformSecurityHeaders_def baseSecurityHeaders_def)

lemmas header_set_defs = contentSecurityHeaders_def platformSecurityHeaders_def framable_base_def
  framableContentSecurityHeaders_def framablePlatformSecurityHeaders_def baseSecurityHeaders_def

text \<open>Every header set hardens whatever it is applied to, with its own framing posture.\<close>

lemma headers_of_content:
  "hardened (headers_of h contentSecurityHeaders)"
  "frame_denied (headers_of h contentSecurityHeaders)"
  by (simp_all add: hardened_def frame_denied_def header_set_defs hs.get_put lower_names csp_facts)

lemma headers_of_platform:
  "hardened (headers_of h platformSecurityHeaders)"
  "frame_denied (headers_of h platformSecurityHeaders)"
  by (simp_all add: hardened_def frame_denied_def header_set_defs hs.get_put lower_names csp_facts)

lemma headers_of_framable:
  "hardened (headers_of h framableContentSecurityHeaders)"
  "hardened (headers_of h framablePlatformSecurityHeaders)"
  "header_get h ''X-Frame-Options'' = None \<Longrightarrow> framable (headers_of h framableContentSecurityHeaders)"
  "header_get h ''X-Frame-Options'' = None \<Longrightarrow> framable (headers_of h framablePlatformSecurityHeaders)"
  by (simp_all add: hardened_def framable_def header_set_defs hs.get_put lower_names csp_facts)

text \<open>Headers that neither harden nor frame: setting one of them changes no posture.\<close>

definition neutral :: "string \<Rightarrow> bool" where
  "neutral k \<longleftrightarrow> toLowerCase k \<notin> {''x-content-type-options'', ''referrer-policy'',
     ''x-frame-options'', ''cross-origin-opener-policy'', ''cross-origin-resource-policy'',
     ''content-security-policy''}"

lemma neutral_names:
  "neutral ''Content-Type''" "neutral ''Cache-Control''" "neutral ''ETag''" "neutral ''Last-Modified''"
  "neutral ''Content-Length''" "neutral ''Vary''" "neutral ''Location''" "neutral ''Set-Cookie''"
  "neutral ''Allow''" "neutral ''Retry-After''"
  by (simp_all add: neutral_def lower_names)

lemma header_set_neutral:
  assumes "neutral k"
  shows "hardened (header_set h k v) = hardened h"
    "frame_denied (header_set h k v) = frame_denied h"
    "framable (header_set h k v) = framable h"
  using assms
  by (simp_all add: hardened_def frame_denied_def framable_def hs.get_put neutral_def lower_names)

lemma set_optional_neutral:
  "hardened (set_optional rt opts h) = hardened h"
  "frame_denied (set_optional rt opts h) = frame_denied h"
  "framable (set_optional rt opts h) = framable h"
  by (simp_all add: set_optional_def Let_def header_set_neutral neutral_names split: option.splits)

lemma publicResponseHeaders_posture:
  "hardened (publicResponseHeaders rt p opts)" "frame_denied (publicResponseHeaders rt p opts)"
  by (simp_all add: publicResponseHeaders_def served_headers_def Let_def set_optional_neutral
      securityHeaders_def applyHeaders_headers_of security_sets_nonempty headers_of_content)

lemma embedResponseHeaders_posture:
  "hardened (embedResponseHeaders rt p opts)" "framable (embedResponseHeaders rt p opts)"
  by (simp_all add: embedResponseHeaders_def served_headers_def Let_def set_optional_neutral
      applyHeaders_headers_of security_sets_nonempty headers_of_framable hs.get_put lower_names)

lemma applyHeaders_other:
  "toLowerCase k \<notin> toLowerCase ` fst ` set r \<Longrightarrow> header_get (applyHeaders h r) k = header_get h k"
proof (induction r arbitrary: h)
  case (Cons kv r)
  then show ?case by (cases kv) (auto simp: hs.get_put)
qed simp

lemma publicResponseHeaders_cache:
  "header_get (publicResponseHeaders rt p opts) ''Cache-Control'' = Some (cacheControlFor p)"
proof -
  have "toLowerCase ''Cache-Control'' \<notin> toLowerCase ` fst ` set contentSecurityHeaders"
    by (simp add: header_set_defs lower_names)
  then show ?thesis
    by (simp add: publicResponseHeaders_def served_headers_def set_optional_def Let_def
        securityHeaders_def hs.get_put applyHeaders_other lower_names split: option.splits)
qed

lemma publicResponseHeaders_type:
  "header_get (publicResponseHeaders rt p opts) ''Content-Type'' =
     Some (case o_contentType opts of Some ct \<Rightarrow> ct | None \<Rightarrow> contentTypeFor p)"
proof -
  have "toLowerCase ''Content-Type'' \<notin> toLowerCase ` fst ` set contentSecurityHeaders"
    by (simp add: header_set_defs lower_names)
  then show ?thesis
    by (simp add: publicResponseHeaders_def served_headers_def set_optional_def Let_def
        securityHeaders_def hs.get_put applyHeaders_other lower_names split: option.splits)
qed

section \<open>The fingerprint pattern\<close>

lemma lastIndexOf_Some:
  assumes "lastIndexOf s c = Some i"
  shows "s = take i s @ c # drop (Suc i) s" "c \<notin> set (drop (Suc i) s)"
proof -
  have "c \<in> set s" using assms lastIndexOf_None [of c s] by auto
  then obtain u v where uv: "s = u @ c # v" "c \<notin> set v" by (metis split_list_last)
  with assms have "i = length u" by (simp add: lastIndexOf_last)
  with uv show "s = take i s @ c # drop (Suc i) s" "c \<notin> set (drop (Suc i) s)" by auto
qed

text \<open>The executable test accepts exactly the names the regular expression describes.\<close>

lemma hashed_name_regex:
  "hashed_name s \<longleftrightarrow>
   (\<exists>pre d token ext. s = pre @ [d] @ token @ ''.'' @ ext \<and> d \<in> set ''.-_'' \<and> 8 \<le> length token \<and>
      list_all is_alnum token \<and> ext \<noteq> [] \<and> list_all is_alnum ext)" (is "?L \<longleftrightarrow> ?R")
proof
  assume ?L
  then obtain dot where dot: "lastIndexOf s (CHR ''.'') = Some dot" by (auto simp: hashed_name_def split: option.splits)
  let ?b = "rev (take dot s)"
  from \<open>?L\<close> dot have *: "drop (Suc dot) s \<noteq> []" "list_all is_alnum (drop (Suc dot) s)"
    "8 \<le> length (takeWhile is_alnum ?b)" "dropWhile is_alnum ?b \<noteq> []" "hd (dropWhile is_alnum ?b) \<in> set ''.-_''"
    by (simp_all add: hashed_name_def Let_def)
  obtain d rest where dr: "dropWhile is_alnum ?b = d # rest" using *(4) by (cases "dropWhile is_alnum ?b") auto
  have "?b = takeWhile is_alnum ?b @ d # rest" using dr takeWhile_dropWhile_id [of is_alnum ?b] by simp
  then have "take dot s = rev (takeWhile is_alnum ?b @ d # rest)" by (metis rev_rev_ident)
  then have t: "take dot s = rev rest @ d # rev (takeWhile is_alnum ?b)" by simp
  define token where "token = rev (takeWhile is_alnum ?b)"
  define ext where "ext = drop (Suc dot) s"
  have "s = take dot s @ CHR ''.'' # ext" using lastIndexOf_Some(1) [OF dot] by (simp add: ext_def)
  also have "take dot s = rev rest @ d # token" using t by (simp add: token_def)
  finally have "s = rev rest @ [d] @ token @ ''.'' @ ext" by simp
  moreover have "list_all is_alnum token"
    by (auto simp: list_all_iff token_def dest: set_takeWhileD)
  moreover have "d \<in> set ''.-_''" using *(5) dr by simp
  moreover have "8 \<le> length token" "ext \<noteq> []" "list_all is_alnum ext"
    using *(1-3) by (simp_all add: token_def ext_def)
  ultimately show ?R by blast
next
  assume ?R
  then obtain pre d token ext where *: "s = pre @ [d] @ token @ ''.'' @ ext" "d \<in> set ''.-_''" "8 \<le> length token"
    "list_all is_alnum token" "ext \<noteq> []" "list_all is_alnum ext" by blast
  have "CHR ''.'' \<notin> set ext" using *(6) by (auto simp: list_all_iff is_alnum_def)
  then have dot: "lastIndexOf s (CHR ''.'') = Some (length (pre @ [d] @ token))"
    using *(1) lastIndexOf_last [of "CHR ''.''" ext "pre @ [d] @ token"] by simp
  have nd: "\<not> is_alnum d" using *(2) by (auto simp: is_alnum_def)
  have tok: "takeWhile is_alnum (rev (pre @ [d] @ token)) = rev token"
    "dropWhile is_alnum (rev (pre @ [d] @ token)) = d # rev pre"
    using *(4) nd by (simp_all add: list_all_iff takeWhile_append dropWhile_append)
  show ?L
    using dot * tok nd by (simp add: hashed_name_def Let_def)
qed

section \<open>Properties\<close>

text \<open>
  Cache policy: an HTML document is never served immutable, and the immutable directive is
  given exactly to the names that match the fingerprint pattern.
\<close>

theorem cache_policy:
  "(isHtml p \<longrightarrow> cacheControlFor p = ''public, max-age=60, must-revalidate'') \<and>
   (cacheControlFor p = ''public, max-age=31536000, immutable'' \<longleftrightarrow>
      \<not> isHtml p \<and>
      (\<exists>pre d token ext. last_segment (CHR ''/'') p = pre @ [d] @ token @ ''.'' @ ext \<and>
         d \<in> set ''.-_'' \<and> 8 \<le> length token \<and> list_all is_alnum token \<and>
         ext \<noteq> [] \<and> list_all is_alnum ext))"
proof -
  have short: "''public, max-age='' @ nat_to_string SHORT_TTL_SECONDS @ '', must-revalidate'' =
      ''public, max-age=60, must-revalidate''"
    by code_simp
  show ?thesis
    unfolding hashed_name_regex [symmetric] cacheControlFor_def isHashedAsset_def short by auto
qed

theorem cache_policy_witness:
  "isHtml ''blog/index.html'' \<and>
   cacheControlFor ''blog/index.html'' = ''public, max-age=60, must-revalidate''"
proof -
  have "isHtml ''blog/index.html''" by code_simp
  then show ?thesis using cache_policy [of "''blog/index.html''"] by blast
qed

text \<open>
  The fingerprint heuristic mistakes an ordinary word for a content hash: a stylesheet named
  \<open>site-navigation.css\<close> is served immutable for a year, although nothing in its name changes
  when its content does; and the bundler example \<open>main-9Hs2Kd.css\<close> is not recognised.
\<close>

theorem fingerprint_heuristic_limits:
  "cacheControlFor ''css/site-navigation.css'' = ''public, max-age=31536000, immutable'' \<and>
   \<not> isHashedAsset ''main-9Hs2Kd.css''"
  by code_simp

end
