(* ===== verification/Pages.thy ===== *)
theory Pages
  imports Security
begin

text \<open>
  The platform's own pages of \<open>edge/serving-worker/src/index.ts\<close>: the texts, and the functions
  that build the whole response around them. None of them takes a binding: a page of the
  platform cannot contain a byte of a tenant.
\<close>

section \<open>Texts\<close>

definition DEFAULT_404_HTML :: string where
  \<open>DEFAULT_404_HTML =
     ''<!doctype html>\<newline>'' @
     ''<html lang="en">\<newline>'' @
     ''<head>\<newline>'' @
     ''<meta charset="utf-8">\<newline>'' @
     ''<meta name="viewport" content="width=device-width, initial-scale=1">\<newline>'' @
     ''<title>404 '' @
     [CHR 0xE2, CHR 0x80, CHR 0x94] @
     '' Not Found</title>\<newline>'' @
     ''<style>\<newline>'' @
     ''  :root { color-scheme: light dark; }\<newline>'' @
     ''  body { font: 15px/1.6 system-ui, sans-serif; margin: 0;\<newline>'' @
     ''         display: grid; place-items: center; min-height: 100vh; }\<newline>'' @
     ''  main { text-align: center; padding: 2rem; }\<newline>'' @
     ''  h1 { font-size: 3rem; margin: 0 0 .25rem; }\<newline>'' @
     ''  p { opacity: .7; }\<newline>'' @
     ''</style>\<newline>'' @
     ''</head>\<newline>'' @
     ''<body>\<newline>'' @
     ''  <main>\<newline>'' @
     ''    <h1>404</h1>\<newline>'' @
     ''    <p>This page could not be found.</p>\<newline>'' @
     ''  </main>\<newline>'' @
     ''</body>\<newline>'' @
     ''</html>\<newline>''\<close>

definition UNKNOWN_HOST_404_HTML :: string where
  \<open>UNKNOWN_HOST_404_HTML =
     ''<!doctype html>\<newline>'' @
     ''<html lang="en">\<newline>'' @
     ''<head>\<newline>'' @
     ''<meta charset="utf-8">\<newline>'' @
     ''<meta name="viewport" content="width=device-width, initial-scale=1">\<newline>'' @
     ''<title>404 '' @
     [CHR 0xE2, CHR 0x80, CHR 0x94] @
     '' No site here</title>\<newline>'' @
     ''<style>\<newline>'' @
     ''  :root { color-scheme: light dark; }\<newline>'' @
     ''  body { font: 15px/1.6 system-ui, sans-serif; margin: 0;\<newline>'' @
     ''         display: grid; place-items: center; min-height: 100vh; }\<newline>'' @
     ''  main { text-align: center; padding: 2rem; max-width: 32rem; }\<newline>'' @
     ''  h1 { font-size: 3rem; margin: 0 0 .25rem; }\<newline>'' @
     ''  p { opacity: .75; }\<newline>'' @
     ''  .cta { display: inline-block; margin-top: 1.25rem; padding: .6rem 1.1rem;\<newline>'' @
     ''         border-radius: .5rem; background: #1d4aff; color: #fff;\<newline>'' @
     ''         text-decoration: none; font-weight: 600; }\<newline>'' @
     ''</style>\<newline>'' @
     ''</head>\<newline>'' @
     ''<body>\<newline>'' @
     ''  <main>\<newline>'' @
     ''    <h1>404</h1>\<newline>'' @
     ''    <p>There's no site at this address yet.</p>\<newline>'' @
     ''    <p>Dropway lets you publish a static site in seconds.</p>\<newline>'' @
     ''    <a class="cta" href="https://dropway.dev">Create your site '' @
     [CHR 0xE2, CHR 0x86, CHR 0x92] @
     ''</a>\<newline>'' @
     ''  </main>\<newline>'' @
     ''</body>\<newline>'' @
     ''</html>\<newline>''\<close>

definition PROJECTION_ERROR_HTML :: string where
  \<open>PROJECTION_ERROR_HTML =
     ''<!doctype html>\<newline>'' @
     ''<html lang="en">\<newline>'' @
     ''<head>\<newline>'' @
     ''<meta charset="utf-8">\<newline>'' @
     ''<meta name="viewport" content="width=device-width, initial-scale=1">\<newline>'' @
     ''<title>500 '' @
     [CHR 0xE2, CHR 0x80, CHR 0x94] @
     '' Temporarily Unavailable</title>\<newline>'' @
     ''<style>\<newline>'' @
     ''  :root { color-scheme: light dark; }\<newline>'' @
     ''  body { font: 15px/1.6 system-ui, sans-serif; margin: 0;\<newline>'' @
     ''         display: grid; place-items: center; min-height: 100vh; }\<newline>'' @
     ''  main { text-align: center; padding: 2rem; }\<newline>'' @
     ''  h1 { font-size: 3rem; margin: 0 0 .25rem; }\<newline>'' @
     ''  p { opacity: .7; }\<newline>'' @
     ''</style>\<newline>'' @
     ''</head>\<newline>'' @
     ''<body>\<newline>'' @
     ''  <main>\<newline>'' @
     ''    <h1>500</h1>\<newline>'' @
     ''    <p>This site is temporarily unavailable. Please try again shortly.</p>\<newline>'' @
     ''  </main>\<newline>'' @
     ''</body>\<newline>'' @
     ''</html>\<newline>''\<close>

definition LINK_EXPIRED_HTML :: string where
  \<open>LINK_EXPIRED_HTML =
     ''<!doctype html>\<newline>'' @
     ''<html lang="en">\<newline>'' @
     ''<head>\<newline>'' @
     ''<meta charset="utf-8">\<newline>'' @
     ''<meta name="viewport" content="width=device-width, initial-scale=1">\<newline>'' @
     ''<title>Link expired</title>\<newline>'' @
     ''<style>\<newline>'' @
     ''  :root { color-scheme: light dark; }\<newline>'' @
     ''  body { font: 15px/1.6 system-ui, sans-serif; margin: 0;\<newline>'' @
     ''         display: grid; place-items: center; min-height: 100vh; }\<newline>'' @
     ''  main { text-align: center; padding: 2rem; max-width: 32rem; }\<newline>'' @
     ''  h1 { font-size: 2rem; margin: 0 0 .5rem; }\<newline>'' @
     ''  p { opacity: .7; }\<newline>'' @
     ''</style>\<newline>'' @
     ''</head>\<newline>'' @
     ''<body>\<newline>'' @
     ''  <main>\<newline>'' @
     ''    <h1>This link has expired</h1>\<newline>'' @
     ''    <p>The share link for this site is no longer active. Ask the site owner '' @
     ''for a new one.</p>\<newline>'' @
     ''  </main>\<newline>'' @
     ''</body>\<newline>'' @
     ''</html>\<newline>''\<close>

definition TOO_MANY_REQUESTS_HTML :: string where
  \<open>TOO_MANY_REQUESTS_HTML =
     ''<!doctype html>\<newline>'' @
     ''<html lang="en">\<newline>'' @
     ''<head>\<newline>'' @
     ''<meta charset="utf-8">\<newline>'' @
     ''<meta name="viewport" content="width=device-width, initial-scale=1">\<newline>'' @
     ''<title>Too many requests</title>\<newline>'' @
     ''<style>\<newline>'' @
     ''  :root { color-scheme: light dark; }\<newline>'' @
     ''  body { font: 15px/1.6 system-ui, sans-serif; margin: 0;\<newline>'' @
     ''         display: grid; place-items: center; min-height: 100vh; }\<newline>'' @
     ''  main { text-align: center; padding: 2rem; max-width: 32rem; }\<newline>'' @
     ''  h1 { font-size: 2rem; margin: 0 0 .5rem; }\<newline>'' @
     ''  p { opacity: .7; }\<newline>'' @
     ''</style>\<newline>'' @
     ''</head>\<newline>'' @
     ''<body>\<newline>'' @
     ''  <main>\<newline>'' @
     ''    <h1>Too many requests</h1>\<newline>'' @
     ''    <p>You have made too many requests in a short time. Please wait a moment '' @
     ''and try again.</p>\<newline>'' @
     ''  </main>\<newline>'' @
     ''</body>\<newline>'' @
     ''</html>\<newline>''\<close>

definition ACCOUNT_SUSPENDED_HTML :: string where
  \<open>ACCOUNT_SUSPENDED_HTML =
     ''<!doctype html>\<newline>'' @
     ''<html lang="en">\<newline>'' @
     ''<head>\<newline>'' @
     ''<meta charset="utf-8">\<newline>'' @
     ''<meta name="viewport" content="width=device-width, initial-scale=1">\<newline>'' @
     ''<title>Site unavailable</title>\<newline>'' @
     ''<style>\<newline>'' @
     ''  :root { color-scheme: light dark; }\<newline>'' @
     ''  body { font: 15px/1.6 system-ui, sans-serif; margin: 0;\<newline>'' @
     ''         display: grid; place-items: center; min-height: 100vh; }\<newline>'' @
     ''  main { text-align: center; padding: 2rem; max-width: 32rem; }\<newline>'' @
     ''  h1 { font-size: 2rem; margin: 0 0 .5rem; }\<newline>'' @
     ''  p { opacity: .7; }\<newline>'' @
     ''</style>\<newline>'' @
     ''</head>\<newline>'' @
     ''<body>\<newline>'' @
     ''  <main>\<newline>'' @
     ''    <h1>This site is temporarily unavailable</h1>\<newline>'' @
     ''    <p>The account for this site has been suspended. If you own this site, '' @
     ''sign in to your dashboard to resolve it.</p>\<newline>'' @
     ''  </main>\<newline>'' @
     ''</body>\<newline>'' @
     ''</html>\<newline>''\<close>

definition ACCOUNT_OVER_LIMIT_HTML :: string where
  \<open>ACCOUNT_OVER_LIMIT_HTML =
     ''<!doctype html>\<newline>'' @
     ''<html lang="en">\<newline>'' @
     ''<head>\<newline>'' @
     ''<meta charset="utf-8">\<newline>'' @
     ''<meta name="viewport" content="width=device-width, initial-scale=1">\<newline>'' @
     ''<title>Site unavailable</title>\<newline>'' @
     ''<style>\<newline>'' @
     ''  :root { color-scheme: light dark; }\<newline>'' @
     ''  body { font: 15px/1.6 system-ui, sans-serif; margin: 0;\<newline>'' @
     ''         display: grid; place-items: center; min-height: 100vh; }\<newline>'' @
     ''  main { text-align: center; padding: 2rem; max-width: 32rem; }\<newline>'' @
     ''  h1 { font-size: 2rem; margin: 0 0 .5rem; }\<newline>'' @
     ''  p { opacity: .7; }\<newline>'' @
     ''</style>\<newline>'' @
     ''</head>\<newline>'' @
     ''<body>\<newline>'' @
     ''  <main>\<newline>'' @
     ''    <h1>This site is temporarily unavailable</h1>\<newline>'' @
     ''    <p>This account has reached its usage limit. If you own this site, sign '' @
     ''in to your dashboard to upgrade or wait for the limit to reset.</p>\<newline>'' @
     ''  </main>\<newline>'' @
     ''</body>\<newline>'' @
     ''</html>\<newline>''\<close>

section \<open>Responses\<close>

text \<open>\<open>new Headers({Content-Type, Cache-Control, ..., ...platformSecurityHeaders()})\<close>.\<close>

definition platform_page :: "string \<Rightarrow> nat \<Rightarrow> string \<Rightarrow> (string \<times> string) list \<Rightarrow> response" where
  "platform_page html status cache extra =
     mk_response (Some html) status
       (new_headers ([(''Content-Type'', ''text/html; charset=utf-8''), (''Cache-Control'', cache)] @ extra @
          platformSecurityHeaders))"

definition projectionError :: response where
  "projectionError = platform_page PROJECTION_ERROR_HTML 500 ''no-store'' []"

definition linkExpired :: response where
  "linkExpired = platform_page LINK_EXPIRED_HTML 410 ''no-store'' []"

definition tooManyRequests :: "int \<Rightarrow> response" where
  "tooManyRequests secs =
     platform_page TOO_MANY_REQUESTS_HTML 429 ''no-store''
       [(''Retry-After'', int_to_string (max 1 secs))]"

definition accountSuspended :: "string \<Rightarrow> response" where
  "accountSuspended status =
     platform_page (if status = ''over_limit'' then ACCOUNT_OVER_LIMIT_HTML else ACCOUNT_SUSPENDED_HTML)
       503 ''no-store'' [(''Retry-After'', ''300'')]"

text \<open>The default page at the end of \<open>notFound\<close>.\<close>

definition default_404 :: "string \<Rightarrow> response" where
  "default_404 rsn =
     platform_page (if rsn = ''route_not_found'' then UNKNOWN_HOST_404_HTML else DEFAULT_404_HTML)
       404 ''public, max-age=30'' []"

section \<open>The posture of a page\<close>

lemma platform_page_posture:
  "hardened (resp_headers (platform_page html st cache extra))"
  "frame_denied (resp_headers (platform_page html st cache extra))"
  by (simp_all add: platform_page_def headers_of_append headers_of_platform)

lemma platform_page_fields [simp]:
  "resp_status (platform_page html st cache extra) = st"
  "resp_body (platform_page html st cache extra) = Some html"
  by (simp_all add: platform_page_def)

lemmas page_defs = projectionError_def linkExpired_def tooManyRequests_def accountSuspended_def default_404_def

end
