(* ===== verification/EdgeToken.thy ===== *)
theory EdgeToken
  imports Web
begin

text \<open>
  \<open>edge/serving-worker/src/edgetoken.ts\<close> (with the constants of \<open>config.ts\<close>): the JWKS
  cache of an isolate and the verification of an edge token against a route.

  \<open>jose\<close> is a platform parameter: \<open>importJWK\<close> and \<open>jwtVerify\<close> of the runtime record.
  \<open>jose_contract\<close> states what its documentation promises about an accepted token. The cache
  is state: \<open>loadKeys\<close> returns the keys (or the error it throws) and the cache after it.
\<close>

section \<open>Data\<close>

definition EDGE_TOKEN_ISSUER :: string where
  "EDGE_TOKEN_ISSUER = ''https://api.dropway.dev/edge''"

definition EDGE_ALG :: string where
  "EDGE_ALG = ''EdDSA''"

definition EDGE_MODES :: "string list" where
  "EDGE_MODES = [''password'', ''allowlist'', ''org_only'']"

record EdgeClaims =
  ec_sub :: string
  ec_aud :: string
  ec_site_id :: string
  ec_mode :: string
  ec_iat :: rat

text \<open>
  The injected fetch: \<^const>\<open>None\<close> when it rejects, otherwise the \<open>ok\<close> flag and the parsed
  body (\<^const>\<open>None\<close> when \<open>json()\<close> rejects).
\<close>

type_synonym fetch_like = "string \<Rightarrow> (bool \<times> json option) option"

type_synonym key_map = "(string \<times> crypto_key) list"

record JwksCacheEntry =
  jc_keys :: key_map
  jc_expiresAt :: int

type_synonym jwks_cache = "string \<Rightarrow> JwksCacheEntry option"

definition JWKS_TTL_MS :: int where
  "JWKS_TTL_MS = 5 * 60000"

definition JWKS_STALE_GRACE_MS :: int where
  "JWKS_STALE_GRACE_MS = 10 * 60000"

section \<open>Definitions\<close>

definition parseJwks :: "json \<Rightarrow> jobj list option" where
  "parseJwks raw =
     (case as_object raw of
        None \<Rightarrow> None
      | Some v \<Rightarrow>
          (case jprop v ''keys'' of
             Some (JArr ks) \<Rightarrow> Some (List.map_filter as_object ks)
           | _ \<Rightarrow> None))"

text \<open>The document of one fetch: \<^const>\<open>None\<close> when it fails in any way.\<close>

definition fetch_doc :: "fetch_like \<Rightarrow> string \<Rightarrow> jobj list option" where
  "fetch_doc fetchImpl jwksUrl =
     (case fetchImpl jwksUrl of
        Some (ok, Some raw) \<Rightarrow> if ok then parseJwks raw else None
      | _ \<Rightarrow> None)"

text \<open>The import loop: only OKP/Ed25519 keys with a string \<open>kid\<close>, a malformed key is skipped.\<close>

fun import_keys :: "runtime \<Rightarrow> jobj list \<Rightarrow> key_map \<Rightarrow> key_map" where
  "import_keys rt [] keys = keys"
| "import_keys rt (jwk # rest) keys =
     (case as_string (jprop jwk ''kid'') of
        Some kid \<Rightarrow>
          (if jprop jwk ''kty'' \<noteq> Some (JStr ''OKP'') \<or> jprop jwk ''crv'' \<noteq> Some (JStr ''Ed25519'')
           then import_keys rt rest keys
           else (case importJWK rt (obj_put ''alg'' (JStr EDGE_ALG) jwk) EDGE_ALG of
                   Some key \<Rightarrow> import_keys rt rest (assoc_put kid key keys)
                 | None \<Rightarrow> import_keys rt rest keys))
      | None \<Rightarrow> import_keys rt rest keys)"

text \<open>The bounded fall-back to the cached keys, or the error.\<close>

definition stale_or_throw :: "JwksCacheEntry option \<Rightarrow> int \<Rightarrow> string \<Rightarrow> key_map result" where
  "stale_or_throw cached now msg =
     (case cached of
        Some c \<Rightarrow> if now < jc_expiresAt c + JWKS_STALE_GRACE_MS then Inr (jc_keys c) else Inl (JsError msg)
      | None \<Rightarrow> Inl (JsError msg))"

definition loadKeys ::
  "runtime \<Rightarrow> jwks_cache \<Rightarrow> string \<Rightarrow> fetch_like \<Rightarrow> int \<Rightarrow> key_map result \<times> jwks_cache" where
  "loadKeys rt cache jwksUrl fetchImpl now =
     (let cached = cache jwksUrl
      in if (case cached of Some c \<Rightarrow> now < jc_expiresAt c | None \<Rightarrow> False)
         then (Inr (jc_keys (the cached)), cache)
         else
           (case fetch_doc fetchImpl jwksUrl of
              None \<Rightarrow> (stale_or_throw cached now ''edge JWKS unavailable'', cache)
            | Some doc \<Rightarrow>
                (let keys = import_keys rt doc []
                 in if keys = []
                    then (stale_or_throw cached now ''edge JWKS has no usable Ed25519 keys'', cache)
                    else (Inr keys,
                          cache(jwksUrl \<mapsto> \<lparr>jc_keys = keys, jc_expiresAt = now + JWKS_TTL_MS\<rparr>)))))"

record VerifyParams =
  vp_token :: string
  vp_host :: string
  vp_siteId :: string
  vp_expectedMode :: "string option"
  vp_jwksUrl :: string
  vp_now :: int

text \<open>The key callback handed to \<open>jwtVerify\<close>: the key of the header's \<open>kid\<close>, or a throw.\<close>

definition key_of_header :: "key_map \<Rightarrow> jobj \<Rightarrow> crypto_key option" where
  "key_of_header keys header =
     (case as_string (jprop header ''kid'') of Some kid \<Rightarrow> map_of keys kid | None \<Rightarrow> None)"

definition verify_options :: "VerifyParams \<Rightarrow> jwt_options" where
  "verify_options p =
     \<lparr>opt_algorithms = [EDGE_ALG], opt_issuer = EDGE_TOKEN_ISSUER, opt_audience = vp_host p,
      opt_requiredClaims = [''exp'', ''sub''], opt_clockTolerance = 0, opt_currentDate = vp_now p\<rparr>"

text \<open>The checks on the payload after \<open>jwtVerify\<close>.\<close>

definition edge_claims :: "VerifyParams \<Rightarrow> jobj \<Rightarrow> EdgeClaims option" where
  "edge_claims p payload =
     (case as_string (jprop payload ''site_id'') of
        None \<Rightarrow> None
      | Some siteId \<Rightarrow>
          if siteId \<noteq> vp_siteId p then None
          else
            (case as_string (jprop payload ''mode'') of
               None \<Rightarrow> None
             | Some mode \<Rightarrow>
                 if mode \<notin> set EDGE_MODES then None
                 else if vp_expectedMode p \<noteq> None \<and> vp_expectedMode p \<noteq> Some mode then None
                 else
                   (case as_string (jprop payload ''sub'') of
                      None \<Rightarrow> None
                    | Some sub \<Rightarrow>
                        if sub = [] then None
                        else Some \<lparr>ec_sub = sub, ec_aud = vp_host p, ec_site_id = siteId,
                               ec_mode = mode,
                               ec_iat = (case as_finite (jprop payload ''iat'') of
                                           Some iat \<Rightarrow> iat | None \<Rightarrow> 0)\<rparr>)))"

definition verifyEdgeToken ::
  "runtime \<Rightarrow> jwks_cache \<Rightarrow> fetch_like \<Rightarrow> VerifyParams \<Rightarrow> EdgeClaims option result \<times> jwks_cache" where
  "verifyEdgeToken rt cache fetchImpl p =
     (if vp_token p = [] \<or> vp_host p = [] \<or> vp_siteId p = [] then (Inr None, cache)
      else
        (case loadKeys rt cache (vp_jwksUrl p) fetchImpl (vp_now p) of
           (Inl e, cache') \<Rightarrow> (Inl e, cache')
         | (Inr keys, cache') \<Rightarrow>
             (case jwtVerify rt (vp_token p) (key_of_header keys) (verify_options p) of
                None \<Rightarrow> (Inr None, cache')
              | Some payload \<Rightarrow> (Inr (edge_claims p payload), cache'))))"

section \<open>The key cache over time\<close>

text \<open>
  A step of the isolate: one \<open>loadKeys\<close>, with the fetch it would see and its time. The history
  keeps every step, newest first.
\<close>

inductive jwks_reachable ::
  "runtime \<Rightarrow> (string \<times> fetch_like \<times> int) list \<Rightarrow> jwks_cache \<Rightarrow> bool" for rt where
  cold: "jwks_reachable rt [] Map.empty"
| load: "jwks_reachable rt h cache \<Longrightarrow>
         jwks_reachable rt ((u, f, now) # h) (snd (loadKeys rt cache u f now))"

text \<open>A key set fetched and imported by a step of the history.\<close>

definition fetched_by ::
  "runtime \<Rightarrow> (string \<times> fetch_like \<times> int) list \<Rightarrow> string \<Rightarrow> key_map \<Rightarrow> int \<Rightarrow> bool" where
  "fetched_by rt h u keys t \<longleftrightarrow>
     (\<exists>f doc. (u, f, t) \<in> set h \<and> fetch_doc f u = Some doc \<and> keys = import_keys rt doc [] \<and> keys \<noteq> [])"

lemma fetched_by_mono: "fetched_by rt h u keys t \<Longrightarrow> fetched_by rt (s # h) u keys t"
  by (auto simp: fetched_by_def)

lemma loadKeys_cases:
  obtains
    (fresh) c where "cache u = Some c" "now < jc_expiresAt c" "loadKeys rt cache u f now = (Inr (jc_keys c), cache)"
  | (stale) c where "cache u = Some c" "now < jc_expiresAt c + JWKS_STALE_GRACE_MS"
      "loadKeys rt cache u f now = (Inr (jc_keys c), cache)"
  | (fetched) doc where "fetch_doc f u = Some doc" "import_keys rt doc [] \<noteq> []"
      "loadKeys rt cache u f now = (Inr (import_keys rt doc []),
         cache(u \<mapsto> \<lparr>jc_keys = import_keys rt doc [], jc_expiresAt = now + JWKS_TTL_MS\<rparr>))"
  | (failed) e where "loadKeys rt cache u f now = (Inl e, cache)"
proof (cases "\<exists>c. cache u = Some c \<and> now < jc_expiresAt c")
  case True
  then obtain c where c: "cache u = Some c" "now < jc_expiresAt c" by blast
  then have "loadKeys rt cache u f now = (Inr (jc_keys c), cache)" by (simp add: loadKeys_def)
  with c show ?thesis by (rule fresh)
next
  case False
  then have nf: "\<not> (case cache u of Some c \<Rightarrow> now < jc_expiresAt c | None \<Rightarrow> False)"
    by (auto split: option.splits)
  show ?thesis
  proof (cases "\<exists>doc. fetch_doc f u = Some doc \<and> import_keys rt doc [] \<noteq> []")
    case True
    then obtain doc where d: "fetch_doc f u = Some doc" "import_keys rt doc [] \<noteq> []" by blast
    with nf have "loadKeys rt cache u f now = (Inr (import_keys rt doc []),
        cache(u \<mapsto> \<lparr>jc_keys = import_keys rt doc [], jc_expiresAt = now + JWKS_TTL_MS\<rparr>))"
      by (simp add: loadKeys_def Let_def)
    with d show ?thesis by (rule fetched)
  next
    case False
    with nf obtain msg where "loadKeys rt cache u f now = (stale_or_throw (cache u) now msg, cache)"
      by (cases "fetch_doc f u") (auto simp: loadKeys_def)
    then show ?thesis
      using stale failed by (auto simp: stale_or_throw_def split: option.splits if_splits)
  qed
qed

text \<open>Every cached entry was fetched, at the time its expiry says.\<close>

lemma jwks_cache_invariant:
  "jwks_reachable rt h cache \<Longrightarrow> cache u = Some c \<Longrightarrow>
   fetched_by rt h u (jc_keys c) (jc_expiresAt c - JWKS_TTL_MS)"
proof (induction arbitrary: u c rule: jwks_reachable.induct)
  case cold
  then show ?case by simp
next
  case (load h cache v f now)
  show ?case
  proof (cases rule: loadKeys_cases [of cache v now rt f])
    case (fetched doc)
    show ?thesis
    proof (cases "u = v")
      case True
      with fetched load.prems show ?thesis by (auto simp: fetched_by_def)
    next
      case False
      with fetched load show ?thesis by (auto intro: fetched_by_mono)
    qed
  qed (use load in \<open>auto intro: fetched_by_mono\<close>)
qed

section \<open>Importing\<close>

text \<open>Every imported key comes from an Ed25519 JWK of the document, under that JWK's \<open>kid\<close>.\<close>

lemma import_keys_origin:
  "map_of (import_keys rt doc keys) kid = Some key \<Longrightarrow>
   map_of keys kid = Some key \<or>
   (\<exists>jwk \<in> set doc. jprop jwk ''kid'' = Some (JStr kid) \<and> jprop jwk ''kty'' = Some (JStr ''OKP'') \<and>
      jprop jwk ''crv'' = Some (JStr ''Ed25519'') \<and>
      importJWK rt (obj_put ''alg'' (JStr EDGE_ALG) jwk) EDGE_ALG = Some key)"
proof (induction doc arbitrary: keys)
  case (Cons jwk doc)
  show ?case
  proof (cases "import_keys rt (jwk # doc) keys = import_keys rt doc keys")
    case True
    with Cons.IH [of keys] Cons.prems show ?thesis by auto
  next
    case False
    then obtain kid' key' where *: "jprop jwk ''kid'' = Some (JStr kid')" "jprop jwk ''kty'' = Some (JStr ''OKP'')"
      "jprop jwk ''crv'' = Some (JStr ''Ed25519'')"
      "importJWK rt (obj_put ''alg'' (JStr EDGE_ALG) jwk) EDGE_ALG = Some key'"
      by (auto split: option.splits if_splits)
    then have "import_keys rt (jwk # doc) keys = import_keys rt doc (assoc_put kid' key' keys)" by simp
    with Cons.IH [of "assoc_put kid' key' keys"] Cons.prems * show ?thesis
      by (cases "kid = kid'") auto
  qed
qed simp

section \<open>The contract of \<open>jose\<close>\<close>

text \<open>
  What \<open>jwtVerify\<close> documents about a token it accepts: the signature verifies under the key
  the callback returned for the protected header, the header's algorithm is one of the allowed
  ones, issuer and audience match, the required claims are present, and \<open>exp\<close>, if present, is a
  number of seconds in the future. The relation \<open>sig_ok\<close> stands for the signature scheme.
\<close>

definition jose_contract ::
  "(string \<Rightarrow> jobj \<Rightarrow> jobj \<Rightarrow> crypto_key \<Rightarrow> bool) \<Rightarrow> runtime \<Rightarrow> bool" where
  "jose_contract sig_ok rt \<longleftrightarrow>
     (\<forall>token keyOf opts payload. jwtVerify rt token keyOf opts = Some payload \<longrightarrow>
        (\<exists>header key. keyOf header = Some key \<and> sig_ok token header payload key \<and>
           (\<exists>alg \<in> set (opt_algorithms opts). jprop header ''alg'' = Some (JStr alg))) \<and>
        jprop payload ''iss'' = Some (JStr (opt_issuer opts)) \<and>
        (jprop payload ''aud'' = Some (JStr (opt_audience opts)) \<or>
         (\<exists>auds. jprop payload ''aud'' = Some (JArr auds) \<and> JStr (opt_audience opts) \<in> set auds)) \<and>
        (\<forall>c \<in> set (opt_requiredClaims opts). jprop payload c \<noteq> None) \<and>
        (\<forall>e. jprop payload ''exp'' = Some e \<longrightarrow>
           (\<exists>q. e = JNum (Fin q) \<and> of_int (opt_currentDate opts div 1000 - opt_clockTolerance opts) < q)))"

lemma edge_claims_Some:
  assumes "edge_claims p payload = Some c"
  shows "jprop payload ''site_id'' = Some (JStr (vp_siteId p))" "ec_site_id c = vp_siteId p"
    "ec_mode c \<in> set EDGE_MODES" "vp_expectedMode p = None \<or> vp_expectedMode p = Some (ec_mode c)"
    "jprop payload ''mode'' = Some (JStr (ec_mode c))"
    "jprop payload ''sub'' = Some (JStr (ec_sub c))" "ec_sub c \<noteq> []" "ec_aud c = vp_host p"
  using assms by (auto simp: edge_claims_def split: option.splits if_splits)

lemma verifyEdgeToken_Some:
  assumes "verifyEdgeToken rt cache f p = (Inr (Some c), cache')"
  obtains keys payload where "loadKeys rt cache (vp_jwksUrl p) f (vp_now p) = (Inr keys, cache')"
    "jwtVerify rt (vp_token p) (key_of_header keys) (verify_options p) = Some payload"
    "edge_claims p payload = Some c"
  using assms
  by (auto simp: verifyEdgeToken_def split: if_splits prod.splits sum.splits option.splits)

lemma sample_jose_contract: "jose_contract (\<lambda>token header payload key. token = ''good'') sample_runtime"
  unfolding jose_contract_def sample_runtime_def sample_payload_def
  by (auto split: if_splits
      intro!: exI [of _ "[(''alg'', JStr ''EdDSA''), (''kid'', JStr ''k1'')]"])

definition sample_jwks :: json where
  "sample_jwks = JObj [(''keys'', JArr
     [JObj [(''kty'', JStr ''RSA''), (''kid'', JStr ''k0''), (''n'', JStr ''1'')],
      JObj [(''kty'', JStr ''OKP''), (''crv'', JStr ''Ed25519''), (''kid'', JStr ''k1''), (''x'', JStr ''pub1'')]])]"

definition sample_fetch :: fetch_like where
  "sample_fetch u = Some (True, Some sample_jwks)"

definition down_fetch :: fetch_like where
  "down_fetch u = None"

definition sample_params :: VerifyParams where
  "sample_params = \<lparr>vp_token = ''good'', vp_host = ''docs.example.com'',
     vp_siteId = ''22222222-2222-2222-2222-222222222222'', vp_expectedMode = Some ''password'',
     vp_jwksUrl = ''https://api/jwks'', vp_now = 1500000\<rparr>"

section \<open>Properties\<close>

text \<open>
  Bounded staleness of signing keys: whatever sequence of loads an isolate has performed, the
  keys a load returns were published by the JWKS endpoint in a successful fetch that is less than
  fifteen minutes old (or happens now). A key withdrawn by the signer cannot verify longer than
  that, even if the endpoint stays down.
\<close>

theorem loaded_keys_are_recent:
  assumes "jwks_reachable rt h cache"
    and "loadKeys rt cache u f now = (Inr keys, cache')"
  shows "\<exists>t. fetched_by rt ((u, f, now) # h) u keys t \<and> now < t + 15 * 60000"
proof (cases rule: loadKeys_cases [of cache u now rt f])
  case (fresh c)
  then have "fetched_by rt h u keys (jc_expiresAt c - JWKS_TTL_MS)"
    using jwks_cache_invariant [OF assms(1)] assms(2) by simp
  with fresh show ?thesis
    by (intro exI [of _ "jc_expiresAt c - JWKS_TTL_MS"]) (simp add: fetched_by_mono JWKS_TTL_MS_def)
next
  case (stale c)
  then have "fetched_by rt h u keys (jc_expiresAt c - JWKS_TTL_MS)"
    using jwks_cache_invariant [OF assms(1)] assms(2) by simp
  with stale show ?thesis
    by (intro exI [of _ "jc_expiresAt c - JWKS_TTL_MS"])
       (simp add: fetched_by_mono JWKS_TTL_MS_def JWKS_STALE_GRACE_MS_def)
next
  case (fetched doc)
  with assms(2) show ?thesis by (intro exI [of _ now]) (auto simp: fetched_by_def)
next
  case (failed e)
  with assms(2) show ?thesis by simp
qed

theorem loaded_keys_are_recent_witness:
  "\<exists>t. fetched_by sample_runtime [(''u'', down_fetch, 800000), (''u'', sample_fetch, 0)] ''u''
         [(''k1'', ''pub1'')] t \<and> 800000 < t + 15 * 60000"
proof -
  have r: "jwks_reachable sample_runtime [(''u'', sample_fetch, 0)]
      (snd (loadKeys sample_runtime Map.empty ''u'' sample_fetch 0))"
    by (intro jwks_reachable.intros)
  have c: "snd (loadKeys sample_runtime Map.empty ''u'' sample_fetch 0) =
      [''u'' \<mapsto> \<lparr>jc_keys = [(''k1'', ''pub1'')], jc_expiresAt = 300000\<rparr>]"
    by (simp add: loadKeys_def fetch_doc_def sample_fetch_def parseJwks_def sample_jwks_def
        List.map_filter_def sample_runtime_def JWKS_TTL_MS_def Let_def)
  have "loadKeys sample_runtime (snd (loadKeys sample_runtime Map.empty ''u'' sample_fetch 0)) ''u'' down_fetch 800000 =
      (Inr [(''k1'', ''pub1'')], snd (loadKeys sample_runtime Map.empty ''u'' sample_fetch 0))"
    unfolding c by (simp add: loadKeys_def fetch_doc_def down_fetch_def stale_or_throw_def JWKS_STALE_GRACE_MS_def)
  from loaded_keys_are_recent [OF r this] show ?thesis by simp
qed

text \<open>
  C7. Soundness of token verification: if a token is accepted for a route, it carries a valid
  EdDSA signature under a key the load returned for the \<open>kid\<close> of its header, it was issued by
  the edge signer for exactly this host, it has not expired, and its claims name this site and
  the route's current access mode.
\<close>

theorem accepted_token_is_genuine:
  assumes jose: "jose_contract sig_ok rt"
    and ok: "verifyEdgeToken rt cache f p = (Inr (Some c), cache')"
  shows "\<exists>keys header kid key payload q.
     loadKeys rt cache (vp_jwksUrl p) f (vp_now p) = (Inr keys, cache') \<and>
     jprop header ''kid'' = Some (JStr kid) \<and> jprop header ''alg'' = Some (JStr ''EdDSA'') \<and>
     map_of keys kid = Some key \<and> sig_ok (vp_token p) header payload key \<and>
     jprop payload ''iss'' = Some (JStr EDGE_TOKEN_ISSUER) \<and>
     (jprop payload ''aud'' = Some (JStr (vp_host p)) \<or>
      (\<exists>auds. jprop payload ''aud'' = Some (JArr auds) \<and> JStr (vp_host p) \<in> set auds)) \<and>
     jprop payload ''exp'' = Some (JNum (Fin q)) \<and> of_int (vp_now p div 1000) < q \<and>
     jprop payload ''site_id'' = Some (JStr (vp_siteId p)) \<and>
     jprop payload ''sub'' = Some (JStr (ec_sub c)) \<and> ec_sub c \<noteq> [] \<and>
     ec_site_id c = vp_siteId p \<and> ec_mode c \<in> set EDGE_MODES \<and>
     (vp_expectedMode p = None \<or> vp_expectedMode p = Some (ec_mode c))"
proof -
  obtain keys payload where l: "loadKeys rt cache (vp_jwksUrl p) f (vp_now p) = (Inr keys, cache')"
    and v: "jwtVerify rt (vp_token p) (key_of_header keys) (verify_options p) = Some payload"
    and e: "edge_claims p payload = Some c"
    using ok by (rule verifyEdgeToken_Some)
  note j = jose [unfolded jose_contract_def, rule_format, OF v]
  from j obtain header key where h: "key_of_header keys header = Some key"
    "sig_ok (vp_token p) header payload key" "jprop header ''alg'' = Some (JStr ''EdDSA'')"
    by (auto simp: verify_options_def EDGE_ALG_def)
  from h(1) obtain kid where kid: "jprop header ''kid'' = Some (JStr kid)" "map_of keys kid = Some key"
    by (auto simp: key_of_header_def split: option.splits)
  from j obtain q where q: "jprop payload ''exp'' = Some (JNum (Fin q))" "of_int (vp_now p div 1000) < q"
    by (auto simp: verify_options_def)
  have claims: "jprop payload ''iss'' = Some (JStr EDGE_TOKEN_ISSUER)"
    "jprop payload ''aud'' = Some (JStr (vp_host p)) \<or>
      (\<exists>auds. jprop payload ''aud'' = Some (JArr auds) \<and> JStr (vp_host p) \<in> set auds)"
    using j by (auto simp: verify_options_def)
  show ?thesis using l h kid q claims edge_claims_Some [OF e] by blast
qed

theorem accepted_token_is_genuine_witness:
  "\<exists>c. fst (verifyEdgeToken sample_runtime Map.empty sample_fetch sample_params) = Inr (Some c) \<and>
     ec_mode c \<in> set EDGE_MODES \<and> ec_site_id c = vp_siteId sample_params"
proof -
  let ?r = "verifyEdgeToken sample_runtime Map.empty sample_fetch sample_params"
  have "fst ?r = Inr (Some \<lparr>ec_sub = ''user-1'', ec_aud = ''docs.example.com'',
      ec_site_id = ''22222222-2222-2222-2222-222222222222'', ec_mode = ''password'', ec_iat = 1000\<rparr>)"
    (is "_ = Inr (Some ?c)")
    by code_simp
  then have ok: "?r = (Inr (Some ?c), snd ?r)" by (metis prod.collapse)
  from accepted_token_is_genuine [OF sample_jose_contract ok]
  have "ec_mode ?c \<in> set EDGE_MODES \<and> ec_site_id ?c = vp_siteId sample_params" by blast
  with \<open>fst ?r = _\<close> show ?thesis by blast
qed

end
