(* ===== verification/RateLimit.thy ===== *)
theory RateLimit
  imports Web
begin

text \<open>
  \<open>edge/serving-worker/src/ratelimit.ts\<close>: the native limiter, the fixed-window counter over
  a KV namespace and the per-org status read.

  The contents of the \<open>LIMITS\<close> namespace are state (the counter is written back); whether a
  read throws or a write is lost is a property of the binding. Times are integers in
  milliseconds, counts and windows integers in seconds, so \<open>Math.floor(a / b)\<close> is integer
  division; the doubles the source divides are far below \<open>2^53\<close> and round to the same floor.
\<close>

section \<open>Data\<close>

record RateLimitPolicy =
  limit :: int
  windowSeconds :: int

record RateLimitResult =
  allowed :: bool
  count :: int
  retryAfterSeconds :: int

section \<open>Definitions\<close>

definition DEFAULT_RATE_LIMIT :: RateLimitPolicy where
  "DEFAULT_RATE_LIMIT = \<lparr>limit = 600, windowSeconds = 60\<rparr>"

definition RATE_LIMIT_PREFIX :: string where
  "RATE_LIMIT_PREFIX = ''rl:''"

definition ORG_STATUS_PREFIX :: string where
  "ORG_STATUS_PREFIX = ''org_status:''"

definition KV_MIN_TTL_SECONDS :: int where
  "KV_MIN_TTL_SECONDS = 60"

definition open_result :: RateLimitResult where
  "open_result = \<lparr>allowed = True, count = 0, retryAfterSeconds = 0\<rparr>"

text \<open>The native binding answers \<open>success\<close>, or throws (\<^const>\<open>None\<close>).\<close>

definition rateLimitNative :: "(string \<Rightarrow> bool option) \<Rightarrow> string \<Rightarrow> int \<Rightarrow> RateLimitResult" where
  "rateLimitNative limiter identity window =
     (case limiter identity of
        Some success \<Rightarrow>
          if success then \<lparr>allowed = True, count = 0, retryAfterSeconds = 0\<rparr>
          else \<lparr>allowed = False, count = 0, retryAfterSeconds = window\<rparr>
      | None \<Rightarrow> \<lparr>allowed = True, count = 0, retryAfterSeconds = 0\<rparr>)"

definition isBlockingStatus :: "string option \<Rightarrow> bool" where
  "isBlockingStatus status = (status = Some ''suspended'' \<or> status = Some ''over_limit'')"

definition readOrgStatus :: "kv_binding option \<Rightarrow> kv_store \<Rightarrow> string \<Rightarrow> string option" where
  "readOrgStatus kv store orgId =
     (case kv of
        None \<Rightarrow> None
      | Some b \<Rightarrow>
          (let key = ORG_STATUS_PREFIX @ orgId
           in if kv_get_fails b key then None
              else
                (case store key of
                   None \<Rightarrow> None
                 | Some raw \<Rightarrow>
                     (let trimmed = js_trim raw
                      in if startsWith trimmed ''{'' then
                           (case JSON_parse trimmed of
                              Some (JObj obj) \<Rightarrow> as_string (jprop obj ''status'')
                            | _ \<Rightarrow> None)
                         else Some trimmed))))"

definition rateLimitIdentity :: "request \<Rightarrow> string \<Rightarrow> string" where
  "rateLimitIdentity request host =
     (let ip = (case header_get (req_headers request) ''CF-Connecting-IP'' of
                  Some v \<Rightarrow> Some v
                | None \<Rightarrow> header_get (req_headers request) ''X-Real-IP'')
      in (case ip of
            Some v \<Rightarrow> if v \<noteq> [] \<and> js_trim v \<noteq> [] then ''ip:'' @ js_trim v else ''host:'' @ host
          | None \<Rightarrow> ''host:'' @ host))"

definition windowKey :: "string \<Rightarrow> int \<Rightarrow> RateLimitPolicy \<Rightarrow> string" where
  "windowKey identity nowMs policy =
     RATE_LIMIT_PREFIX @ identity @ '':'' @ int_to_string (nowMs div 1000 div windowSeconds policy)"

definition parseCount :: "string \<Rightarrow> int" where
  "parseCount raw = (case parseInt10 raw of Some n \<Rightarrow> if 0 \<le> n then n else 0 | None \<Rightarrow> 0)"

text \<open>
  The decision and the namespace after it. The expiry \<open>expirationTtl\<close> of the write is the
  third component of a successful step; it does not influence the answer.
\<close>

definition rateLimitDecision ::
  "kv_binding option \<Rightarrow> kv_store \<Rightarrow> string \<Rightarrow> int \<Rightarrow> RateLimitPolicy \<Rightarrow> RateLimitResult \<times> kv_store" where
  "rateLimitDecision kv store identity nowMs policy =
     (let remainingInWindow = windowSeconds policy - (nowMs div 1000) mod windowSeconds policy
      in (case kv of
            None \<Rightarrow> (\<lparr>allowed = True, count = 0, retryAfterSeconds = 0\<rparr>, store)
          | Some b \<Rightarrow>
              (let key = windowKey identity nowMs policy
               in if kv_get_fails b key
                  then (\<lparr>allowed = True, count = 0, retryAfterSeconds = 0\<rparr>, store)
                  else
                    (let prevCount = (case store key of None \<Rightarrow> 0 | Some prev \<Rightarrow> parseCount prev);
                         cnt = prevCount + 1;
                         store' = (if kv_put_fails b key then store
                                   else store(key \<mapsto> int_to_string cnt))
                     in if limit policy < cnt
                        then (\<lparr>allowed = False, count = cnt, retryAfterSeconds = remainingInWindow\<rparr>, store')
                        else (\<lparr>allowed = True, count = cnt, retryAfterSeconds = 0\<rparr>, store')))))"

definition put_ttl :: "int \<Rightarrow> RateLimitPolicy \<Rightarrow> int" where
  "put_ttl nowMs policy =
     max KV_MIN_TTL_SECONDS (windowSeconds policy - (nowMs div 1000) mod windowSeconds policy + 1)"

section \<open>Counting\<close>

lemma parseInt10_int_to_string [simp]: "0 \<le> n \<Longrightarrow> parseInt10 (int_to_string n) = Some n"
  by (simp add: int_to_string_def)

lemma parseCount_int_to_string [simp]: "0 \<le> n \<Longrightarrow> parseCount (int_to_string n) = n"
  by (simp add: parseCount_def)

lemma parseCount_nonneg [simp]: "0 \<le> parseCount s"
  by (simp add: parseCount_def split: option.splits)

text \<open>The count a namespace holds under a key.\<close>

definition stored :: "kv_store \<Rightarrow> string \<Rightarrow> int" where
  "stored store key = (case store key of None \<Rightarrow> 0 | Some s \<Rightarrow> parseCount s)"

lemma stored_nonneg [simp]: "0 \<le> stored store key"
  by (simp add: stored_def split: option.splits)

text \<open>
  The interface a fixed-window limiter needs from its counter store: one atomic-looking bump
  per request, which returns the new count of its key and touches no other key.
\<close>

locale window_counter =
  fixes bump :: "'s \<Rightarrow> string \<Rightarrow> 's"
    and value_of :: "'s \<Rightarrow> string \<Rightarrow> int"
  assumes bump_same: "value_of (bump s k) k = value_of s k + 1"
    and bump_other: "k' \<noteq> k \<Longrightarrow> value_of (bump s k) k' = value_of s k'"
begin

fun bumps :: "'s \<Rightarrow> string list \<Rightarrow> 's" where
  "bumps s [] = s"
| "bumps s (k # ks) = bumps (bump s k) ks"

lemma value_bumps: "value_of (bumps s ks) k = value_of s k + int (count_list ks k)"
  by (induction ks arbitrary: s) (auto simp: bump_same bump_other)

end

definition kv_bump :: "kv_store \<Rightarrow> string \<Rightarrow> kv_store" where
  "kv_bump store key = store(key \<mapsto> int_to_string (stored store key + 1))"

interpretation kc: window_counter kv_bump stored
proof unfold_locales
  show "stored (kv_bump s k) k = stored s k + 1" for s k
    using stored_nonneg [of s k] by (simp add: stored_def kv_bump_def)
  show "stored (kv_bump s k) k' = stored s k'" if "k' \<noteq> k" for s k k'
    using that by (simp add: stored_def kv_bump_def)
qed

lemma rateLimitDecision_healthy:
  assumes "healthy b"
  shows "rateLimitDecision (Some b) store identity nowMs policy =
     (let k = windowKey identity nowMs policy; cnt = stored store k + 1
      in (\<lparr>allowed = (cnt \<le> limit policy), count = cnt,
           retryAfterSeconds = (if cnt \<le> limit policy then 0
             else windowSeconds policy - (nowMs div 1000) mod windowSeconds policy)\<rparr>,
          kv_bump store k))"
  using assms
  by (auto simp: rateLimitDecision_def healthy_def Let_def stored_def kv_bump_def split: option.splits)

text \<open>A sequence of requests, each with its identity and its time.\<close>

fun run_limiter ::
  "kv_binding \<Rightarrow> RateLimitPolicy \<Rightarrow> kv_store \<Rightarrow> (string \<times> int) list \<Rightarrow> kv_store" where
  "run_limiter b policy store [] = store"
| "run_limiter b policy store ((i, t) # rs) =
     run_limiter b policy (snd (rateLimitDecision (Some b) store i t policy)) rs"

lemma run_limiter_bumps:
  "healthy b \<Longrightarrow>
   run_limiter b policy store rs = kc.bumps store (map (\<lambda>(i, t). windowKey i t policy) rs)"
proof (induction rs arbitrary: store)
  case (Cons r rs)
  then show ?case by (cases r) (simp add: rateLimitDecision_healthy Let_def)
qed simp

section \<open>Window keys\<close>

lemma nat_to_string_inj: "nat_to_string m = nat_to_string n \<Longrightarrow> m = n"
  by (metis parseInt10_nat_to_string of_nat_eq_iff option.inject)

lemma nat_to_string_no_colon: "CHR '':'' \<notin> set (nat_to_string n)"
proof
  assume "CHR '':'' \<in> set (nat_to_string n)"
  then obtain d where d: "d < 10" "digit_char d = CHR '':''"
    using nat_to_string_digits [of "CHR '':''" n] by auto
  have "digit_val (CHR '':'') = Some d" using digit_val_digit_char [OF d(1)] d(2) by simp
  then show False by (simp add: digit_val_def)
qed

lemmas append_colon_inj = append_sep_inj_last [where c = "CHR '':''"]

lemma windowKey_inj:
  assumes "0 \<le> t" "0 \<le> t'" "0 < windowSeconds p"
    and "windowKey i t p = windowKey i' t' p"
  shows "i = i' \<and> t div 1000 div windowSeconds p = t' div 1000 div windowSeconds p"
proof -
  let ?w = "t div 1000 div windowSeconds p" and ?w' = "t' div 1000 div windowSeconds p"
  have nn: "0 \<le> ?w" "0 \<le> ?w'" using assms by (simp_all add: pos_imp_zdiv_nonneg_iff)
  then have "int_to_string ?w = nat_to_string (nat ?w)" "int_to_string ?w' = nat_to_string (nat ?w')"
    by (simp_all add: int_to_string_def)
  with assms(4) have "i @ CHR '':'' # nat_to_string (nat ?w) = i' @ CHR '':'' # nat_to_string (nat ?w')"
    by (simp add: windowKey_def)
  with append_colon_inj [OF nat_to_string_no_colon nat_to_string_no_colon]
  have "i = i'" "nat_to_string (nat ?w) = nat_to_string (nat ?w')" by blast+
  with nat_to_string_inj nn show ?thesis by (metis eq_nat_nat_iff)
qed

section \<open>Properties\<close>

text \<open>
  The fixed-window limit: with a working counter namespace that starts empty, after any
  sequence of requests the next request of an identity is allowed exactly when fewer than
  \<open>limit\<close> of the earlier requests fell under the same identity and window.
\<close>

theorem limiter_counts_window:
  assumes "healthy b"
  shows "allowed (fst (rateLimitDecision (Some b) (run_limiter b policy Map.empty rs) i t policy)) \<longleftrightarrow>
         int (length (filter (\<lambda>(i', t'). windowKey i' t' policy = windowKey i t policy) rs)) < limit policy"
proof -
  let ?k = "windowKey i t policy"
  have cl: "count_list (map (\<lambda>(i, t). windowKey i t policy) rs) ?k =
      length (filter (\<lambda>(i', t'). windowKey i' t' policy = ?k) rs)"
    by (induction rs) auto
  have "stored (run_limiter b policy Map.empty rs) ?k =
      int (count_list (map (\<lambda>(i, t). windowKey i t policy) rs) ?k)"
    using run_limiter_bumps [OF assms] kc.value_bumps [of Map.empty] by (simp add: stored_def)
  then show ?thesis
    using cl by (simp add: rateLimitDecision_healthy [OF assms] Let_def add1_zle_eq)
qed

theorem limiter_counts_window_witness:
  "\<not> allowed (fst (rateLimitDecision (Some good_binding)
        (run_limiter good_binding \<lparr>limit = 2, windowSeconds = 60\<rparr> Map.empty
           [(''ip:1'', 1000), (''ip:2'', 2000), (''ip:1'', 59000)])
        ''ip:1'' 59999 \<lparr>limit = 2, windowSeconds = 60\<rparr>)) \<and>
   allowed (fst (rateLimitDecision (Some good_binding)
        (run_limiter good_binding \<lparr>limit = 2, windowSeconds = 60\<rparr> Map.empty
           [(''ip:1'', 1000), (''ip:2'', 2000), (''ip:1'', 59000)])
        ''ip:1'' 60000 \<lparr>limit = 2, windowSeconds = 60\<rparr>))"
proof -
  let ?rs = "[(''ip:1'', 1000), (''ip:2'', 2000), (''ip:1'', 59000)] :: (string \<times> int) list"
  let ?p = "\<lparr>limit = 2, windowSeconds = 60\<rparr> :: RateLimitPolicy"
  have "\<not> int (length (filter (\<lambda>(i', t'). windowKey i' t' ?p = windowKey ''ip:1'' 59999 ?p) ?rs)) < limit ?p"
    "int (length (filter (\<lambda>(i', t'). windowKey i' t' ?p = windowKey ''ip:1'' 60000 ?p) ?rs)) < limit ?p"
    by code_simp+
  then show ?thesis
    using limiter_counts_window [OF healthy_good, of ?p ?rs "''ip:1''" 59999]
      limiter_counts_window [OF healthy_good, of ?p ?rs "''ip:1''" 60000] by blast
qed

text \<open>
  Back-off: a refused request is told to wait between one second and one window, and that
  is exactly until the window index changes.
\<close>

theorem retry_after_ends_window:
  assumes "0 < windowSeconds policy"
    and "r = fst (rateLimitDecision kv store i t policy)" and "\<not> allowed r"
  shows "1 \<le> retryAfterSeconds r \<and> retryAfterSeconds r \<le> windowSeconds policy \<and>
         (t div 1000 + retryAfterSeconds r) div windowSeconds policy = t div 1000 div windowSeconds policy + 1"
proof -
  let ?w = "windowSeconds policy" and ?s = "t div 1000"
  have ra: "retryAfterSeconds r = ?w - ?s mod ?w"
    using assms(2,3) by (auto simp: rateLimitDecision_def Let_def split: option.splits if_splits)
  have "?s mod ?w < ?w" "0 \<le> ?s mod ?w" using assms(1) by simp_all
  moreover have "?s + (?w - ?s mod ?w) = (?s div ?w + 1) * ?w"
    by (simp add: algebra_simps minus_mod_eq_div_mult [symmetric])
  moreover have "1 \<le> ?w - ?s mod ?w" using \<open>?s mod ?w < ?w\<close> by linarith
  ultimately show ?thesis using ra assms(1) by simp
qed

theorem retry_after_ends_window_witness:
  "\<not> allowed (fst (rateLimitDecision (Some good_binding) [''rl:ip:1:0'' \<mapsto> ''2''] ''ip:1'' 15000
        \<lparr>limit = 2, windowSeconds = 60\<rparr>)) \<and>
   retryAfterSeconds (fst (rateLimitDecision (Some good_binding) [''rl:ip:1:0'' \<mapsto> ''2''] ''ip:1'' 15000
        \<lparr>limit = 2, windowSeconds = 60\<rparr>)) \<le> 60"
proof -
  have na: "\<not> allowed (fst (rateLimitDecision (Some good_binding) [''rl:ip:1:0'' \<mapsto> ''2''] ''ip:1'' 15000
        \<lparr>limit = 2, windowSeconds = 60\<rparr>))"
    by code_simp
  then show ?thesis using retry_after_ends_window [OF _ refl na] by simp
qed

end
