(* ===== verification/Env.thy ===== *)
theory Env
  imports EdgeToken RateLimit
begin

text \<open>
  The bindings and variables of the Worker (\<open>Env\<close>, \<open>R2ObjectLike\<close>, \<open>BucketLike\<close>,
  \<open>RoutesKVLike\<close> and \<open>ServeOptions\<close> of \<open>edge/serving-worker/src/index.ts\<close>).

  What a request can read but not change is part of the environment: the route projection, the
  bucket, the denylist and the variables. What a request can change is the isolate's state, the
  record \<open>world\<close>: the \<open>LIMITS\<close> namespace, the JWKS cache, the PoP cache and the background
  work handed to \<open>waitUntil\<close>.
\<close>

section \<open>Bindings\<close>

text \<open>
  An R2 object. A body stream is its bytes. \<open>r2_json\<close> tells whether the object offers
  \<open>json()\<close>, as the real binding does; a mock may not.
\<close>

record R2Object =
  r2_body :: "string option"
  r2_httpEtag :: "string option"
  r2_uploaded :: "int option"
  r2_size :: "rat option"
  r2_json :: bool

text \<open>\<open>await BUCKET.get(key)\<close>: the error it rejects with, or the object or \<open>null\<close>.\<close>

type_synonym bucket = "string \<Rightarrow> R2Object option result"

record Env =
  ROUTES :: "kv_binding \<times> kv_store"
  BUCKET :: bucket
  EDGE_JWKS_URL :: "string option"
  APP_AUTHZ_URL :: "string option"
  RATE_LIMITER :: "(string \<Rightarrow> bool option) option"
  LIMITS :: "kv_binding option"
  REVOKED :: "(kv_binding \<times> kv_store) option"
  RATE_LIMIT_MAX :: "string option"
  RATE_LIMIT_WINDOW_SECONDS :: "string option"
  POSTHOG_KEY :: "string option"
  POSTHOG_HOST :: "string option"
  ENVIRONMENT :: "string option"
  VISIT_SALT :: "string option"
  ATTRIBUTION_BANNER :: "string option"

text \<open>
  The side channels: whether a PoP cache is available, whether background work can be scheduled,
  the fetch for the JWKS, the clock the request is decided by (\<open>opts.now ?? new Date()\<close>) and
  the clock of the reports (\<open>new Date()\<close>), in milliseconds.
\<close>

record ServeOptions =
  so_cache :: bool
  so_waitUntil :: bool
  so_fetchImpl :: fetch_like
  so_now :: int
  so_clock :: int

section \<open>The state of an isolate\<close>

text \<open>
  An event posted by background work: the address it is posted to and its payload, before
  \<open>JSON.stringify\<close>.
\<close>

type_synonym posted_event = "string \<times> json"

type_synonym pop_cache = "string \<Rightarrow> response option"

record world =
  w_limits :: kv_store
  w_jwks :: jwks_cache
  w_pop :: pop_cache
  w_events :: "posted_event list"

definition empty_world :: world where
  "empty_world = \<lparr>w_limits = Map.empty, w_jwks = Map.empty, w_pop = Map.empty, w_events = []\<rparr>"

definition emit :: "posted_event option \<Rightarrow> world \<Rightarrow> world" where
  "emit ev w = (case ev of Some e \<Rightarrow> w\<lparr>w_events := w_events w @ [e]\<rparr> | None \<Rightarrow> w)"

lemma emit_state [simp]:
  "w_limits (emit ev w) = w_limits w" "w_jwks (emit ev w) = w_jwks w" "w_pop (emit ev w) = w_pop w"
  by (simp_all add: emit_def split: option.splits)

section \<open>A cache interface\<close>

text \<open>
  The two caches of the isolate share a contract: a put is seen by the next match of its key and
  by no other. What a run of puts can make visible under a key is proved once.
\<close>

locale kv_cache =
  fixes match :: "'c \<Rightarrow> string \<Rightarrow> 'v option"
    and put :: "'c \<Rightarrow> string \<Rightarrow> 'v \<Rightarrow> 'c"
    and empty :: 'c
  assumes match_empty: "match empty k = None"
    and match_put: "match (put c k v) k' = (if k = k' then Some v else match c k')"
begin

fun puts :: "'c \<Rightarrow> (string \<times> 'v) list \<Rightarrow> 'c" where
  "puts c [] = c"
| "puts c ((k, v) # r) = puts (put c k v) r"

lemma match_puts_in: "match (puts c r) k = Some v \<Longrightarrow> match c k = Some v \<or> (k, v) \<in> set r"
proof (induction r arbitrary: c)
  case (Cons kv r)
  obtain k' v' where kv: "kv = (k', v')" by (cases kv)
  with Cons.IH [of "put c k' v'"] Cons.prems show ?case by (auto simp: match_put split: if_splits)
qed simp

lemma match_puts_all:
  assumes "\<And>k v. match c k = Some v \<Longrightarrow> P k v" and "\<And>k v. (k, v) \<in> set r \<Longrightarrow> P k v"
    and "match (puts c r) k = Some v"
  shows "P k v"
  using match_puts_in [OF assms(3)] assms(1,2) by blast

end

definition map_put :: "(string \<Rightarrow> 'v option) \<Rightarrow> string \<Rightarrow> 'v \<Rightarrow> (string \<Rightarrow> 'v option)" where
  "map_put m k v = m(k \<mapsto> v)"

interpretation popc: kv_cache "\<lambda>(c :: pop_cache) k. c k" map_put Map.empty
  by unfold_locales (auto simp: map_put_def)

interpretation jwksc: kv_cache "\<lambda>(c :: jwks_cache) k. c k" map_put Map.empty
  by unfold_locales (auto simp: map_put_def)

end
