(* ===== verification/Banner.thy ===== *)
theory Banner
  imports Security Env
begin

text \<open>
  \<open>edge/serving-worker/src/banner.ts\<close>: the attribution banner and the insertion of markup
  after the opening body tag. The lower-cased copy the source scans is aligned with the original
  because lower-casing is by ASCII letter here; a document that contains U+0130, whose lower
  case is longer, is outside the model. The interface \<open>markup_inserter\<close> carries the one fact
  the content-length arithmetic needs: the function only inserts.
\<close>

section \<open>Definitions\<close>

definition FREE_TIER :: string where
  "FREE_TIER = ''free''"

definition BANNER_MARKUP :: string where
  \<open>BANNER_MARKUP =
     ''<div id="dropway-banner" role="complementary" aria-label="Deployed with '' @
     ''Dropway" style="box-sizing:border-box;position:sticky;top:0;left:0;right:0;'' @
     ''z-index:2147483647;display:flex;align-items:center;justify-content:center;'' @
     ''gap:8px;width:100%;padding:6px 36px;margin:0;font:13px/1.4 -apple-system,BlinkMacSystemFont,'Seg'' @
     ''oe UI',Roboto,Helvetica,Arial,sans-serif;color:#1f2937;background:#f3f4f6;'' @
     ''border-bottom:1px solid #e5e7eb;text-align:center;"><span>Deployed with '' @
     ''<a href="https://dropway.dev" target="_blank" rel="noopener noreferrer" '' @
     ''style="color:#4f46e5;font-weight:600;text-decoration:none;">Dropway</a></span>'' @
     ''<button type="button" aria-label="Dismiss" onclick="try{localStorage.setItem('dropway-banner-dis'' @
     ''missed','1')}catch(e){}this.parentNode.remove()" style="position:absolute;'' @
     ''right:8px;top:50%;transform:translateY(-50%);background:none;border:0;color:#6b7280;'' @
     ''font-size:16px;line-height:1;cursor:pointer;padding:2px 6px;">&times;</button>'' @
     ''</div><script>(function(){try{if(localStorage.getItem('dropway-banner-dismissed')==='1'){var '' @
     ''b=document.getElementById('dropway-banner');if(b)b.parentNode.removeChild(b);'' @
     ''}}catch(e){}})();</script>''\<close>

definition BANNER_BYTE_LENGTH :: nat where
  "BANNER_BYTE_LENGTH = length BANNER_MARKUP"

definition bannerEnabled :: "string option \<Rightarrow> bool" where
  "bannerEnabled flag =
     (case flag of
        None \<Rightarrow> False
      | Some f \<Rightarrow> if f = [] then False
                  else toLowerCase (js_trim f) \<in> {''1'', ''true'', ''yes'', ''on''})"

text \<open>\<open>route.plan_tier?.trim().toLowerCase()\<close>.\<close>

definition norm_tier :: "string option \<Rightarrow> string option" where
  "norm_tier t = map_option (\<lambda>s. toLowerCase (js_trim s)) t"

definition shouldInjectBanner :: "Env \<Rightarrow> KVRouteValue \<Rightarrow> string \<Rightarrow> bool" where
  "shouldInjectBanner env route servedPath =
     (bannerEnabled (ATTRIBUTION_BANNER env) \<and> norm_tier (plan_tier route) = Some FREE_TIER \<and> isHtml servedPath)"

text \<open>The first match of \<open>/charset=([^;]+)/i\<close>: its group, if there is one.\<close>

fun charset_of :: "string \<Rightarrow> string option" where
  "charset_of [] = None"
| "charset_of (c # cs) =
     (if startsWith (toLowerCase (c # cs)) ''charset='' \<and>
         takeWhile (\<lambda>x. x \<noteq> CHR '';'') (drop 8 (c # cs)) \<noteq> []
      then Some (takeWhile (\<lambda>x. x \<noteq> CHR '';'') (drop 8 (c # cs)))
      else charset_of cs)"

text \<open>\<open>s.replace(/^["']|["']$/g, "")\<close>.\<close>

definition is_quote :: "char \<Rightarrow> bool" where
  "is_quote c \<longleftrightarrow> c = CHR 0x22 \<or> c = CHR 0x27"

definition strip_quotes :: "string \<Rightarrow> string" where
  "strip_quotes s =
     (let t = (case s of c # cs \<Rightarrow> if is_quote c then cs else s | [] \<Rightarrow> s)
      in if t \<noteq> [] \<and> is_quote (last t) then butlast t else t)"

definition isInjectableContentType :: "string option \<Rightarrow> bool" where
  "isInjectableContentType contentType =
     (case contentType of
        None \<Rightarrow> True
      | Some ct \<Rightarrow>
          if ct = [] then True
          else (case charset_of ct of
                  None \<Rightarrow> True
                | Some m \<Rightarrow> strip_quotes (toLowerCase (js_trim m)) \<in> {''utf-8'', ''utf8'', ''us-ascii'', ''ascii''}))"

text \<open>\<open>tagEnd\<close>: the number of characters up to and including the closing bracket.\<close>

fun tagEnd :: "char option \<Rightarrow> string \<Rightarrow> nat option" where
  "tagEnd q [] = None"
| "tagEnd (Some q) (c # cs) = map_option Suc (tagEnd (if c = q then None else Some q) cs)"
| "tagEnd None (c # cs) =
     (if is_quote c then map_option Suc (tagEnd (Some c) cs)
      else if c = CHR ''>'' then Some 1
      else map_option Suc (tagEnd None cs))"

text \<open>A real body tag: the name ends after \<open><body\<close>, or the document does.\<close>

definition body_tag_here :: "string \<Rightarrow> bool" where
  "body_tag_here lower \<longleftrightarrow> startsWith lower ''<body'' \<and>
     (case drop 5 lower of [] \<Rightarrow> True
      | after # _ \<Rightarrow> after = CHR ''>'' \<or> after = CHR ''/'' \<or> is_ws after)"

text \<open>
  The scan of \<open>bodyOpenEnd\<close> from a position: the rest of the document and of its lower-cased
  copy, and the position itself.
\<close>

function body_scan :: "string \<Rightarrow> string \<Rightarrow> nat \<Rightarrow> nat option" where
  "body_scan html lower i =
     (if lower = [] then None
      else if startsWith lower ''<!--'' then
        (case indexOf (drop 4 lower) ''-->'' of
           None \<Rightarrow> None
         | Some e \<Rightarrow> body_scan (drop (4 + e + 3) html) (drop (4 + e + 3) lower) (i + 4 + e + 3))
      else if body_tag_here lower then map_option ((+) i) (tagEnd None html)
      else body_scan (tl html) (tl lower) (Suc i))"
  by auto
termination
  by (relation "measure (\<lambda>(html, lower, i). length lower)") auto

declare body_scan.simps [simp del]

definition bodyOpenEnd :: "string \<Rightarrow> nat option" where
  "bodyOpenEnd html = body_scan html (toLowerCase html) 0"

definition injectAfterBodyOpen :: "string \<Rightarrow> string \<Rightarrow> string" where
  "injectAfterBodyOpen html markup =
     (case bodyOpenEnd html of
        None \<Rightarrow> markup @ html
      | Some pos \<Rightarrow> take pos html @ markup @ drop pos html)"

definition injectBanner :: "string \<Rightarrow> string" where
  "injectBanner html = injectAfterBodyOpen html BANNER_MARKUP"

section \<open>Insertion\<close>

text \<open>
  The interface of an injection: the result is the document with the markup inserted at one
  position. Everything a caller derives about lengths and about the surviving document follows.
\<close>

locale markup_inserter =
  fixes inject :: "string \<Rightarrow> string" and markup :: string
  assumes inserts: "\<exists>u v. html = u @ v \<and> inject html = u @ markup @ v"
begin

lemma length_inject: "length (inject html) = length html + length markup"
  using inserts [of html] by auto

lemma inject_contains: "str_includes (inject html) markup"
  using inserts [of html] by (auto simp: str_includes_iff)

end

lemma injectAfterBodyOpen_inserts:
  "\<exists>u v. html = u @ v \<and> injectAfterBodyOpen html markup = u @ markup @ v"
proof (cases "bodyOpenEnd html")
  case None
  then show ?thesis by (intro exI [of _ "[]"] exI [of _ html]) (simp add: injectAfterBodyOpen_def)
next
  case (Some pos)
  then show ?thesis
    by (intro exI [of _ "take pos html"] exI [of _ "drop pos html"]) (simp add: injectAfterBodyOpen_def)
qed

interpretation banner: markup_inserter injectBanner BANNER_MARKUP
  by unfold_locales (simp add: injectBanner_def injectAfterBodyOpen_inserts)

section \<open>Where the markup goes\<close>

text \<open>Quote-aware reading of a tag: the state after a prefix of it.\<close>

fun tag_quote :: "char option \<Rightarrow> string \<Rightarrow> char option" where
  "tag_quote q [] = q"
| "tag_quote (Some q) (c # cs) = tag_quote (if c = q then None else Some q) cs"
| "tag_quote None (c # cs) = tag_quote (if is_quote c then Some c else None) cs"

lemma tagEnd_spec:
  "tagEnd q s = Some n \<Longrightarrow>
   \<exists>pre rest. s = pre @ CHR ''>'' # rest \<and> n = Suc (length pre) \<and> tag_quote q pre = None"
proof (induction q s arbitrary: n rule: tagEnd.induct)
  case (2 q c cs)
  then obtain m where m: "tagEnd (if c = q then None else Some q) cs = Some m" "n = Suc m" by auto
  from 2(1) [OF m(1)] obtain pre rest where "cs = pre @ CHR ''>'' # rest" "m = Suc (length pre)"
    "tag_quote (if c = q then None else Some q) pre = None" by blast
  with m(2) show ?case by (intro exI [of _ "c # pre"] exI [of _ rest]) simp
next
  case (3 c cs)
  show ?case
  proof (cases "\<not> is_quote c \<and> c = CHR ''>''")
    case True
    then have c: "\<not> is_quote c" "c = CHR ''>''" by auto
    with "3.prems" have "n = 1" by (simp only: tagEnd.simps if_False if_True option.inject simp_thms)
    with c have "c # cs = [] @ CHR ''>'' # cs \<and> n = Suc (length ([] :: string)) \<and> tag_quote None [] = None"
      by simp
    then show ?thesis by blast
  next
    case False
    then obtain m where m: "tagEnd (if is_quote c then Some c else None) cs = Some m" "n = Suc m"
      using "3.prems" by (auto split: if_splits)
    then obtain pre rest where "cs = pre @ CHR ''>'' # rest" "m = Suc (length pre)"
      "tag_quote (if is_quote c then Some c else None) pre = None"
      using 3 False by (cases "is_quote c") auto
    with m show ?thesis by (intro exI [of _ "c # pre"] exI [of _ rest]) auto
  qed
qed simp

text \<open>
  The part of the document that the scan has passed: ordinary characters, none of which opens a
  comment, and whole comments.
\<close>

inductive passed :: "string \<Rightarrow> string \<Rightarrow> bool" where
  passed_end: "passed [] rest"
| passed_comment: "indexOf (drop 4 (toLowerCase (c @ s @ rest))) ''-->'' = Some e \<Longrightarrow> length c = 4 + e + 3 \<Longrightarrow>
     startsWith (c @ s @ rest) ''<!--'' \<Longrightarrow> passed s rest \<Longrightarrow> passed (c @ s) rest"
| passed_char: "\<not> startsWith (c # s @ rest) ''<!--'' \<Longrightarrow> passed s rest \<Longrightarrow> passed (c # s) rest"

lemma startsWith_lower_comment: "startsWith (toLowerCase s) ''<!--'' = startsWith s ''<!--''"
proof -
  have "lower_char c = CHR ''<'' \<longleftrightarrow> c = CHR ''<''" "lower_char c = CHR ''!'' \<longleftrightarrow> c = CHR ''!''"
    "lower_char c = CHR ''-'' \<longleftrightarrow> c = CHR ''-''" for c
    by (auto simp: lower_char_def Let_def dest!: arg_cong [where f = "of_char :: char \<Rightarrow> nat"])
  then show ?thesis
    by (cases s; cases "tl s"; cases "tl (tl s)"; cases "tl (tl (tl s))") (auto simp: toLowerCase_def)
qed

lemma drop_toLowerCase: "drop n (toLowerCase s) = toLowerCase (drop n s)"
  by (simp add: toLowerCase_def drop_map)

lemma body_tag_prefix:
  assumes "startsWith (toLowerCase (tag @ CHR ''>'' # rest)) ''<body''"
  shows "startsWith (toLowerCase (tag @ ''>'')) ''<body''"
proof -
  obtain z where z: "toLowerCase (tag @ ''>'') @ toLowerCase rest = ''<body'' @ z"
    using assms by (auto simp: startsWith_iff toLowerCase_def)
  have "5 \<le> length (tag @ ''>'')"
  proof (rule ccontr)
    assume "\<not> 5 \<le> length (tag @ ''>'')"
    then have "length tag < 4" by simp
    then have "(''<body'' @ z) ! length tag \<noteq> CHR ''>''"
      by (auto simp: less_Suc_eq numeral_eq_Suc)
    moreover have "(toLowerCase (tag @ ''>'') @ toLowerCase rest) ! length tag = CHR ''>''"
      by (simp add: toLowerCase_def nth_append lower_char_def)
    ultimately show False using z by simp
  qed
  then have len: "length ''<body'' \<le> length (toLowerCase (tag @ ''>''))" by simp
  have "take 5 (toLowerCase (tag @ ''>'')) = ''<body''"
    using arg_cong [OF z, of "take 5"] len by simp
  then show ?thesis unfolding startsWith_iff by (metis append_take_drop_id)
qed

lemma body_scan_unfold:
  "startsWith lower ''<!--'' \<Longrightarrow> body_scan html lower i =
     (case indexOf (drop 4 lower) ''-->'' of None \<Rightarrow> None
      | Some e \<Rightarrow> body_scan (drop (4 + e + 3) html) (drop (4 + e + 3) lower) (i + 4 + e + 3))"
  "\<not> startsWith lower ''<!--'' \<Longrightarrow> body_tag_here lower \<Longrightarrow>
     body_scan html lower i = map_option ((+) i) (tagEnd None html)"
  "lower \<noteq> [] \<Longrightarrow> \<not> startsWith lower ''<!--'' \<Longrightarrow> \<not> body_tag_here lower \<Longrightarrow>
     body_scan html lower i = body_scan (tl html) (tl lower) (Suc i)"
proof -
  have ne: "lower \<noteq> []" if "startsWith lower (p # ps)" for p ps using that by (cases lower) auto
  show "body_scan html lower i =
     (case indexOf (drop 4 lower) ''-->'' of None \<Rightarrow> None
      | Some e \<Rightarrow> body_scan (drop (4 + e + 3) html) (drop (4 + e + 3) lower) (i + 4 + e + 3))"
    if c: "startsWith lower ''<!--''"
    using ne [OF c] c by (simp only: body_scan.simps [of html lower i] if_False if_True simp_thms)
  show "body_scan html lower i = map_option ((+) i) (tagEnd None html)"
    if nc: "\<not> startsWith lower ''<!--''" and b: "body_tag_here lower"
  proof -
    have "lower \<noteq> []" using b ne by (auto simp: body_tag_here_def)
    with nc b show ?thesis by (simp only: body_scan.simps [of html lower i] if_False if_True simp_thms)
  qed
  show "body_scan html lower i = body_scan (tl html) (tl lower) (Suc i)"
    if "lower \<noteq> []" "\<not> startsWith lower ''<!--''" "\<not> body_tag_here lower"
    using that by (simp only: body_scan.simps [of html lower i] if_False if_True simp_thms)
qed

lemma body_scan_spec:
  "lower = toLowerCase html \<Longrightarrow> body_scan html lower i = Some pos \<Longrightarrow>
   \<exists>before tag rest. html = before @ tag @ CHR ''>'' # rest \<and> pos = i + length before + length tag + 1 \<and>
     startsWith (toLowerCase (tag @ ''>'')) ''<body'' \<and> tag_quote None tag = None \<and>
     passed before (tag @ CHR ''>'' # rest)"
proof (induction html lower i arbitrary: pos rule: body_scan.induct)
  case (1 html lower i)
  note lo = "1.prems"(1)
  have ne: "html \<noteq> []"
    using "1.prems" by (cases html) (simp_all add: body_scan.simps [of "[]" "[]"] toLowerCase_def)
  have lne: "lower \<noteq> []" using ne lo by (simp add: toLowerCase_def)
  show ?case
  proof (cases "startsWith lower ''<!--''")
    case True
    then obtain e where e: "indexOf (drop 4 lower) ''-->'' = Some e"
      and r: "body_scan (drop (4 + e + 3) html) (drop (4 + e + 3) lower) (i + 4 + e + 3) = Some pos"
      using "1.prems"(2) body_scan_unfold(1) [OF True] by (auto split: option.splits)
    have len: "4 + e + 3 \<le> length html"
      using indexOf_Some_bound [OF e] lo by simp
    have dl: "drop (4 + e + 3) lower = toLowerCase (drop (4 + e + 3) html)"
      by (simp only: lo drop_toLowerCase)
    obtain before tag rest where b: "drop (4 + e + 3) html = before @ tag @ CHR ''>'' # rest"
      "pos = (i + 4 + e + 3) + length before + length tag + 1"
      "startsWith (toLowerCase (tag @ ''>'')) ''<body''" "tag_quote None tag = None"
      "passed before (tag @ CHR ''>'' # rest)"
      using "1.IH"(1) [OF lne True e dl r] by blast
    let ?c = "take (4 + e + 3) html"
    have h: "html = ?c @ before @ tag @ CHR ''>'' # rest" using b(1) by (metis append_take_drop_id)
    have "passed (?c @ before) (tag @ CHR ''>'' # rest)"
    proof (rule passed_comment)
      show "indexOf (drop 4 (toLowerCase (?c @ before @ tag @ CHR ''>'' # rest))) ''-->'' = Some e"
        using e lo h by metis
      show "length ?c = 4 + e + 3" using len by simp
      show "startsWith (?c @ before @ tag @ CHR ''>'' # rest) ''<!--''"
        using True lo h startsWith_lower_comment by metis
    qed (rule b(5))
    moreover have "pos = i + length (?c @ before) + length tag + 1" using b(2) len by simp
    moreover have "html = (?c @ before) @ tag @ CHR ''>'' # rest" using h by simp
    ultimately show ?thesis using b(3,4) by blast
  next
    case notc: False
    show ?thesis
    proof (cases "body_tag_here lower")
      case True
      then obtain n where n: "tagEnd None html = Some n" "pos = i + n"
        using "1.prems"(2) body_scan_unfold(2) [OF notc True] by auto
      from tagEnd_spec [OF n(1)] obtain tag rest where t: "html = tag @ CHR ''>'' # rest"
        "n = Suc (length tag)" "tag_quote None tag = None" by auto
      have "startsWith (toLowerCase (tag @ ''>'')) ''<body''"
        using True lo t(1) by (intro body_tag_prefix [of _ rest]) (simp add: body_tag_here_def)
      moreover have "passed [] (tag @ CHR ''>'' # rest)" by (rule passed_end)
      ultimately show ?thesis using t n by (intro exI [of _ "[]"] exI [of _ tag] exI [of _ rest]) simp
    next
      case False
      have r: "body_scan (tl html) (tl lower) (Suc i) = Some pos"
        using "1.prems"(2) body_scan_unfold(3) [OF lne notc False] by metis
      have tl_lo: "tl lower = toLowerCase (tl html)" using lo by (simp add: toLowerCase_def map_tl)
      obtain before tag rest where b: "tl html = before @ tag @ CHR ''>'' # rest"
        "pos = Suc i + length before + length tag + 1"
        "startsWith (toLowerCase (tag @ ''>'')) ''<body''" "tag_quote None tag = None"
        "passed before (tag @ CHR ''>'' # rest)"
        using "1.IH"(2) [OF lne notc False tl_lo r] by blast
      obtain c where c: "html = c # tl html" using ne by (cases html) auto
      have "passed (c # before) (tag @ CHR ''>'' # rest)"
        using notc lo c b(1,5) startsWith_lower_comment [of html] by (metis passed_char)
      then show ?thesis using b c
        by (intro exI [of _ "c # before"] exI [of _ tag] exI [of _ rest]) simp
    qed
  qed
qed

section \<open>Properties\<close>

text \<open>
  Placement of the injected markup: it is inserted once and nothing is removed; when the
  document has a body tag, the insertion point is directly behind the bracket that closes the
  first body tag outside every comment, and that bracket is not inside a quoted attribute value.
\<close>

theorem markup_goes_behind_the_body_tag:
  assumes "bodyOpenEnd html = Some n"
  shows "\<exists>before tag rest. html = before @ tag @ CHR ''>'' # rest \<and> passed before (tag @ CHR ''>'' # rest) \<and>
     startsWith (toLowerCase (tag @ ''>'')) ''<body'' \<and> tag_quote None tag = None \<and>
     injectAfterBodyOpen html markup = before @ tag @ ''>'' @ markup @ rest"
proof -
  obtain before tag rest where *: "html = before @ tag @ CHR ''>'' # rest"
    "n = length before + length tag + 1" "startsWith (toLowerCase (tag @ ''>'')) ''<body''"
    "tag_quote None tag = None" "passed before (tag @ CHR ''>'' # rest)"
    using body_scan_spec [OF refl assms [unfolded bodyOpenEnd_def]] by auto
  have "injectAfterBodyOpen html markup = before @ tag @ ''>'' @ markup @ rest"
    using assms *(1,2) by (simp add: injectAfterBodyOpen_def)
  with * show ?thesis by blast
qed

theorem markup_goes_behind_the_body_tag_witness:
  "\<exists>before tag rest. injectAfterBodyOpen ''<!-- <body> --><BODY a='>'>x'' ''M'' = before @ tag @ ''>'' @ ''M'' @ rest \<and>
     startsWith (toLowerCase (tag @ ''>'')) ''<body'' \<and> tag_quote None tag = None"
proof -
  have "bodyOpenEnd ''<!-- <body> --><BODY a='>'>x'' = Some 27" by code_simp
  from markup_goes_behind_the_body_tag [OF this] show ?thesis by blast
qed

end
