(* ===== verification/Html.thy ===== *)
theory Html
  imports Web
begin

text \<open>
  HTML escaping, as the page renderers of \<open>listing.ts\<close>, \<open>markdown.ts\<close>, \<open>chat.ts\<close> (one
  identical function \<open>esc\<close>) and \<open>embed.ts\<close> (\<open>escapeHtml\<close>) do it: a chain of global
  replacements, the ampersand first. The interface \<open>html_escape\<close> states what the renderers
  rely on, and both functions are shown to provide it.
\<close>

section \<open>Definitions\<close>

definition esc :: "string \<Rightarrow> string" where
  "esc s =
     replace_all_char (CHR 0x27) ''&#39;''
       (replace_all_char (CHR 0x22) ''&quot;''
         (replace_all_char (CHR ''>'') ''&gt;''
           (replace_all_char (CHR ''<'') ''&lt;''
             (replace_all_char (CHR ''&'') ''&amp;'' s))))"

definition escapeHtml :: "string \<Rightarrow> string" where
  "escapeHtml s =
     replace_all_char (CHR 0x22) ''&quot;''
       (replace_all_char (CHR ''>'') ''&gt;''
         (replace_all_char (CHR ''<'') ''&lt;''
           (replace_all_char (CHR ''&'') ''&amp;'' s)))"

section \<open>The interface\<close>

text \<open>
  An escaping function works character by character, never lets a markup character through, and
  its images form a prefix code, so that distinct texts stay distinct.
\<close>

locale html_escape =
  fixes escape :: "string \<Rightarrow> string" and table :: "char \<Rightarrow> string"
  assumes escape_table: "escape s = concat (map table s)"
    and table_safe: "x \<in> set (table c) \<Longrightarrow> x \<noteq> CHR ''<'' \<and> x \<noteq> CHR ''>'' \<and> x \<noteq> CHR 0x22"
    and table_prefix: "table c @ u = table d @ v \<Longrightarrow> c = d \<and> u = v"
    and table_ne: "table c \<noteq> []"
begin

lemma escape_append: "escape (s @ t) = escape s @ escape t"
  by (simp add: escape_table)

lemma escape_no_markup:
  "CHR ''<'' \<notin> set (escape s)" "CHR ''>'' \<notin> set (escape s)" "CHR 0x22 \<notin> set (escape s)"
  using table_safe by (fastforce simp: escape_table)+

lemma escape_inj: "escape s = escape t \<Longrightarrow> s = t"
proof (induction s arbitrary: t)
  case Nil
  then show ?case using table_ne by (cases t) (auto simp: escape_table)
next
  case (Cons c s)
  then obtain d t' where t: "t = d # t'" using table_ne by (cases t) (auto simp: escape_table)
  with Cons.prems have "table c @ escape s = table d @ escape t'" by (simp add: escape_table)
  from table_prefix [OF this] Cons.IH t show ?case by blast
qed

end

section \<open>The two functions provide it\<close>

definition esc_char :: "char \<Rightarrow> string" where
  "esc_char c =
     (if c = CHR ''&'' then ''&amp;'' else if c = CHR ''<'' then ''&lt;''
      else if c = CHR ''>'' then ''&gt;'' else if c = CHR 0x22 then ''&quot;''
      else if c = CHR 0x27 then ''&#39;'' else [c])"

definition escapeHtml_char :: "char \<Rightarrow> string" where
  "escapeHtml_char c =
     (if c = CHR ''&'' then ''&amp;'' else if c = CHR ''<'' then ''&lt;''
      else if c = CHR ''>'' then ''&gt;'' else if c = CHR 0x22 then ''&quot;'' else [c])"

lemma replace_all_char_concat:
  "replace_all_char c r (concat (map f s)) = concat (map (\<lambda>x. replace_all_char c r (f x)) s)"
  by (induction s) (simp_all add: replace_all_char_def)

lemma replace_all_char_map: "replace_all_char c r s = concat (map (\<lambda>x. if x = c then r else [x]) s)"
  by (simp add: replace_all_char_def)

lemma esc_table: "esc s = concat (map esc_char s)"
proof -
  have "replace_all_char (CHR 0x27) ''&#39;'' (replace_all_char (CHR 0x22) ''&quot;''
       (replace_all_char (CHR ''>'') ''&gt;'' (replace_all_char (CHR ''<'') ''&lt;''
       (if x = CHR ''&'' then ''&amp;'' else [x])))) = esc_char x" for x
    by (simp add: replace_all_char_def esc_char_def)
  then show ?thesis
    unfolding esc_def by (simp add: replace_all_char_map [of "CHR ''&''"] replace_all_char_concat)
qed

lemma escapeHtml_table: "escapeHtml s = concat (map escapeHtml_char s)"
proof -
  have "replace_all_char (CHR 0x22) ''&quot;'' (replace_all_char (CHR ''>'') ''&gt;''
       (replace_all_char (CHR ''<'') ''&lt;'' (if x = CHR ''&'' then ''&amp;'' else [x]))) = escapeHtml_char x" for x
    by (simp add: replace_all_char_def escapeHtml_char_def)
  then show ?thesis
    unfolding escapeHtml_def by (simp add: replace_all_char_map [of "CHR ''&''"] replace_all_char_concat)
qed

interpretation esc5: html_escape esc esc_char
  by unfold_locales (auto simp: esc_table esc_char_def split: if_splits)

interpretation esc4: html_escape escapeHtml escapeHtml_char
  by unfold_locales (auto simp: escapeHtml_table escapeHtml_char_def split: if_splits)

lemma esc_no_apostrophe: "CHR 0x27 \<notin> set (esc s)"
  by (auto simp: esc_table esc_char_def split: if_splits)

lemma esc_chars: "x \<in> set (esc s) \<Longrightarrow> x \<in> set s \<or> x \<in> set ''&amp;lt;gt;quot;#39;''"
  by (auto simp: esc_table esc_char_def split: if_splits)

lemma esc_id: "(\<And>c. c \<in> set s \<Longrightarrow> c \<notin> {CHR ''&'', CHR ''<'', CHR ''>'', CHR 0x22, CHR 0x27}) \<Longrightarrow> esc s = s"
  by (induction s) (auto simp: esc_table esc_char_def)

end
