(* ===== verification/Embed.thy ===== *)
theory Embed
  imports Banner Html
begin

text \<open>
  \<open>edge/serving-worker/src/embed.ts\<close>: the embed opt-in, the badge entitlement, the badge
  injection and the placeholder shown instead of a gated site.
\<close>

section \<open>Definitions\<close>

definition EMBED_QUERY_PARAM :: string where
  "EMBED_QUERY_PARAM = ''embed''"

definition EMBED_BADGE_PARAM :: string where
  "EMBED_BADGE_PARAM = ''badge''"

definition BADGE_REMOVABLE_TIERS :: "string list" where
  "BADGE_REMOVABLE_TIERS = [''pro'', ''business'', ''enterprise'']"

definition isEmbedRequested :: "url \<Rightarrow> bool" where
  "isEmbedRequested url = params_has url EMBED_QUERY_PARAM"

definition badgeRemovable :: "string option \<Rightarrow> bool" where
  "badgeRemovable planTier =
     (case norm_tier planTier of Some t \<Rightarrow> t \<in> set BADGE_REMOVABLE_TIERS | None \<Rightarrow> False)"

definition badgeSuppressed :: "url \<Rightarrow> bool" where
  "badgeSuppressed url =
     (case params_get url EMBED_BADGE_PARAM of
        None \<Rightarrow> False
      | Some v \<Rightarrow> toLowerCase (js_trim v) \<in> {''0'', ''false'', ''off'', ''no''})"

definition shouldShowEmbedBadge :: "KVRouteValue \<Rightarrow> url \<Rightarrow> bool" where
  "shouldShowEmbedBadge route url =
     (case norm_tier (plan_tier route) of
        None \<Rightarrow> False
      | Some tier \<Rightarrow>
          if tier = [] then False
          else if badgeRemovable (Some tier) \<and> badgeSuppressed url then False
          else True)"

definition EMBED_BADGE_MARKUP :: string where
  \<open>EMBED_BADGE_MARKUP =
     ''<a id="dropway-embed-badge" href="https://dropway.dev" target="_blank" rel="noopener '' @
     ''noreferrer" aria-label="Powered by Dropway" style="position:fixed;bottom:8px;'' @
     ''right:8px;z-index:2147483647;box-sizing:border-box;display:inline-flex;align-items:center;'' @
     ''gap:5px;padding:4px 9px;border-radius:6px;font:11px/1 -apple-system,BlinkMacSystemFont,'Segoe '' @
     ''UI',Roboto,Helvetica,Arial,sans-serif;font-weight:600;color:#4f46e5;background:rgba(255,255,255,'' @
     ''0.92);border:1px solid #e5e7eb;text-decoration:none;box-shadow:0 1px 2px '' @
     ''rgba(0,0,0,0.08);">Powered by Dropway</a>''\<close>

definition EMBED_BADGE_BYTE_LENGTH :: nat where
  "EMBED_BADGE_BYTE_LENGTH = length EMBED_BADGE_MARKUP"

definition injectEmbedBadge :: "string \<Rightarrow> string" where
  "injectEmbedBadge html = injectAfterBodyOpen html EMBED_BADGE_MARKUP"

definition isInjectableEmbedBadge :: "string \<Rightarrow> string option \<Rightarrow> bool" where
  "isInjectableEmbedBadge servedPath contentType = (isHtml servedPath \<and> isInjectableContentType contentType)"

definition renderEmbedGateHtml :: "string \<Rightarrow> string" where
  \<open>renderEmbedGateHtml siteUrl =
     ''<!doctype html>\<newline>'' @
     ''<html lang="en">\<newline>'' @
     ''<head>\<newline>'' @
     ''<meta charset="utf-8">\<newline>'' @
     ''<meta name="viewport" content="width=device-width, initial-scale=1">\<newline>'' @
     ''<title>Private site</title>\<newline>'' @
     ''<style>\<newline>'' @
     ''  :root { color-scheme: light dark; }\<newline>'' @
     ''  html, body { height: 100%; }\<newline>'' @
     ''  body { margin: 0; font: 15px/1.6 -apple-system, BlinkMacSystemFont, "Segoe '' @
     ''UI",\<newline>'' @
     ''         Roboto, Helvetica, Arial, sans-serif;\<newline>'' @
     ''         display: grid; place-items: center; padding: 1.5rem; }\<newline>'' @
     ''  main { text-align: center; max-width: 22rem; }\<newline>'' @
     ''  .lock { font-size: 1.75rem; line-height: 1; margin-bottom: .5rem; }\<newline>'' @
     ''  h1 { font-size: 1.05rem; margin: 0 0 .35rem; }\<newline>'' @
     ''  p { opacity: .7; margin: 0 0 1rem; font-size: .9rem; }\<newline>'' @
     ''  a.cta { display: inline-block; padding: .5rem 1rem; border-radius: .5rem;\<newline>'' @
     ''          background: #4f46e5; color: #fff; text-decoration: none;\<newline>'' @
     ''          font-weight: 600; font-size: .9rem; }\<newline>'' @
     ''</style>\<newline>'' @
     ''</head>\<newline>'' @
     ''<body>\<newline>'' @
     ''  <main>\<newline>'' @
     ''    <div class="lock" aria-hidden="true">'' @
     [CHR 0xF0, CHR 0x9F, CHR 0x94, CHR 0x92] @
     ''</div>\<newline>'' @
     ''    <h1>This site is private</h1>\<newline>'' @
     ''    <p>You need to sign in to view this content.</p>\<newline>'' @
     ''    <a class="cta" href="'' @
     escapeHtml siteUrl @
     ''" target="_blank" rel="noopener noreferrer">Sign in to view</a>\<newline>'' @
     ''  </main>\<newline>'' @
     ''</body>\<newline>'' @
     ''</html>\<newline>''\<close>

definition embedGatePlaceholder :: "string \<Rightarrow> response" where
  "embedGatePlaceholder siteUrl =
     mk_response (Some (renderEmbedGateHtml siteUrl)) 200
       (new_headers ([(''Content-Type'', ''text/html; charset=utf-8''), (''Cache-Control'', ''no-store'')] @
          framablePlatformSecurityHeaders))"

section \<open>Lemmas\<close>

interpretation badge: markup_inserter injectEmbedBadge EMBED_BADGE_MARKUP
  by unfold_locales (simp add: injectEmbedBadge_def injectAfterBodyOpen_inserts)

text \<open>Only an entitled tier can remove the badge.\<close>

lemma badge_removal_is_entitled:
  "norm_tier (plan_tier route) = Some tier \<Longrightarrow> tier \<noteq> [] \<Longrightarrow> \<not> shouldShowEmbedBadge route url \<Longrightarrow>
   badgeRemovable (Some tier) \<and> badgeSuppressed url"
  by (auto simp: shouldShowEmbedBadge_def split: if_splits)

lemma embedGatePlaceholder_posture:
  "resp_status (embedGatePlaceholder u) = 200"
  "hardened (resp_headers (embedGatePlaceholder u))" "framable (resp_headers (embedGatePlaceholder u))"
  by (simp_all add: embedGatePlaceholder_def headers_of_append headers_of_framable hs.get_put lower_names)

end
