(* ===== verification/Revoke.thy ===== *)
theory Revoke
  imports Web
begin

text \<open>
  \<open>edge/serving-worker/src/revoke.ts\<close>: the hard-revocation denylist. An entry written by the
  API invalidates every token issued before its \<open>min_iat\<close>; the check runs over the three
  dimensions user, site and org, and fails closed. The lemmas connect the check to the JSON text
  the API writes, through the parser.
\<close>

section \<open>Definitions\<close>

definition REVOKED_USER_PREFIX :: string where
  "REVOKED_USER_PREFIX = ''revoked:user:''"

definition REVOKED_SITE_PREFIX :: string where
  "REVOKED_SITE_PREFIX = ''revoked:site:''"

definition REVOKED_ORG_PREFIX :: string where
  "REVOKED_ORG_PREFIX = ''revoked:org:''"

record RevokedEntry =
  min_iat :: rat

definition parseRevokedEntry :: "string option \<Rightarrow> RevokedEntry option" where
  "parseRevokedEntry raw =
     (case raw of
        None \<Rightarrow> None
      | Some r \<Rightarrow>
          (let trimmed = js_trim r
           in if trimmed = [] then None
              else
                (let minIat =
                   (if startsWith trimmed ''{'' then
                      (case JSON_parse trimmed of
                         Some (JObj obj) \<Rightarrow> as_finite (jprop obj ''min_iat'')
                       | _ \<Rightarrow> None)
                    else map_option of_int (parseInt10 trimmed))
                 in (case minIat of
                       Some m \<Rightarrow> if m < 0 then None else Some \<lparr>min_iat = m\<rparr>
                     | None \<Rightarrow> None))))"

record denylist_keys =
  user_key :: string
  site_key :: string
  org_key :: string

definition denylistKeys :: "string \<Rightarrow> string \<Rightarrow> string \<Rightarrow> denylist_keys" where
  "denylistKeys sub siteId orgId =
     \<lparr>user_key = REVOKED_USER_PREFIX @ sub, site_key = REVOKED_SITE_PREFIX @ siteId,
      org_key = REVOKED_ORG_PREFIX @ orgId\<rparr>"

record RevocationSubject =
  rs_sub :: string
  rs_siteId :: string
  rs_orgId :: string
  rs_iat :: rat

text \<open>The loop over the three raw values.\<close>

fun any_entry_revokes :: "string option list \<Rightarrow> rat \<Rightarrow> bool" where
  "any_entry_revokes [] iat = False"
| "any_entry_revokes (raw # rest) iat =
     (case parseRevokedEntry raw of
        Some entry \<Rightarrow> if iat < min_iat entry then True else any_entry_revokes rest iat
      | None \<Rightarrow> any_entry_revokes rest iat)"

definition isRevoked :: "(kv_binding \<times> kv_store) option \<Rightarrow> RevocationSubject \<Rightarrow> bool" where
  "isRevoked kv subject =
     (case kv of
        None \<Rightarrow> True
      | Some (b, store) \<Rightarrow>
          (let keys = denylistKeys (rs_sub subject) (rs_siteId subject) (rs_orgId subject)
           in (case (kv_get b store (user_key keys), kv_get b store (site_key keys),
                     kv_get b store (org_key keys)) of
                 (Some userRaw, Some siteRaw, Some orgRaw) \<Rightarrow>
                   any_entry_revokes [userRaw, siteRaw, orgRaw] (rs_iat subject)
               | _ \<Rightarrow> True)))"

section \<open>The entries the API writes\<close>

text \<open>The contract's envelope \<open>{"min_iat":n}\<close> with \<open>n\<close> in unix seconds.\<close>

definition denylist_value :: "nat \<Rightarrow> string" where
  "denylist_value n = JSON_stringify_flat [(''min_iat'', FNum n)]"

definition subject_keys :: "RevocationSubject \<Rightarrow> string set" where
  "subject_keys s = {''revoked:user:'' @ rs_sub s, ''revoked:site:'' @ rs_siteId s, ''revoked:org:'' @ rs_orgId s}"

lemma js_trim_edges:
  assumes "s \<noteq> []" "\<not> is_ws (hd s)" "\<not> is_ws (last s)"
  shows "js_trim s = s"
proof -
  have "dropWhile is_ws s = s" using assms by (cases s) auto
  moreover have "dropWhile is_ws (rev s) = rev s"
    using assms by (cases s rule: rev_cases) auto
  ultimately show ?thesis by (simp add: js_trim_def)
qed

lemma parse_denylist_value:
  assumes "n < 2 ^ 1000"
  shows "parseRevokedEntry (Some (denylist_value n)) = Some \<lparr>min_iat = of_nat n\<rparr>"
proof -
  let ?v = "denylist_value n"
  have v: "?v = CHR ''{'' # join '','' (map flat_member [(''min_iat'', FNum n)]) @ ''}''"
    by (simp add: denylist_value_def JSON_stringify_flat_def)
  have "js_trim ?v = ?v"
    by (rule js_trim_edges) (simp_all add: v is_ws_def)
  moreover have "JSON_parse ?v = Some (JObj [(''min_iat'', JNum (Fin (of_nat n)))])"
    using JSON_parse_stringify_flat [of "[(''min_iat'', FNum n)]"] assms by (simp add: denylist_value_def)
  moreover have "startsWith ?v ''{''" "?v \<noteq> []" by (simp_all add: v)
  ultimately show ?thesis by (simp add: parseRevokedEntry_def Let_def)
qed

lemma any_entry_revokes_iff:
  "any_entry_revokes raws iat \<longleftrightarrow>
   (\<exists>raw \<in> set raws. \<exists>e. parseRevokedEntry raw = Some e \<and> iat < min_iat e)"
  by (induction raws) (auto split: option.splits)

lemma isRevoked_iff:
  "isRevoked (Some (b, store)) s \<longleftrightarrow>
   (\<exists>k \<in> subject_keys s. kv_get_fails b k \<or>
      (\<exists>e. parseRevokedEntry (store k) = Some e \<and> rs_iat s < min_iat e))"
  by (auto simp: isRevoked_def denylistKeys_def subject_keys_def kv_get_def any_entry_revokes_iff
      REVOKED_USER_PREFIX_def REVOKED_SITE_PREFIX_def REVOKED_ORG_PREFIX_def simp del: any_entry_revokes.simps)

section \<open>Properties\<close>

text \<open>
  Revocation is enforced: as soon as the API has written \<open>{"min_iat":n}\<close> under the
  user, the site or the org of a token issued before \<open>n\<close>, the token is rejected, whatever the
  other two entries hold and whichever reads fail.
\<close>

theorem written_denylist_entry_revokes:
  assumes "k \<in> subject_keys s" and "store k = Some (denylist_value n)"
    and "n < 2 ^ 1000" and "rs_iat s < of_nat n"
  shows "isRevoked (Some (b, store)) s"
  unfolding isRevoked_iff using assms parse_denylist_value [OF assms(3)]
  by (auto intro!: bexI [of _ k])

theorem written_denylist_entry_revokes_witness:
  "isRevoked (Some (\<lparr>kv_get_fails = (\<lambda>_. False), kv_put_fails = (\<lambda>_. True)\<rparr>,
       [''revoked:org:o1'' \<mapsto> denylist_value 1700000000, ''revoked:user:u1'' \<mapsto> ''garbage'']))
     \<lparr>rs_sub = ''u1'', rs_siteId = ''s1'', rs_orgId = ''o1'', rs_iat = 1699999999\<rparr>"
  by (rule written_denylist_entry_revokes [where k = "''revoked:org:o1''" and n = 1700000000])
     (simp_all add: subject_keys_def)

text \<open>
  The check fails closed: a token is rejected when no denylist is configured, and one that
  passes has had all three of its entries read successfully, none of them newer than the token.
\<close>

theorem revocation_fails_closed:
  "isRevoked None s \<and>
   (\<not> isRevoked (Some (b, store)) s \<longrightarrow>
      (\<forall>k \<in> subject_keys s. \<not> kv_get_fails b k \<and>
         (\<forall>e. parseRevokedEntry (store k) = Some e \<longrightarrow> min_iat e \<le> rs_iat s)))"
  by (auto simp: isRevoked_iff isRevoked_def [of None] not_less)

theorem revocation_fails_closed_witness:
  "\<not> isRevoked (Some (good_binding, [''revoked:user:u1'' \<mapsto> '' 5 '']))
      \<lparr>rs_sub = ''u1'', rs_siteId = ''s1'', rs_orgId = ''o1'', rs_iat = 7\<rparr> \<and>
   (\<exists>e. parseRevokedEntry (Some '' 5 '') = Some e \<and> min_iat e \<le> 7)"
proof -
  let ?s = "\<lparr>rs_sub = ''u1'', rs_siteId = ''s1'', rs_orgId = ''o1'', rs_iat = 7\<rparr> :: RevocationSubject"
  let ?st = "[''revoked:user:u1'' \<mapsto> '' 5 ''] :: kv_store"
  have nr: "\<not> isRevoked (Some (good_binding, ?st)) ?s" by code_simp
  have k: "''revoked:user:u1'' \<in> subject_keys ?s" by (simp add: subject_keys_def)
  have "\<forall>e. parseRevokedEntry (?st ''revoked:user:u1'') = Some e \<longrightarrow> min_iat e \<le> rs_iat ?s"
    using revocation_fails_closed [of ?s good_binding ?st] nr k by blast
  moreover have "parseRevokedEntry (Some '' 5 '') = Some \<lparr>min_iat = 5\<rparr>" by code_simp
  ultimately show ?thesis using nr by simp
qed

text \<open>
  The check is exact: in a namespace whose three entries are absent or written by the API,
  a token is rejected exactly when one of them has \<open>min_iat > iat\<close>.
\<close>

theorem revocation_is_exact:
  assumes h: "healthy b"
    and w: "\<And>k. k \<in> subject_keys s \<Longrightarrow> store k = map_option denylist_value (written k)"
    and small: "\<And>k n. written k = Some n \<Longrightarrow> n < 2 ^ 1000"
  shows "isRevoked (Some (b, store)) s \<longleftrightarrow>
     (\<exists>k \<in> subject_keys s. \<exists>n. written k = Some n \<and> rs_iat s < of_nat n)"
proof -
  have "(\<exists>e. parseRevokedEntry (store k) = Some e \<and> rs_iat s < min_iat e) \<longleftrightarrow>
      (\<exists>n. written k = Some n \<and> rs_iat s < of_nat n)" if "k \<in> subject_keys s" for k
    using w [OF that] small [of k] parse_denylist_value
    by (cases "written k") (auto simp: parseRevokedEntry_def [of None])
  with h show ?thesis by (auto simp: isRevoked_iff healthy_def)
qed

theorem revocation_is_exact_witness:
  "\<not> isRevoked (Some (good_binding, [''revoked:site:s1'' \<mapsto> denylist_value 1000]))
      \<lparr>rs_sub = ''u1'', rs_siteId = ''s1'', rs_orgId = ''o1'', rs_iat = 1000\<rparr>"
proof -
  let ?s = "\<lparr>rs_sub = ''u1'', rs_siteId = ''s1'', rs_orgId = ''o1'', rs_iat = 1000\<rparr> :: RevocationSubject"
  let ?w = "[''revoked:site:s1'' \<mapsto> 1000] :: string \<Rightarrow> nat option"
  let ?st = "[''revoked:site:s1'' \<mapsto> denylist_value 1000] :: kv_store"
  have "isRevoked (Some (good_binding, ?st)) ?s \<longleftrightarrow>
      (\<exists>k \<in> subject_keys ?s. \<exists>n. ?w k = Some n \<and> rs_iat ?s < of_nat n)"
    by (rule revocation_is_exact [OF healthy_good, of ?s ?st ?w]) (auto split: if_splits)
  then show ?thesis by (auto split: if_splits)
qed

text \<open>
  In particular a token minted in the very second \<open>min_iat\<close> passes, where the comment in the
  loop of \<open>isRevoked\<close> says that it is revoked.
\<close>

lemma boundary_second_is_not_revoked:
  assumes "healthy b" "n < 2 ^ 1000" "rs_iat s = of_nat n"
    and "\<And>k. k \<in> subject_keys s \<Longrightarrow> store k = None \<or> store k = Some (denylist_value n)"
  shows "\<not> isRevoked (Some (b, store)) s"
proof -
  have "min_iat e \<le> rs_iat s" if k: "k \<in> subject_keys s" and e: "parseRevokedEntry (store k) = Some e" for k e
    using assms(4) [OF k] e parse_denylist_value [OF assms(2)] assms(3)
    by (auto simp: parseRevokedEntry_def [of None])
  with assms(1) show ?thesis by (fastforce simp: isRevoked_iff healthy_def)
qed

end
