(* ===== verification/Authz.thy ===== *)
theory Authz
  imports Env Revoke Security
begin

text \<open>
  The gated serving path: \<open>config.ts\<close>, \<open>authz.ts\<close> and \<open>gated.ts\<close> of
  \<open>edge/serving-worker/src\<close>. A gated request is served only after its edge cookie verified and
  passed the denylist; everything else is a redirect to the exchange. The lemmas show the
  redirect targets safe, every gated response private, and the protected content unreachable
  without a genuine token.
\<close>

section \<open>Configuration (\<open>config.ts\<close>)\<close>

definition EDGE_COOKIE_NAME :: string where
  "EDGE_COOKIE_NAME = ''__Host-edge''"

definition DEFAULT_APP_AUTHZ_URL :: string where
  "DEFAULT_APP_AUTHZ_URL = ''https://app.dropway.dev/authz''"

definition DEFAULT_EDGE_JWKS_URL :: string where
  "DEFAULT_EDGE_JWKS_URL = ''https://api.dropway.dev/.well-known/edge-jwks''"

record GatedConfig =
  jwksUrl :: string
  appAuthzUrl :: string
  issuer :: string

definition readVar :: "string option \<Rightarrow> string option" where
  "readVar v =
     (case v of None \<Rightarrow> None | Some s \<Rightarrow> (let t = js_trim s in if t = [] then None else Some t))"

definition gatedConfig :: "Env \<Rightarrow> GatedConfig" where
  "gatedConfig env =
     \<lparr>jwksUrl = (case readVar (EDGE_JWKS_URL env) of Some u \<Rightarrow> u | None \<Rightarrow> DEFAULT_EDGE_JWKS_URL),
      appAuthzUrl = (case readVar (APP_AUTHZ_URL env) of Some u \<Rightarrow> u | None \<Rightarrow> DEFAULT_APP_AUTHZ_URL),
      issuer = EDGE_TOKEN_ISSUER\<rparr>"

section \<open>The exchange (\<open>authz.ts\<close>)\<close>

definition AUTHZ_CALLBACK_PATH :: string where
  "AUTHZ_CALLBACK_PATH = ''/__authz/callback''"

definition isAuthzCallback :: "string \<Rightarrow> bool" where
  "isAuthzCallback pathname = (pathname = AUTHZ_CALLBACK_PATH)"

definition no_store :: string where
  "no_store = ''private, no-store, max-age=0, must-revalidate''"

definition noStoreHeaders :: headers where
  "noStoreHeaders =
     header_set (header_set (new_headers securityHeaders) ''Cache-Control'' no_store) ''Vary'' ''Cookie''"

fun find_edge_cookie :: "string list \<Rightarrow> string option" where
  "find_edge_cookie [] = None"
| "find_edge_cookie (part # parts) =
     (case indexOf part ''='' of
        None \<Rightarrow> find_edge_cookie parts
      | Some eq \<Rightarrow>
          if js_trim (take eq part) = EDGE_COOKIE_NAME
          then (let v = js_trim (drop (Suc eq) part) in if v = [] then None else Some v)
          else find_edge_cookie parts)"

definition readEdgeCookie :: "request \<Rightarrow> string option" where
  "readEdgeCookie request =
     (case header_get (req_headers request) ''Cookie'' of
        None \<Rightarrow> None
      | Some header \<Rightarrow> if header = [] then None else find_edge_cookie (split_on (CHR '';'') header))"

definition bad_next_char :: "char \<Rightarrow> bool" where
  "bad_next_char c = (let code = (of_char c :: nat) in code \<le> 32 \<or> code = 127)"

definition safeNextPath :: "string option \<Rightarrow> string" where
  "safeNextPath nxt =
     (case nxt of
        None \<Rightarrow> ''/''
      | Some n \<Rightarrow>
          if n = [] then ''/''
          else
            (case decodeURIComponent n of
               None \<Rightarrow> ''/''
             | Some candidate \<Rightarrow>
                 if \<not> startsWith candidate ''/'' then ''/''
                 else if startsWith candidate ''//'' then ''/''
                 else if str_includes candidate [CHR 0x5C] then ''/''
                 else if list_ex bad_next_char candidate then ''/''
                 else candidate))"

definition redirectToAuthz :: "runtime \<Rightarrow> GatedConfig \<Rightarrow> string \<Rightarrow> string \<Rightarrow> response result" where
  "redirectToAuthz rt cfg host nextPath =
     (case new_url rt (appAuthzUrl cfg) None of
        None \<Rightarrow> Inl (JsTypeError ''Invalid URL'')
      | Some url \<Rightarrow>
          (let url = params_set url ''host'' host;
               url = params_set url ''next'' (safeNextPath (Some nextPath));
               headers = header_set noStoreHeaders ''Location'' (url_href url)
           in Inr (mk_response None 302 headers)))"

definition edgeCookie :: "string \<Rightarrow> rat \<Rightarrow> string" where
  "edgeCookie token maxAgeSeconds =
     EDGE_COOKIE_NAME @ ''='' @ token @ ''; Path=/'' @ ''; Secure'' @ ''; HttpOnly'' @
     ''; SameSite=Lax'' @ ''; Max-Age='' @ int_to_string (max 0 \<lfloor>maxAgeSeconds\<rfloor>)"

definition EDGE_COOKIE_MAX_AGE :: rat where
  "EDGE_COOKIE_MAX_AGE = 15 * 60"

definition verifyTokenSafely ::
  "runtime \<Rightarrow> fetch_like \<Rightarrow> VerifyParams \<Rightarrow> world \<Rightarrow> EdgeClaims option \<times> world" where
  "verifyTokenSafely rt fetchImpl p w =
     (case verifyEdgeToken rt (w_jwks w) fetchImpl p of
        (Inr claims, cache) \<Rightarrow> (claims, w\<lparr>w_jwks := cache\<rparr>)
      | (Inl _, cache) \<Rightarrow> (None, w\<lparr>w_jwks := cache\<rparr>))"

definition route_params :: "string \<Rightarrow> KVRouteValue \<Rightarrow> url \<Rightarrow> GatedConfig \<Rightarrow> int \<Rightarrow> VerifyParams" where
  "route_params token route url cfg now =
     \<lparr>vp_token = token, vp_host = url_host url, vp_siteId = site_id route,
      vp_expectedMode = Some (access_mode route), vp_jwksUrl = jwksUrl cfg, vp_now = now\<rparr>"

definition handleAuthzCallback ::
  "runtime \<Rightarrow> KVRouteValue \<Rightarrow> url \<Rightarrow> GatedConfig \<Rightarrow> fetch_like \<Rightarrow> int \<Rightarrow> world \<Rightarrow> response result \<times> world" where
  "handleAuthzCallback rt route url cfg fetchImpl now w =
     (let token = (case params_get url ''token'' of Some t \<Rightarrow> t | None \<Rightarrow> []);
          nextPath = safeNextPath (params_get url ''next'');
          (claims, w') = (if token = [] then (None, w)
                          else verifyTokenSafely rt fetchImpl (route_params token route url cfg now) w)
      in (case claims of
            None \<Rightarrow> (redirectToAuthz rt cfg (url_host url) nextPath, w')
          | Some _ \<Rightarrow>
              (case new_url rt nextPath (Some (''https://'' @ url_host url)) of
                 None \<Rightarrow> (Inl (JsTypeError ''Invalid URL''), w')
               | Some target \<Rightarrow>
                   (let headers = header_set noStoreHeaders ''Set-Cookie'' (edgeCookie token EDGE_COOKIE_MAX_AGE);
                        headers = header_set headers ''Location'' (url_href target)
                    in (Inr (mk_response None 302 headers), w')))))"

definition authorizeGated ::
  "runtime \<Rightarrow> request \<Rightarrow> KVRouteValue \<Rightarrow> url \<Rightarrow> GatedConfig \<Rightarrow> fetch_like \<Rightarrow> int \<Rightarrow> world
   \<Rightarrow> EdgeClaims option \<times> world" where
  "authorizeGated rt request route url cfg fetchImpl now w =
     (case readEdgeCookie request of
        None \<Rightarrow> (None, w)
      | Some token \<Rightarrow> verifyTokenSafely rt fetchImpl (route_params token route url cfg now) w)"

definition asPrivate :: "headers \<Rightarrow> headers" where
  "asPrivate h =
     header_set (header_set (applyHeaders h securityHeaders) ''Cache-Control'' no_store) ''Vary'' ''Cookie''"

section \<open>The gate (\<open>gated.ts\<close>)\<close>

record GateOpts =
  go_cfg :: GatedConfig
  go_fetchImpl :: fetch_like
  go_now :: int

record GatedContent =
  serveContent :: "world \<Rightarrow> response result \<times> world"
  gc_revokedKV :: "(kv_binding \<times> kv_store) option"
  gc_orgId :: string

definition revocation_subject :: "EdgeClaims \<Rightarrow> string \<Rightarrow> RevocationSubject" where
  "revocation_subject claims orgId =
     \<lparr>rs_sub = ec_sub claims, rs_siteId = ec_site_id claims, rs_orgId = orgId, rs_iat = ec_iat claims\<rparr>"

definition serveGated ::
  "runtime \<Rightarrow> request \<Rightarrow> KVRouteValue \<Rightarrow> url \<Rightarrow> GateOpts \<Rightarrow> GatedContent \<Rightarrow> world
   \<Rightarrow> response result \<times> world" where
  "serveGated rt request route url opts content w =
     (if isAuthzCallback (url_pathname url)
      then handleAuthzCallback rt route url (go_cfg opts) (go_fetchImpl opts) (go_now opts) w
      else
        (case authorizeGated rt request route url (go_cfg opts) (go_fetchImpl opts) (go_now opts) w of
           (None, w') \<Rightarrow>
             (redirectToAuthz rt (go_cfg opts) (url_host url) (url_pathname url @ url_search url), w')
         | (Some claims, w') \<Rightarrow>
             if isRevoked (gc_revokedKV content) (revocation_subject claims (gc_orgId content))
             then (redirectToAuthz rt (go_cfg opts) (url_host url) (url_pathname url @ url_search url), w')
             else
               (case serveContent content w' of
                  (Inl e, w'') \<Rightarrow> (Inl e, w'')
                | (Inr response, w'') \<Rightarrow>
                    (Inr (mk_response (resp_body response) (resp_status response)
                            (asPrivate (resp_headers response))), w''))))"

section \<open>Redirect targets\<close>

text \<open>A same-origin path: one leading slash, no backslash, no control character and no space.\<close>

definition safe_path :: "string \<Rightarrow> bool" where
  "safe_path p \<longleftrightarrow> startsWith p ''/'' \<and> \<not> startsWith p ''//'' \<and> CHR 0x5C \<notin> set p \<and>
     (\<forall>c \<in> set p. 32 < (of_char c :: nat) \<and> (of_char c :: nat) \<noteq> 127)"

lemma safeNextPath_safe_path: "safe_path (safeNextPath n)"
proof -
  have root: "safe_path ''/''" by (simp add: safe_path_def)
  show ?thesis
    using root
    by (auto simp: safeNextPath_def safe_path_def bad_next_char_def Let_def list_ex_iff not_le
        simp del: startsWith.simps split: option.splits)
qed

text \<open>
  What the URL standard says of resolving such a path against an origin: the result keeps the
  origin's scheme and host.
\<close>

definition url_contract :: "runtime \<Rightarrow> bool" where
  "url_contract rt \<longleftrightarrow>
     (\<forall>host p u. CHR ''/'' \<notin> set host \<longrightarrow> safe_path p \<longrightarrow>
        new_url rt p (Some (''https://'' @ host)) = Some u \<longrightarrow>
        url_protocol u = ''https:'' \<and> url_host u = host)"

lemma sample_url_contract: "url_contract sample_runtime"
proof -
  have "url_protocol u = ''https:'' \<and> url_host u = host"
    if h: "CHR ''/'' \<notin> set host" and sp: "safe_path p"
      and nu: "sample_new_url p (Some (''https://'' @ host)) = Some u" for host p u
  proof -
    obtain q where p: "p = CHR ''/'' # q" using sp by (cases p) (auto simp: safe_path_def)
    have tw: "takeWhile (\<lambda>c. c \<noteq> CHR ''/'') (host @ CHR ''/'' # q) = host"
      using h by (subst takeWhile_append2) auto
    show ?thesis
      using nu tw by (auto simp: sample_new_url_def sample_parse_url_def p Let_def)
  qed
  then show ?thesis by (simp add: url_contract_def sample_runtime_def)
qed

section \<open>Privacy of gated responses\<close>

definition private_response :: "headers \<Rightarrow> bool" where
  "private_response h \<longleftrightarrow> header_get h ''Cache-Control'' = Some no_store \<and> header_get h ''Vary'' = Some ''Cookie''"

lemma private_simps:
  "private_response noStoreHeaders" "private_response (asPrivate h)"
  "private_response (header_set h' ''Location'' v) = private_response h'"
  "private_response (header_set h' ''Set-Cookie'' v) = private_response h'"
  by (simp_all add: private_response_def noStoreHeaders_def asPrivate_def hs.get_put lower_names)

lemma noStoreHeaders_posture:
  "hardened noStoreHeaders" "frame_denied noStoreHeaders" "hardened (asPrivate h)" "frame_denied (asPrivate h)"
  by (simp_all add: noStoreHeaders_def asPrivate_def header_set_neutral neutral_names securityHeaders_def
      applyHeaders_headers_of security_sets_nonempty headers_of_content)

lemma redirectToAuthz_Inr:
  assumes "redirectToAuthz rt cfg host p = Inr r"
  shows "resp_status r = 302" "resp_body r = None" "private_response (resp_headers r)"
    "hardened (resp_headers r)" "frame_denied (resp_headers r)"
  using assms
  by (auto simp: redirectToAuthz_def Let_def private_simps header_set_neutral neutral_names
      noStoreHeaders_posture split: option.splits)

lemma handleAuthzCallback_Inr:
  assumes "handleAuthzCallback rt route url cfg f now w = (Inr r, w')"
  shows "resp_status r = 302" "resp_body r = None" "private_response (resp_headers r)"
    "hardened (resp_headers r)" "frame_denied (resp_headers r)"
  using assms redirectToAuthz_Inr
  by (auto simp: handleAuthzCallback_def Let_def private_simps header_set_neutral neutral_names
      noStoreHeaders_posture split: option.splits prod.splits)

lemma verifyTokenSafely_world:
  "verifyTokenSafely rt f p w = (c, w') \<Longrightarrow>
   w_limits w' = w_limits w \<and> w_pop w' = w_pop w \<and> w_events w' = w_events w"
  by (auto simp: verifyTokenSafely_def split: prod.splits sum.splits)

lemma authorizeGated_world:
  "authorizeGated rt req route url cfg f now w = (c, w') \<Longrightarrow>
   w_limits w' = w_limits w \<and> w_pop w' = w_pop w \<and> w_events w' = w_events w"
  by (auto simp: authorizeGated_def dest: verifyTokenSafely_world split: option.splits)

lemma handleAuthzCallback_world:
  "handleAuthzCallback rt route url cfg f now w = (r, w') \<Longrightarrow>
   w_limits w' = w_limits w \<and> w_pop w' = w_pop w \<and> w_events w' = w_events w"
  by (auto simp: handleAuthzCallback_def Let_def dest: verifyTokenSafely_world
      split: option.splits prod.splits if_splits)

lemma verifyTokenSafely_Some:
  "verifyTokenSafely rt f p w = (Some c, w') \<Longrightarrow>
   verifyEdgeToken rt (w_jwks w) f p = (Inr (Some c), w_jwks w')"
  by (auto simp: verifyTokenSafely_def split: prod.splits sum.splits)

text \<open>A request that has not passed the gate never runs the content callback.\<close>

lemma serveGated_denied:
  assumes "\<And>c w'. authorizeGated rt req route url (go_cfg opts) (go_fetchImpl opts) (go_now opts) w = (Some c, w') \<Longrightarrow>
      isRevoked (gc_revokedKV content) (revocation_subject c (gc_orgId content))"
  shows "serveGated rt req route url opts content w =
         serveGated rt req route url opts (content\<lparr>serveContent := any\<rparr>) w"
  using assms by (auto simp: serveGated_def split: prod.splits option.splits)

lemma handleAuthzCallback_cookie:
  assumes "handleAuthzCallback rt route url cfg f now w = (Inr r, w')"
    and "header_get (resp_headers r) ''Set-Cookie'' \<noteq> None"
  obtains token c target where "params_get url ''token'' = Some token"
    "verifyEdgeToken rt (w_jwks w) f (route_params token route url cfg now) = (Inr (Some c), w_jwks w')"
    "header_get (resp_headers r) ''Set-Cookie'' = Some (edgeCookie token EDGE_COOKIE_MAX_AGE)"
    "new_url rt (safeNextPath (params_get url ''next'')) (Some (''https://'' @ url_host url)) = Some target"
    "header_get (resp_headers r) ''Location'' = Some (url_href target)"
proof -
  have nos: "header_get noStoreHeaders ''Set-Cookie'' = None"
    by (simp add: noStoreHeaders_def securityHeaders_def header_set_defs hs.get_put lower_names)
  let ?token = "case params_get url ''token'' of Some t \<Rightarrow> t | None \<Rightarrow> []"
  have "redirectToAuthz rt cfg (url_host url) (safeNextPath (params_get url ''next'')) \<noteq> Inr r"
    using assms(2) nos
    by (auto simp: redirectToAuthz_def Let_def hs.get_put lower_names split: option.splits)
  then obtain c where v: "verifyTokenSafely rt f (route_params ?token route url cfg now) w = (Some c, w')"
    and ne: "?token \<noteq> []"
    using assms(1)
    by (auto simp: handleAuthzCallback_def Let_def split: prod.splits option.splits if_splits)
  then obtain token where t: "params_get url ''token'' = Some token" "?token = token"
    by (auto split: option.splits)
  with v ne assms(1) obtain target where
    tg: "new_url rt (safeNextPath (params_get url ''next'')) (Some (''https://'' @ url_host url)) = Some target"
    and r: "r = mk_response None 302 (header_set (header_set noStoreHeaders ''Set-Cookie''
        (edgeCookie token EDGE_COOKIE_MAX_AGE)) ''Location'' (url_href target))"
    by (auto simp: handleAuthzCallback_def Let_def split: option.splits)
  show ?thesis
    by (rule that [OF t(1) _ _ tg])
       (use verifyTokenSafely_Some [OF v] t r in \<open>simp_all add: hs.get_put lower_names\<close>)
qed

section \<open>An example site\<close>

definition sample_url :: url where
  "sample_url = \<lparr>url_protocol = ''https:'', url_host = ''docs.example.com'', url_pathname = ''/guide'',
     url_search = [], url_hash = []\<rparr>"

definition sample_request :: "string \<Rightarrow> request" where
  "sample_request cookie =
     \<lparr>req_method = ''GET'', req_url = ''https://docs.example.com/guide'',
      req_headers = [(''cookie'', cookie)]\<rparr>"

definition sample_gate :: GateOpts where
  "sample_gate = \<lparr>go_cfg = \<lparr>jwksUrl = ''https://api/jwks'', appAuthzUrl = ''https://app/authz'',
     issuer = EDGE_TOKEN_ISSUER\<rparr>, go_fetchImpl = sample_fetch, go_now = 1500000\<rparr>"

definition sample_content :: "string \<Rightarrow> GatedContent" where
  "sample_content body =
     \<lparr>serveContent = (\<lambda>w. (Inr (mk_response (Some body) 200 []), w)),
      gc_revokedKV = Some (good_binding, Map.empty), gc_orgId = ''o1''\<rparr>"

section \<open>Properties\<close>

text \<open>
  C6. Confidentiality of gated content: if the protected bytes influence what a viewer receives
  in any way, the request carried an edge cookie that verified for this host, this site and the
  route's current access mode, and the denylist did not revoke it.
\<close>

theorem gated_content_needs_valid_token:
  assumes "serveGated rt request route url opts content w \<noteq>
           serveGated rt request route url opts (content\<lparr>serveContent := other\<rparr>) w"
  shows "\<exists>token claims cache'.
     readEdgeCookie request = Some token \<and>
     verifyEdgeToken rt (w_jwks w) (go_fetchImpl opts)
       \<lparr>vp_token = token, vp_host = url_host url, vp_siteId = site_id route,
        vp_expectedMode = Some (access_mode route), vp_jwksUrl = jwksUrl (go_cfg opts),
        vp_now = go_now opts\<rparr> = (Inr (Some claims), cache') \<and>
     ec_site_id claims = site_id route \<and> ec_mode claims = access_mode route \<and>
     \<not> isRevoked (gc_revokedKV content)
         \<lparr>rs_sub = ec_sub claims, rs_siteId = site_id route, rs_orgId = gc_orgId content,
          rs_iat = ec_iat claims\<rparr>"
proof -
  obtain c w' where a: "authorizeGated rt request route url (go_cfg opts) (go_fetchImpl opts) (go_now opts) w = (Some c, w')"
    and nr: "\<not> isRevoked (gc_revokedKV content) (revocation_subject c (gc_orgId content))"
    using assms serveGated_denied by metis
  from a obtain token where t: "readEdgeCookie request = Some token"
    "verifyTokenSafely rt (go_fetchImpl opts) (route_params token route url (go_cfg opts) (go_now opts)) w = (Some c, w')"
    by (auto simp: authorizeGated_def split: option.splits)
  note v = verifyTokenSafely_Some [OF t(2)]
  then obtain keys payload where "edge_claims (route_params token route url (go_cfg opts) (go_now opts)) payload = Some c"
    by (rule verifyEdgeToken_Some)
  note e = edge_claims_Some [OF this]
  show ?thesis
    using t(1) v e nr by (auto simp: route_params_def revocation_subject_def)
qed

theorem gated_content_needs_valid_token_witness:
  "\<exists>token (claims :: EdgeClaims). readEdgeCookie (sample_request ''a=b; __Host-edge=good'') = Some token \<and>
     ec_site_id claims = site_id sample_route \<and> ec_mode claims = access_mode sample_route"
proof -
  let ?w = "\<lparr>w_limits = Map.empty, w_jwks = Map.empty, w_pop = Map.empty, w_events = []\<rparr> :: world"
  let ?s = "\<lambda>c. serveGated sample_runtime (sample_request ''a=b; __Host-edge=good'') sample_route sample_url sample_gate c ?w"
  have "map_sum (\<lambda>e. ()) resp_body (fst (?s (sample_content ''secret''))) = Inr (Some ''secret'')"
    "map_sum (\<lambda>e. ()) resp_body (fst (?s (sample_content ''public''))) = Inr (Some ''public'')"
    by code_simp+
  then have "?s (sample_content ''secret'') \<noteq> ?s (sample_content ''public'')" by auto
  moreover have "sample_content ''public'' =
      (sample_content ''secret'')\<lparr>serveContent := serveContent (sample_content ''public'')\<rparr>"
    by (simp add: sample_content_def)
  ultimately have "?s (sample_content ''secret'') \<noteq>
      ?s ((sample_content ''secret'')\<lparr>serveContent := serveContent (sample_content ''public'')\<rparr>)"
    by simp
  from gated_content_needs_valid_token [OF this] show ?thesis by blast
qed

text \<open>
  C8. No gated response can be stored by a shared cache: whatever the gate answers, a redirect to
  the exchange, the callback's cookie or the protected document, it is marked
  \<open>private, no-store\<close> and varies on the cookie, and it carries the hardening headers and
  refuses to be framed.
\<close>

theorem gated_responses_are_private:
  assumes "serveGated rt request route url opts content w = (Inr r, w')"
  shows "header_get (resp_headers r) ''Cache-Control'' = Some ''private, no-store, max-age=0, must-revalidate'' \<and>
         header_get (resp_headers r) ''Vary'' = Some ''Cookie'' \<and>
         hardened (resp_headers r) \<and> frame_denied (resp_headers r)"
proof -
  have "private_response (resp_headers r) \<and> hardened (resp_headers r) \<and> frame_denied (resp_headers r)"
    using assms handleAuthzCallback_Inr [of rt route url "go_cfg opts" "go_fetchImpl opts" "go_now opts" w r w']
      redirectToAuthz_Inr [of rt "go_cfg opts" "url_host url" "url_pathname url @ url_search url" r]
    by (auto simp: serveGated_def private_simps noStoreHeaders_posture split: if_splits prod.splits option.splits sum.splits)
  then show ?thesis by (simp add: private_response_def no_store_def)
qed

theorem gated_responses_are_private_witness:
  "\<exists>r w'. serveGated sample_runtime (sample_request ''__Host-edge=bad'') sample_route sample_url sample_gate
       (sample_content ''secret'') empty_world = (Inr r, w') \<and>
     header_get (resp_headers r) ''Vary'' = Some ''Cookie''"
proof -
  let ?g = "serveGated sample_runtime (sample_request ''__Host-edge=bad'') sample_route sample_url sample_gate
       (sample_content ''secret'') empty_world"
  have "map_sum (\<lambda>e. ()) resp_status (fst ?g) = Inr 302" by code_simp
  then obtain r where "fst ?g = Inr r" by (cases "fst ?g") auto
  then have "?g = (Inr r, snd ?g)" by (metis prod.collapse)
  with gated_responses_are_private [OF this] show ?thesis by blast
qed

text \<open>
  C39. No open redirect and no unverified cookie: when the callback sets the edge cookie, the token
  in the URL verified for this route, the cookie is host-only, secure and invisible to scripts,
  and the viewer is sent to a path on the same host over https.
\<close>

theorem callback_redirect_stays_on_host:
  assumes "url_contract rt" and "CHR ''/'' \<notin> set (url_host url)"
    and "handleAuthzCallback rt route url cfg f now w = (Inr r, w')"
    and "header_get (resp_headers r) ''Set-Cookie'' = Some cookie"
  shows "\<exists>token claims target.
     params_get url ''token'' = Some token \<and>
     verifyEdgeToken rt (w_jwks w) f (route_params token route url cfg now) = (Inr (Some claims), w_jwks w') \<and>
     cookie = ''__Host-edge='' @ token @ ''; Path=/; Secure; HttpOnly; SameSite=Lax; Max-Age=900'' \<and>
     header_get (resp_headers r) ''Location'' = Some (url_href target) \<and>
     url_protocol target = ''https:'' \<and> url_host target = url_host url"
proof -
  from assms(4) have "header_get (resp_headers r) ''Set-Cookie'' \<noteq> None" by simp
  with assms(3) obtain token c target where *: "params_get url ''token'' = Some token"
    "verifyEdgeToken rt (w_jwks w) f (route_params token route url cfg now) = (Inr (Some c), w_jwks w')"
    "header_get (resp_headers r) ''Set-Cookie'' = Some (edgeCookie token EDGE_COOKIE_MAX_AGE)"
    "new_url rt (safeNextPath (params_get url ''next'')) (Some (''https://'' @ url_host url)) = Some target"
    "header_get (resp_headers r) ''Location'' = Some (url_href target)"
    by (rule handleAuthzCallback_cookie)
  have "url_protocol target = ''https:'' \<and> url_host target = url_host url"
    using assms(1,2) *(4) safeNextPath_safe_path unfolding url_contract_def by blast
  moreover have "int_to_string (max 0 \<lfloor>EDGE_COOKIE_MAX_AGE\<rfloor>) = ''900''" by code_simp
  then have "cookie = ''__Host-edge='' @ token @ ''; Path=/; Secure; HttpOnly; SameSite=Lax; Max-Age=900''"
    using *(3) assms(4) by (simp add: edgeCookie_def EDGE_COOKIE_NAME_def)
  ultimately show ?thesis using * by blast
qed

theorem callback_redirect_stays_on_host_witness:
  "\<exists>r w' target. handleAuthzCallback sample_runtime sample_route
       (sample_url\<lparr>url_pathname := ''/__authz/callback'', url_search := ''?token=good&next=%2F%2Fevil.com''\<rparr>)
       (go_cfg sample_gate) sample_fetch 1500000 empty_world = (Inr r, w') \<and>
     header_get (resp_headers r) ''Location'' = Some (url_href target) \<and> url_host target = ''docs.example.com''"
proof -
  let ?u = "sample_url\<lparr>url_pathname := ''/__authz/callback'', url_search := ''?token=good&next=%2F%2Fevil.com''\<rparr>"
  let ?g = "handleAuthzCallback sample_runtime sample_route ?u (go_cfg sample_gate) sample_fetch 1500000 empty_world"
  let ?ck = "''__Host-edge=good; Path=/; Secure; HttpOnly; SameSite=Lax; Max-Age=900''"
  have "map_sum (\<lambda>e. ()) (\<lambda>r. header_get (resp_headers r) ''Set-Cookie'') (fst ?g) = Inr (Some ?ck)" by code_simp
  then obtain r where r: "fst ?g = Inr r" "header_get (resp_headers r) ''Set-Cookie'' = Some ?ck"
    by (cases "fst ?g") auto
  have h: "CHR ''/'' \<notin> set (url_host ?u)" "url_host ?u = ''docs.example.com''" by code_simp+
  have "?g = (Inr r, snd ?g)" using r(1) by (metis prod.collapse)
  from callback_redirect_stays_on_host [OF sample_url_contract h(1) this r(2)] h(2) this show ?thesis by metis
qed

text \<open>
  \<open>safeNextPath\<close> always returns a same-host absolute path, and returns an ordinary path
  unchanged; but it decodes, so a path with an encoded percent sign or space does not survive the
  several applications along the exchange: \<open>/100%25\<close> becomes \<open>/100%\<close> on the first and
  \<open>/\<close> on the second.
\<close>

theorem safeNextPath_is_safe_but_decodes:
  "safe_path (safeNextPath n) \<and>
   (safe_path p \<and> CHR ''%'' \<notin> set p \<and> decodeURIComponent p = Some p \<longrightarrow> safeNextPath (Some p) = p) \<and>
   safeNextPath (Some ''/100%25'') = ''/100%'' \<and>
   safeNextPath (Some (safeNextPath (Some ''/100%25''))) = ''/''"
proof -
  have "safeNextPath (Some p) = p" if p: "safe_path p" "decodeURIComponent p = Some p"
    using p by (cases "p = []") (auto simp: safeNextPath_def safe_path_def bad_next_char_def Let_def
        list_ex_iff not_le startsWith_iff simp del: startsWith.simps)
  moreover have "safeNextPath (Some ''/100%25'') = ''/100%''"
    "safeNextPath (Some (safeNextPath (Some ''/100%25''))) = ''/''"
    by code_simp+
  ultimately show ?thesis using safeNextPath_safe_path by blast
qed

theorem safeNextPath_is_safe_but_decodes_witness: "safeNextPath (Some ''/blog/post?x=1'') = ''/blog/post?x=1''"
proof -
  have "safe_path ''/blog/post?x=1''" "CHR ''%'' \<notin> set ''/blog/post?x=1''"
    "decodeURIComponent ''/blog/post?x=1'' = Some ''/blog/post?x=1''"
    by code_simp+
  then show ?thesis using safeNextPath_is_safe_but_decodes [of None "''/blog/post?x=1''"] by blast
qed

end
