(* ===== verification/Llm.thy ===== *)
theory Llm
  imports Manifest
begin

text \<open>
  \<open>edge/serving-worker/src/llm.ts\<close>: crawler detection, \<open>robots.txt\<close> and the generated
  \<open>llms.txt\<close> index. \<open>Array.sort\<close> compares UTF-16 code units; on the byte representation the
  order is by code point, which differs only between characters beyond the basic plane and
  U+E000 to U+FFFF.
\<close>

section \<open>Definitions\<close>

definition AI_CRAWLER_UAS :: "string list" where
  "AI_CRAWLER_UAS =
     [''gptbot'', ''oai-searchbot'', ''chatgpt-user'', ''claudebot'', ''claude-web'', ''anthropic-ai'',
      ''perplexitybot'', ''perplexity-user'', ''ccbot'', ''google-extended'', ''googleother'',
      ''bytespider'', ''amazonbot'', ''applebot-extended'', ''meta-externalagent'',
      ''meta-externalfetcher'', ''facebookbot'', ''cohere-ai'', ''diffbot'', ''timpibot'', ''omgili'',
      ''youbot'']"

definition isAICrawler :: "string option \<Rightarrow> bool" where
  "isAICrawler ua =
     (case ua of
        None \<Rightarrow> False
      | Some u \<Rightarrow> if u = [] then False
                  else (let lower = toLowerCase u in list_ex (\<lambda>needle. str_includes lower needle) AI_CRAWLER_UAS))"

definition robotsTxtBody :: "bool \<Rightarrow> string" where
  "robotsTxtBody isPublic =
     (if isPublic then ''User-agent: *\<newline>Allow: /\<newline>'' else ''User-agent: *\<newline>Disallow: /\<newline>'')"

definition CRAWLER_BLOCKED_BODY :: string where
  \<open>CRAWLER_BLOCKED_BODY =
     ''403 Forbidden: this site is not public; AI crawlers are not permitted. Use '' @
     ''the Dropway MCP server for authorized access.\<newline>''\<close>

definition prettyUrlPath :: "string \<Rightarrow> string" where
  "prettyUrlPath p =
     (if p = ''index.html'' then ''/''
      else if endsWith p ''/index.html'' then ''/'' @ take (length p - length ''index.html'') p
      else if endsWith p ''.html'' then ''/'' @ take (length p - length ''.html'') p
      else ''/'' @ p)"

definition llms_pages :: "Manifest \<Rightarrow> string list" where
  "llms_pages manifest =
     sort (filter (\<lambda>p. p \<noteq> NOT_FOUND_PATH \<and> endsWith p ''.html'') (map fst (files manifest)))"

definition llms_line :: "string \<Rightarrow> string \<Rightarrow> string" where
  "llms_line origin p =
     (let urlPath = prettyUrlPath p in ''- ['' @ urlPath @ ''](''  @ origin @ urlPath @ '')\<newline>'')"

definition llmsTxtBody :: "string \<Rightarrow> Manifest \<Rightarrow> string \<Rightarrow> string" where
  "llmsTxtBody host manifest origin =
     ''# '' @ host @ ''\<newline>\<newline>'' @
     ''> Pages published on this site via Dropway. This index helps LLMs and agents discover the '' @
     ''public content available here.\<newline>\<newline>'' @
     ''## Pages\<newline>'' @
     concat (map (llms_line origin) (llms_pages manifest))"

section \<open>Links of the index\<close>

lemma llms_pages_set:
  "set (llms_pages m) = {p \<in> fst ` set (files m). p \<noteq> ''404.html'' \<and> endsWith p ''.html''}"
  by (auto simp: llms_pages_def NOT_FOUND_PATH_def)

lemma append_suffix_take: "endsWith p s \<Longrightarrow> take (length p - length s) p @ s = p"
  by (auto simp: endsWith_iff)

lemma hasExtension_html_stem:
  assumes "\<not> hasExtension q" "q \<noteq> []" "\<not> endsWith q ''/''"
  shows "candidatePaths q = [q, q @ ''/index.html'', q @ ''.html'']"
  using assms by (simp add: candidatePaths_def)

text \<open>
  The clean path of a generated link resolves to the page the link stands for, unless an earlier
  candidate of the same clean URL exists or the stem has an extension of its own.
\<close>

lemma pretty_path_resolves:
  assumes own: "map_of (files m) p = Some e" and html: "endsWith p ''.html''"
    and free: "\<And>q. p = q @ ''.html'' \<Longrightarrow> p \<noteq> ''index.html'' \<Longrightarrow> \<not> endsWith p ''/index.html'' \<Longrightarrow>
       q \<noteq> [] \<and> \<not> endsWith q ''/'' \<and> \<not> hasExtension q \<and> files_get m q = None \<and> files_get m (q @ ''/index.html'') = None"
  shows "resolveManifestEntry m (tl (prettyUrlPath p)) = Some (p, Entry e)"
proof -
  have get: "files_get m p = Some (Entry e)" using own by (rule files_get_own)
  show ?thesis
  proof (cases "p = ''index.html'' \<or> endsWith p ''/index.html''")
    case True
    then obtain d where p: "p = d @ ''index.html''" "d = [] \<or> endsWith d ''/''" "tl (prettyUrlPath p) = d"
    proof (elim disjE)
      assume "p = ''index.html''"
      then show ?thesis using that [of "[]"] by (simp add: prettyUrlPath_def)
    next
      assume e: "endsWith p ''/index.html''"
      then obtain t where t: "p = t @ ''/index.html''" by (auto simp: endsWith_iff)
      then have "p \<noteq> ''index.html''" by (cases t) auto
      then show ?thesis using that [of "t @ ''/''"] t e by (simp add: prettyUrlPath_def endsWith_char)
    qed
    then show ?thesis using get by (auto simp: resolveManifestEntry_def candidatePaths_def)
  next
    case False
    obtain q where q: "p = q @ ''.html''" using html by (auto simp: endsWith_iff)
    have "tl (prettyUrlPath p) = q" using False html q by (simp add: prettyUrlPath_def)
    moreover note free [OF q] False
    ultimately show ?thesis
      using get q by (simp add: resolveManifestEntry_def hasExtension_html_stem)
  qed
qed

section \<open>Properties\<close>

text \<open>
  The index links every HTML page of the manifest except the 404 page, and a link leads back
  to its page whenever no other file claims the same clean URL and the page's stem carries no
  extension of its own.
\<close>

theorem llms_index_links_resolve:
  assumes "p \<in> set (llms_pages m)" and "distinct (map fst (files m))"
    and "\<And>q. p = q @ ''.html'' \<Longrightarrow> p \<noteq> ''index.html'' \<Longrightarrow> \<not> endsWith p ''/index.html'' \<Longrightarrow>
       q \<noteq> [] \<and> \<not> endsWith q ''/'' \<and> \<not> hasExtension q \<and> files_get m q = None \<and> files_get m (q @ ''/index.html'') = None"
  shows "\<exists>e. map_of (files m) p = Some e \<and> str_includes (llmsTxtBody host m origin) (origin @ prettyUrlPath p) \<and>
           resolveManifestEntry m (tl (prettyUrlPath p)) = Some (p, Entry e)"
proof -
  from assms(1) have p: "p \<in> fst ` set (files m)" "endsWith p ''.html''" by (auto simp: llms_pages_set)
  then obtain e where e: "map_of (files m) p = Some e" by (metis map_of_eq_None_iff option.exhaust)
  obtain us vs where sp: "llms_pages m = us @ p # vs" using assms(1) by (meson split_list)
  have "str_includes (llmsTxtBody host m origin) (origin @ prettyUrlPath p)"
  proof -
    have "llmsTxtBody host m origin =
        (''# '' @ host @ ''\<newline>\<newline>'' @
         ''> Pages published on this site via Dropway. This index helps LLMs and agents discover the '' @
         ''public content available here.\<newline>\<newline>'' @ ''## Pages\<newline>'' @
         concat (map (llms_line origin) us) @ ''- ['' @ prettyUrlPath p @ ''](''  ) @
        (origin @ prettyUrlPath p) @ '')\<newline>'' @ concat (map (llms_line origin) vs)"
      by (simp add: llmsTxtBody_def sp llms_line_def Let_def)
    then show ?thesis unfolding str_includes_iff by blast
  qed
  moreover have "resolveManifestEntry m (tl (prettyUrlPath p)) = Some (p, Entry e)"
    by (rule pretty_path_resolves [OF e p(2) assms(3)])
  ultimately show ?thesis using e by blast
qed

theorem llms_index_links_resolve_witness:
  "\<exists>e. resolveManifestEntry sample_manifest (tl (prettyUrlPath ''guide.html'')) = Some (''guide.html'', Entry e)"
proof -
  have a: "''guide.html'' \<in> set (llms_pages sample_manifest)" "distinct (map fst (files sample_manifest))"
    by code_simp+
  have s: "\<not> hasExtension ''guide''" "\<not> endsWith ''guide'' ''/''" "files_get sample_manifest ''guide'' = None"
    "files_get sample_manifest (''guide'' @ ''/index.html'') = None"
    by code_simp+
  have "q = ''guide''" if "''guide.html'' = q @ ''.html''" for q
    using that append_eq_append_conv [of "''guide''" q "''.html''" "''.html''"] by simp
  then have "q \<noteq> [] \<and> \<not> endsWith q ''/'' \<and> \<not> hasExtension q \<and> files_get sample_manifest q = None \<and>
      files_get sample_manifest (q @ ''/index.html'') = None" if "''guide.html'' = q @ ''.html''" for q
    using that s by blast
  from llms_index_links_resolve [OF a this] show ?thesis by blast
qed

text \<open>
  A page whose stem contains a dot is listed under a dead link: \<open>release-1.2.html\<close> is
  indexed as \<open>/release-1.2\<close>, whose last part counts as an extension, so the resolver does not
  try \<open>.html\<close> and the link is a miss.
\<close>

theorem llms_index_dead_link:
  "llms_pages \<lparr>files = [(''release-1.2.html'', sample_entry)], files_proto = None\<rparr> = [''release-1.2.html''] \<and>
   prettyUrlPath ''release-1.2.html'' = ''/release-1.2'' \<and>
   resolveManifestEntry \<lparr>files = [(''release-1.2.html'', sample_entry)], files_proto = None\<rparr> ''release-1.2'' = None"
  by code_simp

end
