(* ===== verification/Listing.thy ===== *)
theory Listing
  imports Manifest Html
begin

text \<open>
  \<open>edge/serving-worker/src/listing.ts\<close>: the directory index synthesized from a manifest. The
  collation behind \<open>localeCompare\<close> is the platform's \<open>locale_le\<close>; the lemmas hold for every
  collation. The page links are shown to lead back to the files they stand for through the path
  sanitizer and the resolver.
\<close>

section \<open>Definitions\<close>

record ListingEntry =
  le_name :: string
  le_href :: string
  le_isDir :: bool
  le_size :: "rat option"

definition directoryPrefix :: "string \<Rightarrow> string" where
  "directoryPrefix cleanRelPath =
     (if cleanRelPath = [] \<or> endsWith cleanRelPath ''/'' then cleanRelPath else cleanRelPath @ ''/'')"

definition encodeHref :: "string \<Rightarrow> string" where
  "encodeHref key =
     (let trailing = endsWith key ''/'';
          encoded = join ''/'' (map encodeURIComponent (filter (\<lambda>s. s \<noteq> []) (split_on (CHR ''/'') key)))
      in ''/'' @ encoded @ (if trailing \<and> encoded \<noteq> [] then ''/'' else []))"

text \<open>The loop over the manifest: the subdirectory names and the file rows.\<close>

fun collect_children ::
  "string \<Rightarrow> (string \<times> ManifestEntry) list \<Rightarrow> string list \<times> ListingEntry list" where
  "collect_children dirPrefix [] = ([], [])"
| "collect_children dirPrefix ((key, entry) # es) =
     (let (dirs, files) = collect_children dirPrefix es
      in if dirPrefix \<noteq> [] \<and> \<not> startsWith key dirPrefix then (dirs, files)
         else
           (let rest = drop (length dirPrefix) key
            in if rest = [] then (dirs, files)
               else (case indexOf rest ''/'' of
                       None \<Rightarrow> (dirs, \<lparr>le_name = rest, le_href = encodeHref key, le_isDir = False,
                                        le_size = size entry\<rparr> # files)
                     | Some slash \<Rightarrow> (take slash rest # dirs, files))))"

definition dir_row :: "string \<Rightarrow> string \<Rightarrow> ListingEntry" where
  "dir_row dirPrefix d =
     \<lparr>le_name = d @ ''/'', le_href = encodeHref (dirPrefix @ d @ ''/''), le_isDir = True, le_size = None\<rparr>"

definition listDirectory :: "runtime \<Rightarrow> Manifest \<Rightarrow> string \<Rightarrow> ListingEntry list option" where
  "listDirectory rt manifest dirPrefix =
     (let (dirs, fs) = collect_children dirPrefix (files manifest)
      in if dirs = [] \<and> fs = [] then None
         else Some (map (dir_row dirPrefix) (sort (remdups dirs)) @
                    sort_by (\<lambda>a b. locale_le rt (le_name a) (le_name b)) fs))"

definition parentHref :: "string \<Rightarrow> string" where
  "parentHref dirPrefix =
     (let trimmed = (if endsWith dirPrefix ''/'' then butlast dirPrefix else dirPrefix)
      in (case lastIndexOf trimmed (CHR ''/'') of
            None \<Rightarrow> ''/''
          | Some idx \<Rightarrow> encodeHref (take (idx + 1) trimmed)))"

text \<open>
  \<open>v.toFixed(d)\<close>: the nearest decimal with \<open>d\<close> digits, the larger one of two. The division
  of a size by 1024 is exact on doubles.
\<close>

definition toFixed :: "nat \<Rightarrow> rat \<Rightarrow> string" where
  "toFixed d v =
     (let n = nat \<lfloor>v * 10 ^ d + 1 / 2\<rfloor>
      in if d = 0 then nat_to_string n
         else nat_to_string (n div 10 ^ d) @ ''.'' @ pad d (int (n mod 10 ^ d)))"

fun size_unit :: "rat \<Rightarrow> string list \<Rightarrow> rat \<times> string" where
  "size_unit v [] = (v, [])"
| "size_unit v [u] = (v, u)"
| "size_unit v (u # u' # us) = (if 1024 \<le> v then size_unit (v / 1024) (u' # us) else (v, u))"

definition formatSize :: "runtime \<Rightarrow> rat option \<Rightarrow> string" where
  "formatSize rt n =
     (case n of
        None \<Rightarrow> []
      | Some n \<Rightarrow>
          if n < 1024 then num_to_string rt n @ '' B''
          else (let (v, u) = size_unit (n / 1024) [''KB'', ''MB'', ''GB'', ''TB'']
                in toFixed (if v < 10 then 1 else 0) v @ '' '' @ u))"

definition listing_row :: "runtime \<Rightarrow> ListingEntry \<Rightarrow> string" where
  \<open>listing_row rt e =
     ''<tr><td><a'' @ (if le_isDir e then '' class="dir"'' else []) @ '' href="'' @ esc (le_href e) @
     ''">'' @ esc (le_name e) @ ''</a></td><td>'' @
     (if le_isDir e then [] else esc (formatSize rt (le_size e))) @ ''</td></tr>''\<close>

definition parent_row :: "string \<Rightarrow> string" where
  \<open>parent_row dirPrefix =
     ''<tr><td><a href="'' @ esc (parentHref dirPrefix) @ ''">Parent directory</a></td><td></td></tr>''\<close>

definition renderDirectoryListing :: "runtime \<Rightarrow> string \<Rightarrow> ListingEntry list \<Rightarrow> string" where
  \<open>renderDirectoryListing rt dirPrefix entries =
     (let display = ''/'' @ dirPrefix;
          rows = (if dirPrefix \<noteq> [] then [parent_row dirPrefix] else []) @ map (listing_row rt) entries
      in
     ''<!doctype html>\<newline>'' @
     ''<html lang="en">\<newline>'' @
     ''<head>\<newline>'' @
     ''<meta charset="utf-8">\<newline>'' @
     ''<meta name="viewport" content="width=device-width, initial-scale=1">\<newline>'' @
     ''<title>Index of '' @
     esc display @
     ''</title>\<newline>'' @
     ''<style>\<newline>'' @
     '':root { color-scheme: light dark; }\<newline>'' @
     ''body { font: 15px/1.5 -apple-system, BlinkMacSystemFont, "Segoe UI", Roboto, '' @
     ''Helvetica, Arial, sans-serif; margin: 0; padding: 0; background: #fafafa; '' @
     ''color: #1a1a1a; }\<newline>'' @
     ''header { position: sticky; top: 0; z-index: 10; display: flex; align-items: '' @
     ''center; gap: 0.75rem; min-height: 3.4rem; box-sizing: border-box; padding: '' @
     ''0.6rem 1.25rem; background: rgba(250,250,250,0.85); backdrop-filter: saturate(1.8) '' @
     ''blur(8px); border-bottom: 1px solid #e3e3e3; }\<newline>'' @
     ''header a.brand { display: inline-flex; align-items: center; gap: 0.45rem; '' @
     ''text-decoration: none; color: inherit; font-size: 0.9rem; font-weight: 700; '' @
     ''white-space: nowrap; }\<newline>'' @
     ''header a.brand:hover { text-decoration: none; }\<newline>'' @
     ''header a.brand svg { width: 1.3rem; height: 1.3rem; display: block; }\<newline>'' @
     ''main { max-width: 760px; margin: 0 auto; padding: 2.5rem 1.25rem; }\<newline>'' @
     ''h1 { font-size: 1.05rem; font-weight: 600; margin: 0 0 1.25rem; word-break: '' @
     ''break-all; }\<newline>'' @
     ''table { width: 100%; border-collapse: collapse; }\<newline>'' @
     ''th { text-align: left; font-size: 0.78rem; text-transform: uppercase; letter-spacing: '' @
     ''0.04em; color: #888; font-weight: 600; padding: 0 0 0.5rem; border-bottom: '' @
     ''1px solid #e3e3e3; }\<newline>'' @
     ''th:last-child, td:last-child { text-align: right; color: #888; font-variant-numeric: '' @
     ''tabular-nums; white-space: nowrap; }\<newline>'' @
     ''td { padding: 0.45rem 0; border-bottom: 1px solid #ededed; }\<newline>'' @
     ''a { color: #1a56db; text-decoration: none; word-break: break-all; }\<newline>'' @
     ''a:hover { text-decoration: underline; }\<newline>'' @
     ''a.dir { font-weight: 600; }\<newline>'' @
     ''footer { margin-top: 1.5rem; font-size: 0.8rem; color: #999; }\<newline>'' @
     ''@media (prefers-color-scheme: dark) {\<newline>'' @
     ''  body { background: #16181c; color: #e6e6e6; }\<newline>'' @
     ''  header { background: rgba(22,24,28,0.85); border-bottom-color: #2a2d34; '' @
     ''}\<newline>'' @
     ''  th { color: #8a8f98; border-bottom-color: #2a2d34; }\<newline>'' @
     ''  th:last-child, td:last-child { color: #8a8f98; }\<newline>'' @
     ''  td { border-bottom-color: #23262c; }\<newline>'' @
     ''  a { color: #6ea8ff; }\<newline>'' @
     ''  footer { color: #6a6f78; }\<newline>'' @
     ''}\<newline>'' @
     ''</style>\<newline>'' @
     ''</head>\<newline>'' @
     ''<body>\<newline>'' @
     ''<header>\<newline>'' @
     ''<a class="brand" href="https://dropway.dev" target="_blank" rel="noopener '' @
     ''noreferrer">\<newline>'' @
     ''<svg viewBox="0 0 100 100" aria-hidden="true"><rect width="100" height="100" '' @
     ''rx="18" fill="#5647e1"></rect><g transform="translate(17 17) scale(0.66)">'' @
     ''<path fill="#ffffff" fill-rule="evenodd" d="M50 7 L85 55 L62 92 L38 92 L15 '' @
     ''55 Z M50 7 L34 51 L46 58 Z"></path></g></svg>\<newline>'' @
     ''<span>Dropway</span>\<newline>'' @
     ''</a>\<newline>'' @
     ''</header>\<newline>'' @
     ''<main>\<newline>'' @
     ''<h1>Index of '' @
     esc display @
     ''</h1>\<newline>'' @
     ''<table>\<newline>'' @
     ''<thead><tr><th>Name</th><th>Size</th></tr></thead>\<newline>'' @
     ''<tbody>\<newline>'' @
     join ''\<newline>'' rows @
     ''\<newline>'' @
     ''</tbody>\<newline>'' @
     ''</table>\<newline>'' @
     ''<footer>'' @
     nat_to_string (length entries) @
     '' '' @
     (if length entries = 1 then ''item'' else ''items'') @
     ''</footer>\<newline>'' @
     ''</main>\<newline>'' @
     ''</body>\<newline>'' @
     ''</html>\<newline>'')\<close>

section \<open>Children\<close>

text \<open>The files directly below a prefix, and the names of the directories below it.\<close>

definition child_file :: "string \<Rightarrow> string \<Rightarrow> string \<Rightarrow> bool" where
  "child_file prefix key rest \<longleftrightarrow> key = prefix @ rest \<and> rest \<noteq> [] \<and> CHR ''/'' \<notin> set rest"

definition child_dir :: "string \<Rightarrow> string \<Rightarrow> string \<Rightarrow> bool" where
  "child_dir prefix key d \<longleftrightarrow> (\<exists>t. key = prefix @ d @ CHR ''/'' # t) \<and> CHR ''/'' \<notin> set d"

lemma indexOf_slash_Some:
  "indexOf s ''/'' = Some i \<longleftrightarrow> (\<exists>t. s = take i s @ CHR ''/'' # t) \<and> CHR ''/'' \<notin> set (take i s)"
proof
  assume "indexOf s ''/'' = Some i"
  then have "CHR ''/'' \<in> set s" by (metis indexOf_None_iff option.distinct(1) str_includes_char)
  then obtain u v where uv: "s = u @ CHR ''/'' # v" "CHR ''/'' \<notin> set u" by (meson split_list_first)
  with \<open>indexOf s ''/'' = Some i\<close> have "i = length u" by (simp add: indexOf_char)
  with uv show "(\<exists>t. s = take i s @ CHR ''/'' # t) \<and> CHR ''/'' \<notin> set (take i s)" by auto
next
  assume a: "(\<exists>t. s = take i s @ CHR ''/'' # t) \<and> CHR ''/'' \<notin> set (take i s)"
  then obtain t where t: "s = take i s @ CHR ''/'' # t" by blast
  have len: "length (take i s) = i" using arg_cong [OF t, of length] by (cases "i \<le> length s") auto
  have "indexOf (take i s @ CHR ''/'' # t) ''/'' = Some (length (take i s))"
    using a by (intro indexOf_char) blast
  with t len show "indexOf s ''/'' = Some i" by metis
qed

lemma child_cases:
  assumes "prefix = [] \<or> startsWith key prefix" "drop (length prefix) key \<noteq> []"
  shows "key = prefix @ drop (length prefix) key"
    "indexOf (drop (length prefix) key) ''/'' = None \<Longrightarrow> child_file prefix key (drop (length prefix) key)"
    "indexOf (drop (length prefix) key) ''/'' = Some i \<Longrightarrow> child_dir prefix key (take i (drop (length prefix) key))"
proof -
  show k: "key = prefix @ drop (length prefix) key" using assms(1) by (auto simp: startsWith_iff)
  show "indexOf (drop (length prefix) key) ''/'' = None \<Longrightarrow> child_file prefix key (drop (length prefix) key)"
    using k assms(2) by (simp add: child_file_def indexOf_None_iff)
  assume "indexOf (drop (length prefix) key) ''/'' = Some i"
  then obtain t where "drop (length prefix) key = take i (drop (length prefix) key) @ CHR ''/'' # t"
    "CHR ''/'' \<notin> set (take i (drop (length prefix) key))" unfolding indexOf_slash_Some by blast
  then show "child_dir prefix key (take i (drop (length prefix) key))"
    using k unfolding child_dir_def by metis
qed

lemma collect_children_files:
  "r \<in> set (snd (collect_children prefix es)) \<longleftrightarrow>
   (\<exists>key entry. (key, entry) \<in> set es \<and> child_file prefix key (le_name r) \<and>
      r = \<lparr>le_name = le_name r, le_href = encodeHref key, le_isDir = False, le_size = size entry\<rparr>)"
proof (induction es)
  case (Cons ke es)
  obtain key entry where ke: "ke = (key, entry)" by (cases ke)
  let ?rest = "drop (length prefix) key"
  let ?row = "\<lparr>le_name = ?rest, le_href = encodeHref key, le_isDir = False, le_size = size entry\<rparr>"
  let ?here = "(prefix = [] \<or> startsWith key prefix) \<and> ?rest \<noteq> [] \<and> indexOf ?rest ''/'' = None"
  have step: "r \<in> set (snd (collect_children prefix (ke # es))) \<longleftrightarrow>
      r \<in> set (snd (collect_children prefix es)) \<or> ?here \<and> r = ?row"
    by (cases "collect_children prefix es"; cases "indexOf ?rest ''/''") (auto simp: ke Let_def)
  have "child_file prefix key (le_name r) \<longleftrightarrow> ?here \<and> le_name r = ?rest"
    by (auto simp: child_file_def startsWith_iff indexOf_None_iff)
  then have "?here \<and> r = ?row \<longleftrightarrow> child_file prefix key (le_name r) \<and>
      r = \<lparr>le_name = le_name r, le_href = encodeHref key, le_isDir = False, le_size = size entry\<rparr>"
    by auto
  then show ?case unfolding step Cons.IH by (auto simp: ke)
qed simp

lemma collect_children_dirs:
  "d \<in> set (fst (collect_children prefix es)) \<longleftrightarrow> (\<exists>key entry. (key, entry) \<in> set es \<and> child_dir prefix key d)"
proof (induction es)
  case (Cons ke es)
  obtain key entry where ke: "ke = (key, entry)" by (cases ke)
  let ?rest = "drop (length prefix) key"
  let ?here = "(prefix = [] \<or> startsWith key prefix) \<and> ?rest \<noteq> [] \<and>
     (\<exists>i. indexOf ?rest ''/'' = Some i \<and> d = take i ?rest)"
  have step: "d \<in> set (fst (collect_children prefix (ke # es))) \<longleftrightarrow>
      d \<in> set (fst (collect_children prefix es)) \<or> ?here"
    by (cases "collect_children prefix es"; cases "indexOf ?rest ''/''") (auto simp: ke Let_def)
  have "?here \<longleftrightarrow> child_dir prefix key d"
  proof
    assume "child_dir prefix key d"
    then obtain t where t: "key = prefix @ d @ CHR ''/'' # t" "CHR ''/'' \<notin> set d" by (auto simp: child_dir_def)
    then have "indexOf ?rest ''/'' = Some (length d)" by (simp add: indexOf_char)
    with t show ?here by (auto simp: startsWith_iff)
  qed (use child_cases(3) in blast)
  then show ?case unfolding step Cons.IH by (auto simp: ke)
qed simp

lemma listDirectory_rows:
  assumes "listDirectory rt m prefix = Some rows"
  shows "r \<in> set rows \<longleftrightarrow>
     (\<exists>key entry. (key, entry) \<in> set (files m) \<and> child_file prefix key (le_name r) \<and>
        r = \<lparr>le_name = le_name r, le_href = encodeHref key, le_isDir = False, le_size = size entry\<rparr>) \<or>
     (\<exists>d key entry. (key, entry) \<in> set (files m) \<and> child_dir prefix key d \<and> r = dir_row prefix d)"
proof -
  obtain dirs fs where c: "collect_children prefix (files m) = (dirs, fs)" by (cases "collect_children prefix (files m)")
  have rows: "set rows = dir_row prefix ` set dirs \<union> set fs"
    using assms by (auto simp: listDirectory_def c Let_def split: if_splits)
  have f: "r \<in> set fs \<longleftrightarrow> (\<exists>key entry. (key, entry) \<in> set (files m) \<and> child_file prefix key (le_name r) \<and>
        r = \<lparr>le_name = le_name r, le_href = encodeHref key, le_isDir = False, le_size = size entry\<rparr>)"
    using collect_children_files [of r prefix "files m"] by (simp add: c)
  have d: "d \<in> set dirs \<longleftrightarrow> (\<exists>key entry. (key, entry) \<in> set (files m) \<and> child_dir prefix key d)" for d
    using collect_children_dirs [of d prefix "files m"] by (simp add: c)
  show ?thesis unfolding rows f [symmetric] using d by blast
qed

lemma listDirectory_None:
  "listDirectory rt m prefix = None \<longleftrightarrow>
     \<not> (\<exists>key entry x. (key, entry) \<in> set (files m) \<and> (child_file prefix key x \<or> child_dir prefix key x))"
proof -
  obtain dirs fs where c: "collect_children prefix (files m) = (dirs, fs)" by (cases "collect_children prefix (files m)")
  have dd: "d \<in> set dirs \<longleftrightarrow> (\<exists>key entry. (key, entry) \<in> set (files m) \<and> child_dir prefix key d)" for d
    using collect_children_dirs [of d prefix "files m"] by (simp add: c)
  have ff: "r \<in> set fs \<longleftrightarrow> (\<exists>key entry. (key, entry) \<in> set (files m) \<and> child_file prefix key (le_name r) \<and>
        r = \<lparr>le_name = le_name r, le_href = encodeHref key, le_isDir = False, le_size = size entry\<rparr>)" for r
    using collect_children_files [of r prefix "files m"] by (simp add: c)
  have fx: "\<lparr>le_name = x, le_href = encodeHref key, le_isDir = False, le_size = size entry\<rparr> \<in> set fs"
    if "(key, entry) \<in> set (files m)" "child_file prefix key x" for key entry x
    unfolding ff using that by auto
  have "set dirs = {} \<longleftrightarrow> \<not> (\<exists>key entry x. (key, entry) \<in> set (files m) \<and> child_dir prefix key x)"
    unfolding set_eq_iff dd by blast
  moreover have "set fs = {} \<longleftrightarrow> \<not> (\<exists>key entry x. (key, entry) \<in> set (files m) \<and> child_file prefix key x)"
  proof
    assume "set fs = {}"
    then show "\<not> (\<exists>key entry x. (key, entry) \<in> set (files m) \<and> child_file prefix key x)" using fx by auto
  next
    assume "\<not> (\<exists>key entry x. (key, entry) \<in> set (files m) \<and> child_file prefix key x)"
    then show "set fs = {}" using ff [THEN iffD1] by (metis ex_in_conv)
  qed
  moreover have "listDirectory rt m prefix = None \<longleftrightarrow> set dirs = {} \<and> set fs = {}"
    by (simp add: listDirectory_def c Let_def)
  ultimately show ?thesis by blast
qed

lemma listing_file_rows:
  assumes "listDirectory rt m prefix = Some rows"
  shows "le_name ` {r \<in> set rows. \<not> le_isDir r} =
     {x. \<exists>key entry. (key, entry) \<in> set (files m) \<and> child_file prefix key x}" (is "?L = ?R")
proof (intro set_eqI iffI)
  fix x assume "x \<in> ?L"
  then obtain r where r: "r \<in> set rows" "\<not> le_isDir r" "x = le_name r" by blast
  then show "x \<in> ?R" using listDirectory_rows [OF assms, of r] by (auto simp: dir_row_def)
next
  fix x assume "x \<in> ?R"
  then obtain key entry where ke: "(key, entry) \<in> set (files m)" "child_file prefix key x" by blast
  let ?r = "\<lparr>le_name = x, le_href = encodeHref key, le_isDir = False, le_size = size entry\<rparr>"
  have "?r \<in> set rows" using listDirectory_rows [OF assms, of ?r] ke by auto
  then show "x \<in> ?L" by (intro image_eqI [of _ _ ?r]) simp_all
qed

lemma listing_dir_rows:
  assumes "listDirectory rt m prefix = Some rows"
  shows "le_name ` {r \<in> set rows. le_isDir r} =
     {d @ ''/'' | d. \<exists>key entry. (key, entry) \<in> set (files m) \<and> child_dir prefix key d}" (is "?L = ?R")
proof (intro set_eqI iffI)
  fix x assume "x \<in> ?L"
  then obtain r where r: "r \<in> set rows" "le_isDir r" "x = le_name r" by blast
  moreover have "\<not> (\<exists>key entry. r = \<lparr>le_name = le_name r, le_href = encodeHref key, le_isDir = False, le_size = size entry\<rparr>)"
    using r(2) by (metis ListingEntry.select_convs(3))
  ultimately obtain d key entry where "(key, entry) \<in> set (files m)" "child_dir prefix key d" "r = dir_row prefix d"
    using listDirectory_rows [OF assms, of r] by blast
  with r(3) show "x \<in> ?R" by (auto simp: dir_row_def)
next
  fix x assume "x \<in> ?R"
  then obtain d key entry where ke: "(key, entry) \<in> set (files m)" "child_dir prefix key d" "x = d @ ''/''" by blast
  have "dir_row prefix d \<in> set rows" using listDirectory_rows [OF assms, of "dir_row prefix d"] ke by blast
  then show "x \<in> ?L" using ke(3) by (intro image_eqI [of _ _ "dir_row prefix d"]) (simp_all add: dir_row_def)
qed

section \<open>Links\<close>

text \<open>A key as deploys produce it: clean segments of valid UTF-8.\<close>

definition clean_key :: "string \<Rightarrow> bool" where
  "clean_key k \<longleftrightarrow> (\<exists>segs. segs \<noteq> [] \<and> list_all clean_seg segs \<and> list_all utf8_valid segs \<and> k = join ''/'' segs)"

lemma encodeHref_clean:
  assumes "segs \<noteq> []" "list_all clean_seg segs"
  shows "encodeHref (join ''/'' segs) = ''/'' @ join ''/'' (map encodeURIComponent segs)"
proof -
  have "split_on (CHR ''/'') (join ''/'' segs) = segs" by (rule clean_path_split [OF assms])
  moreover have "filter (\<lambda>s. s \<noteq> []) segs = segs"
    using assms(2) by (auto simp: list_all_iff clean_seg_def intro: filter_True)
  moreover have "\<not> endsWith (join ''/'' segs) ''/''"
    using join_clean_head [OF assms] by (simp add: endsWith_char)
  ultimately show ?thesis by (simp add: encodeHref_def Let_def)
qed

lemma cleanPath_encodeHref: "clean_key k \<Longrightarrow> cleanPath (encodeHref k) = Some k"
  unfolding clean_key_def using cleanPath_encoded [where t = "[]"] encodeHref_clean by fastforce

lemma clean_key_file: "clean_key k \<Longrightarrow> k \<noteq> [] \<and> \<not> endsWith k ''/''"
  unfolding clean_key_def using join_clean_head by (fastforce simp: endsWith_char)

section \<open>Properties\<close>

text \<open>
  The listing is exact: it shows every file directly below the directory and every
  subdirectory that contains a file, nothing else, and there is no listing exactly when the
  directory has no descendant.
\<close>

theorem listing_is_exact:
  "(listDirectory rt m prefix = None \<longleftrightarrow>
      \<not> (\<exists>key entry x. (key, entry) \<in> set (files m) \<and> (child_file prefix key x \<or> child_dir prefix key x))) \<and>
   (listDirectory rt m prefix = Some rows \<longrightarrow>
      le_name ` {r \<in> set rows. \<not> le_isDir r} = {x. \<exists>key \<in> fst ` set (files m). child_file prefix key x} \<and>
      le_name ` {r \<in> set rows. le_isDir r} = {d @ ''/'' | d. \<exists>key \<in> fst ` set (files m). child_dir prefix key d})"
proof (intro conjI impI)
  show "listDirectory rt m prefix = None \<longleftrightarrow>
      \<not> (\<exists>key entry x. (key, entry) \<in> set (files m) \<and> (child_file prefix key x \<or> child_dir prefix key x))"
    by (rule listDirectory_None)
  assume l: "listDirectory rt m prefix = Some rows"
  show "le_name ` {r \<in> set rows. \<not> le_isDir r} = {x. \<exists>key \<in> fst ` set (files m). child_file prefix key x}"
    unfolding listing_file_rows [OF l] by force
  show "le_name ` {r \<in> set rows. le_isDir r} = {d @ ''/'' | d. \<exists>key \<in> fst ` set (files m). child_dir prefix key d}"
    unfolding listing_dir_rows [OF l] by force
qed

theorem listing_is_exact_witness:
  "\<exists>rows. listDirectory sample_runtime sample_manifest [] = Some rows \<and>
     le_name ` {r \<in> set rows. \<not> le_isDir r} = {x. \<exists>key \<in> fst ` set (files sample_manifest). child_file [] key x}"
proof -
  have "listDirectory sample_runtime sample_manifest [] \<noteq> None" by code_simp
  then obtain rows where r: "listDirectory sample_runtime sample_manifest [] = Some rows" by blast
  have "le_name ` {r \<in> set rows. \<not> le_isDir r} = {x. \<exists>key \<in> fst ` set (files sample_manifest). child_file [] key x}"
    by (rule listing_is_exact [THEN conjunct2, THEN mp, OF r, THEN conjunct1])
  with r show ?thesis by (intro exI [of _ rows] conjI)
qed

text \<open>
  Listing links work: the link of a file row, sent back by the browser, passes the path
  sanitizer unchanged and resolves to exactly the file it is shown for.
\<close>

theorem listing_links_resolve:
  assumes "listDirectory rt m prefix = Some rows" and "r \<in> set rows" and "\<not> le_isDir r"
    and "distinct (map fst (files m))" and "\<And>key. key \<in> fst ` set (files m) \<Longrightarrow> clean_key key"
  shows "\<exists>key entry. map_of (files m) key = Some entry \<and> key = prefix @ le_name r \<and>
     cleanPath (le_href r) = Some key \<and> resolveManifestEntry m key = Some (key, Entry entry)"
proof -
  obtain key entry where k: "(key, entry) \<in> set (files m)" "child_file prefix key (le_name r)"
    "le_href r = encodeHref key"
    using assms(2,3) listDirectory_rows [OF assms(1), of r]
    by (auto simp: dir_row_def dest: arg_cong [where f = le_href])
  have "clean_key key" using assms(5) k(1) by force
  with k have "cleanPath (le_href r) = Some key" by (simp add: cleanPath_encodeHref)
  moreover have m: "map_of (files m) key = Some entry" using assms(4) k(1) by simp
  moreover have "resolveManifestEntry m key = Some (key, Entry entry)"
    using clean_key_file [OF \<open>clean_key key\<close>] by (intro resolve_own m) auto
  ultimately show ?thesis using k(2) by (auto simp: child_file_def)
qed

theorem listing_links_resolve_witness:
  "\<exists>key entry. map_of (files sample_manifest) key = Some entry \<and> key = [] @ ''guide.html'' \<and>
     cleanPath ''/guide.html'' = Some key \<and> resolveManifestEntry sample_manifest key = Some (key, Entry entry)"
proof -
  let ?r = "\<lparr>le_name = ''guide.html'', le_href = ''/guide.html'', le_isDir = False, le_size = None\<rparr> :: ListingEntry"
  obtain rows where rows: "listDirectory sample_runtime sample_manifest [] = Some rows"
    "list_ex (\<lambda>r. r = ?r) rows"
  proof -
    have "case listDirectory sample_runtime sample_manifest [] of None \<Rightarrow> False | Some rows \<Rightarrow> list_ex (\<lambda>r. r = ?r) rows"
      by code_simp
    then show ?thesis using that by (auto split: option.splits)
  qed
  have d: "distinct (map fst (files sample_manifest))" by code_simp
  have "clean_key key" if "key \<in> fst ` set (files sample_manifest)" for key
  proof -
    have "list_all clean_seg [key]" "list_all utf8_valid [key]"
      using that by (auto simp: sample_manifest_def clean_seg_def intro!: utf8_valid_ascii)
    then show ?thesis unfolding clean_key_def by (intro exI [of _ "[key]"]) simp
  qed
  from listing_links_resolve [OF rows(1) _ _ d this, of ?r] rows(2) show ?thesis
    by (auto simp: list_ex_iff)
qed

end
