(* ===== verification/Markup.thy ===== *)
theory Markup
  imports Html
begin

text \<open>
  What the two renderers of untrusted text (\<open>markdown.ts\<close> and \<open>chat.ts\<close>) have in common:
  global regular-expression replacement with a matcher, and the property that every opening
  bracket in a text begins one of a fixed list of tags. The laws of that property that the
  renderers' passes need are proved once, in the locale \<open>tag_language\<close>.
\<close>

section \<open>Global replacement\<close>

text \<open>
  \<open>s.replace(re, f)\<close> with a global pattern: at each position the matcher answers with the
  replacement and the rest of the text behind the match. A matcher consumes something, which the
  guard makes explicit.
\<close>

function replace_matches :: "(string \<Rightarrow> (string \<times> string) option) \<Rightarrow> string \<Rightarrow> string" where
  "replace_matches m [] = []"
| "replace_matches m (c # cs) =
     (case m (c # cs) of
        Some (rep, rest) \<Rightarrow> if length rest \<le> length cs then rep @ replace_matches m rest else c # replace_matches m cs
      | None \<Rightarrow> c # replace_matches m cs)"
  by pat_completeness auto
termination
  by (relation "measure (\<lambda>(m, s). length s)") auto

text \<open>
  Line feeds only: \<open>s.replace(/\r\n?/g, "\n")\<close>. The flag tells whether the last character
  was a carriage return, whose line feed has been written already.
\<close>

fun newlines_from :: "bool \<Rightarrow> string \<Rightarrow> string" where
  "newlines_from after_cr [] = []"
| "newlines_from after_cr (c # cs) =
     (if c = CHR 0x0D then CHR 0x0A # newlines_from True cs
      else if c = CHR 0x0A \<and> after_cr then newlines_from False cs
      else c # newlines_from False cs)"

definition normalize_newlines :: "string \<Rightarrow> string" where
  "normalize_newlines s = newlines_from False s"

abbreviation newline :: string where
  "newline \<equiv> [CHR 0x0A]"

section \<open>Texts over a list of tags\<close>

fun only_tags :: "string list \<Rightarrow> string \<Rightarrow> bool" where
  "only_tags tags [] = True"
| "only_tags tags (c # cs) =
     ((c = CHR ''<'' \<longrightarrow> list_ex (startsWith (c # cs)) tags) \<and> only_tags tags cs)"

lemma only_tags_iff:
  "only_tags tags s \<longleftrightarrow> (\<forall>u v. s = u @ CHR ''<'' # v \<longrightarrow> (\<exists>t \<in> set tags. startsWith (CHR ''<'' # v) t))"
proof
  show "only_tags tags s \<Longrightarrow> \<forall>u v. s = u @ CHR ''<'' # v \<longrightarrow> (\<exists>t \<in> set tags. startsWith (CHR ''<'' # v) t)"
  proof (intro allI impI)
    fix u v
    show "only_tags tags s \<Longrightarrow> s = u @ CHR ''<'' # v \<Longrightarrow> \<exists>t \<in> set tags. startsWith (CHR ''<'' # v) t"
      by (induction u arbitrary: s) (auto simp: list_ex_iff)
  qed
  show "\<forall>u v. s = u @ CHR ''<'' # v \<longrightarrow> (\<exists>t \<in> set tags. startsWith (CHR ''<'' # v) t) \<Longrightarrow> only_tags tags s"
  proof (induction s)
    case (Cons c cs)
    have "only_tags tags cs"
    proof (rule Cons.IH, intro allI impI)
      fix u v assume "cs = u @ CHR ''<'' # v"
      then have "c # cs = (c # u) @ CHR ''<'' # v" by simp
      with Cons.prems show "\<exists>t \<in> set tags. startsWith (CHR ''<'' # v) t" by blast
    qed
    moreover have "c # cs = [] @ CHR ''<'' # cs" if "c = CHR ''<''" using that by simp
    ultimately show ?case using Cons.prems by (auto simp: list_ex_iff)
  qed simp
qed

locale tag_language =
  fixes tags :: "string list" and delims :: "char list"
  assumes tag_no_delim: "t \<in> set tags \<Longrightarrow> d \<in> set delims \<Longrightarrow> d \<notin> set t"
begin

lemma only_append: "only_tags tags u \<Longrightarrow> only_tags tags v \<Longrightarrow> only_tags tags (u @ v)"
proof (induction u)
  case (Cons c cs)
  have "list_ex (startsWith ((c # cs) @ v)) tags" if "list_ex (startsWith (c # cs)) tags"
    using that by (auto simp: list_ex_iff startsWith_iff) (metis append_Cons append_assoc)
  with Cons show ?case by auto
qed simp

lemma only_plain: "CHR ''<'' \<notin> set s \<Longrightarrow> only_tags tags s"
  by (induction s) auto

lemma only_esc: "only_tags tags (esc s)"
  by (rule only_plain) (rule esc5.escape_no_markup)

lemma only_suffix: "only_tags tags (u @ v) \<Longrightarrow> only_tags tags v"
  by (induction u) auto

text \<open>A delimiter separates: what stands before it is a text over the tags on its own.\<close>

lemma only_before: "only_tags tags (u @ d # v) \<Longrightarrow> d \<in> set delims \<Longrightarrow> only_tags tags u"
proof (induction u)
  case (Cons c cs)
  have "startsWith (c # cs) t" if t: "t \<in> set tags" and s: "startsWith ((c # cs) @ d # v) t" for t
  proof -
    obtain z where z: "(c # cs) @ d # v = t @ z" using s by (auto simp: startsWith_iff)
    have "length t \<le> length (c # cs)"
    proof (rule ccontr)
      assume "\<not> length t \<le> length (c # cs)"
      then have "t ! length (c # cs) = d" using z by (metis not_le nth_append nth_append_length)
      then have "d \<in> set t" using \<open>\<not> length t \<le> length (c # cs)\<close> by (metis not_le nth_mem)
      then show False using tag_no_delim [OF t Cons.prems(2)] by blast
    qed
    with z have "t = take (length t) (c # cs)" by (metis append_eq_append_conv_if)
    then show ?thesis unfolding startsWith_iff by (metis append_take_drop_id)
  qed
  with Cons show ?case by (auto simp: list_ex_iff)
qed simp

lemma only_between:
  "only_tags tags (u @ w @ d # v) \<Longrightarrow> d \<in> set delims \<Longrightarrow> only_tags tags w"
  using only_suffix only_before by blast

lemma only_join: "only_tags tags sep \<Longrightarrow> (\<And>p. p \<in> set ps \<Longrightarrow> only_tags tags p) \<Longrightarrow> only_tags tags (join sep ps)"
proof (induction ps)
  case (Cons p ps)
  then show ?case by (cases "ps = []") (auto simp: join_Cons_ne intro!: only_append)
qed simp

lemma only_concat: "(\<And>p. p \<in> set ps \<Longrightarrow> only_tags tags p) \<Longrightarrow> only_tags tags (concat ps)"
  by (induction ps) (auto intro: only_append)

text \<open>
  A pass preserves the property if its matches start at a delimiter and each replacement does:
  the tags themselves contain no delimiter, so the pass cannot touch them.
\<close>

lemma replace_prefix:
  assumes m: "\<And>c cs r. m (c # cs) = Some r \<Longrightarrow> c \<in> set delims"
  shows "(\<And>x. x \<in> set p \<Longrightarrow> x \<notin> set delims) \<Longrightarrow> replace_matches m (p @ z) = p @ replace_matches m z"
proof (induction p)
  case (Cons c p)
  have "m (c # p @ z) = None" using m Cons.prems [of c] by (cases "m (c # p @ z)") auto
  with Cons show ?case by simp
qed simp

lemma only_replace_matches:
  assumes d: "\<And>c cs r. m (c # cs) = Some r \<Longrightarrow> c \<in> set delims"
    and m: "\<And>s rep rest. only_tags tags s \<Longrightarrow> m s = Some (rep, rest) \<Longrightarrow> only_tags tags rep \<and> only_tags tags rest"
  shows "only_tags tags s \<Longrightarrow> only_tags tags (replace_matches m s)"
proof (induction "length s" arbitrary: s rule: less_induct)
  case less
  show ?case
  proof (cases s)
    case (Cons c cs)
    show ?thesis
    proof (cases "\<exists>rep rest. m s = Some (rep, rest) \<and> length rest \<le> length cs")
      case True
      then obtain rep rest where r: "m s = Some (rep, rest)" "length rest \<le> length cs" by blast
      with m [OF less.prems r(1)] less.hyps [of rest] Cons show ?thesis by (auto intro: only_append)
    next
      case False
      have eq: "replace_matches m s = c # replace_matches m cs"
        using False Cons by (auto split: option.splits)
      have tl: "only_tags tags (replace_matches m cs)"
        using less.hyps [of cs] less.prems Cons by simp
      have "list_ex (startsWith (c # replace_matches m cs)) tags" if lt: "c = CHR ''<''"
      proof -
        obtain t where t: "t \<in> set tags" "startsWith (c # cs) t"
          using less.prems Cons lt by (auto simp: list_ex_iff)
        show ?thesis
        proof (cases t)
          case Nil
          with t(1) show ?thesis by (auto simp: list_ex_iff intro!: bexI [of _ "[]"])
        next
          case (Cons c' p)
          then obtain z where z: "c = c'" "cs = p @ z" using t(2) by (auto simp: startsWith_iff)
          have "replace_matches m cs = p @ replace_matches m z"
            unfolding z(2) by (rule replace_prefix [OF d]) (use tag_no_delim [OF t(1)] Cons in auto)
          then have "startsWith (c # replace_matches m cs) t" using Cons z(1) by (simp add: startsWith_iff)
          with t(1) show ?thesis by (auto simp: list_ex_iff)
        qed
      qed
      with eq tl show ?thesis by simp
    qed
  qed (use less in simp)
qed

end

end
