(* ===== verification/Markdown.thy ===== *)
theory Markdown
  imports Markup Security
begin

text \<open>
  \<open>edge/serving-worker/src/markdown.ts\<close>: the Markdown viewer. Every regular expression of the
  source is written out as a matcher on the text. White space is ASCII white space and the dot
  matches every byte (U+2028 and U+2029, which it does not match in JavaScript, are treated as
  ordinary characters), the corner the source itself sets aside.
\<close>

section \<open>Inline rendering\<close>

definition MARKDOWN_MAX_RENDER_BYTES :: rat where
  "MARKDOWN_MAX_RENDER_BYTES = 1024 * 1024"

definition isMarkdownPath :: "string \<Rightarrow> bool" where
  "isMarkdownPath path = (let ext = extensionOf path in ext = ''md'' \<or> ext = ''mdx'')"

definition baseName :: "string \<Rightarrow> string" where
  "baseName path =
     (let trimmed = rev (dropWhile (\<lambda>c. c = CHR ''/'') (rev path)); seg = last_segment (CHR ''/'') trimmed
      in if seg = [] then trimmed else seg)"

definition is_letter :: "char \<Rightarrow> bool" where
  "is_letter c = (let n = (of_char c :: nat) in (65 \<le> n \<and> n \<le> 90) \<or> (97 \<le> n \<and> n \<le> 122))"

text \<open>The match of \<open>/^([a-zA-Z][a-zA-Z0-9+.-]*):/\<close>: the scheme.\<close>

definition url_scheme :: "string \<Rightarrow> string option" where
  "url_scheme u =
     (case u of
        [] \<Rightarrow> None
      | c # cs \<Rightarrow>
          if is_letter c then
            (let s = takeWhile (\<lambda>x. is_alnum x \<or> x \<in> set ''+.-'') u
             in if startsWith (drop (length s) u) '':'' then Some s else None)
          else None)"

definition safeUrl :: "string \<Rightarrow> string" where
  "safeUrl url =
     (let u = js_trim url
      in (case url_scheme u of
            Some scheme \<Rightarrow>
              (let s = toLowerCase scheme
               in if s \<noteq> ''http'' \<and> s \<noteq> ''https'' \<and> s \<noteq> ''mailto'' \<and> s \<noteq> ''tel'' then ''#'' else u)
          | None \<Rightarrow> u))"

text \<open>
  The code-span pass: spans are taken out from left to right, the placeholder holds the index of
  the rendered span in \<open>codes\<close>.
\<close>

definition code_html :: "string \<Rightarrow> string" where
  "code_html code = ''<code>'' @ esc code @ ''</code>''"

definition code_span :: "string \<Rightarrow> (string \<times> string) option" where
  "code_span s =
     (case s of
        c # cs \<Rightarrow>
          (if c = CHR ''`'' then
             (let g = takeWhile (\<lambda>x. x \<noteq> CHR ''`'') cs; r = dropWhile (\<lambda>x. x \<noteq> CHR ''`'') cs
              in if g \<noteq> [] \<and> r \<noteq> [] then Some (g, tl r) else None)
           else None)
      | [] \<Rightarrow> None)"

function extract_codes :: "string list \<Rightarrow> string \<Rightarrow> string list \<times> string" where
  "extract_codes codes [] = (codes, [])"
| "extract_codes codes (c # cs) =
     (case code_span (c # cs) of
        Some (g, rest) \<Rightarrow>
          if length rest \<le> length cs then
            (let (codes', out) = extract_codes (codes @ [code_html g]) rest
             in (codes', [CHR 0x00] @ nat_to_string (length codes) @ [CHR 0x00] @ out))
          else apsnd (Cons c) (extract_codes codes cs)
      | None \<Rightarrow> apsnd (Cons c) (extract_codes codes cs))"
  by pat_completeness auto
termination
  by (relation "measure (\<lambda>(codes, s). length s)") auto

text \<open>The bracket part \<open>[text](url)\<close> shared by images and links: text, url and rest.\<close>

definition bracket_url :: "string \<Rightarrow> (string \<times> string \<times> string) option" where
  "bracket_url s =
     (let text = takeWhile (\<lambda>x. x \<noteq> CHR '']'') s; r = drop (length text) s
      in if startsWith r ''](''  then
           (let r = drop 2 r; url = takeWhile (\<lambda>x. x \<noteq> CHR '')'' \<and> \<not> is_ws x) r; r' = drop (length url) r
            in if url \<noteq> [] \<and> startsWith r' '')'' then Some (text, url, tl r') else None)
         else None)"

definition image_match :: "string \<Rightarrow> (string \<times> string) option" where
  \<open>image_match s =
     (if startsWith s ''!['' then
        (case bracket_url (drop 2 s) of
           Some (alt, url, rest) \<Rightarrow>
             Some (''<img src="'' @ esc (safeUrl url) @ ''" alt="'' @ alt @ ''">'', rest)
         | None \<Rightarrow> None)
      else None)\<close>

definition link_match :: "string \<Rightarrow> (string \<times> string) option" where
  \<open>link_match s =
     (if startsWith s ''['' then
        (case bracket_url (drop 1 s) of
           Some (text, url, rest) \<Rightarrow>
             if text = [] then None
             else Some (''<a href="'' @ esc (safeUrl url) @ ''" rel="nofollow noopener noreferrer">'' @ text @ ''</a>'', rest)
         | None \<Rightarrow> None)
      else None)\<close>

text \<open>A group without the character \<open>c\<close> between two copies of a delimiter made of it.\<close>

definition delim_match :: "string \<Rightarrow> char \<Rightarrow> string \<Rightarrow> string \<Rightarrow> (string \<times> string) option" where
  "delim_match delim c tag s =
     (if startsWith s delim then
        (let r = drop (length delim) s; g = takeWhile (\<lambda>x. x \<noteq> c) r; r' = drop (length g) r
         in if g \<noteq> [] \<and> startsWith r' delim
            then Some (''<'' @ tag @ ''>'' @ g @ ''</'' @ tag @ ''>'', drop (length delim) r') else None)
      else None)"

definition restore_match :: "string list \<Rightarrow> string \<Rightarrow> (string \<times> string) option" where
  "restore_match codes s =
     (case s of
        z # cs \<Rightarrow>
          (if z = CHR 0x00 then
             (let ds = takeWhile (\<lambda>x. digit_val x \<noteq> None) cs; r = drop (length ds) cs
              in if ds \<noteq> [] \<and> startsWith r [CHR 0x00] then
                   (let i = fst (read_digits 0 ds)
                    in Some (if i < length codes then codes ! i else [], tl r))
                 else None)
           else None)
      | [] \<Rightarrow> None)"

definition renderInline :: "string \<Rightarrow> string" where
  "renderInline src =
     (let (codes, withPlaceholders) = extract_codes [] src;
          out = esc withPlaceholders;
          out = replace_matches image_match out;
          out = replace_matches link_match out;
          out = replace_matches (delim_match ''**'' (CHR ''*'') ''strong'') out;
          out = replace_matches (delim_match ''__'' (CHR ''_'') ''strong'') out;
          out = replace_matches (delim_match ''*'' (CHR ''*'') ''em'') out;
          out = replace_matches (delim_match ''_'' (CHR ''_'') ''em'') out
      in replace_matches (restore_match codes) out)"

section \<open>Block rendering\<close>

text \<open>The block patterns: the groups of a match, or \<^const>\<open>None\<close>.\<close>

definition heading_closing :: "string \<Rightarrow> bool" where
  "heading_closing s = (dropWhile is_ws (dropWhile (\<lambda>c. c = CHR ''#'') (dropWhile is_ws s)) = [])"

fun heading_text :: "string \<Rightarrow> string" where
  "heading_text [] = []"
| "heading_text (c # cs) = (if heading_closing (c # cs) then [] else c # heading_text cs)"

definition HEADING :: "string \<Rightarrow> (nat \<times> string) option" where
  "HEADING line =
     (let n = length (takeWhile (\<lambda>c. c = CHR ''#'') line); r = drop n line
      in if 1 \<le> n \<and> n \<le> 6 \<and> r \<noteq> [] \<and> is_ws (hd r) then Some (n, heading_text (dropWhile is_ws r)) else None)"

definition FENCE :: "string \<Rightarrow> (string \<times> string) option" where
  "FENCE line =
     (let r = dropWhile is_ws line
      in if startsWith r ''```'' then Some (''```'', drop 3 r)
         else if startsWith r ''~~~'' then Some (''~~~'', drop 3 r) else None)"

definition UL_ITEM :: "string \<Rightarrow> string option" where
  "UL_ITEM line =
     (case dropWhile is_ws line of
        m # r \<Rightarrow> if m \<in> set ''-*+'' \<and> r \<noteq> [] \<and> is_ws (hd r) then Some (dropWhile is_ws r) else None
      | [] \<Rightarrow> None)"

definition OL_ITEM :: "string \<Rightarrow> string option" where
  "OL_ITEM line =
     (let s = dropWhile is_ws line; n = length (takeWhile (\<lambda>c. digit_val c \<noteq> None) s)
      in (case drop n s of
            m # r \<Rightarrow> if 0 < n \<and> m \<in> set ''.)'' \<and> r \<noteq> [] \<and> is_ws (hd r) then Some (dropWhile is_ws r) else None
          | [] \<Rightarrow> None))"

definition BLOCKQUOTE :: "string \<Rightarrow> string option" where
  "BLOCKQUOTE line =
     (case dropWhile is_ws line of
        m # r \<Rightarrow>
          (if m = CHR ''>'' then Some (case r of c # cs \<Rightarrow> if is_ws c then cs else r | [] \<Rightarrow> []) else None)
      | [] \<Rightarrow> None)"

definition isHR :: "string \<Rightarrow> bool" where
  "isHR line =
     (let compact = filter (\<lambda>c. \<not> is_ws c) line
      in 3 \<le> length compact \<and> hd compact \<in> set ''-*_'' \<and> list_all (\<lambda>c. c = hd compact) compact)"

definition fence_lang :: "string \<Rightarrow> string" where
  "fence_lang s = takeWhile (\<lambda>c. \<not> is_ws c) (js_trim s)"

text \<open>A line that continues a paragraph.\<close>

definition para_line :: "string \<Rightarrow> bool" where
  "para_line l \<longleftrightarrow> js_trim l \<noteq> [] \<and> FENCE l = None \<and> HEADING l = None \<and> \<not> isHR l \<and>
     BLOCKQUOTE l = None \<and> UL_ITEM l = None \<and> OL_ITEM l = None"

definition tagged :: "string \<Rightarrow> string \<Rightarrow> string" where
  "tagged tag s = ''<'' @ tag @ ''>'' @ s @ ''</'' @ tag @ ''>''"

definition code_block :: "string \<Rightarrow> string list \<Rightarrow> string" where
  \<open>code_block lang code =
     ''<pre><code'' @ (if lang \<noteq> [] then '' class="language-'' @ esc lang @ [CHR 0x22] else []) @ ''>'' @
     esc (join newline code) @ ''</code></pre>''\<close>

definition list_items :: "(string \<Rightarrow> string option) \<Rightarrow> string list \<Rightarrow> string" where
  "list_items pattern ls =
     concat (map (\<lambda>l. case pattern l of Some g \<Rightarrow> tagged ''li'' (renderInline g) | None \<Rightarrow> []) ls)"

lemma blockquote_shorter: "BLOCKQUOTE l = Some g \<Longrightarrow> length g < length l"
proof -
  assume b: "BLOCKQUOTE l = Some g"
  then obtain r where r: "dropWhile is_ws l = CHR ''>'' # r" "length g \<le> length r"
    by (auto simp: BLOCKQUOTE_def split: list.splits if_splits)
  then show ?thesis using length_dropWhile_le [of is_ws l] by simp
qed

definition md_size :: "string list \<Rightarrow> nat" where
  "md_size ls = sum_list (map (\<lambda>l. Suc (length l)) ls)"

lemma md_size_simps [simp]:
  "md_size [] = 0" "md_size (l # ls) = Suc (length l) + md_size ls"
  by (simp_all add: md_size_def)

lemma md_size_dropWhile: "md_size (dropWhile P ls) \<le> md_size ls"
  by (induction ls) auto

lemma md_size_quote:
  "(\<And>l. l \<in> set ls \<Longrightarrow> length (f l) \<le> length l) \<Longrightarrow> md_size (map f ls) \<le> md_size ls"
  by (induction ls) fastforce+

lemma md_size_takeWhile: "md_size (takeWhile P ls) \<le> md_size ls"
  by (induction ls) auto

definition quote_text :: "string \<Rightarrow> string" where
  "quote_text l = (case BLOCKQUOTE l of Some g \<Rightarrow> g | None \<Rightarrow> [])"

lemma quote_text_le: "length (quote_text l) \<le> length l"
  using blockquote_shorter [of l] by (auto simp: quote_text_def split: option.splits dest: less_imp_le)

lemma md_size_dropWhile_less: "md_size (dropWhile P rest) < Suc (n + md_size rest)"
  using md_size_dropWhile [of P rest] by simp

lemma md_size_tl_dropWhile_less: "md_size (tl (dropWhile P rest)) < Suc (n + md_size rest)"
proof -
  have "md_size (tl ls) \<le> md_size ls" for ls by (cases ls) auto
  with md_size_dropWhile [of P rest] show ?thesis by (meson le_imp_less_Suc le_trans trans_le_add2)
qed

lemma md_size_quote_less:
  assumes "BLOCKQUOTE line = Some g"
  shows "length (quote_text line) + md_size (map quote_text (takeWhile P rest)) < length line + md_size rest"
proof -
  have "length (quote_text line) < length line" using assms blockquote_shorter by (simp add: quote_text_def)
  moreover have "md_size (map quote_text (takeWhile P rest)) \<le> md_size rest"
    using md_size_quote [of "takeWhile P rest" quote_text] quote_text_le md_size_takeWhile [of P rest]
    by (meson le_trans)
  ultimately show ?thesis by simp
qed

text \<open>
  The block loop on the remaining lines. The first line of a blockquote, a list or a paragraph
  is known to match when its branch is entered, so each of those loops consumes it. The lines of
  a blockquote are rendered recursively; joining them and splitting the text again gives the same
  lines (\<open>renderMarkdown_join\<close> below).
\<close>

function md_blocks :: "string list \<Rightarrow> string list" where
  "md_blocks [] = []"
| "md_blocks (line # rest) =
     (if js_trim line = [] then md_blocks rest
      else case FENCE line of
        Some (marker, info) \<Rightarrow>
          (let code = takeWhile (\<lambda>l. \<not> startsWith (trimStart l) marker) rest;
               rest' = dropWhile (\<lambda>l. \<not> startsWith (trimStart l) marker) rest
           in code_block (fence_lang info) code # md_blocks (tl rest'))
      | None \<Rightarrow>
        (case HEADING line of
           Some (level, text) \<Rightarrow> tagged (''h'' @ nat_to_string level) (renderInline text) # md_blocks rest
         | None \<Rightarrow>
           if isHR line then ''<hr>'' # md_blocks rest
           else if BLOCKQUOTE line \<noteq> None then
             tagged ''blockquote''
               (join newline (md_blocks (map quote_text (line # takeWhile (\<lambda>l. BLOCKQUOTE l \<noteq> None) rest)))) #
             md_blocks (dropWhile (\<lambda>l. BLOCKQUOTE l \<noteq> None) rest)
           else if UL_ITEM line \<noteq> None \<or> OL_ITEM line \<noteq> None then
             (let ordered = (OL_ITEM line \<noteq> None \<and> UL_ITEM line = None);
                  pattern = (if ordered then OL_ITEM else UL_ITEM)
              in tagged (if ordered then ''ol'' else ''ul'')
                   (list_items pattern (line # takeWhile (\<lambda>l. pattern l \<noteq> None) rest)) #
                 md_blocks (dropWhile (\<lambda>l. pattern l \<noteq> None) rest))
           else
             tagged ''p'' (join (''<br>'' @ newline) (map renderInline (line # takeWhile para_line rest))) #
             md_blocks (dropWhile para_line rest)))"
  by pat_completeness auto
termination
  by (relation "measure md_size")
     (auto simp: md_size_dropWhile_less md_size_tl_dropWhile_less md_size_quote_less)

definition renderMarkdown :: "string \<Rightarrow> string" where
  "renderMarkdown source = join newline (md_blocks (split_on (CHR 0x0A) (normalize_newlines source)))"

definition VIEWER_SCRIPT :: string where
  \<open>VIEWER_SCRIPT =
     ''(function(){\<newline>'' @
     ''  var raw=document.getElementById('md-raw');\<newline>'' @
     ''  var rendered=document.getElementById('md-rendered');\<newline>'' @
     ''  var toggle=document.getElementById('md-toggle');\<newline>'' @
     ''  var copy=document.getElementById('md-copy');\<newline>'' @
     ''  var showingRaw=false;\<newline>'' @
     ''  toggle.addEventListener('click',function(){\<newline>'' @
     ''    showingRaw=!showingRaw;\<newline>'' @
     ''    raw.hidden=!showingRaw;\<newline>'' @
     ''    rendered.hidden=showingRaw;\<newline>'' @
     ''    toggle.textContent=showingRaw?'View rendered':'View raw';\<newline>'' @
     ''  });\<newline>'' @
     ''  copy.addEventListener('click',function(){\<newline>'' @
     ''    var text=raw.textContent||'' @
     [CHR 0x27] @
     [CHR 0x27] @
     '';\<newline>'' @
     ''    function done(){var t=copy.textContent;copy.textContent='Copied!';setTimeout(function(){copy'' @
     ''.textContent=t;},1500);}\<newline>'' @
     ''    if(navigator.clipboard&&navigator.clipboard.writeText){\<newline>'' @
     ''      navigator.clipboard.writeText(text).then(done,fallback);\<newline>'' @
     ''    }else{fallback();}\<newline>'' @
     ''    function fallback(){\<newline>'' @
     ''      var ta=document.createElement('textarea');ta.value=text;ta.style.position='fixed';'' @
     ''ta.style.opacity='0';\<newline>'' @
     ''      document.body.appendChild(ta);ta.focus();ta.select();\<newline>'' @
     ''      try{document.execCommand('copy');done();}catch(e){}\<newline>'' @
     ''      document.body.removeChild(ta);\<newline>'' @
     ''    }\<newline>'' @
     ''  });\<newline>'' @
     ''})();''\<close>

definition renderMarkdownPage :: "string \<Rightarrow> string \<Rightarrow> string" where
  \<open>renderMarkdownPage path source =
     (let name = baseName path; rendered = renderMarkdown source
      in
     ''<!doctype html>\<newline>'' @
     ''<html lang="en">\<newline>'' @
     ''<head>\<newline>'' @
     ''<meta charset="utf-8">\<newline>'' @
     ''<meta name="viewport" content="width=device-width, initial-scale=1">\<newline>'' @
     ''<title>'' @
     esc name @
     ''</title>\<newline>'' @
     ''<style>\<newline>'' @
     '':root { color-scheme: light dark; }\<newline>'' @
     ''* { box-sizing: border-box; }\<newline>'' @
     ''body { font: 16px/1.6 -apple-system, BlinkMacSystemFont, "Segoe UI", Roboto, '' @
     ''Helvetica, Arial, sans-serif; margin: 0; background: #fafafa; color: #1a1a1a; '' @
     ''}\<newline>'' @
     ''header { position: sticky; top: 0; z-index: 10; display: flex; align-items: '' @
     ''center; gap: 0.75rem; min-height: 3.4rem; padding: 0.6rem 1.25rem; background: '' @
     ''rgba(250,250,250,0.85); backdrop-filter: saturate(1.8) blur(8px); border-bottom: '' @
     ''1px solid #e3e3e3; }\<newline>'' @
     ''header a.brand { display: inline-flex; align-items: center; gap: 0.45rem; '' @
     ''text-decoration: none; color: inherit; font-size: 0.9rem; font-weight: 700; '' @
     ''white-space: nowrap; }\<newline>'' @
     ''header a.brand svg { width: 1.3rem; height: 1.3rem; display: block; }\<newline>'' @
     ''header .sep { color: #c4c4c4; }\<newline>'' @
     ''header .name { font-size: 0.85rem; font-weight: 500; color: #555; word-break: '' @
     ''break-all; margin-right: auto; }\<newline>'' @
     ''header button { font: inherit; font-size: 0.82rem; font-weight: 500; cursor: '' @
     ''pointer; padding: 0.35rem 0.7rem; border: 1px solid #d4d4d4; border-radius: '' @
     ''0.4rem; background: #fff; color: #1a1a1a; }\<newline>'' @
     ''header button:hover { background: #f0f0f0; }\<newline>'' @
     ''header a.raw { font-size: 0.82rem; font-weight: 500; text-decoration: none; '' @
     ''color: #1a56db; white-space: nowrap; }\<newline>'' @
     ''header a.raw:hover { text-decoration: underline; }\<newline>'' @
     ''main { max-width: 820px; margin: 0 auto; padding: 2rem 1.25rem 4rem; }\<newline>'' @
     ''.markdown-body h1, .markdown-body h2 { border-bottom: 1px solid #e3e3e3; '' @
     ''padding-bottom: 0.3rem; }\<newline>'' @
     ''.markdown-body h1 { font-size: 1.9rem; } .markdown-body h2 { font-size: '' @
     ''1.5rem; }\<newline>'' @
     ''.markdown-body h3 { font-size: 1.25rem; } .markdown-body h4 { font-size: '' @
     ''1.05rem; }\<newline>'' @
     ''.markdown-body img { max-width: 100%; }\<newline>'' @
     ''.markdown-body a { color: #1a56db; }\<newline>'' @
     ''.markdown-body code { font-family: ui-monospace, SFMono-Regular, Menlo, '' @
     ''Consolas, monospace; font-size: 0.9em; background: rgba(135,131,120,0.15); '' @
     ''padding: 0.15em 0.35em; border-radius: 0.3rem; }\<newline>'' @
     ''.markdown-body pre { background: #f4f4f5; padding: 1rem; border-radius: '' @
     ''0.5rem; overflow: auto; }\<newline>'' @
     ''.markdown-body pre code { background: none; padding: 0; }\<newline>'' @
     ''.markdown-body blockquote { margin: 0 0 1rem; padding: 0 1rem; color: #666; '' @
     ''border-left: 0.25rem solid #e3e3e3; }\<newline>'' @
     ''#md-raw { white-space: pre-wrap; word-break: break-word; font-family: ui-monospace, '' @
     ''SFMono-Regular, Menlo, Consolas, monospace; font-size: 0.875rem; line-height: '' @
     ''1.5; background: #f4f4f5; padding: 1rem; border-radius: 0.5rem; overflow: '' @
     ''auto; }\<newline>'' @
     ''@media (prefers-color-scheme: dark) {\<newline>'' @
     ''  body { background: #16181c; color: #e6e6e6; }\<newline>'' @
     ''  header { background: rgba(22,24,28,0.85); border-bottom-color: #2a2d34; '' @
     ''}\<newline>'' @
     ''  header button { background: #1f2228; border-color: #34383f; color: #e6e6e6; '' @
     ''}\<newline>'' @
     ''  header button:hover { background: #2a2d34; }\<newline>'' @
     ''  .markdown-body h1, .markdown-body h2 { border-bottom-color: #2a2d34; }\<newline>'' @
     ''  header .sep { color: #41454d; }\<newline>'' @
     ''  header .name { color: #9aa0a8; }\<newline>'' @
     ''  .markdown-body a, header a.raw { color: #6ea8ff; }\<newline>'' @
     ''  .markdown-body code { background: rgba(110,118,129,0.25); }\<newline>'' @
     ''  .markdown-body pre, #md-raw { background: #1f2228; }\<newline>'' @
     ''  .markdown-body blockquote { color: #9aa0a8; border-left-color: #2a2d34; '' @
     ''}\<newline>'' @
     ''}\<newline>'' @
     ''</style>\<newline>'' @
     ''</head>\<newline>'' @
     ''<body>\<newline>'' @
     ''<header>\<newline>'' @
     ''<a class="brand" href="https://dropway.dev" target="_blank" rel="noopener '' @
     ''noreferrer">\<newline>'' @
     ''<svg viewBox="0 0 100 100" aria-hidden="true"><rect width="100" height="100" '' @
     ''rx="18" fill="#5647e1"></rect><g transform="translate(17 17) scale(0.66)">'' @
     ''<path fill="#ffffff" fill-rule="evenodd" d="M50 7 L85 55 L62 92 L38 92 L15 '' @
     ''55 Z M50 7 L34 51 L46 58 Z"></path></g></svg>\<newline>'' @
     ''<span>Dropway</span>\<newline>'' @
     ''</a>\<newline>'' @
     ''<span class="sep">/</span>\<newline>'' @
     ''<span class="name">'' @
     esc name @
     ''</span>\<newline>'' @
     ''<button type="button" id="md-toggle">View raw</button>\<newline>'' @
     ''<button type="button" id="md-copy">Copy</button>\<newline>'' @
     ''<a class="raw" href="?raw=1" title="Open the original source '' @
     [CHR 0xE2, CHR 0x80, CHR 0x94] @
     '' append ?raw to the URL">Open raw '' @
     [CHR 0xE2, CHR 0x86, CHR 0x97] @
     ''</a>\<newline>'' @
     ''</header>\<newline>'' @
     ''<main>\<newline>'' @
     ''<article class="markdown-body" id="md-rendered">\<newline>'' @
     rendered @
     ''\<newline>'' @
     ''</article>\<newline>'' @
     ''<pre id="md-raw" hidden>'' @
     esc source @
     ''</pre>\<newline>'' @
     ''</main>\<newline>'' @
     ''<script>'' @
     VIEWER_SCRIPT @
     ''</script>\<newline>'' @
     ''</body>\<newline>'' @
     ''</html>\<newline>'')\<close>

text \<open>The recursive call of the blockquote branch, on the joined text, is the one on the lines.\<close>

lemma newlines_from_id: "CHR 0x0D \<notin> set s \<Longrightarrow> newlines_from False s = s"
  by (induction s) auto

lemma renderMarkdown_join:
  assumes "ls \<noteq> []" "\<And>l. l \<in> set ls \<Longrightarrow> CHR 0x0D \<notin> set l \<and> CHR 0x0A \<notin> set l"
  shows "renderMarkdown (join newline ls) = join newline (md_blocks ls)"
proof -
  have "CHR 0x0D \<notin> set (join newline ls)"
    using assms(2) set_join [of newline ls] by fastforce
  moreover have "split_on (CHR 0x0A) (join newline ls) = ls"
    using assms by (intro split_on_join) auto
  ultimately show ?thesis by (simp add: renderMarkdown_def normalize_newlines_def newlines_from_id)
qed

section \<open>The tags of the rendered text\<close>

definition md_tags :: "string list" where
  \<open>md_tags =
     [''<code>'', ''</code>'', ''<code class="language-'', ''<pre>'', ''</pre>'', ''<img src="'', ''<a href="'',
      ''</a>'', ''<strong>'', ''</strong>'', ''<em>'', ''</em>'', ''<br>'', ''<p>'', ''</p>'', ''<hr>'',
      ''<blockquote>'', ''</blockquote>'', ''<ul>'', ''</ul>'', ''<ol>'', ''</ol>'', ''<li>'', ''</li>'',
      ''<h1>'', ''</h1>'', ''<h2>'', ''</h2>'', ''<h3>'', ''</h3>'', ''<h4>'', ''</h4>'', ''<h5>'', ''</h5>'',
      ''<h6>'', ''</h6>'']\<close>

definition md_delims :: "char list" where
  "md_delims = CHR 0x00 # ''`[]()!*_''"

lemma delim_match_Some:
  assumes "delim_match delim c tag s = Some (rep, rest)"
  obtains g where "s = delim @ g @ delim @ rest" "rep = ''<'' @ tag @ ''>'' @ g @ ''</'' @ tag @ ''>''"
proof -
  define r where "r = drop (length delim) s"
  define g where "g = takeWhile (\<lambda>x. x \<noteq> c) r"
  have s: "startsWith s delim" and gd: "startsWith (drop (length g) r) delim"
    and reps: "rep = ''<'' @ tag @ ''>'' @ g @ ''</'' @ tag @ ''>''" and rest: "rest = drop (length delim) (drop (length g) r)"
    using assms by (simp_all add: delim_match_def Let_def r_def [symmetric] g_def [symmetric] split: if_splits)
  obtain t where t: "drop (length g) r = delim @ t" using gd by (auto simp: startsWith_iff)
  have "s = delim @ r" using s by (auto simp: startsWith_iff r_def)
  moreover have "r = g @ drop (length g) r" unfolding g_def by (metis takeWhile_dropWhile_id dropWhile_eq_drop)
  moreover have "rest = t" unfolding rest t by simp
  ultimately have "s = delim @ g @ delim @ rest" using t by metis
  with reps show ?thesis using that by blast
qed

text \<open>A pass that puts a tag in the place of its delimiters keeps a text over the tags.\<close>

context tag_language begin

lemma only_delim_match:
  assumes "delim = d # ds" "d \<in> set delims"
    and "only_tags tags (''<'' @ tag @ ''>'')" "only_tags tags (''</'' @ tag @ ''>'')"
    and "only_tags tags s"
  shows "only_tags tags (replace_matches (delim_match delim c tag) s)"
proof (rule only_replace_matches [OF _ _ assms(5)])
  show "x \<in> set delims" if "delim_match delim c tag (x # cs) = Some r" for x cs r
    using that assms(1,2) by (auto simp: delim_match_def split: if_splits)
  show "only_tags tags rep \<and> only_tags tags rest"
    if only: "only_tags tags s" and m: "delim_match delim c tag s = Some (rep, rest)" for s rep rest
  proof -
    obtain g where g: "s = delim @ g @ delim @ rest" "rep = ''<'' @ tag @ ''>'' @ g @ ''</'' @ tag @ ''>''"
      using m by (rule delim_match_Some)
    have "only_tags tags g" using only g(1) assms(1,2) only_between [of delim g d] by (metis append_Cons)
    moreover have "only_tags tags rest" using only g(1) only_suffix [of "delim @ g @ delim"] by simp
    ultimately show ?thesis
      using g(2) only_append [OF assms(3) only_append [OF _ assms(4)]] by simp
  qed
qed

end

interpretation md: tag_language md_tags md_delims
proof
  have "list_all (\<lambda>t. list_all (\<lambda>d. d \<notin> set t) md_delims) md_tags" by code_simp
  then show "d \<notin> set t" if "t \<in> set md_tags" "d \<in> set md_delims" for t d
    using that unfolding list_all_iff by blast
qed

lemma md_literals:
  "only_tags md_tags ''<code>''" "only_tags md_tags ''</code>''" "only_tags md_tags ''<strong>''"
  "only_tags md_tags ''</strong>''" "only_tags md_tags ''<em>''" "only_tags md_tags ''</em>''"
  "only_tags md_tags ''</a>''" "only_tags md_tags (''<br>'' @ newline)" "only_tags md_tags ''<hr>''"
  "only_tags md_tags ''</code></pre>''" "only_tags md_tags newline"
  by code_simp+

lemma md_attr_literals:
  \<open>only_tags md_tags ''<img src="''\<close> \<open>only_tags md_tags ''" alt="''\<close> \<open>only_tags md_tags ''">''\<close>
  \<open>only_tags md_tags ''<a href="''\<close> \<open>only_tags md_tags ''" rel="nofollow noopener noreferrer">''\<close>
  by code_simp+

lemma md_tag_names:
  "tag \<in> set [''p'', ''li'', ''ul'', ''ol'', ''blockquote'', ''h1'', ''h2'', ''h3'', ''h4'', ''h5'', ''h6''] \<Longrightarrow>
   only_tags md_tags (''<'' @ tag @ ''>'') \<and> only_tags md_tags (''</'' @ tag @ ''>'')"
proof -
  have "list_all (\<lambda>tag. only_tags md_tags (''<'' @ tag @ ''>'') \<and> only_tags md_tags (''</'' @ tag @ ''>''))
     [''p'', ''li'', ''ul'', ''ol'', ''blockquote'', ''h1'', ''h2'', ''h3'', ''h4'', ''h5'', ''h6'']"
    by code_simp
  then show "tag \<in> set [''p'', ''li'', ''ul'', ''ol'', ''blockquote'', ''h1'', ''h2'', ''h3'', ''h4'', ''h5'', ''h6''] \<Longrightarrow>
   only_tags md_tags (''<'' @ tag @ ''>'') \<and> only_tags md_tags (''</'' @ tag @ ''>'')"
    unfolding list_all_iff by blast
qed

lemma only_tagged:
  assumes "tag \<in> set [''p'', ''li'', ''ul'', ''ol'', ''blockquote'', ''h1'', ''h2'', ''h3'', ''h4'', ''h5'', ''h6'']"
    and "only_tags md_tags s"
  shows "only_tags md_tags (tagged tag s)"
  using md.only_append [OF md_tag_names [OF assms(1), THEN conjunct1]
      md.only_append [OF assms(2) md_tag_names [OF assms(1), THEN conjunct2]]]
  by (simp add: tagged_def)

subsection \<open>The inline passes\<close>

lemma bracket_url_Some:
  assumes "bracket_url s = Some (text, url, rest)"
  shows "s = text @ CHR '']'' # CHR ''('' # url @ CHR '')'' # rest"
proof -
  define t where "t = takeWhile (\<lambda>x. x \<noteq> CHR '']'') s"
  obtain r where r: "drop (length t) s = CHR '']'' # CHR ''('' # r"
    using assms by (auto simp: bracket_url_def Let_def t_def startsWith_iff split: if_splits)
  define w where "w = takeWhile (\<lambda>x. x \<noteq> CHR '')'' \<and> \<not> is_ws x) r"
  have "startsWith (drop (length w) r) '')''" and eq: "text = t" "url = w" "rest = tl (drop (length w) r)"
    using assms r by (auto simp: bracket_url_def Let_def t_def [symmetric] w_def [symmetric] simp del: startsWith.simps split: if_splits)
  then obtain r' where r': "drop (length w) r = CHR '')'' # r'" by (auto simp: startsWith_iff)
  have "s = t @ drop (length t) s" unfolding t_def by (metis takeWhile_dropWhile_id dropWhile_eq_drop)
  moreover have "r = w @ drop (length w) r" unfolding w_def by (metis takeWhile_dropWhile_id dropWhile_eq_drop)
  ultimately show ?thesis using r r' eq by (metis append_Cons list.sel(3))
qed

lemma md_delims_mem:
  "CHR 0x00 \<in> set md_delims" "CHR ''`'' \<in> set md_delims" "CHR ''['' \<in> set md_delims" "CHR '']'' \<in> set md_delims"
  "CHR '')'' \<in> set md_delims" "CHR ''!'' \<in> set md_delims" "CHR ''*'' \<in> set md_delims" "CHR ''_'' \<in> set md_delims"
  by (simp_all add: md_delims_def)

lemma bracket_only:
  assumes "only_tags md_tags (u @ s)" "bracket_url s = Some (text, url, rest)"
  shows "only_tags md_tags text \<and> only_tags md_tags rest"
proof
  have s: "s = text @ CHR '']'' # CHR ''('' # url @ CHR '')'' # rest" by (rule bracket_url_Some [OF assms(2)])
  have os: "only_tags md_tags s" using assms(1) by (rule md.only_suffix)
  show "only_tags md_tags text" using os s md.only_before [OF _ md_delims_mem(4)] by metis
  have "s = (text @ CHR '']'' # CHR ''('' # url @ '')'') @ rest" using s by simp
  then show "only_tags md_tags rest" using os md.only_suffix by metis
qed

lemma only_image: "only_tags md_tags s \<Longrightarrow> only_tags md_tags (replace_matches image_match s)"
proof (rule md.only_replace_matches)
  show "c \<in> set md_delims" if "image_match (c # cs) = Some r" for c cs r
    using that by (auto simp: image_match_def md_delims_mem split: if_splits)
  show "only_tags md_tags rep \<and> only_tags md_tags rest"
    if only: "only_tags md_tags s" and m: "image_match s = Some (rep, rest)" for s rep rest
  proof -
    obtain alt url where b: "bracket_url (drop 2 s) = Some (alt, url, rest)"
      and rep: \<open>rep = ''<img src="'' @ esc (safeUrl url) @ ''" alt="'' @ alt @ ''">''\<close>
      using m by (auto simp: image_match_def split: if_splits option.splits)
    have "only_tags md_tags (take 2 s @ drop 2 s)" using only by simp
    from bracket_only [OF this b] have a: "only_tags md_tags alt" "only_tags md_tags rest" by auto
    show ?thesis unfolding rep using a md_attr_literals by (intro conjI md.only_append md.only_esc)
  qed
qed

lemma only_link: "only_tags md_tags s \<Longrightarrow> only_tags md_tags (replace_matches link_match s)"
proof (rule md.only_replace_matches)
  show "c \<in> set md_delims" if "link_match (c # cs) = Some r" for c cs r
    using that by (auto simp: link_match_def md_delims_mem split: if_splits)
  show "only_tags md_tags rep \<and> only_tags md_tags rest"
    if only: "only_tags md_tags s" and m: "link_match s = Some (rep, rest)" for s rep rest
  proof -
    obtain tx url where b: "bracket_url (drop 1 s) = Some (tx, url, rest)"
      and rep: \<open>rep = ''<a href="'' @ esc (safeUrl url) @ ''" rel="nofollow noopener noreferrer">'' @ tx @ ''</a>''\<close>
      using m by (auto simp: link_match_def split: if_splits option.splits)
    have "only_tags md_tags (take 1 s @ drop 1 s)" using only by simp
    from bracket_only [OF this b] have a: "only_tags md_tags tx" "only_tags md_tags rest" by auto
    show ?thesis unfolding rep using a md_attr_literals md_literals(7) by (intro conjI md.only_append md.only_esc)
  qed
qed

lemma extract_codes_only:
  "(\<And>c. c \<in> set codes \<Longrightarrow> only_tags md_tags c) \<Longrightarrow>
   c \<in> set (fst (extract_codes codes s)) \<Longrightarrow> only_tags md_tags c"
proof (induction "length s" arbitrary: codes s rule: less_induct)
  case less
  have code: "only_tags md_tags (code_html g)" for g
    unfolding code_html_def by (intro md.only_append md.only_esc md_literals)
  show ?case
  proof (cases s)
    case Nil
    with less.prems show ?thesis by simp
  next
    case (Cons x xs)
    show ?thesis
    proof (cases "\<exists>g rest. code_span (x # xs) = Some (g, rest) \<and> length rest \<le> length xs")
      case True
      then obtain g rest where g: "code_span (x # xs) = Some (g, rest)" "length rest \<le> length xs" by blast
      have "c \<in> set (fst (extract_codes (codes @ [code_html g]) rest))"
        using less.prems(2) g Cons by (simp split: prod.splits)
      moreover have "only_tags md_tags c'" if "c' \<in> set (codes @ [code_html g])" for c'
        using that less.prems(1) code by auto
      ultimately show ?thesis using less.hyps [of rest "codes @ [code_html g]"] g(2) Cons by simp
    next
      case False
      then have "extract_codes codes (x # xs) = apsnd (Cons x) (extract_codes codes xs)"
        by (auto split: option.splits)
      then have "c \<in> set (fst (extract_codes codes xs))" using less.prems(2) Cons by simp
      with less.hyps [of xs codes] less.prems(1) Cons show ?thesis by simp
    qed
  qed
qed

lemma only_restore:
  assumes "\<And>c. c \<in> set codes \<Longrightarrow> only_tags md_tags c" and "only_tags md_tags s"
  shows "only_tags md_tags (replace_matches (restore_match codes) s)"
proof (rule md.only_replace_matches [OF _ _ assms(2)])
  show "c \<in> set md_delims" if "restore_match codes (c # cs) = Some r" for c cs r
    using that by (auto simp: restore_match_def md_delims_mem split: if_splits)
  show "only_tags md_tags rep \<and> only_tags md_tags rest"
    if only: "only_tags md_tags s" and m: "restore_match codes s = Some (rep, rest)" for s rep rest
  proof -
    obtain z cs where s: "s = z # cs" using m by (cases s) (auto simp: restore_match_def)
    let ?ds = "takeWhile (\<lambda>x. digit_val x \<noteq> None) cs"
    let ?i = "fst (read_digits 0 ?ds)"
    have rep: "rep = (if ?i < length codes then codes ! ?i else [])" and rest: "rest = tl (drop (length ?ds) cs)"
      using m s by (auto simp: restore_match_def Let_def split: if_splits)
    have "rest = drop (Suc (Suc (length ?ds))) s" using rest s by (simp add: drop_Suc tl_drop)
    then have "only_tags md_tags rest" using only md.only_suffix by (metis append_take_drop_id)
    moreover have "only_tags md_tags rep" using rep assms(1) by simp
    ultimately show ?thesis by blast
  qed
qed

lemma only_renderInline: "only_tags md_tags (renderInline src)"
proof -
  obtain codes ph where e: "extract_codes [] src = (codes, ph)" by (cases "extract_codes [] src")
  have c: "only_tags md_tags c" if "c \<in> set codes" for c
    using extract_codes_only [of "[]" c src] that e by simp
  have em: "only_tags md_tags (''<'' @ ''em'' @ ''>'')" "only_tags md_tags (''</'' @ ''em'' @ ''>'')"
    "only_tags md_tags (''<'' @ ''strong'' @ ''>'')" "only_tags md_tags (''</'' @ ''strong'' @ ''>'')"
    using md_literals by simp_all
  show ?thesis
    unfolding renderInline_def e Let_def prod.case
  proof (rule only_restore [OF c])
    show "only_tags md_tags (replace_matches (delim_match ''_'' (CHR ''_'') ''em'')
        (replace_matches (delim_match ''*'' (CHR ''*'') ''em'') (replace_matches (delim_match ''__'' (CHR ''_'') ''strong'')
        (replace_matches (delim_match ''**'' (CHR ''*'') ''strong'') (replace_matches link_match
        (replace_matches image_match (esc ph)))))))"
      by (intro md.only_delim_match [OF refl md_delims_mem(7)] md.only_delim_match [OF refl md_delims_mem(8)]
          only_link only_image md.only_esc em)
  qed
qed

subsection \<open>The blocks\<close>

lemma only_code_block: "only_tags md_tags (code_block lang code)"
proof (cases "lang = []")
  case True
  have "only_tags md_tags ''<pre><code>''" by code_simp
  with True show ?thesis
    unfolding code_block_def
    using md.only_append [of "''<pre><code>''" "esc (join newline code) @ ''</code></pre>''"]
      md.only_append [OF md.only_esc md_literals(10)] by simp
next
  case False
  have l: \<open>only_tags md_tags ''<pre><code class="language-''\<close> \<open>only_tags md_tags ''">''\<close> by code_simp+
  have \<open>only_tags md_tags (''<pre><code class="language-'' @ esc lang @ ''">'' @ esc (join newline code) @ ''</code></pre>'')\<close>
    by (intro md.only_append md.only_esc l md_literals)
  with False show ?thesis by (simp add: code_block_def)
qed

lemma HEADING_level: "HEADING line = Some (n, t) \<Longrightarrow> 1 \<le> n \<and> n \<le> 6"
  by (auto simp: HEADING_def Let_def split: if_splits)

lemma heading_tag:
  assumes "1 \<le> n" "n \<le> 6"
  shows "''h'' @ nat_to_string n \<in> set [''p'', ''li'', ''ul'', ''ol'', ''blockquote'', ''h1'', ''h2'', ''h3'', ''h4'', ''h5'', ''h6'']"
proof -
  have "nat_to_string 1 = ''1''" "nat_to_string 2 = ''2''" "nat_to_string 3 = ''3''" "nat_to_string 4 = ''4''"
    "nat_to_string 5 = ''5''" "nat_to_string 6 = ''6''" by code_simp+
  moreover have "n \<in> {1, 2, 3, 4, 5, 6}" using assms by auto
  ultimately show ?thesis by auto
qed

lemma only_list_items: "only_tags md_tags (list_items pattern ls)"
  unfolding list_items_def
  by (rule md.only_concat) (auto intro!: only_tagged only_renderInline split: option.splits)

lemma only_paragraph:
  "only_tags md_tags (tagged ''p'' (join (''<br>'' @ newline) (map renderInline xs)))"
  by (intro only_tagged md.only_join md_literals) (auto simp: only_renderInline)

lemma only_heading: "HEADING line = Some (n, t) \<Longrightarrow> only_tags md_tags (tagged (''h'' @ nat_to_string n) (renderInline t))"
  using HEADING_level by (intro only_tagged heading_tag only_renderInline) auto

lemma only_quote:
  "(\<And>b. b \<in> set bs \<Longrightarrow> only_tags md_tags b) \<Longrightarrow> only_tags md_tags (tagged ''blockquote'' (join newline bs))"
  by (intro only_tagged md.only_join md_literals) simp_all

lemma only_list: "only_tags md_tags (tagged (if ordered then ''ol'' else ''ul'') (list_items pattern ls))"
  by (intro only_tagged only_list_items) simp

text \<open>The remaining kinds of block: rule, blockquote, list, paragraph.\<close>

lemma only_other_block:
  assumes b: "b \<in> set (md_blocks (line # rest))"
    and ne: "js_trim line \<noteq> []" and nf: "FENCE line = None" and nh: "HEADING line = None"
    and quoted: "\<And>g P b. BLOCKQUOTE line = Some g \<Longrightarrow>
        b \<in> set (md_blocks (map quote_text (line # takeWhile P rest))) \<Longrightarrow> only_tags md_tags b"
    and sub: "\<And>b. b \<in> set (md_blocks rest) \<Longrightarrow> only_tags md_tags b"
      "\<And>b P. b \<in> set (md_blocks (dropWhile P rest)) \<Longrightarrow> only_tags md_tags b"
  shows "only_tags md_tags b"
proof (cases "isHR line")
  case True
  with b ne nf nh have "b = ''<hr>'' \<or> b \<in> set (md_blocks rest)" by simp
  then show ?thesis using md_literals(9) sub(1) by blast
next
  case hr: False
  show ?thesis
  proof (cases "BLOCKQUOTE line")
    case (Some g)
    let ?q = "\<lambda>l. BLOCKQUOTE l \<noteq> None"
    have "b = tagged ''blockquote'' (join newline (md_blocks (map quote_text (line # takeWhile ?q rest)))) \<or>
        b \<in> set (md_blocks (dropWhile ?q rest))"
      using b ne nf nh hr Some by simp
    moreover have "only_tags md_tags (tagged ''blockquote''
        (join newline (md_blocks (map quote_text (line # takeWhile ?q rest)))))"
      by (rule only_quote) (rule quoted [OF Some])
    ultimately show ?thesis using sub(2) by blast
  next
    case nq: None
    show ?thesis
    proof (cases "UL_ITEM line \<noteq> None \<or> OL_ITEM line \<noteq> None")
      case True
      define ordered where "ordered \<longleftrightarrow> OL_ITEM line \<noteq> None \<and> UL_ITEM line = None"
      define pat where "pat = (if ordered then OL_ITEM else UL_ITEM)"
      have "b = tagged (if ordered then ''ol'' else ''ul'') (list_items pat (line # takeWhile (\<lambda>l. pat l \<noteq> None) rest)) \<or>
          b \<in> set (md_blocks (dropWhile (\<lambda>l. pat l \<noteq> None) rest))"
        unfolding pat_def ordered_def using b ne nf nh hr nq True by (simp add: Let_def)
      then show ?thesis using only_list sub(2) by blast
    next
      case False
      have "b = tagged ''p'' (join (''<br>'' @ newline) (map renderInline (line # takeWhile para_line rest))) \<or>
          b \<in> set (md_blocks (dropWhile para_line rest))"
        using b ne nf nh hr nq False by simp
      then show ?thesis using only_paragraph sub(2) by blast
    qed
  qed
qed

lemma only_md_blocks: "b \<in> set (md_blocks ls) \<Longrightarrow> only_tags md_tags b"
proof (induction "md_size ls" arbitrary: ls b rule: less_induct)
  case less
  show ?case
  proof (cases ls)
    case Nil
    with less.prems show ?thesis by simp
  next
    case (Cons line rest)
    have IH: "b \<in> set (md_blocks ls') \<Longrightarrow> md_size ls' \<le> md_size rest \<Longrightarrow> only_tags md_tags b" for ls' b
      using less.hyps [of ls'] Cons by simp
    have quoted: "only_tags md_tags b" if "BLOCKQUOTE line = Some g"
      "b \<in> set (md_blocks (map quote_text (line # takeWhile P rest)))" for g P b
      using less.hyps [of "map quote_text (line # takeWhile P rest)"] md_size_quote_less [OF that(1), of P rest] that(2) Cons
      by simp
    have tl_le: "md_size (tl (dropWhile P rest)) \<le> md_size rest" for P
      using md_size_tl_dropWhile_less [of P rest 0] by simp
    note sub = IH [OF _ le_refl] IH [OF _ md_size_dropWhile] IH [OF _ tl_le]
    show ?thesis
    proof (cases "js_trim line = []")
      case True
      with less.prems Cons sub(1) show ?thesis by simp
    next
      case ne: False
      show ?thesis
      proof (cases "FENCE line")
        case (Some mi)
        obtain mk inf where mi: "mi = (mk, inf)" by (cases mi)
        have "b = code_block (fence_lang inf) (takeWhile (\<lambda>l. \<not> startsWith (trimStart l) mk) rest) \<or>
            b \<in> set (md_blocks (tl (dropWhile (\<lambda>l. \<not> startsWith (trimStart l) mk) rest)))"
          using less.prems Cons ne Some mi by (simp add: Let_def)
        then show ?thesis using only_code_block sub(3) by blast
      next
        case nf: None
        show ?thesis
        proof (cases "HEADING line")
          case (Some lt)
          then obtain n t where lt: "HEADING line = Some (n, t)" by (cases lt) auto
          have "b = tagged (''h'' @ nat_to_string n) (renderInline t) \<or> b \<in> set (md_blocks rest)"
            using less.prems Cons ne nf lt by simp
          then show ?thesis using only_heading [OF lt] sub(1) by blast
        next
          case nh: None
          have "b \<in> set (md_blocks (line # rest))" using less.prems Cons by simp
          then show ?thesis
          proof (rule only_other_block [OF _ ne nf nh])
            show "only_tags md_tags b" if "BLOCKQUOTE line = Some g"
              "b \<in> set (md_blocks (map quote_text (line # takeWhile P rest)))" for g P b
              using that by (rule quoted)
          qed (rule sub(1) sub(2), assumption)+
        qed
      qed
    qed
  qed
qed

section \<open>Properties\<close>

text \<open>
  C40. Escape-first rendering: in the HTML a Markdown source is rendered to, every opening bracket
  begins one of the renderer's own tags. Markup in the source, scripts included, comes out as
  text, whatever the source is.
\<close>

theorem rendered_markdown_has_only_known_tags:
  assumes "renderMarkdown source = u @ CHR ''<'' # v"
  shows "\<exists>t \<in> set md_tags. startsWith (CHR ''<'' # v) t"
proof -
  have "only_tags md_tags (renderMarkdown source)"
    unfolding renderMarkdown_def by (intro md.only_join md_literals only_md_blocks)
  with assms show ?thesis unfolding only_tags_iff by blast
qed

theorem rendered_markdown_has_only_known_tags_witness:
  "renderMarkdown ''a<script>'' = ''<p>a&lt;script&gt;</p>'' \<and> (\<exists>t \<in> set md_tags. startsWith ''</p>'' t)"
proof -
  have r: "renderMarkdown ''a<script>'' = ''<p>a&lt;script&gt;</p>''" by code_simp
  then have "renderMarkdown ''a<script>'' = ''<p>a&lt;script&gt;'' @ CHR ''<'' # ''/p>''" by simp
  from rendered_markdown_has_only_known_tags [OF this] r show ?thesis by simp
qed

text \<open>
  The scheme check and the attribute quoting of links can be defeated. A placeholder written
  into the source by hand is dropped after the scheme check, so a \<open>javascript:\<close> link comes out;
  an image inside a link text whose alt text opens a bracket lets the link's URL become an
  attribute of the image; and a query string is escaped twice.
\<close>

theorem markdown_link_safety_gaps:
  "str_includes (renderMarkdown (''[x](java'' @ [CHR 0x00] @ ''7'' @ [CHR 0x00] @ ''script:alert)''))
      (''<a href='' @ [CHR 0x22] @ ''javascript:alert'' @ [CHR 0x22]) \<and>
   startsWith (renderMarkdown ''![x[y](u)](onerror=location=name//)'')
      (''<p><img src='' @ [CHR 0x22] @ ''u'' @ [CHR 0x22] @ '' alt='' @ [CHR 0x22] @ ''x<a href='' @ [CHR 0x22] @ ''onerror=location=name//'') \<and>
   str_includes (renderMarkdown ''[a](https://e.com/?x=1&y=2)'') ''https://e.com/?x=1&amp;amp;y=2''"
proof (intro conjI)
  show "str_includes (renderMarkdown (''[x](java'' @ [CHR 0x00] @ ''7'' @ [CHR 0x00] @ ''script:alert)''))
      (''<a href='' @ [CHR 0x22] @ ''javascript:alert'' @ [CHR 0x22])"
    by code_simp
  show "startsWith (renderMarkdown ''![x[y](u)](onerror=location=name//)'')
      (''<p><img src='' @ [CHR 0x22] @ ''u'' @ [CHR 0x22] @ '' alt='' @ [CHR 0x22] @ ''x<a href='' @ [CHR 0x22] @ ''onerror=location=name//'')"
    by code_simp
  show "str_includes (renderMarkdown ''[a](https://e.com/?x=1&y=2)'') ''https://e.com/?x=1&amp;amp;y=2''"
    by code_simp
qed

end
