(* ===== verification/Chat.thy ===== *)
theory Chat
  imports Markup Banner
begin

text \<open>
  \<open>edge/serving-worker/src/chat.ts\<close>: the attached session transcript. The untrusted JSON is
  validated into a record, every message is rendered escape-first, and the pill that opens the
  transcript is injected into HTML pages.
\<close>

section \<open>Transcripts\<close>

definition CHAT_RESERVED_PATH :: string where
  "CHAT_RESERVED_PATH = ''__dropway/chat''"

definition chatTranscriptKey :: "string \<Rightarrow> string \<Rightarrow> string" where
  "chatTranscriptKey orgId chatId = ''chat-transcripts/'' @ orgId @ ''/'' @ chatId @ ''.json''"

record ChatMessage =
  cm_seq :: rat
  cm_role :: string
  cm_kind :: string
  cm_content :: string
  cm_action :: "string option"
  cm_tool :: "string option"
  cm_paths :: "string list"
  cm_versionId :: string

record ChatTranscript =
  ct_title :: string
  ct_sourceTool :: string
  ct_totalAppended :: rat
  ct_messages :: "ChatMessage list"

text \<open>The \<open>meta\<close> object of a message: action, tool and paths; \<^const>\<open>None\<close> rejects the transcript.\<close>

definition parse_meta :: "json option \<Rightarrow> (string option \<times> string option \<times> string list) option" where
  "parse_meta m =
     (case present m of
        None \<Rightarrow> Some (None, None, [])
      | Some v \<Rightarrow>
          (case as_object v of
             None \<Rightarrow> None
           | Some meta \<Rightarrow>
               Some (as_string (jprop meta ''action''), as_string (jprop meta ''tool''),
                     (case jprop meta ''paths'' of
                        Some (JArr ps) \<Rightarrow> List.map_filter (\<lambda>p. as_string (Some p)) ps
                      | _ \<Rightarrow> []))))"

definition parse_message :: "json \<Rightarrow> ChatMessage option" where
  "parse_message raw =
     (case as_object raw of
        None \<Rightarrow> None
      | Some m \<Rightarrow>
          (case (as_finite (jprop m ''seq''), as_string (jprop m ''role''), as_string (jprop m ''kind''),
                 as_string (jprop m ''content'')) of
             (Some sq, Some role, Some kind, Some cont) \<Rightarrow>
               (case parse_meta (jprop m ''meta'') of
                  None \<Rightarrow> None
                | Some (action, tool, paths) \<Rightarrow>
                    Some \<lparr>cm_seq = sq, cm_role = role, cm_kind = kind, cm_content = cont,
                          cm_action = action, cm_tool = tool, cm_paths = paths,
                          cm_versionId = (case as_string (jprop m ''version_id'') of Some v \<Rightarrow> v | None \<Rightarrow> [])\<rparr>)
           | _ \<Rightarrow> None))"

fun parse_messages :: "json list \<Rightarrow> ChatMessage list option" where
  "parse_messages [] = Some []"
| "parse_messages (raw # rest) =
     (case parse_message raw of
        None \<Rightarrow> None
      | Some m \<Rightarrow> map_option (Cons m) (parse_messages rest))"

definition parseTranscript :: "json \<Rightarrow> ChatTranscript option" where
  "parseTranscript input =
     (case as_object input of
        None \<Rightarrow> None
      | Some obj \<Rightarrow>
          (case jprop obj ''messages'' of
             Some (JArr raws) \<Rightarrow>
               (case parse_messages raws of
                  None \<Rightarrow> None
                | Some messages \<Rightarrow>
                    Some \<lparr>ct_title = (case as_string (jprop obj ''title'') of
                                        Some t \<Rightarrow> if t \<noteq> [] then t else ''Shared session''
                                      | None \<Rightarrow> ''Shared session''),
                          ct_sourceTool = (case as_string (jprop obj ''source_tool'') of Some t \<Rightarrow> t | None \<Rightarrow> []),
                          ct_totalAppended = (case as_finite (jprop obj ''total_appended'') of
                                                Some n \<Rightarrow> n | None \<Rightarrow> of_nat (length messages)),
                          ct_messages = messages\<rparr>)
           | _ \<Rightarrow> None))"

section \<open>Rendering a message\<close>

definition fence_line :: "string \<Rightarrow> bool" where
  "fence_line l = startsWith (dropWhile is_ws l) ''```''"

definition inline_code :: "string \<Rightarrow> (string \<times> string) option" where
  "inline_code s =
     (if startsWith s ''`'' then
        (let r = drop 1 s; g = takeWhile (\<lambda>x. x \<noteq> CHR ''`'' \<and> x \<noteq> CHR 0x0A) r; r' = drop (length g) r
         in if g \<noteq> [] \<and> startsWith r' ''`'' then Some (''<code>'' @ g @ ''</code>'', drop 1 r') else None)
      else None)"

definition flushText :: "string list \<Rightarrow> string list" where
  \<open>flushText ls =
     (let joined = join newline ls
      in if js_trim joined = [] then []
         else [''<p class="txt">'' @ replace_matches inline_code (esc joined) @ ''</p>''])\<close>

text \<open>The line loop: the pending text lines and the remaining lines.\<close>

function chat_blocks :: "string list \<Rightarrow> string list \<Rightarrow> string list" where
  "chat_blocks pending [] = flushText pending"
| "chat_blocks pending (l # ls) =
     (if fence_line l then
        flushText pending @
        [''<pre><code>'' @ esc (join newline (takeWhile (\<lambda>x. \<not> fence_line x) ls)) @ ''</code></pre>''] @
        chat_blocks [] (tl (dropWhile (\<lambda>x. \<not> fence_line x) ls))
      else chat_blocks (pending @ [l]) ls)"
  by pat_completeness auto
termination
proof (relation "measure (\<lambda>(pending, ls). length ls)")
  fix l and ls :: "string list"
  have "length (tl (dropWhile (\<lambda>x. \<not> fence_line x) ls)) \<le> length ls"
    using length_dropWhile_le [of "\<lambda>x. \<not> fence_line x" ls] by simp
  then show "(([], tl (dropWhile (\<lambda>x. \<not> fence_line x) ls)), pending, l # ls) \<in> measure (\<lambda>(pending, ls). length ls)"
    for pending :: "string list" by simp
qed auto

definition renderChatContent :: "string \<Rightarrow> string" where
  "renderChatContent src = concat (chat_blocks [] (split_on (CHR 0x0A) (normalize_newlines src)))"

section \<open>The page\<close>

definition sourceToolLabel :: "string \<Rightarrow> string" where
  "sourceToolLabel tool =
     (if tool = ''claude_code'' then ''Claude Code''
      else if tool = ''chatgpt'' then ''ChatGPT''
      else if tool = ''cursor'' then ''Cursor''
      else if tool = ''other'' \<or> tool = [] then ''AI session''
      else esc tool)"

definition countLine :: "runtime \<Rightarrow> nat \<Rightarrow> rat \<Rightarrow> string" where
  "countLine rt shown tot =
     (if of_nat shown < tot
      then ''showing the last '' @ nat_to_string shown @ '' of '' @ num_to_string rt tot
      else if shown = 1 then ''1 message'' else nat_to_string shown @ '' messages'')"

definition chip :: "string \<Rightarrow> string" where
  \<open>chip p = ''<span class="chip">'' @ esc p @ ''</span>''\<close>

definition renderActionRow :: "runtime \<Rightarrow> ChatMessage \<Rightarrow> string" where
  \<open>renderActionRow rt m =
     (let (icon, what) =
            (if cm_action m = Some ''file_edit'' then ([CHR 0xE2, CHR 0x9C, CHR 0x8E], concat (map chip (cm_paths m)))
             else ([CHR 0xE2, CHR 0x9A, CHR 0x99],
                   case cm_tool m of Some t \<Rightarrow> if t \<noteq> [] then chip t else [] | None \<Rightarrow> []))
      in ''<div class="action" id="msg-'' @ num_to_string rt (cm_seq m) @ ''">'' @
         ''<span class="icon" aria-hidden="true">'' @ icon @ ''</span>'' @
         ''<div class="act-body">'' @ what @ renderChatContent (cm_content m) @ ''</div>'' @ ''</div>'')\<close>

definition renderChatBubble :: "runtime \<Rightarrow> ChatMessage \<Rightarrow> string" where
  \<open>renderChatBubble rt m =
     ''<div class="msg '' @ (if cm_role m = ''user'' then ''user'' else ''assistant'') @ ''" id="msg-'' @
     num_to_string rt (cm_seq m) @ ''">'' @
     ''<div class="bubble">'' @ renderChatContent (cm_content m) @ ''</div>'' @ ''</div>''\<close>

definition VERSION_DIVIDER :: string where
  \<open>VERSION_DIVIDER =
     ''<div class="divider" role="separator"><span>'' @
     [CHR 0xE2, CHR 0x86, CHR 0x91] @
     '' deployed as new version</span></div>''\<close>

definition UNAVAILABLE_HTML :: string where
  \<open>UNAVAILABLE_HTML =
     ''<!doctype html>\<newline>'' @
     ''<html lang="en">\<newline>'' @
     ''<head>\<newline>'' @
     ''<meta charset="utf-8">\<newline>'' @
     ''<meta name="viewport" content="width=device-width, initial-scale=1">\<newline>'' @
     ''<title>Conversation unavailable</title>\<newline>'' @
     ''<style>\<newline>'' @
     ''  :root { color-scheme: light dark; }\<newline>'' @
     ''  body { font: 15px/1.6 system-ui, sans-serif; margin: 0;\<newline>'' @
     ''         display: grid; place-items: center; min-height: 100vh; }\<newline>'' @
     ''  main { text-align: center; padding: 2rem; max-width: 32rem; }\<newline>'' @
     ''  h1 { font-size: 1.4rem; margin: 0 0 .5rem; }\<newline>'' @
     ''  p { opacity: .7; }\<newline>'' @
     ''</style>\<newline>'' @
     ''</head>\<newline>'' @
     ''<body>\<newline>'' @
     ''  <main>\<newline>'' @
     ''    <h1>Conversation unavailable</h1>\<newline>'' @
     ''    <p>The session transcript for this site can't be shown right now.</p>\<newline>'' @
     ''  </main>\<newline>'' @
     ''</body>\<newline>'' @
     ''</html>\<newline>''\<close>

definition PAGE_CSS :: string where
  \<open>PAGE_CSS =
     ''\<newline>'' @
     '':root { color-scheme: light dark; }\<newline>'' @
     ''* { box-sizing: border-box; }\<newline>'' @
     ''body { font: 15px/1.55 -apple-system, BlinkMacSystemFont, "Segoe UI", Roboto, '' @
     ''Helvetica, Arial, sans-serif;\<newline>'' @
     ''       margin: 0; background: #fafafa; color: #1a1a1a; }\<newline>'' @
     ''header { position: sticky; top: 0; z-index: 10; display: flex; flex-wrap: '' @
     ''wrap; align-items: baseline;\<newline>'' @
     ''         gap: 0.4rem 0.6rem; padding: 0.7rem 1.1rem; background: rgba(250,250,250,0.9);\<newline>'' @
     ''         backdrop-filter: saturate(1.8) blur(8px); border-bottom: 1px solid '' @
     ''#e3e3e3; }\<newline>'' @
     ''header h1 { font-size: 1rem; margin: 0; font-weight: 700; word-break: break-word; '' @
     ''}\<newline>'' @
     ''header .badge { font-size: 0.72rem; font-weight: 600; padding: 0.15rem 0.5rem; '' @
     ''border-radius: 999px;\<newline>'' @
     ''                background: #eef2ff; color: #4f46e5; white-space: nowrap; '' @
     ''}\<newline>'' @
     ''header .count { font-size: 0.78rem; color: #6b7280; margin-left: auto; white-space: '' @
     ''nowrap; }\<newline>'' @
     ''main { max-width: 760px; margin: 0 auto; padding: 1.25rem 1rem 3rem; }\<newline>'' @
     ''.msg { display: flex; margin: 0.6rem 0; }\<newline>'' @
     ''.msg.user { justify-content: flex-end; }\<newline>'' @
     ''.msg.assistant { justify-content: flex-start; }\<newline>'' @
     ''.bubble { max-width: 85%; padding: 0.55rem 0.85rem; border-radius: 1rem; '' @
     ''overflow-wrap: anywhere; }\<newline>'' @
     ''.msg.user .bubble { background: #4f46e5; color: #fff; border-bottom-right-radius: '' @
     ''0.3rem; }\<newline>'' @
     ''.msg.assistant .bubble { background: #ececf0; color: #1a1a1a; border-bottom-left-radius: '' @
     ''0.3rem; }\<newline>'' @
     ''.txt { margin: 0.35rem 0; white-space: pre-wrap; }\<newline>'' @
     ''.txt:first-child { margin-top: 0; } .txt:last-child { margin-bottom: 0; '' @
     ''}\<newline>'' @
     ''pre { background: rgba(0,0,0,0.28); color: #f4f4f5; padding: 0.6rem 0.8rem; '' @
     ''border-radius: 0.5rem;\<newline>'' @
     ''      overflow-x: auto; margin: 0.4rem 0; }\<newline>'' @
     ''.msg.assistant pre, .action pre { background: #24262b; }\<newline>'' @
     ''pre code { background: none; padding: 0; color: inherit; }\<newline>'' @
     ''code { font-family: ui-monospace, SFMono-Regular, Menlo, Consolas, monospace; '' @
     ''font-size: 0.88em;\<newline>'' @
     ''       background: rgba(135,131,120,0.2); padding: 0.1em 0.3em; border-radius: '' @
     ''0.3rem; }\<newline>'' @
     ''.msg.user code { background: rgba(255,255,255,0.22); }\<newline>'' @
     ''.action { display: flex; gap: 0.55rem; align-items: baseline; width: 100%; '' @
     ''margin: 0.45rem 0;\<newline>'' @
     ''          padding: 0.45rem 0.7rem; border: 1px dashed #d6d6dc; border-radius: '' @
     ''0.6rem;\<newline>'' @
     ''          background: #f4f4f6; font-size: 0.85rem; color: #4b5563; }\<newline>'' @
     ''.action .icon { flex: none; }\<newline>'' @
     ''.action .act-body { min-width: 0; overflow-wrap: anywhere; }\<newline>'' @
     ''.chip { display: inline-block; font-family: ui-monospace, SFMono-Regular, '' @
     ''Menlo, Consolas, monospace;\<newline>'' @
     ''        font-size: 0.75rem; background: #e5e7eb; color: #374151; padding: '' @
     ''0.1rem 0.45rem;\<newline>'' @
     ''        border-radius: 0.35rem; margin: 0 0.3rem 0.2rem 0; }\<newline>'' @
     ''.divider { display: flex; align-items: center; gap: 0.6rem; margin: 1rem '' @
     ''0; color: #6b7280;\<newline>'' @
     ''           font-size: 0.78rem; }\<newline>'' @
     ''.divider::before, .divider::after { content: ""; flex: 1; border-top: 1px '' @
     ''solid #d6d6dc; }\<newline>'' @
     ''footer { text-align: center; padding: 1rem 0 2rem; font-size: 0.8rem; color: '' @
     ''#6b7280; }\<newline>'' @
     ''footer a { color: #4f46e5; font-weight: 600; text-decoration: none; }\<newline>'' @
     ''.empty { text-align: center; color: #6b7280; padding: 2rem 0; }\<newline>'' @
     ''@media (prefers-color-scheme: dark) {\<newline>'' @
     ''  body { background: #16181c; color: #e6e6e6; }\<newline>'' @
     ''  header { background: rgba(22,24,28,0.9); border-bottom-color: #2a2d34; '' @
     ''}\<newline>'' @
     ''  header .badge { background: #272a4a; color: #a5b4fc; }\<newline>'' @
     ''  header .count { color: #9aa0a8; }\<newline>'' @
     ''  .msg.assistant .bubble { background: #23262c; color: #e6e6e6; }\<newline>'' @
     ''  .action { background: #1d1f24; border-color: #33363d; color: #9aa0a8; '' @
     ''}\<newline>'' @
     ''  .chip { background: #2a2d34; color: #c3c7ce; }\<newline>'' @
     ''  .divider { color: #9aa0a8; } .divider::before, .divider::after { border-top-color: '' @
     ''#33363d; }\<newline>'' @
     ''  footer { color: #9aa0a8; } footer a { color: #a5b4fc; }\<newline>'' @
     ''  code { background: rgba(110,118,129,0.3); }\<newline>'' @
     ''}\<newline>''\<close>

definition message_row :: "runtime \<Rightarrow> ChatMessage \<Rightarrow> string" where
  "message_row rt m = (if cm_kind m = ''action'' then renderActionRow rt m else renderChatBubble rt m)"

text \<open>The message loop: the previous non-empty version and whether this is the first message.\<close>

fun chat_parts :: "runtime \<Rightarrow> string \<Rightarrow> bool \<Rightarrow> ChatMessage list \<Rightarrow> string list" where
  "chat_parts rt prevVersion first [] = []"
| "chat_parts rt prevVersion first (m # ms) =
     (if \<not> first \<and> cm_versionId m \<noteq> [] \<and> cm_versionId m \<noteq> prevVersion then [VERSION_DIVIDER] else []) @
     [message_row rt m] @
     chat_parts rt (if cm_versionId m \<noteq> [] then cm_versionId m else prevVersion) False ms"

definition renderChatPage :: "runtime \<Rightarrow> json \<Rightarrow> string \<Rightarrow> string option \<Rightarrow> string" where
  \<open>renderChatPage rt transcript host planTier =
     (case parseTranscript transcript of
        None \<Rightarrow> UNAVAILABLE_HTML
      | Some t \<Rightarrow>
          (let parts = chat_parts rt [] True (ct_messages t);
               body = (if parts = [] then ''<p class="empty">No messages in this session yet.</p>'' else join newline parts);
               isFree = (toLowerCase (js_trim (case planTier of Some p \<Rightarrow> p | None \<Rightarrow> [])) = ''free'');
               footer = (if isFree
                 then ''<footer>Shared via <a href="https://dropway.dev" target="_blank" rel="noopener noreferrer">Dropway</a></footer>''
                 else [])
           in
     ''<!doctype html>\<newline>'' @
     ''<html lang="en">\<newline>'' @
     ''<head>\<newline>'' @
     ''<meta charset="utf-8">\<newline>'' @
     ''<meta name="viewport" content="width=device-width, initial-scale=1">\<newline>'' @
     ''<title>'' @
     esc (ct_title t) @
     '' '' @
     [CHR 0xE2, CHR 0x80, CHR 0x94] @
     '' '' @
     esc host @
     ''</title>\<newline>'' @
     ''<style>'' @
     PAGE_CSS @
     ''</style>\<newline>'' @
     ''</head>\<newline>'' @
     ''<body>\<newline>'' @
     ''<header>\<newline>'' @
     ''<h1>'' @
     esc (ct_title t) @
     ''</h1>\<newline>'' @
     ''<span class="badge">'' @
     sourceToolLabel (ct_sourceTool t) @
     ''</span>\<newline>'' @
     ''<span class="count">'' @
     countLine rt (length (ct_messages t)) (ct_totalAppended t) @
     ''</span>\<newline>'' @
     ''</header>\<newline>'' @
     ''<main>\<newline>'' @
     body @
     ''\<newline>'' @
     ''</main>\<newline>'' @
     footer @
     ''\<newline>'' @
     ''</body>\<newline>'' @
     ''</html>\<newline>''))\<close>

section \<open>The pill\<close>

definition PILL_MARKUP :: string where
  \<open>PILL_MARKUP =
     ''<style>#dropway-chat-pill{position:fixed;bottom:16px;right:16px;z-index:2147483645;'' @
     ''display:inline-flex;align-items:center;gap:7px;padding:10px 15px;border:0;'' @
     ''border-radius:999px;background:#4f46e5;color:#fff;font:600 13px/1 -apple-system,BlinkMacSystemFo'' @
     ''nt,'Segoe UI',Roboto,Helvetica,Arial,sans-serif;cursor:pointer;box-shadow:0 '' @
     ''4px 14px rgba(0,0,0,.28);}#dropway-chat-pill:hover{background:#4338ca;}#dropway-chat-backdrop{po'' @
     ''sition:fixed;inset:0;z-index:2147483646;background:rgba(0,0,0,.45);opacity:0;'' @
     ''transition:opacity .2s ease;}#dropway-chat-backdrop.dropway-chat-open{opacity:1;'' @
     ''}#dropway-chat-drawer{position:fixed;top:0;right:0;bottom:0;z-index:2147483647;'' @
     ''width:min(420px,100vw);display:flex;flex-direction:column;background:#fff;'' @
     ''box-shadow:-8px 0 28px rgba(0,0,0,.3);transform:translateX(100%);transition:transform '' @
     ''.25s ease;}#dropway-chat-drawer.dropway-chat-open{transform:translateX(0);'' @
     ''}#dropway-chat-bar{display:flex;align-items:center;justify-content:space-between;'' @
     ''padding:10px 14px;border-bottom:1px solid #e5e7eb;font:600 14px/1.3 -apple-system,BlinkMacSystem'' @
     ''Font,'Segoe UI',Roboto,Helvetica,Arial,sans-serif;color:#1f2937;}#dropway-chat-close{border:0;'' @
     ''background:none;font-size:20px;line-height:1;color:#6b7280;cursor:pointer;'' @
     ''padding:2px 6px;}#dropway-chat-frame{flex:1;width:100%;border:0;}@media '' @
     ''(max-width:640px){#dropway-chat-drawer{top:auto;left:0;right:0;width:100%;'' @
     ''height:80vh;border-radius:16px 16px 0 0;transform:translateY(100%);}#dropway-chat-drawer.dropway'' @
     ''-chat-open{transform:translateY(0);}}@media (prefers-reduced-motion:reduce){#dropway-chat-drawer'' @
     '',#dropway-chat-backdrop{transition:none;}}@media (prefers-color-scheme:dark){#dropway-chat-drawe'' @
     ''r{background:#16181c;}#dropway-chat-bar{border-bottom-color:#2a2d34;color:#e6e6e6;'' @
     ''}}</style><div id="dropway-chat-backdrop" hidden></div><div id="dropway-chat-drawer" '' @
     ''role="dialog" aria-modal="true" aria-label="How this site was made" hidden>'' @
     ''<div id="dropway-chat-bar"><span>How this was made</span><button type="button" '' @
     ''id="dropway-chat-close" aria-label="Close">&times;</button></div><iframe '' @
     ''id="dropway-chat-frame" title="Session transcript"></iframe></div><button '' @
     ''type="button" id="dropway-chat-pill" aria-haspopup="dialog" aria-controls="dropway-chat-drawer">'' @
     [CHR 0xE2, CHR 0x9C, CHR 0xA8] @
     '' How this was made</button><script>(function(){var pill=document.getElementById('dropway-chat-pi'' @
     ''ll');var drawer=document.getElementById('dropway-chat-drawer');var backdrop=document.getElementB'' @
     ''yId('dropway-chat-backdrop');var frame=document.getElementById('dropway-chat-frame');'' @
     ''var close=document.getElementById('dropway-chat-close');if(!pill||!drawer||!backdrop||!frame||!c'' @
     ''lose)return;function open(){if(!frame.getAttribute('src'))frame.setAttribute('src','/__dropway/c'' @
     ''hat');backdrop.hidden=false;drawer.hidden=false;requestAnimationFrame(function(){requestAnimatio'' @
     ''nFrame(function(){drawer.classList.add('dropway-chat-open');backdrop.classList.add('dropway-chat'' @
     ''-open');});});}function shut(){drawer.classList.remove('dropway-chat-open');'' @
     ''backdrop.classList.remove('dropway-chat-open');drawer.hidden=true;backdrop.hidden=true;'' @
     ''pill.focus();}pill.addEventListener('click',open);close.addEventListener('click',shut);'' @
     ''backdrop.addEventListener('click',shut);document.addEventListener('keydown',function(e){if(e.key'' @
     ''==='Escape'&&!drawer.hidden)shut();});})();</script>''\<close>

definition CHAT_PILL_BYTE_LENGTH :: nat where
  "CHAT_PILL_BYTE_LENGTH = length PILL_MARKUP"

definition injectChatPill :: "string \<Rightarrow> string" where
  "injectChatPill html = injectAfterBodyOpen html PILL_MARKUP"

definition shouldInjectChatPill :: "KVRouteValue \<Rightarrow> string \<Rightarrow> string option \<Rightarrow> bool" where
  "shouldInjectChatPill route servedPath contentType =
     ((case chat_id route of Some c \<Rightarrow> c \<noteq> [] | None \<Rightarrow> False) \<and> isHtml servedPath \<and>
      isInjectableContentType contentType)"

interpretation pill: markup_inserter injectChatPill PILL_MARKUP
  by unfold_locales (simp add: injectChatPill_def injectAfterBodyOpen_inserts)

section \<open>The tags of a rendered message\<close>

definition chat_tags :: "string list" where
  \<open>chat_tags = [''<p class="txt">'', ''</p>'', ''<pre>'', ''</pre>'', ''<code>'', ''</code>'']\<close>

interpretation ch: tag_language chat_tags "''`''"
proof
  have "list_all (\<lambda>t. list_all (\<lambda>d. d \<notin> set t) ''`'') chat_tags" by code_simp
  then show "d \<notin> set t" if "t \<in> set chat_tags" "d \<in> set ''`''" for t d
    using that unfolding list_all_iff by blast
qed

lemma chat_literals:
  \<open>only_tags chat_tags ''<p class="txt">''\<close> "only_tags chat_tags ''</p>''" "only_tags chat_tags ''<code>''"
  "only_tags chat_tags ''</code>''" "only_tags chat_tags ''<pre><code>''" "only_tags chat_tags ''</code></pre>''"
  by code_simp+

lemma inline_code_Some:
  assumes "inline_code s = Some (rep, rest)"
  obtains g where "s = ''`'' @ g @ CHR ''`'' # rest" "rep = ''<code>'' @ g @ ''</code>''"
proof -
  define r where "r = drop 1 s"
  define g where "g = takeWhile (\<lambda>x. x \<noteq> CHR ''`'' \<and> x \<noteq> CHR 0x0A) r"
  have "(if startsWith s ''`'' then
      (if g \<noteq> [] \<and> startsWith (drop (length g) r) ''`''
       then Some (''<code>'' @ g @ ''</code>'', drop 1 (drop (length g) r)) else None) else None) = Some (rep, rest)"
    using assms unfolding inline_code_def Let_def r_def [symmetric] g_def [symmetric] .
  then have s: "startsWith s ''`''" and gd: "startsWith (drop (length g) r) ''`''"
    and reps: "rep = ''<code>'' @ g @ ''</code>''" and rest: "rest = drop 1 (drop (length g) r)"
    by (auto simp del: startsWith.simps split: if_splits)
  obtain t where t: "drop (length g) r = CHR ''`'' # t" using gd by (auto simp: startsWith_iff)
  have "s = ''`'' @ r" using s by (auto simp: startsWith_iff r_def)
  moreover have "r = g @ drop (length g) r"
    unfolding g_def by (metis takeWhile_dropWhile_id dropWhile_eq_drop)
  moreover have "rest = t" unfolding rest t by simp
  ultimately have "s = ''`'' @ g @ CHR ''`'' # rest" using t by metis
  with reps show ?thesis using that by blast
qed

lemma only_inline_code: "only_tags chat_tags s \<Longrightarrow> only_tags chat_tags (replace_matches inline_code s)"
proof (rule ch.only_replace_matches)
  show "c \<in> set ''`''" if "inline_code (c # cs) = Some r" for c cs r
    using that by (auto simp: inline_code_def split: if_splits)
  show "only_tags chat_tags rep \<and> only_tags chat_tags rest"
    if only: "only_tags chat_tags s" and m: "inline_code s = Some (rep, rest)" for s rep rest
  proof -
    obtain g where g: "s = ''`'' @ g @ CHR ''`'' # rest" "rep = ''<code>'' @ g @ ''</code>''"
      using m by (rule inline_code_Some)
    have "only_tags chat_tags g" using only g(1) ch.only_between [of "''`''" g "CHR ''`''" rest] by simp
    moreover have "only_tags chat_tags rest"
      using only g(1) ch.only_suffix [of "''`'' @ g @ ''`''" rest] by simp
    ultimately show ?thesis unfolding g(2) by (intro conjI ch.only_append chat_literals)
  qed
qed

lemma only_flushText: "b \<in> set (flushText ls) \<Longrightarrow> only_tags chat_tags b"
  by (auto simp: flushText_def Let_def simp del: append.simps split: if_splits
      intro!: ch.only_append chat_literals only_inline_code ch.only_esc)

lemma only_chat_blocks: "b \<in> set (chat_blocks pending ls) \<Longrightarrow> only_tags chat_tags b"
proof (induction pending ls rule: chat_blocks.induct)
  case (1 pending)
  then show ?case by (simp add: only_flushText)
next
  case (2 pending l ls)
  have "only_tags chat_tags (''<pre><code>'' @ esc x @ ''</code></pre>'')" for x
    by (intro ch.only_append chat_literals ch.only_esc)
  with 2 show ?case by (auto dest: only_flushText simp del: append.simps split: if_splits)
qed

section \<open>Version dividers\<close>

text \<open>The version shown last before a message: the newest non-empty one.\<close>

fun last_version :: "string \<Rightarrow> ChatMessage list \<Rightarrow> string" where
  "last_version v [] = v"
| "last_version v (m # ms) = last_version (if cm_versionId m \<noteq> [] then cm_versionId m else v) ms"

definition divider_before :: "string \<Rightarrow> bool \<Rightarrow> ChatMessage list \<Rightarrow> nat \<Rightarrow> bool" where
  "divider_before v first ms i \<longleftrightarrow> (first \<longrightarrow> 0 < i) \<and> cm_versionId (ms ! i) \<noteq> [] \<and>
     cm_versionId (ms ! i) \<noteq> last_version v (take i ms)"

lemma chat_parts_spec:
  "chat_parts rt v first ms =
     concat (map (\<lambda>i. (if divider_before v first ms i then [VERSION_DIVIDER] else []) @
        [message_row rt (ms ! i)])
       [0..<length ms])"
proof (induction ms arbitrary: v first)
  case (Cons m ms)
  have up: "[0..<length (m # ms)] = 0 # map Suc [0..<length ms]"
    by (simp add: upt_conv_Cons map_Suc_upt del: upt_Suc)
  have "divider_before v first (m # ms) (Suc i) =
      divider_before (if cm_versionId m \<noteq> [] then cm_versionId m else v) False ms i" for i
    by (simp add: divider_before_def)
  then show ?case unfolding up by (simp add: Cons.IH comp_def divider_before_def [of v first "m # ms" 0])
qed simp

section \<open>Properties\<close>

text \<open>
  A transcript message cannot inject markup: in its rendering every opening bracket begins a
  paragraph, a code block or an inline code tag of the renderer, none of which takes anything from
  the message into its attributes.
\<close>

theorem rendered_message_has_only_known_tags:
  assumes "renderChatContent src = u @ CHR ''<'' # v"
  shows "\<exists>t \<in> set chat_tags. startsWith (CHR ''<'' # v) t"
proof -
  have "only_tags chat_tags (renderChatContent src)"
    unfolding renderChatContent_def by (intro ch.only_concat only_chat_blocks)
  with assms show ?thesis unfolding only_tags_iff by blast
qed

theorem rendered_message_has_only_known_tags_witness:
  "\<exists>u. renderChatContent ''`a`<b>'' = u @ ''</p>'' \<and> (\<exists>t \<in> set chat_tags. startsWith ''</p>'' t)"
proof -
  have "endsWith (renderChatContent ''`a`<b>'') ''</p>''" by code_simp
  then obtain u where u: "renderChatContent ''`a`<b>'' = u @ CHR ''<'' # ''/p>''" by (auto simp: endsWith_iff)
  from rendered_message_has_only_known_tags [OF this] u show ?thesis by auto
qed

text \<open>
  The deploy dividers of a transcript: one stands before a message exactly when the message
  is not the first, names a version, and that version differs from the newest one named before
  it; messages without a version never produce one.
\<close>

theorem transcript_dividers:
  "chat_parts rt [] True ms =
     concat (map (\<lambda>i. (if 0 < i \<and> cm_versionId (ms ! i) \<noteq> [] \<and>
           cm_versionId (ms ! i) \<noteq> last_version [] (take i ms) then [VERSION_DIVIDER] else []) @
        [message_row rt (ms ! i)])
       [0..<length ms])"
  unfolding chat_parts_spec by (simp add: divider_before_def)

end
