(* ===== verification/Analytics.thy ===== *)
theory Analytics
  imports Env Route
begin

text \<open>
  The two reporters of the Worker, \<open>edge/serving-worker/src/analytics.ts\<close> (visits and
  404s) and \<open>errtrack.ts\<close> (exceptions). Each capture function is a pure function of the
  request to the event it posts, or to \<^const>\<open>None\<close> when it posts nothing; the serving code
  hands the event to the background work of the isolate. That a failing post changes nothing
  is built in: an event has no result.
\<close>

section \<open>Definitions (\<open>analytics.ts\<close>)\<close>

definition DEFAULT_HOST :: string where
  "DEFAULT_HOST = ''https://us.posthog.com''"

text \<open>A JavaScript string that is neither \<open>undefined\<close> nor empty.\<close>

definition truthy_string :: "string option \<Rightarrow> string option" where
  "truthy_string v = (case v of Some s \<Rightarrow> if s = [] then None else Some s | None \<Rightarrow> None)"

definition isVisit :: "string \<Rightarrow> string option \<Rightarrow> bool" where
  "isVisit method contentType =
     (method = ''GET'' \<and>
      (case truthy_string contentType of
         None \<Rightarrow> False
       | Some ct \<Rightarrow> str_includes (toLowerCase ct) ''text/html''))"

text \<open>\<open>byte.toString(16).padStart(2, "0")\<close>.\<close>

definition hex_byte :: "char \<Rightarrow> string" where
  "hex_byte c = [hex_digit_lower (of_char c div 16), hex_digit_lower (of_char c mod 16)]"

definition visitor_data :: "string \<Rightarrow> string \<Rightarrow> string \<Rightarrow> int \<Rightarrow> string" where
  "visitor_data ip ua salt now = take 10 (toISOString now) @ '':'' @ salt @ '':'' @ ip @ '':'' @ ua"

definition dailyVisitorId :: "runtime \<Rightarrow> string \<Rightarrow> string \<Rightarrow> string \<Rightarrow> int \<Rightarrow> string" where
  "dailyVisitorId rt ip ua salt now =
     (let bytes = sha256_digest rt (visitor_data ip ua salt now)
      in concat (map (\<lambda>i. hex_byte (if i < length bytes then bytes ! i else CHR 0x00)) [0..<16]))"

definition buildVisitPayload ::
  "string \<Rightarrow> string \<Rightarrow> string \<Rightarrow> string \<Rightarrow> KVRouteValue \<Rightarrow> string \<Rightarrow> int \<Rightarrow> json" where
  "buildVisitPayload apiKey distinctId host path route environment now =
     JObj
      [(''api_key'', JStr apiKey),
       (''event'', JStr ''site_visit''),
       (''distinct_id'', JStr distinctId),
       (''timestamp'', JStr (toISOString now)),
       (''properties'', JObj
         [(''$host'', JStr host),
          (''site_id'', JStr (site_id route)),
          (''org_id'', JStr (org_id route)),
          (''version_id'', JStr (version_id route)),
          (''access_mode'', JStr (access_mode route)),
          (''path'', JStr path),
          (''environment'', JStr environment),
          (''$lib'', JStr ''dropway-serving-worker''),
          (''$groups'', JObj [(''organization'', JStr (org_id route))]),
          (''$process_person_profile'', JBool False)])]"

definition is404Reportable :: "request \<Rightarrow> bool" where
  "is404Reportable request =
     (req_method request = ''GET'' \<and>
      (case truthy_string (header_get (req_headers request) ''Sec-Fetch-Dest'') of
         Some dest \<Rightarrow> dest = ''document'' \<or> dest = ''iframe''
       | None \<Rightarrow>
           str_includes (case header_get (req_headers request) ''Accept'' of Some a \<Rightarrow> a | None \<Rightarrow> [])
             ''text/html''))"

definition opt_json :: "string option \<Rightarrow> json" where
  "opt_json v = (case v of Some s \<Rightarrow> JStr s | None \<Rightarrow> JNull)"

definition buildServe404Payload ::
  "string \<Rightarrow> string \<Rightarrow> string \<Rightarrow> string \<Rightarrow> string \<Rightarrow> string \<Rightarrow> KVRouteValue option \<Rightarrow> string \<Rightarrow> int \<Rightarrow> json" where
  "buildServe404Payload apiKey distinctId host path method rsn route environment now =
     JObj
      [(''api_key'', JStr apiKey),
       (''event'', JStr ''serve_404''),
       (''distinct_id'', JStr distinctId),
       (''timestamp'', JStr (toISOString now)),
       (''properties'', JObj
         ([(''$host'', JStr host),
           (''path'', JStr path),
           (''method'', JStr method),
           (''reason'', JStr rsn),
           (''site_id'', opt_json (map_option site_id route)),
           (''org_id'', opt_json (map_option org_id route)),
           (''version_id'', opt_json (map_option version_id route)),
           (''environment'', JStr environment),
           (''$lib'', JStr ''dropway-serving-worker'')] @
          (case route of
             Some r \<Rightarrow> [(''$groups'', JObj [(''organization'', JStr (org_id r))])]
           | None \<Rightarrow> []) @
          [(''$process_person_profile'', JBool False)]))]"

text \<open>\<open>(env.POSTHOG_HOST ?? DEFAULT_HOST).replace(/\/$/, "")\<close> with the capture path.\<close>

definition capture_url :: "Env \<Rightarrow> string" where
  "capture_url env =
     (let h = (case POSTHOG_HOST env of Some h \<Rightarrow> h | None \<Rightarrow> DEFAULT_HOST)
      in (if endsWith h ''/'' then butlast h else h) @ ''/capture/'')"

definition environment_label :: "Env \<Rightarrow> string" where
  "environment_label env = (case ENVIRONMENT env of Some e \<Rightarrow> e | None \<Rightarrow> ''production'')"

text \<open>The visitor id of a request: both capture functions derive it the same way.\<close>

definition header_or_empty :: "request \<Rightarrow> string \<Rightarrow> string" where
  "header_or_empty request name =
     (case header_get (req_headers request) name of Some v \<Rightarrow> v | None \<Rightarrow> [])"

definition request_visitor :: "runtime \<Rightarrow> Env \<Rightarrow> string \<Rightarrow> request \<Rightarrow> int \<Rightarrow> string" where
  "request_visitor rt env key request now =
     dailyVisitorId rt (header_or_empty request ''CF-Connecting-IP'') (header_or_empty request ''User-Agent'')
       (case VISIT_SALT env of Some s \<Rightarrow> s | None \<Rightarrow> key) now"

definition captureServe404 ::
  "runtime \<Rightarrow> Env \<Rightarrow> request \<Rightarrow> string \<Rightarrow> KVRouteValue option \<Rightarrow> int \<Rightarrow> posted_event option" where
  "captureServe404 rt env request rsn route now =
     (case truthy_string (POSTHOG_KEY env) of
        None \<Rightarrow> None
      | Some key \<Rightarrow>
          if \<not> is404Reportable request then None
          else
            (case new_url rt (req_url request) None of
               None \<Rightarrow> None
             | Some url \<Rightarrow>
                 Some (capture_url env,
                       buildServe404Payload key (request_visitor rt env key request now) (url_host url)
                         (url_pathname url) (req_method request) rsn route (environment_label env) now)))"

definition captureSiteVisit ::
  "runtime \<Rightarrow> Env \<Rightarrow> request \<Rightarrow> KVRouteValue \<Rightarrow> url \<Rightarrow> string option \<Rightarrow> int \<Rightarrow> posted_event option" where
  "captureSiteVisit rt env request route url contentType now =
     (case truthy_string (POSTHOG_KEY env) of
        None \<Rightarrow> None
      | Some key \<Rightarrow>
          if \<not> isVisit (req_method request) contentType then None
          else
            Some (capture_url env,
                  buildVisitPayload key (request_visitor rt env key request now) (url_host url)
                    (url_pathname url) route (environment_label env) now))"

section \<open>Definitions (\<open>errtrack.ts\<close>)\<close>

definition SYSTEM_DISTINCT_ID :: string where
  "SYSTEM_DISTINCT_ID = ''system''"

fun error_name :: "js_error \<Rightarrow> string" where
  "error_name (KVRouteValidationError m) = ''KVRouteValidationError''"
| "error_name (JsError m) = ''Error''"
| "error_name (JsTypeError m) = ''TypeError''"
| "error_name (JsSyntaxError m) = ''SyntaxError''"

fun error_message :: "js_error \<Rightarrow> string" where
  "error_message (KVRouteValidationError m) = m"
| "error_message (JsError m) = m"
| "error_message (JsTypeError m) = m"
| "error_message (JsSyntaxError m) = m"

text \<open>\<open>{...a, ...b}\<close>: a later property takes the place of an earlier one of its name.\<close>

fun spread :: "jobj \<Rightarrow> jobj \<Rightarrow> jobj" where
  "spread a [] = a"
| "spread a ((k, v) # b) = spread (assoc_put k v a) b"

definition buildExceptionPayload ::
  "runtime \<Rightarrow> string \<Rightarrow> js_error \<Rightarrow> jobj \<Rightarrow> string \<Rightarrow> int \<Rightarrow> json" where
  "buildExceptionPayload rt apiKey err props environment now =
     JObj
      [(''api_key'', JStr apiKey),
       (''event'', JStr ''$exception''),
       (''distinct_id'', JStr SYSTEM_DISTINCT_ID),
       (''timestamp'', JStr (toISOString now)),
       (''properties'', JObj (spread
         [(''$exception_list'', JArr
            [JObj [(''type'', JStr (error_name err)),
                   (''value'', JStr (error_message err)),
                   (''mechanism'', JObj [(''handled'', JBool False), (''synthetic'', JBool False)])]]),
          (''$exception_level'', JStr ''error''),
          (''stack'', opt_json (error_stack rt err)),
          (''environment'', JStr environment),
          (''$lib'', JStr ''dropway-serving-worker'')] props))]"

definition captureException :: "runtime \<Rightarrow> Env \<Rightarrow> js_error \<Rightarrow> jobj \<Rightarrow> int \<Rightarrow> posted_event option" where
  "captureException rt env err props now =
     (case truthy_string (POSTHOG_KEY env) of
        None \<Rightarrow> None
      | Some key \<Rightarrow>
          Some (capture_url env, buildExceptionPayload rt key err props (environment_label env) now))"

section \<open>Laws\<close>

lemma dailyVisitorId_length: "length (dailyVisitorId rt ip ua salt now) = 32"
proof -
  have l: "\<And>f. length (concat (map (\<lambda>i. hex_byte (f i)) ks)) = 2 * length ks" for ks :: "nat list"
    by (induction ks) (simp_all add: hex_byte_def)
  show ?thesis by (simp add: dailyVisitorId_def Let_def l del: upt.simps)
qed

lemma dailyVisitorId_hex:
  "c \<in> set (dailyVisitorId rt ip ua salt now) \<Longrightarrow> c \<in> set ''0123456789abcdef''"
proof -
  have d: "hex_digit_lower n \<in> set ''0123456789abcdef''" if h: "n < 16" for n
  proof -
    have "\<forall>n \<in> set [0..<16]. hex_digit_lower n \<in> set ''0123456789abcdef''" by code_simp
    with h show ?thesis by simp
  qed
  have b: "set (hex_byte c) \<subseteq> set ''0123456789abcdef''" for c
  proof -
    have "(of_char c :: nat) < 256" by simp
    then have "(of_char c :: nat) div 16 < 16" "(of_char c :: nat) mod 16 < 16" by linarith+
    with d show ?thesis by (simp add: hex_byte_def)
  qed
  assume "c \<in> set (dailyVisitorId rt ip ua salt now)"
  with b show ?thesis unfolding dailyVisitorId_def Let_def by fastforce
qed

lemma truthy_string_Some [simp]: "truthy_string v = Some s \<longleftrightarrow> v = Some s \<and> s \<noteq> []"
  by (auto simp: truthy_string_def split: option.splits)

lemma capture_off:
  "POSTHOG_KEY env = None \<Longrightarrow> captureSiteVisit rt env req route url ct now = None"
  "POSTHOG_KEY env = None \<Longrightarrow> captureServe404 rt env req rsn r now = None"
  "POSTHOG_KEY env = None \<Longrightarrow> captureException rt env err props now = None"
  by (simp_all add: captureSiteVisit_def captureServe404_def captureException_def truthy_string_def)

section \<open>What a report discloses of a visitor\<close>

text \<open>
  Two requests that differ only in headers and are classified alike, from visitors with the
  same digest of day, salt, address and agent.
\<close>

definition same_but_visitor :: "runtime \<Rightarrow> Env \<Rightarrow> int \<Rightarrow> request \<Rightarrow> request \<Rightarrow> bool" where
  "same_but_visitor rt env now r1 r2 \<longleftrightarrow>
     req_method r1 = req_method r2 \<and> req_url r1 = req_url r2 \<and> is404Reportable r1 = is404Reportable r2 \<and>
     (\<forall>salt. (case VISIT_SALT env of Some s \<Rightarrow> Some s | None \<Rightarrow> POSTHOG_KEY env) = Some salt \<longrightarrow>
        sha256_digest rt (visitor_data (header_or_empty r1 ''CF-Connecting-IP'') (header_or_empty r1 ''User-Agent'') salt now) =
        sha256_digest rt (visitor_data (header_or_empty r2 ''CF-Connecting-IP'') (header_or_empty r2 ''User-Agent'') salt now))"

lemma request_visitor_digest:
  assumes "same_but_visitor rt env now r1 r2" and "POSTHOG_KEY env = Some key"
  shows "request_visitor rt env key r1 now = request_visitor rt env key r2 now"
  using assms
  by (auto simp: same_but_visitor_def request_visitor_def dailyVisitorId_def split: option.splits)

lemma request_visitor_opaque:
  "length (request_visitor rt env key req now) = 32"
  "set (request_visitor rt env key req now) \<subseteq> set ''0123456789abcdef''"
  using dailyVisitorId_length dailyVisitorId_hex unfolding request_visitor_def by blast+

text \<open>
  Visitor privacy. A visit report and a 404 report depend on the visitor's headers only
  through the SHA-256 digest of \<open>day:salt:ip:ua\<close>: two requests that agree on everything but
  the headers, and whose digests agree, produce the same event. In the event the visitor is
  the \<open>distinct_id\<close>, always 32 lower-case hexadecimal digits, and no person profile is asked
  for.
\<close>

theorem reports_disclose_only_the_digest:
  assumes "same_but_visitor rt env now r1 r2"
  shows "captureSiteVisit rt env r1 route url ct now = captureSiteVisit rt env r2 route url ct now \<and>
         captureServe404 rt env r1 rsn rte now = captureServe404 rt env r2 rsn rte now \<and>
         (\<forall>ep ev. captureSiteVisit rt env r1 route url ct now = Some (ep, ev) \<or>
                   captureServe404 rt env r1 rsn rte now = Some (ep, ev) \<longrightarrow>
           (\<exists>ms props d. ev = JObj ms \<and> jprop ms ''distinct_id'' = Some (JStr d) \<and> length d = 32 \<and>
              set d \<subseteq> set ''0123456789abcdef'' \<and> jprop ms ''properties'' = Some (JObj props) \<and>
              jprop props ''$process_person_profile'' = Some (JBool False)))"
proof (intro conjI)
  note v = request_visitor_digest [OF assms]
  have m: "req_method r1 = req_method r2" "req_url r1 = req_url r2" "is404Reportable r1 = is404Reportable r2"
    using assms by (simp_all add: same_but_visitor_def)
  show "captureSiteVisit rt env r1 route url ct now = captureSiteVisit rt env r2 route url ct now"
    using v m by (simp add: captureSiteVisit_def truthy_string_def split: option.split)
  show "captureServe404 rt env r1 rsn rte now = captureServe404 rt env r2 rsn rte now"
    using v m by (simp add: captureServe404_def truthy_string_def split: option.split)
  show "\<forall>ep ev. captureSiteVisit rt env r1 route url ct now = Some (ep, ev) \<or>
                captureServe404 rt env r1 rsn rte now = Some (ep, ev) \<longrightarrow>
           (\<exists>ms props d. ev = JObj ms \<and> jprop ms ''distinct_id'' = Some (JStr d) \<and> length d = 32 \<and>
              set d \<subseteq> set ''0123456789abcdef'' \<and> jprop ms ''properties'' = Some (JObj props) \<and>
              jprop props ''$process_person_profile'' = Some (JBool False))"
    using request_visitor_opaque
    by (auto simp: captureSiteVisit_def captureServe404_def buildVisitPayload_def buildServe404Payload_def
        split: option.splits if_splits)
qed

definition sample_visitor :: "string \<Rightarrow> request" where
  "sample_visitor ip = \<lparr>req_method = ''GET'', req_url = ''https://docs.example.com/guide'',
     req_headers = [(''cf-connecting-ip'', ip), (''accept'', ''text/html'')]\<rparr>"

definition sample_reporting_env :: Env where
  "sample_reporting_env =
     \<lparr>ROUTES = (good_binding, Map.empty), BUCKET = (\<lambda>_. Inr None), EDGE_JWKS_URL = None,
      APP_AUTHZ_URL = None, RATE_LIMITER = None, LIMITS = None, REVOKED = None, RATE_LIMIT_MAX = None,
      RATE_LIMIT_WINDOW_SECONDS = None, POSTHOG_KEY = Some ''phc_1'', POSTHOG_HOST = None,
      ENVIRONMENT = None, VISIT_SALT = None, ATTRIBUTION_BANNER = None\<rparr>"

lemma sample_visitors_alike:
  "same_but_visitor sample_runtime sample_reporting_env 0 (sample_visitor ''10.0.0.1'') (sample_visitor ''10.0.0.2'')"
  by (simp add: same_but_visitor_def sample_visitor_def sample_reporting_env_def is404Reportable_def
      truthy_string_def header_get_def toLowerCase_def lower_char_def sample_runtime_def)

theorem reports_disclose_only_the_digest_witness:
  "captureServe404 sample_runtime sample_reporting_env (sample_visitor ''10.0.0.1'') ''route_not_found'' None 0 =
     captureServe404 sample_runtime sample_reporting_env (sample_visitor ''10.0.0.2'') ''route_not_found'' None 0 \<and>
   captureServe404 sample_runtime sample_reporting_env (sample_visitor ''10.0.0.1'') ''route_not_found'' None 0 \<noteq> None"
proof -
  have "captureServe404 sample_runtime sample_reporting_env (sample_visitor ''10.0.0.1'') ''route_not_found'' None 0 \<noteq> None"
    by code_simp
  with reports_disclose_only_the_digest [OF sample_visitors_alike] show ?thesis by blast
qed

end
