(* ===== verification/Worker.thy ===== *)
theory Worker
  imports Pages Embed Authz Llm Listing Markdown Chat Analytics
begin

text \<open>
  The Worker itself: \<open>edge/serving-worker/src/index.ts\<close> from the entry point down, one
  definition per function.

  A handler takes the environment, the request and the state of the isolate, and returns the
  response (or the error it throws) with the next state. Awaiting is sequencing; work handed to
  \<open>waitUntil\<close> is done before the handler returns, which the response does not depend on.
\<close>

section \<open>Reading the bindings\<close>

text \<open>\<open>await env.ROUTES.get(key, "json")\<close>: a missing key reads as \<open>null\<close>.\<close>

definition routes_get_json :: "runtime \<Rightarrow> Env \<Rightarrow> string \<Rightarrow> json result" where
  "routes_get_json rt env key =
     (case kv_get (fst (ROUTES env)) (snd (ROUTES env)) key of
        None \<Rightarrow> Inl (kv_error rt key)
      | Some None \<Rightarrow> Inr JNull
      | Some (Some s) \<Rightarrow>
          (case JSON_parse s of Some v \<Rightarrow> Inr v | None \<Rightarrow> Inl (JsSyntaxError (syntax_message rt s))))"

definition body_text :: "string option \<Rightarrow> string" where
  "body_text body = (case body of Some b \<Rightarrow> response_text b | None \<Rightarrow> [])"

text \<open>\<open>object.json()\<close>, and the fallback for an object without it.\<close>

definition object_json :: "runtime \<Rightarrow> R2Object \<Rightarrow> json result" where
  "object_json rt obj =
     (let s = body_text (r2_body obj)
      in (case JSON_parse s of Some v \<Rightarrow> Inr v | None \<Rightarrow> Inl (JsSyntaxError (syntax_message rt s))))"

definition readBodyJson :: "R2Object \<Rightarrow> json" where
  "readBodyJson obj =
     (case r2_body obj of
        None \<Rightarrow> JNull
      | Some b \<Rightarrow> (case JSON_parse (response_text b) of Some v \<Rightarrow> v | None \<Rightarrow> JNull))"

definition read_json :: "runtime \<Rightarrow> R2Object \<Rightarrow> json result" where
  "read_json rt obj = (if r2_json obj then object_json rt obj else Inr (readBodyJson obj))"

text \<open>
  \<open>loadManifest\<close>. The memo on the route object is not modelled: it lives for one request, and
  no request path loads the manifest twice.
\<close>

definition loadManifest :: "runtime \<Rightarrow> Env \<Rightarrow> KVRouteValue \<Rightarrow> Manifest option result" where
  "loadManifest rt env route =
     (case BUCKET env (manifestKey route) of
        Inl e \<Rightarrow> Inl e
      | Inr None \<Rightarrow> Inr None
      | Inr (Some obj) \<Rightarrow>
          (case read_json rt obj of Inl e \<Rightarrow> Inl e | Inr raw \<Rightarrow> Inr (parseManifest raw)))"

section \<open>Small helpers\<close>

definition safePath :: "runtime \<Rightarrow> string \<Rightarrow> string" where
  "safePath rt rawURL = (case new_url rt rawURL None of Some u \<Rightarrow> url_pathname u | None \<Rightarrow> [])"

definition positive_or :: "string option \<Rightarrow> int \<Rightarrow> int" where
  "positive_or v d =
     (case parseInt10 (case v of Some s \<Rightarrow> s | None \<Rightarrow> []) of
        Some n \<Rightarrow> if of_int n < double_overflow \<and> 0 < n then n else d
      | None \<Rightarrow> d)"

definition rateLimitPolicy :: "Env \<Rightarrow> RateLimitPolicy" where
  "rateLimitPolicy env =
     \<lparr>limit = positive_or (RATE_LIMIT_MAX env) (limit DEFAULT_RATE_LIMIT),
      windowSeconds = positive_or (RATE_LIMIT_WINDOW_SECONDS env) (windowSeconds DEFAULT_RATE_LIMIT)\<rparr>"

definition revokedKV :: "Env \<Rightarrow> kv_binding \<times> kv_store" where
  "revokedKV env = (case REVOKED env of Some kv \<Rightarrow> kv | None \<Rightarrow> ROUTES env)"

definition gateOpts :: "Env \<Rightarrow> ServeOptions \<Rightarrow> GateOpts" where
  "gateOpts env opts =
     \<lparr>go_cfg = gatedConfig env, go_fetchImpl = so_fetchImpl opts, go_now = so_now opts\<rparr>"

definition bodyFor :: "request \<Rightarrow> response \<Rightarrow> response" where
  "bodyFor request r =
     (if req_method request \<noteq> ''HEAD'' then r else mk_response None (resp_status r) (resp_headers r))"

definition isRawRequested :: "url \<Rightarrow> bool" where
  "isRawRequested url = params_has url ''raw''"

text \<open>
  \<open>cacheKey\<close>. The key is the URL of the request with the query dropped and the route folded
  into the path; the setter of \<open>pathname\<close> is the platform's. The method of the key is always
  \<open>GET\<close>.
\<close>

definition cache_path :: "KVRouteValue \<Rightarrow> url \<Rightarrow> string" where
  "cache_path route url =
     ''/'' @ access_mode route @ ''/'' @ version_id route @ ''/'' @
     (case plan_tier route of Some t \<Rightarrow> t | None \<Rightarrow> ''_'') @ ''/'' @
     (case chat_id route of Some c \<Rightarrow> c | None \<Rightarrow> ''_'') @
     (if isRawRequested url then ''/raw'' else []) @ url_pathname url"

definition cacheKey :: "runtime \<Rightarrow> KVRouteValue \<Rightarrow> url \<Rightarrow> string" where
  "cacheKey rt route url =
     url_href (url\<lparr>url_search := [], url_pathname := set_pathname rt (cache_path route url)\<rparr>)"

definition scheduleVisit ::
  "runtime \<Rightarrow> Env \<Rightarrow> request \<Rightarrow> KVRouteValue \<Rightarrow> url \<Rightarrow> string option \<Rightarrow> ServeOptions \<Rightarrow> world \<Rightarrow> world" where
  "scheduleVisit rt env request route url contentType opts w =
     emit (captureSiteVisit rt env request route url contentType (so_now opts)) w"

definition reportRejectedRoute ::
  "runtime \<Rightarrow> Env \<Rightarrow> string \<Rightarrow> json \<Rightarrow> ServeOptions \<Rightarrow> world \<Rightarrow> world" where
  "reportRejectedRoute rt env host raw opts w =
     (if \<not> so_waitUntil opts then w
      else
        (let diag = diagnoseRouteParseFailure rt raw;
             message =
               (if schemaTooNew diag
                then ''route projection rejected: schema_version '' @
                     (case schemaVersion diag of Some q \<Rightarrow> num_to_string rt q | None \<Rightarrow> ''undefined'') @
                     '' is newer than this Worker accepts ('' @ int_to_string SCHEMA_VERSION @
                     '') '' @ [CHR 0xE2, CHR 0x80, CHR 0x94] @
                     '' deploy skew, the API writer is ahead of this reader; deploy the serving Worker''
                else ''route projection rejected: '' @ reason diag)
         in emit (captureException rt env (JsError message)
                    [(''kind'', JStr ''route_projection_rejected''),
                     (''host'', JStr host),
                     (''route_schema_version'',
                        (case schemaVersion diag of Some q \<Rightarrow> JNum (Fin q) | None \<Rightarrow> JNull)),
                     (''supported_schema_version'', JNum (Fin (of_int SCHEMA_VERSION))),
                     (''schema_too_new'', JBool (schemaTooNew diag))] (so_clock opts)) w))"

section \<open>Misses\<close>

text \<open>
  The fields of a manifest entry. A property inherited from \<open>Object.prototype\<close> has none of
  them: reading gives \<open>undefined\<close>.
\<close>

fun entry_sha256 :: "prop_value \<Rightarrow> string" where
  "entry_sha256 (Entry e) = sha256 e"
| "entry_sha256 Foreign = ''undefined''"

fun entry_content_type :: "prop_value \<Rightarrow> string option" where
  "entry_content_type (Entry e) = Some (content_type e)"
| "entry_content_type Foreign = None"

fun entry_size :: "prop_value \<Rightarrow> rat option" where
  "entry_size (Entry e) = size e"
| "entry_size Foreign = None"

text \<open>The version's own 404 page: tenant content under the tenant's header set.\<close>

definition custom_404 :: "prop_value \<Rightarrow> R2Object \<Rightarrow> response" where
  "custom_404 entry obj =
     (let h = new_headers ([(''Cache-Control'', ''public, max-age=30'')] @ securityHeaders)
      in mk_response (r2_body obj) 404
           (header_set h ''Content-Type''
              (case entry_content_type entry of Some t \<Rightarrow> t | None \<Rightarrow> ''undefined'')))"

definition notFound ::
  "runtime \<Rightarrow> string \<Rightarrow> request \<Rightarrow> KVRouteValue option \<Rightarrow> Env \<Rightarrow> Manifest option \<Rightarrow> ServeOptions \<Rightarrow> world
   \<Rightarrow> response result \<times> world" where
  "notFound rt rsn request route env manifest opts w =
     (let w' = (if so_waitUntil opts
                then emit (captureServe404 rt env request rsn route (so_clock opts)) w else w)
      in (case (route, manifest) of
            (Some r, Some m) \<Rightarrow>
              (case files_get m NOT_FOUND_PATH of
                 None \<Rightarrow> (Inr (default_404 rsn), w')
               | Some entry \<Rightarrow>
                   (case BUCKET env (blobKey (org_id r) (entry_sha256 entry)) of
                      Inl e \<Rightarrow> (Inl e, w')
                    | Inr None \<Rightarrow> (Inr (default_404 rsn), w')
                    | Inr (Some obj) \<Rightarrow> (Inr (custom_404 entry obj), w')))
          | _ \<Rightarrow> (Inr (default_404 rsn), w')))"

section \<open>Resolving a blob\<close>

record ResolvedBlob =
  servedPath :: string
  rb_contentType :: "string option"
  rb_body :: "string option"
  rb_etag :: "string option"
  rb_lastModified :: "int option"
  rb_contentLength :: "rat option"

datatype BlobResolution = BlobOk ResolvedBlob | BlobNotFound response

text \<open>A generated HTML page, as the two branches that synthesize one return it.\<close>

definition html_blob :: "string \<Rightarrow> ResolvedBlob" where
  "html_blob html =
     \<lparr>servedPath = ''index.html'', rb_contentType = Some ''text/html; charset=utf-8'',
      rb_body = Some html, rb_etag = None, rb_lastModified = None,
      rb_contentLength = Some (of_nat (length html))\<rparr>"

definition directoryListing :: "runtime \<Rightarrow> Manifest \<Rightarrow> string \<Rightarrow> BlobResolution option" where
  "directoryListing rt manifest clean =
     (case listDirectory rt manifest (directoryPrefix clean) of
        None \<Rightarrow> None
      | Some entries \<Rightarrow>
          Some (BlobOk (html_blob (renderDirectoryListing rt (directoryPrefix clean) entries))))"

definition blob_not_found :: "response result \<times> world \<Rightarrow> BlobResolution result \<times> world" where
  "blob_not_found p = (map_sum id BlobNotFound (fst p), snd p)"

definition or_else :: "'a option \<Rightarrow> 'a option \<Rightarrow> 'a option" where
  "or_else a b = (case a of Some x \<Rightarrow> Some x | None \<Rightarrow> b)"

definition serve_object :: "url \<Rightarrow> string \<Rightarrow> prop_value \<Rightarrow> R2Object \<Rightarrow> ResolvedBlob" where
  "serve_object url path entry obj =
     (let sz = or_else (r2_size obj) (entry_size entry);
          tooBigToRender = (case sz of Some n \<Rightarrow> MARKDOWN_MAX_RENDER_BYTES < n | None \<Rightarrow> False)
      in if isMarkdownPath path \<and> \<not> isRawRequested url \<and> \<not> tooBigToRender
         then html_blob (renderMarkdownPage path (body_text (r2_body obj)))
         else \<lparr>servedPath = path, rb_contentType = entry_content_type entry, rb_body = r2_body obj,
               rb_etag = r2_httpEtag obj, rb_lastModified = r2_uploaded obj,
               rb_contentLength = or_else (r2_size obj) (entry_size entry)\<rparr>)"

definition resolveBlob ::
  "runtime \<Rightarrow> request \<Rightarrow> Env \<Rightarrow> KVRouteValue \<Rightarrow> url \<Rightarrow> ServeOptions \<Rightarrow> world
   \<Rightarrow> BlobResolution result \<times> world" where
  "resolveBlob rt request env route url opts w =
     (case cleanPath (url_pathname url) of
        None \<Rightarrow> blob_not_found (notFound rt ''unsafe_path'' request (Some route) env None opts w)
      | Some clean \<Rightarrow>
          if isServiceWorkerScript clean
          then blob_not_found (notFound rt ''service_worker_blocked'' request (Some route) env None opts w)
          else
            (case loadManifest rt env route of
               Inl e \<Rightarrow> (Inl e, w)
             | Inr None \<Rightarrow> blob_not_found (notFound rt ''manifest_missing'' request (Some route) env None opts w)
             | Inr (Some manifest) \<Rightarrow>
                 (case resolveManifestEntry manifest clean of
                    None \<Rightarrow>
                      (case (if files_get manifest NOT_FOUND_PATH = None
                             then directoryListing rt manifest clean else None) of
                         Some listing \<Rightarrow> (Inr listing, w)
                       | None \<Rightarrow>
                           blob_not_found
                             (notFound rt ''no_manifest_entry'' request (Some route) env (Some manifest) opts w))
                  | Some (path, entry) \<Rightarrow>
                      (case BUCKET env (blobKey (org_id route) (entry_sha256 entry)) of
                         Inl e \<Rightarrow> (Inl e, w)
                       | Inr None \<Rightarrow>
                           blob_not_found
                             (notFound rt ''blob_missing'' request (Some route) env (Some manifest) opts w)
                       | Inr (Some obj) \<Rightarrow> (Inr (BlobOk (serve_object url path entry obj)), w)))))"

section \<open>Building the content response\<close>

record ServeBody =
  sb_contentType :: "string option"
  sb_body :: "string option"
  sb_etag :: "string option"
  sb_lastModified :: "int option"
  sb_contentLength :: "rat option"

definition passthrough :: "ResolvedBlob \<Rightarrow> ServeBody" where
  "passthrough resolved =
     \<lparr>sb_contentType = rb_contentType resolved, sb_body = rb_body resolved, sb_etag = rb_etag resolved,
      sb_lastModified = rb_lastModified resolved, sb_contentLength = rb_contentLength resolved\<rparr>"

text \<open>The two shapes an injecting pass returns: for \<open>HEAD\<close>, and with the new document.\<close>

definition injected_head :: "ResolvedBlob \<Rightarrow> nat \<Rightarrow> ServeBody" where
  "injected_head resolved added =
     \<lparr>sb_contentType = rb_contentType resolved, sb_body = None, sb_etag = None, sb_lastModified = None,
      sb_contentLength = map_option (\<lambda>n. n + of_nat added) (rb_contentLength resolved)\<rparr>"

definition injected_body :: "ResolvedBlob \<Rightarrow> string \<Rightarrow> ServeBody" where
  "injected_body resolved html =
     \<lparr>sb_contentType = rb_contentType resolved, sb_body = Some html, sb_etag = None, sb_lastModified = None,
      sb_contentLength = Some (of_nat (length html))\<rparr>"

definition embedBadgeInject :: "KVRouteValue \<Rightarrow> url \<Rightarrow> ResolvedBlob \<Rightarrow> bool \<Rightarrow> ServeBody" where
  "embedBadgeInject route url resolved isHead =
     (if \<not> shouldShowEmbedBadge route url \<or>
         \<not> isInjectableEmbedBadge (servedPath resolved) (rb_contentType resolved)
      then passthrough resolved
      else if isHead then injected_head resolved EMBED_BADGE_BYTE_LENGTH
      else injected_body resolved (injectEmbedBadge (body_text (rb_body resolved))))"

definition bannerize :: "Env \<Rightarrow> KVRouteValue \<Rightarrow> ResolvedBlob \<Rightarrow> bool \<Rightarrow> ServeBody" where
  "bannerize env route resolved isHead =
     (let wantBanner = shouldInjectBanner env route (servedPath resolved) \<and>
                       isInjectableContentType (rb_contentType resolved);
          wantPill = shouldInjectChatPill route (servedPath resolved) (rb_contentType resolved)
      in if \<not> wantBanner \<and> \<not> wantPill then passthrough resolved
         else if isHead
         then injected_head resolved
                ((if wantBanner then BANNER_BYTE_LENGTH else 0) +
                 (if wantPill then CHAT_PILL_BYTE_LENGTH else 0))
         else
           (let html = body_text (rb_body resolved);
                html = (if wantBanner then injectBanner html else html);
                html = (if wantPill then injectChatPill html else html)
            in injected_body resolved html))"

definition body_opts :: "ServeBody \<Rightarrow> header_opts" where
  "body_opts out =
     \<lparr>o_contentType = sb_contentType out, o_etag = sb_etag out, o_lastModified = sb_lastModified out,
      o_contentLength = sb_contentLength out\<rparr>"

definition contentResponse :: "runtime \<Rightarrow> string \<Rightarrow> ServeBody \<Rightarrow> response" where
  "contentResponse rt path out = mk_response (sb_body out) 200 (publicResponseHeaders rt path (body_opts out))"

definition embed_response :: "runtime \<Rightarrow> string \<Rightarrow> ServeBody \<Rightarrow> response" where
  "embed_response rt path out = mk_response (sb_body out) 200 (embedResponseHeaders rt path (body_opts out))"

section \<open>The transcript page\<close>

definition chat_response :: "string \<Rightarrow> response" where
  "chat_response html =
     (let h = new_headers ([(''Content-Type'', ''text/html; charset=utf-8''),
                            (''Cache-Control'', ''no-store'')] @ securityHeaders);
          h = header_set h ''X-Frame-Options'' ''SAMEORIGIN'';
          h = header_set h ''Content-Security-Policy''
                (replace_first CONTENT_CSP frame_none (''frame-ancestors 'self'' @ [CHR 0x27]))
      in mk_response (Some html) 200 h)"

definition serveChatIfRequested ::
  "runtime \<Rightarrow> Env \<Rightarrow> KVRouteValue \<Rightarrow> url \<Rightarrow> response option result" where
  "serveChatIfRequested rt env route url =
     (case truthy_string (chat_id route) of
        None \<Rightarrow> Inr None
      | Some chat \<Rightarrow>
          if cleanPath (url_pathname url) \<noteq> Some CHAT_RESERVED_PATH then Inr None
          else
            (case BUCKET env (chatTranscriptKey (org_id route) chat) of
               Inl e \<Rightarrow> Inl e
             | Inr obj \<Rightarrow>
                 (let transcript = (case obj of
                        None \<Rightarrow> JNull
                      | Some obj \<Rightarrow> (case read_json rt obj of Inr v \<Rightarrow> v | Inl _ \<Rightarrow> JNull));
                      html = renderChatPage rt transcript (url_host url) (plan_tier route)
                  in Inr (Some (chat_response html)))))"

section \<open>The serve paths\<close>

definition servePublic ::
  "runtime \<Rightarrow> request \<Rightarrow> Env \<Rightarrow> KVRouteValue \<Rightarrow> url \<Rightarrow> ServeOptions \<Rightarrow> world \<Rightarrow> response result \<times> world" where
  "servePublic rt request env route url opts w =
     (case serveChatIfRequested rt env route url of
        Inl e \<Rightarrow> (Inl e, w)
      | Inr (Some chat) \<Rightarrow> (Inr (bodyFor request chat), w)
      | Inr None \<Rightarrow>
          (case (if so_cache opts then w_pop w (cacheKey rt route url) else None) of
             Some hit \<Rightarrow>
               (Inr (bodyFor request hit),
                scheduleVisit rt env request route url (header_get (resp_headers hit) ''Content-Type'') opts w)
           | None \<Rightarrow>
               (case resolveBlob rt request env route url opts w of
                  (Inl e, w1) \<Rightarrow> (Inl e, w1)
                | (Inr (BlobNotFound r), w1) \<Rightarrow> (Inr r, w1)
                | (Inr (BlobOk resolved), w1) \<Rightarrow>
                    (let w2 = scheduleVisit rt env request route url (rb_contentType resolved) opts w1;
                         out = bannerize env route resolved (req_method request = ''HEAD'');
                         response = contentResponse rt (servedPath resolved) out;
                         w3 = (if so_cache opts \<and> req_method request = ''GET''
                               then w2\<lparr>w_pop := map_put (w_pop w2) (cacheKey rt route url) response\<rparr> else w2)
                     in (Inr (bodyFor request response), w3)))))"

definition servePublicBody ::
  "runtime \<Rightarrow> request \<Rightarrow> Env \<Rightarrow> KVRouteValue \<Rightarrow> url \<Rightarrow> ServeOptions \<Rightarrow> world \<Rightarrow> response result \<times> world" where
  "servePublicBody rt request env route url opts w =
     (case serveChatIfRequested rt env route url of
        Inl e \<Rightarrow> (Inl e, w)
      | Inr (Some chat) \<Rightarrow> (Inr (bodyFor request chat), w)
      | Inr None \<Rightarrow>
          (case resolveBlob rt request env route url opts w of
             (Inl e, w1) \<Rightarrow> (Inl e, w1)
           | (Inr (BlobNotFound r), w1) \<Rightarrow> (Inr r, w1)
           | (Inr (BlobOk resolved), w1) \<Rightarrow>
               (let w2 = scheduleVisit rt env request route url (rb_contentType resolved) opts w1;
                    out = bannerize env route resolved (req_method request = ''HEAD'')
                in (Inr (bodyFor request (contentResponse rt (servedPath resolved) out)), w2))))"

definition serveEmbed ::
  "runtime \<Rightarrow> request \<Rightarrow> Env \<Rightarrow> KVRouteValue \<Rightarrow> url \<Rightarrow> ServeOptions \<Rightarrow> world \<Rightarrow> response result \<times> world" where
  "serveEmbed rt request env route url opts w =
     (if access_mode route \<noteq> ''public'' then
        (case new_url rt ''/'' (Some (url_href url)) of
           None \<Rightarrow> (Inl (JsTypeError ''Invalid URL''), w)
         | Some site \<Rightarrow> (Inr (bodyFor request (embedGatePlaceholder (url_href site))), w))
      else
        (case resolveBlob rt request env route url opts w of
           (Inl e, w1) \<Rightarrow> (Inl e, w1)
         | (Inr (BlobNotFound r), w1) \<Rightarrow> (Inr (bodyFor request r), w1)
         | (Inr (BlobOk resolved), w1) \<Rightarrow>
             (let w2 = scheduleVisit rt env request route url (rb_contentType resolved) opts w1;
                  out = embedBadgeInject route url resolved (req_method request = ''HEAD'')
              in (Inr (bodyFor request (embed_response rt (servedPath resolved) out)), w2))))"

section \<open>The language-model surface\<close>

definition text_response :: "string \<Rightarrow> nat \<Rightarrow> string \<Rightarrow> (string \<times> string) list \<Rightarrow> response" where
  "text_response body status cache extra =
     mk_response (Some body) status
       (headers_of (new_headers securityHeaders)
          ([(''Content-Type'', ''text/plain; charset=utf-8''), (''Cache-Control'', cache)] @ extra))"

definition handleLLMMeta ::
  "runtime \<Rightarrow> request \<Rightarrow> Env \<Rightarrow> KVRouteValue \<Rightarrow> url \<Rightarrow> ServeOptions \<Rightarrow> world
   \<Rightarrow> response option result \<times> world" where
  "handleLLMMeta rt request env route url opts w =
     (case cleanPath (url_pathname url) of
        None \<Rightarrow> (Inr None, w)
      | Some clean \<Rightarrow>
          (let isPublic = (access_mode route = ''public'')
           in if clean = ''robots.txt'' then
                (Inr (Some (text_response (robotsTxtBody isPublic) 200
                   (if isPublic then ''public, max-age=3600''
                    else ''private, no-store, max-age=0, must-revalidate'') [])), w)
              else if \<not> isPublic \<and> isAICrawler (header_get (req_headers request) ''User-Agent'') then
                (Inr (Some (text_response CRAWLER_BLOCKED_BODY 403
                   ''private, no-store, max-age=0, must-revalidate'' [(''Vary'', ''User-Agent'')])), w)
              else if clean = ''llms.txt'' \<and> isPublic then
                (case loadManifest rt env route of
                   Inl e \<Rightarrow> (Inl e, w)
                 | Inr None \<Rightarrow>
                     (case notFound rt ''manifest_missing'' request (Some route) env None opts w of
                        (Inl e, w1) \<Rightarrow> (Inl e, w1)
                      | (Inr r, w1) \<Rightarrow> (Inr (Some r), w1))
                 | Inr (Some manifest) \<Rightarrow>
                     (Inr (Some (text_response (llmsTxtBody (url_host url) manifest (url_origin url)) 200
                        ''public, max-age=300'' [])), w))
              else (Inr None, w)))"

section \<open>Dispatch\<close>

text \<open>The rate limiter of step 0: the native binding if there is one, else the KV counter.\<close>

definition rate_limit :: "Env \<Rightarrow> request \<Rightarrow> url \<Rightarrow> ServeOptions \<Rightarrow> world \<Rightarrow> RateLimitResult \<times> world" where
  "rate_limit env request url opts w =
     (let policy = rateLimitPolicy env; identity = rateLimitIdentity request (url_host url)
      in (case RATE_LIMITER env of
            Some limiter \<Rightarrow> (rateLimitNative limiter identity (windowSeconds policy), w)
          | None \<Rightarrow>
              (case rateLimitDecision (LIMITS env) (w_limits w) identity (so_now opts) policy of
                 (rl, store) \<Rightarrow> (rl, w\<lparr>w_limits := store\<rparr>))))"

text \<open>Step 4: by access mode.\<close>

definition serve_by_mode ::
  "runtime \<Rightarrow> request \<Rightarrow> Env \<Rightarrow> KVRouteValue \<Rightarrow> url \<Rightarrow> ServeOptions \<Rightarrow> world \<Rightarrow> response result \<times> world" where
  "serve_by_mode rt request env route url opts w =
     (if access_mode route = ''public'' then servePublic rt request env route url opts w
      else if access_mode route \<in> {''password'', ''allowlist'', ''org_only''} then
        serveGated rt request route url (gateOpts env opts)
          \<lparr>serveContent = servePublicBody rt request env route url opts,
           gc_revokedKV = Some (revokedKV env), gc_orgId = org_id route\<rparr> w
      else notFound rt ''unknown_access_mode'' request (Some route) env None opts w)"

text \<open>Steps 3.5 to 4, for a route that is neither expired nor blocked.\<close>

definition serve_unblocked ::
  "runtime \<Rightarrow> request \<Rightarrow> Env \<Rightarrow> KVRouteValue \<Rightarrow> url \<Rightarrow> ServeOptions \<Rightarrow> world \<Rightarrow> response result \<times> world" where
  "serve_unblocked rt request env route url opts w =
     (case handleLLMMeta rt request env route url opts w of
        (Inl e, w1) \<Rightarrow> (Inl e, w1)
      | (Inr (Some llmMeta), w1) \<Rightarrow> (Inr (bodyFor request llmMeta), w1)
      | (Inr None, w1) \<Rightarrow>
          if isEmbedRequested url then serveEmbed rt request env route url opts w1
          else serve_by_mode rt request env route url opts w1)"

text \<open>Steps 2 and 3, for a host whose route is known.\<close>

definition serve_route ::
  "runtime \<Rightarrow> request \<Rightarrow> Env \<Rightarrow> KVRouteValue \<Rightarrow> url \<Rightarrow> ServeOptions \<Rightarrow> world \<Rightarrow> response result \<times> world" where
  "serve_route rt request env route url opts w =
     (if isRouteExpired rt route (so_now opts) then (Inr linkExpired, w)
      else
        (let orgStatus = readOrgStatus (LIMITS env) (w_limits w) (org_id route)
         in if isBlockingStatus orgStatus
            then (Inr (accountSuspended (case orgStatus of Some st \<Rightarrow> st | None \<Rightarrow> [])), w)
            else serve_unblocked rt request env route url opts w))"

text \<open>Step 1: the route of the host.\<close>

definition serve_host ::
  "runtime \<Rightarrow> request \<Rightarrow> Env \<Rightarrow> url \<Rightarrow> ServeOptions \<Rightarrow> world \<Rightarrow> response result \<times> world" where
  "serve_host rt request env url opts w =
     (case routes_get_json rt env (routeKey (url_host url)) of
        Inl e \<Rightarrow> (Inl e, w)
      | Inr raw \<Rightarrow>
          (case parseRouteValue rt raw of
             Some route \<Rightarrow> serve_route rt request env route url opts w
           | None \<Rightarrow>
               if raw \<noteq> JNull
               then (Inr projectionError, reportRejectedRoute rt env (url_host url) raw opts w)
               else notFound rt ''route_not_found'' request None env None opts w))"

text \<open>The string body of the 405 gets the default content type of \<open>new Response\<close>.\<close>

definition method_not_allowed :: response where
  "method_not_allowed =
     mk_response (Some ''Method Not Allowed'') 405
       (new_headers ([(''Content-Type'', ''text/plain;charset=UTF-8''), (''Allow'', ''GET, HEAD'')] @
          securityHeaders))"

definition dispatch ::
  "runtime \<Rightarrow> request \<Rightarrow> Env \<Rightarrow> ServeOptions \<Rightarrow> world \<Rightarrow> response result \<times> world" where
  "dispatch rt request env opts w =
     (if req_method request \<noteq> ''GET'' \<and> req_method request \<noteq> ''HEAD'' then
        (Inr method_not_allowed, w)
      else if isServiceWorkerRequest request then
        notFound rt ''service_worker_blocked'' request None env None opts w
      else
        (case new_url rt (req_url request) None of
           None \<Rightarrow> (Inl (JsTypeError ''Invalid URL''), w)
         | Some url \<Rightarrow>
             (case rate_limit env request url opts w of
                (rl, w1) \<Rightarrow>
                  if \<not> allowed rl then (Inr (tooManyRequests (retryAfterSeconds rl)), w1)
                  else serve_host rt request env url opts w1)))"

section \<open>The entry points\<close>

definition asFramable :: "response \<Rightarrow> response" where
  "asFramable r =
     (let h = header_delete (resp_headers r) ''X-Frame-Options'';
          h = header_set h ''Cross-Origin-Resource-Policy'' ''cross-origin'';
          h = (case header_get h ''Content-Security-Policy'' of
                 Some csp \<Rightarrow> header_set h ''Content-Security-Policy'' (replace_first csp frame_none frame_any)
               | None \<Rightarrow> h)
      in mk_response (resp_body r) (resp_status r) h)"

definition serve :: "runtime \<Rightarrow> request \<Rightarrow> Env \<Rightarrow> ServeOptions \<Rightarrow> world \<Rightarrow> response result \<times> world" where
  "serve rt request env opts w =
     (case dispatch rt request env opts w of
        (Inl e, w1) \<Rightarrow> (Inl e, w1)
      | (Inr response, w1) \<Rightarrow>
          (case new_url rt (req_url request) None of
             None \<Rightarrow> (Inl (JsTypeError ''Invalid URL''), w1)
           | Some url \<Rightarrow> (Inr (if isEmbedRequested url then asFramable response else response), w1)))"

definition internal_error :: response where
  "internal_error =
     mk_response (Some ''Internal Server Error'') 500
       (new_headers [(''Content-Type'', ''text/plain; charset=utf-8'')])"

definition fetch :: "runtime \<Rightarrow> request \<Rightarrow> Env \<Rightarrow> ServeOptions \<Rightarrow> world \<Rightarrow> response \<times> world" where
  "fetch rt request env opts w =
     (case serve rt request env opts w of
        (Inr response, w1) \<Rightarrow> (response, w1)
      | (Inl err, w1) \<Rightarrow>
          (internal_error,
           emit (captureException rt env err
                   [(''path'', JStr (safePath rt (req_url request))), (''method'', JStr (req_method request))]
                   (so_clock opts)) w1))"

end
