(* ===== verification/Serving.thy ===== *)
theory Serving
  imports Worker
begin

text \<open>
  What the handlers of \<open>Worker\<close> do to the state of the isolate, and which parts of the
  environment their answers depend on. These are the facts the properties of the whole Worker
  rest on: every handler is characterised once, and dispatch is the composition.
\<close>

section \<open>Effects on the state\<close>

lemma truthy_string_None [simp]: "truthy_string v = None \<longleftrightarrow> v = None \<or> v = Some []"
  by (auto simp: truthy_string_def split: option.splits)

named_theorems state_simps \<open>what a handler leaves of the state of the isolate\<close>

lemma notFound_state [state_simps, simp]:
  "w_limits (snd (notFound rt rsn req route env m opts w)) = w_limits w"
  "w_jwks (snd (notFound rt rsn req route env m opts w)) = w_jwks w"
  "w_pop (snd (notFound rt rsn req route env m opts w)) = w_pop w"
  by (auto simp: notFound_def Let_def split: option.splits sum.splits)

lemma scheduleVisit_state [state_simps, simp]:
  "w_limits (scheduleVisit rt env req route url ct opts w) = w_limits w"
  "w_jwks (scheduleVisit rt env req route url ct opts w) = w_jwks w"
  "w_pop (scheduleVisit rt env req route url ct opts w) = w_pop w"
  by (simp_all add: scheduleVisit_def)

lemma reportRejectedRoute_state [state_simps, simp]:
  "w_limits (reportRejectedRoute rt env host raw opts w) = w_limits w"
  "w_jwks (reportRejectedRoute rt env host raw opts w) = w_jwks w"
  "w_pop (reportRejectedRoute rt env host raw opts w) = w_pop w"
  by (simp_all add: reportRejectedRoute_def Let_def)

lemma blob_not_found_simps [simp]:
  "snd (blob_not_found p) = snd p" "fst (blob_not_found p) = map_sum id BlobNotFound (fst p)"
  by (simp_all add: blob_not_found_def)

lemma resolveBlob_state [state_simps, simp]:
  "w_limits (snd (resolveBlob rt req env route url opts w)) = w_limits w"
  "w_jwks (snd (resolveBlob rt req env route url opts w)) = w_jwks w"
  "w_pop (snd (resolveBlob rt req env route url opts w)) = w_pop w"
  by (auto simp: resolveBlob_def split: option.splits sum.splits)

lemma servePublicBody_state [state_simps, simp]:
  "w_limits (snd (servePublicBody rt req env route url opts w)) = w_limits w"
  "w_jwks (snd (servePublicBody rt req env route url opts w)) = w_jwks w"
  "w_pop (snd (servePublicBody rt req env route url opts w)) = w_pop w"
  using resolveBlob_state [of rt req env route url opts w]
  by (auto simp: servePublicBody_def Let_def simp del: resolveBlob_state
      split: option.splits sum.splits prod.splits BlobResolution.splits)

lemma serveEmbed_state [state_simps, simp]:
  "w_limits (snd (serveEmbed rt req env route url opts w)) = w_limits w"
  "w_jwks (snd (serveEmbed rt req env route url opts w)) = w_jwks w"
  "w_pop (snd (serveEmbed rt req env route url opts w)) = w_pop w"
  using resolveBlob_state [of rt req env route url opts w]
  by (auto simp: serveEmbed_def Let_def simp del: resolveBlob_state
      split: option.splits sum.splits prod.splits BlobResolution.splits)

lemma handleLLMMeta_state [state_simps, simp]:
  "w_limits (snd (handleLLMMeta rt req env route url opts w)) = w_limits w"
  "w_jwks (snd (handleLLMMeta rt req env route url opts w)) = w_jwks w"
  "w_pop (snd (handleLLMMeta rt req env route url opts w)) = w_pop w"
  using notFound_state [of rt "''manifest_missing''" req "Some route" env None opts w]
  by (auto simp: handleLLMMeta_def Let_def simp del: notFound_state
      split: option.splits sum.splits prod.splits)

lemma rate_limit_state [state_simps, simp]:
  "w_jwks (snd (rate_limit env req url opts w)) = w_jwks w"
  "w_pop (snd (rate_limit env req url opts w)) = w_pop w"
  "w_events (snd (rate_limit env req url opts w)) = w_events w"
  by (auto simp: rate_limit_def Let_def split: option.splits prod.splits)

lemma serveGated_state:
  assumes "\<And>w. w_pop (snd (serveContent content w)) = w_pop w"
  shows "w_pop (snd (serveGated rt req route url opts content w)) = w_pop w"
proof -
  have "w_pop w2 = w_pop w1" if "serveContent content w1 = (r, w2)" for w1 r w2
    using assms [of w1] that by simp
  moreover have "w_pop (snd (handleAuthzCallback rt route url cfg f now w)) = w_pop w" for cfg f now
    by (metis handleAuthzCallback_world prod.collapse)
  ultimately show ?thesis
    by (auto simp: serveGated_def dest!: authorizeGated_world split: option.splits sum.splits prod.splits)
qed

section \<open>The gate\<close>

text \<open>A request that gets past the gate: its cookie verifies and is not revoked.\<close>

definition admitted :: "runtime \<Rightarrow> request \<Rightarrow> Env \<Rightarrow> KVRouteValue \<Rightarrow> url \<Rightarrow> ServeOptions \<Rightarrow> world \<Rightarrow> bool" where
  "admitted rt req env route url opts w =
     (case fst (authorizeGated rt req route url (gatedConfig env) (so_fetchImpl opts) (so_now opts) w) of
        Some c \<Rightarrow> \<not> isRevoked (Some (revokedKV env)) (revocation_subject c (org_id route))
      | None \<Rightarrow> False)"

lemma verifyTokenSafely_jwks:
  "w_jwks w1 = w_jwks w2 \<Longrightarrow> fst (verifyTokenSafely rt f p w1) = fst (verifyTokenSafely rt f p w2)"
  by (auto simp: verifyTokenSafely_def split: prod.splits sum.splits)

lemma authorizeGated_jwks:
  assumes "w_jwks w1 = w_jwks w2"
  shows "fst (authorizeGated rt req route url cfg f now w1) = fst (authorizeGated rt req route url cfg f now w2)"
  using verifyTokenSafely_jwks [OF assms, of rt f] by (cases "readEdgeCookie req") (simp_all add: authorizeGated_def)

lemma admitted_jwks:
  assumes "w_jwks w1 = w_jwks w2"
  shows "admitted rt req env route url opts w1 = admitted rt req env route url opts w2"
  unfolding admitted_def authorizeGated_jwks [OF assms] ..

section \<open>Dependence on the bucket\<close>

named_theorems bucket_free \<open>functions of the environment that do not read the bucket\<close>

lemma config_bucket [bucket_free]:
  "gatedConfig (env\<lparr>BUCKET := b\<rparr>) = gatedConfig env"
  "revokedKV (env\<lparr>BUCKET := b\<rparr>) = revokedKV env"
  "gateOpts (env\<lparr>BUCKET := b\<rparr>) opts = gateOpts env opts"
  "rateLimitPolicy (env\<lparr>BUCKET := b\<rparr>) = rateLimitPolicy env"
  "rate_limit (env\<lparr>BUCKET := b\<rparr>) req url opts w = rate_limit env req url opts w"
  "routes_get_json rt (env\<lparr>BUCKET := b\<rparr>) key = routes_get_json rt env key"
  by (simp_all add: gatedConfig_def revokedKV_def gateOpts_def rateLimitPolicy_def rate_limit_def
      routes_get_json_def Let_def split: option.split)

lemma analytics_bucket [bucket_free]:
  "capture_url (env\<lparr>BUCKET := b\<rparr>) = capture_url env"
  "environment_label (env\<lparr>BUCKET := b\<rparr>) = environment_label env"
  "request_visitor rt (env\<lparr>BUCKET := b\<rparr>) key req now = request_visitor rt env key req now"
  by (simp_all add: capture_url_def environment_label_def request_visitor_def)

lemma capture_bucket [bucket_free]:
  "captureSiteVisit rt (env\<lparr>BUCKET := b\<rparr>) req route url ct now = captureSiteVisit rt env req route url ct now"
  "captureServe404 rt (env\<lparr>BUCKET := b\<rparr>) req rsn r now = captureServe404 rt env req rsn r now"
  "captureException rt (env\<lparr>BUCKET := b\<rparr>) err props now = captureException rt env err props now"
  unfolding captureSiteVisit_def captureServe404_def captureException_def analytics_bucket by simp_all

lemma report_bucket [bucket_free]:
  "scheduleVisit rt (env\<lparr>BUCKET := b\<rparr>) req route url ct opts w = scheduleVisit rt env req route url ct opts w"
  "reportRejectedRoute rt (env\<lparr>BUCKET := b\<rparr>) host raw opts w = reportRejectedRoute rt env host raw opts w"
  "notFound rt rsn req r (env\<lparr>BUCKET := b\<rparr>) None opts w = notFound rt rsn req r env None opts w"
  by (simp_all add: scheduleVisit_def reportRejectedRoute_def notFound_def capture_bucket Let_def
      split: option.splits)

lemma bannerize_bucket [bucket_free]:
  "bannerize (env\<lparr>BUCKET := b\<rparr>) route resolved h = bannerize env route resolved h"
  by (simp add: bannerize_def shouldInjectBanner_def)

lemma gated_meta_bucket:
  "access_mode route \<noteq> ''public'' \<Longrightarrow>
   handleLLMMeta rt req (env\<lparr>BUCKET := b\<rparr>) route url opts w = handleLLMMeta rt req env route url opts w"
  by (simp add: handleLLMMeta_def Let_def split: option.splits)

lemma gated_embed_bucket:
  "access_mode route \<noteq> ''public'' \<Longrightarrow>
   serveEmbed rt req (env\<lparr>BUCKET := b\<rparr>) route url opts w = serveEmbed rt req env route url opts w"
  by (simp add: serveEmbed_def)

lemma gated_mode_bucket:
  assumes "access_mode route \<noteq> ''public''" and "\<not> admitted rt req env route url opts w"
  shows "serve_by_mode rt req (env\<lparr>BUCKET := b\<rparr>) route url opts w = serve_by_mode rt req env route url opts w"
proof -
  let ?content = "\<lambda>e. \<lparr>serveContent = servePublicBody rt req e route url opts,
      gc_revokedKV = Some (revokedKV env), gc_orgId = org_id route\<rparr>"
  have "serveGated rt req route url (gateOpts env opts) (?content env) w =
        serveGated rt req route url (gateOpts env opts)
          ((?content env)\<lparr>serveContent := servePublicBody rt req (env\<lparr>BUCKET := b\<rparr>) route url opts\<rparr>) w"
    by (rule serveGated_denied) (use assms(2) in \<open>auto simp: admitted_def gateOpts_def\<close>)
  then show ?thesis using assms(1) by (simp add: serve_by_mode_def bucket_free)
qed

text \<open>The answer to a request that does not pass the gate does not depend on the bucket.\<close>

lemma gated_route_bucket:
  assumes "access_mode route \<noteq> ''public''" and "\<not> admitted rt req env route url opts w"
  shows "serve_route rt req (env\<lparr>BUCKET := b\<rparr>) route url opts w = serve_route rt req env route url opts w"
proof -
  have "w_jwks w1 = w_jwks w" if "handleLLMMeta rt req env route url opts w = (r, w1)" for r w1
    using handleLLMMeta_state(2) [of rt req env route url opts w] that by simp
  then have "\<not> admitted rt req env route url opts w1"
    if "handleLLMMeta rt req env route url opts w = (r, w1)" for r w1
    using assms(2) that admitted_jwks by blast
  then show ?thesis
    using assms(1)
    by (auto simp: serve_route_def serve_unblocked_def gated_meta_bucket gated_embed_bucket gated_mode_bucket Let_def
        split: prod.splits sum.splits option.splits)
qed

lemma gated_serve_bucket:
  assumes url: "new_url rt (req_url req) None = Some url"
    and raw: "routes_get_json rt env (routeKey (url_host url)) = Inr raw"
    and route: "parseRouteValue rt raw = Some route" "access_mode route \<noteq> ''public''"
    and out: "\<not> admitted rt req env route url opts w"
  shows "serve rt req (env\<lparr>BUCKET := b\<rparr>) opts w = serve rt req env opts w"
proof -
  have adm: "\<not> admitted rt req env route url opts w1" if "rate_limit env req url opts w = (rl, w1)" for rl w1
    using out admitted_jwks rate_limit_state(1) [of env req url opts w] that by (metis snd_conv)
  have "dispatch rt req (env\<lparr>BUCKET := b\<rparr>) opts w = dispatch rt req env opts w"
    using url raw route adm
    by (auto simp: dispatch_def serve_host_def bucket_free gated_route_bucket split: prod.splits)
  then show ?thesis by (simp add: serve_def)
qed

section \<open>Dependence on the cache of the point of presence\<close>

text \<open>A handler that neither reads nor writes the PoP cache commutes with replacing it.\<close>

abbreviation with_pop :: "pop_cache \<Rightarrow> world \<Rightarrow> world" where
  "with_pop p w \<equiv> w\<lparr>w_pop := p\<rparr>"

lemma emit_pop: "emit ev (with_pop p w) = with_pop p (emit ev w)"
  by (simp add: emit_def split: option.split)

lemma notFound_pop:
  "notFound rt rsn req r env m opts (with_pop p w) = apsnd (with_pop p) (notFound rt rsn req r env m opts w)"
  by (simp add: notFound_def Let_def emit_pop split: option.split sum.split)

lemma scheduleVisit_pop:
  "scheduleVisit rt env req route url ct opts (with_pop p w) = with_pop p (scheduleVisit rt env req route url ct opts w)"
  by (simp add: scheduleVisit_def emit_pop)

lemma blob_not_found_apsnd: "blob_not_found (apsnd f q) = apsnd f (blob_not_found q)"
  by (cases q) (simp add: blob_not_found_def)

lemma resolveBlob_pop:
  "resolveBlob rt req env route url opts (with_pop p w) = apsnd (with_pop p) (resolveBlob rt req env route url opts w)"
  by (simp add: resolveBlob_def notFound_pop blob_not_found_apsnd split: option.split sum.split)

lemma servePublicBody_pop:
  "servePublicBody rt req env route url opts (with_pop p w) =
   apsnd (with_pop p) (servePublicBody rt req env route url opts w)"
  by (cases "resolveBlob rt req env route url opts w")
     (simp add: servePublicBody_def resolveBlob_pop scheduleVisit_pop Let_def
       split: option.split sum.split BlobResolution.split)

lemma handleLLMMeta_pop:
  "handleLLMMeta rt req env route url opts (with_pop p w) =
   apsnd (with_pop p) (handleLLMMeta rt req env route url opts w)"
  by (cases "notFound rt ''manifest_missing'' req (Some route) env None opts w")
     (simp add: handleLLMMeta_def notFound_pop Let_def split: option.split sum.split)

lemma serveEmbed_pop:
  "serveEmbed rt req env route url opts (with_pop p w) =
   apsnd (with_pop p) (serveEmbed rt req env route url opts w)"
  by (cases "resolveBlob rt req env route url opts w")
     (simp add: serveEmbed_def resolveBlob_pop scheduleVisit_pop Let_def
       split: option.split sum.split BlobResolution.split)

lemma rate_limit_pop:
  "rate_limit env req url opts (with_pop p w) = apsnd (with_pop p) (rate_limit env req url opts w)"
  by (simp add: rate_limit_def Let_def split: option.split prod.split)

lemma verifyTokenSafely_pop:
  "verifyTokenSafely rt f v (with_pop p w) = apsnd (with_pop p) (verifyTokenSafely rt f v w)"
  by (simp add: verifyTokenSafely_def split: prod.split sum.split)

lemma authorizeGated_pop:
  "authorizeGated rt req route url cfg f now (with_pop p w) =
   apsnd (with_pop p) (authorizeGated rt req route url cfg f now w)"
  by (simp add: authorizeGated_def verifyTokenSafely_pop split: option.split)

lemma handleAuthzCallback_pop:
  "handleAuthzCallback rt route url cfg f now (with_pop p w) =
   apsnd (with_pop p) (handleAuthzCallback rt route url cfg f now w)"
  by (simp add: handleAuthzCallback_def Let_def verifyTokenSafely_pop split: option.split prod.split)

lemma serveGated_pop:
  assumes "\<And>w. serveContent content (with_pop p w) = apsnd (with_pop p) (serveContent content w)"
  shows "serveGated rt req route url opts content (with_pop p w) =
         apsnd (with_pop p) (serveGated rt req route url opts content w)"
  using assms
  by (simp add: serveGated_def authorizeGated_pop handleAuthzCallback_pop split: option.split prod.split sum.split)

lemma gated_route_pop:
  assumes "access_mode route \<noteq> ''public''"
  shows "serve_route rt req env route url opts (with_pop p w) =
         apsnd (with_pop p) (serve_route rt req env route url opts w)"
proof -
  have "serve_by_mode rt req env route url opts (with_pop p w) =
        apsnd (with_pop p) (serve_by_mode rt req env route url opts w)" for w
    using assms by (simp add: serve_by_mode_def notFound_pop serveGated_pop servePublicBody_pop)
  then show ?thesis
    by (cases "handleLLMMeta rt req env route url opts w")
       (simp add: serve_route_def serve_unblocked_def handleLLMMeta_pop serveEmbed_pop Let_def
         split: sum.split option.split)
qed

lemma gated_serve_pop:
  assumes url: "new_url rt (req_url req) None = Some url"
    and raw: "routes_get_json rt env (routeKey (url_host url)) = Inr raw"
    and route: "parseRouteValue rt raw = Some route" "access_mode route \<noteq> ''public''"
  shows "serve rt req env opts (with_pop p w) = apsnd (with_pop p) (serve rt req env opts w)"
proof -
  have "dispatch rt req env opts (with_pop p w) = apsnd (with_pop p) (dispatch rt req env opts w)"
    using url raw route
    by (cases "rate_limit env req url opts w")
       (simp add: dispatch_def notFound_pop rate_limit_pop serve_host_def gated_route_pop)
  then show ?thesis
    by (cases "dispatch rt req env opts w") (simp add: serve_def split: sum.split option.split)
qed

section \<open>Requests that reach a route\<close>

text \<open>
  The common prefix of every request that gets to steps 2 to 4 of dispatch: an admissible
  method, no service-worker fetch, a parseable URL, within the rate limit, and a valid route
  for the host. \<open>w1\<close> is the state after the limiter.
\<close>

definition reaches ::
  "runtime \<Rightarrow> request \<Rightarrow> Env \<Rightarrow> ServeOptions \<Rightarrow> world \<Rightarrow> url \<Rightarrow> KVRouteValue \<Rightarrow> world \<Rightarrow> bool" where
  "reaches rt req env opts w url route w1 \<longleftrightarrow>
     req_method req \<in> {''GET'', ''HEAD''} \<and> \<not> isServiceWorkerRequest req \<and>
     new_url rt (req_url req) None = Some url \<and>
     allowed (fst (rate_limit env req url opts w)) \<and> snd (rate_limit env req url opts w) = w1 \<and>
     (\<exists>raw. routes_get_json rt env (routeKey (url_host url)) = Inr raw \<and> parseRouteValue rt raw = Some route)"

lemma parsed_route_ok: "parseRouteValue rt raw = Some route \<Longrightarrow> route_ok rt route"
  by (auto simp: parseRouteValue_def safeParseKVRouteValue_def dest: parseKVRouteValue_route_ok split: sum.splits)

lemma reaches_route_ok: "reaches rt req env opts w url route w1 \<Longrightarrow> route_ok rt route"
  unfolding reaches_def using parsed_route_ok by blast

definition framed :: "url \<Rightarrow> response \<Rightarrow> response" where
  "framed url r = (if isEmbedRequested url then asFramable r else r)"

lemma serve_reaches:
  assumes "reaches rt req env opts w url route w1"
  shows "serve rt req env opts w =
         apfst (map_sum id (framed url)) (serve_route rt req env route url opts w1)"
  using assms
  by (cases "rate_limit env req url opts w"; cases "serve_route rt req env route url opts w1")
     (auto simp: reaches_def serve_def dispatch_def serve_host_def framed_def split: sum.split)

lemma blocked_route:
  "isRouteExpired rt route (so_now opts) \<Longrightarrow> serve_route rt req env route url opts w = (Inr linkExpired, w)"
  "\<not> isRouteExpired rt route (so_now opts) \<Longrightarrow>
   readOrgStatus (LIMITS env) (w_limits w) (org_id route) = Some st \<Longrightarrow> isBlockingStatus (Some st) \<Longrightarrow>
   serve_route rt req env route url opts w = (Inr (accountSuspended st), w)"
  by (simp_all add: serve_route_def)

section \<open>Keys of an organisation\<close>

definition org_prefixes :: "string list" where
  "org_prefixes = [''manifests/'', ''blobs/'', ''chat-transcripts/'']"

definition owned_by :: "string \<Rightarrow> string \<Rightarrow> bool" where
  "owned_by org key \<longleftrightarrow> (\<exists>p \<in> set org_prefixes. \<exists>rest. key = p @ org @ ''/'' @ rest)"

lemma owned_keys:
  "owned_by (org_id route) (manifestKey route)"
  "owned_by org (blobKey org h)"
  "owned_by org (chatTranscriptKey org c)"
  by (auto simp: owned_by_def org_prefixes_def manifestKey_def blobKey_def chatTranscriptKey_def)

definition agree_on :: "string \<Rightarrow> bucket \<Rightarrow> bucket \<Rightarrow> bool" where
  "agree_on org b1 b2 \<longleftrightarrow> (\<forall>key. owned_by org key \<longrightarrow> b1 key = b2 key)"

lemma agree_keys:
  assumes "agree_on (org_id route) b (BUCKET env)"
  shows "b (manifestKey route) = BUCKET env (manifestKey route)"
    "b (blobKey (org_id route) h) = BUCKET env (blobKey (org_id route) h)"
    "b (chatTranscriptKey (org_id route) c) = BUCKET env (chatTranscriptKey (org_id route) c)"
  using assms owned_keys by (auto simp: agree_on_def)

lemma isolated_handlers:
  assumes "agree_on (org_id route) b (BUCKET env)"
  shows "loadManifest rt (env\<lparr>BUCKET := b\<rparr>) route = loadManifest rt env route"
    and "notFound rt rsn req (Some route) (env\<lparr>BUCKET := b\<rparr>) m opts w = notFound rt rsn req (Some route) env m opts w"
    and "serveChatIfRequested rt (env\<lparr>BUCKET := b\<rparr>) route url = serveChatIfRequested rt env route url"
  unfolding loadManifest_def notFound_def serveChatIfRequested_def capture_bucket
  by (simp_all add: agree_keys [OF assms] split: option.split)

lemma isolated_resolveBlob:
  assumes "agree_on (org_id route) b (BUCKET env)"
  shows "resolveBlob rt req (env\<lparr>BUCKET := b\<rparr>) route url opts w = resolveBlob rt req env route url opts w"
  by (simp add: resolveBlob_def isolated_handlers [OF assms] agree_keys [OF assms]
      split: option.split sum.split)

lemma isolated_paths:
  assumes "agree_on (org_id route) b (BUCKET env)"
  shows "servePublic rt req (env\<lparr>BUCKET := b\<rparr>) route url opts = servePublic rt req env route url opts"
    and "servePublicBody rt req (env\<lparr>BUCKET := b\<rparr>) route url opts = servePublicBody rt req env route url opts"
    and "serveEmbed rt req (env\<lparr>BUCKET := b\<rparr>) route url opts = serveEmbed rt req env route url opts"
    and "handleLLMMeta rt req (env\<lparr>BUCKET := b\<rparr>) route url opts = handleLLMMeta rt req env route url opts"
  unfolding servePublic_def servePublicBody_def serveEmbed_def handleLLMMeta_def
    isolated_handlers [OF assms] isolated_resolveBlob [OF assms] bucket_free
  by simp_all

lemma isolated_route:
  assumes "agree_on (org_id route) b (BUCKET env)"
  shows "serve_route rt req (env\<lparr>BUCKET := b\<rparr>) route url opts w = serve_route rt req env route url opts w"
  unfolding serve_route_def serve_unblocked_def serve_by_mode_def
    isolated_paths [OF assms] isolated_handlers [OF assms] bucket_free
  by simp

text \<open>A key belongs to one organisation only.\<close>

lemma owned_by_unique:
  assumes "UUID_RE_test o1" "UUID_RE_test o2" "owned_by o1 key" "owned_by o2 key"
  shows "o1 = o2"
proof -
  obtain p x where p: "key = p @ o1 @ CHR ''/'' # x" "p \<in> set org_prefixes"
    using assms(3) by (auto simp: owned_by_def)
  obtain q y where q: "key = q @ o2 @ CHR ''/'' # y" "q \<in> set org_prefixes"
    using assms(4) by (auto simp: owned_by_def)
  note k = p(1) q(1)
  from p q have "p = q" by (auto simp: org_prefixes_def)
  with k have "o1 @ CHR ''/'' # x = o2 @ CHR ''/'' # y" by simp
  with append_slash_inj uuid_no_slash [OF assms(1)] uuid_no_slash [OF assms(2)] show ?thesis by blast
qed

end
