(* ===== verification/Posture.thy ===== *)
theory Posture
  imports Serving
begin

text \<open>
  Invariants of all responses. What holds of every response a handler can build holds of every
  response of the Worker, cached ones included: the locale \<open>response_invariant\<close> proves this once
  for an arbitrary predicate, \<open>embed_invariant\<close> adds the embed surface. They are interpreted for
  the header posture and for the status codes.
\<close>

section \<open>Invariants of responses\<close>

definition holds :: "(response \<Rightarrow> bool) \<Rightarrow> response result \<Rightarrow> bool" where
  "holds P x = (case x of Inr r \<Rightarrow> P r | Inl _ \<Rightarrow> True)"

definition cached_all :: "(response \<Rightarrow> bool) \<Rightarrow> world \<Rightarrow> bool" where
  "cached_all P w \<longleftrightarrow> (\<forall>k r. w_pop w k = Some r \<longrightarrow> P r)"

lemma holds_simps [simp]: "holds P (Inr r) = P r" "holds P (Inl e)"
  by (simp_all add: holds_def)

lemma cached_all_pop: "w_pop w1 = w_pop w2 \<Longrightarrow> cached_all P w1 = cached_all P w2"
  by (simp add: cached_all_def)

lemma map_sum_Inr: "map_sum id f x = Inr y \<longleftrightarrow> (\<exists>z. x = Inr z \<and> y = f z)"
  by (cases x) auto

locale response_invariant =
  fixes Good :: "response \<Rightarrow> bool"
  assumes page: "Good (default_404 rsn)" "Good projectionError" "Good linkExpired"
      "Good (tooManyRequests n)" "Good (accountSuspended st)" "Good method_not_allowed"
    and custom: "Good (custom_404 e obj)"
    and content: "Good (contentResponse rt p out)"
    and txt_ok: "Good (text_response b 200 c [])"
    and crawler: "Good (text_response b 403 c [(''Vary'', ''User-Agent'')])"
    and chat: "Good (chat_response html)"
    and redirect: "redirectToAuthz rt cfg host p = Inr r \<Longrightarrow> Good r"
    and callback: "handleAuthzCallback rt route url cfg f now w = (Inr r, w') \<Longrightarrow> Good r"
    and privately: "Good r \<Longrightarrow> Good (mk_response (resp_body r) (resp_status r) (asPrivate (resp_headers r)))"
    and head: "Good r \<Longrightarrow> Good (mk_response None (resp_status r) (resp_headers r))"
begin

lemma bodyFor: "Good r \<Longrightarrow> Good (bodyFor req r)"
  by (simp add: bodyFor_def head)

lemma notFound: "holds Good (fst (notFound rt rsn req route env m opts w))"
  by (auto simp: notFound_def Let_def page custom split: option.split sum.split)

lemma resolveBlob: "fst (resolveBlob rt req env route url opts w) = Inr (BlobNotFound r) \<Longrightarrow> Good r"
proof -
  have nf: "Good r" if "fst (notFound rt rsn req route env m opts w) = Inr r" for rsn route m
    using notFound [of rt rsn req route env m opts w] that by simp
  assume "fst (resolveBlob rt req env route url opts w) = Inr (BlobNotFound r)"
  then show ?thesis
    by (auto simp: resolveBlob_def directoryListing_def map_sum_Inr intro: nf
        split: option.splits sum.splits if_splits prod.splits)
qed

lemma serveChat: "serveChatIfRequested rt env route url = Inr (Some r) \<Longrightarrow> Good r"
  by (auto simp: serveChatIfRequested_def Let_def chat split: option.splits sum.splits if_splits)

lemma servePublicBody: "holds Good (fst (servePublicBody rt req env route url opts w))"
  using resolveBlob [of rt req env route url opts w] serveChat [of rt env route url]
  by (auto simp: servePublicBody_def Let_def content bodyFor
      split: sum.split option.split prod.split BlobResolution.split)

lemma servePublic:
  assumes "cached_all Good w"
  shows "holds Good (fst (servePublic rt req env route url opts w))"
    and "cached_all Good (snd (servePublic rt req env route url opts w))"
proof -
  note rb = resolveBlob [of rt req env route url opts w]
  have hit: "Good r" if "(if so_cache opts then w_pop w (cacheKey rt route url) else None) = Some r" for r
    using assms that by (auto simp: cached_all_def split: if_splits)
  show "holds Good (fst (servePublic rt req env route url opts w))"
    using rb serveChat [of rt env route url] hit
    by (auto simp: servePublic_def Let_def content bodyFor
        split: sum.split option.split prod.split BlobResolution.split)
  have "cached_all Good w1" if "resolveBlob rt req env route url opts w = (x, w1)" for x w1
    using assms cached_all_pop resolveBlob_state(3) [of rt req env route url opts w] that by (metis snd_conv)
  then show "cached_all Good (snd (servePublic rt req env route url opts w))"
    using assms
    by (auto simp: servePublic_def Let_def cached_all_def content map_put_def
        split: sum.split option.split prod.split BlobResolution.split)
qed

lemma handleLLMMeta: "fst (handleLLMMeta rt req env route url opts w) = Inr (Some r) \<Longrightarrow> Good r"
  using notFound [of rt "''manifest_missing''" req "Some route" env None opts w]
  by (auto simp: handleLLMMeta_def Let_def txt_ok crawler split: option.splits sum.splits if_splits prod.splits)

lemma serveGated:
  assumes "\<And>w. holds Good (fst (serveContent c w))"
  shows "holds Good (fst (serveGated rt req route url opts c w))"
proof -
  have g: "Good r" if "serveContent c w = (Inr r, w')" for r w w' using assms [of w] that by simp
  have cb: "holds Good (fst (handleAuthzCallback rt route url cfg f now w))" for cfg f now
    using callback by (cases "handleAuthzCallback rt route url cfg f now w") (auto simp: holds_def split: sum.split)
  have rd: "holds Good (redirectToAuthz rt cfg h p)" for cfg h p
    using redirect by (auto simp: holds_def split: sum.split)
  show ?thesis
    by (auto simp: serveGated_def cb rd intro: privately g split: prod.split option.split sum.split)
qed

lemma serve_by_mode:
  assumes "cached_all Good w"
  shows "holds Good (fst (serve_by_mode rt req env route url opts w))"
    and "cached_all Good (snd (serve_by_mode rt req env route url opts w))"
  using servePublic [OF assms] assms
  by (auto simp: serve_by_mode_def serveGated servePublicBody notFound serveGated_state
      cached_all_pop [OF notFound_state(3)] cached_all_pop [OF serveGated_state])

lemma cached_route:
  assumes "cached_all Good w"
  shows "cached_all Good (snd (serve_route rt req env route url opts w))"
proof -
  have "cached_all Good w1" if "handleLLMMeta rt req env route url opts w = (x, w1)" for x w1
    using assms cached_all_pop handleLLMMeta_state(3) [of rt req env route url opts w] that by (metis snd_conv)
  then show ?thesis
    using assms
    by (auto simp: serve_route_def serve_unblocked_def Let_def serve_by_mode cached_all_pop [OF serveEmbed_state(3)]
        split: sum.split option.split prod.split)
qed

lemma plain_route:
  assumes "cached_all Good w" and "\<not> isEmbedRequested url"
  shows "holds Good (fst (serve_route rt req env route url opts w))"
proof -
  have "cached_all Good w1" if "handleLLMMeta rt req env route url opts w = (x, w1)" for x w1
    using assms cached_all_pop handleLLMMeta_state(3) [of rt req env route url opts w] that by (metis snd_conv)
  moreover have "Good r" if "handleLLMMeta rt req env route url opts w = (Inr (Some r), w1)" for r w1
    using handleLLMMeta [of rt req env route url opts w] that by simp
  ultimately show ?thesis
    using assms
    by (auto simp: serve_route_def serve_unblocked_def Let_def serve_by_mode page bodyFor
        split: sum.split option.split prod.split)
qed

text \<open>The state after any request keeps the invariant of the cache.\<close>

lemma cached_dispatch:
  assumes "cached_all Good w"
  shows "cached_all Good (snd (dispatch rt req env opts w))"
proof -
  have rl: "cached_all Good w1" if "rate_limit env req url opts w = (x, w1)" for url x w1
    using assms cached_all_pop rate_limit_state(2) [of env req url opts w] that by (metis snd_conv)
  show ?thesis
    using assms rl
    by (auto simp: dispatch_def serve_host_def cached_route cached_all_pop [OF notFound_state(3)]
        cached_all_pop [OF reportRejectedRoute_state(3)] split: option.split prod.split sum.split)
qed

text \<open>Dispatch, given that the route handler keeps the invariant for this URL.\<close>

lemma dispatch_good:
  assumes "cached_all Good w"
    and "\<And>url route w1. new_url rt (req_url req) None = Some url \<Longrightarrow> cached_all Good w1 \<Longrightarrow>
           holds Good (fst (serve_route rt req env route url opts w1))"
  shows "holds Good (fst (dispatch rt req env opts w))"
proof -
  have rl: "cached_all Good w1" if "rate_limit env req url opts w = (x, w1)" for url x w1
    using assms(1) cached_all_pop rate_limit_state(2) [of env req url opts w] that by (metis snd_conv)
  show ?thesis
    using assms rl
    by (auto simp: dispatch_def serve_host_def page notFound split: option.split prod.split sum.split)
qed

end

locale embed_invariant = response_invariant +
  assumes embed: "Good (embed_response rt p out)"
    and placeholder: "Good (embedGatePlaceholder u)"
begin

lemma serveEmbed: "holds Good (fst (serveEmbed rt req env route url opts w))"
  using resolveBlob [of rt req env route url opts w]
  by (auto simp: serveEmbed_def Let_def embed placeholder bodyFor
      split: sum.split option.split prod.split BlobResolution.split)

lemma serve_route:
  assumes "cached_all Good w"
  shows "holds Good (fst (serve_route rt req env route url opts w))"
proof (cases "isEmbedRequested url")
  case True
  have "Good r" if "handleLLMMeta rt req env route url opts w = (Inr (Some r), w1)" for r w1
    using handleLLMMeta [of rt req env route url opts w] that by simp
  with True show ?thesis
    by (auto simp: serve_route_def serve_unblocked_def Let_def serveEmbed page bodyFor
        split: sum.split option.split prod.split)
qed (simp add: assms plain_route)

lemma dispatch: "cached_all Good w \<Longrightarrow> holds Good (fst (dispatch rt req env opts w))"
  by (simp add: dispatch_good serve_route)

end

section \<open>The header posture\<close>

definition CHAT_CSP :: string where
  "CHAT_CSP = replace_first CONTENT_CSP frame_none (''frame-ancestors 'self'' @ [CHR 0x27])"

text \<open>
  The three postures of a response: no framing at all, framing by pages of the same origin (the
  transcript page), and framing by anyone (the embed surface). All three are hardened.
\<close>

definition sealed :: "headers \<Rightarrow> bool" where
  "sealed h \<longleftrightarrow> hardened h \<and> header_get h ''X-Frame-Options'' = Some ''DENY'' \<and>
     header_get h ''Content-Security-Policy'' \<in> {Some CONTENT_CSP, Some PLATFORM_CSP}"

definition same_origin_only :: "headers \<Rightarrow> bool" where
  "same_origin_only h \<longleftrightarrow> hardened h \<and> header_get h ''X-Frame-Options'' = Some ''SAMEORIGIN'' \<and>
     header_get h ''Content-Security-Policy'' = Some CHAT_CSP"

definition open_posture :: "headers \<Rightarrow> bool" where
  "open_posture h \<longleftrightarrow> hardened h \<and> header_get h ''X-Frame-Options'' = None \<and>
     header_get h ''Cross-Origin-Resource-Policy'' = Some ''cross-origin'' \<and>
     header_get h ''Content-Security-Policy'' \<in> {Some FRAMABLE_CONTENT_CSP, Some FRAMABLE_PLATFORM_CSP}"

definition guarded :: "response \<Rightarrow> bool" where
  "guarded r \<longleftrightarrow> sealed (resp_headers r) \<or> same_origin_only (resp_headers r)"

definition postured :: "response \<Rightarrow> bool" where
  "postured r \<longleftrightarrow> guarded r \<or> open_posture (resp_headers r)"

lemma sealed_frame_denied: "sealed h \<Longrightarrow> hardened h \<and> frame_denied h"
  by (auto simp: sealed_def frame_denied_def csp_facts)

lemma sealed_neutral: "neutral k \<Longrightarrow> sealed (header_set h k v) = sealed h"
  by (simp add: sealed_def header_set_neutral hs.get_put neutral_def lower_names)

lemma sealed_sets:
  "sealed (headers_of h contentSecurityHeaders)" "sealed (headers_of h platformSecurityHeaders)"
  by (simp_all add: sealed_def hardened_def header_set_defs hs.get_put lower_names)

lemma open_sets:
  "header_get h ''X-Frame-Options'' = None \<Longrightarrow> open_posture (headers_of h framableContentSecurityHeaders)"
  "header_get h ''X-Frame-Options'' = None \<Longrightarrow> open_posture (headers_of h framablePlatformSecurityHeaders)"
  by (simp_all add: open_posture_def hardened_def header_set_defs hs.get_put lower_names)

lemma open_neutral: "neutral k \<Longrightarrow> open_posture (header_set h k v) = open_posture h"
  by (simp add: open_posture_def header_set_neutral hs.get_put neutral_def lower_names)

lemma set_optional_sealed:
  "sealed (set_optional rt opts h) = sealed h" "open_posture (set_optional rt opts h) = open_posture h"
  by (simp_all add: set_optional_def Let_def sealed_neutral open_neutral neutral_names split: option.splits)

lemma sealed_pages: "sealed (resp_headers (platform_page html st cache extra))"
  by (simp add: platform_page_def headers_of_append sealed_sets)

lemma sealed_content:
  "sealed (resp_headers (contentResponse rt p out))" "sealed (resp_headers (custom_404 e obj))"
  "sealed (resp_headers method_not_allowed)" "sealed (resp_headers (text_response b st c []))"
  "sealed (resp_headers (text_response b st c [(''Vary'', x)]))"
  by (simp_all add: contentResponse_def publicResponseHeaders_def served_headers_def Let_def custom_404_def
      method_not_allowed_def text_response_def securityHeaders_def headers_of_append set_optional_sealed
      sealed_sets sealed_neutral neutral_names applyHeaders_headers_of security_sets_nonempty)

lemma same_origin_chat: "same_origin_only (resp_headers (chat_response html))"
proof -
  have "hardened (headers_of h contentSecurityHeaders)" for h by (rule headers_of_content)
  then show ?thesis
    by (simp add: same_origin_only_def chat_response_def CHAT_CSP_def Let_def headers_of_append securityHeaders_def
        hardened_def hs.get_put lower_names)
qed

lemma sealed_private: "sealed (asPrivate h)"
  by (simp add: asPrivate_def sealed_neutral neutral_names securityHeaders_def applyHeaders_headers_of
      security_sets_nonempty sealed_sets)

lemma sealed_noStore: "sealed noStoreHeaders"
  by (simp add: noStoreHeaders_def sealed_neutral neutral_names securityHeaders_def sealed_sets)

lemma sealed_redirect: "redirectToAuthz rt cfg host p = Inr r \<Longrightarrow> sealed (resp_headers r)"
  by (auto simp: redirectToAuthz_def Let_def sealed_noStore sealed_neutral neutral_names split: option.splits)

lemma sealed_callback: "handleAuthzCallback rt route url cfg f now w = (Inr r, w') \<Longrightarrow> sealed (resp_headers r)"
  by (auto simp: handleAuthzCallback_def Let_def sealed_noStore sealed_neutral neutral_names
      dest: sealed_redirect split: option.splits prod.splits)

lemma open_embed:
  "open_posture (resp_headers (embed_response rt p out))" "open_posture (resp_headers (embedGatePlaceholder u))"
  by (simp_all add: embed_response_def embedResponseHeaders_def served_headers_def Let_def embedGatePlaceholder_def
      headers_of_append set_optional_sealed open_sets applyHeaders_headers_of security_sets_nonempty
      hs.get_put lower_names)

lemmas sealed_facts = sealed_pages sealed_content sealed_private

interpretation guard: response_invariant guarded
  by unfold_locales
     (auto simp: guarded_def page_defs sealed_facts same_origin_chat dest: sealed_redirect sealed_callback)

interpretation post: embed_invariant postured
  by unfold_locales
     (auto simp: postured_def guarded_def page_defs sealed_facts same_origin_chat open_embed
       dest: sealed_redirect sealed_callback)

section \<open>The status codes\<close>

definition known_status :: "response \<Rightarrow> bool" where
  "known_status r \<longleftrightarrow> resp_status r \<in> {200, 302, 403, 404, 405, 410, 429, 500, 503}"

interpretation status: embed_invariant known_status
  by unfold_locales
     (auto simp: known_status_def page_defs method_not_allowed_def custom_404_def contentResponse_def
       text_response_def chat_response_def embed_response_def embedGatePlaceholder_def Let_def
       dest: redirectToAuthz_Inr(1) handleAuthzCallback_Inr(1))

section \<open>Reachable states of an isolate\<close>

text \<open>
  An isolate starts with an empty PoP cache. Requests are served one after the other, each under
  whatever environment holds at that time; between requests the platform may drop cached
  entries and others may write the limits namespace.
\<close>

inductive reachable :: "runtime \<Rightarrow> world \<Rightarrow> bool" for rt where
  start: "w_pop w = Map.empty \<Longrightarrow> reachable rt w"
| request: "reachable rt w \<Longrightarrow> reachable rt (snd (fetch rt req env opts w))"
| evict: "reachable rt w \<Longrightarrow> reachable rt (w\<lparr>w_pop := (w_pop w)(key := None)\<rparr>)"
| external: "reachable rt w \<Longrightarrow> reachable rt (w\<lparr>w_limits := store\<rparr>)"

lemma serve_pop: "w_pop (snd (serve rt req env opts w)) = w_pop (snd (dispatch rt req env opts w))"
  by (simp add: serve_def split: sum.split option.split prod.split)

lemma fetch_pop: "w_pop (snd (fetch rt req env opts w)) = w_pop (snd (dispatch rt req env opts w))"
  using serve_pop [of rt req env opts w] by (auto simp: fetch_def split: sum.split prod.split)

text \<open>Only guarded responses enter the cache, whatever the sequence of requests.\<close>

lemma reachable_guarded: "reachable rt w \<Longrightarrow> cached_all guarded w"
proof (induction rule: reachable.induct)
  case (request w req env opts)
  then show ?case using guard.cached_dispatch cached_all_pop [OF fetch_pop] by blast
qed (auto simp: cached_all_def)

lemma reachable_status: "reachable rt w \<Longrightarrow> cached_all known_status w"
proof (induction rule: reachable.induct)
  case (request w req env opts)
  then show ?case using status.cached_dispatch cached_all_pop [OF fetch_pop] by blast
qed (auto simp: cached_all_def)

section \<open>The framing post-pass\<close>

lemma framable_csp:
  "replace_first CONTENT_CSP frame_none frame_any = FRAMABLE_CONTENT_CSP"
  "replace_first PLATFORM_CSP frame_none frame_any = FRAMABLE_PLATFORM_CSP"
  "replace_first FRAMABLE_CONTENT_CSP frame_none frame_any = FRAMABLE_CONTENT_CSP"
  "replace_first FRAMABLE_PLATFORM_CSP frame_none frame_any = FRAMABLE_PLATFORM_CSP"
  "\<not> str_includes (replace_first CHAT_CSP frame_none frame_any) frame_none"
  by (simp_all add: FRAMABLE_CONTENT_CSP_def [symmetric] FRAMABLE_PLATFORM_CSP_def [symmetric]) code_simp+

lemma asFramable_postured:
  assumes "postured r"
  shows "hardened (resp_headers (asFramable r))" "framable (resp_headers (asFramable r))"
  using assms csp_facts framable_csp
  by (auto simp: postured_def guarded_def sealed_def same_origin_only_def open_posture_def asFramable_def Let_def
      hardened_def framable_def header_laws lower_names split: option.splits)

end
