(* ===== verification/PopCache.thy ===== *)
theory PopCache
  imports Posture
begin

text \<open>
  The cache of the point of presence. The content of the bucket is immutable: a manifest is
  written once per version and a blob is named by its hash. A request may see less of it (an
  object not yet replicated, a failing read) but never something else. Against this background
  the cache is transparent: what it answers is what the published version says.
\<close>

section \<open>What a version publishes\<close>

type_synonym content = "string \<Rightarrow> R2Object option"

definition published_manifest :: "runtime \<Rightarrow> content \<Rightarrow> KVRouteValue \<Rightarrow> Manifest option" where
  "published_manifest rt c route =
     (case c (manifestKey route) of
        None \<Rightarrow> None
      | Some obj \<Rightarrow> (case read_json rt obj of Inl _ \<Rightarrow> None | Inr raw \<Rightarrow> parseManifest raw))"

text \<open>
  The specification of resolution: a partial function of the content, the route and the URL,
  without requests, errors, events or state.
\<close>

definition published_blob :: "runtime \<Rightarrow> content \<Rightarrow> KVRouteValue \<Rightarrow> url \<Rightarrow> ResolvedBlob option" where
  "published_blob rt c route url =
     (case cleanPath (url_pathname url) of
        None \<Rightarrow> None
      | Some clean \<Rightarrow>
          if isServiceWorkerScript clean then None
          else
            (case published_manifest rt c route of
               None \<Rightarrow> None
             | Some m \<Rightarrow>
                 (case resolveManifestEntry m clean of
                    Some (path, entry) \<Rightarrow>
                      map_option (serve_object url path entry) (c (blobKey (org_id route) (entry_sha256 entry)))
                  | None \<Rightarrow>
                      if files_get m NOT_FOUND_PATH = None
                      then map_option (\<lambda>es. html_blob (renderDirectoryListing rt (directoryPrefix clean) es))
                             (listDirectory rt m (directoryPrefix clean))
                      else None)))"

text \<open>A bucket that shows part of the content, or all of it. Transcripts are not content.\<close>

definition shows_part_of :: "bucket \<Rightarrow> content \<Rightarrow> bool" where
  "shows_part_of b c \<longleftrightarrow> (\<forall>key obj. \<not> startsWith key ''chat-transcripts/'' \<longrightarrow> b key = Inr (Some obj) \<longrightarrow> c key = Some obj)"

definition shows_all_of :: "bucket \<Rightarrow> content \<Rightarrow> bool" where
  "shows_all_of b c \<longleftrightarrow> (\<forall>key. \<not> startsWith key ''chat-transcripts/'' \<longrightarrow> b key = Inr (c key))"

lemma shows_all_part: "shows_all_of b c \<Longrightarrow> shows_part_of b c"
  by (simp add: shows_all_of_def shows_part_of_def)

lemma content_keys:
  "\<not> startsWith (manifestKey route) ''chat-transcripts/''" "\<not> startsWith (blobKey org h) ''chat-transcripts/''"
  by (simp_all add: manifestKey_def blobKey_def)

lemma loadManifest_part:
  "shows_part_of (BUCKET env) c \<Longrightarrow> loadManifest rt env route = Inr (Some m) \<Longrightarrow>
   published_manifest rt c route = Some m"
  using content_keys
  by (auto simp: loadManifest_def published_manifest_def shows_part_of_def split: sum.splits option.splits)

lemma loadManifest_all:
  "shows_all_of (BUCKET env) c \<Longrightarrow> published_manifest rt c route = Some m \<Longrightarrow>
   loadManifest rt env route = Inr (Some m)"
  using content_keys
  by (auto simp: loadManifest_def published_manifest_def shows_all_of_def split: sum.splits option.splits)

lemma blob_not_found_no_blob: "fst (blob_not_found p) \<noteq> Inr (BlobOk rb)"
  by (cases "fst p") (simp_all add: blob_not_found_def)

text \<open>Resolution refines the specification.\<close>

lemma resolveBlob_part:
  assumes "shows_part_of (BUCKET env) c"
    and "fst (resolveBlob rt req env route url opts w) = Inr (BlobOk rb)"
  shows "published_blob rt c route url = Some rb"
  using assms(2) loadManifest_part [OF assms(1), of rt route] assms(1) content_keys
  by (auto simp: resolveBlob_def published_blob_def directoryListing_def blob_not_found_no_blob shows_part_of_def
      simp del: blob_not_found_simps split: option.splits sum.splits if_splits prod.splits)

lemma resolveBlob_all:
  assumes "shows_all_of (BUCKET env) c" and "published_blob rt c route url = Some rb"
  shows "resolveBlob rt req env route url opts w = (Inr (BlobOk rb), w)"
proof -
  have "BUCKET env (blobKey org h) = Inr (c (blobKey org h))" for org h
    using assms(1) content_keys by (simp add: shows_all_of_def)
  then show ?thesis
    using assms(2) loadManifest_all [OF assms(1), of rt route]
    by (auto simp: resolveBlob_def published_blob_def directoryListing_def
        split: option.splits if_splits prod.splits)
qed

definition published :: "runtime \<Rightarrow> content \<Rightarrow> Env \<Rightarrow> KVRouteValue \<Rightarrow> url \<Rightarrow> response option" where
  "published rt c env route url =
     map_option (\<lambda>rb. contentResponse rt (servedPath rb) (bannerize env route rb False)) (published_blob rt c route url)"

section \<open>Cache keys\<close>

text \<open>
  A request whose key is exact: the setter of \<open>pathname\<close> leaves the key path alone, the pieces of
  the URL and the plan tier have no slash where the key separates by one, and the path does not
  begin with the segment that marks \<open>?raw\<close>.
\<close>

definition exact_key :: "runtime \<Rightarrow> KVRouteValue \<Rightarrow> url \<Rightarrow> bool" where
  "exact_key rt route url \<longleftrightarrow>
     set_pathname rt (cache_path route url) = cache_path route url \<and>
     CHR ''/'' \<notin> set (url_protocol url) \<and> CHR ''/'' \<notin> set (url_host url) \<and> url_hash url = [] \<and>
     startsWith (url_pathname url) ''/'' \<and> \<not> startsWith (url_pathname url) ''/raw/'' \<and>
     (\<forall>t. plan_tier route = Some t \<longrightarrow> CHR ''/'' \<notin> set t \<and> t \<noteq> ''_'')"

lemma cons_inj: "(c # xs = c # ys) = (xs = ys)"
  by simp

lemma route_pieces:
  assumes "route_ok rt route"
  shows "CHR ''/'' \<notin> set (access_mode route)" "CHR ''/'' \<notin> set (version_id route)"
    "\<And>t. chat_id route = Some t \<Longrightarrow> CHR ''/'' \<notin> set t \<and> t \<noteq> ''_''"
proof -
  show "CHR ''/'' \<notin> set (access_mode route)"
    using assms by (auto simp: route_ok_def ACCESS_MODES_def)
  show "CHR ''/'' \<notin> set (version_id route)"
    using assms uuid_no_slash by (auto simp: route_ok_def)
  have "\<not> UUID_RE_test ''_''" by code_simp
  then show "\<And>t. chat_id route = Some t \<Longrightarrow> CHR ''/'' \<notin> set t \<and> t \<noteq> ''_''"
    using assms uuid_no_slash by (auto simp: route_ok_def)
qed

definition or_underscore :: "string option \<Rightarrow> string" where
  "or_underscore v = (case v of Some s \<Rightarrow> s | None \<Rightarrow> ''_'')"

lemma or_underscore_inj:
  "(\<And>s. a = Some s \<Longrightarrow> s \<noteq> ''_'') \<Longrightarrow> (\<And>s. b = Some s \<Longrightarrow> s \<noteq> ''_'') \<Longrightarrow> or_underscore a = or_underscore b \<Longrightarrow> a = b"
  by (cases a; cases b) (auto simp: or_underscore_def)

lemma or_underscore_no_slash: "(\<And>s. a = Some s \<Longrightarrow> CHR ''/'' \<notin> set s) \<Longrightarrow> CHR ''/'' \<notin> set (or_underscore a)"
  by (cases a) (auto simp: or_underscore_def)

text \<open>The key path with its separators in front: the last piece keeps its leading slash.\<close>

lemma cache_path_pieces:
  assumes "startsWith (url_pathname url) ''/''"
  obtains rest where "url_pathname url = CHR ''/'' # rest"
    "cache_path route url =
       CHR ''/'' # access_mode route @ CHR ''/'' # version_id route @ CHR ''/'' # or_underscore (plan_tier route) @
       CHR ''/'' # or_underscore (chat_id route) @
       CHR ''/'' # (if isRawRequested url then ''raw/'' @ rest else rest)"
proof -
  obtain rest where "url_pathname url = CHR ''/'' # rest" using assms by (auto simp: startsWith_iff)
  then show ?thesis using that [of rest] by (simp add: cache_path_def or_underscore_def)
qed

lemma cache_path_inj:
  assumes ok: "route_ok rt r1" "route_ok rt r2" and ex: "exact_key rt r1 u1" "exact_key rt r2 u2"
    and eq: "cache_path r1 u1 = cache_path r2 u2"
  shows "version_id r1 = version_id r2" "plan_tier r1 = plan_tier r2" "chat_id r1 = chat_id r2"
    "url_pathname u1 = url_pathname u2" "isRawRequested u1 = isRawRequested u2"
proof -
  obtain x1 where x1: "url_pathname u1 = CHR ''/'' # x1" "cache_path r1 u1 =
       CHR ''/'' # access_mode r1 @ CHR ''/'' # version_id r1 @ CHR ''/'' # or_underscore (plan_tier r1) @
       CHR ''/'' # or_underscore (chat_id r1) @ CHR ''/'' # (if isRawRequested u1 then ''raw/'' @ x1 else x1)"
    by (rule cache_path_pieces [of u1 r1]) (use ex in \<open>simp add: exact_key_def\<close>)
  obtain x2 where x2: "url_pathname u2 = CHR ''/'' # x2" "cache_path r2 u2 =
       CHR ''/'' # access_mode r2 @ CHR ''/'' # version_id r2 @ CHR ''/'' # or_underscore (plan_tier r2) @
       CHR ''/'' # or_underscore (chat_id r2) @ CHR ''/'' # (if isRawRequested u2 then ''raw/'' @ x2 else x2)"
    by (rule cache_path_pieces [of u2 r2]) (use ex in \<open>simp add: exact_key_def\<close>)
  have tier: "CHR ''/'' \<notin> set t \<and> t \<noteq> ''_''" if "plan_tier r1 = Some t \<or> plan_tier r2 = Some t" for t
    using ex that by (auto simp: exact_key_def)
  note ns = route_pieces [OF ok(1)] route_pieces [OF ok(2)]
  have us: "CHR ''/'' \<notin> set (or_underscore (plan_tier r1))" "CHR ''/'' \<notin> set (or_underscore (plan_tier r2))"
    "CHR ''/'' \<notin> set (or_underscore (chat_id r1))" "CHR ''/'' \<notin> set (or_underscore (chat_id r2))"
    using tier ns by (auto intro!: or_underscore_no_slash)
  have 1: "access_mode r1 @ CHR ''/'' # version_id r1 @ CHR ''/'' # or_underscore (plan_tier r1) @
       CHR ''/'' # or_underscore (chat_id r1) @ CHR ''/'' # (if isRawRequested u1 then ''raw/'' @ x1 else x1) =
     access_mode r2 @ CHR ''/'' # version_id r2 @ CHR ''/'' # or_underscore (plan_tier r2) @
       CHR ''/'' # or_underscore (chat_id r2) @ CHR ''/'' # (if isRawRequested u2 then ''raw/'' @ x2 else x2)"
    using eq unfolding x1(2) x2(2) cons_inj .
  note 2 = append_slash_inj [OF ns(1) ns(4) 1, THEN conjunct2]
  note v = append_slash_inj [OF ns(2) ns(5) 2]
  note t = append_slash_inj [OF us(1,2) v [THEN conjunct2]]
  note c = append_slash_inj [OF us(3,4) t [THEN conjunct2]]
  show "version_id r1 = version_id r2" using v by blast
  show "plan_tier r1 = plan_tier r2" using t tier or_underscore_inj by blast
  show "chat_id r1 = chat_id r2" using c ns or_underscore_inj by blast
  have nr: "\<not> startsWith x1 ''raw/''" "\<not> startsWith x2 ''raw/''"
    using ex x1(1) x2(1) by (auto simp: exact_key_def)
  from c [THEN conjunct2] nr show "isRawRequested u1 = isRawRequested u2"
    by (cases "isRawRequested u1"; cases "isRawRequested u2") (auto simp: startsWith_iff)
  with c [THEN conjunct2] show "url_pathname u1 = url_pathname u2"
    by (cases "isRawRequested u2") (simp_all add: x1(1) x2(1))
qed

lemma cacheKey_inj:
  assumes ex: "exact_key rt r1 u1" "exact_key rt r2 u2" and eq: "cacheKey rt r1 u1 = cacheKey rt r2 u2"
  shows "cache_path r1 u1 = cache_path r2 u2"
proof -
  have k: "cacheKey rt r u = url_protocol u @ CHR ''/'' # CHR ''/'' # url_host u @ CHR ''/'' # tl (cache_path r u)"
    if "exact_key rt r u" for r u
    using that by (simp add: cacheKey_def url_href_def exact_key_def cache_path_def)
  have p: "url_protocol u1 @ CHR ''/'' # CHR ''/'' # url_host u1 @ CHR ''/'' # tl (cache_path r1 u1) =
      url_protocol u2 @ CHR ''/'' # CHR ''/'' # url_host u2 @ CHR ''/'' # tl (cache_path r2 u2)"
    using eq k [OF ex(1)] k [OF ex(2)] by simp
  have s: "CHR ''/'' \<notin> set (url_protocol u1)" "CHR ''/'' \<notin> set (url_protocol u2)"
    "CHR ''/'' \<notin> set (url_host u1)" "CHR ''/'' \<notin> set (url_host u2)"
    using ex by (simp_all add: exact_key_def)
  from append_slash_inj [OF s(1,2) p] have
    "url_host u1 @ CHR ''/'' # tl (cache_path r1 u1) = url_host u2 @ CHR ''/'' # tl (cache_path r2 u2)" by simp
  from append_slash_inj [OF s(3,4) this] have "tl (cache_path r1 u1) = tl (cache_path r2 u2)" ..
  then show ?thesis by (simp add: cache_path_def)
qed

text \<open>
  The condition on the path is needed: the document below \<open>/raw\<close> and the source of the document
  without it have the same key.
\<close>

lemma raw_paths_share_keys:
  assumes "url_pathname u2 = ''/raw'' @ url_pathname u1" "isRawRequested u1" "\<not> isRawRequested u2"
    and "url_protocol u1 = url_protocol u2" "url_host u1 = url_host u2" "url_hash u1 = url_hash u2"
  shows "cacheKey rt route u1 = cacheKey rt route u2"
  using assms by (simp add: cacheKey_def cache_path_def url_href_def)

text \<open>What the answer depends on is in the key, given that a version belongs to one site.\<close>

lemma published_cong:
  assumes "org_id r1 = org_id r2" "site_id r1 = site_id r2" "version_id r1 = version_id r2"
    "plan_tier r1 = plan_tier r2" "chat_id r1 = chat_id r2"
    "url_pathname u1 = url_pathname u2" "isRawRequested u1 = isRawRequested u2"
    "ATTRIBUTION_BANNER e1 = ATTRIBUTION_BANNER e2"
  shows "published rt c e1 r1 u1 = published rt c e2 r2 u2"
proof -
  have b: "bannerize e1 r1 = bannerize e2 r2"
    using assms by (intro ext) (simp add: bannerize_def shouldInjectBanner_def shouldInjectChatPill_def norm_tier_def)
  have o: "serve_object u1 = serve_object u2"
    using assms by (intro ext) (simp add: serve_object_def)
  have m: "published_manifest rt c r1 = published_manifest rt c r2"
    using assms by (simp add: published_manifest_def manifestKey_def)
  show ?thesis unfolding published_def published_blob_def b o m assms(1,6) ..
qed

section \<open>Runs over fixed content\<close>

text \<open>
  The standing facts of a deployment: the content, the banner flag, and the site each version
  belongs to. A request respects them if its bucket shows part of the content and the route it
  resolves to has an exact key and its version's site.
\<close>

record deployment =
  d_content :: content
  d_banner :: "string option"
  d_site :: "string \<Rightarrow> string \<times> string"

definition in_deployment :: "runtime \<Rightarrow> deployment \<Rightarrow> Env \<Rightarrow> KVRouteValue \<Rightarrow> url \<Rightarrow> bool" where
  "in_deployment rt d env route url \<longleftrightarrow>
     shows_part_of (BUCKET env) (d_content d) \<and> ATTRIBUTION_BANNER env = d_banner d \<and>
     exact_key rt route url \<and> (org_id route, site_id route) = d_site d (version_id route)"

inductive warm :: "runtime \<Rightarrow> deployment \<Rightarrow> world \<Rightarrow> bool" for rt d where
  warm_start: "w_pop w = Map.empty \<Longrightarrow> warm rt d w"
| warm_request: "warm rt d w \<Longrightarrow>
    (\<And>url route w1. reaches rt req env opts w url route w1 \<Longrightarrow> in_deployment rt d env route url) \<Longrightarrow>
    warm rt d (snd (fetch rt req env opts w))"
| warm_evict: "warm rt d w \<Longrightarrow> warm rt d (w\<lparr>w_pop := (w_pop w)(key := None)\<rparr>)"

text \<open>The invariant: an entry is the published answer for every route and URL with its key.\<close>

definition cache_ok :: "runtime \<Rightarrow> deployment \<Rightarrow> world \<Rightarrow> bool" where
  "cache_ok rt d w \<longleftrightarrow>
     (\<forall>route url env hit. route_ok rt route \<longrightarrow> in_deployment rt d env route url \<longrightarrow>
        w_pop w (cacheKey rt route url) = Some hit \<longrightarrow> published rt (d_content d) env route url = Some hit)"

lemma published_by_key:
  assumes "route_ok rt r1" "route_ok rt r2" "in_deployment rt d e1 r1 u1" "in_deployment rt d e2 r2 u2"
    and "cacheKey rt r1 u1 = cacheKey rt r2 u2"
  shows "published rt c e1 r1 u1 = published rt c e2 r2 u2"
proof -
  have ex: "exact_key rt r1 u1" "exact_key rt r2 u2" and b: "ATTRIBUTION_BANNER e1 = ATTRIBUTION_BANNER e2"
    and s1: "(org_id r1, site_id r1) = d_site d (version_id r1)"
    and s2: "(org_id r2, site_id r2) = d_site d (version_id r2)"
    using assms(3,4) by (simp_all add: in_deployment_def)
  note i = cache_path_inj [OF assms(1,2) ex cacheKey_inj [OF ex assms(5)]]
  from s1 s2 i(1) have "org_id r1 = org_id r2" "site_id r1 = site_id r2" by (simp_all add: prod_eq_iff)
  with i b show ?thesis by (intro published_cong)
qed

lemma cache_ok_put:
  assumes "cache_ok rt d w" "route_ok rt route" "in_deployment rt d env route url"
    and "published rt (d_content d) env route url = Some r"
    and "w_pop w' = map_put (w_pop w) (cacheKey rt route url) r"
  shows "cache_ok rt d w'"
  unfolding cache_ok_def
proof (intro allI impI)
  fix route' url' env' hit
  assume *: "route_ok rt route'" "in_deployment rt d env' route' url'"
    and hit: "w_pop w' (cacheKey rt route' url') = Some hit"
  show "published rt (d_content d) env' route' url' = Some hit"
  proof (cases "cacheKey rt route' url' = cacheKey rt route url")
    case True
    with hit assms(5) have "hit = r" by (simp add: map_put_def)
    with published_by_key [OF *(1) assms(2) *(2) assms(3) True] assms(4) show ?thesis by simp
  next
    case False
    with hit assms(1,5) * show ?thesis by (auto simp: cache_ok_def map_put_def)
  qed
qed

lemma cache_ok_pop: "w_pop w1 = w_pop w2 \<Longrightarrow> cache_ok rt d w1 = cache_ok rt d w2"
  by (simp add: cache_ok_def)

text \<open>The only write to the cache is the published answer of a \<open>GET\<close>.\<close>

lemma servePublic_pop:
  assumes "shows_part_of (BUCKET env) c"
  shows "w_pop (snd (servePublic rt req env route url opts w)) = w_pop w \<or>
     (\<exists>r. published rt c env route url = Some r \<and>
        w_pop (snd (servePublic rt req env route url opts w)) = map_put (w_pop w) (cacheKey rt route url) r)"
proof -
  obtain x w1 where rb: "resolveBlob rt req env route url opts w = (x, w1)"
    by (cases "resolveBlob rt req env route url opts w")
  have p: "w_pop w1 = w_pop w" using resolveBlob_state(3) [of rt req env route url opts w] rb by simp
  have "published_blob rt c route url = Some b" if "x = Inr (BlobOk b)" for b
    using resolveBlob_part [OF assms, of rt req route url opts w] rb that by simp
  with p rb show ?thesis
    by (auto simp: servePublic_def published_def Let_def split: sum.splits option.splits BlobResolution.splits)
qed

lemma cache_ok_route:
  assumes "cache_ok rt d w" "route_ok rt route" "in_deployment rt d env route url"
  shows "cache_ok rt d (snd (serve_route rt req env route url opts w))"
proof -
  obtain x w1 where h: "handleLLMMeta rt req env route url opts w = (x, w1)"
    by (cases "handleLLMMeta rt req env route url opts w")
  have p: "w_pop w1 = w_pop w" using handleLLMMeta_state(3) [of rt req env route url opts w] h by simp
  then have c1: "cache_ok rt d w1" using assms(1) cache_ok_pop by blast
  have "shows_part_of (BUCKET env) (d_content d)" using assms(3) by (simp add: in_deployment_def)
  from servePublic_pop [OF this, of rt req route url opts w1]
  have pub: "cache_ok rt d (snd (servePublic rt req env route url opts w1))"
    using c1 assms cache_ok_put cache_ok_pop by blast
  have gated: "cache_ok rt d (snd (serveGated rt req route url o1 \<lparr>serveContent = servePublicBody rt req env route url opts,
      gc_revokedKV = kv, gc_orgId = org\<rparr> w1))" for o1 kv org
    using c1 cache_ok_pop [OF serveGated_state] by simp
  have nf: "cache_ok rt d (snd (notFound rt rsn req r env m opts w1))" for rsn r m
    using c1 cache_ok_pop [OF notFound_state(3)] by blast
  have em: "cache_ok rt d (snd (serveEmbed rt req env route url opts w1))"
    using c1 cache_ok_pop [OF serveEmbed_state(3)] by blast
  show ?thesis
    using assms(1) c1 h pub gated nf em
    by (simp add: serve_route_def serve_unblocked_def serve_by_mode_def Let_def split: sum.split option.split)
qed

lemma dispatch_pop_cases:
  "w_pop (snd (dispatch rt req env opts w)) = w_pop w \<or>
   (\<exists>url route w1. reaches rt req env opts w url route w1 \<and>
      snd (dispatch rt req env opts w) = snd (serve_route rt req env route url opts w1))"
proof (cases "new_url rt (req_url req) None")
  case (Some url)
  obtain rl w1 where rl: "rate_limit env req url opts w = (rl, w1)" by (cases "rate_limit env req url opts w")
  have p: "w_pop w1 = w_pop w" using rate_limit_state(2) [of env req url opts w] rl by simp
  show ?thesis
  proof (cases "\<exists>raw route. routes_get_json rt env (routeKey (url_host url)) = Inr raw \<and> parseRouteValue rt raw = Some route")
    case True
    then obtain raw route where r: "routes_get_json rt env (routeKey (url_host url)) = Inr raw"
      "parseRouteValue rt raw = Some route" by blast
    with Some rl p show ?thesis
      by (auto simp: dispatch_def serve_host_def reaches_def)
  next
    case False
    with Some rl p show ?thesis
      by (auto simp: dispatch_def serve_host_def split: sum.split option.split)
  qed
qed (simp add: dispatch_def)

lemma warm_cache_ok: "warm rt d w \<Longrightarrow> cache_ok rt d w"
proof (induction rule: warm.induct)
  case (warm_start w)
  then show ?case by (simp add: cache_ok_def)
next
  case (warm_request w req env opts)
  have "cache_ok rt d (snd (dispatch rt req env opts w))"
  proof (cases "w_pop (snd (dispatch rt req env opts w)) = w_pop w")
    case True
    then show ?thesis using warm_request.IH cache_ok_pop by blast
  next
    case False
    then obtain url route w1 where r: "reaches rt req env opts w url route w1"
      and s: "snd (dispatch rt req env opts w) = snd (serve_route rt req env route url opts w1)"
      using dispatch_pop_cases [of rt req env opts w] by blast
    have "w_pop w1 = w_pop w" using r rate_limit_state(2) [of env req url opts w] by (auto simp: reaches_def)
    then have "cache_ok rt d w1" using warm_request.IH cache_ok_pop by blast
    from cache_ok_route [OF this reaches_route_ok [OF r] warm_request.hyps(2) [OF r]] s show ?thesis by simp
  qed
  then show ?case using cache_ok_pop [OF fetch_pop] by blast
next
  case (warm_evict w key)
  then show ?case unfolding cache_ok_def by (auto split: if_splits)
qed

text \<open>A hit, and a miss over the whole content, for a \<open>GET\<close> that is not for the transcript.\<close>

lemma servePublic_hit:
  assumes "serveChatIfRequested rt env route url = Inr None" "so_cache opts"
    and "w_pop w (cacheKey rt route url) = Some hit"
  shows "fst (servePublic rt req env route url opts w) = Inr (bodyFor req hit)"
  using assms by (simp add: servePublic_def)

lemma servePublic_miss:
  assumes "serveChatIfRequested rt env route url = Inr None" "shows_all_of (BUCKET env) c"
    and "published rt c env route url = Some r" "req_method req = ''GET''"
    and "w_pop w (cacheKey rt route url) = None"
  shows "fst (servePublic rt req env route url opts w) = Inr r"
proof -
  obtain rb where rb: "published_blob rt c route url = Some rb"
    and r: "r = contentResponse rt (servedPath rb) (bannerize env route rb False)"
    using assms(3) by (auto simp: published_def)
  show ?thesis
    using assms resolveBlob_all [OF assms(2) rb]
    by (simp add: servePublic_def Let_def r bodyFor_def)
qed

end
