(* ===== verification/HeadGet.thy ===== *)
theory HeadGet
  imports PopCache
begin

text \<open>
  \<open>HEAD\<close> against \<open>GET\<close>. For \<open>HEAD\<close> the injecting passes compute the length instead of the
  document. The lengths agree when the stored document is valid UTF-8 without a byte order mark
  and its size is recorded correctly, and only then in general.
\<close>

definition honest_blob :: "ResolvedBlob \<Rightarrow> bool" where
  "honest_blob rb \<longleftrightarrow>
     (\<exists>b. rb_body rb = Some b \<and> utf8_valid b \<and> \<not> startsWith b bom \<and> rb_contentLength rb = Some (of_nat (length b)))"

lemma bannerize_length:
  assumes "honest_blob rb"
  shows "body_opts (bannerize env route rb True) = body_opts (bannerize env route rb False)"
proof -
  obtain b where b: "rb_body rb = Some b" "response_text b = b" "rb_contentLength rb = Some (of_nat (length b))"
    using assms response_text_valid by (auto simp: honest_blob_def)
  have l: "BANNER_BYTE_LENGTH = length BANNER_MARKUP" "CHAT_PILL_BYTE_LENGTH = length PILL_MARKUP"
    by (simp_all add: BANNER_BYTE_LENGTH_def CHAT_PILL_BYTE_LENGTH_def)
  show ?thesis
    by (auto simp: bannerize_def Let_def body_opts_def passthrough_def injected_head_def injected_body_def
        body_text_def b l banner.length_inject pill.length_inject)
qed

lemma resolveBlob_request:
  assumes "fst (resolveBlob rt req env route url opts w) = Inr (BlobOk rb)"
  shows "resolveBlob rt req' env route url opts w' = (Inr (BlobOk rb), w')"
  using assms
  by (auto simp: resolveBlob_def directoryListing_def blob_not_found_no_blob
      simp del: blob_not_found_simps split: option.splits sum.splits if_splits prod.splits)

text \<open>The two answers of a serve path that has resolved a blob.\<close>

lemma servePublicBody_ok:
  assumes "serveChatIfRequested rt env route url = Inr None"
    and "fst (resolveBlob rt req env route url opts w) = Inr (BlobOk rb)"
  shows "fst (servePublicBody rt req' env route url opts w') =
    Inr (bodyFor req' (contentResponse rt (servedPath rb) (bannerize env route rb (req_method req' = ''HEAD''))))"
  using assms(1) resolveBlob_request [OF assms(2)] by (simp add: servePublicBody_def Let_def)

lemma content_headers:
  "resp_headers (contentResponse rt p out) = publicResponseHeaders rt p (body_opts out)"
  "resp_status (contentResponse rt p out) = 200" "resp_body (contentResponse rt p out) = sb_body out"
  by (simp_all add: contentResponse_def)

lemma passthrough_opts:
  "o_contentType (body_opts (passthrough rb)) = rb_contentType rb" "sb_body (passthrough rb) = rb_body rb"
  by (simp_all add: body_opts_def passthrough_def)

lemma bannerize_plain: "\<not> isHtml (servedPath rb) \<Longrightarrow> bannerize env route rb h = passthrough rb"
  by (simp add: bannerize_def shouldInjectBanner_def shouldInjectChatPill_def)

text \<open>The answer to \<open>HEAD\<close> that agrees with the answer to \<open>GET\<close>.\<close>

definition head_of :: "response \<Rightarrow> response" where
  "head_of r = mk_response None (resp_status r) (resp_headers r)"

lemma bodyFor_simps:
  "req_method req = ''HEAD'' \<Longrightarrow> bodyFor req r = head_of r" "req_method req = ''GET'' \<Longrightarrow> bodyFor req r = r"
  by (simp_all add: bodyFor_def head_of_def)

lemma head_of_content:
  assumes "honest_blob rb"
  shows "head_of (contentResponse rt p (bannerize env route rb True)) = head_of (contentResponse rt p (bannerize env route rb False))"
  using bannerize_length [OF assms, of env route] by (simp add: head_of_def content_headers)

lemma servePublic_fst:
  assumes "serveChatIfRequested rt env route url = Inr None"
    and "fst (resolveBlob rt req env route url opts w) = Inr (BlobOk rb)"
  shows "fst (servePublic rt req' env route url opts w') =
    (case (if so_cache opts then w_pop w' (cacheKey rt route url) else None) of
       Some hit \<Rightarrow> Inr (bodyFor req' hit)
     | None \<Rightarrow> Inr (bodyFor req' (contentResponse rt (servedPath rb) (bannerize env route rb (req_method req' = ''HEAD'')))))"
  using assms(1) resolveBlob_request [OF assms(2)]
  by (simp add: servePublic_def Let_def split: option.split)

lemma servePublic_head:
  assumes "serveChatIfRequested rt env route url = Inr None"
    and "fst (resolveBlob rt req env route url opts w) = Inr (BlobOk rb)" "honest_blob rb" "req_method req = ''GET''"
  shows "\<exists>r. fst (servePublic rt req env route url opts w') = Inr r \<and>
    fst (servePublic rt (req\<lparr>req_method := ''HEAD''\<rparr>) env route url opts w') = Inr (head_of r)"
  using servePublic_fst [OF assms(1,2), of req w'] servePublic_fst [OF assms(1,2), of "req\<lparr>req_method := ''HEAD''\<rparr>" w']
    head_of_content [OF assms(3)] assms(4)
  by (simp add: bodyFor_simps split: option.split)

text \<open>\<open>HEAD\<close> reaches the route that \<open>GET\<close> reaches.\<close>

lemma limit_head: "rate_limit env (req\<lparr>req_method := ''HEAD''\<rparr>) url opts w = rate_limit env req url opts w"
proof -
  have hs: "req_headers (req\<lparr>req_method := ''HEAD''\<rparr>) = req_headers req" by simp
  have "rateLimitIdentity (req\<lparr>req_method := ''HEAD''\<rparr>) h = rateLimitIdentity req h" for h
    by (simp only: rateLimitIdentity_def hs)
  then show ?thesis by (simp add: rate_limit_def)
qed

lemma reaches_head:
  "reaches rt req env opts w url route w1 \<Longrightarrow> reaches rt (req\<lparr>req_method := ''HEAD''\<rparr>) env opts w url route w1"
  by (simp add: reaches_def isServiceWorkerRequest_def limit_head)

text \<open>
  A public request for content: the link has not expired, the organisation is not blocked, and the
  path and query ask for no special page, no embed and no transcript. It falls through when the
  cache does not know the answer either.
\<close>

definition asks_content :: "runtime \<Rightarrow> Env \<Rightarrow> KVRouteValue \<Rightarrow> url \<Rightarrow> ServeOptions \<Rightarrow> world \<Rightarrow> bool" where
  "asks_content rt env route url opts w \<longleftrightarrow>
     access_mode route = ''public'' \<and> \<not> isRouteExpired rt route (so_now opts) \<and>
     \<not> isBlockingStatus (readOrgStatus (LIMITS env) (w_limits w) (org_id route)) \<and>
     cleanPath (url_pathname url) \<noteq> Some ''robots.txt'' \<and> cleanPath (url_pathname url) \<noteq> Some ''llms.txt'' \<and>
     \<not> isEmbedRequested url \<and> serveChatIfRequested rt env route url = Inr None"

definition falls_through :: "runtime \<Rightarrow> Env \<Rightarrow> KVRouteValue \<Rightarrow> url \<Rightarrow> ServeOptions \<Rightarrow> world \<Rightarrow> bool" where
  "falls_through rt env route url opts w \<longleftrightarrow>
     asks_content rt env route url opts w \<and> (so_cache opts \<longrightarrow> w_pop w (cacheKey rt route url) = None)"

lemma serve_content:
  assumes "reaches rt req env opts w url route w1" "asks_content rt env route url opts w1"
  shows "fst (serve rt req env opts w) = fst (servePublic rt req env route url opts w1)"
proof -
  have "handleLLMMeta rt req env route url opts w1 = (Inr None, w1)"
    using assms(2) by (auto simp: asks_content_def handleLLMMeta_def Let_def split: option.splits)
  with assms(2) have "serve_route rt req env route url opts w1 = servePublic rt req env route url opts w1"
    by (simp add: asks_content_def serve_route_def serve_unblocked_def serve_by_mode_def)
  moreover have "framed url = id" using assms(2) by (auto simp: asks_content_def framed_def)
  ultimately show ?thesis using serve_reaches [OF assms(1)] by (simp add: sum.map_id0)
qed

lemma serve_falls_through:
  assumes "reaches rt req env opts w url route w1" "falls_through rt env route url opts w1"
    and "resolveBlob rt req env route url opts w1 = (Inr (BlobOk rb), w1)"
  shows "fst (serve rt req env opts w) =
    Inr (bodyFor req (contentResponse rt (servedPath rb) (bannerize env route rb (req_method req = ''HEAD''))))"
proof -
  have c: "asks_content rt env route url opts w1" "so_cache opts \<longrightarrow> w_pop w1 (cacheKey rt route url) = None"
    using assms(2) by (simp_all add: falls_through_def)
  then have "serveChatIfRequested rt env route url = Inr None" by (simp add: asks_content_def)
  from servePublic_fst [OF this, of req opts w1 rb req w1] assms(3) c serve_content [OF assms(1) c(1)]
  show ?thesis by (auto split: option.split)
qed

end
