(* ===== verification/Sample_Site.thy ===== *)
theory Sample_Site
  imports HeadGet
begin

text \<open>
  A small site on the host \<open>docs.example.com\<close> of the example platform: its route projection, a
  manifest with one script, and the blob of that script. The examples that show the hypotheses
  of the properties can be met are evaluated on it.
\<close>

definition quoted :: "string \<Rightarrow> string" where
  "quoted s = [CHR 0x22] @ s @ [CHR 0x22]"

definition sample_member :: "string \<Rightarrow> string \<Rightarrow> string" where
  "sample_member k v = quoted k @ '':'' @ quoted v"

definition sample_site_text :: "string \<Rightarrow> string" where
  "sample_site_text mode =
     ''{'' @ join '','' [sample_member ''org_id'' ''11111111-1111-1111-1111-111111111111'',
       sample_member ''site_id'' ''22222222-2222-2222-2222-222222222222'',
       sample_member ''version_id'' ''33333333-3333-3333-3333-333333333333'',
       sample_member ''access_mode'' mode, quoted ''schema_version'' @ '':1''] @ ''}''"

definition sample_site :: "string \<Rightarrow> KVRouteValue" where
  "sample_site mode =
     \<lparr>org_id = ''11111111-1111-1111-1111-111111111111'',
      site_id = ''22222222-2222-2222-2222-222222222222'',
      version_id = ''33333333-3333-3333-3333-333333333333'',
      access_mode = mode, schema_version = 1, expires_at = None, plan_tier = None, chat_id = None\<rparr>"

definition sample_bucket :: bucket where
  "sample_bucket key =
     (if key = manifestKey (sample_site ''public'') then
        Inr (Some \<lparr>r2_body = Some (''{'' @ quoted ''schema_version'' @ '':1,'' @ quoted ''files'' @ '':{'' @
          quoted ''app.js'' @ '':{'' @ sample_member ''sha256'' sample_hash @ '','' @
          sample_member ''content_type'' ''text/javascript'' @ ''}}}''),
          r2_httpEtag = None, r2_uploaded = None, r2_size = None, r2_json = True\<rparr>)
      else if key = blobKey ''11111111-1111-1111-1111-111111111111'' sample_hash then
        Inr (Some \<lparr>r2_body = Some ''let x = 1'', r2_httpEtag = None, r2_uploaded = None,
          r2_size = Some 9, r2_json = True\<rparr>)
      else Inr None)"

definition sample_env :: "string \<Rightarrow> Env" where
  "sample_env mode =
     \<lparr>ROUTES = (good_binding, [''route:docs.example.com'' \<mapsto> sample_site_text mode]),
      BUCKET = sample_bucket, EDGE_JWKS_URL = None, APP_AUTHZ_URL = None, RATE_LIMITER = None,
      LIMITS = Some good_binding, REVOKED = None, RATE_LIMIT_MAX = None, RATE_LIMIT_WINDOW_SECONDS = None,
      POSTHOG_KEY = None, POSTHOG_HOST = None, ENVIRONMENT = None, VISIT_SALT = None,
      ATTRIBUTION_BANNER = None\<rparr>"

definition sample_opts :: ServeOptions where
  "sample_opts = \<lparr>so_cache = True, so_waitUntil = True, so_fetchImpl = sample_fetch, so_now = 1000000, so_clock = 1000000\<rparr>"

definition sample_get :: "string \<Rightarrow> request" where
  "sample_get path = \<lparr>req_method = ''GET'', req_url = ''https://docs.example.com'' @ path, req_headers = []\<rparr>"

lemma sample_route_read:
  "routes_get_json sample_runtime (sample_env ''password'') ''route:docs.example.com'' =
     Inr (the (JSON_parse (sample_site_text ''password'')))"
  "parseRouteValue sample_runtime (the (JSON_parse (sample_site_text ''password''))) = Some (sample_site ''password'')"
  "routes_get_json sample_runtime (sample_env ''public'') ''route:docs.example.com'' =
     Inr (the (JSON_parse (sample_site_text ''public'')))"
  "parseRouteValue sample_runtime (the (JSON_parse (sample_site_text ''public''))) = Some (sample_site ''public'')"
  by code_simp+

definition sample_target :: "string \<Rightarrow> url" where
  "sample_target path =
     \<lparr>url_protocol = ''https:'', url_host = ''docs.example.com'', url_pathname = path, url_search = [], url_hash = []\<rparr>"

lemma sample_limits:
  "fst (rate_limit (sample_env ''public'') (sample_get ''/app.js'') (sample_target ''/app.js'') sample_opts empty_world) =
     \<lparr>allowed = True, count = 1, retryAfterSeconds = 0\<rparr>"
  "fst (rate_limit (sample_env ''password'') (sample_get ''/app.js'') (sample_target ''/app.js'') sample_opts empty_world) =
     \<lparr>allowed = True, count = 1, retryAfterSeconds = 0\<rparr>"
  by code_simp+

lemma sample_reads:
  "new_url sample_runtime (req_url (sample_get ''/app.js'')) None = Some (sample_target ''/app.js'')"
  "routeKey (url_host (sample_target ''/app.js'')) = ''route:docs.example.com''"
  "isServiceWorkerRequest (sample_get ''/app.js'') = False"
  by code_simp+

lemma sample_reaches:
  "reaches sample_runtime (sample_get ''/app.js'') (sample_env ''public'') sample_opts empty_world
     (sample_target ''/app.js'') (sample_site ''public'')
     (snd (rate_limit (sample_env ''public'') (sample_get ''/app.js'') (sample_target ''/app.js'') sample_opts empty_world))"
  "reaches sample_runtime (sample_get ''/app.js'') (sample_env ''password'') sample_opts empty_world
     (sample_target ''/app.js'') (sample_site ''password'')
     (snd (rate_limit (sample_env ''password'') (sample_get ''/app.js'') (sample_target ''/app.js'') sample_opts empty_world))"
  unfolding reaches_def by (simp_all add: sample_reads sample_route_read sample_limits) (simp_all add: sample_get_def)

lemma sample_not_admitted:
  "\<not> admitted sample_runtime (sample_get ''/app.js'') (sample_env ''password'') (sample_site ''password'')
     (sample_target ''/app.js'') sample_opts empty_world"
  by (simp add: admitted_def authorizeGated_def readEdgeCookie_def sample_get_def)

text \<open>The deployment the example belongs to, and one warm request.\<close>

definition sample_deployment :: deployment where
  "sample_deployment =
     \<lparr>d_content = (\<lambda>key. case sample_bucket key of Inr x \<Rightarrow> x | Inl _ \<Rightarrow> None), d_banner = None,
      d_site = (\<lambda>_. (''11111111-1111-1111-1111-111111111111'', ''22222222-2222-2222-2222-222222222222''))\<rparr>"

lemma sample_shows_all: "shows_all_of (BUCKET (sample_env ''public'')) (d_content sample_deployment)"
  by (simp add: shows_all_of_def sample_env_def sample_deployment_def sample_bucket_def)

lemma sample_exact: "exact_key sample_runtime (sample_site ''public'') (sample_target ''/app.js'')"
  by (simp add: exact_key_def sample_runtime_def sample_target_def sample_site_def)

lemma sample_in_deployment:
  "in_deployment sample_runtime sample_deployment (sample_env ''public'') (sample_site ''public'') (sample_target ''/app.js'')"
  using sample_exact shows_all_part [OF sample_shows_all]
  by (simp add: in_deployment_def sample_deployment_def sample_site_def sample_env_def)

definition sample_warm :: world where
  "sample_warm = snd (fetch sample_runtime (sample_get ''/app.js'') (sample_env ''public'') sample_opts empty_world)"

lemma sample_warm: "warm sample_runtime sample_deployment sample_warm"
  unfolding sample_warm_def
proof (rule warm.warm_request)
  show "warm sample_runtime sample_deployment empty_world" by (rule warm.warm_start) (simp add: empty_world_def)
  show "in_deployment sample_runtime sample_deployment (sample_env ''public'') route url"
    if "reaches sample_runtime (sample_get ''/app.js'') (sample_env ''public'') sample_opts empty_world url route w1"
    for url route w1
  proof -
    have "url = sample_target ''/app.js''" using that sample_reads(1) by (simp add: reaches_def)
    moreover from this have "route = sample_site ''public''"
      using that sample_route_read(3,4) by (simp add: reaches_def sample_reads(2))
    ultimately show ?thesis using sample_in_deployment by simp
  qed
qed

lemma sample_site_ok: "route_ok sample_runtime (sample_site ''public'')"
  by (rule parsed_route_ok [OF sample_route_read(4)])

lemma sample_no_chat: "serveChatIfRequested rt env (sample_site mode) url = Inr None"
  by (simp add: serveChatIfRequested_def sample_site_def truthy_string_def)

end
