(* ===== verification/Sha256.thy ===== *)
theory Sha256
  imports Unicode "HOL-Library.Word"
begin

text \<open>
  SHA-256 (FIPS 180-4), which \<open>createHash("sha256")\<close> of \<open>node:crypto\<close> computes, on byte
  strings and at its machine width: words of 32 bits with wrap-around addition. The theorems
  of the upload client do not depend on its internals; the definition makes them statements
  about the digest the server recomputes, and the standard test vector pins it.
\<close>

unbundle bit_operations_syntax

section \<open>The compression function\<close>

definition sha_k :: "32 word list" where
  "sha_k =
    [0x428A2F98, 0x71374491, 0xB5C0FBCF, 0xE9B5DBA5, 0x3956C25B, 0x59F111F1,
     0x923F82A4, 0xAB1C5ED5, 0xD807AA98, 0x12835B01, 0x243185BE, 0x550C7DC3,
     0x72BE5D74, 0x80DEB1FE, 0x9BDC06A7, 0xC19BF174, 0xE49B69C1, 0xEFBE4786,
     0x0FC19DC6, 0x240CA1CC, 0x2DE92C6F, 0x4A7484AA, 0x5CB0A9DC, 0x76F988DA,
     0x983E5152, 0xA831C66D, 0xB00327C8, 0xBF597FC7, 0xC6E00BF3, 0xD5A79147,
     0x06CA6351, 0x14292967, 0x27B70A85, 0x2E1B2138, 0x4D2C6DFC, 0x53380D13,
     0x650A7354, 0x766A0ABB, 0x81C2C92E, 0x92722C85, 0xA2BFE8A1, 0xA81A664B,
     0xC24B8B70, 0xC76C51A3, 0xD192E819, 0xD6990624, 0xF40E3585, 0x106AA070,
     0x19A4C116, 0x1E376C08, 0x2748774C, 0x34B0BCB5, 0x391C0CB3, 0x4ED8AA4A,
     0x5B9CCA4F, 0x682E6FF3, 0x748F82EE, 0x78A5636F, 0x84C87814, 0x8CC70208,
     0x90BEFFFA, 0xA4506CEB, 0xBEF9A3F7, 0xC67178F2]"

definition sha_h0 :: "32 word list" where
  "sha_h0 = [0x6A09E667, 0xBB67AE85, 0x3C6EF372, 0xA54FF53A, 0x510E527F, 0x9B05688C, 0x1F83D9AB, 0x5BE0CD19]"

definition rotr :: "nat \<Rightarrow> 32 word \<Rightarrow> 32 word" where
  "rotr n x = (drop_bit n x) OR (push_bit (32 - n) x)"

definition sigma0 :: "32 word \<Rightarrow> 32 word" where
  "sigma0 x = rotr 7 x XOR rotr 18 x XOR drop_bit 3 x"

definition sigma1 :: "32 word \<Rightarrow> 32 word" where
  "sigma1 x = rotr 17 x XOR rotr 19 x XOR drop_bit 10 x"

definition Sigma0 :: "32 word \<Rightarrow> 32 word" where
  "Sigma0 x = rotr 2 x XOR rotr 13 x XOR rotr 22 x"

definition Sigma1 :: "32 word \<Rightarrow> 32 word" where
  "Sigma1 x = rotr 6 x XOR rotr 11 x XOR rotr 25 x"

text \<open>The message schedule as a window of the last sixteen words, moved on one word a round.\<close>

definition sha_window :: "32 word list \<Rightarrow> 32 word list" where
  "sha_window w = tl w @ [sigma1 (w ! 14) + w ! 9 + sigma0 (w ! 1) + w ! 0]"

fun sha_round :: "32 word \<Rightarrow> 32 word \<Rightarrow> 32 word list \<Rightarrow> 32 word list" where
  "sha_round k w [a, b, c, d, e, f, g, h] =
     (let t1 = h + Sigma1 e + ((e AND f) XOR ((NOT e) AND g)) + k + w;
          t2 = Sigma0 a + ((a AND b) XOR (a AND c) XOR (b AND c))
      in [t1 + t2, a, b, c, d + t1, e, f, g])"
| "sha_round k w st = st"

fun sha_rounds :: "32 word list \<Rightarrow> 32 word list \<Rightarrow> 32 word list \<Rightarrow> 32 word list" where
  "sha_rounds [] w st = st"
| "sha_rounds (k # ks) w st = sha_rounds ks (sha_window w) (sha_round k (hd w) st)"

definition sha_block :: "32 word list \<Rightarrow> 32 word list \<Rightarrow> 32 word list" where
  "sha_block st w = map2 (+) st (sha_rounds sha_k w st)"

section \<open>Padding and output\<close>

fun be_words :: "string \<Rightarrow> 32 word list" where
  "be_words (a # b # c # d # rest) =
     of_int (of_char a * 16777216 + of_char b * 65536 + of_char c * 256 + of_char d) # be_words rest"
| "be_words _ = []"

definition be_bytes :: "nat \<Rightarrow> int \<Rightarrow> string" where
  "be_bytes k n = rev (map (\<lambda>i. char_of (n div 256 ^ i mod 256)) [0..<k])"

definition sha_pad :: "string \<Rightarrow> string" where
  "sha_pad s =
     s @ [CHR 0x80] @ replicate ((119 - length s mod 64) mod 64) (CHR 0x00) @ be_bytes 8 (8 * int (length s))"

function sha_blocks :: "32 word list \<Rightarrow> 32 word list \<Rightarrow> 32 word list" where
  "sha_blocks st ws = (if ws = [] then st else sha_blocks (sha_block st (take 16 ws)) (drop 16 ws))"
  by auto
termination by (relation "measure (length \<circ> snd)") (auto simp: neq_Nil_conv)

declare sha_blocks.simps [simp del]

definition sha256_bytes :: "string \<Rightarrow> string" where
  "sha256_bytes s = concat (map (\<lambda>w. be_bytes 4 (uint w)) (sha_blocks sha_h0 (be_words (sha_pad s))))"

text \<open>\<open>digest("hex")\<close>: two lower-case hexadecimal digits a byte.\<close>

definition to_hex :: "string \<Rightarrow> string" where
  "to_hex s = concat (map (\<lambda>c. [hex_digit_lower (of_char c div 16), hex_digit_lower (of_char c mod 16)]) s)"

section \<open>Length of the digest\<close>

lemma length_sha_round [simp]: "length (sha_round k w st) = length st"
  by (cases "(k, w, st)" rule: sha_round.cases) (simp_all add: Let_def)

lemma length_sha_rounds [simp]: "length (sha_rounds ks w st) = length st"
  by (induction ks w st rule: sha_rounds.induct) simp_all

lemma length_sha_blocks: "length (sha_blocks st ws) = length st"
  by (induction st ws rule: sha_blocks.induct) (subst sha_blocks.simps, simp add: sha_block_def)

lemma length_concat_const: "\<forall>x \<in> set xs. length (f x) = k \<Longrightarrow> length (concat (map f xs)) = k * length xs"
  by (induction xs) simp_all

lemma length_sha256_bytes: "length (sha256_bytes s) = 32"
  by (simp add: sha256_bytes_def length_concat_const[where k = 4] length_sha_blocks be_bytes_def sha_h0_def)

lemma length_to_hex: "length (to_hex s) = 2 * length s"
  unfolding to_hex_def by (simp add: length_concat_const)

section \<open>A standard test vector\<close>

text \<open>The digest of \<open>abc\<close>, computed in four groups of sixteen rounds.\<close>

fun sha_advance :: "'k list \<Rightarrow> 32 word list \<Rightarrow> 32 word list" where
  "sha_advance [] w = w"
| "sha_advance (k # ks) w = sha_advance ks (sha_window w)"

lemma sha_rounds_append:
  "sha_rounds (ks @ ks') w st = sha_rounds ks' (sha_advance ks w) (sha_rounds ks w st)"
  by (induction ks arbitrary: w st) simp_all

lemma sha_rounds_split:
  assumes "sha_advance (take n ks) w = w'" "sha_rounds (take n ks) w st = st'"
  shows "sha_rounds ks w st = sha_rounds (drop n ks) w' st'"
  using sha_rounds_append [of "take n ks" "drop n ks" w st] assms by simp

definition abc_window :: "nat \<Rightarrow> 32 word list" where
  "abc_window i =
    [[0x61626380, 0x0, 0x0, 0x0, 0x0, 0x0, 0x0, 0x0, 0x0, 0x0, 0x0, 0x0, 0x0, 0x0, 0x0, 0x18],
     [0x61626380, 0xF0000, 0x7DA86405, 0x600003C6, 0x3E9D7B78, 0x183FC00, 0x12DCBFDB, 0xE2E2C38E,
      0xC8215C1A, 0xB73679A2, 0xE5BC3909, 0x32663C5B, 0x9D209D67, 0xEC8726CB, 0x702138A4, 0xD3B7973B],
     [0x93F5997F, 0x3B68BA73, 0xAFF4FFC1, 0xF10A5C62, 0xA8B3996, 0x72AF830A, 0x9409E33E, 0x24641522,
      0x9F47BF94, 0xF0A64F5A, 0x3E246A79, 0x27333BA3, 0xC4763F2, 0x840ABF27, 0x7A290D5D, 0x65C43DA],
     [0xFB3E89CB, 0xCC7617DB, 0xB9E66C34, 0xA9993667, 0x84BADEDD, 0xC21462BC, 0x1487472C, 0xB20F7A99,
      0xEF57B9CD, 0xEBE6B238, 0x9FE3095E, 0x78BC8D4B, 0xA43FCF15, 0x668B2FF8, 0xEEABA2CC, 0x12B1EDEB]] ! i"

definition abc_state :: "nat \<Rightarrow> 32 word list" where
  "abc_state i =
    [[0x6A09E667, 0xBB67AE85, 0x3C6EF372, 0xA54FF53A, 0x510E527F, 0x9B05688C, 0x1F83D9AB, 0x5BE0CD19],
     [0xB0FA238E, 0xC0645FDE, 0xD932EB16, 0x87912990, 0x7590DCD, 0xB92F20C, 0x745A48DE, 0x1E578218],
     [0x73B33BF5, 0xEA992A22, 0xA0060B30, 0x363482C9, 0xBA591112, 0x109AB3A, 0xADE79437, 0x6112A3B7],
     [0x4172328D, 0xA14C14B0, 0x72AB4B91, 0x26628815, 0xFECF0BC6, 0xD57B94A9, 0xB7755DA1, 0xA80F11F0],
     [0x506E3058, 0xD39A2165, 0x4D24D6C, 0xB85E2CE9, 0x5EF50F24, 0xFB121210, 0x948D25B6, 0x961F4894]] ! i"

lemma abc_window_1: "sha_advance (take 16 sha_k) (abc_window 0) = abc_window 1"
  by code_simp

lemma abc_window_2: "sha_advance (take 16 (drop 16 sha_k)) (abc_window 1) = abc_window 2"
  by code_simp

lemma abc_window_3: "sha_advance (take 16 (drop 32 sha_k)) (abc_window 2) = abc_window 3"
  by code_simp

lemma abc_rounds_0: "sha_rounds (take 16 sha_k) (abc_window 0) (abc_state 0) = abc_state 1"
  by code_simp

lemma abc_rounds_1: "sha_rounds (take 16 (drop 16 sha_k)) (abc_window 1) (abc_state 1) = abc_state 2"
  by code_simp

lemma abc_rounds_2: "sha_rounds (take 16 (drop 32 sha_k)) (abc_window 2) (abc_state 2) = abc_state 3"
  by code_simp

lemma abc_rounds_3: "sha_rounds (drop 48 sha_k) (abc_window 3) (abc_state 3) = abc_state 4"
  by code_simp

lemma abc_rounds: "sha_rounds sha_k (abc_window 0) (abc_state 0) = abc_state 4"
  using sha_rounds_split [OF abc_window_1 abc_rounds_0] sha_rounds_split [OF abc_window_2 abc_rounds_1]
    sha_rounds_split [OF abc_window_3 abc_rounds_2] abc_rounds_3 by simp

lemma sha256_abc:
  "to_hex (sha256_bytes ''abc'') = ''ba7816bf8f01cfea414140de5dae2223b00361a396177a9cb410ff61f20015ad''"
proof -
  have w: "be_words (sha_pad ''abc'') = abc_window 0" "abc_window 0 \<noteq> []" "take 16 (abc_window 0) = abc_window 0"
    "drop 16 (abc_window 0) = []" "sha_h0 = abc_state 0" by code_simp+
  have "sha_blocks sha_h0 (be_words (sha_pad ''abc'')) = map2 (+) (abc_state 0) (abc_state 4)"
    by (simp add: w sha_blocks.simps [of _ "abc_window 0"] sha_blocks.simps [of _ "[]"] sha_block_def abc_rounds)
  moreover have "to_hex (concat (map (\<lambda>w. be_bytes 4 (uint w)) (map2 (+) (abc_state 0) (abc_state 4)))) =
      ''ba7816bf8f01cfea414140de5dae2223b00361a396177a9cb410ff61f20015ad''" by code_simp
  ultimately show ?thesis unfolding sha256_bytes_def by simp
qed

end
