(* ===== verification/Sdk_Manifest.thy ===== *)
theory Sdk_Manifest
  imports Sha256 Json Web "HOL-Library.Multiset"
begin

text \<open>
  \<open>packages/sdk/src/manifest.ts\<close>: the manifest of a deploy as the client builds it. A file is
  content-addressed by its SHA-256, and the whole deploy by a digest over the sorted
  \<open>"<sha256>  <path>\n"\<close> lines. The server (\<open>internal/manifest/manifest.go\<close>) recomputes the
  digest, so both must agree byte for byte.

  The parameter \<open>ReadonlyArray<{path, sha256}>\<close> of \<open>digest\<close> is the record \<open>digest_file\<close>,
  which \<open>ManifestFile\<close> extends, so that \<open>digest\<close> applies to both. A \<open>Record\<close> of files is
  the list of its \<open>Object.entries\<close>, in their order.
\<close>

section \<open>Definitions\<close>

record digest_file =
  df_path :: string
  df_sha256 :: string

record ManifestFile = digest_file +
  mf_size :: nat
  mf_contentType :: string

definition sha256Hex :: "string \<Rightarrow> string" where
  "sha256Hex data = to_hex (sha256_bytes data)"

text \<open>\<open>Buffer.compare\<close>: the sign of the first differing byte, then of the lengths.\<close>

fun buffer_compare :: "string \<Rightarrow> string \<Rightarrow> int" where
  "buffer_compare [] [] = 0"
| "buffer_compare [] (b # bs) = - 1"
| "buffer_compare (a # as) [] = 1"
| "buffer_compare (a # as) (b # bs) =
     (if (of_char a :: nat) < of_char b then - 1
      else if (of_char b :: nat) < of_char a then 1
      else buffer_compare as bs)"

definition digest_line :: "'a digest_file_scheme \<Rightarrow> string" where
  "digest_line f = df_sha256 f @ ''  '' @ df_path f @ [CHR 0x0A]"

text \<open>The bytes fed to the hash, and the digest.\<close>

definition digest_text :: "'a digest_file_scheme list \<Rightarrow> string" where
  "digest_text files =
     concat (map digest_line (sort_by (\<lambda>a b. buffer_compare (df_path a) (df_path b) \<le> 0) files))"

definition digest :: "'a digest_file_scheme list \<Rightarrow> string" where
  "digest files = to_hex (sha256_bytes (digest_text files))"

definition BY_EXT :: "(string \<times> string) list" where
  "BY_EXT =
    [(''.html'', ''text/html; charset=utf-8''), (''.htm'', ''text/html; charset=utf-8''),
     (''.css'', ''text/css; charset=utf-8''), (''.js'', ''text/javascript; charset=utf-8''),
     (''.mjs'', ''text/javascript; charset=utf-8''), (''.json'', ''application/json''),
     (''.map'', ''application/json''), (''.svg'', ''image/svg+xml''),
     (''.wasm'', ''application/wasm''), (''.webmanifest'', ''application/manifest+json''),
     (''.txt'', ''text/plain; charset=utf-8''), (''.xml'', ''application/xml''),
     (''.ico'', ''image/x-icon''), (''.png'', ''image/png''), (''.jpg'', ''image/jpeg''),
     (''.jpeg'', ''image/jpeg''), (''.gif'', ''image/gif''), (''.webp'', ''image/webp''),
     (''.avif'', ''image/avif''), (''.woff'', ''font/woff''), (''.woff2'', ''font/woff2''),
     (''.ttf'', ''font/ttf''), (''.otf'', ''font/otf''), (''.eot'', ''application/vnd.ms-fontobject''),
     (''.pdf'', ''application/pdf''), (''.mp4'', ''video/mp4''), (''.webm'', ''video/webm''),
     (''.mp3'', ''audio/mpeg''), (''.wav'', ''audio/wav'')]"

text \<open>
  \<open>ext\<close> is empty or begins with a dot, so \<open>BY_EXT[ext]\<close> never sees a property that the
  object inherits.
\<close>

definition contentTypeForPath :: "string \<Rightarrow> string" where
  "contentTypeForPath path =
     (let ext = (case lastIndexOf path (CHR ''.'') of Some dot \<Rightarrow> toLowerCase (drop dot path) | None \<Rightarrow> [])
      in (case map_of BY_EXT ext of Some t \<Rightarrow> t | None \<Rightarrow> ''application/octet-stream''))"

fun strip_dot_slash :: "string \<Rightarrow> string" where
  "strip_dot_slash (a # b # p) =
     (if a = CHR ''.'' \<and> b = CHR ''/'' then strip_dot_slash p else a # b # p)"
| "strip_dot_slash p = p"

definition normalizePath :: "string \<Rightarrow> string result" where
  "normalizePath path =
     (let p = map (\<lambda>c. if c = CHR 0x5C then CHR ''/'' else c) path;
          p = strip_dot_slash p;
          p = dropWhile (\<lambda>c. c = CHR ''/'') p
      in if p = [] \<or> list_ex (\<lambda>seg. seg = ''..'') (split_on (CHR ''/'') p)
         then Inl (JsError (''invalid deploy path: '' @ json_quote path))
         else Inr p)"

text \<open>\<open>string | Uint8Array\<close>; a string is already its UTF-8 bytes.\<close>

datatype file_data = Text string | Bytes string

fun toBytes :: "file_data \<Rightarrow> string" where
  "toBytes (Text s) = s"
| "toBytes (Bytes b) = b"

record built_manifest =
  bm_manifest :: "ManifestFile list"
  bm_bytesBySha :: "(string \<times> string) list"
  bm_digest :: string

definition manifest_file :: "string \<Rightarrow> string \<Rightarrow> ManifestFile" where
  "manifest_file path bytes =
     \<lparr>df_path = path, df_sha256 = sha256Hex bytes, mf_size = length bytes,
      mf_contentType = contentTypeForPath path\<rparr>"

fun manifest_loop ::
  "(string \<times> file_data) list \<Rightarrow> ManifestFile list \<Rightarrow> (string \<times> string) list
   \<Rightarrow> (ManifestFile list \<times> (string \<times> string) list) result" where
  "manifest_loop [] manifest bytesBySha = Inr (manifest, bytesBySha)"
| "manifest_loop ((rawPath, rawData) # files) manifest bytesBySha =
     (case normalizePath rawPath of
        Inl e \<Rightarrow> Inl e
      | Inr path \<Rightarrow>
          (let bytes = toBytes rawData
           in manifest_loop files (manifest @ [manifest_file path bytes])
                (assoc_put (sha256Hex bytes) bytes bytesBySha)))"

definition buildManifest :: "(string \<times> file_data) list \<Rightarrow> built_manifest result" where
  "buildManifest files =
     (case manifest_loop files [] [] of
        Inl e \<Rightarrow> Inl e
      | Inr (manifest, bytesBySha) \<Rightarrow>
          Inr \<lparr>bm_manifest = manifest, bm_bytesBySha = bytesBySha, bm_digest = digest manifest\<rparr>)"

text \<open>
  The server's \<open>Digest\<close>: \<open>sort.Slice\<close> is not stable, so the sorted copy is a parameter that
  is only known to be a permutation ordered by the comparison.
\<close>

definition Digest :: "('a digest_file_scheme list \<Rightarrow> 'a digest_file_scheme list) \<Rightarrow> 'a digest_file_scheme list \<Rightarrow> string" where
  "Digest sort_slice files =
     to_hex (sha256_bytes (concat (map (\<lambda>f. df_sha256 f @ ''  '' @ df_path f @ [CHR 0x0A]) (sort_slice files))))"

definition sort_slice_contract ::
  "('a digest_file_scheme list \<Rightarrow> 'a digest_file_scheme list) \<Rightarrow> 'a digest_file_scheme list \<Rightarrow> bool" where
  "sort_slice_contract sort_slice files \<longleftrightarrow>
     mset (sort_slice files) = mset files \<and> sorted (map df_path (sort_slice files))"

section \<open>The order of the lines\<close>

lemma buffer_compare_le: "buffer_compare a b \<le> 0 \<longleftrightarrow> a \<le> b"
  by (induction a b rule: buffer_compare.induct) (auto simp: less_char_def less_eq_char_def)

lemma sort_by_sort_key: "sort_by (\<lambda>a b. f a \<le> f b) xs = sort_key f xs"
proof -
  have "insert_by (\<lambda>a b. f a \<le> f b) x ys = insort_key f x ys" for x ys
    by (induction ys) simp_all
  then show ?thesis
    by (simp add: sort_by_def sort_key_def cong: foldr_cong)
qed

lemma digest_text_sort_key: "digest_text files = concat (map digest_line (sort_key df_path files))"
  by (simp add: digest_text_def buffer_compare_le sort_by_sort_key)

lemma sorted_permutation_unique:
  assumes "mset xs = mset ys" "sorted (map f xs)" "sorted (map f ys)" "distinct (map f ys)"
  shows "xs = ys"
proof -
  have "inj_on f (set xs)"
    using assms(4) mset_eq_setD [OF assms(1)] by (simp add: distinct_map)
  moreover have "map f xs = map f ys"
    using assms by (metis mset_map properties_for_sort)
  ultimately show ?thesis
    using map_inj_on [of f xs ys] mset_eq_setD [OF assms(1)] by simp
qed

section \<open>The text that is hashed\<close>

text \<open>What the digest is about: the pairs of path and hash.\<close>

definition digest_key :: "'a digest_file_scheme \<Rightarrow> string \<times> string" where
  "digest_key f = (df_path f, df_sha256 f)"

text \<open>A hash is 64 characters and a path has no line feed.\<close>

definition line_ok :: "'a digest_file_scheme \<Rightarrow> bool" where
  "line_ok f \<longleftrightarrow> length (df_sha256 f) = 64 \<and> CHR 0x0A \<notin> set (df_path f)"

lemma digest_line_inj:
  assumes "line_ok f" "line_ok g" "digest_line f @ u = digest_line g @ v"
  shows "digest_key f = digest_key g \<and> u = v"
proof -
  have "df_sha256 f = df_sha256 g" and e: "df_path f @ CHR 0x0A # u = df_path g @ CHR 0x0A # v"
    using assms by (auto simp: line_ok_def digest_line_def)
  moreover have "df_path f = df_path g \<and> u = v"
    using append_sep_inj [OF _ _ e] assms(1,2) by (simp add: line_ok_def)
  ultimately show ?thesis by (simp add: digest_key_def)
qed

lemma lines_inj:
  assumes "list_all line_ok xs" "list_all line_ok ys"
    "concat (map digest_line xs) = concat (map digest_line ys)"
  shows "map digest_key xs = map digest_key ys"
  using assms
proof (induction xs arbitrary: ys)
  case Nil
  then show ?case by (cases ys) (auto simp: digest_line_def)
next
  case (Cons x xs)
  then obtain y ys' where ys: "ys = y # ys'" by (cases ys) (auto simp: digest_line_def)
  with Cons.prems digest_line_inj [of x y] have "digest_key x = digest_key y"
    "concat (map digest_line xs) = concat (map digest_line ys')" by auto
  with Cons ys show ?case by simp
qed

lemma digest_text_keys:
  assumes "distinct (map df_path xs)" "mset (map digest_key xs) = mset (map digest_key ys)"
  shows "map digest_key (sort_key df_path xs) = map digest_key (sort_key df_path ys)"
proof (rule sorted_permutation_unique [where f = fst])
  have key: "map (fst \<circ> digest_key) zs = map df_path zs" for zs :: "'z digest_file_scheme list"
    by (simp add: digest_key_def comp_def)
  have "mset (map fst (map digest_key xs)) = mset (map fst (map digest_key ys))"
    using assms(2) by (metis mset_map)
  then have "distinct (map df_path ys)" using assms(1) key by (metis map_map mset_eq_imp_distinct_iff)
  then show "distinct (map fst (map digest_key (sort_key df_path ys)))" by (simp add: key distinct_map)
  show "mset (map digest_key (sort_key df_path xs)) = mset (map digest_key (sort_key df_path ys))"
    using assms(2) by simp
qed (simp_all add: digest_key_def comp_def)

lemma lines_of_keys:
  "map digest_key xs = map digest_key ys \<Longrightarrow> map digest_line xs = map digest_line ys"
  by (induction xs arbitrary: ys) (auto simp: digest_key_def digest_line_def Cons_eq_map_conv)

section \<open>Paths\<close>

lemma set_strip_dot_slash: "set (strip_dot_slash p) \<subseteq> set p"
  by (induction p rule: strip_dot_slash.induct) auto

lemma strip_dot_slash_id: "\<not> startsWith p ''./'' \<Longrightarrow> strip_dot_slash p = p"
  by (cases p rule: strip_dot_slash.cases) auto

lemma dropWhile_slash_id: "\<not> startsWith p ''/'' \<Longrightarrow> dropWhile (\<lambda>c. c = CHR ''/'') p = p"
  by (cases p) auto

text \<open>What the server and the edge accept as the path of a file.\<close>

definition deploy_path :: "string \<Rightarrow> bool" where
  "deploy_path q \<longleftrightarrow> q \<noteq> [] \<and> CHR 0x5C \<notin> set q \<and> \<not> startsWith q ''/'' \<and>
     ''..'' \<notin> set (split_on (CHR ''/'') q)"

lemma normalizePath_deploy_path:
  assumes "normalizePath p = Inr q"
  shows "deploy_path q"
proof -
  let ?p = "map (\<lambda>c. if c = CHR 0x5C then CHR ''/'' else c) p"
  have q: "q = dropWhile (\<lambda>c. c = CHR ''/'') (strip_dot_slash ?p)" "q \<noteq> []"
    "''..'' \<notin> set (split_on (CHR ''/'') q)"
    using assms by (auto simp: normalizePath_def Let_def list_ex_iff split: if_splits)
  have "hd q \<noteq> CHR ''/''" using q(2) hd_dropWhile [of "\<lambda>c. c = CHR ''/''"] unfolding q(1) by blast
  then have "\<not> startsWith q ''/''" by (cases q) simp_all
  moreover have "set q \<subseteq> set ?p" using q(1) set_strip_dot_slash [of ?p] by (auto dest: set_dropWhileD)
  then have "CHR 0x5C \<notin> set q" by (auto split: if_splits)
  ultimately show ?thesis using q(2,3) by (simp add: deploy_path_def)
qed

lemma normalizePath_id:
  assumes "deploy_path q" "\<not> startsWith q ''./''"
  shows "normalizePath q = Inr q"
proof -
  have "map (\<lambda>c. if c = CHR 0x5C then CHR ''/'' else c) q = q"
    using assms(1) by (auto simp: deploy_path_def intro: map_idI)
  moreover have "dropWhile (\<lambda>c. c = CHR ''/'') q = q" "strip_dot_slash q = q"
    using assms by (simp_all only: deploy_path_def dropWhile_slash_id strip_dot_slash_id not_False_eq_True)
  moreover have "\<not> list_ex (\<lambda>seg. seg = ''..'') (split_on (CHR ''/'') q)" "q \<noteq> []"
    using assms(1) by (auto simp only: deploy_path_def list_ex_iff)
  ultimately show ?thesis unfolding normalizePath_def Let_def by simp
qed

section \<open>The loop over the files\<close>

text \<open>An entry of the manifest describes a file of the input.\<close>

definition describes :: "string \<times> file_data \<Rightarrow> ManifestFile \<Rightarrow> bool" where
  "describes file f \<longleftrightarrow>
     normalizePath (fst file) = Inr (df_path f) \<and> df_sha256 f = sha256Hex (toBytes (snd file)) \<and>
     mf_size f = length (toBytes (snd file)) \<and> mf_contentType f = contentTypeForPath (df_path f)"

text \<open>The bytes kept for the upload are found under their own hash.\<close>

definition addressed :: "(string \<times> string) list \<Rightarrow> bool" where
  "addressed bytesBySha \<longleftrightarrow> (\<forall>sha bytes. map_of bytesBySha sha = Some bytes \<longrightarrow> sha256Hex bytes = sha)"

lemma addressed_put: "addressed m \<Longrightarrow> addressed (assoc_put (sha256Hex b) b m)"
  by (auto simp: addressed_def map_of_assoc_put split: if_splits)

lemma manifest_loop_spec:
  assumes "manifest_loop files m0 b0 = Inr (m, b)" "addressed b0"
    "\<And>f. f \<in> set m0 \<Longrightarrow> map_of b0 (df_sha256 f) \<noteq> None"
  shows "\<exists>m1. m = m0 @ m1 \<and> list_all2 describes files m1 \<and> addressed b \<and>
           (\<forall>f \<in> set m. map_of b (df_sha256 f) \<noteq> None)"
  using assms
proof (induction files m0 b0 rule: manifest_loop.induct)
  case (1 m0 b0)
  then show ?case by auto
next
  case (2 rawPath rawData files m0 b0)
  then obtain path where p: "normalizePath rawPath = Inr path" by (auto split: sum.splits)
  let ?f = "manifest_file path (toBytes rawData)"
  let ?b = "assoc_put (sha256Hex (toBytes rawData)) (toBytes rawData) b0"
  have d: "describes (rawPath, rawData) ?f" by (simp add: describes_def p manifest_file_def)
  have k: "map_of ?b (df_sha256 f) \<noteq> None" if "f \<in> set (m0 @ [?f])" for f
    using that "2.prems"(3) [of f] by (auto simp: map_of_assoc_put manifest_file_def)
  obtain m1 where "m = (m0 @ [?f]) @ m1" "list_all2 describes files m1" "addressed b"
      "\<forall>f \<in> set m. map_of b (df_sha256 f) \<noteq> None"
    using "2.IH" [OF p refl _ addressed_put [OF "2.prems"(2)] k] "2.prems"(1) p
    by (auto simp: Let_def)
  with d show ?case by (intro exI [of _ "?f # m1"]) simp
qed

section \<open>Properties\<close>

text \<open>
  C16. The digest is the server's. For files under distinct paths the digest of the client is the
  one \<open>internal/manifest.Digest\<close> computes, whatever sorted permutation \<open>sort.Slice\<close> returns:
  the comparison of UTF-8 bytes is the order of Go strings. In particular it does not depend on
  the order of the files.
\<close>

theorem digest_agrees_with_server:
  fixes files :: "'a digest_file_scheme list"
  assumes "distinct (map df_path files)" "sort_slice_contract sort_slice files"
  shows "digest files = Digest sort_slice files"
proof -
  have "sort_slice files = sort_key df_path files"
    using assms by (intro sorted_permutation_unique [where f = df_path])
      (auto simp: sort_slice_contract_def distinct_map)
  then show ?thesis
    by (simp add: digest_def Digest_def digest_text_sort_key digest_line_def [abs_def])
qed

definition sample_files :: "digest_file list" where
  "sample_files =
     [\<lparr>df_path = ''index.html'', df_sha256 = replicate 64 (CHR ''a'')\<rparr>,
      \<lparr>df_path = ''app.js'', df_sha256 = replicate 64 (CHR ''b'')\<rparr>]"

theorem digest_agrees_with_server_witness:
  "digest sample_files = Digest rev sample_files \<and> digest_text sample_files =
     replicate 64 (CHR ''b'') @ ''  app.js'' @ [CHR 0x0A] @ replicate 64 (CHR ''a'') @ ''  index.html'' @ [CHR 0x0A]"
proof
  have "distinct (map df_path sample_files)" "sorted (map df_path (rev sample_files))" by code_simp+
  then show "digest sample_files = Digest rev sample_files"
    by (intro digest_agrees_with_server) (simp_all add: sort_slice_contract_def)
qed code_simp

text \<open>
  The digest identifies a deploy. For well-formed hashes and paths without a line feed, two
  deploys hash the same text exactly when they have the same pairs of path and content hash, in
  any order: the separators of the lines cannot be forged.
\<close>

theorem digest_text_identifies_deploy:
  assumes "distinct (map df_path xs)" "list_all line_ok xs" "list_all line_ok ys"
  shows "digest_text xs = digest_text ys \<longleftrightarrow> mset (map digest_key xs) = mset (map digest_key ys)"
proof
  assume "digest_text xs = digest_text ys"
  then have "map digest_key (sort_key df_path xs) = map digest_key (sort_key df_path ys)"
    using assms(2,3) by (intro lines_inj) (simp_all add: digest_text_sort_key list_all_iff)
  then have "mset (map digest_key (sort_key df_path xs)) = mset (map digest_key (sort_key df_path ys))"
    by (rule arg_cong)
  then show "mset (map digest_key xs) = mset (map digest_key ys)" by simp
next
  assume "mset (map digest_key xs) = mset (map digest_key ys)"
  then show "digest_text xs = digest_text ys"
    by (simp add: digest_text_sort_key lines_of_keys [OF digest_text_keys [OF assms(1)]] )
qed

theorem digest_text_identifies_deploy_witness:
  "digest_text sample_files = digest_text (rev sample_files) \<and>
   digest_text sample_files \<noteq> digest_text (tl sample_files)"
proof -
  have d: "distinct (map df_path sample_files)" by code_simp
  have ok: "list_all line_ok sample_files" "list_all line_ok (rev sample_files)"
    "list_all line_ok (tl sample_files)" by (simp_all add: sample_files_def line_ok_def)
  show ?thesis
    using digest_text_identifies_deploy [OF d ok(1) ok(2)] digest_text_identifies_deploy [OF d ok(1) ok(3)]
    by (simp add: sample_files_def)
qed

text \<open>
  Deploy paths are normalized. An accepted path is not empty, has no backslash, no leading
  slash and no parent segment; a path that is rejected has nothing left after the leading
  \<open>./\<close> and \<open>/\<close>, or a parent segment; and a path already in that form without a leading
  \<open>./\<close> is accepted unchanged.
\<close>

theorem normalizePath_spec:
  "(normalizePath p = Inr q \<longrightarrow> deploy_path q) \<and>
   (deploy_path q \<and> \<not> startsWith q ''./'' \<longrightarrow> normalizePath q = Inr q)"
  using normalizePath_deploy_path normalizePath_id by blast

theorem normalizePath_spec_witness:
  "normalizePath (''./assets'' @ [CHR 0x5C] @ ''app.js'') = Inr ''assets/app.js'' \<and>
   deploy_path ''assets/app.js'' \<and> normalizePath ''assets/app.js'' = Inr ''assets/app.js''"
proof -
  have n: "normalizePath (''./assets'' @ [CHR 0x5C] @ ''app.js'') = Inr ''assets/app.js''"
    and s: "\<not> startsWith ''assets/app.js'' ''./''" by code_simp+
  from normalizePath_spec [of "''./assets'' @ [CHR 0x5C] @ ''app.js''" "''assets/app.js''"] n s
  show ?thesis by blast
qed

text \<open>
  Manifests are content-addressed. A manifest that is built has one entry per file, in their
  order, with the normalized path, the SHA-256 and the length of the bytes; the bytes kept for the
  upload are found under every hash of the manifest and hash to it; and the digest is that of
  the manifest.
\<close>

theorem built_manifest_is_content_addressed:
  assumes "buildManifest files = Inr b"
  shows "list_all2 describes files (bm_manifest b) \<and> bm_digest b = digest (bm_manifest b) \<and>
    (\<forall>f \<in> set (bm_manifest b). \<exists>bytes. map_of (bm_bytesBySha b) (df_sha256 f) = Some bytes \<and>
       sha256Hex bytes = df_sha256 f)"
proof -
  from assms obtain m bs where l: "manifest_loop files [] [] = Inr (m, bs)"
    and b: "b = \<lparr>bm_manifest = m, bm_bytesBySha = bs, bm_digest = digest m\<rparr>"
    by (auto simp: buildManifest_def split: sum.splits)
  from manifest_loop_spec [OF l] show ?thesis by (auto simp: b addressed_def)
qed

theorem built_manifest_is_content_addressed_witness:
  "\<exists>b. buildManifest [(''./index.html'', Text ''hi'')] = Inr b \<and>
     list_all2 describes [(''./index.html'', Text ''hi'')] (bm_manifest b) \<and>
     (\<exists>f bytes. bm_manifest b = [f] \<and> map_of (bm_bytesBySha b) (df_sha256 f) = Some bytes)"
proof -
  have n: "normalizePath ''./index.html'' = Inr ''index.html''" by code_simp
  then obtain b where b: "buildManifest [(''./index.html'', Text ''hi'')] = Inr b"
    by (simp add: buildManifest_def Let_def)
  note spec = built_manifest_is_content_addressed [OF b]
  then obtain f where "bm_manifest b = [f]" by (auto simp: list_all2_Cons1)
  with b spec show ?thesis by auto
qed

end
