(* ===== verification/Sdk_Client.thy ===== *)
theory Sdk_Client
  imports Json Web
begin

text \<open>
  \<open>packages/sdk/src/errors.ts\<close> and \<open>packages/sdk/src/client.ts\<close>: the error classes and the HTTP
  transport of the client library, with its retry loop.

  The network is a parameter: \<open>net_fetch\<close> is one exchange under the deadline of the call (a
  timeout is one of its failures), and its state may change with every exchange and every
  sleep. The world of the client adds the log of the calls sent and of the sleeps, so that
  the theorems can speak about both. A response is read at its declared type; the body of a
  response is any JSON value.
\<close>

section \<open>Values as strings and numbers\<close>

fun truthy :: "json option \<Rightarrow> bool" where
  "truthy None = False"
| "truthy (Some JNull) = False"
| "truthy (Some (JBool b)) = b"
| "truthy (Some (JNum (Fin q))) = (q \<noteq> 0)"
| "truthy (Some (JNum (Infty s))) = True"
| "truthy (Some (JNum NaN)) = False"
| "truthy (Some (JStr s)) = (s \<noteq> [])"
| "truthy (Some (JArr xs)) = True"
| "truthy (Some (JObj kvs)) = True"

fun jsnum_string :: "runtime \<Rightarrow> jsnum \<Rightarrow> string" where
  "jsnum_string rt (Fin q) = num_to_string rt q"
| "jsnum_string rt (Infty True) = ''Infinity''"
| "jsnum_string rt (Infty False) = ''-Infinity''"
| "jsnum_string rt NaN = ''NaN''"

text \<open>\<open>String(v)\<close>.\<close>

fun js_String :: "runtime \<Rightarrow> json \<Rightarrow> string" where
  "js_String rt JNull = ''null''"
| "js_String rt (JBool b) = (if b then ''true'' else ''false'')"
| "js_String rt (JNum n) = jsnum_string rt n"
| "js_String rt (JStr s) = s"
| "js_String rt (JArr xs) = join '','' (map (\<lambda>x. if x = JNull then [] else js_String rt x) xs)"
| "js_String rt (JObj kvs) = ''[object Object]''"

text \<open>\<open>JSON.stringify(v)\<close> of a JSON value.\<close>

fun JSON_stringify :: "runtime \<Rightarrow> json \<Rightarrow> string" where
  "JSON_stringify rt JNull = ''null''"
| "JSON_stringify rt (JBool b) = (if b then ''true'' else ''false'')"
| "JSON_stringify rt (JNum n) = (case n of Fin q \<Rightarrow> num_to_string rt q | _ \<Rightarrow> ''null'')"
| "JSON_stringify rt (JStr s) = json_quote s"
| "JSON_stringify rt (JArr xs) = ''['' @ join '','' (map (JSON_stringify rt) xs) @ '']''"
| "JSON_stringify rt (JObj kvs) =
     ''{'' @ join '','' (map (\<lambda>kv. json_quote (fst kv) @ '':'' @ JSON_stringify rt (snd kv)) kvs) @ ''}''"

text \<open>\<open>Number(s)\<close>: an empty string is zero; otherwise the whole trimmed text is one literal.\<close>

fun read_radix :: "nat \<Rightarrow> nat \<Rightarrow> string \<Rightarrow> nat option" where
  "read_radix r acc [] = Some acc"
| "read_radix r acc (c # cs) =
     (case hex_val c of Some d \<Rightarrow> if d < r then read_radix r (r * acc + d) cs else None | None \<Rightarrow> None)"

definition radix_literal :: "nat \<Rightarrow> string \<Rightarrow> jsnum" where
  "radix_literal r ds =
     (if ds = [] then NaN else (case read_radix r 0 ds of Some n \<Rightarrow> to_jsnum (of_nat n) | None \<Rightarrow> NaN))"

definition decimal_literal :: "string \<Rightarrow> jsnum" where
  "decimal_literal s =
     (case read_digits_n 0 0 s of
        (k, n, rest) \<Rightarrow>
          (let (k', f, rest') =
                 (case rest of
                    c # cs \<Rightarrow> if c = CHR ''.''
                              then (case read_digits_n 0 0 cs of (j, m, r) \<Rightarrow> (j, (of_nat m / 10 ^ j :: rat), r))
                              else (0, 0, rest)
                  | [] \<Rightarrow> (0, 0, rest))
           in if k + k' = 0 then NaN
              else (case json_exp rest' of
                      Some (e, []) \<Rightarrow> to_jsnum ((of_nat n + f) * 10 powi e)
                    | _ \<Rightarrow> NaN)))"

fun neg_num :: "jsnum \<Rightarrow> jsnum" where
  "neg_num (Fin q) = Fin (- q)"
| "neg_num (Infty s) = Infty (\<not> s)"
| "neg_num NaN = NaN"

definition unsigned_literal :: "string \<Rightarrow> jsnum" where
  "unsigned_literal s = (if s = ''Infinity'' then Infty True else decimal_literal s)"

definition js_Number :: "string \<Rightarrow> jsnum" where
  "js_Number s =
     (let t = js_trim s
      in if t = [] then Fin 0
         else if startsWith t ''0x'' \<or> startsWith t ''0X'' then radix_literal 16 (drop 2 t)
         else if startsWith t ''0o'' \<or> startsWith t ''0O'' then radix_literal 8 (drop 2 t)
         else if startsWith t ''0b'' \<or> startsWith t ''0B'' then radix_literal 2 (drop 2 t)
         else if startsWith t ''-'' then neg_num (unsigned_literal (tl t))
         else if startsWith t ''+'' then unsigned_literal (tl t)
         else unsigned_literal t)"

definition upper_char :: "char \<Rightarrow> char" where
  "upper_char c = (let n = (of_char c :: nat) in if 97 \<le> n \<and> n \<le> 122 then char_of (n - 32) else c)"

definition toUpperCase :: "string \<Rightarrow> string" where
  "toUpperCase s = map upper_char s"

section \<open>Errors (\<open>errors.ts\<close>)\<close>

text \<open>
  The class of a thrown error, its message and its fields. \<open>status\<close> is the one the
  constructor passes to the base class.
\<close>

datatype dropway_error =
    DropwayError nat string "json option"
  | AuthError string "json option"
  | ForbiddenError string "json option" bool
  | NotFoundError string "json option"
  | QuotaExceededError string "json option" "(string \<times> json option) list"
  | RateLimitError string "json option" "rat option"

fun err_status :: "dropway_error \<Rightarrow> nat" where
  "err_status (DropwayError st m b) = st"
| "err_status (AuthError m b) = 401"
| "err_status (ForbiddenError m b i) = 403"
| "err_status (NotFoundError m b) = 404"
| "err_status (QuotaExceededError m b q) = 402"
| "err_status (RateLimitError m b r) = 429"

fun err_message :: "dropway_error \<Rightarrow> string" where
  "err_message (DropwayError st m b) = m"
| "err_message (AuthError m b) = m"
| "err_message (ForbiddenError m b i) = m"
| "err_message (NotFoundError m b) = m"
| "err_message (QuotaExceededError m b q) = m"
| "err_message (RateLimitError m b r) = m"

fun err_body :: "dropway_error \<Rightarrow> json option" where
  "err_body (DropwayError st m b) = b"
| "err_body (AuthError m b) = b"
| "err_body (ForbiddenError m b i) = b"
| "err_body (NotFoundError m b) = b"
| "err_body (QuotaExceededError m b q) = b"
| "err_body (RateLimitError m b r) = b"

text \<open>\<open>body?.key\<close>: a body that is not an object has no such property.\<close>

definition body_prop :: "json option \<Rightarrow> string \<Rightarrow> json option" where
  "body_prop body key =
     (case body of Some j \<Rightarrow> (case as_object j of Some kvs \<Rightarrow> jprop kvs key | None \<Rightarrow> None) | None \<Rightarrow> None)"

definition new_ForbiddenError :: "runtime \<Rightarrow> string \<Rightarrow> json option \<Rightarrow> dropway_error" where
  "new_ForbiddenError rt message body =
     (let tested = toLowerCase (case present (body_prop body ''message'') of
                                  Some v \<Rightarrow> js_String rt v | None \<Rightarrow> message)
      in ForbiddenError message body
           (str_includes tested ''interactive login'' \<or> str_includes tested ''member-level''))"

definition new_QuotaExceededError :: "string \<Rightarrow> json option \<Rightarrow> dropway_error" where
  "new_QuotaExceededError message body =
     QuotaExceededError message body
       [(''limit'', body_prop body ''limit''), (''current'', body_prop body ''current''),
        (''max'', body_prop body ''max''), (''planTier'', body_prop body ''plan_tier''),
        (''nextTier'', body_prop body ''next_tier''), (''upgradeUrl'', body_prop body ''upgrade_url'')]"

definition error_text :: "runtime \<Rightarrow> nat \<Rightarrow> json option \<Rightarrow> string" where
  "error_text rt status body =
     (if truthy (body_prop body ''message'') then js_String rt (the (body_prop body ''message''))
      else if truthy (body_prop body ''error'') then js_String rt (the (body_prop body ''error''))
      else ''Dropway API error '' @ nat_to_string status)"

definition errorForResponse :: "runtime \<Rightarrow> nat \<Rightarrow> json option \<Rightarrow> rat option \<Rightarrow> dropway_error" where
  "errorForResponse rt status body retryAfter =
     (let msg = error_text rt status body
      in if status = 401 then AuthError msg body
         else if status = 402 then new_QuotaExceededError msg body
         else if status = 403 then new_ForbiddenError rt msg body
         else if status = 404 then NotFoundError msg body
         else if status = 429 then RateLimitError msg body retryAfter
         else DropwayError status msg body)"

section \<open>The client (\<open>client.ts\<close>)\<close>

definition DEFAULT_BASE_URL :: string where
  "DEFAULT_BASE_URL = ''https://api.dropway.dev''"

record http_call =
  hc_method :: string
  hc_url :: string
  hc_headers :: "(string \<times> string) list"
  hc_body :: "string option"
  hc_timeoutMs :: int

text \<open>What \<open>fetch\<close> resolves to; \<open>ft_text\<close> is what reading the body gives.\<close>

record fetched =
  ft_status :: nat
  ft_headers :: headers
  ft_text :: "string result"

text \<open>
  The environment: one exchange, the state of the caller's signal (aborted, with its reason),
  \<open>Math.random\<close>, and what a sleep does to the outside world.
\<close>

record 'n network =
  net_fetch :: "http_call \<Rightarrow> 'n \<Rightarrow> fetched result \<times> 'n"
  net_aborted :: "'n \<Rightarrow> js_error option option"
  net_random :: "'n \<Rightarrow> rat \<times> 'n"
  net_sleep :: "rat \<Rightarrow> 'n \<Rightarrow> 'n"

record 'n sdk_world =
  sw_net :: 'n
  sw_sent :: "http_call list"
  sw_slept :: "rat list"

record DropwayOptions =
  do_apiKey :: "string option"
  do_baseUrl :: "string option"
  do_maxRetries :: "int option"
  do_timeoutMs :: "int option"

record HttpClient =
  baseUrl :: string
  apiKey :: string
  maxRetries :: int
  timeoutMs :: int

datatype sdk_error = Thrown js_error | Api dropway_error

type_synonym 'a sdk_result = "sdk_error + 'a"

text \<open>
  The constructor. \<open>env\<close> is \<open>process.env.DROPWAY_API_KEY\<close>; \<open>has_fetch\<close> says whether the
  options or the global scope have a \<open>fetch\<close>.
\<close>

definition new_HttpClient :: "string option \<Rightarrow> bool \<Rightarrow> DropwayOptions \<Rightarrow> HttpClient result" where
  "new_HttpClient env has_fetch opts =
     (case (case do_apiKey opts of Some k \<Rightarrow> Some k | None \<Rightarrow> env) of
        None \<Rightarrow> Inl (JsError ''Dropway: no API key. Pass { apiKey } or set the DROPWAY_API_KEY environment variable.'')
      | Some key \<Rightarrow>
          if key = [] then
            Inl (JsError ''Dropway: no API key. Pass { apiKey } or set the DROPWAY_API_KEY environment variable.'')
          else if \<not> has_fetch then
            Inl (JsError ''Dropway: no fetch implementation. Use Node 18+ or pass { fetch }.'')
          else Inr
            \<lparr>baseUrl = rev (dropWhile (\<lambda>c. c = CHR ''/'')
                 (rev (case do_baseUrl opts of Some u \<Rightarrow> u | None \<Rightarrow> DEFAULT_BASE_URL))),
             apiKey = key,
             maxRetries = max 0 (case do_maxRetries opts of Some n \<Rightarrow> n | None \<Rightarrow> 3),
             timeoutMs = (case do_timeoutMs opts of Some n \<Rightarrow> n | None \<Rightarrow> 30000)\<rparr>)"

definition statusOk :: "nat \<Rightarrow> bool" where
  "statusOk status \<longleftrightarrow> 200 \<le> status \<and> status < 300"

definition safeJson :: "string \<Rightarrow> json" where
  "safeJson s = (case JSON_parse s of Some j \<Rightarrow> j | None \<Rightarrow> JNull)"

definition parseRetryAfter :: "string option \<Rightarrow> rat option" where
  "parseRetryAfter v =
     (case v of
        None \<Rightarrow> None
      | Some s \<Rightarrow> if s = [] then None else (case js_Number s of Fin q \<Rightarrow> Some q | _ \<Rightarrow> None))"

text \<open>\<open>r\<close> is the value \<open>Math.random\<close> would return.\<close>

definition backoffMs :: "nat \<Rightarrow> string option \<Rightarrow> rat \<Rightarrow> rat" where
  "backoffMs attempt retryAfter r =
     (let ra = (case retryAfter of Some s \<Rightarrow> if s = [] then NaN else js_Number s | None \<Rightarrow> NaN)
      in (case ra of
            Fin q \<Rightarrow> min (q * 1000) 30000
          | _ \<Rightarrow>
              (let base = min (1000 * 2 ^ attempt) 15000
               in base / 2 + of_int \<lfloor>base / 2 * r\<rfloor>)))"

text \<open>\<open>Math.random\<close> is called only when there is no usable \<open>Retry-After\<close>.\<close>

definition back_off ::
  "'n network \<Rightarrow> nat \<Rightarrow> string option \<Rightarrow> 'n sdk_world \<Rightarrow> 'n sdk_world" where
  "back_off net attempt retryAfter w =
     (let (r, n1) = (case parseRetryAfter retryAfter of
                       Some q \<Rightarrow> (0, sw_net w)
                     | None \<Rightarrow> net_random net (sw_net w));
          ms = backoffMs attempt retryAfter r
      in w\<lparr>sw_net := net_sleep net ms n1, sw_slept := sw_slept w @ [ms]\<rparr>)"

definition send :: "'n network \<Rightarrow> http_call \<Rightarrow> 'n sdk_world \<Rightarrow> fetched result \<times> 'n sdk_world" where
  "send net call w =
     (case net_fetch net call (sw_net w) of
        (r, n1) \<Rightarrow> (r, w\<lparr>sw_net := n1, sw_sent := sw_sent w @ [call]\<rparr>))"

record ResponseSnapshot =
  rs_status :: nat
  rs_headers :: headers
  rs_text :: string

definition snapshot :: "fetched \<Rightarrow> ResponseSnapshot result" where
  "snapshot res =
     (case (if ft_status res = 204 then Inr [] else ft_text res) of
        Inl e \<Rightarrow> Inl e
      | Inr t \<Rightarrow> Inr \<lparr>rs_status = ft_status res, rs_headers = ft_headers res, rs_text = t\<rparr>)"

definition retryable :: "nat \<Rightarrow> bool" where
  "retryable status \<longleftrightarrow> 500 \<le> status \<or> status = 429"

definition abort_error :: "js_error option \<Rightarrow> js_error" where
  "abort_error reason = (case reason of Some e \<Rightarrow> e | None \<Rightarrow> JsError ''The operation was aborted.'')"

text \<open>
  The loop, from \<open>attempt\<close> on. \<open>signal\<close> says whether the caller passed a signal. A failed
  exchange and a failed read of the body take the same way, through the \<open>catch\<close>.
\<close>

function fetchWithRetry ::
  "'n network \<Rightarrow> HttpClient \<Rightarrow> http_call \<Rightarrow> bool \<Rightarrow> bool \<Rightarrow> nat \<Rightarrow> 'n sdk_world
   \<Rightarrow> ResponseSnapshot result \<times> 'n sdk_world" where
  "fetchWithRetry net cl call signal idempotent attempt w =
     (case (if signal then net_aborted net (sw_net w) else None) of
        Some reason \<Rightarrow> (Inl (abort_error reason), w)
      | None \<Rightarrow>
          (case send net call w of
             (r, w1) \<Rightarrow>
               (case r of
                  Inr res \<Rightarrow>
                    if idempotent \<and> int attempt < maxRetries cl \<and> retryable (ft_status res)
                    then fetchWithRetry net cl call signal idempotent (Suc attempt)
                           (back_off net attempt (header_get (ft_headers res) ''retry-after'') w1)
                    else (case snapshot res of
                            Inr snap \<Rightarrow> (Inr snap, w1)
                          | Inl e \<Rightarrow>
                              if signal \<and> net_aborted net (sw_net w1) \<noteq> None then (Inl e, w1)
                              else if idempotent \<and> int attempt < maxRetries cl
                              then fetchWithRetry net cl call signal idempotent (Suc attempt)
                                     (back_off net attempt None w1)
                              else (Inl e, w1))
                | Inl e \<Rightarrow>
                    if signal \<and> net_aborted net (sw_net w1) \<noteq> None then (Inl e, w1)
                    else if idempotent \<and> int attempt < maxRetries cl
                    then fetchWithRetry net cl call signal idempotent (Suc attempt)
                           (back_off net attempt None w1)
                    else (Inl e, w1))))"
  by pat_completeness auto
termination
  by (relation "measure (\<lambda>(net, cl, call, signal, idempotent, attempt, w). nat (maxRetries cl - int attempt))")
     auto

declare fetchWithRetry.simps [simp del]

datatype query_value = QStr string | QNum rat | QBool bool

fun query_string :: "runtime \<Rightarrow> query_value \<Rightarrow> string" where
  "query_string rt (QStr s) = s"
| "query_string rt (QNum q) = num_to_string rt q"
| "query_string rt (QBool b) = (if b then ''true'' else ''false'')"

fun set_query :: "runtime \<Rightarrow> (string \<times> query_value option) list \<Rightarrow> url \<Rightarrow> url" where
  "set_query rt [] u = u"
| "set_query rt ((k, v) # q) u =
     set_query rt q (case v of Some x \<Rightarrow> params_set u k (query_string rt x) | None \<Rightarrow> u)"

definition buildUrl ::
  "runtime \<Rightarrow> HttpClient \<Rightarrow> string \<Rightarrow> (string \<times> query_value option) list option \<Rightarrow> string result" where
  "buildUrl rt cl path query =
     (case new_url rt (if startsWith path ''http'' then path else baseUrl cl @ path) None of
        None \<Rightarrow> Inl (JsTypeError ''Invalid URL'')
      | Some u \<Rightarrow> Inr (url_href (case query of Some q \<Rightarrow> set_query rt q u | None \<Rightarrow> u)))"

record RequestOptions =
  ro_body :: "json option"
  ro_query :: "(string \<times> query_value option) list option"
  ro_idempotent :: "bool option"
  ro_headers :: "(string \<times> string) list"
  ro_signal :: bool

definition no_options :: RequestOptions where
  "no_options = \<lparr>ro_body = None, ro_query = None, ro_idempotent = None, ro_headers = [], ro_signal = False\<rparr>"

text \<open>The object literal \<open>{Authorization, Accept, ...opts.headers}\<close> and the later assignment.\<close>

fun spread_props :: "(string \<times> string) list \<Rightarrow> (string \<times> string) list \<Rightarrow> (string \<times> string) list" where
  "spread_props h [] = h"
| "spread_props h ((k, v) # kvs) = spread_props (assoc_put k v h) kvs"

definition request_headers :: "HttpClient \<Rightarrow> RequestOptions \<Rightarrow> (string \<times> string) list" where
  "request_headers cl opts =
     (let h = spread_props [(''Authorization'', ''Bearer '' @ apiKey cl), (''Accept'', ''application/json'')] (ro_headers opts)
      in if ro_body opts = None then h else assoc_put ''Content-Type'' ''application/json'' h)"

definition request_call :: "runtime \<Rightarrow> HttpClient \<Rightarrow> string \<Rightarrow> string \<Rightarrow> RequestOptions \<Rightarrow> http_call" where
  "request_call rt cl method url opts =
     \<lparr>hc_method = method, hc_url = url, hc_headers = request_headers cl opts,
      hc_body = map_option (JSON_stringify rt) (ro_body opts), hc_timeoutMs = timeoutMs cl\<rparr>"

text \<open>The part of \<open>request\<close> behind the exchange; \<^const>\<open>None\<close> is \<open>undefined\<close>.\<close>

definition read_response :: "runtime \<Rightarrow> ResponseSnapshot \<Rightarrow> json option sdk_result" where
  "read_response rt res =
     (if rs_status res = 204 then Inr None
      else
        (let json = (if rs_text res = [] then JNull else safeJson (rs_text res))
         in if \<not> statusOk (rs_status res)
            then Inl (Api (errorForResponse rt (rs_status res) (present (Some json))
                       (parseRetryAfter (header_get (rs_headers res) ''retry-after''))))
            else Inr (present (Some json))))"

definition request ::
  "runtime \<Rightarrow> 'n network \<Rightarrow> HttpClient \<Rightarrow> string \<Rightarrow> string \<Rightarrow> RequestOptions \<Rightarrow> 'n sdk_world
   \<Rightarrow> json option sdk_result \<times> 'n sdk_world" where
  "request rt net cl method path opts w =
     (case buildUrl rt cl path (ro_query opts) of
        Inl e \<Rightarrow> (Inl (Thrown e), w)
      | Inr url \<Rightarrow>
          (let idempotent = (case ro_idempotent opts of Some b \<Rightarrow> b | None \<Rightarrow> toUpperCase method = ''GET'')
           in (case fetchWithRetry net cl (request_call rt cl method url opts) (ro_signal opts) idempotent 0 w of
                 (Inl e, w1) \<Rightarrow> (Inl (Thrown e), w1)
               | (Inr res, w1) \<Rightarrow> (read_response rt res, w1))))"

definition put_call :: "HttpClient \<Rightarrow> string \<Rightarrow> string \<Rightarrow> http_call" where
  "put_call cl url data =
     \<lparr>hc_method = ''PUT'', hc_url = url, hc_headers = [], hc_body = Some data, hc_timeoutMs = timeoutMs cl\<rparr>"

definition putBlob ::
  "runtime \<Rightarrow> 'n network \<Rightarrow> HttpClient \<Rightarrow> string \<Rightarrow> string \<Rightarrow> bool \<Rightarrow> 'n sdk_world
   \<Rightarrow> unit sdk_result \<times> 'n sdk_world" where
  "putBlob rt net cl url data signal w =
     (case fetchWithRetry net cl (put_call cl url data) signal True 0 w of
        (Inl e, w1) \<Rightarrow> (Inl (Thrown e), w1)
      | (Inr res, w1) \<Rightarrow>
          if statusOk (rs_status res) then (Inr (), w1)
          else (Inl (Api (errorForResponse rt (rs_status res) None None)), w1))"

section \<open>The retry loop\<close>

text \<open>\<open>Math.random\<close> returns a number from 0 up to, but not including, 1.\<close>

definition random_ok :: "'n network \<Rightarrow> bool" where
  "random_ok net \<longleftrightarrow> (\<forall>n. 0 \<le> fst (net_random net n) \<and> fst (net_random net n) < 1)"

lemma backoffMs_le:
  assumes "0 \<le> r" "r < 1"
  shows "backoffMs attempt ra r \<le> 30000"
proof -
  let ?base = "min (1000 * 2 ^ attempt) 15000 :: rat"
  have "?base / 2 * r \<le> ?base / 2 * 1" using assms by (intro mult_left_mono) auto
  then have "of_int \<lfloor>?base / 2 * r\<rfloor> \<le> ?base / 2" by linarith
  then have "?base / 2 + of_int \<lfloor>?base / 2 * r\<rfloor> \<le> 30000" by linarith
  then show ?thesis
    by (auto simp: backoffMs_def Let_def split: jsnum.splits)
qed

lemma back_off_simps [simp]:
  "sw_sent (back_off net attempt ra w) = sw_sent w"
  by (simp add: back_off_def Let_def split: prod.splits)

lemma back_off_slept: "\<exists>ms. sw_slept (back_off net attempt ra w) = sw_slept w @ [ms]"
  by (simp add: back_off_def Let_def split: prod.splits)

lemma back_off_short:
  assumes "random_ok net"
  shows "\<exists>ms. sw_slept (back_off net attempt ra w) = sw_slept w @ [ms] \<and> ms \<le> 30000"
proof -
  obtain r n where rn: "net_random net (sw_net w) = (r, n)" by fastforce
  with assms have "0 \<le> r" "r < 1" unfolding random_ok_def by (metis fst_conv)+
  with backoffMs_le backoffMs_le [of 0] rn show ?thesis
    by (auto simp: back_off_def Let_def split: option.splits)
qed

lemma send_log:
  "send net call w = (r, w1) \<Longrightarrow> sw_sent w1 = sw_sent w @ [call] \<and> sw_slept w1 = sw_slept w"
  by (auto simp: send_def split: prod.splits)

text \<open>
  What the loop did from attempt \<open>a\<close> on: \<open>k\<close> exchanges of the same call and the sleeps \<open>sl\<close>.
  A final answer that could be retried is returned only when no retry was left.
\<close>

definition retry_log ::
  "HttpClient \<Rightarrow> http_call \<Rightarrow> bool \<Rightarrow> nat \<Rightarrow> 'n sdk_world \<Rightarrow> ResponseSnapshot result \<Rightarrow> 'n sdk_world \<Rightarrow> bool" where
  "retry_log cl call idempotent a w r w1 \<longleftrightarrow>
     (\<exists>k sl. sw_sent w1 = sw_sent w @ replicate k call \<and> sw_slept w1 = sw_slept w @ sl \<and>
        k \<le> Suc (if idempotent then nat (maxRetries cl - int a) else 0) \<and>
        length sl \<le> k \<and> k \<le> Suc (length sl) \<and>
        (\<forall>snap. r = Inr snap \<longrightarrow> k = Suc (length sl) \<and>
           (retryable (rs_status snap) \<longrightarrow> k = Suc (if idempotent then nat (maxRetries cl - int a) else 0))))"

lemma retry_log_abort: "retry_log cl call idempotent a w (Inl e) w"
  unfolding retry_log_def by (intro exI [of _ 0] exI [of _ "[]"]) simp

lemma retry_log_end:
  assumes "send net call w = (x, w1)"
    "\<And>snap. r = Inr snap \<Longrightarrow> retryable (rs_status snap) \<Longrightarrow> \<not> (idempotent \<and> int a < maxRetries cl)"
  shows "retry_log cl call idempotent a w r w1"
  unfolding retry_log_def using send_log [OF assms(1)] assms(2)
  by (intro exI [of _ 1] exI [of _ "[]"]) auto

lemma retry_log_again:
  assumes "send net call w = (x, w1)" "int a < maxRetries cl"
    and "retry_log cl call True (Suc a) (back_off net a ra w1) r w2"
  shows "retry_log cl call True a w r w2"
proof -
  obtain ms where ms: "sw_slept (back_off net a ra w1) = sw_slept w @ [ms]"
    using back_off_slept [of net a ra w1] send_log [OF assms(1)] by auto
  from assms(3) obtain k sl where k: "sw_sent w2 = sw_sent w @ [call] @ replicate k call"
    "sw_slept w2 = sw_slept w @ ms # sl" "k \<le> Suc (nat (maxRetries cl - int (Suc a)))"
    "length sl \<le> k" "k \<le> Suc (length sl)"
    "\<forall>snap. r = Inr snap \<longrightarrow> k = Suc (length sl) \<and>
       (retryable (rs_status snap) \<longrightarrow> k = Suc (nat (maxRetries cl - int (Suc a))))"
    unfolding retry_log_def using ms send_log [OF assms(1)] by auto
  moreover have "nat (maxRetries cl - int a) = Suc (nat (maxRetries cl - int (Suc a)))"
    using assms(2) by linarith
  ultimately show ?thesis
    unfolding retry_log_def by (intro exI [of _ "Suc k"] exI [of _ "ms # sl"]) auto
qed

lemma snapshot_status: "snapshot res = Inr snap \<Longrightarrow> rs_status snap = ft_status res"
  by (auto simp: snapshot_def split: sum.splits if_splits)

text \<open>One round of the loop: it is cut off, ends with this exchange, or goes on after a sleep.\<close>

lemma fetchWithRetry_round:
  assumes "send net call w = (x, w2)" "fetchWithRetry net cl call signal idempotent a w = (r, w1)"
  shows "(\<exists>e. r = Inl e \<and> w1 = w) \<or>
    (w1 = w2 \<and> (\<forall>snap. r = Inr snap \<longrightarrow> retryable (rs_status snap) \<longrightarrow> \<not> (idempotent \<and> int a < maxRetries cl))) \<or>
    (\<exists>ra. idempotent \<and> int a < maxRetries cl \<and>
       fetchWithRetry net cl call signal idempotent (Suc a) (back_off net a ra w2) = (r, w1))"
  using assms(2) unfolding fetchWithRetry.simps [of net cl call signal idempotent a w] assms(1)
  by (cases "if signal then net_aborted net (sw_net w) else None"; cases x)
     (simp_all split: sum.splits if_splits add: snapshot_status, auto simp: snapshot_status)

lemma fetchWithRetry_log:
  assumes "fetchWithRetry net cl call signal idempotent a w = (r, w1)"
  shows "retry_log cl call idempotent a w r w1"
  using assms
proof (induction n \<equiv> "nat (maxRetries cl - int a)" arbitrary: a w r w1 rule: less_induct)
  case less
  obtain x w2 where s: "send net call w = (x, w2)" by fastforce
  from fetchWithRetry_round [OF s less(2)] consider
      (cut) e where "r = Inl e" "w1 = w"
    | (last) "w1 = w2"
        "\<And>snap. r = Inr snap \<Longrightarrow> retryable (rs_status snap) \<Longrightarrow> \<not> (idempotent \<and> int a < maxRetries cl)"
    | (again) ra where "idempotent" "int a < maxRetries cl"
        "fetchWithRetry net cl call signal idempotent (Suc a) (back_off net a ra w2) = (r, w1)"
    by blast
  then show ?case
  proof cases
    case cut
    then show ?thesis by (simp add: retry_log_abort)
  next
    case last
    then show ?thesis using retry_log_end [OF s, of r idempotent a cl] by simp
  next
    case again
    then show ?thesis using retry_log_again [OF s again(2)] less(1) [OF _ again(3)] by simp
  qed
qed

text \<open>What is returned is the answer to the last exchange.\<close>

lemma fetchWithRetry_last:
  assumes "send net call w = (x, w2)" "fetchWithRetry net cl call signal idempotent a w = (Inr snap, w1)"
  shows "(w1 = w2 \<and> (\<exists>res. x = Inr res \<and> ft_status res = rs_status snap)) \<or>
    (\<exists>ra. idempotent \<and> int a < maxRetries cl \<and>
       fetchWithRetry net cl call signal idempotent (Suc a) (back_off net a ra w2) = (Inr snap, w1))"
  using assms(2) unfolding fetchWithRetry.simps [of net cl call signal idempotent a w] assms(1)
  by (cases "if signal then net_aborted net (sw_net w) else None"; cases x)
     (simp_all split: sum.splits if_splits add: snapshot_status, auto simp: snapshot_status)

lemma fetchWithRetry_answer:
  assumes "fetchWithRetry net cl call signal idempotent a w = (Inr snap, w1)"
  shows "\<exists>n0 res. net_fetch net call n0 = (Inr res, sw_net w1) \<and> ft_status res = rs_status snap"
  using assms
proof (induction n \<equiv> "nat (maxRetries cl - int a)" arbitrary: a w rule: less_induct)
  case less
  obtain x w2 where s: "send net call w = (x, w2)" by fastforce
  from fetchWithRetry_last [OF s less(2)] show ?case
  proof
    assume "w1 = w2 \<and> (\<exists>res. x = Inr res \<and> ft_status res = rs_status snap)"
    with s show ?thesis by (fastforce simp: send_def split: prod.splits)
  next
    assume "\<exists>ra. idempotent \<and> int a < maxRetries cl \<and>
       fetchWithRetry net cl call signal idempotent (Suc a) (back_off net a ra w2) = (Inr snap, w1)"
    then show ?thesis using less(1) [of "Suc a"] by fastforce
  qed
qed

lemma fetchWithRetry_sleeps:
  assumes "random_ok net" "fetchWithRetry net cl call signal idempotent a w = (r, w1)"
  shows "\<exists>sl. sw_slept w1 = sw_slept w @ sl \<and> (\<forall>ms \<in> set sl. ms \<le> 30000)"
  using assms(2)
proof (induction n \<equiv> "nat (maxRetries cl - int a)" arbitrary: a w r w1 rule: less_induct)
  case less
  obtain x w2 where s: "send net call w = (x, w2)" by fastforce
  have "sw_slept w1 = sw_slept w" if "w1 = w \<or> w1 = w2" using that send_log [OF s] by auto
  moreover have ?case
    if "idempotent" "int a < maxRetries cl"
      "fetchWithRetry net cl call signal idempotent (Suc a) (back_off net a ra w2) = (r, w1)" for ra
    using less(1) [OF _ that(3)] back_off_short [OF assms(1), of a ra w2] send_log [OF s] that(2) by auto
  ultimately show ?case using fetchWithRetry_round [OF s less(2)] by auto
qed

lemma fetchWithRetry_sent:
  assumes "fetchWithRetry net cl call signal idempotent 0 w = (r, w1)"
  shows "\<exists>k. sw_sent w1 = sw_sent w @ replicate k call \<and>
    k \<le> Suc (if idempotent then nat (maxRetries cl) else 0) \<and> (\<forall>snap. r = Inr snap \<longrightarrow> 0 < k)"
  using fetchWithRetry_log [OF assms] unfolding retry_log_def of_nat_0 diff_zero by (metis zero_less_Suc)

section \<open>Properties\<close>

text \<open>
  C17. Retries are bounded. Whatever the network does, \<open>fetchWithRetry\<close> returns after at most
  \<open>maxRetries + 1\<close> exchanges of the identical call if the request is idempotent and after at
  most one otherwise, sleeping at most 30 seconds between two of them; an answer 429 or 5xx is
  handed to the caller only when no retry was left.
\<close>

theorem retries_are_bounded:
  assumes "random_ok net" "fetchWithRetry net cl call signal idempotent 0 w = (r, w1)"
  shows "\<exists>k sl. sw_sent w1 = sw_sent w @ replicate k call \<and> sw_slept w1 = sw_slept w @ sl \<and>
     k \<le> Suc (if idempotent then nat (maxRetries cl) else 0) \<and>
     length sl \<le> k \<and> k \<le> Suc (length sl) \<and> (\<forall>ms \<in> set sl. ms \<le> 30000) \<and>
     (\<forall>snap. r = Inr snap \<longrightarrow> k = Suc (length sl) \<and>
        (retryable (rs_status snap) \<longrightarrow> k = Suc (if idempotent then nat (maxRetries cl) else 0)))"
proof -
  obtain sl where sl: "sw_slept w1 = sw_slept w @ sl" "\<forall>ms \<in> set sl. ms \<le> 30000"
    using fetchWithRetry_sleeps [OF assms] by blast
  from fetchWithRetry_log [OF assms(2)] show ?thesis
    unfolding retry_log_def of_nat_0 diff_zero sl(1) using sl(2) by (metis same_append_eq)
qed

text \<open>A network that answers 503 twice and then 200; its state counts the exchanges.\<close>

definition flaky_network :: "nat network" where
  "flaky_network =
     \<lparr>net_fetch = (\<lambda>call n. (Inr \<lparr>ft_status = (if n < 2 then 503 else 200), ft_headers = [],
         ft_text = Inr ''{}''\<rparr>, Suc n)),
      net_aborted = (\<lambda>n. None), net_random = (\<lambda>n. (1 / 2, n)), net_sleep = (\<lambda>ms n. n)\<rparr>"

definition sample_client :: HttpClient where
  "sample_client =
     \<lparr>baseUrl = ''https://api.example.com'', apiKey = ''dw_live_1'', maxRetries = 3, timeoutMs = 30000\<rparr>"

lemma flaky_random_ok: "random_ok flaky_network"
  by (simp add: random_ok_def flaky_network_def)

theorem retries_are_bounded_witness:
  "\<exists>w1 k sl. fetchWithRetry flaky_network sample_client (put_call sample_client ''https://store/x'' ''hi'') False True 0
       \<lparr>sw_net = 0, sw_sent = [], sw_slept = []\<rparr> =
     (Inr \<lparr>rs_status = 200, rs_headers = [], rs_text = ''{}''\<rparr>, w1) \<and>
     sw_sent w1 = replicate k (put_call sample_client ''https://store/x'' ''hi'') \<and> k = 3 \<and>
     sw_slept w1 = sl \<and> sl = [750, 1500] \<and> k \<le> Suc (nat (maxRetries sample_client)) \<and> k = Suc (length sl)"
proof -
  let ?c = "put_call sample_client ''https://store/x'' ''hi''"
  let ?w1 = "\<lparr>sw_net = 3, sw_sent = [?c, ?c, ?c], sw_slept = [750, 1500]\<rparr>"
  have f: "fetchWithRetry flaky_network sample_client ?c False True 0 \<lparr>sw_net = 0, sw_sent = [], sw_slept = []\<rparr> =
     (Inr \<lparr>rs_status = 200, rs_headers = [], rs_text = ''{}''\<rparr>, ?w1)"
    by code_simp
  from retries_are_bounded [OF flaky_random_ok f] f show ?thesis
    by (intro exI [of _ ?w1] exI [of _ "3 :: nat"] exI [of _ "[750, 1500] :: rat list"])
       (auto simp: numeral_3_eq_3 sample_client_def)
qed

text \<open>
  Errors are typed by the status. A response is a value exactly for a status from 200 to
  299; any other status is thrown as the class of that status, which carries the status, the parsed
  body and, for 429, the seconds of \<open>Retry-After\<close>; nothing else is thrown.
\<close>

theorem errors_are_typed:
  "case read_response rt res of
     Inr v \<Rightarrow> statusOk (rs_status res)
   | Inl (Thrown e) \<Rightarrow> False
   | Inl (Api e) \<Rightarrow> \<not> statusOk (rs_status res) \<and> err_status e = rs_status res \<and>
       err_body e = present (Some (if rs_text res = [] then JNull else safeJson (rs_text res))) \<and>
       (case e of
          DropwayError st m b \<Rightarrow> st \<notin> {401, 402, 403, 404, 429}
        | RateLimitError m b ra \<Rightarrow> ra = parseRetryAfter (header_get (rs_headers res) ''retry-after'')
        | _ \<Rightarrow> True)"
  by (auto simp: read_response_def Let_def errorForResponse_def statusOk_def new_QuotaExceededError_def
      new_ForbiddenError_def)

end
