(* ===== verification/Pool.thy ===== *)
theory Pool
  imports Prelude "HOL-Library.Multiset"
begin

text \<open>
  The worker pools of the upload loops: \<open>uploadAll\<close> of \<open>packages/sdk/src/sites.ts\<close> and
  \<open>runPool\<close> of \<open>apps/dashboard/lib/deploy.ts\<close>. Both start a number of workers that share one
  cursor into the list of items; each worker takes the next item, awaits \<open>fn(item)\<close> and goes
  on, and \<open>Promise.all\<close> waits for all of them or for the first failure.

  JavaScript runs one worker at a time, between two \<open>await\<close>s. A state of the pool is
  therefore the cursor and what each worker awaits. Which transfer finishes next is open: the
  step relation allows every order, and the executable \<open>pool_run\<close> takes a schedule that picks
  the next one to finish. A transfer acts on the world as one event, when it finishes. The step
  relation goes on after a failure (the other workers do not stop), while \<open>pool_run\<close> ends
  where \<open>Promise.all\<close> rejects.
\<close>

section \<open>States and steps\<close>

datatype 'i worker = Busy 'i | Done | Failed

record 'i pool =
  cursor :: nat
  workers :: "'i worker list"

text \<open>\<open>Array.from({length: n}, worker)\<close> runs every worker up to its first \<open>await\<close>.\<close>

definition pool_start :: "nat \<Rightarrow> 'i list \<Rightarrow> 'i pool" where
  "pool_start n items =
     \<lparr>cursor = min n (length items),
      workers = map Busy (take n items) @ replicate (n - length items) Done\<rparr>"

text \<open>Worker \<open>k\<close> resumes after its transfer: it takes the next item or ends.\<close>

definition resume :: "'i list \<Rightarrow> nat \<Rightarrow> 'i pool \<Rightarrow> 'i pool" where
  "resume items k p =
     (if cursor p < length items
      then \<lparr>cursor = Suc (cursor p), workers = (workers p)[k := Busy (items ! cursor p)]\<rparr>
      else p\<lparr>workers := (workers p)[k := Done]\<rparr>)"

inductive pool_step :: "'i list \<Rightarrow> 'i pool \<Rightarrow> 'i \<times> bool \<Rightarrow> 'i pool \<Rightarrow> bool" for items where
  finish: "k < length (workers p) \<Longrightarrow> workers p ! k = Busy x \<Longrightarrow>
           pool_step items p (x, True) (resume items k p)"
| fail: "k < length (workers p) \<Longrightarrow> workers p ! k = Busy x \<Longrightarrow>
           pool_step items p (x, False) (p\<lparr>workers := (workers p)[k := Failed]\<rparr>)"

text \<open>The states that a pool can get to from \<open>p0\<close>, with the transfers that ended on the way and how.\<close>

inductive pool_reach :: "'i list \<Rightarrow> 'i pool \<Rightarrow> ('i \<times> bool) list \<Rightarrow> 'i pool \<Rightarrow> bool" for items p0 where
  start: "pool_reach items p0 [] p0"
| step: "pool_reach items p0 es p \<Longrightarrow> pool_step items p e q \<Longrightarrow> pool_reach items p0 (es @ [e]) q"

inductive_cases pool_stepE: "pool_step items p e q"

fun is_busy :: "'i worker \<Rightarrow> bool" where
  "is_busy (Busy x) = True"
| "is_busy _ = False"

fun busy_item :: "'i worker \<Rightarrow> 'i list" where
  "busy_item (Busy x) = [x]"
| "busy_item _ = []"

definition in_flight :: "'i pool \<Rightarrow> 'i multiset" where
  "in_flight p = mset (concat (map busy_item (workers p)))"

section \<open>Running a pool\<close>

definition busy_workers :: "'i pool \<Rightarrow> nat list" where
  "busy_workers p = filter (\<lambda>k. is_busy (workers p ! k)) [0..<length (workers p)]"

definition item_of :: "'i pool \<Rightarrow> nat \<Rightarrow> 'i" where
  "item_of p k = hd (busy_item (workers p ! k))"

definition work_left :: "'i list \<Rightarrow> 'i pool \<Rightarrow> nat" where
  "work_left items p = (length items - cursor p) + length (busy_workers p)"

lemma busy_workers_resume:
  assumes "k \<in> set (busy_workers p)"
  shows "work_left items (resume items k p) < work_left items p"
proof -
  have k: "k < length (workers p)" "is_busy (workers p ! k)" using assms by (auto simp: busy_workers_def)
  show ?thesis
  proof (cases "cursor p < length items")
    case True
    then have "busy_workers (resume items k p) = busy_workers p"
      using k by (auto simp: busy_workers_def resume_def nth_list_update intro!: filter_cong)
    with True show ?thesis by (simp add: work_left_def resume_def)
  next
    case False
    have "busy_workers (resume items k p) = filter (\<lambda>j. j \<noteq> k) (busy_workers p)"
      using False k by (auto simp: busy_workers_def resume_def nth_list_update intro!: filter_cong)
    moreover have "length (filter (\<lambda>j. j \<noteq> k) (busy_workers p)) < length (busy_workers p)"
      using assms by (intro length_filter_less [of k]) auto
    ultimately show ?thesis using False by (simp add: work_left_def resume_def)
  qed
qed

text \<open>\<open>sched\<close> picks, at each step, one of the workers that are waiting.\<close>

definition pick :: "(nat \<Rightarrow> nat) \<Rightarrow> nat \<Rightarrow> 'i pool \<Rightarrow> nat" where
  "pick sched t p = busy_workers p ! (sched t mod length (busy_workers p))"

lemma pick_busy: "busy_workers p \<noteq> [] \<Longrightarrow> pick sched t p \<in> set (busy_workers p)"
  by (simp add: pick_def)

function pool_run ::
  "(nat \<Rightarrow> nat) \<Rightarrow> ('i \<Rightarrow> 'w \<Rightarrow> ('e + unit) \<times> 'w) \<Rightarrow> 'i list \<Rightarrow> nat \<Rightarrow> 'i pool \<Rightarrow> 'w
   \<Rightarrow> ('e + unit) \<times> 'w" where
  "pool_run sched fn items t p w =
     (if busy_workers p = [] then (Inr (), w)
      else
        (let k = pick sched t p
         in (case fn (item_of p k) w of
               (Inl e, w1) \<Rightarrow> (Inl e, w1)
             | (Inr u, w1) \<Rightarrow> pool_run sched fn items (Suc t) (resume items k p) w1)))"
  by pat_completeness auto
termination
  by (relation "measure (\<lambda>(sched, fn, items, t, p, w). work_left items p)")
     (auto intro: busy_workers_resume pick_busy)

declare pool_run.simps [simp del]

section \<open>The sequential reference\<close>

text \<open>The items one after the other, up to the first failure.\<close>

fun seq_run :: "('i \<Rightarrow> 'w \<Rightarrow> ('e + unit) \<times> 'w) \<Rightarrow> 'i list \<Rightarrow> 'w \<Rightarrow> ('e + unit) \<times> 'w" where
  "seq_run fn [] w = (Inr (), w)"
| "seq_run fn (x # xs) w =
     (case fn x w of (Inl e, w1) \<Rightarrow> (Inl e, w1) | (Inr u, w1) \<Rightarrow> seq_run fn xs w1)"

section \<open>Accounting\<close>

text \<open>What is still to be transferred: in flight or behind the cursor.\<close>

definition pending :: "'i list \<Rightarrow> 'i pool \<Rightarrow> 'i multiset" where
  "pending items p = in_flight p + mset (drop (cursor p) items)"

lemma in_flight_update:
  assumes "k < length (workers p)"
  shows "mset (concat (map busy_item ((workers p)[k := v]))) + mset (busy_item (workers p ! k)) =
         in_flight p + mset (busy_item v)"
proof -
  let ?ws = "workers p"
  have "?ws = take k ?ws @ ?ws ! k # drop (Suc k) ?ws" using assms by (rule id_take_nth_drop)
  then have "in_flight p = mset (concat (map busy_item (take k ?ws @ ?ws ! k # drop (Suc k) ?ws)))"
    unfolding in_flight_def by simp
  with assms show ?thesis by (simp add: upd_conv_take_nth_drop)
qed

lemma pending_resume:
  assumes "k < length (workers p)" "workers p ! k = Busy x"
  shows "pending items (resume items k p) + {#x#} = pending items p"
proof (cases "cursor p < length items")
  case True
  then have "drop (cursor p) items = items ! cursor p # drop (Suc (cursor p)) items"
    by (simp add: Cons_nth_drop_Suc)
  with True in_flight_update [OF assms(1), of "Busy (items ! cursor p)"] assms(2) show ?thesis
    by (simp add: pending_def resume_def in_flight_def)
next
  case False
  with in_flight_update [OF assms(1), of Done] assms(2) show ?thesis
    by (simp add: pending_def resume_def in_flight_def)
qed

lemma pending_start: "0 < n \<or> items = [] \<Longrightarrow> pending items (pool_start n items) = mset items"
proof -
  have "concat (map busy_item (replicate m Done)) = []" for m :: nat by (induction m) auto
  moreover have "concat (map busy_item (map Busy xs)) = xs" for xs :: "'a list" by (induction xs) auto
  ultimately have "in_flight (pool_start n items) = mset (take n items)"
    by (simp add: in_flight_def pool_start_def del: map_map)
  moreover have "drop (min n (length items)) items = drop n items" by (cases "n \<le> length items") auto
  ultimately show ?thesis
    by (simp add: pending_def pool_start_def) (metis append_take_drop_id mset_append)
qed

lemma busy_item_Nil: "busy_item v = [] \<longleftrightarrow> \<not> is_busy v"
  by (cases v) auto

lemma busy_workers_Nil: "busy_workers p = [] \<longleftrightarrow> in_flight p = {#}"
  by (auto simp: busy_workers_def in_flight_def filter_empty_conv busy_item_Nil all_set_conv_all_nth)

lemma length_in_flight: "size (in_flight p) \<le> length (workers p)"
proof -
  have one: "length (busy_item v) \<le> 1" for v :: "'a worker" by (cases v) auto
  have "length (concat (map busy_item ws)) \<le> length ws" for ws :: "'a worker list"
  proof (induction ws)
    case (Cons v ws)
    then show ?case using one [of v] by simp
  qed simp
  then show ?thesis by (simp add: in_flight_def)
qed

lemma busy_workerE:
  assumes "k \<in> set (busy_workers p)"
  obtains "k < length (workers p)" "workers p ! k = Busy (item_of p k)"
proof -
  have "k < length (workers p)" "is_busy (workers p ! k)" using assms by (auto simp: busy_workers_def)
  moreover from this(2) have "workers p ! k = Busy (item_of p k)"
    unfolding item_of_def by (cases "workers p ! k") auto
  ultimately show ?thesis using that by blast
qed

text \<open>As long as items are left behind the cursor, every worker is busy, and there is one.\<close>

definition live :: "'i list \<Rightarrow> 'i pool \<Rightarrow> bool" where
  "live items p \<longleftrightarrow> cursor p < length items \<longrightarrow> workers p \<noteq> [] \<and> list_all is_busy (workers p)"

lemma live_start: "0 < n \<or> items = [] \<Longrightarrow> live items (pool_start n items)"
  by (auto simp: live_def pool_start_def list_all_iff)

lemma live_resume: "live items p \<Longrightarrow> live items (resume items k p)"
  by (auto simp: live_def resume_def list_all_iff dest: set_update_subset_insert [THEN subsetD])

lemma live_end: "live items p \<Longrightarrow> busy_workers p = [] \<Longrightarrow> pending items p = {#}"
  by (auto simp: live_def busy_workers_def filter_empty_conv list_all_length pending_def
      busy_workers_Nil [symmetric] not_less)

section \<open>Every schedule is a sequential run\<close>

theorem pool_run_sequential:
  assumes "live items p"
  shows "\<exists>order. mset order = pending items p \<and> pool_run sched fn items t p w = seq_run fn order w"
  using assms
proof (induction sched fn items t p w rule: pool_run.induct)
  case (1 sched fn items t p w)
  show ?case
  proof (cases "busy_workers p = []")
    case True
    then show ?thesis using live_end [OF "1.prems"] by (intro exI [of _ "[]"]) (simp add: pool_run.simps)
  next
    case False
    let ?k = "pick sched t p"
    let ?x = "item_of p ?k"
    from pick_busy [OF False, of sched t] obtain k: "?k < length (workers p)" "workers p ! ?k = Busy ?x"
      by (rule busy_workerE)
    note pend = pending_resume [OF k, of items]
    obtain r w1 where f: "fn ?x w = (r, w1)" by fastforce
    show ?thesis
    proof (cases r)
      case (Inl e)
      obtain rest where "mset rest = pending items (resume items ?k p)" using ex_mset by blast
      with f Inl pend False show ?thesis
        by (intro exI [of _ "?x # rest"]) (simp add: pool_run.simps [of sched fn items t p w] Let_def)
    next
      case (Inr u)
      from "1.IH" [OF False refl f [symmetric] Inr live_resume [OF "1.prems"]]
      obtain order where "mset order = pending items (resume items ?k p)"
        "pool_run sched fn items (Suc t) (resume items ?k p) w1 = seq_run fn order w1" by blast
      with f Inr pend False show ?thesis
        by (intro exI [of _ "?x # order"]) (simp add: pool_run.simps [of sched fn items t p w] Let_def)
    qed
  qed
qed

section \<open>Every reachable state\<close>

lemma pool_step_workers: "pool_step items p e q \<Longrightarrow> length (workers q) = length (workers p)"
  by (erule pool_stepE) (auto simp: resume_def)

lemma pool_step_pending:
  "pool_step items p e q \<Longrightarrow> pending items q + {#fst e#} = pending items p"
proof (erule pool_stepE)
  fix k x assume k: "k < length (workers p)" "workers p ! k = Busy x"
  { assume "e = (x, True)" "q = resume items k p"
    then show ?thesis using pending_resume [OF k] by simp }
  { assume "e = (x, False)" "q = p\<lparr>workers := (workers p)[k := Failed]\<rparr>"
    then show ?thesis using in_flight_update [OF k(1), of Failed] k(2)
      by (simp add: pending_def in_flight_def) }
qed

lemma pool_reach_accounts:
  assumes "pool_reach items (pool_start n items) es p" "0 < n \<or> items = []"
  shows "length (workers p) = n \<and> mset (map fst es) + pending items p = mset items"
  using assms(1)
proof (induction rule: pool_reach.induct)
  case start
  then show ?case using pending_start [OF assms(2)] by (simp add: pool_start_def)
next
  case (step es p e q)
  have "mset (map fst (es @ [e])) + pending items q = mset (map fst es) + pending items p"
    by (simp flip: pool_step_pending [OF step(2)])
  with step pool_step_workers [OF step(2)] show ?case by simp
qed

lemma pool_reach_length:
  assumes "pool_reach items (pool_start n items) es p" "0 < n \<or> items = []"
  shows "length es \<le> length items"
proof -
  have "size (mset (map fst es)) \<le> size (mset items)"
    using pool_reach_accounts [OF assms] by (metis le_add1 size_union)
  then show ?thesis by simp
qed

section \<open>Progress\<close>

lemma in_flight_busy:
  assumes "in_flight p \<noteq> {#}"
  obtains k x where "k < length (workers p)" "workers p ! k = Busy x" "k \<in> set (busy_workers p)"
proof -
  from assms obtain k where "k \<in> set (busy_workers p)"
    by (metis busy_workers_Nil list.set_intros(1) neq_Nil_conv)
  with that show ?thesis by (metis busy_workerE)
qed

lemma pool_reach_live:
  assumes "pool_reach items (pool_start n items) es p" "0 < n \<or> items = []" "list_all snd es"
  shows "live items p"
  using assms(1,3)
proof (induction rule: pool_reach.induct)
  case start
  then show ?case using live_start [OF assms(2)] by simp
next
  case (step es p e q)
  from step(2,3,4) show ?case by (auto elim: pool_stepE intro: live_resume)
qed

text \<open>From every state without a failure the pool can still finish everything.\<close>

lemma pool_can_finish:
  assumes "pool_reach items (pool_start n items) es p" "0 < n \<or> items = []" "list_all snd es"
  shows "\<exists>more q. pool_reach items (pool_start n items) (es @ more) q \<and> list_all snd more \<and> in_flight q = {#}"
  using assms(1,3)
proof (induction "work_left items p" arbitrary: es p rule: less_induct)
  case less
  show ?case
  proof (cases "in_flight p = {#}")
    case True
    with less.prems show ?thesis by (intro exI [of _ "[]"]) auto
  next
    case False
    then obtain k x where k: "k < length (workers p)" "workers p ! k = Busy x" "k \<in> set (busy_workers p)"
      by (rule in_flight_busy)
    let ?q = "resume items k p"
    have "pool_reach items (pool_start n items) (es @ [(x, True)]) ?q"
      by (rule pool_reach.step [OF less.prems(1) pool_step.finish [OF k(1,2)]])
    from less.hyps [OF busy_workers_resume [OF k(3)] this] less.prems(2)
    obtain more q where "pool_reach items (pool_start n items) ((es @ [(x, True)]) @ more) q" "list_all snd more" "in_flight q = {#}"
      by auto
    then show ?thesis by (intro exI [of _ "(x, True) # more"] exI [of _ q]) simp
  qed
qed

text \<open>
  As long as nothing has failed, the pool does not stall: what is still to be transferred is not all
  behind the cursor.
\<close>

lemma pool_busy:
  assumes "pool_reach items (pool_start n items) es p" "0 < n \<or> items = []" "list_all snd es" "pending items p \<noteq> {#}"
  shows "in_flight p \<noteq> {#}"
  using live_end [OF pool_reach_live [OF assms(1-3)]] assms(4) by (auto simp: busy_workers_Nil)

text \<open>
  A run of the loop goes through states that the steps reach: it is the sequential run of the
  transfers in the order in which they end, it succeeds exactly when all of them do, and then
  nothing is left in flight.
\<close>

definition run_of ::
  "('i \<Rightarrow> 'w \<Rightarrow> ('e + unit) \<times> 'w) \<Rightarrow> 'w \<Rightarrow> ('e + unit) \<times> 'w \<Rightarrow> ('i \<times> bool) list \<Rightarrow> 'i pool \<Rightarrow> bool" where
  "run_of fn w out es p \<longleftrightarrow> out = seq_run fn (map fst es) w \<and>
     (if isl (fst out) then es \<noteq> [] \<and> list_all snd (butlast es) \<and> \<not> snd (last es)
      else list_all snd es \<and> in_flight p = {#})"

lemma pool_run_reaches:
  assumes "pool_reach items p0 es p"
  shows "\<exists>es' q. pool_reach items p0 (es @ es') q \<and> run_of fn w (pool_run sched fn items t p w) es' q"
  using assms
proof (induction sched fn items t p w arbitrary: es rule: pool_run.induct)
  case (1 sched fn items t p w)
  show ?case
  proof (cases "busy_workers p = []")
    case True
    with "1.prems" show ?thesis
      by (intro exI [of _ "[]"] exI [of _ p]) (simp add: pool_run.simps run_of_def busy_workers_Nil)
  next
    case False
    let ?k = "pick sched t p"
    let ?x = "item_of p ?k"
    from pick_busy [OF False, of sched t] obtain k: "?k < length (workers p)" "workers p ! ?k = Busy ?x"
      by (rule busy_workerE)
    obtain r w1 where f: "fn ?x w = (r, w1)" by fastforce
    show ?thesis
    proof (cases r)
      case (Inl e)
      have "pool_reach items p0 (es @ [(?x, False)]) (p\<lparr>workers := (workers p)[?k := Failed]\<rparr>)"
        by (rule pool_reach.step [OF "1.prems" pool_step.fail [OF k]])
      with f Inl False show ?thesis
        by (intro exI [of _ "[(?x, False)]"] exI [of _ "p\<lparr>workers := (workers p)[?k := Failed]\<rparr>"])
          (simp add: pool_run.simps [of sched fn items t p w] run_of_def Let_def)
    next
      case (Inr u)
      from "1.IH" [OF False refl f [symmetric] Inr pool_reach.step [OF "1.prems" pool_step.finish [OF k]]]
      obtain es' q where q: "pool_reach items p0 ((es @ [(?x, True)]) @ es') q"
        "run_of fn w1 (pool_run sched fn items (Suc t) (resume items ?k p) w1) es' q" by blast
      moreover have "run_of fn w (pool_run sched fn items t p w) ((?x, True) # es') q"
        using q(2) f Inr False
        by (auto simp: pool_run.simps [of sched fn items t p w] run_of_def Let_def split: if_splits)
      ultimately show ?thesis by (intro exI [of _ "(?x, True) # es'"] exI [of _ q]) simp
    qed
  qed
qed

section \<open>What a transfer promises\<close>

text \<open>
  A client of a pool relies on a relation between the world before and after that every
  transfer keeps; the whole run keeps it too, under every schedule, and it holds however far
  the run gets.
\<close>

locale transfer =
  fixes fn :: "'i \<Rightarrow> 'w \<Rightarrow> ('e + unit) \<times> 'w"
    and keeps :: "'w \<Rightarrow> 'w \<Rightarrow> bool"
  assumes keeps_refl: "keeps w w"
    and keeps_trans: "keeps u v \<Longrightarrow> keeps v w \<Longrightarrow> keeps u w"
    and fn_keeps: "fn x w = (r, w1) \<Longrightarrow> keeps w w1"
begin

lemma seq_keeps: "seq_run fn xs w = (r, w1) \<Longrightarrow> keeps w w1"
proof (induction xs arbitrary: w)
  case Nil
  then show ?case by (simp add: keeps_refl)
next
  case (Cons x xs)
  obtain r1 w2 where f: "fn x w = (r1, w2)" by fastforce
  from Cons f show ?case
    by (cases r1) (auto dest: fn_keeps intro: keeps_trans)
qed

lemma pool_keeps:
  assumes "live items p" "pool_run sched fn items t p w = (r, w1)"
  shows "keeps w w1"
  using pool_run_sequential [OF assms(1), of sched fn t w] assms(2) seq_keeps by metis

end

end
