(* ===== verification/Sdk_Sites.thy ===== *)
theory Sdk_Sites
  imports Sdk_Manifest Sdk_Client Pool
begin

text \<open>
  \<open>packages/sdk/src/sites.ts\<close> and \<open>packages/sdk/src/index.ts\<close>: the operations on sites, and the
  deploy loop, which builds the manifest, asks the server which blobs are missing, uploads them
  with a pool of workers, finalizes the version and publishes it.

  A response is read at its declared type: a member of another type counts as absent, and
  reading a member of \<open>undefined\<close> or \<open>null\<close> is a \<open>TypeError\<close>. The schedule of the upload pool is a
  parameter. A directory is the tree that \<open>readdir\<close> and \<open>readFile\<close> show, with the entries
  whose reading fails.
\<close>

section \<open>Reading a directory\<close>

datatype dir_entry =
    DirEntry string "dir_entry list"
  | FileEntry string string
  | OtherEntry string
  | BadEntry string js_error

text \<open>
  \<open>walk\<close>: \<open>rel\<close> is the path of the directory relative to the root, with its slash. The object
  \<open>out\<close> gets one property per file.
\<close>

fun walk :: "string \<Rightarrow> dir_entry list \<Rightarrow> (string \<times> string) list \<Rightarrow> (string \<times> string) list result" where
  "walk rel [] out = Inr out"
| "walk rel (DirEntry name sub # es) out =
     (case walk (rel @ name @ ''/'') sub out of Inl e \<Rightarrow> Inl e | Inr out1 \<Rightarrow> walk rel es out1)"
| "walk rel (FileEntry name bytes # es) out = walk rel es (assoc_put (rel @ name) bytes out)"
| "walk rel (OtherEntry name # es) out = walk rel es out"
| "walk rel (BadEntry name e # es) out = Inl e"

text \<open>
  \<open>Object.entries\<close>: the keys that are array indices come first, in numeric order.
\<close>

definition array_index :: "string \<Rightarrow> nat option" where
  "array_index k =
     (case read_digits 0 k of
        (n, rest) \<Rightarrow> if k \<noteq> [] \<and> rest = [] \<and> nat_to_string n = k \<and> n < 4294967295 then Some n else None)"

definition object_entries :: "(string \<times> 'v) list \<Rightarrow> (string \<times> 'v) list" where
  "object_entries kvs =
     sort_by (\<lambda>a b. the (array_index (fst a)) \<le> the (array_index (fst b)))
       (filter (\<lambda>kv. array_index (fst kv) \<noteq> None) kvs) @
     filter (\<lambda>kv. array_index (fst kv) = None) kvs"

definition readDir :: "dir_entry list result \<Rightarrow> (string \<times> file_data) list result" where
  "readDir listing =
     (case listing of
        Inl e \<Rightarrow> Inl e
      | Inr es \<Rightarrow>
          (case walk [] es [] of
             Inl e \<Rightarrow> Inl e
           | Inr out \<Rightarrow> Inr (map (\<lambda>kv. (fst kv, Bytes (snd kv))) (object_entries out))))"

section \<open>Responses\<close>

definition member :: "json option \<Rightarrow> string \<Rightarrow> json option result" where
  "member v key =
     (case v of
        None \<Rightarrow> Inl (JsTypeError (''Cannot read properties of undefined (reading '' @ [CHR 0x27] @ key @ [CHR 0x27] @ '')''))
      | Some JNull \<Rightarrow> Inl (JsTypeError (''Cannot read properties of null (reading '' @ [CHR 0x27] @ key @ [CHR 0x27] @ '')''))
      | Some j \<Rightarrow> Inr (body_prop (Some j) key))"

fun strings_of :: "json list \<Rightarrow> string list" where
  "strings_of [] = []"
| "strings_of (JStr s # js) = s # strings_of js"
| "strings_of (_ # js) = strings_of js"

definition string_array :: "json option \<Rightarrow> string list" where
  "string_array v = (case v of Some (JArr js) \<Rightarrow> strings_of js | _ \<Rightarrow> [])"

section \<open>Operations on sites\<close>

definition site_path :: "string \<Rightarrow> string" where
  "site_path siteId = ''/v1/sites/'' @ encodeURIComponent siteId"

definition with_body :: "json \<Rightarrow> RequestOptions" where
  "with_body b = no_options\<lparr>ro_body := Some b\<rparr>"

definition create ::
  "runtime \<Rightarrow> 'n network \<Rightarrow> HttpClient \<Rightarrow> string \<Rightarrow> string option \<Rightarrow> 'n sdk_world
   \<Rightarrow> json option sdk_result \<times> 'n sdk_world" where
  "create rt net cl slug accessMode =
     request rt net cl ''POST'' ''/v1/sites''
       (with_body (JObj ([(''slug'', JStr slug)] @
          (case accessMode of Some m \<Rightarrow> if m = [] then [] else [(''access_mode'', JStr m)] | None \<Rightarrow> []))))"

definition list_sites ::
  "runtime \<Rightarrow> 'n network \<Rightarrow> HttpClient \<Rightarrow> 'n sdk_world \<Rightarrow> json sdk_result \<times> 'n sdk_world" where
  "list_sites rt net cl w =
     (case request rt net cl ''GET'' ''/v1/sites'' no_options w of
        (Inl e, w1) \<Rightarrow> (Inl e, w1)
      | (Inr (Some (JArr js)), w1) \<Rightarrow> (Inr (JArr js), w1)
      | (Inr res, w1) \<Rightarrow>
          (case member res ''sites'' of
             Inl e \<Rightarrow> (Inl (Thrown e), w1)
           | Inr v \<Rightarrow> (Inr (case present v of Some s \<Rightarrow> s | None \<Rightarrow> JArr []), w1)))"

definition get_site ::
  "runtime \<Rightarrow> 'n network \<Rightarrow> HttpClient \<Rightarrow> string \<Rightarrow> 'n sdk_world \<Rightarrow> json option sdk_result \<times> 'n sdk_world" where
  "get_site rt net cl siteId = request rt net cl ''GET'' (site_path siteId) no_options"

definition delete_site ::
  "runtime \<Rightarrow> 'n network \<Rightarrow> HttpClient \<Rightarrow> string \<Rightarrow> 'n sdk_world \<Rightarrow> unit sdk_result \<times> 'n sdk_world" where
  "delete_site rt net cl siteId w =
     (case request rt net cl ''DELETE'' (site_path siteId) no_options w of
        (Inl e, w1) \<Rightarrow> (Inl e, w1)
      | (Inr v, w1) \<Rightarrow> (Inr (), w1))"

definition setAccess ::
  "runtime \<Rightarrow> 'n network \<Rightarrow> HttpClient \<Rightarrow> string \<Rightarrow> string \<Rightarrow> string option \<Rightarrow> 'n sdk_world
   \<Rightarrow> json option sdk_result \<times> 'n sdk_world" where
  "setAccess rt net cl siteId accessMode password =
     request rt net cl ''PUT'' (site_path siteId @ ''/access'')
       (with_body (JObj ([(''mode'', JStr accessMode)] @
          (case password of Some p \<Rightarrow> if p = [] then [] else [(''password'', JStr p)] | None \<Rightarrow> []))))"

definition publish ::
  "runtime \<Rightarrow> 'n network \<Rightarrow> HttpClient \<Rightarrow> string \<Rightarrow> string \<Rightarrow> 'n sdk_world
   \<Rightarrow> json option sdk_result \<times> 'n sdk_world" where
  "publish rt net cl siteId versionId =
     request rt net cl ''POST'' (site_path siteId @ ''/publish'')
       (with_body (JObj [(''version_id'', JStr versionId)]))"

section \<open>Deploy\<close>

definition wireManifest :: "ManifestFile list \<Rightarrow> json" where
  "wireManifest manifest =
     JArr (map (\<lambda>f. JObj [(''path'', JStr (df_path f)), (''sha256'', JStr (df_sha256 f)),
                           (''size'', JNum (Fin (of_nat (mf_size f)))), (''content_type'', JStr (mf_contentType f))])
           manifest)"

text \<open>
  \<open>Math.max(1, n)\<close>, and the length of \<open>Array.from({length: Math.min(limit, n)})\<close>: a fraction is cut
  off, and \<open>NaN\<close>, which \<open>Math.max\<close> and \<open>Math.min\<close> hand on, counts as 0.
\<close>

definition js_max1 :: "jsnum \<Rightarrow> jsnum" where
  "js_max1 n = (case n of Fin q \<Rightarrow> Fin (max 1 q) | Infty pos \<Rightarrow> if pos then Infty True else Fin 1 | NaN \<Rightarrow> NaN)"

definition pool_size :: "jsnum \<Rightarrow> nat \<Rightarrow> nat" where
  "pool_size limit n =
     (case limit of Fin q \<Rightarrow> nat \<lfloor>min q (of_nat n)\<rfloor> | Infty pos \<Rightarrow> if pos then n else 0 | NaN \<Rightarrow> 0)"

definition upload_pool :: "string list \<Rightarrow> jsnum \<Rightarrow> string pool" where
  "upload_pool items concurrency =
     (let limit = js_max1 concurrency in pool_start (pool_size limit (length items)) items)"

definition uploadAll ::
  "(nat \<Rightarrow> nat) \<Rightarrow> string list \<Rightarrow> jsnum \<Rightarrow> (string \<Rightarrow> 'w \<Rightarrow> ('e + unit) \<times> 'w) \<Rightarrow> 'w \<Rightarrow> ('e + unit) \<times> 'w" where
  "uploadAll sched items concurrency fn w = pool_run sched fn items 0 (upload_pool items concurrency) w"

record DeployInput =
  di_files :: "(string \<times> file_data) list option"
  di_dir :: "(string \<times> dir_entry list result) option"
  di_publish :: "bool option"
  di_concurrency :: "jsnum option"
  di_signal :: bool

record DeployResult =
  dr_versionId :: "json option"
  dr_versionNo :: "json option"
  dr_filesUploaded :: nat
  dr_previewUrl :: "json option"
  dr_previewExpiresAt :: "json option"
  dr_liveUrl :: "json option"
  dr_published :: bool
  dr_warnings :: "json option"

text \<open>The files to deploy: \<open>input.dir\<close> counts only when it is not empty.\<close>

definition deploy_files :: "DeployInput \<Rightarrow> (string \<times> file_data) list result" where
  "deploy_files input =
     (let dir = (case di_dir input of Some (path, listing) \<Rightarrow> if path = [] then None else Some listing | None \<Rightarrow> None)
      in if di_files input \<noteq> None \<and> dir \<noteq> None
         then Inl (JsError ''deploy: pass `files` OR `dir`, not both'')
         else
           (case (case di_files input of
                    Some fs \<Rightarrow> Inr fs
                  | None \<Rightarrow> (case dir of Some listing \<Rightarrow> readDir listing | None \<Rightarrow> Inr [])) of
              Inl e \<Rightarrow> Inl e
            | Inr fs \<Rightarrow>
                if fs = [] then Inl (JsError ''deploy: provide `files` or `dir` with at least one file'')
                else Inr fs))"

definition upload_blob ::
  "runtime \<Rightarrow> 'n network \<Rightarrow> HttpClient \<Rightarrow> bool \<Rightarrow> json option \<Rightarrow> (string \<times> string) list \<Rightarrow> string \<Rightarrow> 'n sdk_world
   \<Rightarrow> unit sdk_result \<times> 'n sdk_world" where
  "upload_blob rt net cl signal uploads bytesBySha sha w =
     (case as_string (body_prop uploads sha) of
        None \<Rightarrow> (Inl (Thrown (JsError (''deploy: no upload URL for blob '' @ sha))), w)
      | Some url \<Rightarrow>
          if url = [] then (Inl (Thrown (JsError (''deploy: no upload URL for blob '' @ sha))), w)
          else
            (case map_of bytesBySha sha of
               None \<Rightarrow> (Inl (Thrown (JsError (''deploy: missing bytes for blob '' @ sha))), w)
             | Some bytes \<Rightarrow> putBlob rt net cl url bytes signal w))"

definition prepare_opts :: "built_manifest \<Rightarrow> DeployInput \<Rightarrow> RequestOptions" where
  "prepare_opts b input =
     (with_body (JObj [(''manifest'', wireManifest (bm_manifest b))]))\<lparr>ro_signal := di_signal input\<rparr>"

definition finalize_opts :: "built_manifest \<Rightarrow> DeployInput \<Rightarrow> RequestOptions" where
  "finalize_opts b input =
     (with_body (JObj [(''manifest'', wireManifest (bm_manifest b)), (''digest'', JStr (bm_digest b))]))
       \<lparr>ro_idempotent := Some True, ro_signal := di_signal input\<rparr>"

text \<open>An undefined \<open>version_id\<close> is left out by \<open>JSON.stringify\<close>.\<close>

definition publish_opts :: "json option \<Rightarrow> DeployInput \<Rightarrow> RequestOptions" where
  "publish_opts versionId input =
     (with_body (JObj (case versionId of Some v \<Rightarrow> [(''version_id'', v)] | None \<Rightarrow> [])))
       \<lparr>ro_signal := di_signal input\<rparr>"

text \<open>Steps 1 and 2: what was missing, once all of it is uploaded.\<close>

definition deploy_upload ::
  "runtime \<Rightarrow> 'n network \<Rightarrow> HttpClient \<Rightarrow> (nat \<Rightarrow> nat) \<Rightarrow> string \<Rightarrow> DeployInput \<Rightarrow> built_manifest \<Rightarrow> 'n sdk_world
   \<Rightarrow> string list sdk_result \<times> 'n sdk_world" where
  "deploy_upload rt net cl sched siteId input b w =
     (case request rt net cl ''POST'' (site_path siteId @ ''/deployments/prepare'') (prepare_opts b input) w of
        (Inl e, w1) \<Rightarrow> (Inl e, w1)
      | (Inr prep, w1) \<Rightarrow>
          (case member prep ''missing'' of
             Inl e \<Rightarrow> (Inl (Thrown e), w1)
           | Inr m \<Rightarrow>
               (let missing = string_array m
                in (case uploadAll sched missing (case di_concurrency input of Some n \<Rightarrow> n | None \<Rightarrow> Fin 8)
                           (upload_blob rt net cl (di_signal input) (body_prop prep ''uploads'') (bm_bytesBySha b)) w1 of
                      (Inl e, w2) \<Rightarrow> (Inl e, w2)
                    | (Inr u, w2) \<Rightarrow> (Inr missing, w2)))))"

text \<open>Steps 3 and 4.\<close>

definition deploy_commit ::
  "runtime \<Rightarrow> 'n network \<Rightarrow> HttpClient \<Rightarrow> string \<Rightarrow> DeployInput \<Rightarrow> built_manifest \<Rightarrow> nat \<Rightarrow> 'n sdk_world
   \<Rightarrow> DeployResult sdk_result \<times> 'n sdk_world" where
  "deploy_commit rt net cl siteId input b uploaded w =
     (case request rt net cl ''POST'' (site_path siteId @ ''/deployments'') (finalize_opts b input) w of
        (Inl e, w1) \<Rightarrow> (Inl e, w1)
      | (Inr fin, w1) \<Rightarrow>
          (case member fin ''version_id'' of
             Inl e \<Rightarrow> (Inl (Thrown e), w1)
           | Inr versionId \<Rightarrow>
               (let result = \<lparr>dr_versionId = versionId, dr_versionNo = body_prop fin ''version_no'',
                              dr_filesUploaded = uploaded, dr_previewUrl = body_prop fin ''preview_url'',
                              dr_previewExpiresAt = body_prop fin ''preview_expires_at'', dr_liveUrl = None,
                              dr_published = False, dr_warnings = body_prop fin ''warnings''\<rparr>
                in if di_publish input = Some False then (Inr result, w1)
                   else
                     (case request rt net cl ''POST'' (site_path siteId @ ''/publish'') (publish_opts versionId input) w1 of
                        (Inl e, w2) \<Rightarrow> (Inl e, w2)
                      | (Inr pub, w2) \<Rightarrow>
                          (case member pub ''live_url'' of
                             Inl e \<Rightarrow> (Inl (Thrown e), w2)
                           | Inr liveUrl \<Rightarrow> (Inr (result\<lparr>dr_liveUrl := liveUrl, dr_published := True\<rparr>), w2))))))"

definition deploy ::
  "runtime \<Rightarrow> 'n network \<Rightarrow> HttpClient \<Rightarrow> (nat \<Rightarrow> nat) \<Rightarrow> string \<Rightarrow> DeployInput \<Rightarrow> 'n sdk_world
   \<Rightarrow> DeployResult sdk_result \<times> 'n sdk_world" where
  "deploy rt net cl sched siteId input w =
     (case deploy_files input of
        Inl e \<Rightarrow> (Inl (Thrown e), w)
      | Inr files \<Rightarrow>
          (case buildManifest files of
             Inl e \<Rightarrow> (Inl (Thrown e), w)
           | Inr b \<Rightarrow>
               (case deploy_upload rt net cl sched siteId input b w of
                  (Inl e, w1) \<Rightarrow> (Inl e, w1)
                | (Inr missing, w1) \<Rightarrow> deploy_commit rt net cl siteId input b (length missing) w1)))"

section \<open>The client object (\<open>index.ts\<close>)\<close>

record Dropway =
  dw_http :: HttpClient
  dw_sites :: HttpClient

definition new_Dropway :: "string option \<Rightarrow> bool \<Rightarrow> DropwayOptions \<Rightarrow> Dropway result" where
  "new_Dropway env has_fetch options =
     (case new_HttpClient env has_fetch options of
        Inl e \<Rightarrow> Inl e
      | Inr http \<Rightarrow> Inr \<lparr>dw_http = http, dw_sites = http\<rparr>)"

definition dropway_request ::
  "runtime \<Rightarrow> 'n network \<Rightarrow> Dropway \<Rightarrow> string \<Rightarrow> string \<Rightarrow> RequestOptions option \<Rightarrow> 'n sdk_world
   \<Rightarrow> json option sdk_result \<times> 'n sdk_world" where
  "dropway_request rt net dw method path opts =
     request rt net (dw_http dw) method path (case opts of Some ro \<Rightarrow> ro | None \<Rightarrow> no_options)"

section \<open>What is sent\<close>

text \<open>\<open>cs\<close> is one API request, sent \<open>k\<close> times.\<close>

definition sent_as ::
  "runtime \<Rightarrow> HttpClient \<Rightarrow> string \<Rightarrow> RequestOptions \<Rightarrow> nat \<Rightarrow> http_call list \<Rightarrow> bool" where
  "sent_as rt cl path opts k cs \<longleftrightarrow>
     (\<exists>url. buildUrl rt cl path (ro_query opts) = Inr url \<and>
        cs = replicate k (request_call rt cl ''POST'' url opts))"

lemma post_log:
  assumes "request rt net cl ''POST'' path opts w = (r, w1)"
  shows "\<exists>k cs. sw_sent w1 = sw_sent w @ cs \<and> (cs \<noteq> [] \<longrightarrow> sent_as rt cl path opts k cs) \<and>
    k \<le> Suc (if ro_idempotent opts = Some True then nat (maxRetries cl) else 0) \<and>
    (\<forall>v. r = Inr v \<longrightarrow> sent_as rt cl path opts k cs \<and> 0 < k)"
proof (cases "buildUrl rt cl path (ro_query opts)")
  case (Inl e)
  with assms show ?thesis by (intro exI [of _ 0] exI [of _ "[]"]) (auto simp: request_def)
next
  case (Inr url)
  let ?idem = "case ro_idempotent opts of Some b \<Rightarrow> b | None \<Rightarrow> toUpperCase ''POST'' = ''GET''"
  let ?call = "request_call rt cl ''POST'' url opts"
  have idem: "?idem \<longleftrightarrow> ro_idempotent opts = Some True"
    by (simp add: toUpperCase_def upper_char_def split: option.splits)
  obtain x where f: "fetchWithRetry net cl ?call (ro_signal opts) ?idem 0 w = (x, w1)"
    and r: "\<And>v. r = Inr v \<Longrightarrow> \<exists>snap. x = Inr snap"
    using assms Inr by (auto simp: request_def Let_def split: prod.splits sum.splits)
  from fetchWithRetry_sent [OF f, unfolded idem]
  obtain k where "sw_sent w1 = sw_sent w @ replicate k ?call"
    "k \<le> Suc (if ro_idempotent opts = Some True then nat (maxRetries cl) else 0)"
    "\<forall>snap. x = Inr snap \<longrightarrow> 0 < k" by blast
  with Inr r show ?thesis
    by (intro exI [of _ k] exI [of _ "replicate k ?call"]) (auto simp: sent_as_def)
qed

text \<open>The uploads of one blob: the same request without headers, with bytes of that hash.\<close>

definition uploaded :: "HttpClient \<Rightarrow> string \<Rightarrow> http_call list \<Rightarrow> bool" where
  "uploaded cl sha cs \<longleftrightarrow>
     (\<exists>k url bytes. 0 < k \<and> k \<le> Suc (nat (maxRetries cl)) \<and> cs = replicate k (put_call cl url bytes) \<and>
        sha256Hex bytes = sha)"

lemma putBlob_log:
  assumes "putBlob rt net cl url data signal w = (r, w1)"
  shows "\<exists>k. sw_sent w1 = sw_sent w @ replicate k (put_call cl url data) \<and> k \<le> Suc (nat (maxRetries cl)) \<and>
    (r = Inr () \<longrightarrow> 0 < k)"
proof -
  obtain x where f: "fetchWithRetry net cl (put_call cl url data) signal True 0 w = (x, w1)"
    and r: "r = Inr () \<Longrightarrow> \<exists>snap. x = Inr snap"
    using assms by (auto simp: putBlob_def split: prod.splits sum.splits if_splits)
  from fetchWithRetry_sent [OF f] r show ?thesis by auto
qed

lemma upload_blob_ok:
  assumes "upload_blob rt net cl signal uploads bytes sha w = (Inr (), w1)" "addressed bytes"
  shows "\<exists>cs. uploaded cl sha cs \<and> sw_sent w1 = sw_sent w @ cs"
proof -
  from assms(1) obtain url data where d: "map_of bytes sha = Some data"
    and p: "putBlob rt net cl url data signal w = (Inr (), w1)"
    by (auto simp: upload_blob_def split: option.splits if_splits)
  moreover have "sha256Hex data = sha" using assms(2) d by (simp add: addressed_def)
  ultimately show ?thesis using putBlob_log [OF p] unfolding uploaded_def by blast
qed

text \<open>
  A blob is stored: its \<open>PUT\<close> went to the address that the server gave for it, at most
  \<open>maxRetries + 1\<close> times, with bytes of that hash, and the answer to the last one had a 2xx status.
\<close>

definition stored ::
  "'n network \<Rightarrow> HttpClient \<Rightarrow> json option \<Rightarrow> string \<Rightarrow> 'n sdk_world \<Rightarrow> 'n sdk_world \<Rightarrow> bool" where
  "stored net cl uploads sha w w1 \<longleftrightarrow>
     (\<exists>k url bytes n0 res. 0 < k \<and> k \<le> Suc (nat (maxRetries cl)) \<and>
        as_string (body_prop uploads sha) = Some url \<and> sha256Hex bytes = sha \<and>
        sw_sent w1 = sw_sent w @ replicate k (put_call cl url bytes) \<and>
        net_fetch net (put_call cl url bytes) n0 = (Inr res, sw_net w1) \<and>
        200 \<le> ft_status res \<and> ft_status res < 300)"

fun stored_all ::
  "'n network \<Rightarrow> HttpClient \<Rightarrow> json option \<Rightarrow> string list \<Rightarrow> 'n sdk_world \<Rightarrow> 'n sdk_world \<Rightarrow> bool" where
  "stored_all net cl uploads [] w w1 \<longleftrightarrow> w1 = w"
| "stored_all net cl uploads (sha # shas) w w2 \<longleftrightarrow>
     (\<exists>w1. stored net cl uploads sha w w1 \<and> stored_all net cl uploads shas w1 w2)"

lemma putBlob_ok:
  assumes "putBlob rt net cl url data signal w = (Inr (), w1)"
  shows "\<exists>n0 res. net_fetch net (put_call cl url data) n0 = (Inr res, sw_net w1) \<and> 200 \<le> ft_status res \<and> ft_status res < 300"
proof -
  obtain snap where f: "fetchWithRetry net cl (put_call cl url data) signal True 0 w = (Inr snap, w1)"
    and ok: "statusOk (rs_status snap)"
    using assms by (auto simp: putBlob_def split: prod.splits sum.splits if_splits)
  from fetchWithRetry_answer [OF f] ok show ?thesis by (fastforce simp: statusOk_def)
qed

lemma upload_blob_stored:
  assumes "upload_blob rt net cl signal uploads bytes sha w = (Inr (), w1)" "addressed bytes"
  shows "stored net cl uploads sha w w1"
proof -
  from assms(1) obtain url data where d: "map_of bytes sha = Some data" "as_string (body_prop uploads sha) = Some url"
    and p: "putBlob rt net cl url data signal w = (Inr (), w1)"
    by (auto simp: upload_blob_def split: option.splits if_splits)
  moreover have "sha256Hex data = sha" using assms(2) d by (simp add: addressed_def)
  ultimately show ?thesis using putBlob_log [OF p] putBlob_ok [OF p] unfolding stored_def by blast
qed

lemma seq_stored:
  assumes "seq_run (upload_blob rt net cl signal uploads bytes) order w = (Inr (), w1)" "addressed bytes"
  shows "stored_all net cl uploads order w w1"
  using assms(1)
proof (induction order arbitrary: w)
  case (Cons sha order)
  then obtain w2 where u: "upload_blob rt net cl signal uploads bytes sha w = (Inr (), w2)"
    and s: "seq_run (upload_blob rt net cl signal uploads bytes) order w2 = (Inr (), w1)"
    by (auto split: prod.splits sum.splits)
  from upload_blob_stored [OF u assms(2)] Cons.IH [OF s] show ?case by auto
qed simp

text \<open>Uploads carry no credential.\<close>

definition plain_put :: "http_call \<Rightarrow> bool" where
  "plain_put c \<longleftrightarrow> hc_method c = ''PUT'' \<and> hc_headers c = []"

lemma uploaded_plain: "list_all2 (uploaded cl) order puts \<Longrightarrow> list_all plain_put (concat puts)"
  by (induction rule: list_all2_induct) (auto simp: uploaded_def plain_put_def put_call_def list_all_iff)

lemma seq_uploads:
  assumes "seq_run (upload_blob rt net cl signal uploads bytes) order w = (Inr (), w1)" "addressed bytes"
  shows "\<exists>puts. list_all2 (uploaded cl) order puts \<and> sw_sent w1 = sw_sent w @ concat puts"
  using assms(1)
proof (induction order arbitrary: w)
  case Nil
  then show ?case by auto
next
  case (Cons sha order)
  then obtain w2 where u: "upload_blob rt net cl signal uploads bytes sha w = (Inr (), w2)"
    and s: "seq_run (upload_blob rt net cl signal uploads bytes) order w2 = (Inr (), w1)"
    by (auto split: prod.splits sum.splits)
  from upload_blob_ok [OF u assms(2)] Cons.IH [OF s] obtain cs puts where
    "uploaded cl sha cs" "list_all2 (uploaded cl) order puts" "sw_sent w1 = sw_sent w @ cs @ concat puts" by auto
  then show ?case by (intro exI [of _ "cs # puts"]) simp
qed

section \<open>What an upload keeps\<close>

text \<open>Uploads only add \<open>PUT\<close>s without headers to the log.\<close>

definition only_puts :: "'n sdk_world \<Rightarrow> 'n sdk_world \<Rightarrow> bool" where
  "only_puts w w1 \<longleftrightarrow> (\<exists>cs. sw_sent w1 = sw_sent w @ cs \<and> list_all plain_put cs)"

interpretation upload: transfer "upload_blob rt net cl signal uploads bytes" only_puts
  for rt net cl signal uploads bytes
proof
  show "only_puts w w" for w :: "'a sdk_world" by (simp add: only_puts_def)
  show "only_puts u w" if "only_puts u v" "only_puts v w" for u v w :: "'a sdk_world"
    using that by (fastforce simp: only_puts_def)
  show "only_puts w w1" if u: "upload_blob rt net cl signal uploads bytes sha w = (r, w1)" for sha w r w1
  proof (cases "w1 = w")
    case True
    then show ?thesis by (simp add: only_puts_def)
  next
    case False
    with u obtain url data where "putBlob rt net cl url data signal w = (r, w1)"
      by (auto simp: upload_blob_def split: option.splits if_splits)
    from putBlob_log [OF this] show ?thesis
      by (auto simp: only_puts_def list_all_iff plain_put_def put_call_def)
  qed
qed

lemma uploadAll_start:
  assumes "c \<noteq> NaN"
  shows "0 < pool_size (js_max1 c) (length items) \<or> items = []"
proof (cases items)
  case (Cons x xs)
  have "1 \<le> \<lfloor>min (max 1 q) (1 + of_nat (length xs) :: rat)\<rfloor>" for q by simp
  then have "0 < nat \<lfloor>min (max 1 q) (1 + of_nat (length xs) :: rat)\<rfloor>" for q by fastforce
  with Cons assms show ?thesis by (cases c) (auto simp: js_max1_def pool_size_def)
qed simp

lemma pool_size_le: "pool_size limit n \<le> n"
proof (cases limit)
  case (Fin q)
  have "\<lfloor>min q (of_nat n)\<rfloor> \<le> int n" by (metis floor_mono floor_of_nat min.cobounded2)
  with Fin show ?thesis by (simp add: pool_size_def)
qed (simp_all add: pool_size_def)

text \<open>The number of workers is within the limit that the caller asked for.\<close>

definition in_limit :: "nat \<Rightarrow> jsnum \<Rightarrow> bool" where
  "in_limit k c \<longleftrightarrow> (case c of Fin q \<Rightarrow> of_nat k \<le> max 1 q | Infty pos \<Rightarrow> pos \<or> k \<le> 1 | NaN \<Rightarrow> k = 0)"

lemma pool_size_in_limit:
  assumes "k \<le> pool_size (js_max1 c) n"
  shows "in_limit k c"
proof -
  have "of_nat k \<le> max 1 (q :: rat)" if "k \<le> nat \<lfloor>min (max 1 q) (of_nat n)\<rfloor>" for q
  proof -
    have "0 \<le> \<lfloor>min (max 1 q) (of_nat n)\<rfloor>" by simp
    with that have "int k \<le> \<lfloor>min (max 1 q) (of_nat n)\<rfloor>" by linarith
    then have "of_nat k \<le> min (max 1 q) (of_nat n)" by (simp add: le_floor_iff)
    then show ?thesis by simp
  qed
  moreover have "k \<le> 1" if "k \<le> nat \<lfloor>min (1 :: rat) (of_nat n)\<rfloor>" using that by (cases n) simp_all
  ultimately show ?thesis using assms by (auto simp: in_limit_def js_max1_def pool_size_def split: jsnum.splits if_splits)
qed

lemma uploadAll_seq:
  assumes "c \<noteq> NaN"
  shows "\<exists>order. mset order = mset items \<and> uploadAll sched items c fn w = seq_run fn order w"
  unfolding uploadAll_def upload_pool_def Let_def
  using pool_run_sequential [OF live_start [OF uploadAll_start [OF assms]]] pending_start [OF uploadAll_start [OF assms]] by metis

text \<open>With \<open>NaN\<close> there is no worker: nothing is uploaded, and no error says so.\<close>

lemma uploadAll_NaN: "uploadAll sched items NaN fn w = (Inr (), w)"
  by (simp add: uploadAll_def upload_pool_def js_max1_def pool_size_def pool_start_def pool_run.simps busy_workers_def)

lemma uploadAll_only_puts:
  assumes "uploadAll sched items c (upload_blob rt net cl signal uploads bytes) w = (r, w1)"
  shows "only_puts w w1"
proof (cases "c = NaN")
  case True
  with assms show ?thesis by (simp add: uploadAll_NaN upload.keeps_refl)
next
  case False
  from assms show ?thesis
    unfolding uploadAll_def upload_pool_def Let_def
    by (rule upload.pool_keeps [OF live_start [OF uploadAll_start [OF False]]])
qed

section \<open>The stages of a deploy\<close>

definition missing_blobs :: "json option \<Rightarrow> string list" where
  "missing_blobs prep = string_array (body_prop prep ''missing'')"

lemma built_addressed: "buildManifest files = Inr b \<Longrightarrow> addressed (bm_bytesBySha b)"
  using manifest_loop_spec [of files "[]" "[]"]
  by (auto simp: buildManifest_def addressed_def split: sum.splits)

lemma member_Inr: "member v key = Inr m \<Longrightarrow> m = body_prop v key"
  by (auto simp: member_def split: option.splits json.splits)

text \<open>The blobs that a deploy transfers: the missing ones, but none if the limit is \<open>NaN\<close>.\<close>

definition due :: "DeployInput \<Rightarrow> string list \<Rightarrow> string multiset" where
  "due input missing = (if di_concurrency input = Some NaN then {#} else mset missing)"

lemma deploy_upload_ok:
  assumes "deploy_upload rt net cl sched siteId input b w = (Inr missing, w2)" "addressed (bm_bytesBySha b)"
  shows "\<exists>prep w1 ps order puts.
     request rt net cl ''POST'' (site_path siteId @ ''/deployments/prepare'') (prepare_opts b input) w = (Inr prep, w1) \<and>
     missing = missing_blobs prep \<and> mset order = due input missing \<and>
     sent_as rt cl (site_path siteId @ ''/deployments/prepare'') (prepare_opts b input) 1 ps \<and>
     list_all2 (uploaded cl) order puts \<and> sw_sent w2 = sw_sent w @ ps @ concat puts \<and>
     sw_sent w1 = sw_sent w @ ps \<and> stored_all net cl (body_prop prep ''uploads'') order w1 w2"
proof -
  let ?path = "site_path siteId @ ''/deployments/prepare''"
  let ?conc = "case di_concurrency input of Some n \<Rightarrow> n | None \<Rightarrow> Fin 8"
  from assms(1) obtain prep w1 where q: "request rt net cl ''POST'' ?path (prepare_opts b input) w = (Inr prep, w1)"
    and m: "missing = missing_blobs prep"
    and u: "uploadAll sched missing ?conc
       (upload_blob rt net cl (di_signal input) (body_prop prep ''uploads'') (bm_bytesBySha b)) w1 = (Inr (), w2)"
    by (auto simp: deploy_upload_def Let_def missing_blobs_def dest!: member_Inr split: prod.splits sum.splits)
  have "ro_idempotent (prepare_opts b input) = None"
    by (simp add: prepare_opts_def with_body_def no_options_def)
  with post_log [OF q] obtain ps where ps: "sent_as rt cl ?path (prepare_opts b input) 1 ps" "sw_sent w1 = sw_sent w @ ps"
    by (auto simp: le_Suc_eq)
  let ?fn = "upload_blob rt net cl (di_signal input) (body_prop prep ''uploads'') (bm_bytesBySha b)"
  have "\<exists>order. mset order = due input missing \<and> seq_run ?fn order w1 = (Inr (), w2)"
  proof (cases "?conc = NaN")
    case True
    then have "di_concurrency input = Some NaN" by (auto split: option.splits)
    with u show ?thesis by (intro exI [of _ "[]"]) (simp add: due_def uploadAll_NaN)
  next
    case False
    then have "di_concurrency input \<noteq> Some NaN" by auto
    with uploadAll_seq [OF False, of missing sched] u show ?thesis unfolding due_def by metis
  qed
  then obtain order where o: "mset order = due input missing" and run: "seq_run ?fn order w1 = (Inr (), w2)" by blast
  from seq_uploads [OF run assms(2)] obtain puts where
    "list_all2 (uploaded cl) order puts" "sw_sent w2 = sw_sent w1 @ concat puts" by blast
  moreover note seq_stored [OF run assms(2)]
  ultimately show ?thesis using q m o ps by auto
qed

lemma deploy_upload_log:
  assumes "deploy_upload rt net cl sched siteId input b w = (r, w2)"
  shows "\<exists>ps cs. sw_sent w2 = sw_sent w @ ps @ cs \<and> list_all plain_put cs \<and>
     (ps \<noteq> [] \<longrightarrow> sent_as rt cl (site_path siteId @ ''/deployments/prepare'') (prepare_opts b input) 1 ps)"
proof -
  let ?path = "site_path siteId @ ''/deployments/prepare''"
  obtain p w1 where q: "request rt net cl ''POST'' ?path (prepare_opts b input) w = (p, w1)" by fastforce
  have "ro_idempotent (prepare_opts b input) = None"
    by (simp add: prepare_opts_def with_body_def no_options_def)
  with post_log [OF q] obtain k ps where ps: "sw_sent w1 = sw_sent w @ ps" "k \<le> 1"
    "ps \<noteq> [] \<longrightarrow> sent_as rt cl ?path (prepare_opts b input) k ps" by auto
  then have one: "ps \<noteq> [] \<longrightarrow> sent_as rt cl ?path (prepare_opts b input) 1 ps"
    by (cases k) (auto simp: sent_as_def)
  have "only_puts w1 w2"
    using assms q by (auto simp: deploy_upload_def Let_def upload.keeps_refl
        dest: uploadAll_only_puts split: prod.splits sum.splits)
  with ps(1) one show ?thesis by (auto simp: only_puts_def)
qed

lemma request_grows:
  assumes "request rt net cl ''POST'' path opts w = (r, w1)"
  shows "\<exists>cs. sw_sent w1 = sw_sent w @ cs"
  using post_log [OF assms] by blast

lemma deploy_commit_log:
  assumes "deploy_commit rt net cl siteId input b n w = (r, w2)"
  shows "\<exists>cs. sw_sent w2 = sw_sent w @ cs"
proof -
  obtain f w1 where q: "request rt net cl ''POST'' (site_path siteId @ ''/deployments'') (finalize_opts b input) w = (f, w1)"
    by fastforce
  have "w2 = w1 \<or> (\<exists>v p. request rt net cl ''POST'' (site_path siteId @ ''/publish'') (publish_opts v input) w1 = (p, w2))"
    using assms q by (auto simp: deploy_commit_def Let_def split: prod.splits sum.splits if_splits)
  with request_grows [OF q] show ?thesis using request_grows by (metis append.assoc)
qed


section \<open>A sample deploy\<close>

text \<open>A store that lacks one blob, and answers every step with 200; its state counts the exchanges.\<close>

definition abc_hash :: string where
  "abc_hash = ''ba7816bf8f01cfea414140de5dae2223b00361a396177a9cb410ff61f20015ad''"

definition store_text :: "http_call \<Rightarrow> string" where
  \<open>store_text call =
     (if hc_method call = ''PUT'' then []
      else if endsWith (hc_url call) ''/prepare''
      then ''{"missing":["'' @ abc_hash @ ''"],"uploads":{"'' @ abc_hash @ ''":"https://store.example.com/1"}}''
      else if endsWith (hc_url call) ''/publish'' then ''{"live_url":"https://s.example.com/"}''
      else ''{"version_id":"v1"}'')\<close>

definition store_network :: "nat network" where
  "store_network =
     \<lparr>net_fetch = (\<lambda>call n. (Inr \<lparr>ft_status = 200, ft_headers = [], ft_text = Inr (store_text call)\<rparr>, Suc n)),
      net_aborted = (\<lambda>n. None), net_random = (\<lambda>n. (0, n)), net_sleep = (\<lambda>ms n. n)\<rparr>"

definition sample_input :: DeployInput where
  "sample_input =
     \<lparr>di_files = Some [(''./index.html'', Text ''abc'')], di_dir = None, di_publish = None,
      di_concurrency = None, di_signal = False\<rparr>"

lemma store_exchange:
  "fetchWithRetry store_network cl call False idem a \<lparr>sw_net = n, sw_sent = s, sw_slept = l\<rparr> =
     (Inr \<lparr>rs_status = 200, rs_headers = [], rs_text = store_text call\<rparr>,
      \<lparr>sw_net = Suc n, sw_sent = s @ [call], sw_slept = l\<rparr>)"
  by (simp add: fetchWithRetry.simps send_def store_network_def retryable_def snapshot_def)

lemma store_request:
  assumes "buildUrl sample_runtime sample_client path None = Inr url" "ro_query opts = None" "\<not> ro_signal opts"
    and "JSON_parse (store_text (request_call sample_runtime sample_client ''POST'' url opts)) = Some (JObj kvs)"
    and "store_text (request_call sample_runtime sample_client ''POST'' url opts) \<noteq> []"
  shows "request sample_runtime store_network sample_client ''POST'' path opts \<lparr>sw_net = n, sw_sent = s, sw_slept = l\<rparr> =
     (Inr (Some (JObj kvs)),
      \<lparr>sw_net = Suc n, sw_sent = s @ [request_call sample_runtime sample_client ''POST'' url opts], sw_slept = l\<rparr>)"
  using assms by (simp add: request_def store_exchange read_response_def statusOk_def safeJson_def Let_def)

definition sample_url :: "string \<Rightarrow> string" where
  "sample_url p = ''https://api.example.com/v1/sites/s1'' @ p"

lemma sample_urls:
  "buildUrl sample_runtime sample_client (site_path ''s1'' @ ''/deployments/prepare'') None =
     Inr (sample_url ''/deployments/prepare'')"
  "buildUrl sample_runtime sample_client (site_path ''s1'' @ ''/deployments'') None = Inr (sample_url ''/deployments'')"
  "buildUrl sample_runtime sample_client (site_path ''s1'' @ ''/publish'') None = Inr (sample_url ''/publish'')"
  by code_simp+

lemma sample_opts_simps:
  "ro_query (prepare_opts b sample_input) = None" "\<not> ro_signal (prepare_opts b sample_input)"
  "ro_query (finalize_opts b sample_input) = None" "\<not> ro_signal (finalize_opts b sample_input)"
  "ro_query (publish_opts v sample_input) = None" "\<not> ro_signal (publish_opts v sample_input)"
  by (simp_all add: prepare_opts_def finalize_opts_def publish_opts_def with_body_def no_options_def sample_input_def)

text \<open>The answers of the store do not depend on the bodies of the requests.\<close>

definition post_to :: "string \<Rightarrow> http_call" where
  "post_to p = \<lparr>hc_method = ''POST'', hc_url = sample_url p, hc_headers = [], hc_body = None, hc_timeoutMs = 0\<rparr>"

lemma store_text_post:
  "store_text (request_call rt cl ''POST'' (sample_url p) opts) = store_text (post_to p)"
  by (simp add: store_text_def request_call_def post_to_def)

lemma store_answers:
  "JSON_parse (store_text (post_to ''/deployments/prepare'')) =
     Some (JObj [(''missing'', JArr [JStr abc_hash]),
       (''uploads'', JObj [(abc_hash, JStr ''https://store.example.com/1'')])])"
  "JSON_parse (store_text (post_to ''/deployments'')) = Some (JObj [(''version_id'', JStr ''v1'')])"
  "JSON_parse (store_text (post_to ''/publish'')) = Some (JObj [(''live_url'', JStr ''https://s.example.com/'')])"
  "store_text (post_to ''/deployments/prepare'') \<noteq> []" "store_text (post_to ''/deployments'') \<noteq> []"
  "store_text (post_to ''/publish'') \<noteq> []"
  by code_simp+

lemma store_put:
  "putBlob rt store_network cl url data False \<lparr>sw_net = n, sw_sent = s, sw_slept = l\<rparr> =
     (Inr (), \<lparr>sw_net = Suc n, sw_sent = s @ [put_call cl url data], sw_slept = l\<rparr>)"
  by (simp add: putBlob_def store_exchange statusOk_def)

lemma sample_build:
  "\<exists>b. buildManifest [(''./index.html'', Text ''abc'')] = Inr b \<and> bm_bytesBySha b = [(abc_hash, ''abc'')]"
proof -
  have "normalizePath ''./index.html'' = Inr ''index.html''" by code_simp
  then show ?thesis
    by (simp add: buildManifest_def Let_def sha256Hex_def sha256_abc abc_hash_def)
qed

lemma sample_pool:
  "uploadAll sched [x] (Fin 8) fn w = (case fn x w of (Inl e, w1) \<Rightarrow> (Inl e, w1) | (Inr u, w1) \<Rightarrow> (Inr (), w1))"
  using uploadAll_seq [of "Fin 8" "[x]" sched fn w] by (auto split: prod.splits sum.splits)

lemma sample_deploy:
  "\<exists>res w2. deploy sample_runtime store_network sample_client sched ''s1'' sample_input
       \<lparr>sw_net = 0, sw_sent = [], sw_slept = []\<rparr> = (Inr res, w2) \<and>
     dr_published res \<and> dr_filesUploaded res = 1 \<and> dr_versionId res = Some (JStr ''v1'') \<and> length (sw_sent w2) = 4"
proof -
  obtain b where b: "buildManifest [(''./index.html'', Text ''abc'')] = Inr b" "bm_bytesBySha b = [(abc_hash, ''abc'')]"
    using sample_build by blast
  have f: "deploy_files sample_input = Inr [(''./index.html'', Text ''abc'')]"
    by (simp add: deploy_files_def sample_input_def Let_def)
  note req = store_request [OF sample_urls(1)] store_request [OF sample_urls(2)] store_request [OF sample_urls(3)]
  have u: "deploy_upload sample_runtime store_network sample_client sched ''s1'' sample_input b
      \<lparr>sw_net = 0, sw_sent = [], sw_slept = []\<rparr> =
    (Inr [abc_hash], \<lparr>sw_net = 2, sw_sent =
       [request_call sample_runtime sample_client ''POST'' (sample_url ''/deployments/prepare'') (prepare_opts b sample_input),
        put_call sample_client ''https://store.example.com/1'' ''abc''], sw_slept = []\<rparr>)"
    by (simp add: deploy_upload_def req sample_opts_simps store_text_post store_answers member_def body_prop_def
        string_array_def sample_pool upload_blob_def b store_put)
       (simp add: sample_input_def sample_pool upload_blob_def body_prop_def b store_put)
  have "di_publish sample_input = None" by (simp add: sample_input_def)
  then show ?thesis
    by (simp add: deploy_def f b(1) u deploy_commit_def req sample_opts_simps store_text_post store_answers member_def
        body_prop_def)
qed

section \<open>Properties\<close>



text \<open>
  C13. No version without its blobs. Whatever the outcome, the log of \<open>deploy\<close> is a part with at
  most one \<open>prepare\<close>, credential-free \<open>PUT\<close>s, and a rest. The rest, the \<open>finalize\<close> and the
  \<open>publish\<close>, is empty unless each blob that the server called missing was put to the address given
  for it, with bytes of its hash, and the store answered the last of its \<open>PUT\<close>s with a 2xx status; so after
  a failed upload nothing is finalized or published. The exception is
  the limit \<open>NaN\<close>, with which no blob is due at all (\<open>uploadAll_NaN\<close>).
\<close>

theorem deploy_commits_only_after_uploads:
  assumes "deploy rt net cl sched siteId input w = (r, w2)"
  shows "\<exists>ps puts rest. sw_sent w2 = sw_sent w @ ps @ puts @ rest \<and> list_all plain_put puts \<and>
     (ps \<noteq> [] \<longrightarrow> (\<exists>b. sent_as rt cl (site_path siteId @ ''/deployments/prepare'') (prepare_opts b input) 1 ps)) \<and>
     (rest \<noteq> [] \<longrightarrow> (\<exists>files b prep w1 order w3. deploy_files input = Inr files \<and> buildManifest files = Inr b \<and>
        request rt net cl ''POST'' (site_path siteId @ ''/deployments/prepare'') (prepare_opts b input) w = (Inr prep, w1) \<and>
        sw_sent w1 = sw_sent w @ ps \<and> mset order = due input (missing_blobs prep) \<and>
        stored_all net cl (body_prop prep ''uploads'') order w1 w3 \<and> sw_sent w3 = sw_sent w @ ps @ puts))"
proof -
  consider "w2 = w" | b where "deploy_upload rt net cl sched siteId input b w = (Inl (projl r), w2)"
    | files b missing w3 where "deploy_upload rt net cl sched siteId input b w = (Inr missing, w3)"
        "deploy_commit rt net cl siteId input b (length missing) w3 = (r, w2)"
        "deploy_files input = Inr files" "buildManifest files = Inr b"
    using assms(1) by (auto simp: deploy_def split: sum.splits prod.splits)
  then show ?thesis
  proof cases
    case 1
    then show ?thesis by (intro exI [of _ "[]"]) simp
  next
    case (2 b)
    from deploy_upload_log [OF 2] show ?thesis by (metis append_Nil2)
  next
    case (3 files b missing w3)
    obtain rest where "sw_sent w2 = sw_sent w3 @ rest" using deploy_commit_log [OF 3(2)] by blast
    moreover from deploy_upload_ok [OF 3(1) built_addressed [OF 3(4)]] obtain prep w1 ps order puts where
      "request rt net cl ''POST'' (site_path siteId @ ''/deployments/prepare'') (prepare_opts b input) w = (Inr prep, w1)"
      "mset order = due input (missing_blobs prep)"
      "sent_as rt cl (site_path siteId @ ''/deployments/prepare'') (prepare_opts b input) 1 ps"
      "list_all2 (uploaded cl) order puts" "sw_sent w3 = sw_sent w @ ps @ concat puts" "sw_sent w1 = sw_sent w @ ps"
      "stored_all net cl (body_prop prep ''uploads'') order w1 w3" by blast
    moreover note uploaded_plain [OF \<open>list_all2 (uploaded cl) order puts\<close>]
    ultimately show ?thesis using 3(3,4)
      by (intro exI [of _ ps] exI [of _ "concat puts"] exI [of _ rest]) auto
  qed
qed

theorem deploy_commits_only_after_uploads_witness:
  "\<exists>res w2 ps puts rest. deploy sample_runtime store_network sample_client (\<lambda>t. 0) ''s1'' sample_input
       \<lparr>sw_net = 0, sw_sent = [], sw_slept = []\<rparr> = (Inr res, w2) \<and>
     sw_sent w2 = ps @ puts @ rest \<and> list_all plain_put puts"
proof -
  obtain res w2 where d: "deploy sample_runtime store_network sample_client (\<lambda>t. 0) ''s1'' sample_input
       \<lparr>sw_net = 0, sw_sent = [], sw_slept = []\<rparr> = (Inr res, w2)" using sample_deploy by blast
  from deploy_commits_only_after_uploads [OF d] d show ?thesis by auto
qed

text \<open>
  The upload pool is a sequential run. Under every schedule and for every limit of
  concurrency that is a number, \<open>uploadAll\<close> does what uploading the items one after the other, in some order and up
  to the first failure, would do: every item is transferred exactly once if none fails, and the
  loop always ends.
\<close>

theorem uploadAll_is_sequential:
  "c \<noteq> NaN \<Longrightarrow> \<exists>order. mset order = mset items \<and> uploadAll sched items c fn w = seq_run fn order w"
  by (rule uploadAll_seq)

text \<open>
  C14. The pool is bounded and loses nothing. A run of \<open>uploadAll\<close>, under any schedule, goes through states
  that the steps of the pool reach from its start. In every such state, under any interleaving
  and any failures, at most \<open>max 1 concurrency\<close> transfers are in flight (one if the limit is
  \<open>-Infinity\<close>, none if it is \<open>NaN\<close>, as many as there are items if it is \<open>Infinity\<close>), and unless the
  limit is \<open>NaN\<close> the finished items, those in flight and those behind the cursor are together
  the items of the input, each once.
\<close>

theorem upload_pool_is_bounded:
  "(\<exists>es p. pool_reach items (upload_pool items c) es p \<and> run_of fn w (uploadAll sched items c fn w) es p) \<and>
   (pool_reach items (upload_pool items c) es p \<longrightarrow>
      in_limit (size (in_flight p)) c \<and> size (in_flight p) \<le> length items \<and>
      (c \<noteq> NaN \<longrightarrow> mset (map fst es) + in_flight p + mset (drop (cursor p) items) = mset items))"
proof (intro conjI impI)
  show "\<exists>es p. pool_reach items (upload_pool items c) es p \<and> run_of fn w (uploadAll sched items c fn w) es p"
    unfolding uploadAll_def by (metis append_Nil pool_reach.start pool_run_reaches)
  assume r: "pool_reach items (upload_pool items c) es p"
  have "length (workers p) = pool_size (js_max1 c) (length items)"
    using r by (induction rule: pool_reach.induct)
      (auto simp: upload_pool_def pool_start_def pool_size_le Let_def dest: pool_step_workers)
  then have k: "size (in_flight p) \<le> pool_size (js_max1 c) (length items)" using length_in_flight [of p] by simp
  show "in_limit (size (in_flight p)) c" using k by (rule pool_size_in_limit)
  show "size (in_flight p) \<le> length items" using k pool_size_le order_trans by blast
  assume "c \<noteq> NaN"
  from pool_reach_accounts [OF r [unfolded upload_pool_def Let_def] uploadAll_start [OF this]]
  show "mset (map fst es) + in_flight p + mset (drop (cursor p) items) = mset items"
    by (simp add: pending_def add.assoc)
qed

theorem upload_pool_is_bounded_witness:
  "\<exists>p. pool_reach [''a'', ''b'', ''c''] (upload_pool [''a'', ''b'', ''c''] (Fin (5 / 2))) [(''b'', True)] p \<and>
     in_flight p = {#''a'', ''c''#} \<and> in_limit (size (in_flight p)) (Fin (5 / 2))"
proof -
  let ?items = "[''a'', ''b'', ''c'']"
  let ?start = "upload_pool ?items (Fin (5 / 2))"
  let ?p = "resume ?items 1 ?start"
  have "\<lfloor>5 / 2 :: rat\<rfloor> = 2" by (simp add: floor_eq_iff)
  then have p0: "?start = pool_start 2 ?items" by (simp add: upload_pool_def js_max1_def pool_size_def)
  have "pool_step ?items ?start (''b'', True) ?p"
    by (rule pool_step.finish) (simp_all add: p0 pool_start_def)
  then have r: "pool_reach ?items ?start ([] @ [(''b'', True)]) ?p" by (rule pool_reach.step [OF pool_reach.start])
  with upload_pool_is_bounded [of ?items "Fin (5 / 2)" "\<lambda>x w. (Inr () :: unit + unit, w)" "()" "\<lambda>t. 0"]
  have "in_limit (size (in_flight ?p)) (Fin (5 / 2))" by blast
  moreover have "in_flight ?p = {#''a'', ''c''#}" by (simp add: p0 in_flight_def resume_def pool_start_def)
  ultimately show ?thesis using r by (intro exI [of _ ?p]) simp
qed

text \<open>
  C15. The upload pool gets to its end. Unless the limit is \<open>NaN\<close>, \<open>uploadAll\<close> ends after at most one transfer per
  item, and when it succeeds it has transferred every item exactly once. In every state that the pool
  reaches without a failure, something is in flight as long as something is left to transfer, and
  the run can be completed: further transfers lead to a state with nothing in flight, in which every
  item has been transferred exactly once.
\<close>

theorem upload_pool_delivers:
  assumes "c \<noteq> NaN"
  shows "(\<exists>order. uploadAll sched items c fn w = seq_run fn order w \<and> mset order \<subseteq># mset items \<and>
       (\<not> isl (fst (uploadAll sched items c fn w)) \<longrightarrow> mset order = mset items)) \<and>
     (pool_reach items (upload_pool items c) es p \<and> list_all snd es \<longrightarrow>
       (pending items p \<noteq> {#} \<longrightarrow> in_flight p \<noteq> {#}) \<and>
       (\<exists>more q. pool_reach items (upload_pool items c) (es @ more) q \<and> list_all snd more \<and> in_flight q = {#} \<and>
          mset (map fst (es @ more)) = mset items))"
proof -
  let ?n = "pool_size (js_max1 c) (length items)"
  have p0: "upload_pool items c = pool_start ?n items" by (simp add: upload_pool_def)
  have n: "0 < ?n \<or> items = []" by (rule uploadAll_start [OF assms])
  have all: "mset (map fst es') = mset items"
    if "pool_reach items (upload_pool items c) es' q" "list_all snd es'" "in_flight q = {#}" for es' q
    using pool_reach_accounts [OF that(1) [unfolded p0] n] live_end [OF pool_reach_live [OF that(1) [unfolded p0] n that(2)]] that(3)
    by (simp add: busy_workers_Nil)
  obtain es' q where r: "pool_reach items (upload_pool items c) es' q" "run_of fn w (uploadAll sched items c fn w) es' q"
    using pool_run_reaches [OF pool_reach.start] unfolding uploadAll_def by (metis append_Nil)
  have "mset (map fst es') \<subseteq># mset items"
    using pool_reach_accounts [OF r(1) [unfolded p0] n] by (metis mset_subset_eq_add_left)
  with r all [OF r(1)] have "\<exists>order. uploadAll sched items c fn w = seq_run fn order w \<and> mset order \<subseteq># mset items \<and>
       (\<not> isl (fst (uploadAll sched items c fn w)) \<longrightarrow> mset order = mset items)"
    by (intro exI [of _ "map fst es'"]) (simp add: run_of_def)
  moreover have "(pending items p \<noteq> {#} \<longrightarrow> in_flight p \<noteq> {#}) \<and>
       (\<exists>more q. pool_reach items (upload_pool items c) (es @ more) q \<and> list_all snd more \<and> in_flight q = {#} \<and>
          mset (map fst (es @ more)) = mset items)"
    if "pool_reach items (upload_pool items c) es p" "list_all snd es"
    using pool_busy [OF that(1) [unfolded p0] n that(2)] pool_can_finish [OF that(1) [unfolded p0] n that(2)] all that(2)
    unfolding p0 by (metis list_all_append)
  ultimately show ?thesis by blast
qed

theorem upload_pool_delivers_witness:
  "\<exists>more q. pool_reach [''a'', ''b''] (upload_pool [''a'', ''b''] (Fin 0)) ([(''a'', True)] @ more) q \<and>
     in_flight q = {#} \<and> mset (map fst ([(''a'', True)] @ more)) = {#''a'', ''b''#}"
proof -
  let ?items = "[''a'', ''b'']"
  let ?start = "upload_pool ?items (Fin 0)"
  have p0: "?start = pool_start 1 ?items" by (simp add: upload_pool_def js_max1_def pool_size_def)
  have "pool_step ?items ?start (''a'', True) (resume ?items 0 ?start)"
    by (rule pool_step.finish) (simp_all add: p0 pool_start_def)
  then have r: "pool_reach ?items ?start ([] @ [(''a'', True)]) (resume ?items 0 ?start)" by (rule pool_reach.step [OF pool_reach.start])
  have "Fin 0 \<noteq> NaN" by simp
  from upload_pool_delivers [OF this, of "\<lambda>t. 0" ?items "\<lambda>x w. (Inr () :: unit + unit, w)" "()"
      "[(''a'', True)]" "resume ?items 0 ?start"] r
  have "\<exists>more q. pool_reach ?items ?start ([(''a'', True)] @ more) q \<and> list_all snd more \<and> in_flight q = {#} \<and>
      mset (map fst ([(''a'', True)] @ more)) = mset ?items"
    by simp
  then show ?thesis by auto
qed

end
