(* ===== verification/Utf16.thy ===== *)
theory Utf16
  imports Json
begin

text \<open>
  The order of JavaScript strings. \<open>a < b\<close> compares UTF-16 code units, while Go and
  \<open>Buffer.compare\<close> compare UTF-8 bytes. The code units are computed from the UTF-8
  representation; on the basic multilingual plane the two orders agree, because both are the
  order of the code points.
\<close>

section \<open>Code units\<close>

definition utf16_of_code :: "nat \<Rightarrow> nat list" where
  "utf16_of_code n =
     (if n < 65536 then [n] else [55296 + (n - 65536) div 1024, 56320 + (n - 65536) mod 1024])"

text \<open>The payload of a continuation byte.\<close>

definition cont :: "char \<Rightarrow> nat" where
  "cont c = of_char c mod 64"

fun utf16 :: "string \<Rightarrow> nat list" where
  "utf16 [] = []"
| "utf16 (a # s) =
     (let n = (of_char a :: nat)
      in if n < 128 then n # utf16 s
         else if n < 224
         then (case s of b # t \<Rightarrow> utf16_of_code (n mod 32 * 64 + cont b) @ utf16 t | _ \<Rightarrow> [65533])
         else if n < 240
         then (case s of b # c # t \<Rightarrow> utf16_of_code (n mod 16 * 4096 + cont b * 64 + cont c) @ utf16 t | _ \<Rightarrow> [65533])
         else (case s of
                 b # c # d # t \<Rightarrow>
                   utf16_of_code (n mod 8 * 262144 + cont b * 4096 + cont c * 64 + cont d) @ utf16 t
               | _ \<Rightarrow> [65533]))"

text \<open>\<open>a < b\<close> and \<open>a > b\<close> on strings.\<close>

definition js_less :: "string \<Rightarrow> string \<Rightarrow> bool" where
  "js_less a b \<longleftrightarrow> utf16 a < utf16 b"

section \<open>Strings of code points\<close>

abbreviation utf8 :: "nat list \<Rightarrow> string" where
  "utf8 cs \<equiv> concat (map utf8_of_code cs)"

definition bmp :: "nat list \<Rightarrow> bool" where
  "bmp cs \<longleftrightarrow> list_all (\<lambda>n. n < 65536) cs"

lemma mod_offset: "x < k \<Longrightarrow> (k * j + x) mod k = (x :: nat)"
  by simp

lemma sextets: "(n :: nat) div 4096 * 4096 + n div 64 mod 64 * 64 + n mod 64 = n"
proof -
  have "n div 64 = n div 4096 * 64 + n div 64 mod 64"
    using div_mult_mod_eq [of "n div 64" 64] by (simp add: div_mult2_eq [of n 64 64, symmetric])
  then show ?thesis using div_mult_mod_eq [of n 64] by linarith
qed

lemma utf16_two:
  assumes "a < 32" "b < 64"
  shows "utf16 (char_of (192 + a) # char_of (128 + b) # s) = utf16_of_code (a * 64 + b) @ utf16 s"
  using assms mod_offset [of a 32 6] mod_offset [of b 64 2] by (simp add: cont_def Let_def)

lemma utf16_three:
  assumes "a < 16" "b < 64" "c < 64"
  shows "utf16 (char_of (224 + a) # char_of (128 + b) # char_of (128 + c) # s) =
         utf16_of_code (a * 4096 + b * 64 + c) @ utf16 s"
  using assms mod_offset [of a 16 14] mod_offset [of b 64 2] mod_offset [of c 64 2]
  by (simp add: cont_def Let_def)

lemma utf16_code:
  assumes "n < 65536"
  shows "utf16 (utf8_of_code n @ s) = n # utf16 s"
proof -
  consider "n < 128" | "128 \<le> n" "n < 2048" | "2048 \<le> n" by linarith
  then show ?thesis
  proof cases
    case 1
    then show ?thesis by (simp add: utf8_of_code_def)
  next
    case 2
    then have "n div 64 < 32" by (simp add: less_mult_imp_div_less)
    from utf16_two [OF this, of "n mod 64" s] 2 show ?thesis
      by (simp add: utf8_of_code_def utf16_of_code_def del: utf16.simps)
  next
    case 3
    have "n div 4096 < 16" using assms by (simp add: less_mult_imp_div_less)
    from utf16_three [OF this, of "n div 64 mod 64" "n mod 64" s] 3 assms show ?thesis
      by (simp add: utf8_of_code_def utf16_of_code_def sextets del: utf16.simps)
  qed
qed

lemma utf16_utf8: "bmp cs \<Longrightarrow> utf16 (utf8 cs) = cs"
  by (induction cs) (simp_all add: bmp_def utf16_code)

section \<open>The order of the bytes\<close>

lemma char_of_less: "m < 256 \<Longrightarrow> n < 256 \<Longrightarrow> (char_of m < (char_of n :: char)) = (m < (n :: nat))"
  by (simp add: less_char_def)

lemma utf8_of_code_less:
  assumes "m < n" "n < 65536"
  shows "utf8_of_code m @ s < utf8_of_code n @ t"
proof -
  consider (a) "n < 128" | (b) "m < 128" "128 \<le> n" | (c) "128 \<le> m" "n < 2048"
    | (d) "128 \<le> m" "m < 2048" "2048 \<le> n" | (e) "2048 \<le> m" using assms(1) by linarith
  then show ?thesis
  proof cases
    case a
    with assms show ?thesis by (simp add: utf8_of_code_def char_of_less)
  next
    case b
    with assms show ?thesis by (auto simp: utf8_of_code_def char_of_less)
  next
    case c
    have "m div 64 < n div 64 \<or> m div 64 = n div 64 \<and> m mod 64 < n mod 64"
      using assms(1) div_mult_mod_eq [of m 64] div_mult_mod_eq [of n 64] div_le_mono [of m n 64] by linarith
    moreover have "192 + m div 64 < 256" "192 + n div 64 < 256" "128 + m mod 64 < 256" "128 + n mod 64 < 256"
      using c assms(1) by auto
    ultimately show ?thesis using c assms(1) by (auto simp: utf8_of_code_def char_of_less)
  next
    case d
    then have "192 + m div 64 < 224" by auto
    with d assms show ?thesis by (auto simp: utf8_of_code_def char_of_less)
  next
    case e
    have "m div 4096 < n div 4096 \<or> m div 4096 = n div 4096 \<and>
        (m div 64 mod 64 < n div 64 mod 64 \<or> m div 64 mod 64 = n div 64 mod 64 \<and> m mod 64 < n mod 64)"
      using assms(1) sextets [of m] sextets [of n] div_le_mono [of m n 4096]
        mod_less_divisor [of 64 m] mod_less_divisor [of 64 n] by linarith
    moreover have "224 + m div 4096 < 256" "224 + n div 4096 < 256" "128 + m mod 64 < 256" "128 + n mod 64 < 256"
      "128 + m div 64 mod 64 < 256" "128 + n div 64 mod 64 < 256" using assms by auto
    ultimately show ?thesis using e assms by (auto simp: utf8_of_code_def char_of_less)
  qed
qed

lemma append_less_cancel [simp]: "(xs @ ys < xs @ zs) = (ys < (zs :: 'a :: linorder list))"
  by (induction xs) simp_all

lemma utf8_of_code_not_Nil [simp]: "utf8_of_code n \<noteq> []"
  by (simp add: utf8_of_code_def)

lemma Nil_less: "[] < (xs :: 'a :: linorder list) \<longleftrightarrow> xs \<noteq> []"
  by (cases xs) simp_all

lemma utf8_less: "bmp cs \<Longrightarrow> bmp ds \<Longrightarrow> utf8 cs < utf8 ds \<longleftrightarrow> cs < ds"
proof (induction cs arbitrary: ds)
  case Nil
  then show ?case by (cases ds) (simp_all add: Nil_less)
next
  case (Cons c cs)
  show ?case
  proof (cases ds)
    case Nil
    then show ?thesis by simp
  next
    case (Cons d ds')
    consider "c < d" | "c = d" | "d < c" by linarith
    then show ?thesis
    proof cases
      case 1
      then show ?thesis using Cons "Cons.prems" utf8_of_code_less [of c d] by (simp add: bmp_def)
    next
      case 2
      then show ?thesis using Cons Cons.IH [of ds'] "Cons.prems" by (simp add: bmp_def)
    next
      case 3
      then have "utf8 ds < utf8 (c # cs)" using Cons "Cons.prems" utf8_of_code_less [of d c] by (simp add: bmp_def)
      then show ?thesis using 3 Cons by (meson Cons_less_Cons not_less_iff_gr_or_eq)
    qed
  qed
qed

theorem js_less_utf8: "bmp cs \<Longrightarrow> bmp ds \<Longrightarrow> js_less (utf8 cs) (utf8 ds) \<longleftrightarrow> utf8 cs < utf8 ds"
  by (simp add: js_less_def utf16_utf8 utf8_less)

end
