(* ===== verification/Dash_Manifest.thy ===== *)
theory Dash_Manifest
  imports Sdk_Manifest Utf16
begin

text \<open>
  \<open>apps/dashboard/lib/deploy-manifest.ts\<close>: the manifest of a folder dropped into the browser.

  A \<open>File\<close> is its name, its relative path, its declared type and what reading it gives. A
  dropped directory is a tree whose reader hands out its children in batches. Two details
  differ from the command-line side: the sort compares strings with \<open><\<close>, hence by UTF-16 code
  units, and the table of content types is a plain object, so a lookup also finds what the
  object inherits.
\<close>

section \<open>Definitions\<close>

record File =
  file_name :: string
  webkitRelativePath :: string
  file_type :: string
  file_size :: nat
  file_bytes :: "string result"

record DroppedFile =
  dropped_path :: string
  dropped_file :: File

text \<open>A content type, or a value inherited from \<open>Object.prototype\<close>.\<close>

datatype mime_value = Mime string | Inherited

record DashManifestFile = digest_file +
  dm_size :: nat
  dm_content_type :: mime_value

record BuiltManifest =
  built_manifest_files :: "DashManifestFile list"
  built_digest :: string
  built_byHash :: "(string \<times> File) list"

definition EXT_CONTENT_TYPE :: "(string \<times> string) list" where
  "EXT_CONTENT_TYPE =
    [(''html'', ''text/html; charset=utf-8''), (''htm'', ''text/html; charset=utf-8''),
     (''css'', ''text/css; charset=utf-8''), (''js'', ''text/javascript; charset=utf-8''),
     (''mjs'', ''text/javascript; charset=utf-8''), (''json'', ''application/json''),
     (''map'', ''application/json''), (''svg'', ''image/svg+xml''),
     (''wasm'', ''application/wasm''), (''webmanifest'', ''application/manifest+json''),
     (''txt'', ''text/plain; charset=utf-8''), (''xml'', ''application/xml''),
     (''ico'', ''image/x-icon''), (''png'', ''image/png''), (''jpg'', ''image/jpeg''),
     (''jpeg'', ''image/jpeg''), (''gif'', ''image/gif''), (''webp'', ''image/webp''),
     (''avif'', ''image/avif''), (''woff'', ''font/woff''), (''woff2'', ''font/woff2''),
     (''ttf'', ''font/ttf''), (''otf'', ''font/otf''), (''eot'', ''application/vnd.ms-fontobject''),
     (''pdf'', ''application/pdf''), (''mp4'', ''video/mp4''), (''webm'', ''video/webm''),
     (''mp3'', ''audio/mpeg''), (''wav'', ''audio/wav'')]"

definition dash_contentTypeFor :: "string \<Rightarrow> string \<Rightarrow> mime_value" where
  "dash_contentTypeFor path fallback =
     (let ext = (case lastIndexOf path (CHR ''.'') of Some dot \<Rightarrow> toLowerCase (drop (Suc dot) path) | None \<Rightarrow> [])
      in (case map_of EXT_CONTENT_TYPE ext of
            Some t \<Rightarrow> Mime t
          | None \<Rightarrow>
              if ext = ''__proto__'' \<or> ext \<in> set object_prototype then Inherited
              else Mime (if fallback = [] then ''application/octet-stream'' else fallback)))"

definition byPath :: "'a digest_file_scheme \<Rightarrow> 'b digest_file_scheme \<Rightarrow> int" where
  "byPath a b = (if js_less (df_path a) (df_path b) then - 1 else if js_less (df_path b) (df_path a) then 1 else 0)"

definition sort_byPath :: "'a digest_file_scheme list \<Rightarrow> 'a digest_file_scheme list" where
  "sort_byPath files = sort_by (\<lambda>a b. byPath a b \<le> 0) files"

definition digest_lines :: "'a digest_file_scheme list \<Rightarrow> string" where
  "digest_lines files = concat (map digest_line (sort_byPath files))"

definition computeDigest :: "'a digest_file_scheme list \<Rightarrow> string" where
  "computeDigest files = to_hex (sha256_bytes (digest_lines files))"

text \<open>
  The loop over the files: the manifest, the first file of each hash, and the calls of
  \<open>onHash\<close>. \<open>file.arrayBuffer()\<close> may reject.
\<close>

fun hash_loop ::
  "nat \<Rightarrow> DroppedFile list \<Rightarrow> DashManifestFile list \<Rightarrow> (string \<times> File) list \<Rightarrow> nat
   \<Rightarrow> (DashManifestFile list \<times> (string \<times> File) list) result \<times> (nat \<times> nat) list" where
  "hash_loop n [] manifest byHash k = (Inr (manifest, byHash), [])"
| "hash_loop n (d # ds) manifest byHash k =
     (case file_bytes (dropped_file d) of
        Inl e \<Rightarrow> (Inl e, [])
      | Inr bytes \<Rightarrow>
          (let sha = sha256Hex bytes;
               entry = \<lparr>df_path = dropped_path d, df_sha256 = sha, dm_size = file_size (dropped_file d),
                        dm_content_type = dash_contentTypeFor (dropped_path d) (file_type (dropped_file d))\<rparr>;
               byHash' = (if map_of byHash sha = None then byHash @ [(sha, dropped_file d)] else byHash);
               (r, calls) = hash_loop n ds (manifest @ [entry]) byHash' (Suc k)
           in (r, (Suc k, n) # calls)))"

definition dash_buildManifest :: "DroppedFile list \<Rightarrow> BuiltManifest result \<times> (nat \<times> nat) list" where
  "dash_buildManifest ds =
     (case hash_loop (length ds) ds [] [] 0 of
        (Inl e, calls) \<Rightarrow> (Inl e, calls)
      | (Inr (manifest, byHash), calls) \<Rightarrow>
          (let files = sort_byPath manifest
           in (Inr \<lparr>built_manifest_files = files, built_digest = computeDigest files, built_byHash = byHash\<rparr>, calls)))"

section \<open>Collecting a folder\<close>

text \<open>
  An entry of a dropped tree: a file (reading its handle may fail) or a directory with the
  batches that its reader returns, after which it returns an empty batch.
\<close>

datatype fs_entry = FsFile string "File result" | FsDir string "fs_entry list list"

fun entry_name :: "fs_entry \<Rightarrow> string" where
  "entry_name (FsFile name f) = name"
| "entry_name (FsDir name bs) = name"

text \<open>\<open>pump\<close> reads until an empty batch.\<close>

fun pump :: "'a list list \<Rightarrow> 'a list" where
  "pump [] = []"
| "pump (batch # batches) = (if batch = [] then [] else batch @ pump batches)"

lemma set_pump: "e \<in> set (pump bs) \<Longrightarrow> \<exists>b \<in> set bs. e \<in> set b"
  by (induction bs) (auto split: if_splits)

lemma size_pump: "size_list size (pump bs) \<le> size_list (size_list size) bs"
proof (induction bs)
  case (Cons b bs)
  have "size_list size (b @ pump bs) \<le> size_list size b + size_list size (pump bs)" by simp
  then show ?case using Cons by simp
qed simp

function walk_entries :: "fs_entry list \<Rightarrow> string \<Rightarrow> DroppedFile list \<Rightarrow> DroppedFile list result" where
  "walk_entries [] prefix out = Inr out"
| "walk_entries (FsFile name f # es) prefix out =
     (case f of
        Inl e \<Rightarrow> Inl e
      | Inr file \<Rightarrow> walk_entries es prefix (out @ [\<lparr>dropped_path = prefix @ name, dropped_file = file\<rparr>]))"
| "walk_entries (FsDir name bs # es) prefix out =
     (case walk_entries (pump bs) (prefix @ name @ ''/'') out of
        Inl e \<Rightarrow> Inl e
      | Inr out1 \<Rightarrow> walk_entries es prefix out1)"
  by pat_completeness auto
termination
proof (relation "measure (\<lambda>(es, prefix, out). size_list size es)", goal_cases)
  case (3 name bs es prefix out)
  then show ?case using size_pump [of bs] by simp
qed simp_all

definition walkEntry :: "fs_entry \<Rightarrow> string \<Rightarrow> DroppedFile list \<Rightarrow> DroppedFile list result" where
  "walkEntry entry prefix out = walk_entries [entry] prefix out"

record DataTransferItem =
  item_kind :: string
  item_entry :: "fs_entry option"

definition drop_roots :: "DataTransferItem list \<Rightarrow> fs_entry list" where
  "drop_roots items = List.map_filter item_entry (filter (\<lambda>i. item_kind i = ''file'') items)"

definition collectDataTransferItems :: "DataTransferItem list \<Rightarrow> DroppedFile list result" where
  "collectDataTransferItems items =
     (case drop_roots items of
        [FsDir name bs] \<Rightarrow> walk_entries (pump bs) [] []
      | roots \<Rightarrow> walk_entries roots [] [])"

definition dropRootName :: "DataTransferItem list \<Rightarrow> string" where
  "dropRootName items = (case drop_roots items of [FsDir name bs] \<Rightarrow> name | _ \<Rightarrow> [])"

definition inputRootName :: "File list \<Rightarrow> string" where
  "inputRootName fileList =
     (let rel = (case fileList of f # fs \<Rightarrow> webkitRelativePath f | [] \<Rightarrow> []);
          parts = split_on (CHR ''/'') rel
      in if 1 < length parts then hd parts else [])"

definition input_path :: "File \<Rightarrow> string" where
  "input_path file =
     (let rel = (if webkitRelativePath file = [] then file_name file else webkitRelativePath file);
          parts = split_on (CHR ''/'') rel
      in if 1 < length parts then join ''/'' (tl parts) else rel)"

definition collectInputFiles :: "File list \<Rightarrow> DroppedFile list" where
  "collectInputFiles fileList =
     map (\<lambda>f. \<lparr>dropped_path = input_path f, dropped_file = f\<rparr>) (filter (\<lambda>f. input_path f \<noteq> []) fileList)"

section \<open>The order of the files\<close>

lemma insert_by_cong:
  "(\<And>y. y \<in> set ys \<Longrightarrow> le x y = le' x y) \<Longrightarrow> insert_by le x ys = insert_by le' x ys"
  by (induction ys) auto

lemma sort_by_cong:
  "(\<And>x y. x \<in> set xs \<Longrightarrow> y \<in> set xs \<Longrightarrow> le x y = le' x y) \<Longrightarrow> sort_by le xs = sort_by le' xs"
proof (induction xs)
  case Nil
  then show ?case by (simp add: sort_by_def)
next
  case (Cons x xs)
  have "sort_by le xs = sort_by le' xs" using Cons by simp
  moreover have "insert_by le x (sort_by le' xs) = insert_by le' x (sort_by le' xs)"
    using Cons.prems by (intro insert_by_cong) simp
  ultimately show ?case by (simp add: sort_by_def)
qed

text \<open>A path all of whose characters are on the basic multilingual plane.\<close>

definition bmp_path :: "string \<Rightarrow> bool" where
  "bmp_path p \<longleftrightarrow> (\<exists>cs. bmp cs \<and> p = utf8 cs)"

lemma bmp_path_ascii:
  assumes "\<And>c. c \<in> set s \<Longrightarrow> (of_char c :: nat) < 128"
  shows "bmp_path s"
proof -
  have "utf8 (map of_char s) = s" using assms by (induction s) (simp_all add: utf8_of_code_def)
  moreover have "bmp (map of_char s)" using assms by (fastforce simp: bmp_def list_all_iff)
  ultimately show ?thesis unfolding bmp_path_def by metis
qed

lemma byPath_bmp:
  assumes "bmp_path (df_path a)" "bmp_path (df_path b)"
  shows "byPath a b \<le> 0 \<longleftrightarrow> df_path a \<le> df_path b"
  using assms unfolding bmp_path_def byPath_def by (auto simp: js_less_utf8)

lemma digest_lines_bmp:
  assumes "list_all (\<lambda>f. bmp_path (df_path f)) fs"
  shows "digest_lines fs = digest_text fs"
proof -
  have "sort_byPath fs = sort_by (\<lambda>a b. buffer_compare (df_path a) (df_path b) \<le> 0) fs"
    unfolding sort_byPath_def using assms
    by (intro sort_by_cong) (simp add: byPath_bmp buffer_compare_le list_all_iff)
  then show ?thesis by (simp add: digest_lines_def digest_text_def)
qed

section \<open>Content types\<close>

lemma content_tables: "map_of BY_EXT (CHR ''.'' # e) = map_of EXT_CONTENT_TYPE e"
  by (simp add: BY_EXT_def EXT_CONTENT_TYPE_def)

lemma lastIndexOf_drop: "lastIndexOf s c = Some i \<Longrightarrow> drop i s = c # drop (Suc i) s"
proof (induction s arbitrary: i)
  case (Cons d s)
  then show ?case by (auto split: option.splits if_splits)
qed simp

section \<open>Prefixes\<close>

definition below :: "string \<Rightarrow> DroppedFile \<Rightarrow> DroppedFile" where
  "below p d = d\<lparr>dropped_path := p @ dropped_path d\<rparr>"

lemma walk_entries_prefix:
  "walk_entries es (p @ q) (map (below p) out) = map_sum id (map (below p)) (walk_entries es q out)"
proof (induction es q out rule: walk_entries.induct)
  case (2 name f es prefix out)
  then show ?case by (cases f) (auto simp: below_def)
next
  case (3 name bs es prefix out)
  then show ?case by (cases "walk_entries (pump bs) (prefix @ name @ ''/'') out") auto
qed simp

lemma split_on_head:
  "c \<notin> set a \<Longrightarrow> split_on c (a @ c # p) = a # split_on c p"
  by (induction a) (auto split: list.splits)

section \<open>Properties\<close>

text \<open>
  The browser's digest. For paths on the basic multilingual plane the digest that the
  dashboard computes is the SDK's, and hence the server's.
\<close>

theorem dashboard_digest_agrees:
  assumes "list_all (\<lambda>f. bmp_path (df_path f)) files"
  shows "computeDigest files = digest files"
  by (simp add: computeDigest_def digest_def digest_lines_bmp [OF assms])

theorem dashboard_digest_agrees_witness: "computeDigest sample_files = digest sample_files"
proof -
  have "bmp_path ''index.html''" "bmp_path ''app.js''"
    by (rule bmp_path_ascii, auto)+
  then show ?thesis by (intro dashboard_digest_agrees) (simp add: sample_files_def)
qed

text \<open>
  The browser's digest diverges beyond that plane. For two files whose names begin with U+FF21 and
  with the emoji U+1F600, the text that the dashboard hashes is not the one of the SDK and of the server:
  the code units of the surrogate pair sort before U+FF21, the bytes after it.
\<close>

definition emoji_files :: "digest_file list" where
  "emoji_files =
     [\<lparr>df_path = [CHR 0xEF, CHR 0xBC, CHR 0xA1] @ ''.txt'', df_sha256 = replicate 64 (CHR ''a'')\<rparr>,
      \<lparr>df_path = [CHR 0xF0, CHR 0x9F, CHR 0x98, CHR 0x80] @ ''.txt'', df_sha256 = replicate 64 (CHR ''b'')\<rparr>]"

theorem dashboard_digest_diverges:
  "digest_lines emoji_files \<noteq> digest_text emoji_files \<and>
   computeDigest emoji_files = to_hex (sha256_bytes (digest_lines emoji_files)) \<and>
   digest emoji_files = to_hex (sha256_bytes (digest_text emoji_files)) \<and>
   list_all line_ok emoji_files \<and> distinct (map df_path emoji_files)"
proof -
  have "js_less [CHR 0xF0, CHR 0x9F, CHR 0x98, CHR 0x80, CHR ''.'', CHR ''t'', CHR ''x'', CHR ''t'']
      [CHR 0xEF, CHR 0xBC, CHR 0xA1, CHR ''.'', CHR ''t'', CHR ''x'', CHR ''t'']"
    by (simp add: js_less_def Let_def cont_def utf16_of_code_def)
  then have "sort_byPath emoji_files = rev emoji_files"
    by (auto simp: sort_byPath_def emoji_files_def sort_by_def byPath_def js_less_def)
  moreover have "sort_by (\<lambda>a b. buffer_compare (df_path a) (df_path b) \<le> 0) emoji_files = emoji_files"
    by (simp add: emoji_files_def sort_by_def)
  ultimately have "digest_lines emoji_files \<noteq> digest_text emoji_files"
    by (simp add: digest_lines_def digest_text_def emoji_files_def digest_line_def numeral_eq_Suc)
  then show ?thesis by (simp add: computeDigest_def digest_def emoji_files_def line_ok_def)
qed

text \<open>
  The directory picker and the drop agree. A single dropped folder is stripped: its files get
  their paths below it. A picker that gives each file its path with the folder in front yields the
  same list of paths and files, in the same order.
\<close>

theorem picker_agrees_with_drop:
  assumes "collectDataTransferItems [\<lparr>item_kind = ''file'', item_entry = Some (FsDir folder bs)\<rparr>] = Inr ds"
    and "CHR ''/'' \<notin> set folder" "\<And>d. d \<in> set ds \<Longrightarrow> dropped_path d \<noteq> []"
    and "walk_entries [FsDir folder bs] [] [] = Inr full"
    and "\<And>d. d \<in> set full \<Longrightarrow> webkitRelativePath (dropped_file d) = dropped_path d"
  shows "collectInputFiles (map dropped_file full) = ds"
proof -
  have w: "walk_entries (pump bs) [] [] = Inr ds"
    using assms(1) by (simp add: collectDataTransferItems_def drop_roots_def map_filter_def)
  have full: "full = map (below (folder @ ''/'')) ds"
    using assms(4) walk_entries_prefix [of "pump bs" "folder @ ''/''" "[]" "[]"] w by simp
  have path: "input_path (dropped_file d) = dropped_path d" if "d \<in> set ds" for d
  proof -
    have "below (folder @ ''/'') d \<in> set full" using that full by simp
    from assms(5) [OF this] have "webkitRelativePath (dropped_file d) = folder @ CHR ''/'' # dropped_path d"
      by (simp add: below_def)
    then show ?thesis
      by (simp add: input_path_def Let_def split_on_head [OF assms(2)] split_on_not_Nil join_split_on)
  qed
  have "map dropped_file full = map dropped_file ds" by (simp add: full below_def)
  moreover have "filter (\<lambda>f. input_path f \<noteq> []) (map dropped_file ds) = map dropped_file ds"
    using path assms(3) by (auto simp: filter_id_conv)
  ultimately show ?thesis
    unfolding collectInputFiles_def using path by (auto intro!: map_idI DroppedFile.equality)
qed

definition sample_picked :: File where
  "sample_picked =
     \<lparr>file_name = ''app.js'', webkitRelativePath = ''mysite/assets/app.js'', file_type = [], file_size = 2,
      file_bytes = Inr ''hi''\<rparr>"

theorem picker_agrees_with_drop_witness:
  "\<exists>ds. collectDataTransferItems
      [\<lparr>item_kind = ''file'', item_entry = Some (FsDir ''mysite'' [[FsDir ''assets'' [[FsFile ''app.js'' (Inr sample_picked)]]]])\<rparr>] = Inr ds \<and>
     map dropped_path ds = [''assets/app.js''] \<and> collectInputFiles [sample_picked] = ds"
proof -
  let ?bs = "[[FsDir ''assets'' [[FsFile ''app.js'' (Inr sample_picked)]]]]"
  let ?ds = "[\<lparr>dropped_path = ''assets/app.js'', dropped_file = sample_picked\<rparr>]"
  let ?full = "[\<lparr>dropped_path = ''mysite/assets/app.js'', dropped_file = sample_picked\<rparr>]"
  have d: "collectDataTransferItems [\<lparr>item_kind = ''file'', item_entry = Some (FsDir ''mysite'' ?bs)\<rparr>] = Inr ?ds"
    by (simp add: collectDataTransferItems_def drop_roots_def map_filter_def)
  have f: "walk_entries [FsDir ''mysite'' ?bs] [] [] = Inr ?full" by simp
  have "collectInputFiles (map dropped_file ?full) = ?ds"
    by (rule picker_agrees_with_drop [OF d _ _ f]) (simp_all add: sample_picked_def)
  with d show ?thesis by simp
qed

text \<open>
  Content types agree with the SDK. Unless the extension is a name that objects inherit, the
  dashboard infers the SDK's content type for a file without a declared type; for
  \<open>notes.constructor\<close> it takes the inherited function instead.
\<close>

theorem dashboard_content_types:
  "(dash_contentTypeFor path [] \<noteq> Inherited \<longrightarrow> dash_contentTypeFor path [] = Mime (contentTypeForPath path)) \<and>
   dash_contentTypeFor ''notes.constructor'' [] = Inherited"
proof
  have nil: "map_of BY_EXT [] = None" "map_of EXT_CONTENT_TYPE [] = None"
    by (simp_all add: BY_EXT_def EXT_CONTENT_TYPE_def)
  show "dash_contentTypeFor path [] \<noteq> Inherited \<longrightarrow> dash_contentTypeFor path [] = Mime (contentTypeForPath path)"
  proof (cases "lastIndexOf path (CHR ''.'')")
    case None
    then show ?thesis by (simp add: dash_contentTypeFor_def contentTypeForPath_def Let_def nil)
  next
    case (Some i)
    have "toLowerCase (drop i path) = CHR ''.'' # toLowerCase (drop (Suc i) path)"
      using lastIndexOf_drop [OF Some] by (simp add: toLowerCase_def lower_char_def)
    with Some show ?thesis
      by (auto simp: dash_contentTypeFor_def contentTypeForPath_def Let_def content_tables split: option.splits)
  qed
qed code_simp

theorem dashboard_content_types_witness:
  "dash_contentTypeFor ''app.JS'' [] = Mime (contentTypeForPath ''app.JS'') \<and>
   contentTypeForPath ''app.JS'' = ''text/javascript; charset=utf-8''"
proof -
  have "dash_contentTypeFor ''app.JS'' [] \<noteq> Inherited"
    "contentTypeForPath ''app.JS'' = ''text/javascript; charset=utf-8''" by code_simp+
  with dashboard_content_types [of "''app.JS''"] show ?thesis by simp
qed

end
