(* ===== verification/Dash_TokenCache.thy ===== *)
theory Dash_TokenCache
  imports Web
begin

text \<open>
  \<open>apps/dashboard/lib/token-cache.ts\<close>: the cache of minted bearer tokens. A JavaScript \<open>Map\<close> is
  the list of its entries in insertion order, with distinct keys; setting a key that is there
  keeps its position. The clock is read where the code reads it, so \<open>set\<close> takes the time of the
  sweep and the time of the new entry.
\<close>

section \<open>Definitions\<close>

record token_entry =
  te_token :: string
  te_expiresAt :: int

record TokenCache =
  tc_store :: "(string \<times> token_entry) list"
  tc_ttlMs :: int
  tc_maxEntries :: int

definition new_TokenCache :: "int option \<Rightarrow> int option \<Rightarrow> TokenCache" where
  "new_TokenCache ttlMs maxEntries =
     \<lparr>tc_store = [], tc_ttlMs = (case ttlMs of Some n \<Rightarrow> n | None \<Rightarrow> 240000),
      tc_maxEntries = (case maxEntries of Some n \<Rightarrow> n | None \<Rightarrow> 10000)\<rparr>"

text \<open>\<open>Map.delete\<close>.\<close>

definition map_delete :: "string \<Rightarrow> (string \<times> 'v) list \<Rightarrow> (string \<times> 'v) list" where
  "map_delete k m = filter (\<lambda>kv. fst kv \<noteq> k) m"

definition tc_get :: "TokenCache \<Rightarrow> string \<Rightarrow> int \<Rightarrow> string option \<times> TokenCache" where
  "tc_get c key now =
     (case map_of (tc_store c) key of
        None \<Rightarrow> (None, c)
      | Some hit \<Rightarrow>
          if te_expiresAt hit \<le> now then (None, c\<lparr>tc_store := map_delete key (tc_store c)\<rparr>)
          else (Some (te_token hit), c))"

text \<open>The loop that deletes the oldest entry while the cap is reached.\<close>

function evict_oldest :: "int \<Rightarrow> (string \<times> token_entry) list \<Rightarrow> (string \<times> token_entry) list" where
  "evict_oldest cap m =
     (if int (length m) < cap then m
      else (case m of [] \<Rightarrow> m | kv # rest \<Rightarrow> evict_oldest cap (map_delete (fst kv) m)))"
  by pat_completeness auto
termination
  by (relation "measure (\<lambda>(cap, m). length m)") (auto simp: map_delete_def intro: le_less_trans [OF length_filter_le])

declare evict_oldest.simps [simp del]

definition evictIfNeeded :: "TokenCache \<Rightarrow> int \<Rightarrow> TokenCache" where
  "evictIfNeeded c now =
     (if int (length (tc_store c)) < tc_maxEntries c then c
      else c\<lparr>tc_store := evict_oldest (tc_maxEntries c)
               (filter (\<lambda>kv. \<not> te_expiresAt (snd kv) \<le> now) (tc_store c))\<rparr>)"

definition tc_set :: "TokenCache \<Rightarrow> string \<Rightarrow> string \<Rightarrow> int \<Rightarrow> int \<Rightarrow> TokenCache" where
  "tc_set c key token sweep now =
     (let c1 = evictIfNeeded c sweep
      in c1\<lparr>tc_store := assoc_put key \<lparr>te_token = token, te_expiresAt = now + tc_ttlMs c1\<rparr> (tc_store c1)\<rparr>)"

definition tc_delete :: "TokenCache \<Rightarrow> string \<Rightarrow> TokenCache" where
  "tc_delete c key = c\<lparr>tc_store := map_delete key (tc_store c)\<rparr>"

definition tc_size :: "TokenCache \<Rightarrow> nat" where
  "tc_size c = length (tc_store c)"

definition tokenCacheKey :: "string \<Rightarrow> string option \<Rightarrow> string" where
  "tokenCacheKey sessionId activeOrgId =
     sessionId @ '':'' @ (case activeOrgId of Some org \<Rightarrow> org | None \<Rightarrow> [])"

section \<open>Histories\<close>

datatype cache_event = SetEv string string int int | GetEv string int | DeleteEv string

fun event_step :: "cache_event \<Rightarrow> TokenCache \<Rightarrow> TokenCache" where
  "event_step (SetEv key token sweep now) c = tc_set c key token sweep now"
| "event_step (GetEv key now) c = snd (tc_get c key now)"
| "event_step (DeleteEv key) c = tc_delete c key"

text \<open>The caches that a sequence of calls can produce, with the calls, newest first.\<close>

inductive cached :: "int \<Rightarrow> int \<Rightarrow> cache_event list \<Rightarrow> TokenCache \<Rightarrow> bool" for ttl cap where
  new: "cached ttl cap [] (new_TokenCache (Some ttl) (Some cap))"
| call: "cached ttl cap h c \<Longrightarrow> cached ttl cap (e # h) (event_step e c)"

text \<open>The last token set under a key and not deleted since, with its time.\<close>

fun last_set :: "cache_event list \<Rightarrow> string \<Rightarrow> (string \<times> int) option" where
  "last_set [] k = None"
| "last_set (SetEv key token sweep now # h) k = (if key = k then Some (token, now) else last_set h k)"
| "last_set (GetEv key now # h) k = last_set h k"
| "last_set (DeleteEv key # h) k = (if key = k then None else last_set h k)"

section \<open>The store as a map\<close>

lemma set_evict_oldest: "set (evict_oldest cap m) \<subseteq> set m"
proof (induction cap m rule: evict_oldest.induct)
  case (1 cap m)
  then show ?case by (subst evict_oldest.simps) (auto simp: map_delete_def split: list.splits)
qed

lemma length_evict_oldest: "int (length (evict_oldest cap m)) < cap \<or> evict_oldest cap m = []"
proof (induction cap m rule: evict_oldest.induct)
  case (1 cap m)
  then show ?case by (subst (1 2) evict_oldest.simps) (auto split: list.splits)
qed

lemma length_evict_le: "length (evict_oldest cap m) \<le> length m"
proof (induction cap m rule: evict_oldest.induct)
  case (1 cap m)
  show ?case
  proof (cases "int (length m) < cap \<or> m = []")
    case True
    then show ?thesis by (subst evict_oldest.simps) auto
  next
    case False
    then obtain kv rest where m: "m = kv # rest" by (cases m) auto
    have "length (map_delete (fst kv) m) \<le> length m" by (simp add: map_delete_def)
    moreover have "evict_oldest cap m = evict_oldest cap (map_delete (fst kv) m)"
      using False m by (subst evict_oldest.simps) simp
    ultimately show ?thesis using 1 [OF _ m] False by auto
  qed
qed

lemma distinct_filter_keys: "distinct (map fst m) \<Longrightarrow> distinct (map fst (filter P m))"
  by (induction m) auto

lemma distinct_evict: "distinct (map fst m) \<Longrightarrow> distinct (map fst (evict_oldest cap m))"
proof (induction cap m rule: evict_oldest.induct)
  case (1 cap m)
  then show ?case
    by (subst evict_oldest.simps) (auto simp: map_delete_def distinct_filter_keys split: list.splits)
qed

section \<open>The invariant\<close>

definition token_cache_ok :: "int \<Rightarrow> int \<Rightarrow> cache_event list \<Rightarrow> TokenCache \<Rightarrow> bool" where
  "token_cache_ok ttl cap h c \<longleftrightarrow>
     tc_ttlMs c = ttl \<and> tc_maxEntries c = cap \<and> distinct (map fst (tc_store c)) \<and>
     int (length (tc_store c)) \<le> max 1 cap \<and>
     (\<forall>k e. (k, e) \<in> set (tc_store c) \<longrightarrow> last_set h k = Some (te_token e, te_expiresAt e - ttl))"

text \<open>Dropping entries keeps it, also after a call that does not set the others.\<close>

lemma token_cache_ok_subset:
  assumes "token_cache_ok ttl cap h c" "set m \<subseteq> set (tc_store c)" "distinct (map fst m)"
    "length m \<le> length (tc_store c)" "\<And>k e. (k, e) \<in> set m \<Longrightarrow> last_set h' k = last_set h k"
  shows "token_cache_ok ttl cap h' (c\<lparr>tc_store := m\<rparr>)"
  using assms unfolding token_cache_ok_def by fastforce

lemma token_cache_ok_delete:
  assumes "token_cache_ok ttl cap h c" "\<And>k. k \<noteq> key \<Longrightarrow> last_set h' k = last_set h k"
  shows "token_cache_ok ttl cap h' (c\<lparr>tc_store := map_delete key (tc_store c)\<rparr>)"
  using assms(2)
  by (intro token_cache_ok_subset [OF assms(1)])
     (use assms(1) in \<open>auto simp: map_delete_def distinct_filter_keys token_cache_ok_def\<close>)

lemma evictIfNeeded_ok:
  assumes "token_cache_ok ttl cap h c"
  shows "token_cache_ok ttl cap h (evictIfNeeded c now) \<and>
    (int (length (tc_store (evictIfNeeded c now))) < cap \<or> tc_store (evictIfNeeded c now) = [])"
proof (cases "int (length (tc_store c)) < tc_maxEntries c")
  case True
  with assms show ?thesis by (simp add: evictIfNeeded_def token_cache_ok_def)
next
  case False
  let ?f = "filter (\<lambda>kv. \<not> te_expiresAt (snd kv) \<le> now) (tc_store c)"
  let ?m = "evict_oldest cap ?f"
  have cap: "tc_maxEntries c = cap" and d: "distinct (map fst (tc_store c))"
    using assms by (simp_all add: token_cache_ok_def)
  have sub: "set ?m \<subseteq> set (tc_store c)" using set_evict_oldest [of cap ?f] by auto
  have dm: "distinct (map fst ?m)" using d by (simp add: distinct_evict distinct_filter_keys)
  have "length ?m \<le> length (tc_store c)"
    using length_evict_le [of cap ?f] length_filter_le [of _ "tc_store c"] by (rule le_trans)
  from token_cache_ok_subset [OF assms sub dm this refl] False cap length_evict_oldest [of cap ?f] show ?thesis
    by (simp add: evictIfNeeded_def)
qed

lemma token_cache_ok_step:
  assumes "token_cache_ok ttl cap h c"
  shows "token_cache_ok ttl cap (e # h) (event_step e c)"
proof (cases e)
  case (SetEv key token sweep now)
  note ok = evictIfNeeded_ok [OF assms, of sweep]
  let ?m = "tc_store (evictIfNeeded c sweep)"
  let ?v = "\<lparr>te_token = token, te_expiresAt = now + ttl\<rparr>"
  have d: "distinct (map fst ?m)" and ttl: "tc_ttlMs (evictIfNeeded c sweep) = ttl"
    using ok by (simp_all add: token_cache_ok_def)
  have "int (length (assoc_put key ?v ?m)) \<le> max 1 cap"
    using ok length_assoc_put [of key ?v ?m] by auto
  moreover have "last_set (e # h) k = Some (te_token v, te_expiresAt v - ttl)"
    if "(k, v) \<in> set (assoc_put key ?v ?m)" for k v
    using subsetD [OF set_assoc_put_distinct [OF d, of key ?v] that] ok by (auto simp: SetEv token_cache_ok_def)
  ultimately show ?thesis
    using ok ttl distinct_assoc_put [OF d, of key ?v] unfolding token_cache_ok_def
    by (simp add: SetEv tc_set_def Let_def)
next
  case (GetEv key now)
  have same: "token_cache_ok ttl cap (e # h) c" using assms by (simp add: GetEv token_cache_ok_def)
  have "token_cache_ok ttl cap (e # h) (c\<lparr>tc_store := map_delete key (tc_store c)\<rparr>)"
    using assms by (intro token_cache_ok_delete) (simp_all add: GetEv)
  with same show ?thesis by (simp add: GetEv tc_get_def split: option.splits)
next
  case (DeleteEv key)
  have "token_cache_ok ttl cap (e # h) (c\<lparr>tc_store := map_delete key (tc_store c)\<rparr>)"
    using assms by (intro token_cache_ok_delete) (simp_all add: DeleteEv)
  then show ?thesis by (simp add: DeleteEv tc_delete_def)
qed

lemma cached_ok: "cached ttl cap h c \<Longrightarrow> token_cache_ok ttl cap h c"
proof (induction rule: cached.induct)
  case new
  then show ?case by (simp add: token_cache_ok_def new_TokenCache_def)
next
  case (call h c e)
  then show ?case by (intro token_cache_ok_step)
qed

lemma tokenCacheKey_inj:
  assumes "CHR '':'' \<notin> set s" "CHR '':'' \<notin> set s'" "tokenCacheKey s o1 = tokenCacheKey s' o2"
  shows "s = s' \<and> (case o1 of Some x \<Rightarrow> x | None \<Rightarrow> []) = (case o2 of Some x \<Rightarrow> x | None \<Rightarrow> [])"
  using append_sep_inj [OF assms(1,2)] assms(3) by (simp add: tokenCacheKey_def)

section \<open>Properties\<close>

text \<open>
  Cached tokens are fresh and belong to their key. After any sequence of calls, a token that
  \<open>get\<close> returns is the last one that was set under exactly this key, not deleted since, and less
  than \<open>ttlMs\<close> old; and the cache never has more than \<open>maxEntries\<close> entries (one, if the cap is not positive).
\<close>

theorem cached_token_is_fresh:
  assumes "cached ttl cap h c"
  shows "int (tc_size c) \<le> max 1 cap \<and>
    (\<forall>token. fst (tc_get c key now) = Some token \<longrightarrow>
       (\<exists>t. last_set h key = Some (token, t) \<and> now < t + ttl))"
  using cached_ok [OF assms] unfolding token_cache_ok_def tc_size_def tc_get_def
  by (fastforce dest: map_of_SomeD split: option.splits if_splits)

theorem cached_token_is_fresh_witness:
  "\<exists>c. cached 240000 2 [SetEv ''s1:org'' ''jwt'' 5 7] c \<and> fst (tc_get c ''s1:org'' 1000) = Some ''jwt'' \<and>
     last_set [SetEv ''s1:org'' ''jwt'' 5 7] ''s1:org'' = Some (''jwt'', 7)"
proof -
  let ?h = "[SetEv ''s1:org'' ''jwt'' 5 7]"
  let ?c = "event_step (SetEv ''s1:org'' ''jwt'' 5 7) (new_TokenCache (Some 240000) (Some 2))"
  have c: "cached 240000 2 ?h ?c" by (intro cached.intros)
  have g: "fst (tc_get ?c ''s1:org'' 1000) = Some ''jwt''" by code_simp
  from cached_token_is_fresh [OF c, of "''s1:org''" 1000] g c show ?thesis by auto
qed

text \<open>
  A set token is found. After \<open>set\<close>, \<open>get\<close> returns the token until \<open>ttlMs\<close> have passed and
  nothing afterwards; other keys keep their entry or lose it to the eviction. The keys of two sessions,
  or of one session in two organisations, differ if session ids have no colon.
\<close>

theorem token_cache_roundtrip:
  "fst (tc_get (tc_set c key token sweep now) key t) = (if t < now + tc_ttlMs c then Some token else None) \<and>
   (CHR '':'' \<notin> set s \<and> CHR '':'' \<notin> set s' \<and> tokenCacheKey s (Some o1) = tokenCacheKey s' (Some o2) \<longrightarrow>
      s = s' \<and> o1 = o2)"
proof
  have "tc_ttlMs (evictIfNeeded c sweep) = tc_ttlMs c" by (simp add: evictIfNeeded_def)
  then show "fst (tc_get (tc_set c key token sweep now) key t) = (if t < now + tc_ttlMs c then Some token else None)"
    by (simp add: tc_get_def tc_set_def Let_def map_of_assoc_put)
qed (use tokenCacheKey_inj [of s s' "Some o1" "Some o2"] in auto)

theorem token_cache_roundtrip_witness:
  "fst (tc_get (tc_set (new_TokenCache None None) (tokenCacheKey ''s1'' (Some ''a'')) ''jwt'' 0 0)
     (tokenCacheKey ''s1'' (Some ''a'')) 10) = Some ''jwt'' \<and>
   tokenCacheKey ''s1'' (Some ''a'') \<noteq> tokenCacheKey ''s1'' (Some ''b'')"
proof -
  have "tc_ttlMs (new_TokenCache None None) = 240000" by (simp add: new_TokenCache_def)
  with token_cache_roundtrip [of "new_TokenCache None None" "tokenCacheKey ''s1'' (Some ''a'')" "''jwt''" 0 0 10
      "''s1''" "''s1''" "''a''" "''b''"] show ?thesis by auto
qed

end
