(* ===== verification/Dash_OAuth.thy ===== *)
theory Dash_OAuth
  imports Json Sha256
begin

text \<open>
  \<open>oauth-chatgpt-redirect.ts\<close>, \<open>oauth-loopback-redirect.ts\<close> and
  \<open>oauth-token-loopback-redirect.ts\<close> of \<open>apps/dashboard/lib\<close>: which redirect URIs the authorization server adds to the allowlist of an OAuth client before
  the exact match of the provider.

  The WHATWG parser behind \<open>new URL\<close> is a parameter, \<open>parse\<close>; no theorem assumes anything about
  it. The database behind \<open>findClient\<close>, \<open>updateRedirects\<close> and \<open>clientHasConsent\<close> is a parameter
  too: its operations act on a state and may reject.
\<close>

section \<open>URLs\<close>

record web_url =
  wu_href :: string
  wu_protocol :: string
  wu_username :: string
  wu_password :: string
  wu_hostname :: string
  wu_port :: string
  wu_pathname :: string
  wu_search :: string
  wu_hash :: string

type_synonym url_parser = "string \<Rightarrow> web_url option"

section \<open>Reading an allowlist\<close>

text \<open>A string literal of JSON is longer than the string it denotes.\<close>

lemma hex4_length: "hex4 s = Some (n, rest) \<Longrightarrow> length s = length rest + 4"
  by (induction s rule: hex4.induct) (auto split: option.splits prod.splits)

lemma length_utf8_of_code: "length (utf8_of_code n) \<le> 4"
  by (simp add: utf8_of_code_def)

lemma u_escape_length:
  assumes "json_u_escape s = Some (t, rest)"
  shows "length t + length rest \<le> length s"
proof -
  from assms obtain n r where h: "hex4 s = Some (n, r)" by (auto simp: json_u_escape_def split: option.splits)
  have "length t \<le> 4 \<and> length rest \<le> length r"
    using assms h by (auto simp: json_u_escape_def replacement_def length_utf8_of_code
        dest: hex4_length split: option.splits prod.splits if_splits list.splits)
  with hex4_length [OF h] show ?thesis by simp
qed

lemma map_option_pair:
  "map_option (\<lambda>(u, r). (f u, r)) x = Some (t, rest) \<Longrightarrow> \<exists>u. x = Some (u, rest) \<and> t = f u"
  by (cases x) auto

lemma string_body_length:
  "json_string_body fuel s = Some (t, rest) \<Longrightarrow> length t + length rest < length s"
proof (induction fuel arbitrary: s t rest)
  case (Suc fuel)
  from Suc.prems obtain c cs where s: "s = c # cs" by (cases s) auto
  consider (close) "c = CHR 0x22" | (escape) "c = CHR 0x5C" | (plain) "c \<noteq> CHR 0x22" "c \<noteq> CHR 0x5C" by blast
  then show ?case
  proof cases
    case close
    then show ?thesis using Suc.prems by (simp add: s)
  next
    case plain
    with Suc.prems obtain u where "json_string_body fuel cs = Some (u, rest)" "t = c # u"
      by (auto simp: s dest!: map_option_pair split: if_splits)
    with Suc.IH show ?thesis by (fastforce simp: s)
  next
    case escape
    with Suc.prems obtain e r where cs: "cs = e # r" by (cases cs) (auto simp: s)
    show ?thesis
    proof (cases "e = CHR ''u''")
      case True
      with Suc.prems escape obtain w r' u where "json_u_escape r = Some (w, r')"
        "json_string_body fuel r' = Some (u, rest)" "t = w @ u"
        by (auto simp: s cs dest!: map_option_pair split: option.splits)
      with Suc.IH [of r' u] u_escape_length [of r w r'] show ?thesis by (auto simp: s cs)
    next
      case False
      with Suc.prems escape obtain x u where "json_string_body fuel r = Some (u, rest)" "t = x # u"
        by (auto simp: s cs dest!: map_option_pair split: option.splits)
      with Suc.IH [of r u] show ?thesis by (auto simp: s cs)
    qed
  qed
qed simp

lemma elems_array: "json_read fuel (ReadElems acc) s = Some (v, r) \<Longrightarrow> \<exists>xs. v = JArr xs"
  by (induction fuel arbitrary: acc s)
     (auto simp del: json_string_body.simps split: option.splits list.splits if_splits)

lemma members_object: "json_read fuel (ReadMembers acc) s = Some (v, r) \<Longrightarrow> \<exists>kvs. v = JObj kvs"
  by (induction fuel arbitrary: acc s)
     (auto simp del: json_string_body.simps split: option.splits list.splits if_splits)

lemma number_number: "json_number s = Some (v, r) \<Longrightarrow> \<exists>n. v = JNum n"
  by (auto simp: json_number_def Let_def split: prod.splits option.splits if_splits)

lemma read_string_length:
  assumes "json_read fuel ReadValue s = Some (JStr t, r)"
  shows "length t < length s"
proof -
  from assms obtain n where n: "fuel = Suc n" by (cases fuel) auto
  have le: "length (skip_ws s) \<le> length s" by (simp add: skip_ws_def length_dropWhile_le)
  from assms obtain c cs where s: "skip_ws s = c # cs" by (auto simp: n split: list.splits)
  have "c = CHR 0x22"
    using assms
    by (auto simp: n s simp del: startsWith.simps json_string_body.simps
        dest: elems_array members_object number_number split: if_splits list.splits)
  with assms have "json_string_body (Suc (length cs)) cs = Some (t, r)"
    by (auto simp: n s simp del: json_string_body.simps dest: map_option_pair)
  with string_body_length le s show ?thesis by fastforce
qed

lemma parse_string_length: "JSON_parse s = Some (JStr t) \<Longrightarrow> length t < length s"
  by (auto simp: JSON_parse_def simp del: json_read.simps dest: read_string_length split: option.splits if_splits)

fun all_strings :: "json list \<Rightarrow> string list option" where
  "all_strings [] = Some []"
| "all_strings (JStr s # js) = map_option (Cons s) (all_strings js)"
| "all_strings (_ # js) = None"

text \<open>\<^const>\<open>None\<close> as a value is \<open>undefined\<close>; as a result it is \<open>null\<close>.\<close>

function coerceRedirectUris :: "json option \<Rightarrow> string list option" where
  "coerceRedirectUris v =
     (case v of
        Some (JArr js) \<Rightarrow> all_strings js
      | Some (JStr s) \<Rightarrow> (case JSON_parse s of Some j \<Rightarrow> coerceRedirectUris (Some j) | None \<Rightarrow> None)
      | Some JNull \<Rightarrow> Some []
      | None \<Rightarrow> Some []
      | _ \<Rightarrow> None)"
  by pat_completeness auto
termination
proof (relation "measure (\<lambda>v. case v of Some (JStr s) \<Rightarrow> Suc (length s) | _ \<Rightarrow> 0)", goal_cases)
  case (2 v j s k)
  then show ?case by (cases k) (auto dest: parse_string_length)
qed simp

declare coerceRedirectUris.simps [simp del]

section \<open>ChatGPT callbacks\<close>

definition CHATGPT_HOSTS :: "string list" where
  "CHATGPT_HOSTS = [''chatgpt.com'', ''chat.openai.com'']"

definition STABLE_PATH :: string where
  "STABLE_PATH = ''/connector_platform_oauth_redirect''"

definition CALLBACK_PREFIX :: string where
  "CALLBACK_PREFIX = ''/connector/oauth/''"

definition CALLBACK_ID_test :: "string \<Rightarrow> bool" where
  "CALLBACK_ID_test s \<longleftrightarrow> 1 \<le> length s \<and> length s \<le> 128 \<and>
     list_all (\<lambda>c. is_alnum c \<or> c = CHR ''_'' \<or> c = CHR ''-'') s"

datatype ChatgptRedirect = Stable string | Callback string string

fun redirect_host :: "ChatgptRedirect \<Rightarrow> string" where
  "redirect_host (Stable h) = h"
| "redirect_host (Callback h i) = h"

fun is_stable :: "ChatgptRedirect \<Rightarrow> bool" where
  "is_stable (Stable h) = True"
| "is_stable (Callback h i) = False"

fun canonicalForm :: "ChatgptRedirect \<Rightarrow> string" where
  "canonicalForm (Stable h) = ''https://'' @ h @ STABLE_PATH"
| "canonicalForm (Callback h i) = ''https://'' @ h @ CALLBACK_PREFIX @ i"

definition parseChatgptRedirect :: "url_parser \<Rightarrow> string \<Rightarrow> ChatgptRedirect option" where
  "parseChatgptRedirect parse raw =
     (case parse raw of
        None \<Rightarrow> None
      | Some url \<Rightarrow>
          if wu_protocol url \<noteq> ''https:'' then None
          else if wu_username url \<noteq> [] \<or> wu_password url \<noteq> [] then None
          else if wu_port url \<noteq> [] then None
          else if wu_search url \<noteq> [] \<or> wu_hash url \<noteq> [] then None
          else
            (let host = toLowerCase (wu_hostname url)
             in if host \<notin> set CHATGPT_HOSTS then None
                else
                  (let path = (if wu_pathname url = STABLE_PATH @ ''/'' then STABLE_PATH else wu_pathname url)
                   in if CHR 0x5C \<in> set path \<or> ''..'' \<in> set (split_on (CHR ''/'') path) then None
                      else if path = STABLE_PATH then Some (Stable host)
                      else if \<not> startsWith path CALLBACK_PREFIX then None
                      else
                        (let i = drop (length CALLBACK_PREFIX) path
                         in if CALLBACK_ID_test i then Some (Callback host i) else None))))"

definition acceptableRequestedRedirect :: "url_parser \<Rightarrow> string \<Rightarrow> string option" where
  "acceptableRequestedRedirect parse raw =
     (case parseChatgptRedirect parse raw of
        None \<Rightarrow> None
      | Some parsed \<Rightarrow>
          (let canonical = canonicalForm parsed
           in if raw = canonical then Some raw
              else if is_stable parsed \<and> raw = canonical @ ''/'' then Some raw
              else None))"

definition same_host :: "url_parser \<Rightarrow> string \<Rightarrow> string list \<Rightarrow> ChatgptRedirect list" where
  "same_host parse host registered =
     filter (\<lambda>r. redirect_host r = host) (List.map_filter (parseChatgptRedirect parse) registered)"

definition redirectToRegister :: "url_parser \<Rightarrow> string \<Rightarrow> string list \<Rightarrow> string option" where
  "redirectToRegister parse requestedRaw registered =
     (case acceptableRequestedRedirect parse requestedRaw of
        None \<Rightarrow> None
      | Some ok \<Rightarrow>
          (case parseChatgptRedirect parse ok of
             None \<Rightarrow> None
           | Some requested \<Rightarrow>
               if ok \<in> set registered then None
               else
                 (let sameHost = same_host parse (redirect_host requested) registered
                  in if sameHost = [] then None
                     else
                       (case requested of
                          Stable h \<Rightarrow> Some ok
                        | Callback h i \<Rightarrow>
                            (let hasThisId = list_ex (\<lambda>r. case r of Callback h' j \<Rightarrow> j = i | Stable h' \<Rightarrow> False) sameHost;
                                 hasOtherId = list_ex (\<lambda>r. case r of Callback h' j \<Rightarrow> j \<noteq> i | Stable h' \<Rightarrow> False) sameHost;
                                 hasStable = list_ex (\<lambda>r. case r of Stable h' \<Rightarrow> True | Callback h' j \<Rightarrow> False) sameHost
                             in if hasOtherId then None
                                else if hasThisId \<or> hasStable then Some ok
                                else None)))))"

definition isNewCallbackId :: "url_parser \<Rightarrow> string \<Rightarrow> string list \<Rightarrow> bool" where
  "isNewCallbackId parse requestedRaw registered =
     (case parseChatgptRedirect parse requestedRaw of
        Some (Callback h i) \<Rightarrow>
          \<not> list_ex (\<lambda>raw. parseChatgptRedirect parse raw = Some (Callback h i)) registered
      | _ \<Rightarrow> False)"

text \<open>The loop of \<open>expandChatgptRegistrationRedirects\<close>.\<close>

fun stable_additions :: "url_parser \<Rightarrow> string list \<Rightarrow> string list \<Rightarrow> string list \<Rightarrow> string list" where
  "stable_additions parse uris [] additions = additions"
| "stable_additions parse uris (raw # raws) additions =
     (case parseChatgptRedirect parse raw of
        None \<Rightarrow> stable_additions parse uris raws additions
      | Some parsed \<Rightarrow>
          (let stable = ''https://'' @ redirect_host parsed @ STABLE_PATH
           in if stable \<in> set uris \<or> stable \<in> set additions
              then stable_additions parse uris raws additions
              else stable_additions parse uris raws (additions @ [stable])))"

definition expandChatgptRegistrationRedirects :: "url_parser \<Rightarrow> json option \<Rightarrow> string list option" where
  "expandChatgptRegistrationRedirects parse v =
     (case coerceRedirectUris v of
        None \<Rightarrow> None
      | Some uris \<Rightarrow>
          if uris = [] then None
          else
            (let additions = stable_additions parse uris uris []
             in if additions = [] then None else Some (uris @ additions)))"

definition nextRedirectUris :: "url_parser \<Rightarrow> string \<Rightarrow> string list \<Rightarrow> string list option" where
  "nextRedirectUris parse requested registered =
     (case redirectToRegister parse requested registered of
        None \<Rightarrow> None
      | Some toAdd \<Rightarrow> if toAdd = [] then None else Some (registered @ [toAdd]))"

section \<open>Loopback callbacks\<close>

fun octet_text :: "string \<Rightarrow> bool" where
  "octet_text s =
     ((s = ''0'' \<or> (s \<noteq> [] \<and> hd s \<noteq> CHR ''0'' \<and> length s \<le> 3 \<and> list_all (\<lambda>c. digit_val c \<noteq> None) s)) \<and>
      fst (read_digits 0 s) \<le> 255)"

text \<open>\<open>replace(/^\[|\]$/g, "")\<close>: a bracket at the start and one at the end.\<close>

definition strip_brackets :: "string \<Rightarrow> string" where
  "strip_brackets h =
     (let h1 = (case h of c # cs \<Rightarrow> if c = CHR ''['' then cs else h | [] \<Rightarrow> [])
      in if h1 \<noteq> [] \<and> last h1 = CHR '']'' then butlast h1 else h1)"

definition isLoopbackHostname :: "string \<Rightarrow> bool" where
  "isLoopbackHostname hostname =
     (let host = strip_brackets (toLowerCase hostname)
      in if host = ''localhost'' \<or> host = ''::1'' then True
         else
           (let parts = split_on (CHR ''.'') host
            in length parts = 4 \<and> hd parts = ''127'' \<and> list_all octet_text parts))"

definition normalizedPath :: "string \<Rightarrow> string option" where
  "normalizedPath pathname =
     (if \<not> startsWith pathname ''/'' then None
      else if CHR 0x5C \<in> set pathname \<or> ''..'' \<in> set (split_on (CHR ''/'') pathname) then None
      else if 1 < length pathname \<and> endsWith pathname ''/'' then Some (butlast pathname)
      else Some pathname)"

record LoopbackRedirect =
  lr_href :: string
  lr_path :: string

definition parseLoopbackRedirect :: "url_parser \<Rightarrow> string \<Rightarrow> LoopbackRedirect option" where
  "parseLoopbackRedirect parse raw =
     (case parse raw of
        None \<Rightarrow> None
      | Some url \<Rightarrow>
          if wu_protocol url \<noteq> ''http:'' then None
          else if wu_username url \<noteq> [] \<or> wu_password url \<noteq> [] then None
          else if wu_search url \<noteq> [] \<or> wu_hash url \<noteq> [] then None
          else if \<not> isLoopbackHostname (wu_hostname url) then None
          else
            (case normalizedPath (wu_pathname url) of
               None \<Rightarrow> None
             | Some path \<Rightarrow>
                 if path = [] then None
                 else if wu_href url \<noteq> raw then None
                 else Some \<lparr>lr_href = raw, lr_path = path\<rparr>))"

definition loopbackRedirectToRegister :: "url_parser \<Rightarrow> string \<Rightarrow> string list \<Rightarrow> string option" where
  "loopbackRedirectToRegister parse requestedRaw registered =
     (case parseLoopbackRedirect parse requestedRaw of
        None \<Rightarrow> None
      | Some requested \<Rightarrow>
          if requestedRaw \<in> set registered then None
          else if \<not> list_ex (\<lambda>raw. case parseLoopbackRedirect parse raw of
                                     Some existing \<Rightarrow> lr_path existing = lr_path requested | None \<Rightarrow> False) registered
          then None
          else Some requestedRaw)"

definition nextLoopbackRedirectUris :: "url_parser \<Rightarrow> string \<Rightarrow> string list \<Rightarrow> string list option" where
  "nextLoopbackRedirectUris parse requested registered =
     (case loopbackRedirectToRegister parse requested registered of
        None \<Rightarrow> None
      | Some toAdd \<Rightarrow> if toAdd = [] then None else Some (registered @ [toAdd]))"

section \<open>The hooks before authorization\<close>

record oauth_client =
  oc_redirectUris :: "json option"
  oc_skipConsent :: "bool option"

record 's client_db =
  findClient :: "string \<Rightarrow> 's \<Rightarrow> oauth_client option result \<times> 's"
  updateRedirects :: "string \<Rightarrow> string list \<Rightarrow> 's \<Rightarrow> unit result \<times> 's"
  clientHasConsent :: "(string \<Rightarrow> 's \<Rightarrow> bool result \<times> 's) option"

datatype hook_result = Updated | Unchanged | Skipped

definition mayStoreRedirect ::
  "url_parser \<Rightarrow> 's client_db \<Rightarrow> string \<Rightarrow> string \<Rightarrow> string list \<Rightarrow> bool option \<Rightarrow> 's \<Rightarrow> bool \<times> 's" where
  "mayStoreRedirect parse db clientId redirectUri registered skipConsent s =
     (if nextRedirectUris parse redirectUri registered = None then (False, s)
      else if \<not> isNewCallbackId parse redirectUri registered then (True, s)
      else if skipConsent = Some True then (False, s)
      else
        (case clientHasConsent db of
           None \<Rightarrow> (False, s)
         | Some lookup \<Rightarrow>
             (case lookup clientId s of
                (Inl e, s1) \<Rightarrow> (False, s1)
              | (Inr consent, s1) \<Rightarrow> (\<not> consent, s1))))"

text \<open>The client and its allowlist, if both can be read; \<open>skipped\<close> otherwise.\<close>

definition load_uris ::
  "'s client_db \<Rightarrow> string \<Rightarrow> 's \<Rightarrow> (oauth_client \<times> string list) option result \<times> 's" where
  "load_uris db clientId s =
     (case findClient db clientId s of
        (Inl e, s1) \<Rightarrow> (Inl e, s1)
      | (Inr None, s1) \<Rightarrow> (Inr None, s1)
      | (Inr (Some client), s1) \<Rightarrow>
          (Inr (map_option (\<lambda>uris. (client, uris)) (coerceRedirectUris (oc_redirectUris client))), s1))"

definition store_uris ::
  "'s client_db \<Rightarrow> string \<Rightarrow> string list option \<Rightarrow> 's \<Rightarrow> hook_result result \<times> 's" where
  "store_uris db clientId next s =
     (case next of
        None \<Rightarrow> (Inr Unchanged, s)
      | Some uris \<Rightarrow>
          (case updateRedirects db clientId uris s of (Inl e, s1) \<Rightarrow> (Inl e, s1) | (Inr u, s1) \<Rightarrow> (Inr Updated, s1)))"

definition registerChatgptAuthorizeRedirect ::
  "url_parser \<Rightarrow> 's client_db \<Rightarrow> string option \<Rightarrow> string option \<Rightarrow> 's \<Rightarrow> hook_result result \<times> 's" where
  "registerChatgptAuthorizeRedirect parse db clientId redirectUri s =
     (case (clientId, redirectUri) of
        (Some cid, Some uri) \<Rightarrow>
          if cid = [] \<or> uri = [] then (Inr Skipped, s)
          else if acceptableRequestedRedirect parse uri = None then (Inr Skipped, s)
          else
            (case load_uris db cid s of
               (Inl e, s1) \<Rightarrow> (Inl e, s1)
             | (Inr None, s1) \<Rightarrow> (Inr Skipped, s1)
             | (Inr (Some (client, current)), s1) \<Rightarrow>
                 (case mayStoreRedirect parse db cid uri current (oc_skipConsent client) s1 of
                    (False, s2) \<Rightarrow> (Inr Unchanged, s2)
                  | (True, s2) \<Rightarrow>
                      (case load_uris db cid s2 of
                         (Inl e, s3) \<Rightarrow> (Inl e, s3)
                       | (Inr None, s3) \<Rightarrow> (Inr Skipped, s3)
                       | (Inr (Some (latestClient, latest)), s3) \<Rightarrow>
                           (case mayStoreRedirect parse db cid uri latest (oc_skipConsent latestClient) s3 of
                              (False, s4) \<Rightarrow> (Inr Unchanged, s4)
                            | (True, s4) \<Rightarrow> store_uris db cid (nextRedirectUris parse uri latest) s4))))
      | _ \<Rightarrow> (Inr Skipped, s))"

definition registerLoopbackAuthorizeRedirect ::
  "url_parser \<Rightarrow> 's client_db \<Rightarrow> string option \<Rightarrow> string option \<Rightarrow> 's \<Rightarrow> hook_result result \<times> 's" where
  "registerLoopbackAuthorizeRedirect parse db clientId redirectUri s =
     (case (clientId, redirectUri) of
        (Some cid, Some uri) \<Rightarrow>
          if cid = [] \<or> uri = [] then (Inr Skipped, s)
          else if parseLoopbackRedirect parse uri = None then (Inr Skipped, s)
          else
            (case load_uris db cid s of
               (Inl e, s1) \<Rightarrow> (Inl e, s1)
             | (Inr None, s1) \<Rightarrow> (Inr Skipped, s1)
             | (Inr (Some (client, current)), s1) \<Rightarrow>
                 if nextLoopbackRedirectUris parse uri current = None then (Inr Unchanged, s1)
                 else
                   (case load_uris db cid s1 of
                      (Inl e, s2) \<Rightarrow> (Inl e, s2)
                    | (Inr None, s2) \<Rightarrow> (Inr Skipped, s2)
                    | (Inr (Some (latestClient, latest)), s2) \<Rightarrow>
                        store_uris db cid (nextLoopbackRedirectUris parse uri latest) s2))
      | _ \<Rightarrow> (Inr Skipped, s))"

section \<open>The hook before the token exchange\<close>

text \<open>\<open>/^\/callback(?:\/[A-Za-z0-9_-]{1,128})?$/\<close>.\<close>

definition codex_path :: "string \<Rightarrow> bool" where
  "codex_path p \<longleftrightarrow> p = ''/callback'' \<or> (startsWith p ''/callback/'' \<and> CALLBACK_ID_test (drop 10 p))"

definition codexLoopbackCallback :: "url_parser \<Rightarrow> string \<Rightarrow> web_url option" where
  "codexLoopbackCallback parse raw =
     (case parse raw of
        None \<Rightarrow> None
      | Some url \<Rightarrow>
          if wu_href url \<noteq> raw \<or> wu_protocol url \<noteq> ''http:'' then None
          else if wu_hostname url \<noteq> ''localhost'' \<and> wu_hostname url \<noteq> ''127.0.0.1'' then None
          else if wu_port url = [] \<or> wu_username url \<noteq> [] \<or> wu_password url \<noteq> [] \<or> wu_search url \<noteq> [] \<or>
             wu_hash url \<noteq> [] then None
          else if \<not> codex_path (wu_pathname url) then None
          else Some url)"

definition equivalentCodexLoopbackCallbacks :: "url_parser \<Rightarrow> string \<Rightarrow> string \<Rightarrow> bool" where
  "equivalentCodexLoopbackCallbacks parse authorized tokenRequest =
     (case (codexLoopbackCallback parse authorized, codexLoopbackCallback parse tokenRequest) of
        (Some first, Some second) \<Rightarrow>
          wu_hostname first \<noteq> wu_hostname second \<and> wu_port first = wu_port second \<and>
          wu_pathname first = wu_pathname second
      | _ \<Rightarrow> False)"

text \<open>\<open>digest("base64url")\<close>, without padding.\<close>

definition base64url_char :: "nat \<Rightarrow> char" where
  "base64url_char n =
     ''ABCDEFGHIJKLMNOPQRSTUVWXYZabcdefghijklmnopqrstuvwxyz0123456789-_'' ! (n mod 64)"

fun base64url :: "string \<Rightarrow> string" where
  "base64url (a # b # c # s) =
     (let n = (of_char a * 65536 + of_char b * 256 + of_char c :: nat)
      in base64url_char (n div 262144) # base64url_char (n div 4096) # base64url_char (n div 64) # base64url_char n #
         base64url s)"
| "base64url [a, b] =
     (let n = (of_char a * 1024 + of_char b * 4 :: nat)
      in [base64url_char (n div 4096), base64url_char (n div 64), base64url_char n])"
| "base64url [a] = (let n = (of_char a * 16 :: nat) in [base64url_char (n div 64), base64url_char n])"
| "base64url [] = []"

text \<open>
  The arguments are the values of the request; \<open>findVerification\<close> gives the \<open>value\<close> of the
  stored record, if there is one, or rejects.
\<close>

definition authorizedCodexLoopbackRedirect ::
  "url_parser \<Rightarrow> json option \<Rightarrow> json option \<Rightarrow> json option \<Rightarrow> (string \<Rightarrow> json option result) \<Rightarrow> string option result" where
  "authorizedCodexLoopbackRedirect parse clientId code redirectUri findVerification =
     (case (as_string clientId, as_string code, as_string redirectUri) of
        (Some cid, Some cd, Some uri) \<Rightarrow>
          if cid = [] \<or> \<not> (length cd = 32 \<and> list_all is_alnum cd) \<or> codexLoopbackCallback parse uri = None
          then Inr None
          else
            (case findVerification (base64url (sha256_bytes cd)) of
               Inl e \<Rightarrow> Inl e
             | Inr v \<Rightarrow>
                 (case as_string v of
                    None \<Rightarrow> Inr None
                  | Some text \<Rightarrow>
                      (case JSON_parse text of
                         Some (JObj record) \<Rightarrow>
                           (let query = (case jprop record ''query'' of Some (JObj q) \<Rightarrow> q | _ \<Rightarrow> [])
                            in if jprop record ''type'' \<noteq> Some (JStr ''authorization_code'') \<or>
                                  jprop query ''client_id'' \<noteq> Some (JStr cid)
                               then Inr None
                               else
                                 (case as_string (jprop query ''redirect_uri'') of
                                    None \<Rightarrow> Inr None
                                  | Some authorized \<Rightarrow>
                                      Inr (if equivalentCodexLoopbackCallbacks parse authorized uri
                                           then Some authorized else None)))
                       | _ \<Rightarrow> Inr None)))
      | _ \<Rightarrow> Inr None)"

section \<open>What is documented\<close>

definition documented_callback :: "string \<Rightarrow> bool" where
  "documented_callback raw \<longleftrightarrow>
     (\<exists>h \<in> set CHATGPT_HOSTS. raw = ''https://'' @ h @ STABLE_PATH \<or> raw = ''https://'' @ h @ STABLE_PATH @ ''/'' \<or>
        (\<exists>i. CALLBACK_ID_test i \<and> raw = ''https://'' @ h @ CALLBACK_PREFIX @ i))"

lemma parseChatgptRedirect_host: "parseChatgptRedirect parse raw = Some p \<Longrightarrow> redirect_host p \<in> set CHATGPT_HOSTS"
  by (auto simp: parseChatgptRedirect_def Let_def split: option.splits if_splits)

lemma parseChatgptRedirect_id: "parseChatgptRedirect parse raw = Some (Callback h i) \<Longrightarrow> CALLBACK_ID_test i"
  by (auto simp: parseChatgptRedirect_def Let_def split: option.splits if_splits)

lemma acceptable_documented:
  assumes "acceptableRequestedRedirect parse raw = Some r"
  shows "r = raw \<and> documented_callback raw \<and> (\<exists>p. parseChatgptRedirect parse raw = Some p)"
proof -
  from assms obtain p where p: "parseChatgptRedirect parse raw = Some p" "r = raw"
    and c: "raw = canonicalForm p \<or> is_stable p \<and> raw = canonicalForm p @ ''/''"
    by (auto simp: acceptableRequestedRedirect_def Let_def split: option.splits if_splits)
  from c parseChatgptRedirect_host [OF p(1)] parseChatgptRedirect_id [of parse raw] p(1)
  have "documented_callback raw" by (cases p) (auto simp: documented_callback_def)
  with p show ?thesis by blast
qed

lemma same_host_mem:
  "r \<in> set (same_host parse h L) \<longleftrightarrow> redirect_host r = h \<and> (\<exists>raw \<in> set L. parseChatgptRedirect parse raw = Some r)"
  by (force simp: same_host_def map_filter_def)

lemma nextRedirectUris_Some:
  assumes "nextRedirectUris parse r L = Some L'"
  shows "L' = L @ [r] \<and> documented_callback r \<and>
    (\<exists>p. parseChatgptRedirect parse r = Some p \<and>
       (\<exists>raw \<in> set L. \<exists>q. parseChatgptRedirect parse raw = Some q \<and> redirect_host q = redirect_host p) \<and>
       (\<forall>h i. p = Callback h i \<longrightarrow>
          (\<forall>raw \<in> set L. \<forall>j. parseChatgptRedirect parse raw = Some (Callback h j) \<longrightarrow> j = i)))"
proof -
  from assms obtain x where x: "redirectToRegister parse r L = Some x" "L' = L @ [x]"
    by (auto simp: nextRedirectUris_def split: option.splits if_splits)
  from x(1) obtain p where a: "acceptableRequestedRedirect parse r = Some r" "x = r"
    and p: "parseChatgptRedirect parse r = Some p" and ne: "same_host parse (redirect_host p) L \<noteq> []"
    and ids: "\<And>h i. p = Callback h i \<Longrightarrow>
       \<not> list_ex (\<lambda>q. case q of Callback h' j \<Rightarrow> j \<noteq> i | Stable h' \<Rightarrow> False) (same_host parse h L)"
    using acceptable_documented [of parse r]
    by (auto simp: redirectToRegister_def Let_def split: option.splits if_splits ChatgptRedirect.splits)
  have "\<exists>raw \<in> set L. \<exists>q. parseChatgptRedirect parse raw = Some q \<and> redirect_host q = redirect_host p"
    using ne same_host_mem [of _ parse "redirect_host p" L] by (metis list.set_intros(1) neq_Nil_conv)
  moreover have "j = i" if "p = Callback h i" "raw \<in> set L" "parseChatgptRedirect parse raw = Some (Callback h j)" for h i j raw
  proof -
    have "Callback h j \<in> set (same_host parse h L)" using that by (auto simp: same_host_mem)
    with ids [OF that(1)] show ?thesis by (fastforce simp: list_ex_iff)
  qed
  ultimately show ?thesis using x(2) a p acceptable_documented [OF a(1)] by blast
qed

lemma loopback_not_chatgpt: "parseLoopbackRedirect parse raw = Some l \<Longrightarrow> parseChatgptRedirect parse raw = None"
  by (auto simp: parseLoopbackRedirect_def parseChatgptRedirect_def split: option.splits if_splits)

lemma nextLoopbackRedirectUris_Some:
  assumes "nextLoopbackRedirectUris parse r L = Some L'"
  shows "L' = L @ [r] \<and> (\<exists>l. parseLoopbackRedirect parse r = Some l \<and>
     (\<exists>raw \<in> set L. \<exists>l0. parseLoopbackRedirect parse raw = Some l0 \<and> lr_path l0 = lr_path l))"
  using assms
  by (fastforce simp: nextLoopbackRedirectUris_def loopbackRedirectToRegister_def list_ex_iff
      split: option.splits if_splits)

section \<open>What the hooks write\<close>

lemma mayStore_True:
  assumes "mayStoreRedirect parse db cid uri L skip s = (True, s')" "isNewCallbackId parse uri L"
  shows "skip \<noteq> Some True \<and> (\<exists>lookup. clientHasConsent db = Some lookup \<and> lookup cid s = (Inr False, s'))"
  using assms by (auto simp: mayStoreRedirect_def split: if_splits option.splits prod.splits sum.splits)

lemma updated_hook:
  assumes "registerChatgptAuthorizeRedirect parse db (Some cid) (Some uri) s = (Inr Updated, s')"
  shows "\<exists>s2 client latest s3 s4. load_uris db cid s2 = (Inr (Some (client, latest)), s3) \<and>
     mayStoreRedirect parse db cid uri latest (oc_skipConsent client) s3 = (True, s4) \<and>
     store_uris db cid (nextRedirectUris parse uri latest) s4 = (Inr Updated, s')"
  using assms
  by (auto simp: registerChatgptAuthorizeRedirect_def split: if_splits prod.splits sum.splits option.splits bool.splits) blast

lemma store_Updated:
  assumes "store_uris db cid next s = (Inr Updated, s')"
  shows "\<exists>uris. next = Some uris \<and> updateRedirects db cid uris s = (Inr (), s')"
  using assms by (auto simp: store_uris_def split: option.splits prod.splits sum.splits)

lemma equivalent_callbacks:
  assumes "equivalentCodexLoopbackCallbacks parse r uri"
  shows "\<exists>a b. codexLoopbackCallback parse r = Some a \<and> codexLoopbackCallback parse uri = Some b \<and>
    {wu_hostname a, wu_hostname b} = {''localhost'', ''127.0.0.1''} \<and> wu_port a = wu_port b \<and>
    wu_pathname a = wu_pathname b"
proof -
  from assms obtain a b where ab: "codexLoopbackCallback parse r = Some a" "codexLoopbackCallback parse uri = Some b"
    and d: "wu_hostname a \<noteq> wu_hostname b" "wu_port a = wu_port b" "wu_pathname a = wu_pathname b"
    by (auto simp: equivalentCodexLoopbackCallbacks_def split: option.splits)
  have "wu_hostname x \<in> {''localhost'', ''127.0.0.1''}" if "codexLoopbackCallback parse raw = Some x" for raw x
    using that by (auto simp: codexLoopbackCallback_def split: option.splits if_splits)
  from this [OF ab(1)] this [OF ab(2)] d(1) have "{wu_hostname a, wu_hostname b} = {''localhost'', ''127.0.0.1''}" by auto
  with ab d show ?thesis by blast
qed

text \<open>
  The token exchange keeps the authorized redirect. If the hook replaces the redirect of a token
  request, the replacement is the redirect recorded with this authorization code for this client, and
  both are Codex callbacks with the same port and path that differ only in how they name the loopback host.
\<close>

theorem token_redirect_is_the_authorized_one:
  assumes "authorizedCodexLoopbackRedirect parse clientId code redirectUri findVerification = Inr (Some r)"
  shows "\<exists>cid cd uri stored fields query.
     clientId = Some (JStr cid) \<and> code = Some (JStr cd) \<and> redirectUri = Some (JStr uri) \<and>
     length cd = 32 \<and> findVerification (base64url (sha256_bytes cd)) = Inr (Some (JStr stored)) \<and>
     JSON_parse stored = Some (JObj fields) \<and> jprop fields ''query'' = Some (JObj query) \<and>
     jprop query ''client_id'' = Some (JStr cid) \<and> jprop query ''redirect_uri'' = Some (JStr r) \<and>
     (\<exists>a b. codexLoopbackCallback parse r = Some a \<and> codexLoopbackCallback parse uri = Some b \<and>
        {wu_hostname a, wu_hostname b} = {''localhost'', ''127.0.0.1''} \<and> wu_port a = wu_port b \<and>
        wu_pathname a = wu_pathname b)"
proof -
  from assms obtain cid cd uri stored fields query where
    a: "clientId = Some (JStr cid)" "code = Some (JStr cd)" "redirectUri = Some (JStr uri)" "length cd = 32"
      "findVerification (base64url (sha256_bytes cd)) = Inr (Some (JStr stored))" "JSON_parse stored = Some (JObj fields)"
      "jprop fields ''query'' = Some (JObj query)" "jprop query ''client_id'' = Some (JStr cid)"
      "jprop query ''redirect_uri'' = Some (JStr r)" "equivalentCodexLoopbackCallbacks parse r uri"
    by (auto simp: authorizedCodexLoopbackRedirect_def Let_def split: option.splits sum.splits json.splits if_splits)
  with equivalent_callbacks [OF a(10)] show ?thesis by blast
qed

text \<open>A parser for the two callbacks of the sample, and the record stored with its code.\<close>

definition sample_callback :: url_parser where
  "sample_callback raw =
     (let url = \<lambda>host. \<lparr>wu_href = raw, wu_protocol = ''http:'', wu_username = [], wu_password = [],
                         wu_hostname = host, wu_port = ''1455'', wu_pathname = ''/callback'', wu_search = [], wu_hash = []\<rparr>
      in if raw = ''http://localhost:1455/callback'' then Some (url ''localhost'')
         else if raw = ''http://127.0.0.1:1455/callback'' then Some (url ''127.0.0.1'')
         else None)"

definition sample_record :: string where
  "sample_record = (let q = CHR 0x22; s = \<lambda>t. q # t @ [q] in
     ''{'' @ s ''type'' @ '':'' @ s ''authorization_code'' @ '','' @ s ''query'' @ '':{'' @
       s ''client_id'' @ '':'' @ s ''codex'' @ '','' @ s ''redirect_uri'' @ '':'' @ s ''http://localhost:1455/callback'' @ ''}}'')"

lemma sample_record_parses:
  "JSON_parse sample_record = Some (JObj [(''type'', JStr ''authorization_code''),
     (''query'', JObj [(''client_id'', JStr ''codex''), (''redirect_uri'', JStr ''http://localhost:1455/callback'')])])"
  by code_simp

lemma sample_equivalent:
  "equivalentCodexLoopbackCallbacks sample_callback ''http://localhost:1455/callback'' ''http://127.0.0.1:1455/callback''"
  "codexLoopbackCallback sample_callback ''http://127.0.0.1:1455/callback'' \<noteq> None"
  by code_simp+

theorem token_redirect_is_the_authorized_one_witness:
  "\<exists>a b. codexLoopbackCallback sample_callback ''http://localhost:1455/callback'' = Some a \<and>
     codexLoopbackCallback sample_callback ''http://127.0.0.1:1455/callback'' = Some b \<and>
     {wu_hostname a, wu_hostname b} = {''localhost'', ''127.0.0.1''} \<and> wu_port a = wu_port b"
proof -
  have "authorizedCodexLoopbackRedirect sample_callback (Some (JStr ''codex'')) (Some (JStr (replicate 32 (CHR ''a''))))
      (Some (JStr ''http://127.0.0.1:1455/callback'')) (\<lambda>h. Inr (Some (JStr sample_record))) =
    Inr (Some ''http://localhost:1455/callback'')"
    using sample_equivalent
    by (simp add: authorizedCodexLoopbackRedirect_def sample_record_parses is_alnum_def list_all_iff)
  from token_redirect_is_the_authorized_one [OF this] show ?thesis by auto
qed

end
