(* ===== verification/Dash_Allowlist.thy ===== *)
theory Dash_Allowlist
  imports Dash_OAuth
begin

text \<open>
  The allowlist of one OAuth client while any number of authorization requests run at the same
  time. Both hooks read the stored allowlist, decide, and write the extended list back; other
  requests may run between any two of these steps. A state is the stored list, whether the client
  has a consent, and the requests under way; the first read and decision of a hook only make it
  go on, so a request enters at its second read.
\<close>

section \<open>Concurrent hooks\<close>

datatype attempt =
    Loaded string "string list"
  | Approved string "string list"
  | LoopLoaded string "string list"

record auth_state =
  as_uris :: "string list"
  as_consented :: bool
  as_attempts :: "attempt list"

text \<open>The decision of \<open>mayStoreRedirect\<close> on the list that was read.\<close>

definition may_store :: "url_parser \<Rightarrow> bool \<Rightarrow> bool \<Rightarrow> string \<Rightarrow> string list \<Rightarrow> bool" where
  "may_store parse skip consented r L \<longleftrightarrow>
     nextRedirectUris parse r L \<noteq> None \<and> (isNewCallbackId parse r L \<longrightarrow> \<not> skip \<and> \<not> consented)"

inductive allow_step :: "url_parser \<Rightarrow> bool \<Rightarrow> auth_state \<Rightarrow> auth_state \<Rightarrow> bool" for parse skip where
  consent: "allow_step parse skip s (s\<lparr>as_consented := True\<rparr>)"
| load: "allow_step parse skip s (s\<lparr>as_attempts := Loaded r (as_uris s) # as_attempts s\<rparr>)"
| approve: "Loaded r L \<in> set (as_attempts s) \<Longrightarrow> may_store parse skip (as_consented s) r L \<Longrightarrow>
    allow_step parse skip s (s\<lparr>as_attempts := Approved r L # remove1 (Loaded r L) (as_attempts s)\<rparr>)"
| store: "Approved r L \<in> set (as_attempts s) \<Longrightarrow> nextRedirectUris parse r L = Some L' \<Longrightarrow>
    allow_step parse skip s (s\<lparr>as_uris := L', as_attempts := remove1 (Approved r L) (as_attempts s)\<rparr>)"
| loop_load: "allow_step parse skip s (s\<lparr>as_attempts := LoopLoaded r (as_uris s) # as_attempts s\<rparr>)"
| loop_store: "LoopLoaded r L \<in> set (as_attempts s) \<Longrightarrow> nextLoopbackRedirectUris parse r L = Some L' \<Longrightarrow>
    allow_step parse skip s (s\<lparr>as_uris := L', as_attempts := remove1 (LoopLoaded r L) (as_attempts s)\<rparr>)"

inductive allow_reach :: "url_parser \<Rightarrow> bool \<Rightarrow> string list \<Rightarrow> auth_state \<Rightarrow> bool" for parse skip init where
  start: "allow_reach parse skip init \<lparr>as_uris = init, as_consented = c, as_attempts = []\<rparr>"
| step: "allow_reach parse skip init s \<Longrightarrow> allow_step parse skip s s' \<Longrightarrow> allow_reach parse skip init s'"

inductive_cases allow_stepE: "allow_step parse skip s s'"

fun held :: "attempt \<Rightarrow> string list" where
  "held (Loaded r L) = L"
| "held (Approved r L) = L"
| "held (LoopLoaded r L) = L"

section \<open>What a list may contain\<close>

text \<open>A ChatGPT callback on a host that the client had registered itself.\<close>

definition chat_sibling :: "url_parser \<Rightarrow> string list \<Rightarrow> string \<Rightarrow> bool" where
  "chat_sibling parse init raw \<longleftrightarrow> documented_callback raw \<and>
     (\<exists>p. parseChatgptRedirect parse raw = Some p \<and>
       (\<exists>raw0 \<in> set init. \<exists>q. parseChatgptRedirect parse raw0 = Some q \<and> redirect_host q = redirect_host p))"

text \<open>A loopback callback with a path that the client had registered for the loopback.\<close>

definition loop_sibling :: "url_parser \<Rightarrow> string list \<Rightarrow> string \<Rightarrow> bool" where
  "loop_sibling parse init raw \<longleftrightarrow>
     (\<exists>l. parseLoopbackRedirect parse raw = Some l \<and>
       (\<exists>raw0 \<in> set init. \<exists>l0. parseLoopbackRedirect parse raw0 = Some l0 \<and> lr_path l0 = lr_path l))"

definition grown :: "url_parser \<Rightarrow> string list \<Rightarrow> string list \<Rightarrow> bool" where
  "grown parse init L \<longleftrightarrow>
     (\<forall>raw \<in> set L. raw \<in> set init \<or> chat_sibling parse init raw \<or> loop_sibling parse init raw)"

text \<open>At most one callback id per host.\<close>

definition one_id :: "url_parser \<Rightarrow> string list \<Rightarrow> bool" where
  "one_id parse L \<longleftrightarrow>
     (\<forall>raw1 \<in> set L. \<forall>raw2 \<in> set L. \<forall>h i j.
        parseChatgptRedirect parse raw1 = Some (Callback h i) \<longrightarrow>
        parseChatgptRedirect parse raw2 = Some (Callback h j) \<longrightarrow> i = j)"

text \<open>The invariant of a list, with the list the client started with.\<close>

definition list_ok :: "url_parser \<Rightarrow> string list \<Rightarrow> string list \<Rightarrow> bool" where
  "list_ok parse init L \<longleftrightarrow> grown parse init L \<and> (one_id parse init \<longrightarrow> one_id parse L)"

lemma grown_snoc:
  assumes "grown parse init L" "chat_sibling parse init r \<or> loop_sibling parse init r"
  shows "grown parse init (L @ [r])"
  using assms unfolding grown_def set_append list.set by blast

lemma one_id_snoc:
  assumes "one_id parse L"
    "\<And>h i raw j. parseChatgptRedirect parse r = Some (Callback h i) \<Longrightarrow> raw \<in> set L \<Longrightarrow>
       parseChatgptRedirect parse raw = Some (Callback h j) \<Longrightarrow> j = i"
  shows "one_id parse (L @ [r])"
  unfolding one_id_def
proof (intro ballI allI impI)
  fix raw1 raw2 h i j
  assume m: "raw1 \<in> set (L @ [r])" "raw2 \<in> set (L @ [r])"
    and c: "parseChatgptRedirect parse raw1 = Some (Callback h i)" "parseChatgptRedirect parse raw2 = Some (Callback h j)"
  then consider "raw1 \<in> set L" "raw2 \<in> set L" | "raw1 = r" "raw2 = r" | "raw1 = r" "raw2 \<in> set L" | "raw1 \<in> set L" "raw2 = r"
    by auto
  then show "i = j"
  proof cases
    case 1
    then show ?thesis using assms(1) c unfolding one_id_def by blast
  next
    case 2
    then show ?thesis using c by simp
  next
    case 3
    then show ?thesis using assms(2) [of h i raw2 j] c by simp
  next
    case 4
    then show ?thesis using assms(2) [of h j raw1 i] c by simp
  qed
qed

lemma siblings_from_start:
  assumes "grown parse init L" "raw \<in> set L"
  shows "parseChatgptRedirect parse raw = Some q \<Longrightarrow>
      \<exists>raw0 \<in> set init. \<exists>q0. parseChatgptRedirect parse raw0 = Some q0 \<and> redirect_host q0 = redirect_host q"
    and "parseLoopbackRedirect parse raw = Some l \<Longrightarrow>
      \<exists>raw0 \<in> set init. \<exists>l0. parseLoopbackRedirect parse raw0 = Some l0 \<and> lr_path l0 = lr_path l"
proof -
  consider "raw \<in> set init" | "chat_sibling parse init raw" | "loop_sibling parse init raw"
    using assms unfolding grown_def by blast
  note cases = this
  show "\<exists>raw0 \<in> set init. \<exists>q0. parseChatgptRedirect parse raw0 = Some q0 \<and> redirect_host q0 = redirect_host q"
    if "parseChatgptRedirect parse raw = Some q"
    using that loopback_not_chatgpt [of parse raw]
    by (cases rule: cases) (auto simp: chat_sibling_def loop_sibling_def)
  show "\<exists>raw0 \<in> set init. \<exists>l0. parseLoopbackRedirect parse raw0 = Some l0 \<and> lr_path l0 = lr_path l"
    if "parseLoopbackRedirect parse raw = Some l"
    using that loopback_not_chatgpt [OF that]
    by (cases rule: cases) (auto simp: chat_sibling_def loop_sibling_def)
qed

lemma list_ok_next:
  assumes "list_ok parse init L" "nextRedirectUris parse r L = Some L'"
  shows "list_ok parse init L'"
proof -
  have g: "grown parse init L" using assms(1) by (simp add: list_ok_def)
  from nextRedirectUris_Some [OF assms(2)] obtain p raw q where L': "L' = L @ [r]" "documented_callback r"
    and p: "parseChatgptRedirect parse r = Some p" "raw \<in> set L"
    "parseChatgptRedirect parse raw = Some q" "redirect_host q = redirect_host p"
    and ids: "\<And>h i raw j. p = Callback h i \<Longrightarrow> raw \<in> set L \<Longrightarrow>
       parseChatgptRedirect parse raw = Some (Callback h j) \<Longrightarrow> j = i" by blast
  have "chat_sibling parse init r"
    using siblings_from_start(1) [OF g p(2,3)] L'(2) p(1,4) unfolding chat_sibling_def by auto
  then have "grown parse init L'" unfolding L'(1) using grown_snoc [OF g] by blast
  moreover have "one_id parse L'" if "one_id parse L"
    unfolding L'(1) by (rule one_id_snoc [OF that]) (use ids p(1) in auto)
  ultimately show ?thesis using assms(1) by (simp add: list_ok_def)
qed

lemma list_ok_next_loopback:
  assumes "list_ok parse init L" "nextLoopbackRedirectUris parse r L = Some L'"
  shows "list_ok parse init L'"
proof -
  have g: "grown parse init L" using assms(1) by (simp add: list_ok_def)
  from nextLoopbackRedirectUris_Some [OF assms(2)] obtain l raw l0 where L': "L' = L @ [r]"
    and l: "parseLoopbackRedirect parse r = Some l" "raw \<in> set L"
    "parseLoopbackRedirect parse raw = Some l0" "lr_path l0 = lr_path l" by blast
  have "loop_sibling parse init r"
    using siblings_from_start(2) [OF g l(2,3)] l(1,4) unfolding loop_sibling_def by auto
  then have "grown parse init L'" unfolding L' using grown_snoc [OF g] by blast
  moreover have "one_id parse L'" if "one_id parse L"
    unfolding L' by (rule one_id_snoc [OF that]) (use loopback_not_chatgpt [OF l(1)] in auto)
  ultimately show ?thesis using assms(1) by (simp add: list_ok_def)
qed

section \<open>The invariant of the states\<close>

definition state_ok :: "url_parser \<Rightarrow> string list \<Rightarrow> auth_state \<Rightarrow> bool" where
  "state_ok parse init s \<longleftrightarrow> list_ok parse init (as_uris s) \<and>
     (\<forall>a \<in> set (as_attempts s). list_ok parse init (held a))"

lemma state_ok_step:
  assumes "state_ok parse init s" "allow_step parse skip s s'"
  shows "state_ok parse init s'"
  using assms(2)
proof cases
  case (approve r L)
  then have "list_ok parse init L" using assms(1) by (force simp: state_ok_def)
  with approve assms(1) show ?thesis by (auto simp: state_ok_def dest: notin_set_remove1)
next
  case (store r L L')
  then have "list_ok parse init L" using assms(1) by (force simp: state_ok_def)
  with store assms(1) list_ok_next show ?thesis by (auto simp: state_ok_def dest: notin_set_remove1)
next
  case (loop_store r L L')
  then have "list_ok parse init L" using assms(1) by (force simp: state_ok_def)
  with loop_store assms(1) list_ok_next_loopback show ?thesis
    by (auto simp: state_ok_def dest: notin_set_remove1)
qed (use assms(1) in \<open>auto simp: state_ok_def\<close>)

lemma reach_ok: "allow_reach parse skip init s \<Longrightarrow> state_ok parse init s"
proof (induction rule: allow_reach.induct)
  case (start c)
  then show ?case by (simp add: state_ok_def list_ok_def grown_def)
next
  case (step s s')
  then show ?case by (blast intro: state_ok_step)
qed

section \<open>The hooks as steps\<close>

text \<open>The stored client as the database the hooks run on.\<close>

definition auth_db :: "bool option \<Rightarrow> auth_state client_db" where
  "auth_db skip =
     \<lparr>findClient = \<lambda>cid s. (Inr (Some \<lparr>oc_redirectUris = Some (JArr (map JStr (as_uris s))), oc_skipConsent = skip\<rparr>), s),
      updateRedirects = \<lambda>cid uris s. (Inr (), s\<lparr>as_uris := uris\<rparr>),
      clientHasConsent = Some (\<lambda>cid s. (Inr (as_consented s), s))\<rparr>"

lemma all_strings_map: "all_strings (map JStr xs) = Some xs"
  by (induction xs) auto

lemma load_auth_db:
  "load_uris (auth_db skip) cid s =
     (Inr (Some (\<lparr>oc_redirectUris = Some (JArr (map JStr (as_uris s))), oc_skipConsent = skip\<rparr>, as_uris s)), s)"
  by (simp add: load_uris_def auth_db_def coerceRedirectUris.simps all_strings_map)

lemma mayStore_auth_db:
  "mayStoreRedirect parse (auth_db skip) cid uri L skip s =
     (may_store parse (skip = Some True) (as_consented s) uri L, s)"
  by (simp add: mayStoreRedirect_def may_store_def auth_db_def)

lemma store_auth_db:
  "store_uris (auth_db skip) cid next s =
     (case next of None \<Rightarrow> (Inr Unchanged, s) | Some uris \<Rightarrow> (Inr Updated, s\<lparr>as_uris := uris\<rparr>))"
  by (simp add: store_uris_def auth_db_def split: option.splits)

lemmas auth_db_simps = load_auth_db mayStore_auth_db store_auth_db

lemma chatgpt_hook_reaches:
  assumes "allow_reach parse (skip = Some True) init s"
  shows "allow_reach parse (skip = Some True) init (snd (registerChatgptAuthorizeRedirect parse (auth_db skip) cid uri s))"
proof -
  have *: "allow_reach parse (skip = Some True) init (s\<lparr>as_uris := L'\<rparr>)"
    if m: "may_store parse (skip = Some True) (as_consented s) r (as_uris s)" and n: "nextRedirectUris parse r (as_uris s) = Some L'" for r L'
  proof -
    let ?s1 = "s\<lparr>as_attempts := Loaded r (as_uris s) # as_attempts s\<rparr>"
    let ?s2 = "s\<lparr>as_attempts := Approved r (as_uris s) # as_attempts s\<rparr>"
    have "allow_step parse (skip = Some True) s ?s1" by (rule allow_step.load)
    moreover have "allow_step parse (skip = Some True) ?s1 ?s2"
      using allow_step.approve [of r "as_uris s" ?s1] m by simp
    moreover have "allow_step parse (skip = Some True) ?s2 (s\<lparr>as_uris := L'\<rparr>)"
      using allow_step.store [of r "as_uris s" ?s2 parse L'] n by simp
    ultimately show ?thesis using assms by (blast intro: allow_reach.step)
  qed
  then show ?thesis using assms
    by (auto simp: registerChatgptAuthorizeRedirect_def auth_db_simps split: option.splits bool.splits)
qed

lemma loopback_hook_reaches:
  assumes "allow_reach parse skip init s"
  shows "allow_reach parse skip init (snd (registerLoopbackAuthorizeRedirect parse (auth_db skip') cid uri s))"
proof -
  have *: "allow_reach parse skip init (s\<lparr>as_uris := L'\<rparr>)" if n: "nextLoopbackRedirectUris parse r (as_uris s) = Some L'" for r L'
  proof -
    let ?s1 = "s\<lparr>as_attempts := LoopLoaded r (as_uris s) # as_attempts s\<rparr>"
    have "allow_step parse skip s ?s1" by (rule allow_step.loop_load)
    moreover have "allow_step parse skip ?s1 (s\<lparr>as_uris := L'\<rparr>)"
      using allow_step.loop_store [of r "as_uris s" ?s1 parse L'] n by simp
    ultimately show ?thesis using assms by (blast intro: allow_reach.step)
  qed
  then show ?thesis using assms
    by (auto simp: registerLoopbackAuthorizeRedirect_def auth_db_simps split: option.splits)
qed

section \<open>Sample requests\<close>

text \<open>A parser for URLs of the form \<open>https://host/path\<close> without further parts.\<close>

definition sample_web_url :: url_parser where
  "sample_web_url raw =
     (if startsWith raw ''https://'' then
        (let r = drop 8 raw
         in Some \<lparr>wu_href = raw, wu_protocol = ''https:'', wu_username = [], wu_password = [],
                  wu_hostname = takeWhile (\<lambda>c. c \<noteq> CHR ''/'') r, wu_port = [],
                  wu_pathname = dropWhile (\<lambda>c. c \<noteq> CHR ''/'') r, wu_search = [], wu_hash = []\<rparr>)
      else None)"

definition stable_uri :: string where
  "stable_uri = ''https://chatgpt.com/connector_platform_oauth_redirect''"

definition callback_uri :: "string \<Rightarrow> string" where
  "callback_uri i = ''https://chatgpt.com/connector/oauth/'' @ i"

lemma sample_next:
  "nextRedirectUris sample_web_url (callback_uri ''a1'') [stable_uri] = Some [stable_uri, callback_uri ''a1'']"
  "nextRedirectUris sample_web_url (callback_uri ''b2'') [stable_uri] = Some [stable_uri, callback_uri ''b2'']"
  "nextRedirectUris sample_web_url (callback_uri ''b2'') [stable_uri, callback_uri ''a1''] = None"
  by code_simp+

lemma sample_stable:
  "parseChatgptRedirect sample_web_url stable_uri = Some (Stable ''chatgpt.com'')" "stable_uri \<noteq> callback_uri ''a1''"
  by code_simp+

section \<open>Properties\<close>

text \<open>
  A later write can drop an earlier one: both requests read the list before either writes it, so the
  re-read before the write does not keep the callback id that the other request stored.
\<close>

lemma allowlist_lost_update:
  "allow_reach sample_web_url False [stable_uri]
     \<lparr>as_uris = [stable_uri, callback_uri ''b2''], as_consented = False, as_attempts = []\<rparr> \<and>
   allow_reach sample_web_url False [stable_uri]
     \<lparr>as_uris = [stable_uri, callback_uri ''a1''], as_consented = False,
      as_attempts = [Approved (callback_uri ''b2'') [stable_uri]]\<rparr>"
proof -
  let ?L = "[stable_uri]" and ?a = "callback_uri ''a1''" and ?b = "callback_uri ''b2''"
  let ?s = "\<lambda>u as. \<lparr>as_uris = u, as_consented = False, as_attempts = as\<rparr>"
  let ?R = "allow_reach sample_web_url False ?L"
  have m: "may_store sample_web_url False False ?a ?L" "may_store sample_web_url False False ?b ?L"
    by (simp_all add: may_store_def sample_next)
  have ne: "?a \<noteq> ?b" by (simp add: callback_uri_def)
  have "?R (?s ?L [])" by (rule allow_reach.start)
  from allow_reach.step [OF this allow_step.load [of _ _ _ ?b]] have "?R (?s ?L [Loaded ?b ?L])" by simp
  from allow_reach.step [OF this allow_step.load [of _ _ _ ?a]] have "?R (?s ?L [Loaded ?a ?L, Loaded ?b ?L])" by simp
  from allow_reach.step [OF this allow_step.approve [of ?b ?L]] m ne
  have "?R (?s ?L [Approved ?b ?L, Loaded ?a ?L])" by simp
  from allow_reach.step [OF this allow_step.approve [of ?a ?L]] m
  have "?R (?s ?L [Approved ?a ?L, Approved ?b ?L])" by simp
  from allow_reach.step [OF this allow_step.store [of ?a ?L]] sample_next(1)
  have 1: "?R (?s [stable_uri, ?a] [Approved ?b ?L])" by simp
  from allow_reach.step [OF 1 allow_step.store [of ?b ?L]] sample_next(2)
  have "?R (?s [stable_uri, ?b] [])" by simp
  with 1 show ?thesis by simp
qed

text \<open>
  C18. The allowlist grows only by siblings. However authorization requests interleave, every URI
  stored for a client is one it had at the start, a documented ChatGPT callback on a ChatGPT host it had
  registered, or a loopback callback with a path it had registered for the loopback; and if the client
  had at most one callback id per host at the start, at no moment are two stored for a host. An id may
  still be replaced by another, by a lost update (\<open>allowlist_lost_update\<close>).
\<close>

theorem allowlist_stays_safe:
  assumes "allow_reach parse skip init s"
  shows "(\<forall>raw \<in> set (as_uris s). raw \<in> set init \<or> chat_sibling parse init raw \<or> loop_sibling parse init raw) \<and>
    (one_id parse init \<longrightarrow> one_id parse (as_uris s))"
  using reach_ok [OF assms] by (simp add: state_ok_def list_ok_def grown_def)

lemma sample_reach:
  "allow_reach sample_web_url False [stable_uri]
     \<lparr>as_uris = [stable_uri, callback_uri ''a1''], as_consented = False, as_attempts = []\<rparr>"
proof -
  let ?L = "[stable_uri]"
  let ?s = "\<lambda>u as. \<lparr>as_uris = u, as_consented = False, as_attempts = as\<rparr>"
  have m: "may_store sample_web_url False False (callback_uri ''a1'') ?L" by (simp add: may_store_def sample_next)
  have "allow_reach sample_web_url False ?L (?s ?L [])" by (rule allow_reach.start)
  from allow_reach.step [OF this allow_step.load [of _ _ _ "callback_uri ''a1''"]]
  have "allow_reach sample_web_url False ?L (?s ?L [Loaded (callback_uri ''a1'') ?L])" by simp
  from allow_reach.step [OF this allow_step.approve [of "callback_uri ''a1''" ?L]] m
  have "allow_reach sample_web_url False ?L (?s ?L [Approved (callback_uri ''a1'') ?L])" by simp
  from allow_reach.step [OF this allow_step.store [of "callback_uri ''a1''" ?L]] sample_next(1)
  show ?thesis by simp
qed

theorem allowlist_stays_safe_witness:
  "\<exists>s. allow_reach sample_web_url False [stable_uri] s \<and> callback_uri ''a1'' \<in> set (as_uris s) \<and>
     chat_sibling sample_web_url [stable_uri] (callback_uri ''a1'') \<and> one_id sample_web_url (as_uris s)"
proof -
  have "one_id sample_web_url [stable_uri]" using sample_stable(1) by (simp add: one_id_def)
  moreover have "\<not> loop_sibling sample_web_url [stable_uri] (callback_uri ''a1'')"
    using sample_stable(1) by (auto simp: loop_sibling_def dest: loopback_not_chatgpt)
  ultimately have "chat_sibling sample_web_url [stable_uri] (callback_uri ''a1'') \<and>
      one_id sample_web_url [stable_uri, callback_uri ''a1'']"
    using allowlist_stays_safe [OF sample_reach] sample_stable(2) by auto
  with sample_reach show ?thesis by (intro exI) auto
qed

text \<open>
  C19. Consent guards new callback ids. If the hook reports an update, it has appended exactly the
  requested URI, a documented callback, to the allowlist it read last; and if that URI carries a callback
  id which was not on that list, the client does not skip the consent screen and the consent lookup
  answered that nobody has consented yet.
\<close>

theorem new_callback_needs_fresh_consent:
  assumes "registerChatgptAuthorizeRedirect parse db (Some cid) (Some uri) s = (Inr Updated, s')"
  shows "\<exists>s2 client latest s3 s4. load_uris db cid s2 = (Inr (Some (client, latest)), s3) \<and>
     updateRedirects db cid (latest @ [uri]) s4 = (Inr (), s') \<and> documented_callback uri \<and> uri \<notin> set latest \<and>
     (isNewCallbackId parse uri latest \<longrightarrow> oc_skipConsent client \<noteq> Some True \<and>
        (\<exists>lookup. clientHasConsent db = Some lookup \<and> lookup cid s3 = (Inr False, s4)))"
proof -
  from updated_hook [OF assms] obtain s2 client latest s3 s4
    where l: "load_uris db cid s2 = (Inr (Some (client, latest)), s3)"
      and m: "mayStoreRedirect parse db cid uri latest (oc_skipConsent client) s3 = (True, s4)"
      and st: "store_uris db cid (nextRedirectUris parse uri latest) s4 = (Inr Updated, s')" by blast
  from store_Updated [OF st] obtain uris where
    u: "nextRedirectUris parse uri latest = Some uris" "updateRedirects db cid uris s4 = (Inr (), s')" by blast
  have "uri \<notin> set latest"
    using u(1) acceptable_documented [of parse uri]
    by (auto simp: nextRedirectUris_def redirectToRegister_def Let_def split: option.splits if_splits)
  with l u mayStore_True [OF m] nextRedirectUris_Some [OF u(1)] show ?thesis by blast
qed

lemma sample_new_id: "isNewCallbackId sample_web_url (callback_uri ''a1'') [stable_uri]"
  by code_simp

theorem new_callback_needs_fresh_consent_witness:
  "\<exists>s2 client latest s3 s4. load_uris (auth_db None) ''c'' s2 = (Inr (Some (client, latest)), s3) \<and>
     updateRedirects (auth_db None) ''c'' (latest @ [callback_uri ''a1'']) s4 =
       (Inr (), \<lparr>as_uris = [stable_uri, callback_uri ''a1''], as_consented = False, as_attempts = []\<rparr>) \<and>
     callback_uri ''a1'' \<notin> set latest"
proof -
  have "acceptableRequestedRedirect sample_web_url (callback_uri ''a1'') \<noteq> None" "callback_uri ''a1'' \<noteq> []"
    by code_simp+
  then have "registerChatgptAuthorizeRedirect sample_web_url (auth_db None) (Some ''c'') (Some (callback_uri ''a1''))
      \<lparr>as_uris = [stable_uri], as_consented = False, as_attempts = []\<rparr> =
    (Inr Updated, \<lparr>as_uris = [stable_uri, callback_uri ''a1''], as_consented = False, as_attempts = []\<rparr>)"
    by (auto simp: registerChatgptAuthorizeRedirect_def auth_db_simps may_store_def sample_next)
  from new_callback_needs_fresh_consent [OF this] show ?thesis by blast
qed

end
