(* ===== verification/Dash_Zip.thy ===== *)
theory Dash_Zip
  imports Sha256 "HOL-Library.Monad_Syntax"
begin

text \<open>
  \<open>apps/dashboard/lib/zip.ts\<close>: the CRC-32 and the archive writer behind the downloads of the
  dashboard. Words keep their 32 bits; the fields of the headers are written with the
  wrap-around of \<open>setUint16\<close> and \<open>setUint32\<close>. Strings are their UTF-8 bytes, so \<open>encode\<close> is
  the identity.

  The reader is the one of the ZIP specification: from the record at the end of the archive over
  the central directory to the local headers. It takes an entry only if the central and the local
  header agree on name, sizes and checksum and the checksum, computed bit by bit, is that of the
  stored bytes.
\<close>

section \<open>CRC-32\<close>

definition crc_bit :: "32 word \<Rightarrow> 32 word" where
  "crc_bit c = (if c AND 1 \<noteq> 0 then 0xEDB88320 XOR drop_bit 1 c else drop_bit 1 c)"

fun crc_bits :: "nat \<Rightarrow> 32 word \<Rightarrow> 32 word" where
  "crc_bits 0 c = c"
| "crc_bits (Suc k) c = crc_bits k (crc_bit c)"

definition crcTable :: "32 word list" where
  "crcTable = map (\<lambda>n. crc_bits 8 (of_nat n)) [0..<256]"

definition crc_lookup :: "32 word \<Rightarrow> 32 word" where
  "crc_lookup i = (if unat i < length crcTable then crcTable ! unat i else 0)"

definition crc_step :: "32 word \<Rightarrow> char \<Rightarrow> 32 word" where
  "crc_step crc b = crc_lookup ((crc XOR of_char b) AND 0xFF) XOR drop_bit 8 crc"

definition crc32 :: "string \<Rightarrow> 32 word" where
  "crc32 data = foldl crc_step 0xFFFFFFFF data XOR 0xFFFFFFFF"

section \<open>Headers\<close>

definition le_bytes :: "nat \<Rightarrow> nat \<Rightarrow> string" where
  "le_bytes k n = map (\<lambda>i. char_of (n div 256 ^ i mod 256)) [0..<k]"

text \<open>\<open>setUint16\<close> and \<open>setUint32\<close> on the bytes of a view, little-endian.\<close>

definition set_uint :: "nat \<Rightarrow> nat \<Rightarrow> nat \<Rightarrow> string \<Rightarrow> string" where
  "set_uint k off v dv = take off dv @ le_bytes k v @ drop (off + k) dv"

definition setUint16 :: "nat \<Rightarrow> nat \<Rightarrow> string \<Rightarrow> string" where
  "setUint16 = set_uint 2"

definition setUint32 :: "nat \<Rightarrow> nat \<Rightarrow> string \<Rightarrow> string" where
  "setUint32 = set_uint 4"

definition ArrayBuffer :: "nat \<Rightarrow> string" where
  "ArrayBuffer n = replicate n (CHR 0x00)"

record ZipEntry =
  ze_path :: string
  ze_data :: string

definition local_header :: "nat \<Rightarrow> nat \<Rightarrow> nat \<Rightarrow> string" where
  "local_header crc sz nameLength =
     (let dv = setUint32 0 0x04034b50 (ArrayBuffer 30);
          dv = setUint16 4 20 dv;
          dv = setUint16 6 0x0800 dv;
          dv = setUint16 8 0 dv;
          dv = setUint16 10 0 dv;
          dv = setUint16 12 0 dv;
          dv = setUint32 14 crc dv;
          dv = setUint32 18 sz dv;
          dv = setUint32 22 sz dv;
          dv = setUint16 26 nameLength dv
      in setUint16 28 0 dv)"

definition central_header :: "nat \<Rightarrow> nat \<Rightarrow> nat \<Rightarrow> nat \<Rightarrow> string" where
  "central_header crc sz nameLength offset =
     (let dv = setUint32 0 0x02014b50 (ArrayBuffer 46);
          dv = setUint16 4 20 dv;
          dv = setUint16 6 20 dv;
          dv = setUint16 8 0x0800 dv;
          dv = setUint16 10 0 dv;
          dv = setUint16 12 0 dv;
          dv = setUint16 14 0 dv;
          dv = setUint32 16 crc dv;
          dv = setUint32 20 sz dv;
          dv = setUint32 24 sz dv;
          dv = setUint16 28 nameLength dv
      in setUint32 42 offset dv)"

definition end_record :: "nat \<Rightarrow> nat \<Rightarrow> nat \<Rightarrow> string" where
  "end_record count centralSize offset =
     (let dv = setUint32 0 0x06054b50 (ArrayBuffer 22);
          dv = setUint16 8 count dv;
          dv = setUint16 10 count dv;
          dv = setUint32 12 centralSize dv
      in setUint32 16 offset dv)"

section \<open>The archive\<close>

text \<open>The loop over the entries, with \<open>chunks\<close>, \<open>central\<close> and \<open>offset\<close>.\<close>

fun zip_loop :: "ZipEntry list \<Rightarrow> string list \<Rightarrow> string list \<Rightarrow> nat \<Rightarrow> string list \<times> string list \<times> nat" where
  "zip_loop [] chunks central offset = (chunks, central, offset)"
| "zip_loop (entry # entries) chunks central offset =
     (let name = ze_path entry;
          crc = unat (crc32 (ze_data entry));
          sz = length (ze_data entry)
      in zip_loop entries
           (chunks @ [local_header crc sz (length name), name, ze_data entry])
           (central @ [central_header crc sz (length name) offset, name])
           (offset + (30 + length name + sz)))"

definition buildZip :: "ZipEntry list \<Rightarrow> string" where
  "buildZip entries =
     (let (chunks, central, offset) = zip_loop entries [] [] 0;
          centralSize = sum_list (map length central);
          eocd = end_record (length entries) centralSize offset
      in concat (chunks @ central @ [eocd]))"

section \<open>A reader\<close>

text \<open>The checksum without a table, one bit a step.\<close>

definition crc32_bitwise :: "string \<Rightarrow> 32 word" where
  "crc32_bitwise data = foldl (\<lambda>c b. crc_bits 8 (c XOR of_char b)) 0xFFFFFFFF data XOR 0xFFFFFFFF"

definition le_val :: "string \<Rightarrow> nat" where
  "le_val s = foldr (\<lambda>c n. of_char c + 256 * n) s 0"

definition get_le :: "nat \<Rightarrow> string \<Rightarrow> (nat \<times> string) option" where
  "get_le k s = (if length s < k then None else Some (le_val (take k s), drop k s))"

definition get_bytes :: "nat \<Rightarrow> string \<Rightarrow> (string \<times> string) option" where
  "get_bytes k s = (if length s < k then None else Some (take k s, drop k s))"

definition guard :: "bool \<Rightarrow> unit option" where
  "guard b = (if b then Some () else None)"

text \<open>
  The stored bytes behind the local header at the offset. Version 2.0, no compression, names in
  UTF-8; checksum and sizes are those of the central directory.
\<close>

definition read_local :: "string \<Rightarrow> string \<Rightarrow> nat \<Rightarrow> nat \<Rightarrow> nat \<Rightarrow> string option" where
  "read_local name archive crc0 sz offset = do {
     (sig, s) \<leftarrow> get_le 4 (drop offset archive);
     guard (sig = 0x04034b50);
     (version, s) \<leftarrow> get_le 2 s; (flags, s) \<leftarrow> get_le 2 s; (meth, s) \<leftarrow> get_le 2 s;
     guard (version = 20 \<and> flags = 0x0800 \<and> meth = 0);
     (time, s) \<leftarrow> get_le 4 s; (crc, s) \<leftarrow> get_le 4 s; (csize, s) \<leftarrow> get_le 4 s; (usize, s) \<leftarrow> get_le 4 s;
     guard (crc = crc0 \<and> csize = sz \<and> usize = sz);
     (nlen, s) \<leftarrow> get_le 2 s; (xlen, s) \<leftarrow> get_le 2 s;
     (name', s) \<leftarrow> get_bytes nlen s;
     guard (name' = name);
     (extra, s) \<leftarrow> get_bytes xlen s;
     (data, s) \<leftarrow> get_bytes sz s;
     guard (unat (crc32_bitwise data) = crc);
     Some data }"

fun read_central :: "string \<Rightarrow> nat \<Rightarrow> string \<Rightarrow> ZipEntry list option" where
  "read_central archive 0 s = Some []"
| "read_central archive (Suc n) s = do {
     (sig, s) \<leftarrow> get_le 4 s;
     guard (sig = 0x02014b50);
     (made, s) \<leftarrow> get_le 2 s; (version, s) \<leftarrow> get_le 2 s; (flags, s) \<leftarrow> get_le 2 s; (meth, s) \<leftarrow> get_le 2 s;
     guard (version = 20 \<and> flags = 0x0800 \<and> meth = 0);
     (time, s) \<leftarrow> get_le 4 s; (crc, s) \<leftarrow> get_le 4 s; (csize, s) \<leftarrow> get_le 4 s; (usize, s) \<leftarrow> get_le 4 s;
     guard (csize = usize);
     (nlen, s) \<leftarrow> get_le 2 s; (xlen, s) \<leftarrow> get_le 2 s; (clen, s) \<leftarrow> get_le 2 s; (attrs, s) \<leftarrow> get_le 8 s;
     (offset, s) \<leftarrow> get_le 4 s;
     (name, s) \<leftarrow> get_bytes nlen s;
     (extra, s) \<leftarrow> get_bytes xlen s;
     (comment, s) \<leftarrow> get_bytes clen s;
     data \<leftarrow> read_local name archive crc csize offset;
     rest \<leftarrow> read_central archive n s;
     Some (\<lparr>ze_path = name, ze_data = data\<rparr> # rest) }"

text \<open>One disk, no comment, and the central directory ends where the end record begins.\<close>

definition unzip :: "string \<Rightarrow> ZipEntry list option" where
  "unzip archive = do {
     guard (22 \<le> length archive);
     (sig, s) \<leftarrow> get_le 4 (drop (length archive - 22) archive);
     guard (sig = 0x06054b50);
     (disks, s) \<leftarrow> get_le 4 s; (here, s) \<leftarrow> get_le 2 s; (count, s) \<leftarrow> get_le 2 s;
     (csize, s) \<leftarrow> get_le 4 s; (offset, s) \<leftarrow> get_le 4 s; (clen, s) \<leftarrow> get_le 2 s;
     guard (disks = 0 \<and> here = count \<and> clen = 0 \<and> offset + csize + 22 = length archive);
     read_central archive count (drop offset archive) }"

section \<open>The table is the shift register\<close>

lemma crc_bit_odd: "crc_bit c = (if odd c then 0xEDB88320 XOR drop_bit 1 c else drop_bit 1 c)"
  by (simp add: crc_bit_def and_one_eq mod_2_eq_odd)

lemma crc_bit_xor: "crc_bit (a XOR b) = crc_bit a XOR crc_bit b"
  by (simp add: crc_bit_odd even_xor_iff drop_bit_xor xor.assoc xor.left_commute xor.commute)

lemma crc_bits_xor: "crc_bits k (a XOR b) = crc_bits k a XOR crc_bits k b"
  by (induction k arbitrary: a b) (simp_all add: crc_bit_xor)

lemma crc_bits_drop: "(\<And>i. i < k \<Longrightarrow> \<not> bit z i) \<Longrightarrow> crc_bits k z = drop_bit k z"
proof (induction k arbitrary: z)
  case (Suc k)
  have "even z" using Suc.prems [of 0] by (simp add: bit_0)
  moreover have "crc_bits k (drop_bit 1 z) = drop_bit k (drop_bit 1 z)"
    by (rule Suc.IH) (simp add: bit_drop_bit_eq Suc.prems)
  ultimately show ?case by (simp add: crc_bit_odd drop_bit_drop_bit)
qed simp

lemma of_char_word: "(of_char b :: 32 word) = of_nat (of_char b)" "unat (of_char b :: 32 word) = of_char b"
proof -
  show e: "(of_char b :: 32 word) = of_nat (of_char b)" by (simp only: of_nat_of_char)
  show "unat (of_char b :: 32 word) = of_char b"
    unfolding e unsigned_of_nat of_nat_id
    by (rule take_bit_nat_eq_self) (rule less_trans [OF nat_of_char_less_256], simp)
qed

lemma crc_lookup_byte: "crc_lookup (x AND 0xFF) = crc_bits 8 (x AND 0xFF)"
proof -
  have "x AND 0xFF = take_bit 8 x" by (simp add: take_bit_eq_mask mask_eq_exp_minus_1)
  then have "unat (x AND 0xFF) < 256" using take_bit_nat_less_exp [of 8 "unat x"] by (simp add: unsigned_take_bit_eq)
  then show ?thesis by (simp add: crc_lookup_def crcTable_def)
qed

lemma crc_split: "crc_bits 8 x = crc_bits 8 (x AND 0xFF) XOR drop_bit 8 x"
proof -
  have m: "(0xFF :: 32 word) = mask 8" by (simp add: mask_eq_exp_minus_1)
  have "x = (x AND 0xFF) XOR (x AND NOT 0xFF)"
    by (rule bit_eqI) (auto simp: bit_simps)
  then have "crc_bits 8 x = crc_bits 8 (x AND 0xFF) XOR crc_bits 8 (x AND NOT 0xFF)"
    by (metis crc_bits_xor)
  also have "crc_bits 8 (x AND NOT 0xFF) = drop_bit 8 (x AND NOT 0xFF)"
    by (rule crc_bits_drop) (auto simp: m bit_simps)
  also have "\<dots> = drop_bit 8 x"
    by (rule bit_eqI) (auto simp: m bit_simps dest: bit_imp_le_length)
  finally show ?thesis .
qed

lemma crc_step_bits: "crc_step c b = crc_bits 8 (c XOR of_char b)"
proof -
  have "unat (drop_bit 8 (of_char b :: 32 word)) = 0"
    unfolding unsigned_drop_bit_eq of_char_word(2)
    unfolding drop_bit_eq_div
    using div_less [OF le_less_trans [OF take_bit_nat_less_eq_self nat_of_char_less_256 [of b]]] by simp
  then have "drop_bit 8 (of_char b :: 32 word) = 0" by (simp only: unat_eq_0)
  then have "drop_bit 8 (c XOR of_char b) = drop_bit 8 c" by (simp add: drop_bit_xor)
  then show ?thesis by (simp add: crc_step_def crc_lookup_byte crc_split [of "c XOR of_char b"])
qed

lemma crc32_bits: "crc32 s = crc32_bitwise s"
proof -
  have "crc_step = (\<lambda>c b. crc_bits 8 (c XOR of_char b))" by (intro ext) (rule crc_step_bits)
  then show ?thesis by (simp add: crc32_def crc32_bitwise_def)
qed

section \<open>A changed byte changes the checksum\<close>

lemma crc_bit_inj: "crc_bit a = crc_bit b \<Longrightarrow> a = b"
proof -
  assume "crc_bit a = crc_bit b"
  then have z: "crc_bit (a XOR b) = 0" by (simp add: crc_bit_xor)
  have "crc_bit c \<noteq> 0" if "c \<noteq> 0" for c
  proof (cases "odd c")
    case True
    have "bit (crc_bit c) 31" using True bit_imp_le_length [of c 32] by (auto simp: crc_bit_odd bit_simps)
    then show ?thesis by auto
  next
    case False
    from that obtain n where "bit c n" using bit_eq_iff [of c 0] by auto
    with False have "bit (drop_bit 1 c) (n - 1)" by (cases n) (auto simp: bit_simps bit_0)
    with False show ?thesis by (auto simp: crc_bit_odd)
  qed
  with z have "a XOR b = 0" by blast
  then have "(a XOR b) XOR b = 0 XOR b" by (rule arg_cong)
  then show "a = b" by (simp only: xor.assoc xor_self_eq xor.left_neutral xor.right_neutral)
qed


lemma crc_bits_inj: "crc_bits k a = crc_bits k b \<Longrightarrow> a = b"
proof (induction k arbitrary: a b)
  case (Suc k)
  from Suc.prems have "crc_bit a = crc_bit b" using Suc.IH [of "crc_bit a" "crc_bit b"] by (simp only: crc_bits.simps)
  then show ?case by (rule crc_bit_inj)
qed simp

lemma crc_step_inj_crc: "crc_step a c = crc_step b c \<Longrightarrow> a = b"
  unfolding crc_step_bits by (drule crc_bits_inj) (drule arg_cong [of _ _ "\<lambda>x. x XOR of_char c"], simp add: xor.assoc)

lemma crc_step_inj_byte:
  assumes "crc_step a c = crc_step a d"
  shows "c = d"
proof -
  from assms have "a XOR of_char c = a XOR of_char d" unfolding crc_step_bits by (rule crc_bits_inj)
  then have "a XOR (a XOR of_char c) = a XOR (a XOR of_char d)" by (rule arg_cong)
  then have "(of_char c :: 32 word) = of_char d" by (simp only: xor.assoc [symmetric] xor_self_eq xor.left_neutral)
  then have "unat (of_char c :: 32 word) = unat (of_char d :: 32 word)" by (rule arg_cong)
  then show "c = d" by (simp only: of_char_word(2) of_char_eq_iff)
qed

lemma crc_fold_inj: "foldl crc_step a s = foldl crc_step b s \<Longrightarrow> a = b"
proof (induction s arbitrary: a b)
  case (Cons c s)
  from Cons.prems have "crc_step a c = crc_step b c" using Cons.IH [of "crc_step a c" "crc_step b c"] by (simp only: foldl.simps)
  then show ?case by (rule crc_step_inj_crc)
qed simp

section \<open>Reading back a header\<close>

lemma le_bytes_Suc: "le_bytes (Suc k) n = char_of (n mod 256) # le_bytes k (n div 256)"
proof -
  have "le_bytes (Suc k) n = map (\<lambda>i. char_of (n div 256 ^ i mod 256)) (0 # map Suc [0..<k])"
    unfolding le_bytes_def map_Suc_upt by (subst upt_conv_Cons) simp_all
  then show ?thesis by (simp add: le_bytes_def comp_def div_mult2_eq)
qed

lemma length_le_bytes [simp]: "length (le_bytes k n) = k"
  by (simp add: le_bytes_def)

lemma le_val_bytes: "le_val (le_bytes k n) = n mod 256 ^ k"
proof (induction k arbitrary: n)
  case (Suc k)
  have "le_val (le_bytes (Suc k) n) = n mod 256 + 256 * (n div 256 mod 256 ^ k)"
    using Suc.IH [of "n div 256"] by (simp add: le_val_def le_bytes_Suc)
  then show ?case by (simp add: mod_mult2_eq)
qed (simp add: le_val_def le_bytes_def)

lemma get_le_bytes [simp]: "get_le k (le_bytes k n @ s) = Some (n mod 256 ^ k, s)"
  by (simp add: get_le_def le_val_bytes)

lemma get_le_bytes_end [simp]: "get_le k (le_bytes k n) = Some (n mod 256 ^ k, [])"
  using get_le_bytes [of k n "[]"] by simp

lemma get_bytes_append [simp]: "get_bytes (length s) (s @ t) = Some (s, t)" "get_bytes 0 t = Some ([], t)"
  by (simp_all add: get_bytes_def)

lemma guard_simps [simp]: "guard True = Some ()" "guard False = None"
  by (simp_all add: guard_def)

lemma set_uint_skip: "length a \<le> off \<Longrightarrow> set_uint k off v (a @ c) = a @ set_uint k (off - length a) v c"
proof -
  assume "length a \<le> off"
  then have "off + k - length a = off - length a + k" by simp
  with \<open>length a \<le> off\<close> show ?thesis by (simp add: set_uint_def)
qed

lemma set_uint_here: "length b = k \<Longrightarrow> set_uint k 0 v (b @ c) = le_bytes k v @ c"
  by (simp add: set_uint_def)

lemma set_uint_all: "length b = k \<Longrightarrow> set_uint k 0 v b = le_bytes k v"
  by (simp add: set_uint_def)

lemma length_ArrayBuffer [simp]: "length (ArrayBuffer n) = n"
  by (simp add: ArrayBuffer_def)

lemma ArrayBuffer_split: "ArrayBuffer (m + n) = ArrayBuffer m @ ArrayBuffer n"
  by (simp add: ArrayBuffer_def replicate_add)

lemma ArrayBuffer_le_bytes: "ArrayBuffer n = le_bytes n 0"
proof -
  have "char_of (0 :: nat) = CHR 0x00" by code_simp
  then show ?thesis by (simp add: ArrayBuffer_def le_bytes_def map_replicate_trivial flip: map_replicate_const)
qed

lemmas set_uint_simps = setUint16_def setUint32_def set_uint_skip set_uint_here set_uint_all

lemma local_header_layout:
  "local_header crc sz n =
     le_bytes 4 0x04034b50 @ le_bytes 2 20 @ le_bytes 2 0x0800 @ le_bytes 2 0 @ le_bytes 2 0 @ le_bytes 2 0 @
     le_bytes 4 crc @ le_bytes 4 sz @ le_bytes 4 sz @ le_bytes 2 n @ le_bytes 2 0"
proof -
  have b: "ArrayBuffer 30 = ArrayBuffer 4 @ ArrayBuffer 2 @ ArrayBuffer 2 @ ArrayBuffer 2 @ ArrayBuffer 2 @ ArrayBuffer 2 @
    ArrayBuffer 4 @ ArrayBuffer 4 @ ArrayBuffer 4 @ ArrayBuffer 2 @ ArrayBuffer 2"
    by (simp add: ArrayBuffer_split [symmetric])
  show ?thesis unfolding local_header_def Let_def b by (simp add: set_uint_simps)
qed

lemma central_header_layout:
  "central_header crc sz n off =
     le_bytes 4 0x02014b50 @ le_bytes 2 20 @ le_bytes 2 20 @ le_bytes 2 0x0800 @ le_bytes 2 0 @ le_bytes 2 0 @ le_bytes 2 0 @
     le_bytes 4 crc @ le_bytes 4 sz @ le_bytes 4 sz @ le_bytes 2 n @ le_bytes 2 0 @ le_bytes 2 0 @ le_bytes 8 0 @ le_bytes 4 off"
proof -
  have b: "ArrayBuffer 46 = ArrayBuffer 4 @ ArrayBuffer 2 @ ArrayBuffer 2 @ ArrayBuffer 2 @ ArrayBuffer 2 @ ArrayBuffer 2 @
    ArrayBuffer 2 @ ArrayBuffer 4 @ ArrayBuffer 4 @ ArrayBuffer 4 @ ArrayBuffer 2 @ ArrayBuffer 2 @ ArrayBuffer 2 @
    ArrayBuffer 8 @ ArrayBuffer 4"
    by (simp add: ArrayBuffer_split [symmetric])
  show ?thesis unfolding central_header_def Let_def b by (simp add: set_uint_simps) (simp add: ArrayBuffer_le_bytes)
qed

lemma end_record_layout:
  "end_record count csize off =
     le_bytes 4 0x06054b50 @ le_bytes 4 0 @ le_bytes 2 count @ le_bytes 2 count @ le_bytes 4 csize @ le_bytes 4 off @ le_bytes 2 0"
proof -
  have b: "ArrayBuffer 22 = ArrayBuffer 4 @ ArrayBuffer 4 @ ArrayBuffer 2 @ ArrayBuffer 2 @ ArrayBuffer 4 @ ArrayBuffer 4 @ ArrayBuffer 2"
    by (simp add: ArrayBuffer_split [symmetric])
  show ?thesis unfolding end_record_def Let_def b by (simp add: set_uint_simps) (simp add: ArrayBuffer_le_bytes)
qed

section \<open>The layout of an archive\<close>

definition local_part :: "ZipEntry \<Rightarrow> string" where
  "local_part e =
     local_header (unat (crc32 (ze_data e))) (length (ze_data e)) (length (ze_path e)) @ ze_path e @ ze_data e"

definition local_parts :: "ZipEntry list \<Rightarrow> string" where
  "local_parts es = concat (map local_part es)"

fun central_parts :: "nat \<Rightarrow> ZipEntry list \<Rightarrow> string" where
  "central_parts off [] = []"
| "central_parts off (e # es) =
     central_header (unat (crc32 (ze_data e))) (length (ze_data e)) (length (ze_path e)) off @ ze_path e @
     central_parts (off + length (local_part e)) es"

lemma local_parts_simps [simp]: "local_parts [] = []" "local_parts (e # es) = local_part e @ local_parts es"
  by (simp_all add: local_parts_def)

lemma length_local_part: "length (local_part e) = 30 + length (ze_path e) + length (ze_data e)"
  by (simp add: local_part_def local_header_layout)

lemma zip_loop_spec:
  assumes "zip_loop es chunks central off = (chunks', central', off')"
  shows "concat chunks' = concat chunks @ local_parts es \<and> concat central' = concat central @ central_parts off es \<and>
    off' = off + length (local_parts es)"
  using assms
proof (induction es arbitrary: chunks central off)
  case (Cons e es)
  from Cons.IH [OF Cons.prems [unfolded zip_loop.simps Let_def]] show ?case
    by (simp add: local_part_def length_local_part add.assoc) (simp add: local_header_layout add.assoc)
qed simp

lemma buildZip_layout:
  "buildZip es =
     local_parts es @ central_parts 0 es @
     end_record (length es) (length (central_parts 0 es)) (length (local_parts es))"
proof (cases "zip_loop es [] [] 0")
  case (fields chunks central off)
  from zip_loop_spec [OF this] fields show ?thesis
    by (simp add: buildZip_def length_concat [symmetric])
qed

section \<open>Reading an archive\<close>

lemma crc_fits: "unat (crc32 s) mod 4294967296 = unat (crc32 s)"
  using unsigned_less [of "crc32 s", where ?'a = nat] by simp

lemma read_local_part:
  assumes "length (ze_path e) < 65536"
    and "length (ze_data e) < 4294967296"
  shows "read_local (ze_path e) (pre @ local_part e @ post) (unat (crc32 (ze_data e))) (length (ze_data e)) (length pre) =
    Some (ze_data e)"
  using assms
  by (simp add: read_local_def local_part_def local_header_layout crc_fits crc32_bits [symmetric]
      get_le_def [of 4 "le_bytes 2 0 @ s" for s])

lemma read_central_parts:
  assumes "\<forall>e \<in> set es. length (ze_path e) < 65536" "length pre + length (local_parts es) < 4294967296" "n \<le> length es"
    and "archive = pre @ local_parts es @ post"
  shows "read_central archive n (central_parts (length pre) es @ rest) = Some (take n es)"
  using assms
proof (induction es arbitrary: n pre)
  case (Cons e es)
  show ?case
  proof (cases n)
    case (Suc m)
    have l: "length pre < 4294967296" "length (ze_data e) < 4294967296"
      using Cons.prems(2) by (simp_all add: length_local_part)
    have "read_local (ze_path e) archive (unat (crc32 (ze_data e))) (length (ze_data e)) (length pre) = Some (ze_data e)"
      using read_local_part [of e pre "local_parts es @ post"] Cons.prems l by simp
    moreover have "read_central archive m (central_parts (length (pre @ local_part e)) es @ rest) = Some (take m es)"
      by (rule Cons.IH) (use Cons.prems Suc in auto)
    ultimately show ?thesis
      using Cons.prems(1) l
      by (simp add: Suc central_header_layout crc_fits get_le_def [of 4 "le_bytes 2 0 @ s" for s])
  qed simp
qed simp

lemma length_local_parts:
  "length (local_parts es) = sum_list (map (\<lambda>e. 30 + length (ze_path e) + length (ze_data e)) es)"
  by (induction es) (simp_all add: length_local_part)

text \<open>The check value of the standard.\<close>

lemma crc32_check_steps:
  "crc_bits 8 (0xFFFFFFFF XOR of_char (CHR ''1'')) = 0x7C231048"
  "crc_bits 8 (0x7C231048 XOR of_char (CHR ''2'')) = 0xB0ACBB32"
  "crc_bits 8 (0xB0ACBB32 XOR of_char (CHR ''3'')) = 0x77B79C2D"
  "crc_bits 8 (0x77B79C2D XOR of_char (CHR ''4'')) = 0x641C1F5C"
  "crc_bits 8 (0x641C1F5C XOR of_char (CHR ''5'')) = 0x340AC5E3"
  "crc_bits 8 (0x340AC5E3 XOR of_char (CHR ''6'')) = 0xF68D2C9E"
  "crc_bits 8 (0xF68D2C9E XOR of_char (CHR ''7'')) = 0xAFFC9660"
  "crc_bits 8 (0xAFFC9660 XOR of_char (CHR ''8'')) = 0x651F2550"
  "crc_bits 8 (0x651F2550 XOR of_char (CHR ''9'')) = 0x340BC6D9"
  by code_simp+

lemma crc32_check: "crc32_bitwise ''123456789'' = 0xCBF43926"
  unfolding crc32_bitwise_def foldl.simps crc32_check_steps by code_simp

section \<open>Properties\<close>

text \<open>
  The checksum. The table-driven \<open>crc32\<close> is the shift register of the standard, and two byte
  strings that differ in exactly one place have different checksums.
\<close>

theorem crc32_is_the_standard_checksum:
  "crc32 s = crc32_bitwise s \<and> (a \<noteq> b \<longrightarrow> crc32 (u @ a # v) \<noteq> crc32 (u @ b # v))"
proof
  show "crc32 s = crc32_bitwise s" by (rule crc32_bits)
  show "a \<noteq> b \<longrightarrow> crc32 (u @ a # v) \<noteq> crc32 (u @ b # v)"
  proof (intro impI notI)
    assume "a \<noteq> b" and "crc32 (u @ a # v) = crc32 (u @ b # v)"
    then have "(crc32 (u @ a # v) XOR 0xFFFFFFFF) = (crc32 (u @ b # v) XOR 0xFFFFFFFF)" by simp
    then have "foldl crc_step 0xFFFFFFFF (u @ a # v) = foldl crc_step 0xFFFFFFFF (u @ b # v)"
      unfolding crc32_def by (simp only: xor.assoc xor_self_eq xor.right_neutral)
    then have "crc_step (foldl crc_step 0xFFFFFFFF u) a = crc_step (foldl crc_step 0xFFFFFFFF u) b"
      unfolding foldl_append foldl.simps by (rule crc_fold_inj)
    then have "a = b" by (rule crc_step_inj_byte)
    with \<open>a \<noteq> b\<close> show False by contradiction
  qed
qed

theorem crc32_is_the_standard_checksum_witness:
  "crc32 ''123456789'' = 0xCBF43926 \<and> crc32 (''1234'' @ CHR ''5'' # ''6789'') \<noteq> crc32 (''1234'' @ CHR ''x'' # ''6789'')"
  using crc32_is_the_standard_checksum [of "''123456789''" "CHR ''5''" "CHR ''x''" "''1234''" "''6789''"] crc32_check by auto

lemma unzip_buildZip:
  assumes "\<forall>e \<in> set entries. length (ze_path e) < 65536" and "length (buildZip entries) < 4294967296"
  shows "unzip (buildZip entries) = Some (take (length entries mod 65536) entries)"
proof -
  let ?a = "buildZip entries" and ?c = "central_parts 0 entries"
  let ?e = "end_record (length entries) (length ?c) (length (local_parts entries))"
  have a: "?a = local_parts entries @ ?c @ ?e" by (rule buildZip_layout)
  have l: "length ?e = 22" by (simp add: end_record_layout)
  have n: "length (local_parts entries) < 4294967296" "length ?c < 4294967296"
    using assms(2) by (simp_all add: a)
  have "drop (length ?a - 22) ?a = ?e" using l by (simp add: a)
  moreover have "read_central ?a (length entries mod 65536) (?c @ ?e) = Some (take (length entries mod 65536) entries)"
    using read_central_parts [of entries "[]" "length entries mod 65536" ?a "?c @ ?e" ?e] assms(1) n(1) by (simp add: a)
  moreover have "drop (length (local_parts entries)) ?a = ?c @ ?e" by (simp add: a)
  moreover have "22 \<le> length ?a" "length ?a = length (local_parts entries) + length ?c + 22" using l by (simp_all add: a)
  ultimately show ?thesis using n by (simp add: unzip_def end_record_layout)
qed

text \<open>
  C23. Archives can be read. For an archive of less than 4 GiB whose names are below 64 KiB, a reader that
  follows the ZIP specification and checks signatures, versions, offsets and, in both headers of an
  entry, its name, its sizes and its CRC-32, gets from it, in order, exactly the first \<open>n mod 65536\<close> of the
  \<open>n\<close> entries: all of them below 65536 entries, and otherwise only those that the wrapped count of the
  end record announces.
\<close>

theorem archive_roundtrip:
  assumes "\<forall>e \<in> set entries. length (ze_path e) < 65536" and "length (buildZip entries) < 4294967296"
  shows "unzip (buildZip entries) = Some (take (length entries mod 65536) entries)"
  using assms by (rule unzip_buildZip)

definition sample_archive :: "ZipEntry list" where
  "sample_archive = [\<lparr>ze_path = ''SKILL.md'', ze_data = ''# hi''\<rparr>, \<lparr>ze_path = ''a/b.txt'', ze_data = []\<rparr>]"

theorem archive_roundtrip_witness: "unzip (buildZip sample_archive) = Some sample_archive"
proof -
  have "length (buildZip sample_archive) < 4294967296"
    by (simp add: sample_archive_def buildZip_layout length_local_part central_header_layout end_record_layout)
  then show ?thesis using archive_roundtrip [of sample_archive] by (simp add: sample_archive_def)
qed

end
