(* ===== verification/Dash_Api.thy ===== *)
theory Dash_Api
  imports Sdk_Sites Dash_TokenCache
begin

text \<open>
  \<open>apps/dashboard/lib/api.ts\<close> (the transport), \<open>session.ts\<close> and \<open>action-errors.ts\<close>: how the
  dashboard's server calls the control-plane API.

  Better Auth, the clock and \<open>fetch\<close> are parameters (the record \<open>platform\<close>); their state may
  change with every call. The world of the server adds the log of the requests sent, the token
  cache with the history of its calls, and what React's \<open>cache\<close> has memoized for the current
  request: during a render a memoized function runs once per argument, outside of a render (in
  a server action) it runs every time.

  A body of an error is a JSON value, \<open>null\<close> where it could not be read.
\<close>

section \<open>Errors\<close>

datatype api_error = ApiError nat string json | OtherError js_error

type_synonym 'a api_result = "api_error + 'a"

fun asQuotaExceeded :: "api_error \<Rightarrow> json option" where
  "asQuotaExceeded (ApiError status message (JObj kvs)) =
     (if status = 402 \<and> as_string (jprop kvs ''limit'') \<noteq> None then Some (JObj kvs) else None)"
| "asQuotaExceeded _ = None"

text \<open>\<open>(err.body as ...)?.message\<close>; a message of another type is passed on as it is.\<close>

definition body_message :: "json \<Rightarrow> json option" where
  "body_message body = body_prop (Some body) ''message''"

definition override :: "(nat \<times> string) list \<Rightarrow> nat \<Rightarrow> string \<Rightarrow> string" where
  "override overrides status fallback = (case map_of overrides status of Some m \<Rightarrow> m | None \<Rightarrow> fallback)"

fun apiErrorMessage :: "api_error \<Rightarrow> string \<Rightarrow> (nat \<times> string) list \<Rightarrow> json" where
  "apiErrorMessage (ApiError status m body) fallback overrides =
     (if truthy (body_message body) then the (body_message body)
      else JStr
        (if status = 400 \<and> override overrides 400 [] \<noteq> [] then override overrides 400 []
         else if status = 403 then override overrides 403 (''You don'' @ CHR 0x27 # ''t have permission to do that.'')
         else if status = 404 then override overrides 404 ''This site no longer exists.''
         else fallback))"
| "apiErrorMessage (OtherError e) fallback overrides = JStr ''Could not reach the API. Try again.''"

section \<open>The server and its platform\<close>

record session =
  ss_user :: "string option"
  ss_id :: "string option"
  ss_activeOrg :: "string option"

text \<open>What \<open>auth.api.getToken\<close> does: \<open>result?.token ?? null\<close>, an \<open>APIError\<close>, or another failure.\<close>

datatype token_reply = Token "string option" | AuthAPIError | AuthFailure js_error

record api_call =
  ac_method :: string
  ac_url :: string
  ac_headers :: "(string \<times> string) list"
  ac_body :: "string option"

record api_reply =
  ar_status :: nat
  ar_text :: "string result"

record 'n platform =
  pf_getSession :: "'n \<Rightarrow> session option \<times> 'n"
  pf_getToken :: "'n \<Rightarrow> token_reply \<times> 'n"
  pf_now :: "'n \<Rightarrow> int \<times> 'n"
  pf_fetch :: "api_call \<Rightarrow> 'n \<Rightarrow> api_reply result \<times> 'n"
  pf_API_URL :: string

record 'n api_world =
  aw_net :: 'n
  aw_sent :: "api_call list"
  aw_tokens :: TokenCache
  aw_calls :: "cache_event list"
  aw_minted :: "string list"
  aw_rendering :: bool
  aw_session :: "session option option"
  aw_bearer :: "string option api_result option"
  aw_gets :: "(string \<times> json option api_result) list"
  aw_revalidated :: "string list"

section \<open>Session and token\<close>

definition getCurrentSession :: "'n platform \<Rightarrow> 'n api_world \<Rightarrow> session option \<times> 'n api_world" where
  "getCurrentSession pf w =
     (case aw_session w of
        Some s \<Rightarrow> (s, w)
      | None \<Rightarrow>
          (case pf_getSession pf (aw_net w) of
             (s, n1) \<Rightarrow> (s, w\<lparr>aw_net := n1, aw_session := (if aw_rendering w then Some s else None)\<rparr>)))"

definition mintBearerToken :: "'n platform \<Rightarrow> 'n api_world \<Rightarrow> string option api_result \<times> 'n api_world" where
  "mintBearerToken pf w =
     (case pf_getToken pf (aw_net w) of
        (Token t, n1) \<Rightarrow>
          (Inr t, w\<lparr>aw_net := n1, aw_minted := (case t of Some tok \<Rightarrow> aw_minted w @ [tok] | None \<Rightarrow> aw_minted w)\<rparr>)
      | (AuthAPIError, n1) \<Rightarrow> (Inr None, w\<lparr>aw_net := n1\<rparr>)
      | (AuthFailure e, n1) \<Rightarrow> (Inl (OtherError e), w\<lparr>aw_net := n1\<rparr>))"

text \<open>\<open>tokenCache.get\<close> and \<open>tokenCache.set\<close> with the clock of the platform.\<close>

definition token_get :: "'n platform \<Rightarrow> string \<Rightarrow> 'n api_world \<Rightarrow> string option \<times> 'n api_world" where
  "token_get pf key w =
     (case pf_now pf (aw_net w) of
        (now, n1) \<Rightarrow>
          (case tc_get (aw_tokens w) key now of
             (t, c) \<Rightarrow> (t, w\<lparr>aw_net := n1, aw_tokens := c, aw_calls := GetEv key now # aw_calls w\<rparr>)))"

definition token_set :: "'n platform \<Rightarrow> string \<Rightarrow> string \<Rightarrow> 'n api_world \<Rightarrow> 'n api_world" where
  "token_set pf key token w =
     (case pf_now pf (aw_net w) of
        (sweep, n1) \<Rightarrow>
          (case pf_now pf n1 of
             (now, n2) \<Rightarrow> w\<lparr>aw_net := n2, aw_tokens := tc_set (aw_tokens w) key token sweep now,
                            aw_calls := SetEv key token sweep now # aw_calls w\<rparr>))"

fun non_empty :: "string option \<Rightarrow> bool" where
  "non_empty (Some s) = (s \<noteq> [])"
| "non_empty None = False"

definition find_bearer :: "'n platform \<Rightarrow> 'n api_world \<Rightarrow> string option api_result \<times> 'n api_world" where
  "find_bearer pf w =
     (case getCurrentSession pf w of
        (session, w1) \<Rightarrow>
          (let sessionId = (case session of Some s \<Rightarrow> ss_id s | None \<Rightarrow> None);
               activeOrgId = (case session of Some s \<Rightarrow> ss_activeOrg s | None \<Rightarrow> None)
           in if \<not> non_empty sessionId then mintBearerToken pf w1
              else
                (let key = tokenCacheKey (the sessionId) activeOrgId
                 in (case token_get pf key w1 of
                       (hit, w2) \<Rightarrow>
                         if non_empty hit then (Inr hit, w2)
                         else
                           (case mintBearerToken pf w2 of
                              (Inl e, w3) \<Rightarrow> (Inl e, w3)
                            | (Inr minted, w3) \<Rightarrow>
                                (Inr minted, if non_empty minted then token_set pf key (the minted) w3 else w3))))))"

text \<open>\<open>bearerToken\<close>, memoized for the current request; a rejection is memoized like a result.\<close>

definition bearerToken :: "'n platform \<Rightarrow> 'n api_world \<Rightarrow> string option api_result \<times> 'n api_world" where
  "bearerToken pf w =
     (case aw_bearer w of
        Some r \<Rightarrow> (r, w)
      | None \<Rightarrow>
          (case find_bearer pf w of
             (r, w1) \<Rightarrow> (r, if aw_rendering w1 then w1\<lparr>aw_bearer := Some r\<rparr> else w1)))"

section \<open>Requests\<close>

text \<open>The part of \<open>RequestInit\<close> that the endpoints use.\<close>

record request_init =
  ri_method :: "string option"
  ri_body :: "json option"

definition no_init :: request_init where
  "no_init = \<lparr>ri_method = None, ri_body = None\<rparr>"

definition with_json :: "string \<Rightarrow> json \<Rightarrow> request_init" where
  "with_json method body = \<lparr>ri_method = Some method, ri_body = Some body\<rparr>"

definition without_body :: "string \<Rightarrow> request_init" where
  "without_body method = \<lparr>ri_method = Some method, ri_body = None\<rparr>"

definition api_call_of :: "runtime \<Rightarrow> 'n platform \<Rightarrow> string \<Rightarrow> string option \<Rightarrow> request_init \<Rightarrow> api_call" where
  "api_call_of rt pf path token init =
     \<lparr>ac_method = (case ri_method init of Some m \<Rightarrow> m | None \<Rightarrow> ''GET''),
      ac_url = pf_API_URL pf @ path,
      ac_headers = [(''Accept'', ''application/json''), (''Content-Type'', ''application/json'')] @
        (if non_empty token then [(''Authorization'', ''Bearer '' @ the token)] else []),
      ac_body = map_option (JSON_stringify rt) (ri_body init)\<rparr>"

text \<open>\<open>res.json()\<close>.\<close>

definition reply_json :: "runtime \<Rightarrow> api_reply \<Rightarrow> json result" where
  "reply_json rt res =
     (case ar_text res of
        Inl e \<Rightarrow> Inl e
      | Inr t \<Rightarrow> (case JSON_parse t of Some j \<Rightarrow> Inr j | None \<Rightarrow> Inl (JsSyntaxError (syntax_message rt t))))"

definition read_reply :: "runtime \<Rightarrow> string \<Rightarrow> api_reply \<Rightarrow> json option api_result" where
  "read_reply rt path res =
     (if \<not> statusOk (ar_status res) then
        Inl (ApiError (ar_status res) (''API '' @ nat_to_string (ar_status res) @ '' on '' @ path)
               (case reply_json rt res of Inr j \<Rightarrow> j | Inl e \<Rightarrow> JNull))
      else if ar_status res = 204 then Inr None
      else (case reply_json rt res of Inr j \<Rightarrow> Inr (Some j) | Inl e \<Rightarrow> Inl (OtherError e)))"

text \<open>One exchange.\<close>

definition api_send :: "runtime \<Rightarrow> 'n platform \<Rightarrow> string \<Rightarrow> api_call \<Rightarrow> 'n api_world \<Rightarrow> json option api_result \<times> 'n api_world" where
  "api_send rt pf path call w =
     (case pf_fetch pf call (aw_net w) of
        (r, n1) \<Rightarrow>
          (case r of Inl e \<Rightarrow> Inl (OtherError e) | Inr res \<Rightarrow> read_reply rt path res,
           w\<lparr>aw_net := n1, aw_sent := aw_sent w @ [call]\<rparr>))"

definition apiFetch :: "runtime \<Rightarrow> 'n platform \<Rightarrow> string \<Rightarrow> request_init \<Rightarrow> 'n api_world \<Rightarrow> json option api_result \<times> 'n api_world" where
  "apiFetch rt pf path init w =
     (case bearerToken pf w of
        (Inl e, w1) \<Rightarrow> (Inl e, w1)
      | (Inr token, w1) \<Rightarrow> api_send rt pf path (api_call_of rt pf path token init) w1)"

definition apiFetchPublic ::
  "runtime \<Rightarrow> 'n platform \<Rightarrow> string \<Rightarrow> request_init \<Rightarrow> 'n api_world \<Rightarrow> json option api_result \<times> 'n api_world" where
  "apiFetchPublic rt pf path init w = api_send rt pf path (api_call_of rt pf path None init) w"

definition apiGet :: "runtime \<Rightarrow> 'n platform \<Rightarrow> string \<Rightarrow> 'n api_world \<Rightarrow> json option api_result \<times> 'n api_world" where
  "apiGet rt pf path w =
     (case (if aw_rendering w then map_of (aw_gets w) path else None) of
        Some r \<Rightarrow> (r, w)
      | None \<Rightarrow>
          (case apiFetch rt pf path no_init w of
             (r, w1) \<Rightarrow> (r, if aw_rendering w1 then w1\<lparr>aw_gets := (path, r) # aw_gets w1\<rparr> else w1)))"

section \<open>Whose token is sent\<close>

text \<open>
  What the dashboard relies on. \<open>current\<close> is the session of the request that the platform's state
  stands for; \<open>belongs\<close> says that a token was issued to a principal, that is, to a session and its
  active organisation. Better Auth resolves both \<open>getSession\<close> and \<open>getToken\<close> from the cookies of
  the request.
\<close>

type_synonym principal = "string option \<times> string"

definition principal_of :: "session option \<Rightarrow> principal" where
  "principal_of s =
     (case s of None \<Rightarrow> (None, []) | Some x \<Rightarrow> (ss_id x, case ss_activeOrg x of Some org \<Rightarrow> org | None \<Rightarrow> []))"

definition platform_ok :: "'n platform \<Rightarrow> ('n \<Rightarrow> session option) \<Rightarrow> (string \<Rightarrow> principal \<Rightarrow> bool) \<Rightarrow> bool" where
  "platform_ok pf current belongs \<longleftrightarrow>
     (\<forall>n. fst (pf_getSession pf n) = current n \<and> current (snd (pf_getSession pf n)) = current n) \<and>
     (\<forall>n. current (snd (pf_getToken pf n)) = current n \<and>
        (\<forall>t. fst (pf_getToken pf n) = Token (Some t) \<longrightarrow> belongs t (principal_of (current n)))) \<and>
     (\<forall>n. current (snd (pf_now pf n)) = current n) \<and>
     (\<forall>call n. current (snd (pf_fetch pf call n)) = current n) \<and>
     (\<forall>n s sid. current n = Some s \<and> ss_id s = Some sid \<longrightarrow> CHR '':'' \<notin> set sid)"

definition set_ok :: "(string \<Rightarrow> principal \<Rightarrow> bool) \<Rightarrow> cache_event list \<Rightarrow> bool" where
  "set_ok belongs h \<longleftrightarrow>
     (\<forall>key token sweep now. SetEv key token sweep now \<in> set h \<longrightarrow>
        (\<exists>sid org. key = sid @ '':'' @ org \<and> CHR '':'' \<notin> set sid \<and> belongs token (Some sid, org)))"

definition server_ok :: "('n \<Rightarrow> session option) \<Rightarrow> (string \<Rightarrow> principal \<Rightarrow> bool) \<Rightarrow> 'n api_world \<Rightarrow> bool" where
  "server_ok current belongs w \<longleftrightarrow>
     cached 240000 10000 (aw_calls w) (aw_tokens w) \<and> set_ok belongs (aw_calls w) \<and>
     (\<forall>s. aw_session w = Some s \<longrightarrow> s = current (aw_net w)) \<and>
     (\<forall>t. aw_bearer w = Some (Inr (Some t)) \<longrightarrow> belongs t (principal_of (current (aw_net w))))"

text \<open>The states of the server: requests come in one after the other, each with its own calls.\<close>

inductive api_run :: "runtime \<Rightarrow> 'n platform \<Rightarrow> 'n api_world \<Rightarrow> bool" for rt pf where
  boot: "aw_tokens w = new_TokenCache None None \<Longrightarrow> aw_calls w = [] \<Longrightarrow> aw_session w = None \<Longrightarrow> aw_bearer w = None \<Longrightarrow>
         api_run rt pf w"
| incoming: "api_run rt pf w \<Longrightarrow>
     api_run rt pf (w\<lparr>aw_net := n, aw_rendering := b, aw_session := None, aw_bearer := None, aw_gets := [], aw_revalidated := []\<rparr>)"
| session: "api_run rt pf w \<Longrightarrow> api_run rt pf (snd (getCurrentSession pf w))"
| call: "api_run rt pf w \<Longrightarrow> api_run rt pf (snd (apiFetch rt pf path init w))"
| get: "api_run rt pf w \<Longrightarrow> api_run rt pf (snd (apiGet rt pf path w))"
| public: "api_run rt pf w \<Longrightarrow> api_run rt pf (snd (apiFetchPublic rt pf path init w))"

lemma last_set_mem: "last_set h k = Some (t, now) \<Longrightarrow> \<exists>sweep. SetEv k t sweep now \<in> set h"
  by (induction h k rule: last_set.induct) (auto split: if_splits)

lemma cached_hit:
  assumes "cached ttl cap h c" "fst (tc_get c key now) = Some token"
  shows "\<exists>sweep t. SetEv key token sweep t \<in> set h"
proof -
  from assms have "\<exists>t. last_set h key = Some (token, t)"
    using cached_ok [OF assms(1)] unfolding token_cache_ok_def tc_get_def
    by (fastforce dest: map_of_SomeD split: option.splits if_splits)
  then show ?thesis by (blast dest: last_set_mem)
qed

text \<open>What the token functions keep.\<close>

definition keeps_server ::
  "('n \<Rightarrow> session option) \<Rightarrow> (string \<Rightarrow> principal \<Rightarrow> bool) \<Rightarrow> 'n api_world \<Rightarrow> 'n api_world \<Rightarrow> bool" where
  "keeps_server current belongs w w1 \<longleftrightarrow>
     server_ok current belongs w1 \<and> current (aw_net w1) = current (aw_net w) \<and> aw_sent w1 = aw_sent w"

lemma keeps_server_trans:
  "keeps_server c b u v \<Longrightarrow> keeps_server c b v w \<Longrightarrow> keeps_server c b u w"
  by (simp add: keeps_server_def)

lemma getCurrentSession_ok:
  assumes "platform_ok pf c b" "server_ok c b w" "getCurrentSession pf w = (s, w1)"
  shows "keeps_server c b w w1 \<and> s = c (aw_net w)"
proof (cases "aw_session w")
  case None
  obtain s1 n1 where g: "pf_getSession pf (aw_net w) = (s1, n1)" by fastforce
  have "s1 = c (aw_net w)" "c n1 = c (aw_net w)"
    using assms(1) [unfolded platform_ok_def, THEN conjunct1, rule_format, of "aw_net w"] by (simp_all add: g)
  with assms(2,3) None g show ?thesis by (auto simp: getCurrentSession_def keeps_server_def server_ok_def split: if_splits)
qed (use assms(2,3) in \<open>auto simp: getCurrentSession_def keeps_server_def server_ok_def\<close>)

lemma mintBearerToken_ok:
  assumes "platform_ok pf c b" "server_ok c b w" "mintBearerToken pf w = (r, w1)"
  shows "keeps_server c b w w1 \<and> (\<forall>t. r = Inr (Some t) \<longrightarrow> b t (principal_of (c (aw_net w))))"
proof -
  obtain x n1 where g: "pf_getToken pf (aw_net w) = (x, n1)" by fastforce
  have "c n1 = c (aw_net w)" "\<And>t. x = Token (Some t) \<Longrightarrow> b t (principal_of (c (aw_net w)))"
    using assms(1) [unfolded platform_ok_def, THEN conjunct2, THEN conjunct1, rule_format, of "aw_net w"] by (simp_all add: g)
  with assms(2,3) g show ?thesis
    by (cases x) (auto simp: mintBearerToken_def keeps_server_def server_ok_def)
qed

lemma pf_now_ok:
  assumes "platform_ok pf c b" "pf_now pf n = (t, n1)"
  shows "c n1 = c n"
  using assms(1) [unfolded platform_ok_def, THEN conjunct2, THEN conjunct2, THEN conjunct1, rule_format, of n] assms(2) by simp

lemma token_get_ok:
  assumes "platform_ok pf c b" "server_ok c b w" "token_get pf key w = (t, w1)"
  shows "keeps_server c b w w1 \<and>
    (\<forall>token. t = Some token \<longrightarrow> (\<exists>sid org. key = sid @ '':'' @ org \<and> CHR '':'' \<notin> set sid \<and> b token (Some sid, org)))"
proof -
  obtain now n1 where n: "pf_now pf (aw_net w) = (now, n1)" by fastforce
  have ca: "cached 240000 10000 (aw_calls w) (aw_tokens w)" and st: "set_ok b (aw_calls w)"
    using assms(2) by (simp_all add: server_ok_def)
  have t: "t = fst (tc_get (aw_tokens w) key now)"
    and w1: "w1 = w\<lparr>aw_net := n1, aw_tokens := event_step (GetEv key now) (aw_tokens w), aw_calls := GetEv key now # aw_calls w\<rparr>"
    using assms(3) by (auto simp: token_get_def n split: prod.splits)
  have "set_ok b (GetEv key now # aw_calls w)" using st by (simp add: set_ok_def)
  moreover have "\<exists>sid org. key = sid @ '':'' @ org \<and> CHR '':'' \<notin> set sid \<and> b token (Some sid, org)" if "t = Some token" for token
    using cached_hit [OF ca] that t st unfolding set_ok_def by metis
  ultimately show ?thesis
    using assms(2) cached.call [OF ca, of "GetEv key now"] pf_now_ok [OF assms(1) n]
    by (auto simp: w1 keeps_server_def server_ok_def)
qed

lemma token_set_ok:
  assumes "platform_ok pf c b" "server_ok c b w" "CHR '':'' \<notin> set sid" "b token (Some sid, org)"
  shows "keeps_server c b w (token_set pf (sid @ '':'' @ org) token w)"
proof -
  obtain sw n1 where n1: "pf_now pf (aw_net w) = (sw, n1)" by fastforce
  obtain now n2 where n2: "pf_now pf n1 = (now, n2)" by fastforce
  let ?e = "SetEv (sid @ '':'' @ org) token sw now"
  have ca: "cached 240000 10000 (aw_calls w) (aw_tokens w)" and st: "set_ok b (aw_calls w)"
    using assms(2) by (simp_all add: server_ok_def)
  have "set_ok b (?e # aw_calls w)" using st assms(3,4) unfolding set_ok_def by auto metis
  with assms(2) cached.call [OF ca, of ?e] pf_now_ok [OF assms(1) n1] pf_now_ok [OF assms(1) n2] show ?thesis
    by (simp add: token_set_def n1 n2 keeps_server_def server_ok_def)
qed

lemma find_bearer_ok:
  assumes "platform_ok pf c b" "server_ok c b w" "find_bearer pf w = (r, w1)"
  shows "keeps_server c b w w1 \<and> (\<forall>t. r = Inr (Some t) \<longrightarrow> b t (principal_of (c (aw_net w))))"
proof -
  obtain s wa where ga: "getCurrentSession pf w = (s, wa)" by fastforce
  from getCurrentSession_ok [OF assms(1,2) ga] have ka: "keeps_server c b w wa" and s: "s = c (aw_net w)" by simp_all
  then have oka: "server_ok c b wa" and ca: "c (aw_net wa) = c (aw_net w)" by (simp_all add: keeps_server_def)
  show ?thesis
  proof (cases "non_empty (case s of Some x \<Rightarrow> ss_id x | None \<Rightarrow> None)")
    case False
    then have "mintBearerToken pf wa = (r, w1)" using assms(3) ga by (simp add: find_bearer_def Let_def)
    from mintBearerToken_ok [OF assms(1) oka this] ca keeps_server_trans [OF ka] show ?thesis by auto
  next
    case True
    then obtain x sid where x: "s = Some x" "ss_id x = Some sid" "sid \<noteq> []"
      by (cases s) (auto elim: non_empty.elims)
    define org where "org = (case ss_activeOrg x of Some y \<Rightarrow> y | None \<Rightarrow> [])"
    have key: "tokenCacheKey sid (ss_activeOrg x) = sid @ '':'' @ org" by (simp add: tokenCacheKey_def org_def)
    have col: "CHR '':'' \<notin> set sid" using assms(1) x s unfolding platform_ok_def by metis
    have pr: "principal_of (c (aw_net w)) = (Some sid, org)" unfolding s [symmetric] x(1) by (simp add: principal_of_def org_def x(2))
    obtain hit wb where gb: "token_get pf (sid @ '':'' @ org) wa = (hit, wb)" by fastforce
    note gt = token_get_ok [OF assms(1) oka gb]
    have kb: "keeps_server c b wa wb" using gt by (rule conjunct1)
    have hb: "b token (Some sid, org)" if "hit = Some token" for token
    proof -
      from gt that obtain sid' org' where "sid @ '':'' @ org = sid' @ '':'' @ org'" "CHR '':'' \<notin> set sid'" "b token (Some sid', org')"
        by blast
      with append_sep_inj [of "CHR '':''" sid sid' org org'] col show ?thesis by simp
    qed
    have okb: "server_ok c b wb" and cb: "c (aw_net wb) = c (aw_net w)" using kb ca by (simp_all add: keeps_server_def)
    show ?thesis
    proof (cases "non_empty hit")
      case True
      then have "r = Inr hit" "w1 = wb" using assms(3) ga gb x key by (simp_all add: find_bearer_def Let_def)
      with hb pr keeps_server_trans [OF ka kb] show ?thesis by simp
    next
      case False
      obtain q wc where gc: "mintBearerToken pf wb = (q, wc)" by fastforce
      from mintBearerToken_ok [OF assms(1) okb gc] have kc: "keeps_server c b wb wc"
        and hc: "\<And>t. q = Inr (Some t) \<Longrightarrow> b t (Some sid, org)" using cb pr by auto
      have "r = q" and w1: "w1 = wc \<or> (\<exists>t. q = Inr (Some t) \<and> w1 = token_set pf (sid @ '':'' @ org) t wc)"
        using assms(3) ga gb gc x key False
        by (auto simp: find_bearer_def Let_def split: sum.splits if_splits elim: non_empty.elims)
      moreover have "keeps_server c b wc w1"
        using w1 kc hc token_set_ok [OF assms(1) _ col] by (auto simp: keeps_server_def)
      ultimately show ?thesis using hc pr keeps_server_trans [OF keeps_server_trans [OF ka kb] kc] keeps_server_trans by metis
    qed
  qed
qed

lemma bearerToken_ok:
  assumes "platform_ok pf c b" "server_ok c b w" "bearerToken pf w = (r, w1)"
  shows "keeps_server c b w w1 \<and> (\<forall>t. r = Inr (Some t) \<longrightarrow> b t (principal_of (c (aw_net w))))"
proof (cases "aw_bearer w")
  case None
  obtain q w2 where f: "find_bearer pf w = (q, w2)" by fastforce
  have "r = q" and w1: "w1 = w2 \<or> w1 = w2\<lparr>aw_bearer := Some q\<rparr>"
    using assms(3) None f by (auto simp: bearerToken_def)
  with find_bearer_ok [OF assms(1,2) f] show ?thesis by (auto simp: keeps_server_def server_ok_def)
qed (use assms(2,3) in \<open>auto simp: bearerToken_def keeps_server_def server_ok_def\<close>)

text \<open>The requests that a call has added to the log.\<close>

definition new_calls :: "'n api_world \<Rightarrow> 'n api_world \<Rightarrow> api_call list" where
  "new_calls w w1 = drop (length (aw_sent w)) (aw_sent w1)"

definition own_calls :: "(string \<Rightarrow> principal \<Rightarrow> bool) \<Rightarrow> principal \<Rightarrow> api_call list \<Rightarrow> bool" where
  "own_calls belongs p cs \<longleftrightarrow>
     (\<forall>call \<in> set cs. \<forall>h. (''Authorization'', h) \<in> set (ac_headers call) \<longrightarrow> (\<exists>t. h = ''Bearer '' @ t \<and> belongs t p))"

lemma api_send_ok:
  assumes "platform_ok pf c b" "server_ok c b w" "api_send rt pf path call w = (r, w1)"
  shows "server_ok c b w1 \<and> c (aw_net w1) = c (aw_net w) \<and> aw_sent w1 = aw_sent w @ [call]"
proof -
  have "c (snd (pf_fetch pf call (aw_net w))) = c (aw_net w)" using assms(1) by (simp add: platform_ok_def)
  with assms(2,3) show ?thesis by (auto simp: api_send_def server_ok_def split: prod.splits)
qed

lemma apiFetch_ok:
  assumes "platform_ok pf c b" "server_ok c b w" "apiFetch rt pf path init w = (r, w1)"
  shows "server_ok c b w1 \<and> c (aw_net w1) = c (aw_net w) \<and>
    (\<exists>cs. aw_sent w1 = aw_sent w @ cs \<and> own_calls b (principal_of (c (aw_net w))) cs \<and> length cs \<le> 1)"
proof -
  obtain q w2 where q: "bearerToken pf w = (q, w2)" by fastforce
  note bo = bearerToken_ok [OF assms(1,2) q]
  show ?thesis
  proof (cases q)
    case (Inl e)
    then show ?thesis using assms(3) q bo by (auto simp: apiFetch_def keeps_server_def own_calls_def)
  next
    case (Inr token)
    then have s: "api_send rt pf path (api_call_of rt pf path token init) w2 = (r, w1)"
      using assms(3) q by (simp add: apiFetch_def)
    have ok: "server_ok c b w2" "c (aw_net w2) = c (aw_net w)" "aw_sent w2 = aw_sent w"
      using bo by (simp_all add: keeps_server_def)
    have "own_calls b (principal_of (c (aw_net w))) [api_call_of rt pf path token init]"
      using bo Inr by (auto simp: own_calls_def api_call_of_def elim: non_empty.elims)
    with api_send_ok [OF assms(1) ok(1) s] ok(2,3) show ?thesis by auto
  qed
qed

lemma apiGet_ok:
  assumes "platform_ok pf c b" "server_ok c b w" "apiGet rt pf path w = (r, w1)"
  shows "server_ok c b w1 \<and> c (aw_net w1) = c (aw_net w) \<and>
    (\<exists>cs. aw_sent w1 = aw_sent w @ cs \<and> own_calls b (principal_of (c (aw_net w))) cs \<and> length cs \<le> 1)"
proof (cases "if aw_rendering w then map_of (aw_gets w) path else None")
  case None
  obtain q w2 where f: "apiFetch rt pf path no_init w = (q, w2)" by fastforce
  have "w1 = w2 \<or> w1 = w2\<lparr>aw_gets := (path, q) # aw_gets w2\<rparr>"
    using assms(3) None f by (auto simp: apiGet_def)
  with apiFetch_ok [OF assms(1,2) f] show ?thesis by (auto simp: server_ok_def)
next
  case (Some x)
  then have "w1 = w" using assms(3) by (simp add: apiGet_def)
  then show ?thesis using assms(2) by (simp add: own_calls_def)
qed

lemma api_run_ok:
  assumes "platform_ok pf c b" "api_run rt pf w"
  shows "server_ok c b w"
  using assms(2)
proof (induction rule: api_run.induct)
  case (boot w)
  have "cached 240000 10000 [] (new_TokenCache None None)"
    using cached.new [of 240000 10000] by (simp add: new_TokenCache_def)
  with boot show ?case by (simp add: server_ok_def set_ok_def)
next
  case (incoming w n b')
  then show ?case by (simp add: server_ok_def)
next
  case (session w)
  then show ?case using getCurrentSession_ok [OF assms(1) session.IH] by (simp add: keeps_server_def prod_eq_iff)
next
  case (call w path init)
  then show ?case using apiFetch_ok [OF assms(1) call.IH] by (simp add: prod_eq_iff)
next
  case (get w path)
  then show ?case using apiGet_ok [OF assms(1) get.IH] by (simp add: prod_eq_iff)
next
  case (public w path init)
  then show ?case using api_send_ok [OF assms(1) public.IH] by (simp add: apiFetchPublic_def prod_eq_iff)
qed

section \<open>Properties\<close>

text \<open>
  C20. Requests carry the caller's own token. Whatever requests the server has handled before, with
  whichever sessions, a call of \<open>apiFetch\<close> or \<open>apiGet\<close> sends at most one request, and its bearer
  token was issued to the session and active organisation of the current request, although
  tokens are cached across requests; and the anonymous exchange sends no token at all.
\<close>

theorem requests_carry_own_token:
  assumes "platform_ok pf current belongs" and "api_run rt pf w"
  shows "(\<forall>w1. w1 = snd (apiFetch rt pf path init w) \<or> w1 = snd (apiGet rt pf path w) \<longrightarrow>
      length (new_calls w w1) \<le> 1 \<and> own_calls belongs (principal_of (current (aw_net w))) (new_calls w w1)) \<and>
    (\<forall>call \<in> set (new_calls w (snd (apiFetchPublic rt pf path init w))). \<forall>h. (''Authorization'', h) \<notin> set (ac_headers call))"
proof -
  note ok = api_run_ok [OF assms]
  have p: "new_calls w (snd (apiFetchPublic rt pf path init w)) = [api_call_of rt pf path None init]"
    using api_send_ok [OF assms(1) ok, of rt path "api_call_of rt pf path None init"]
    by (simp add: apiFetchPublic_def new_calls_def prod_eq_iff)
  have "length (new_calls w w1) \<le> 1 \<and> own_calls belongs (principal_of (current (aw_net w))) (new_calls w w1)"
    if "w1 = snd (apiFetch rt pf path init w) \<or> w1 = snd (apiGet rt pf path w)" for w1
    using that apiFetch_ok [OF assms(1) ok, of rt path init _ w1] apiGet_ok [OF assms(1) ok, of rt path _ w1]
    by (auto simp: prod_eq_iff new_calls_def)
  with p show ?thesis by (auto simp: api_call_of_def)
qed

text \<open>A platform with two users; its state says whether the current request is Alice's.\<close>

definition sample_session :: "bool \<Rightarrow> session" where
  "sample_session alice =
     \<lparr>ss_user = Some ''u'', ss_id = Some (if alice then ''alice'' else ''bob''), ss_activeOrg = Some ''org''\<rparr>"

definition sample_token :: "bool \<Rightarrow> string" where
  "sample_token alice = (if alice then ''jwt-alice'' else ''jwt-bob'')"

definition sample_platform :: "bool platform" where
  "sample_platform =
     \<lparr>pf_getSession = \<lambda>n. (Some (sample_session n), n), pf_getToken = \<lambda>n. (Token (Some (sample_token n)), n),
      pf_now = \<lambda>n. (1000, n), pf_fetch = \<lambda>call n. (Inr \<lparr>ar_status = 200, ar_text = Inr ''{}''\<rparr>, n),
      pf_API_URL = ''http://api:8080''\<rparr>"

definition sample_belongs :: "string \<Rightarrow> principal \<Rightarrow> bool" where
  "sample_belongs t p \<longleftrightarrow> (\<exists>n. t = sample_token n \<and> p = principal_of (Some (sample_session n)))"

definition booted :: "bool api_world" where
  "booted = \<lparr>aw_net = True, aw_sent = [], aw_tokens = new_TokenCache None None, aw_calls = [], aw_minted = [],
     aw_rendering = True, aw_session = None, aw_bearer = None, aw_gets = [], aw_revalidated = []\<rparr>"

text \<open>Bob's request, after one of Alice's.\<close>

definition second_request :: "runtime \<Rightarrow> bool api_world" where
  "second_request rt =
     (snd (apiFetch rt sample_platform ''/v1/me'' no_init booted))
       \<lparr>aw_net := False, aw_rendering := True, aw_session := None, aw_bearer := None, aw_gets := [], aw_revalidated := []\<rparr>"

lemma second_request_runs: "api_run rt sample_platform (second_request rt)"
  unfolding second_request_def by (intro api_run.incoming api_run.call api_run.boot) (simp_all add: booted_def)

lemma sample_platform_ok: "platform_ok sample_platform (\<lambda>n. Some (sample_session n)) sample_belongs"
  by (auto simp: platform_ok_def sample_platform_def sample_belongs_def sample_session_def)

theorem requests_carry_own_token_witness:
  "own_calls sample_belongs (Some ''bob'', ''org'')
     (new_calls (second_request sample_runtime)
       (snd (apiFetch sample_runtime sample_platform ''/v1/sites'' no_init (second_request sample_runtime)))) \<and>
   ac_headers (last (aw_sent (snd (apiFetch sample_runtime sample_platform ''/v1/sites'' no_init (second_request sample_runtime))))) =
     [(''Accept'', ''application/json''), (''Content-Type'', ''application/json''), (''Authorization'', ''Bearer jwt-bob'')]"
proof
  have "aw_net (second_request sample_runtime) = False" by (simp add: second_request_def)
  then show "own_calls sample_belongs (Some ''bob'', ''org'')
     (new_calls (second_request sample_runtime)
       (snd (apiFetch sample_runtime sample_platform ''/v1/sites'' no_init (second_request sample_runtime))))"
    using requests_carry_own_token [OF sample_platform_ok second_request_runs, of sample_runtime "''/v1/sites''" no_init]
    by (auto simp: principal_of_def sample_session_def)
  show "ac_headers (last (aw_sent (snd (apiFetch sample_runtime sample_platform ''/v1/sites'' no_init (second_request sample_runtime))))) =
     [(''Accept'', ''application/json''), (''Content-Type'', ''application/json''), (''Authorization'', ''Bearer jwt-bob'')]"
    by code_simp
qed

lemma token_same:
  "aw_rendering (snd (getCurrentSession pf w)) = aw_rendering w" "aw_sent (snd (getCurrentSession pf w)) = aw_sent w"
  "aw_rendering (snd (mintBearerToken pf w)) = aw_rendering w" "aw_sent (snd (mintBearerToken pf w)) = aw_sent w"
  "aw_rendering (snd (token_get pf key w)) = aw_rendering w" "aw_sent (snd (token_get pf key w)) = aw_sent w"
  "aw_rendering (token_set pf key t w) = aw_rendering w" "aw_sent (token_set pf key t w) = aw_sent w"
  by (simp_all add: getCurrentSession_def mintBearerToken_def token_get_def token_set_def
      split: option.splits prod.splits token_reply.splits)

lemma find_bearer_same:
  "aw_rendering (snd (find_bearer pf w)) = aw_rendering w" "aw_sent (snd (find_bearer pf w)) = aw_sent w"
proof -
  obtain s w1 where a: "getCurrentSession pf w = (s, w1)" by fastforce
  let ?key = "tokenCacheKey (the (case s of Some x \<Rightarrow> ss_id x | None \<Rightarrow> None)) (case s of Some x \<Rightarrow> ss_activeOrg x | None \<Rightarrow> None)"
  obtain hit w2 where b: "token_get pf ?key w1 = (hit, w2)" by fastforce
  obtain q w3 where c: "mintBearerToken pf w2 = (q, w3)" by fastforce
  have "aw_rendering w1 = aw_rendering w" "aw_rendering w2 = aw_rendering w1" "aw_rendering w3 = aw_rendering w2"
    "aw_sent w1 = aw_sent w" "aw_sent w2 = aw_sent w1" "aw_sent w3 = aw_sent w2"
    using token_same(1,2) [of pf w] token_same(5,6) [of pf ?key w1] token_same(3,4) [of pf w2] by (simp_all add: a b c)
  then show "aw_rendering (snd (find_bearer pf w)) = aw_rendering w" "aw_sent (snd (find_bearer pf w)) = aw_sent w"
    using token_same(3,4) [of pf w1]
    by (cases q; simp add: find_bearer_def Let_def a b c token_same(7,8))+
qed

lemma bearerToken_same:
  "aw_rendering (snd (bearerToken pf w)) = aw_rendering w" "aw_sent (snd (bearerToken pf w)) = aw_sent w"
  using find_bearer_same [of pf w] by (auto simp: bearerToken_def split: option.splits prod.splits)

lemma apiFetch_rendering: "aw_rendering (snd (apiFetch rt pf path init w)) = aw_rendering w"
  using bearerToken_same(1) [of pf w] by (auto simp: apiFetch_def api_send_def split: prod.splits sum.splits)

text \<open>A call sends one request; without one it fails, because there was no token to be had.\<close>

lemma apiFetch_log:
  assumes "apiFetch rt pf path init w = (r, w1)"
  shows "(\<exists>token. aw_sent w1 = aw_sent w @ [api_call_of rt pf path token init]) \<or> (aw_sent w1 = aw_sent w \<and> (\<exists>e. r = Inl e))"
proof -
  obtain q w2 where q: "bearerToken pf w = (q, w2)" by fastforce
  then have "aw_sent w2 = aw_sent w" using bearerToken_same(2) [of pf w] by simp
  with assms q show ?thesis by (cases q) (auto simp: apiFetch_def api_send_def split: prod.splits)
qed

text \<open>
  A page reads each address once. Within one render the second \<open>apiGet\<close> of a path returns the
  first result, error or not, without a request and without a change of the state; outside of a
  render every call is sent.
\<close>

lemma render_reads_once:
  assumes "aw_rendering w" "apiGet rt pf path w = (r, w1)"
  shows "apiGet rt pf path w1 = (r, w1)"
proof -
  obtain q w2 where f: "apiFetch rt pf path no_init w = (q, w2)" by fastforce
  have keep: "aw_rendering w2" using apiFetch_rendering [of rt pf path no_init w] f assms(1) by simp
  show ?thesis
  proof (cases "map_of (aw_gets w) path")
    case None
    then have "r = q" "w1 = w2\<lparr>aw_gets := (path, q) # aw_gets w2\<rparr>" using assms f keep by (auto simp: apiGet_def)
    then show ?thesis using keep by (simp add: apiGet_def)
  qed (use assms in \<open>simp add: apiGet_def\<close>)
qed

end
