(* ===== verification/Dash_Endpoints.thy ===== *)
theory Dash_Endpoints
  imports Dash_Api
begin

text \<open>
  The endpoints of \<open>apps/dashboard/lib/api.ts\<close>: one definition per method of the object \<open>api\<close>, with
  its path, its verb, its body and the member of the answer that it returns. Reads go through the
  memoized \<open>apiGet\<close>, writes and downloads through \<open>apiFetch\<close>, and the password exchange through
  \<open>apiFetchPublic\<close>. Optional inputs are options; a member that is \<open>undefined\<close> is left out of the body.
\<close>

section \<open>Bodies, queries and answers\<close>

definition js_obj :: "(string \<times> json option) list \<Rightarrow> json" where
  "js_obj kvs = JObj (List.map_filter (\<lambda>(k, v). map_option (\<lambda>j. (k, j)) v) kvs)"

definition json_strings :: "string list \<Rightarrow> json" where
  "json_strings xs = JArr (map JStr xs)"

text \<open>A path with a query, if there are parameters.\<close>

definition with_query :: "string \<Rightarrow> (string \<times> string) list \<Rightarrow> string" where
  "with_query path params =
     (let qs = params_string params
      in if qs = [] then path else path @ ''?'' @ qs)"

definition text_param :: "string \<Rightarrow> string option \<Rightarrow> (string \<times> string) list" where
  "text_param k v = (case v of Some s \<Rightarrow> if s = [] then [] else [(k, s)] | None \<Rightarrow> [])"

definition flag_param :: "string \<Rightarrow> bool \<Rightarrow> (string \<times> string) list" where
  "flag_param k b = (if b then [(k, ''true'')] else [])"

definition num_param :: "string \<Rightarrow> int option \<Rightarrow> (string \<times> string) list" where
  "num_param k v = (case v of Some n \<Rightarrow> [(k, int_to_string n)] | None \<Rightarrow> [])"

text \<open>\<open>body.key\<close>, and \<open>body.key ?? dflt\<close>.\<close>

definition field :: "string \<Rightarrow> json option api_result \<times> 'w \<Rightarrow> json option api_result \<times> 'w" where
  "field key rw =
     (case rw of
        (Inl e, w) \<Rightarrow> (Inl e, w)
      | (Inr body, w) \<Rightarrow> (case member body key of Inl e \<Rightarrow> Inl (OtherError e) | Inr v \<Rightarrow> Inr v, w))"

definition field_or :: "string \<Rightarrow> json \<Rightarrow> json option api_result \<times> 'w \<Rightarrow> json api_result \<times> 'w" where
  "field_or key dflt rw =
     (case field key rw of
        (Inl e, w) \<Rightarrow> (Inl e, w)
      | (Inr v, w) \<Rightarrow> (Inr (case present v of Some j \<Rightarrow> j | None \<Rightarrow> dflt), w))"

definition no_value :: "json option api_result \<times> 'w \<Rightarrow> unit api_result \<times> 'w" where
  "no_value rw = (case rw of (Inl e, w) \<Rightarrow> (Inl e, w) | (Inr v, w) \<Rightarrow> (Inr (), w))"

datatype post_kind = SitePost | SkillPost

definition post_base :: "post_kind \<Rightarrow> string" where
  "post_base kind = (case kind of SkillPost \<Rightarrow> ''skills'' | SitePost \<Rightarrow> ''sites'')"

record AuditPage =
  ap_events :: json
  ap_total :: "json option"
  ap_next_cursor :: json

definition audit_page :: "json option api_result \<times> 'w \<Rightarrow> AuditPage api_result \<times> 'w" where
  "audit_page rw =
     (case rw of
        (Inl e, w) \<Rightarrow> (Inl e, w)
      | (Inr body, w) \<Rightarrow>
          (case member body ''events'' of
             Inl e \<Rightarrow> (Inl (OtherError e), w)
           | Inr events \<Rightarrow>
               (Inr \<lparr>ap_events = (case present events of Some j \<Rightarrow> j | None \<Rightarrow> JArr []),
                     ap_total = body_prop body ''total'',
                     ap_next_cursor = (case present (body_prop body ''next_cursor'') of Some j \<Rightarrow> j | None \<Rightarrow> JNull)\<rparr>, w)))"

text \<open>\<open>{ memory: body.memory, created: body.created ?? true }\<close>.\<close>

definition created_memory :: "json option api_result \<times> 'w \<Rightarrow> (json option \<times> json) api_result \<times> 'w" where
  "created_memory rw =
     (case rw of
        (Inl e, w) \<Rightarrow> (Inl e, w)
      | (Inr body, w) \<Rightarrow>
          (case member body ''memory'' of
             Inl e \<Rightarrow> (Inl (OtherError e), w)
           | Inr m \<Rightarrow>
               (Inr (m, case present (body_prop body ''created'') of Some j \<Rightarrow> j | None \<Rightarrow> JBool True), w)))"

section \<open>The methods\<close>

definition api_me :: "runtime \<Rightarrow> 'n platform \<Rightarrow> 'n api_world \<Rightarrow> json option api_result \<times> 'n api_world" where
  "api_me rt pf =
     apiGet rt pf (''/v1/me'')"

definition api_listSites :: "runtime \<Rightarrow> 'n platform \<Rightarrow> 'n api_world \<Rightarrow> json api_result \<times> 'n api_world" where
  "api_listSites rt pf =
     field_or ''sites'' (JArr []) \<circ> apiGet rt pf (''/v1/sites'')"

definition api_getSite :: "runtime \<Rightarrow> 'n platform \<Rightarrow> string \<Rightarrow> 'n api_world \<Rightarrow> json option api_result \<times> 'n api_world" where
  "api_getSite rt pf i =
     apiGet rt pf (''/v1/sites/'' @ i)"

definition api_listSiteFiles :: "runtime \<Rightarrow> 'n platform \<Rightarrow> string \<Rightarrow> 'n api_world \<Rightarrow> json api_result \<times> 'n api_world" where
  "api_listSiteFiles rt pf i =
     field_or ''files'' (JArr []) \<circ> apiGet rt pf (''/v1/sites/'' @ i @ ''/files'')"

definition api_readSiteFile :: "runtime \<Rightarrow> 'n platform \<Rightarrow> string \<Rightarrow> string \<Rightarrow> 'n api_world \<Rightarrow> json option api_result \<times> 'n api_world" where
  "api_readSiteFile rt pf i path =
     apiFetch rt pf (''/v1/sites/'' @ i @ ''/files/content?path='' @ encodeURIComponent path) (no_init)"

definition api_downloadSite :: "runtime \<Rightarrow> 'n platform \<Rightarrow> string \<Rightarrow> 'n api_world \<Rightarrow> json option api_result \<times> 'n api_world" where
  "api_downloadSite rt pf i =
     apiFetch rt pf (''/v1/sites/'' @ i @ ''/download'') (no_init)"

definition api_listFeed :: "runtime \<Rightarrow> 'n platform \<Rightarrow> 'n api_world \<Rightarrow> json api_result \<times> 'n api_world" where
  "api_listFeed rt pf =
     field_or ''posts'' (JArr []) \<circ> apiGet rt pf (''/v1/feed'')"

definition api_setPostVote :: "runtime \<Rightarrow> 'n platform \<Rightarrow> post_kind \<Rightarrow> string \<Rightarrow> int \<Rightarrow> 'n api_world \<Rightarrow> json option api_result \<times> 'n api_world" where
  "api_setPostVote rt pf kind i vote =
     apiFetch rt pf (''/v1/'' @ post_base kind @ ''/'' @ i @ ''/vote'') (with_json ''PUT'' (js_obj [(''value'', Some (JNum (Fin (of_int vote))))]))"

definition api_setSiteFeedVisibility :: "runtime \<Rightarrow> 'n platform \<Rightarrow> string \<Rightarrow> bool \<Rightarrow> 'n api_world \<Rightarrow> json option api_result \<times> 'n api_world" where
  "api_setSiteFeedVisibility rt pf siteId visible =
     apiFetch rt pf (''/v1/sites/'' @ siteId @ ''/feed'') (with_json ''PUT'' (js_obj [(''visible'', Some (JBool visible))]))"

definition api_setSiteFeedMeta :: "runtime \<Rightarrow> 'n platform \<Rightarrow> string \<Rightarrow> string \<Rightarrow> string \<Rightarrow> 'n api_world \<Rightarrow> json option api_result \<times> 'n api_world" where
  "api_setSiteFeedMeta rt pf siteId title description =
     apiFetch rt pf (''/v1/sites/'' @ siteId @ ''/feed-meta'') (with_json ''PUT'' (js_obj [(''title'', Some (JStr title)), (''description'', Some (JStr description))]))"

definition api_setSiteCollab :: "runtime \<Rightarrow> 'n platform \<Rightarrow> string \<Rightarrow> bool \<Rightarrow> 'n api_world \<Rightarrow> json option api_result \<times> 'n api_world" where
  "api_setSiteCollab rt pf siteId allowMemberEdits =
     apiFetch rt pf (''/v1/sites/'' @ siteId @ ''/collab'') (with_json ''PUT'' (js_obj [(''allow_member_edits'', Some (JBool allowMemberEdits))]))"

definition api_listPostComments :: "runtime \<Rightarrow> 'n platform \<Rightarrow> post_kind \<Rightarrow> string \<Rightarrow> 'n api_world \<Rightarrow> json api_result \<times> 'n api_world" where
  "api_listPostComments rt pf kind i =
     field_or ''comments'' (JArr []) \<circ> apiGet rt pf (''/v1/'' @ post_base kind @ ''/'' @ i @ ''/comments'')"

definition api_addPostComment :: "runtime \<Rightarrow> 'n platform \<Rightarrow> post_kind \<Rightarrow> string \<Rightarrow> string \<Rightarrow> string list option \<Rightarrow> 'n api_world \<Rightarrow> json option api_result \<times> 'n api_world" where
  "api_addPostComment rt pf kind i body mentioned =
     apiFetch rt pf (''/v1/'' @ post_base kind @ ''/'' @ i @ ''/comments'') (with_json ''POST'' (js_obj [(''body'', Some (JStr body)), (''mentioned_user_ids'', map_option json_strings mentioned)]))"

definition api_listComments :: "runtime \<Rightarrow> 'n platform \<Rightarrow> string \<Rightarrow> 'n api_world \<Rightarrow> json api_result \<times> 'n api_world" where
  "api_listComments rt pf siteId =
     api_listPostComments rt pf SitePost siteId"

definition api_addComment :: "runtime \<Rightarrow> 'n platform \<Rightarrow> string \<Rightarrow> string \<Rightarrow> string list option \<Rightarrow> 'n api_world \<Rightarrow> json option api_result \<times> 'n api_world" where
  "api_addComment rt pf siteId body mentioned =
     api_addPostComment rt pf SitePost siteId body mentioned"

definition api_setPostFeedMeta :: "runtime \<Rightarrow> 'n platform \<Rightarrow> post_kind \<Rightarrow> string \<Rightarrow> string \<Rightarrow> string \<Rightarrow> 'n api_world \<Rightarrow> json option api_result \<times> 'n api_world" where
  "api_setPostFeedMeta rt pf kind i title description =
     apiFetch rt pf (''/v1/'' @ post_base kind @ ''/'' @ i @ ''/feed-meta'') (with_json ''PUT'' (js_obj [(''title'', Some (JStr title)), (''description'', Some (JStr description))]))"

definition api_setSkillFeedVisibility :: "runtime \<Rightarrow> 'n platform \<Rightarrow> string \<Rightarrow> bool \<Rightarrow> 'n api_world \<Rightarrow> json option api_result \<times> 'n api_world" where
  "api_setSkillFeedVisibility rt pf skillId visible =
     apiFetch rt pf (''/v1/skills/'' @ skillId @ ''/feed'') (with_json ''PUT'' (js_obj [(''visible'', Some (JBool visible))]))"

definition api_listVersions :: "runtime \<Rightarrow> 'n platform \<Rightarrow> string \<Rightarrow> 'n api_world \<Rightarrow> json api_result \<times> 'n api_world" where
  "api_listVersions rt pf siteId =
     field_or ''versions'' (JArr []) \<circ> apiGet rt pf (''/v1/sites/'' @ siteId @ ''/versions'')"

definition api_createSite :: "runtime \<Rightarrow> 'n platform \<Rightarrow> string \<Rightarrow> 'n api_world \<Rightarrow> json option api_result \<times> 'n api_world" where
  "api_createSite rt pf slug =
     apiFetch rt pf (''/v1/sites'') (with_json ''POST'' (js_obj [(''slug'', Some (JStr slug))]))"

definition api_deleteSite :: "runtime \<Rightarrow> 'n platform \<Rightarrow> string \<Rightarrow> 'n api_world \<Rightarrow> unit api_result \<times> 'n api_world" where
  "api_deleteSite rt pf i =
     no_value \<circ> apiFetch rt pf (''/v1/sites/'' @ i) (without_body ''DELETE'')"

definition api_publish :: "runtime \<Rightarrow> 'n platform \<Rightarrow> string \<Rightarrow> string \<Rightarrow> 'n api_world \<Rightarrow> json option api_result \<times> 'n api_world" where
  "api_publish rt pf siteId version_id =
     apiFetch rt pf (''/v1/sites/'' @ siteId @ ''/publish'') (with_json ''POST'' (js_obj [(''version_id'', Some (JStr version_id))]))"

definition api_prepareDeployment :: "runtime \<Rightarrow> 'n platform \<Rightarrow> string \<Rightarrow> json \<Rightarrow> 'n api_world \<Rightarrow> json option api_result \<times> 'n api_world" where
  "api_prepareDeployment rt pf siteId manifest =
     apiFetch rt pf (''/v1/sites/'' @ siteId @ ''/deployments/prepare'') (with_json ''POST'' (js_obj [(''manifest'', Some manifest)]))"

definition api_finalizeDeployment :: "runtime \<Rightarrow> 'n platform \<Rightarrow> string \<Rightarrow> json \<Rightarrow> string \<Rightarrow> 'n api_world \<Rightarrow> json option api_result \<times> 'n api_world" where
  "api_finalizeDeployment rt pf siteId manifest dig =
     apiFetch rt pf (''/v1/sites/'' @ siteId @ ''/deployments'') (with_json ''POST'' (js_obj [(''manifest'', Some manifest), (''digest'', Some (JStr dig))]))"

definition api_listMembers :: "runtime \<Rightarrow> 'n platform \<Rightarrow> 'n api_world \<Rightarrow> json api_result \<times> 'n api_world" where
  "api_listMembers rt pf =
     field_or ''members'' (JArr []) \<circ> apiGet rt pf (''/v1/members'')"

definition api_storageUsage :: "runtime \<Rightarrow> 'n platform \<Rightarrow> 'n api_world \<Rightarrow> json api_result \<times> 'n api_world" where
  "api_storageUsage rt pf =
     field_or ''users'' (JArr []) \<circ> apiGet rt pf (''/v1/storage'')"

definition api_setSiteAccess :: "runtime \<Rightarrow> 'n platform \<Rightarrow> string \<Rightarrow> json \<Rightarrow> 'n api_world \<Rightarrow> json option api_result \<times> 'n api_world" where
  "api_setSiteAccess rt pf siteId input =
     apiFetch rt pf (''/v1/sites/'' @ siteId @ ''/access'') (with_json ''PUT'' input)"

definition api_listAllowlist :: "runtime \<Rightarrow> 'n platform \<Rightarrow> string \<Rightarrow> 'n api_world \<Rightarrow> json api_result \<times> 'n api_world" where
  "api_listAllowlist rt pf siteId =
     field_or ''allowlist'' (JArr []) \<circ> apiGet rt pf (''/v1/sites/'' @ siteId @ ''/allowlist'')"

definition api_addAllowlistEntry :: "runtime \<Rightarrow> 'n platform \<Rightarrow> string \<Rightarrow> string \<Rightarrow> 'n api_world \<Rightarrow> json option api_result \<times> 'n api_world" where
  "api_addAllowlistEntry rt pf siteId email =
     apiFetch rt pf (''/v1/sites/'' @ siteId @ ''/allowlist'') (with_json ''POST'' (js_obj [(''email'', Some (JStr email))]))"

definition api_removeAllowlistEntry :: "runtime \<Rightarrow> 'n platform \<Rightarrow> string \<Rightarrow> string \<Rightarrow> 'n api_world \<Rightarrow> json option api_result \<times> 'n api_world" where
  "api_removeAllowlistEntry rt pf siteId email =
     apiFetch rt pf (''/v1/sites/'' @ siteId @ ''/allowlist'') (with_json ''DELETE'' (js_obj [(''email'', Some (JStr email))]))"

definition api_listDomains :: "runtime \<Rightarrow> 'n platform \<Rightarrow> string \<Rightarrow> 'n api_world \<Rightarrow> json api_result \<times> 'n api_world" where
  "api_listDomains rt pf siteId =
     field_or ''domains'' (JArr []) \<circ> apiGet rt pf (''/v1/sites/'' @ siteId @ ''/domains'')"

definition api_addDomain :: "runtime \<Rightarrow> 'n platform \<Rightarrow> string \<Rightarrow> string \<Rightarrow> 'n api_world \<Rightarrow> json option api_result \<times> 'n api_world" where
  "api_addDomain rt pf siteId hostname =
     apiFetch rt pf (''/v1/sites/'' @ siteId @ ''/domains'') (with_json ''POST'' (js_obj [(''hostname'', Some (JStr hostname))]))"

definition api_getDomainStatus :: "runtime \<Rightarrow> 'n platform \<Rightarrow> string \<Rightarrow> 'n api_world \<Rightarrow> json option api_result \<times> 'n api_world" where
  "api_getDomainStatus rt pf domainId =
     apiFetch rt pf (''/v1/domains/'' @ domainId @ ''/status'') (no_init)"

definition api_deleteDomain :: "runtime \<Rightarrow> 'n platform \<Rightarrow> string \<Rightarrow> 'n api_world \<Rightarrow> unit api_result \<times> 'n api_world" where
  "api_deleteDomain rt pf domainId =
     no_value \<circ> apiFetch rt pf (''/v1/domains/'' @ domainId) (without_body ''DELETE'')"

definition api_getOrgPolicy :: "runtime \<Rightarrow> 'n platform \<Rightarrow> 'n api_world \<Rightarrow> json option api_result \<times> 'n api_world" where
  "api_getOrgPolicy rt pf =
     apiGet rt pf (''/v1/orgs/policy'')"

definition api_setAllowExternalSharing :: "runtime \<Rightarrow> 'n platform \<Rightarrow> bool \<Rightarrow> 'n api_world \<Rightarrow> json option api_result \<times> 'n api_world" where
  "api_setAllowExternalSharing rt pf enabled =
     apiFetch rt pf (''/v1/orgs/allow-external-sharing'') (with_json ''PUT'' (js_obj [(''enabled'', Some (JBool enabled))]))"

definition api_setMcpEnabled :: "runtime \<Rightarrow> 'n platform \<Rightarrow> bool \<Rightarrow> 'n api_world \<Rightarrow> json option api_result \<times> 'n api_world" where
  "api_setMcpEnabled rt pf enabled =
     apiFetch rt pf (''/v1/orgs/mcp'') (with_json ''PATCH'' (js_obj [(''enabled'', Some (JBool enabled))]))"

definition api_listApiKeys :: "runtime \<Rightarrow> 'n platform \<Rightarrow> 'n api_world \<Rightarrow> json api_result \<times> 'n api_world" where
  "api_listApiKeys rt pf =
     field_or ''keys'' (JArr []) \<circ> apiGet rt pf (''/v1/api-keys'')"

definition api_createApiKey :: "runtime \<Rightarrow> 'n platform \<Rightarrow> string \<Rightarrow> 'n api_world \<Rightarrow> json option api_result \<times> 'n api_world" where
  "api_createApiKey rt pf name =
     apiFetch rt pf (''/v1/api-keys'') (with_json ''POST'' (js_obj [(''name'', Some (JStr name))]))"

definition api_revokeApiKey :: "runtime \<Rightarrow> 'n platform \<Rightarrow> string \<Rightarrow> 'n api_world \<Rightarrow> json option api_result \<times> 'n api_world" where
  "api_revokeApiKey rt pf i =
     apiFetch rt pf (''/v1/api-keys/'' @ encodeURIComponent i) (without_body ''DELETE'')"

definition api_setApiKeysEnabled :: "runtime \<Rightarrow> 'n platform \<Rightarrow> bool \<Rightarrow> 'n api_world \<Rightarrow> json option api_result \<times> 'n api_world" where
  "api_setApiKeysEnabled rt pf enabled =
     apiFetch rt pf (''/v1/orgs/api-keys'') (with_json ''PATCH'' (js_obj [(''enabled'', Some (JBool enabled))]))"

definition api_authzMint :: "runtime \<Rightarrow> 'n platform \<Rightarrow> string \<Rightarrow> string option \<Rightarrow> 'n api_world \<Rightarrow> json option api_result \<times> 'n api_world" where
  "api_authzMint rt pf host next_path =
     apiFetch rt pf (''/v1/authz/mint'') (with_json ''POST'' (js_obj [(''host'', Some (JStr host)), (''next'', map_option JStr next_path)]))"

definition api_authzPassword :: "runtime \<Rightarrow> 'n platform \<Rightarrow> string \<Rightarrow> string \<Rightarrow> 'n api_world \<Rightarrow> json option api_result \<times> 'n api_world" where
  "api_authzPassword rt pf host password =
     apiFetchPublic rt pf (''/v1/authz/password'') (with_json ''POST'' (js_obj [(''host'', Some (JStr host)), (''password'', Some (JStr password))]))"

definition api_getBilling :: "runtime \<Rightarrow> 'n platform \<Rightarrow> 'n api_world \<Rightarrow> json option api_result \<times> 'n api_world" where
  "api_getBilling rt pf =
     apiGet rt pf (''/v1/billing'')"

definition api_createCheckout :: "runtime \<Rightarrow> 'n platform \<Rightarrow> string \<Rightarrow> int option \<Rightarrow> bool option \<Rightarrow> 'n api_world \<Rightarrow> json option api_result \<times> 'n api_world" where
  "api_createCheckout rt pf target_tier seats local_currency =
     apiFetch rt pf (''/v1/billing/checkout'') (with_json ''POST'' (js_obj [(''target_tier'', Some (JStr target_tier)), (''seats'', map_option (\<lambda>n. JNum (Fin (of_int n))) seats), (''local_currency'', map_option JBool local_currency)]))"

definition api_createPortal :: "runtime \<Rightarrow> 'n platform \<Rightarrow> 'n api_world \<Rightarrow> json option api_result \<times> 'n api_world" where
  "api_createPortal rt pf =
     apiFetch rt pf (''/v1/billing/portal'') (without_body ''POST'')"

definition api_listAudit :: "runtime \<Rightarrow> 'n platform \<Rightarrow> int option \<Rightarrow> int option \<Rightarrow> 'n api_world \<Rightarrow> AuditPage api_result \<times> 'n api_world" where
  "api_listAudit rt pf limit offset =
     audit_page \<circ> apiGet rt pf (with_query ''/v1/audit'' (num_param ''limit'' limit @ num_param ''offset'' offset))"

definition api_revokeAccess :: "runtime \<Rightarrow> 'n platform \<Rightarrow> string \<Rightarrow> string \<Rightarrow> 'n api_world \<Rightarrow> json option api_result \<times> 'n api_world" where
  "api_revokeAccess rt pf kind i =
     apiFetch rt pf (''/v1/orgs/revoke-access'') (with_json ''POST'' (js_obj [(''kind'', Some (JStr kind)), (''id'', Some (JStr i))]))"

definition api_preflightMembers :: "runtime \<Rightarrow> 'n platform \<Rightarrow> 'n api_world \<Rightarrow> json option api_result \<times> 'n api_world" where
  "api_preflightMembers rt pf =
     apiGet rt pf (''/v1/members/preflight'')"

definition api_recordMemberInvite :: "runtime \<Rightarrow> 'n platform \<Rightarrow> string \<Rightarrow> string \<Rightarrow> 'n api_world \<Rightarrow> json option api_result \<times> 'n api_world" where
  "api_recordMemberInvite rt pf email role =
     apiFetch rt pf (''/v1/members/invites'') (with_json ''POST'' (js_obj [(''email'', Some (JStr email)), (''role'', Some (JStr role))]))"

definition api_recordMemberJoin :: "runtime \<Rightarrow> 'n platform \<Rightarrow> 'n api_world \<Rightarrow> json option api_result \<times> 'n api_world" where
  "api_recordMemberJoin rt pf =
     apiFetch rt pf (''/v1/members/joined'') (with_json ''POST'' (JObj []))"

definition api_listSkills :: "runtime \<Rightarrow> 'n platform \<Rightarrow> string option \<Rightarrow> string option \<Rightarrow> bool \<Rightarrow> 'n api_world \<Rightarrow> json api_result \<times> 'n api_world" where
  "api_listSkills rt pf q folder presets =
     field_or ''skills'' (JArr []) \<circ> apiGet rt pf (with_query ''/v1/skills'' (text_param ''q'' q @ text_param ''folder'' folder @ flag_param ''presets'' presets))"

definition api_getSkill :: "runtime \<Rightarrow> 'n platform \<Rightarrow> string \<Rightarrow> 'n api_world \<Rightarrow> json api_result \<times> 'n api_world" where
  "api_getSkill rt pf i =
     field_or ''skill'' (JObj []) \<circ> apiGet rt pf (''/v1/skills/'' @ i)"

definition api_createSkill :: "runtime \<Rightarrow> 'n platform \<Rightarrow> string \<Rightarrow> string option \<Rightarrow> string list option \<Rightarrow> 'n api_world \<Rightarrow> json api_result \<times> 'n api_world" where
  "api_createSkill rt pf slug title folders =
     field_or ''skill'' (JObj []) \<circ> apiFetch rt pf (''/v1/skills'') (with_json ''POST'' (js_obj [(''slug'', Some (JStr slug)), (''title'', map_option JStr title), (''folders'', map_option json_strings folders)]))"

definition api_deleteSkill :: "runtime \<Rightarrow> 'n platform \<Rightarrow> string \<Rightarrow> 'n api_world \<Rightarrow> json option api_result \<times> 'n api_world" where
  "api_deleteSkill rt pf i =
     apiFetch rt pf (''/v1/skills/'' @ i) (without_body ''DELETE'')"

definition api_setSkillFolders :: "runtime \<Rightarrow> 'n platform \<Rightarrow> string \<Rightarrow> string list \<Rightarrow> 'n api_world \<Rightarrow> json api_result \<times> 'n api_world" where
  "api_setSkillFolders rt pf i folders =
     field_or ''skill'' (JObj []) \<circ> apiFetch rt pf (''/v1/skills/'' @ i @ ''/folders'') (with_json ''PUT'' (js_obj [(''folders'', Some (json_strings folders))]))"

definition api_setSkillCollab :: "runtime \<Rightarrow> 'n platform \<Rightarrow> string \<Rightarrow> bool \<Rightarrow> 'n api_world \<Rightarrow> json api_result \<times> 'n api_world" where
  "api_setSkillCollab rt pf i allowMemberEdits =
     field_or ''skill'' (JObj []) \<circ> apiFetch rt pf (''/v1/skills/'' @ i @ ''/collab'') (with_json ''PUT'' (js_obj [(''allow_member_edits'', Some (JBool allowMemberEdits))]))"

definition api_prepareSkillUpload :: "runtime \<Rightarrow> 'n platform \<Rightarrow> string \<Rightarrow> json \<Rightarrow> 'n api_world \<Rightarrow> json option api_result \<times> 'n api_world" where
  "api_prepareSkillUpload rt pf i manifest =
     apiFetch rt pf (''/v1/skills/'' @ i @ ''/uploads/prepare'') (with_json ''POST'' (js_obj [(''manifest'', Some manifest)]))"

definition api_finalizeSkillUpload :: "runtime \<Rightarrow> 'n platform \<Rightarrow> string \<Rightarrow> json \<Rightarrow> string \<Rightarrow> 'n api_world \<Rightarrow> json option api_result \<times> 'n api_world" where
  "api_finalizeSkillUpload rt pf i manifest dig =
     apiFetch rt pf (''/v1/skills/'' @ i @ ''/uploads'') (with_json ''POST'' (js_obj [(''manifest'', Some manifest), (''digest'', Some (JStr dig))]))"

definition api_downloadSkill :: "runtime \<Rightarrow> 'n platform \<Rightarrow> string \<Rightarrow> 'n api_world \<Rightarrow> json option api_result \<times> 'n api_world" where
  "api_downloadSkill rt pf i =
     apiFetch rt pf (''/v1/skills/'' @ i @ ''/download'') (no_init)"

definition api_downloadSkillFolder :: "runtime \<Rightarrow> 'n platform \<Rightarrow> string \<Rightarrow> 'n api_world \<Rightarrow> json option api_result \<times> 'n api_world" where
  "api_downloadSkillFolder rt pf i =
     apiFetch rt pf (''/v1/skill-folders/'' @ i @ ''/download'') (no_init)"

definition api_listSkillFolders :: "runtime \<Rightarrow> 'n platform \<Rightarrow> 'n api_world \<Rightarrow> json api_result \<times> 'n api_world" where
  "api_listSkillFolders rt pf =
     field_or ''folders'' (JArr []) \<circ> apiGet rt pf (''/v1/skill-folders'')"

definition api_createSkillFolder :: "runtime \<Rightarrow> 'n platform \<Rightarrow> string \<Rightarrow> string option \<Rightarrow> 'n api_world \<Rightarrow> json api_result \<times> 'n api_world" where
  "api_createSkillFolder rt pf slug title =
     field_or ''folder'' (JObj []) \<circ> apiFetch rt pf (''/v1/skill-folders'') (with_json ''POST'' (js_obj [(''slug'', Some (JStr slug)), (''title'', map_option JStr title)]))"

definition api_renameSkillFolder :: "runtime \<Rightarrow> 'n platform \<Rightarrow> string \<Rightarrow> string \<Rightarrow> 'n api_world \<Rightarrow> json api_result \<times> 'n api_world" where
  "api_renameSkillFolder rt pf i title =
     field_or ''folder'' (JObj []) \<circ> apiFetch rt pf (''/v1/skill-folders/'' @ i) (with_json ''PATCH'' (js_obj [(''title'', Some (JStr title))]))"

definition api_deleteSkillFolder :: "runtime \<Rightarrow> 'n platform \<Rightarrow> string \<Rightarrow> 'n api_world \<Rightarrow> json option api_result \<times> 'n api_world" where
  "api_deleteSkillFolder rt pf i =
     apiFetch rt pf (''/v1/skill-folders/'' @ i) (without_body ''DELETE'')"

definition api_addSkillFolderItem :: "runtime \<Rightarrow> 'n platform \<Rightarrow> string \<Rightarrow> string \<Rightarrow> bool option \<Rightarrow> 'n api_world \<Rightarrow> json option api_result \<times> 'n api_world" where
  "api_addSkillFolderItem rt pf folderId skill_id is_preset =
     apiFetch rt pf (''/v1/skill-folders/'' @ folderId @ ''/items'') (with_json ''POST'' (js_obj [(''skill_id'', Some (JStr skill_id)), (''is_preset'', map_option JBool is_preset)]))"

definition api_removeSkillFolderItem :: "runtime \<Rightarrow> 'n platform \<Rightarrow> string \<Rightarrow> string \<Rightarrow> 'n api_world \<Rightarrow> json option api_result \<times> 'n api_world" where
  "api_removeSkillFolderItem rt pf folderId skillId =
     apiFetch rt pf (''/v1/skill-folders/'' @ folderId @ ''/items/'' @ skillId) (without_body ''DELETE'')"

definition api_setSkillFolderItemPreset :: "runtime \<Rightarrow> 'n platform \<Rightarrow> string \<Rightarrow> string \<Rightarrow> bool \<Rightarrow> 'n api_world \<Rightarrow> json option api_result \<times> 'n api_world" where
  "api_setSkillFolderItemPreset rt pf folderId skillId isPreset =
     apiFetch rt pf (''/v1/skill-folders/'' @ folderId @ ''/items/'' @ skillId) (with_json ''PATCH'' (js_obj [(''is_preset'', Some (JBool isPreset))]))"

definition api_listChats :: "runtime \<Rightarrow> 'n platform \<Rightarrow> 'n api_world \<Rightarrow> json api_result \<times> 'n api_world" where
  "api_listChats rt pf =
     field_or ''chat_logs'' (JArr []) \<circ> apiGet rt pf (''/v1/chats'')"

definition api_getChat :: "runtime \<Rightarrow> 'n platform \<Rightarrow> string \<Rightarrow> 'n api_world \<Rightarrow> json api_result \<times> 'n api_world" where
  "api_getChat rt pf i =
     field_or ''chat_log'' (JObj []) \<circ> apiGet rt pf (''/v1/chats/'' @ i)"

definition api_createChat :: "runtime \<Rightarrow> 'n platform \<Rightarrow> json \<Rightarrow> 'n api_world \<Rightarrow> json option api_result \<times> 'n api_world" where
  "api_createChat rt pf input =
     apiFetch rt pf (''/v1/chats'') (with_json ''POST'' input)"

definition api_deleteChat :: "runtime \<Rightarrow> 'n platform \<Rightarrow> string \<Rightarrow> 'n api_world \<Rightarrow> unit api_result \<times> 'n api_world" where
  "api_deleteChat rt pf i =
     no_value \<circ> apiFetch rt pf (''/v1/chats/'' @ i) (without_body ''DELETE'')"

definition api_appendChat :: "runtime \<Rightarrow> 'n platform \<Rightarrow> string \<Rightarrow> json \<Rightarrow> 'n api_world \<Rightarrow> json option api_result \<times> 'n api_world" where
  "api_appendChat rt pf i input =
     apiFetch rt pf (''/v1/chats/'' @ i @ ''/messages'') (with_json ''POST'' input)"

definition api_listChatMessages :: "runtime \<Rightarrow> 'n platform \<Rightarrow> string \<Rightarrow> int option \<Rightarrow> int option \<Rightarrow> 'n api_world \<Rightarrow> json api_result \<times> 'n api_world" where
  "api_listChatMessages rt pf i afterSeq limit =
     field_or ''messages'' (JArr []) \<circ> apiGet rt pf (with_query (''/v1/chats/'' @ i @ ''/messages'') (num_param ''after_seq'' afterSeq @ num_param ''limit'' limit))"

definition api_deleteChatMessage :: "runtime \<Rightarrow> 'n platform \<Rightarrow> string \<Rightarrow> int \<Rightarrow> 'n api_world \<Rightarrow> unit api_result \<times> 'n api_world" where
  "api_deleteChatMessage rt pf i seq =
     no_value \<circ> apiFetch rt pf (''/v1/chats/'' @ i @ ''/messages/'' @ int_to_string seq) (without_body ''DELETE'')"

definition api_setChatSite :: "runtime \<Rightarrow> 'n platform \<Rightarrow> string \<Rightarrow> string option \<Rightarrow> 'n api_world \<Rightarrow> json api_result \<times> 'n api_world" where
  "api_setChatSite rt pf i siteId =
     field_or ''chat_log'' (JObj []) \<circ> apiFetch rt pf (''/v1/chats/'' @ i @ ''/site'') (with_json ''PUT'' (js_obj [(''site_id'', Some (case siteId of Some s \<Rightarrow> JStr s | None \<Rightarrow> JNull))]))"

definition api_setChatPanel :: "runtime \<Rightarrow> 'n platform \<Rightarrow> string \<Rightarrow> bool \<Rightarrow> 'n api_world \<Rightarrow> json api_result \<times> 'n api_world" where
  "api_setChatPanel rt pf i enabled =
     field_or ''chat_log'' (JObj []) \<circ> apiFetch rt pf (''/v1/chats/'' @ i @ ''/panel'') (with_json ''PUT'' (js_obj [(''enabled'', Some (JBool enabled))]))"

definition api_setChatCollab :: "runtime \<Rightarrow> 'n platform \<Rightarrow> string \<Rightarrow> bool \<Rightarrow> 'n api_world \<Rightarrow> json api_result \<times> 'n api_world" where
  "api_setChatCollab rt pf i allowMemberEdits =
     field_or ''chat_log'' (JObj []) \<circ> apiFetch rt pf (''/v1/chats/'' @ i @ ''/collab'') (with_json ''PUT'' (js_obj [(''allow_member_edits'', Some (JBool allowMemberEdits))]))"

definition api_getSiteChat :: "runtime \<Rightarrow> 'n platform \<Rightarrow> string \<Rightarrow> 'n api_world \<Rightarrow> json option api_result \<times> 'n api_world" where
  "api_getSiteChat rt pf siteId =
     apiGet rt pf (''/v1/sites/'' @ siteId @ ''/chat'')"

definition api_appendSiteChat :: "runtime \<Rightarrow> 'n platform \<Rightarrow> string \<Rightarrow> json \<Rightarrow> 'n api_world \<Rightarrow> json option api_result \<times> 'n api_world" where
  "api_appendSiteChat rt pf siteId input =
     apiFetch rt pf (''/v1/sites/'' @ siteId @ ''/chat'') (with_json ''POST'' input)"

definition api_getChatSettings :: "runtime \<Rightarrow> 'n platform \<Rightarrow> 'n api_world \<Rightarrow> json option api_result \<times> 'n api_world" where
  "api_getChatSettings rt pf =
     apiGet rt pf (''/v1/orgs/chat-logs'')"

definition api_setChatSettings :: "runtime \<Rightarrow> 'n platform \<Rightarrow> bool \<Rightarrow> 'n api_world \<Rightarrow> json option api_result \<times> 'n api_world" where
  "api_setChatSettings rt pf enabled =
     apiFetch rt pf (''/v1/orgs/chat-logs'') (with_json ''PATCH'' (js_obj [(''enabled'', Some (JBool enabled))]))"

definition api_getMemorySettings :: "runtime \<Rightarrow> 'n platform \<Rightarrow> 'n api_world \<Rightarrow> json option api_result \<times> 'n api_world" where
  "api_getMemorySettings rt pf =
     apiGet rt pf (''/v1/orgs/memory'')"

definition api_setMemoryEnabled :: "runtime \<Rightarrow> 'n platform \<Rightarrow> bool \<Rightarrow> 'n api_world \<Rightarrow> json option api_result \<times> 'n api_world" where
  "api_setMemoryEnabled rt pf enabled =
     apiFetch rt pf (''/v1/orgs/memory'') (with_json ''PATCH'' (js_obj [(''memory_enabled'', Some (JBool enabled))]))"

definition api_listMemories :: "runtime \<Rightarrow> 'n platform \<Rightarrow> string option \<Rightarrow> string option \<Rightarrow> bool \<Rightarrow> bool \<Rightarrow> int option \<Rightarrow> int option \<Rightarrow> 'n api_world \<Rightarrow> json api_result \<times> 'n api_world" where
  "api_listMemories rt pf kind q pinned disabled limit offset =
     field_or ''memories'' (JArr []) \<circ> apiGet rt pf (with_query ''/v1/ai/memories'' (text_param ''kind'' kind @ text_param ''q'' q @ flag_param ''pinned'' pinned @
       flag_param ''disabled'' disabled @ num_param ''limit'' limit @ num_param ''offset'' offset))"

definition api_createMemory :: "runtime \<Rightarrow> 'n platform \<Rightarrow> string \<Rightarrow> string option \<Rightarrow> 'n api_world \<Rightarrow> (json option \<times> json) api_result \<times> 'n api_world" where
  "api_createMemory rt pf content kind =
     created_memory \<circ> apiFetch rt pf ''/v1/ai/memories'' (with_json ''POST'' (js_obj [(''content'', Some (JStr content)), (''kind'', map_option JStr kind)]))"

definition api_searchMemories :: "runtime \<Rightarrow> 'n platform \<Rightarrow> string \<Rightarrow> int option \<Rightarrow> 'n api_world \<Rightarrow> json api_result \<times> 'n api_world" where
  "api_searchMemories rt pf query k =
     field_or ''memories'' (JArr []) \<circ> apiFetch rt pf (''/v1/ai/memories/search'') (with_json ''POST'' (js_obj [(''query'', Some (JStr query)), (''k'', map_option (\<lambda>n. JNum (Fin (of_int n))) k)]))"

definition api_patchMemory :: "runtime \<Rightarrow> 'n platform \<Rightarrow> string \<Rightarrow> json \<Rightarrow> 'n api_world \<Rightarrow> json option api_result \<times> 'n api_world" where
  "api_patchMemory rt pf i input =
     field ''memory'' \<circ> apiFetch rt pf (''/v1/ai/memories/'' @ encodeURIComponent i) (with_json ''PATCH'' input)"

definition api_deleteMemory :: "runtime \<Rightarrow> 'n platform \<Rightarrow> string \<Rightarrow> 'n api_world \<Rightarrow> unit api_result \<times> 'n api_world" where
  "api_deleteMemory rt pf i =
     no_value \<circ> apiFetch rt pf (''/v1/ai/memories/'' @ encodeURIComponent i) (without_body ''DELETE'')"

end
