(* ===== verification/Dash_Actions.thy ===== *)
theory Dash_Actions
  imports Dash_Endpoints Utf16
begin

text \<open>
  Server actions of the dashboard: \<open>app/(app)/sites/[id]/actions.ts\<close> and
  \<open>app/(app)/skills/actions.ts\<close>. An action validates its input, calls the API, tells Next which
  pages to render again, and turns every error into a message; it never throws. Messages are JSON
  values, because a message of the API is passed on as it is.
\<close>

section \<open>Try and catch\<close>

definition api_bind ::
  "'a api_result \<times> 'w \<Rightarrow> ('a \<Rightarrow> 'w \<Rightarrow> 'b api_result \<times> 'w) \<Rightarrow> 'b api_result \<times> 'w" where
  "api_bind m f = (case m of (Inl e, w) \<Rightarrow> (Inl e, w) | (Inr a, w) \<Rightarrow> f a w)"

definition catch_api :: "'b api_result \<times> 'w \<Rightarrow> (api_error \<Rightarrow> 'b) \<Rightarrow> 'b \<times> 'w" where
  "catch_api m handler = (case m of (Inl e, w) \<Rightarrow> (handler e, w) | (Inr b, w) \<Rightarrow> (b, w))"

definition revalidatePath :: "string \<Rightarrow> 'n api_world \<Rightarrow> 'n api_world" where
  "revalidatePath path w = w\<lparr>aw_revalidated := aw_revalidated w @ [path]\<rparr>"

text \<open>The result of an action: a value, or a message and perhaps a quota.\<close>

datatype 'a outcome = Ok 'a | Refused json "json option"

definition refuse :: "string \<Rightarrow> 'w \<Rightarrow> 'a outcome \<times> 'w" where
  "refuse message w = (Refused (JStr message) None, w)"

text \<open>\<open>body?.message ?? fallback\<close>.\<close>

definition message_or :: "json \<Rightarrow> string \<Rightarrow> json" where
  "message_or body fallback = (case present (body_message body) of Some m \<Rightarrow> m | None \<Rightarrow> JStr fallback)"

definition quotaOf :: "api_error \<Rightarrow> json option" where
  "quotaOf err = asQuotaExceeded err"

text \<open>The length of a string in UTF-16 code units.\<close>

definition js_length :: "string \<Rightarrow> nat" where
  "js_length s = length (utf16 s)"

section \<open>Sites\<close>

text \<open>
  A file of a download, read at its declared type, and the helper of \<open>lib/site-download.ts\<close> that fills
  up a truncated download; \<open>readFile\<close> acts on the world and may fail. The reads run in the order of
  the list.
\<close>

definition file_path :: "json \<Rightarrow> string option" where
  "file_path f = (case as_string (body_prop (Some f) ''path'') of Some p \<Rightarrow> if p = [] then None else Some p | None \<Rightarrow> None)"

definition json_list :: "json option \<Rightarrow> json list" where
  "json_list v = (case v of Some (JArr js) \<Rightarrow> js | _ \<Rightarrow> [])"

fun read_missing ::
  "(string \<Rightarrow> 'w \<Rightarrow> json option api_result \<times> 'w) \<Rightarrow> string list \<Rightarrow> 'w \<Rightarrow> (json list \<times> string list) \<times> 'w" where
  "read_missing readFile [] w = (([], []), w)"
| "read_missing readFile (path # paths) w =
     (case readFile path w of
        (r, w1) \<Rightarrow>
          (case read_missing readFile paths w1 of
             ((extras, skipped), w2) \<Rightarrow>
               (case r of
                  Inl e \<Rightarrow> ((extras, path # skipped), w2)
                | Inr v \<Rightarrow> ((if truthy v then the v # extras else extras, skipped), w2))))"

definition completeTruncatedSiteDownload ::
  "json \<Rightarrow> json list \<Rightarrow> (string \<Rightarrow> 'w \<Rightarrow> json option api_result \<times> 'w) \<Rightarrow> 'w \<Rightarrow> (json list \<times> string list) \<times> 'w" where
  "completeTruncatedSiteDownload download listed readFile w =
     (let files = json_list (body_prop (Some download) ''files'')
      in if \<not> truthy (body_prop (Some download) ''truncated'') then ((files, []), w)
         else
           (let have_paths = List.map_filter file_path files;
                missing = filter (\<lambda>p. p \<notin> set have_paths) (List.map_filter file_path listed)
            in (case read_missing readFile missing w of
                  ((extras, skipped), w1) \<Rightarrow> ((files @ extras, skipped), w1))))"

text \<open>\<open>{ ...download, files, truncated }\<close>.\<close>

definition with_props :: "json \<Rightarrow> (string \<times> json) list \<Rightarrow> json" where
  "with_props j kvs = (case j of JObj props \<Rightarrow> JObj (fold (\<lambda>(k, v) ps. assoc_put k v ps) kvs props) | _ \<Rightarrow> JObj kvs)"

text \<open>The download, and the skipped paths if there are any.\<close>

definition downloadSiteAction ::
  "runtime \<Rightarrow> 'n platform \<Rightarrow> string \<Rightarrow> 'n api_world \<Rightarrow> (json option \<times> string list) outcome \<times> 'n api_world" where
  "downloadSiteAction rt pf siteId w =
     (let i = js_trim siteId
      in if i = [] then refuse ''Missing site id.'' w
         else
           catch_api
             (api_bind (api_downloadSite rt pf i w)
               (\<lambda>download w1.
                  case member download ''truncated'' of
                    Inl e \<Rightarrow> (Inl (OtherError e), w1)
                  | Inr truncated \<Rightarrow>
                      if \<not> truthy truncated then (Inr (Ok (download, [])), w1)
                      else
                        (case api_listSiteFiles rt pf i w1 of
                           (Inl e, w2) \<Rightarrow> (Inr (Ok (download, [])), w2)
                         | (Inr listed, w2) \<Rightarrow>
                             (case completeTruncatedSiteDownload (the download) (json_list (Some listed)) (api_readSiteFile rt pf i) w2 of
                                ((files, skipped), w3) \<Rightarrow>
                                  (Inr (Ok (Some (with_props (the download)
                                     [(''files'', JArr files), (''truncated'', JBool (skipped \<noteq> []))]), skipped)), w3)))))
             (\<lambda>err. Refused (apiErrorMessage err ''Could not download the site.''
                       [(400, ''This site has no published version to download yet.'')]) None))"

definition addCommentAction ::
  "runtime \<Rightarrow> 'n platform \<Rightarrow> string \<Rightarrow> string \<Rightarrow> string list \<Rightarrow> 'n api_world \<Rightarrow> json option outcome \<times> 'n api_world" where
  "addCommentAction rt pf siteId text mentionedUserIds w =
     (let body = js_trim text
      in if body = [] then refuse ''Write something before posting.'' w
         else if 4000 < js_length body then refuse ''Comment is too long (max 4000 characters).'' w
         else
           catch_api
             (api_bind (api_addComment rt pf siteId body (Some mentionedUserIds) w)
               (\<lambda>comment w1. (Inr (Ok comment), revalidatePath (''/sites/'' @ siteId) w1)))
             (\<lambda>err. Refused (apiErrorMessage err ''Could not post your comment. Try again.'' []) None))"

fun publish_error :: "api_error \<Rightarrow> json" where
  "publish_error (ApiError status m body) =
     message_or body
       (if status = 404 then ''That version doesn'' @ CHR 0x27 # ''t exist for this site.''
        else if status = 400 then ''That version can'' @ CHR 0x27 # ''t be published.''
        else ''Could not publish. Try again.'')"
| "publish_error (OtherError e) = JStr ''Could not reach the API. Try again.''"

definition publishVersionAction ::
  "runtime \<Rightarrow> 'n platform \<Rightarrow> string \<Rightarrow> string \<Rightarrow> 'n api_world \<Rightarrow> json option outcome \<times> 'n api_world" where
  "publishVersionAction rt pf siteId version w =
     (let versionId = js_trim version
      in if versionId = [] then refuse ''Enter a version id to publish.'' w
         else
           catch_api
             (api_bind (api_publish rt pf siteId versionId w)
               (\<lambda>result w1. (Inr (Ok result), revalidatePath ''/dashboard'' (revalidatePath (''/sites/'' @ siteId) w1))))
             (\<lambda>err. Refused (publish_error err) None))"

fun deployErrorMessage :: "api_error \<Rightarrow> string \<Rightarrow> json" where
  "deployErrorMessage (ApiError status m body) fallback =
     message_or body
       (if status = 404 then ''This site no longer exists.''
        else if status = 403 then ''You don'' @ CHR 0x27 # ''t have permission to deploy to this site.''
        else if status = 400 then ''The deploy was rejected (a file changed mid-upload). Try again.''
        else fallback)"
| "deployErrorMessage (OtherError e) fallback = JStr ''Could not reach the API. Try again.''"

text \<open>\<open>{ missing: res.missing ?? [], uploads: res.uploads ?? {} }\<close>.\<close>

definition prepared :: "json option \<Rightarrow> 'w \<Rightarrow> (json \<times> json) outcome api_result \<times> 'w" where
  "prepared res w =
     (case member res ''missing'' of
        Inl e \<Rightarrow> (Inl (OtherError e), w)
      | Inr missing \<Rightarrow>
          (Inr (Ok (case present missing of Some j \<Rightarrow> j | None \<Rightarrow> JArr [],
                    case present (body_prop res ''uploads'') of Some j \<Rightarrow> j | None \<Rightarrow> JObj [])), w))"

definition prepareDeploymentAction ::
  "runtime \<Rightarrow> 'n platform \<Rightarrow> string \<Rightarrow> json \<Rightarrow> 'n api_world \<Rightarrow> (json \<times> json) outcome \<times> 'n api_world" where
  "prepareDeploymentAction rt pf siteId manifest w =
     (if json_list (Some manifest) = [] then refuse ''Nothing to deploy. The folder has no files.'' w
      else
        catch_api (api_bind (api_prepareDeployment rt pf siteId manifest w) prepared)
          (\<lambda>err. Refused (deployErrorMessage err ''Could not start the deploy. Try again.'') None))"

definition finalizeDeploymentAction ::
  "runtime \<Rightarrow> 'n platform \<Rightarrow> string \<Rightarrow> json \<Rightarrow> string \<Rightarrow> 'n api_world \<Rightarrow> json option outcome \<times> 'n api_world" where
  "finalizeDeploymentAction rt pf siteId manifest dig w =
     catch_api
       (api_bind (api_finalizeDeployment rt pf siteId manifest dig w) (\<lambda>version w1. (Inr (Ok version), w1)))
       (\<lambda>err. case asQuotaExceeded err of
                Some quota \<Rightarrow> Refused (JStr ''This deploy would exceed your storage limit.'') (Some quota)
              | None \<Rightarrow> Refused (deployErrorMessage err ''Could not finalize the deploy. Try again.'') None)"

section \<open>Skills\<close>

text \<open>\<open>input.title?.trim() || undefined\<close>.\<close>

definition trimmed :: "string option \<Rightarrow> string option" where
  "trimmed v = (case v of Some s \<Rightarrow> if js_trim s = [] then None else Some (js_trim s) | None \<Rightarrow> None)"

fun isSlugTaken :: "api_error \<Rightarrow> bool" where
  "isSlugTaken (ApiError status m body) =
     (status = 400 \<and>
      (case as_string (body_message body) of Some msg \<Rightarrow> str_includes (toLowerCase msg) ''already in use'' | None \<Rightarrow> False))"
| "isSlugTaken (OtherError e) = False"

text \<open>A refusal of \<open>createSkillAction\<close> also says whether the slug was taken.\<close>

datatype create_outcome = Created json | NotCreated json "json option" bool

definition createSkillAction ::
  "runtime \<Rightarrow> 'n platform \<Rightarrow> string \<Rightarrow> string option \<Rightarrow> string list option \<Rightarrow> 'n api_world
   \<Rightarrow> create_outcome \<times> 'n api_world" where
  "createSkillAction rt pf name title folders w =
     (let slug = toLowerCase (js_trim name)
      in if slug = [] then (NotCreated (JStr ''The skill needs a name.'') None False, w)
         else
           catch_api
             (api_bind (api_createSkill rt pf slug (trimmed title) folders w)
               (\<lambda>skill w1. (Inr (Created skill), revalidatePath ''/skills'' w1)))
             (\<lambda>err. NotCreated (apiErrorMessage err ''Could not create the skill. Try again.'' []) (quotaOf err) (isSlugTaken err)))"

definition resolveSkillIdBySlugAction ::
  "runtime \<Rightarrow> 'n platform \<Rightarrow> string \<Rightarrow> 'n api_world \<Rightarrow> json outcome \<times> 'n api_world" where
  "resolveSkillIdBySlugAction rt pf slug w =
     catch_api
       (api_bind (api_listSkills rt pf (Some slug) None False w)
         (\<lambda>skills w1.
            (let match = find (\<lambda>s. body_prop (Some s) ''slug'' = Some (JStr slug)) (json_list (Some skills));
                 i = (case match of Some s \<Rightarrow> body_prop (Some s) ''id'' | None \<Rightarrow> None)
             in (Inr (if \<not> truthy i
                      then Refused (JStr (''Could not find the existing skill '' @ CHR 0x22 # slug @ [CHR 0x22] @ ''.'')) None
                      else Ok (the i)), w1))))
       (\<lambda>err. Refused (apiErrorMessage err ''Could not look up the existing skill.'' []) None)"

definition prepareSkillUploadAction ::
  "runtime \<Rightarrow> 'n platform \<Rightarrow> string \<Rightarrow> json \<Rightarrow> 'n api_world \<Rightarrow> (json \<times> json) outcome \<times> 'n api_world" where
  "prepareSkillUploadAction rt pf skillId manifest w =
     catch_api (api_bind (api_prepareSkillUpload rt pf skillId manifest w) prepared)
       (\<lambda>err. Refused (apiErrorMessage err ''Could not prepare the upload.'' []) None)"

definition finalizeSkillUploadAction ::
  "runtime \<Rightarrow> 'n platform \<Rightarrow> string \<Rightarrow> json \<Rightarrow> string \<Rightarrow> 'n api_world \<Rightarrow> json option outcome \<times> 'n api_world" where
  "finalizeSkillUploadAction rt pf skillId manifest dig w =
     catch_api
       (api_bind (api_finalizeSkillUpload rt pf skillId manifest dig w)
         (\<lambda>result w1. (Inr (Ok result), revalidatePath ''/skills'' w1)))
       (\<lambda>err. Refused (apiErrorMessage err ''Could not finalize the upload.'' []) (quotaOf err))"

definition deleteSkillAction ::
  "runtime \<Rightarrow> 'n platform \<Rightarrow> string \<Rightarrow> 'n api_world \<Rightarrow> unit outcome \<times> 'n api_world" where
  "deleteSkillAction rt pf skillId w =
     catch_api
       (api_bind (api_deleteSkill rt pf skillId w) (\<lambda>r w1. (Inr (Ok ()), revalidatePath ''/skills'' w1)))
       (\<lambda>err. Refused (apiErrorMessage err ''Could not delete the skill.'' []) None)"

text \<open>\<open>res.key ?? fallback\<close>, after the pages are marked.\<close>

definition member_or :: "string \<Rightarrow> json \<Rightarrow> json option \<Rightarrow> json api_result" where
  "member_or key fallback res =
     (case member res key of
        Inl e \<Rightarrow> Inl (OtherError e)
      | Inr v \<Rightarrow> Inr (case present v of Some j \<Rightarrow> j | None \<Rightarrow> fallback))"

definition ok_of :: "'a api_result \<Rightarrow> 'a outcome api_result" where
  "ok_of r = (case r of Inl e \<Rightarrow> Inl e | Inr v \<Rightarrow> Inr (Ok v))"

definition setSkillFeedVisibilityAction ::
  "runtime \<Rightarrow> 'n platform \<Rightarrow> string \<Rightarrow> bool \<Rightarrow> 'n api_world \<Rightarrow> json outcome \<times> 'n api_world" where
  "setSkillFeedVisibilityAction rt pf skillId visible w =
     catch_api
       (api_bind (api_setSkillFeedVisibility rt pf skillId visible w)
         (\<lambda>res w1. (ok_of (member_or ''feed_visible'' (JBool visible) res), revalidatePath ''/feed'' (revalidatePath ''/skills'' w1))))
       (\<lambda>err. Refused (apiErrorMessage err ''Could not update feed sharing.'' []) None)"

definition setSkillFoldersAction ::
  "runtime \<Rightarrow> 'n platform \<Rightarrow> string \<Rightarrow> string list \<Rightarrow> 'n api_world \<Rightarrow> unit outcome \<times> 'n api_world" where
  "setSkillFoldersAction rt pf skillId folders w =
     catch_api
       (api_bind (api_setSkillFolders rt pf skillId folders w) (\<lambda>r w1. (Inr (Ok ()), revalidatePath ''/skills'' w1)))
       (\<lambda>err. Refused (apiErrorMessage err (''Could not update the skill'' @ CHR 0x27 # ''s folders.'') []) (quotaOf err))"

definition downloadSkillAction ::
  "runtime \<Rightarrow> 'n platform \<Rightarrow> string \<Rightarrow> 'n api_world \<Rightarrow> json option outcome \<times> 'n api_world" where
  "downloadSkillAction rt pf skillId w =
     catch_api
       (api_bind (api_downloadSkill rt pf skillId w) (\<lambda>download w1. (Inr (Ok download), w1)))
       (\<lambda>err. Refused (apiErrorMessage err ''Could not download the skill.'' []) None)"

text \<open>The truncated stubs of a folder are read again one by one; a stub that fails is kept.\<close>

fun refill_stubs :: "(string \<Rightarrow> 'w \<Rightarrow> json option api_result \<times> 'w) \<Rightarrow> json list \<Rightarrow> 'w \<Rightarrow> json option list \<times> 'w" where
  "refill_stubs download [] w = ([], w)"
| "refill_stubs download (s # ss) w =
     (case (if truthy (body_prop (Some s) ''truncated'') \<and> truthy (body_prop (Some s) ''skill_id'')
            then (case as_string (body_prop (Some s) ''skill_id'') of
                    Some i \<Rightarrow> (case download i w of (Inl e, w1) \<Rightarrow> (Some s, w1) | (Inr v, w1) \<Rightarrow> (v, w1))
                  | None \<Rightarrow> (Some s, w))
            else (Some s, w)) of
        (s1, w1) \<Rightarrow> (case refill_stubs download ss w1 of (rest, w2) \<Rightarrow> (s1 # rest, w2)))"

definition downloadSkillFolderAction ::
  "runtime \<Rightarrow> 'n platform \<Rightarrow> string \<Rightarrow> 'n api_world \<Rightarrow> (json \<times> json option list) outcome \<times> 'n api_world" where
  "downloadSkillFolderAction rt pf folderId w =
     catch_api
       (api_bind (api_downloadSkillFolder rt pf folderId w)
         (\<lambda>download w1.
            case member download ''skills'' of
              Inl e \<Rightarrow> (Inl (OtherError e), w1)
            | Inr skills \<Rightarrow>
                (case refill_stubs (api_downloadSkill rt pf) (json_list (present skills)) w1 of
                   (filled, w2) \<Rightarrow> (Inr (Ok (the download, filled)), w2))))
       (\<lambda>err. Refused (apiErrorMessage err ''Could not download the folder.'' []) None)"

definition createSkillFolderAction ::
  "runtime \<Rightarrow> 'n platform \<Rightarrow> string \<Rightarrow> string option \<Rightarrow> 'n api_world \<Rightarrow> json option outcome \<times> 'n api_world" where
  "createSkillFolderAction rt pf name title w =
     (let slug = toLowerCase (js_trim name)
      in if slug = [] then refuse ''The folder needs a slug.'' w
         else
           catch_api
             (api_bind (api_createSkillFolder rt pf slug (trimmed title) w)
               (\<lambda>folder w1. (Inr (Ok (Some folder)), revalidatePath ''/skills'' w1)))
             (\<lambda>err. Refused (apiErrorMessage err ''Could not create the folder.'' []) None))"

definition renameSkillFolderAction ::
  "runtime \<Rightarrow> 'n platform \<Rightarrow> string \<Rightarrow> string \<Rightarrow> 'n api_world \<Rightarrow> json option outcome \<times> 'n api_world" where
  "renameSkillFolderAction rt pf folderId name w =
     (let title = js_trim name
      in if title = [] then refuse ''The folder needs a title.'' w
         else
           catch_api
             (api_bind (api_renameSkillFolder rt pf folderId title w)
               (\<lambda>folder w1. (Inr (Ok (Some folder)), revalidatePath ''/skills'' w1)))
             (\<lambda>err. Refused (apiErrorMessage err ''Could not rename the folder.'' []) None))"

definition deleteSkillFolderAction ::
  "runtime \<Rightarrow> 'n platform \<Rightarrow> string \<Rightarrow> 'n api_world \<Rightarrow> json option outcome \<times> 'n api_world" where
  "deleteSkillFolderAction rt pf folderId w =
     catch_api
       (api_bind (api_deleteSkillFolder rt pf folderId w) (\<lambda>r w1. (Inr (Ok None), revalidatePath ''/skills'' w1)))
       (\<lambda>err. Refused (apiErrorMessage err ''Could not delete the folder.'' []) None)"

definition addSkillToFolderAction ::
  "runtime \<Rightarrow> 'n platform \<Rightarrow> string \<Rightarrow> string \<Rightarrow> bool option \<Rightarrow> 'n api_world \<Rightarrow> unit outcome \<times> 'n api_world" where
  "addSkillToFolderAction rt pf folderId skillId isPreset w =
     catch_api
       (api_bind (api_addSkillFolderItem rt pf folderId skillId (Some (isPreset = Some True)) w)
         (\<lambda>r w1. (Inr (Ok ()), revalidatePath ''/skills'' w1)))
       (\<lambda>err. Refused (apiErrorMessage err ''Could not add the skill to the folder.'' []) (quotaOf err))"

definition removeSkillFromFolderAction ::
  "runtime \<Rightarrow> 'n platform \<Rightarrow> string \<Rightarrow> string \<Rightarrow> 'n api_world \<Rightarrow> unit outcome \<times> 'n api_world" where
  "removeSkillFromFolderAction rt pf folderId skillId w =
     catch_api
       (api_bind (api_removeSkillFolderItem rt pf folderId skillId w)
         (\<lambda>r w1. (Inr (Ok ()), revalidatePath ''/skills'' w1)))
       (\<lambda>err. Refused (apiErrorMessage err ''Could not remove the skill from the folder.'' []) None)"

definition setPresetFlagAction ::
  "runtime \<Rightarrow> 'n platform \<Rightarrow> string \<Rightarrow> string \<Rightarrow> bool \<Rightarrow> 'n api_world \<Rightarrow> unit outcome \<times> 'n api_world" where
  "setPresetFlagAction rt pf folderId skillId isPreset w =
     catch_api
       (api_bind (api_setSkillFolderItemPreset rt pf folderId skillId isPreset w)
         (\<lambda>r w1. (Inr (Ok ()), revalidatePath ''/skills'' w1)))
       (\<lambda>err. Refused (apiErrorMessage err ''Could not update the preset flag.'' []) None)"

definition setSkillCollabAction ::
  "runtime \<Rightarrow> 'n platform \<Rightarrow> string \<Rightarrow> bool \<Rightarrow> 'n api_world \<Rightarrow> json outcome \<times> 'n api_world" where
  "setSkillCollabAction rt pf i allowMemberEdits w =
     catch_api
       (api_bind (api_setSkillCollab rt pf i allowMemberEdits w)
         (\<lambda>skill w1. (ok_of (member_or ''allow_member_edits'' (JBool allowMemberEdits) (Some skill)),
                      revalidatePath (''/skills/'' @ i) (revalidatePath ''/skills'' w1))))
       (\<lambda>err. Refused (apiErrorMessage err ''Could not update the collaboration setting.''
                 [(403, ''Only the creator or an admin can change this.'')]) None)"

section \<open>What an action sends\<close>

definition posted :: "runtime \<Rightarrow> 'n platform \<Rightarrow> string \<Rightarrow> json \<Rightarrow> api_call list \<Rightarrow> bool" where
  "posted rt pf path body cs \<longleftrightarrow> (\<exists>token. cs = [api_call_of rt pf path token (with_json ''POST'' body)])"

text \<open>
  An action around one \<open>POST\<close>: if it succeeds it has sent exactly this request, and otherwise at
  most this one.
\<close>

lemma action_log:
  assumes "catch_api (api_bind (apiFetch rt pf path (with_json ''POST'' body) w) f) h = (x, w1)"
    and "\<And>a w. aw_sent (snd (f a w)) = aw_sent w" and "\<And>e v. h e \<noteq> Ok v"
  shows "(new_calls w w1 = [] \<or> posted rt pf path body (new_calls w w1)) \<and>
    (\<forall>v. x = Ok v \<longrightarrow> posted rt pf path body (new_calls w w1))"
proof -
  obtain r w2 where r: "apiFetch rt pf path (with_json ''POST'' body) w = (r, w2)" by fastforce
  have s: "aw_sent w1 = aw_sent w2"
  proof (cases r)
    case (Inr a)
    then have "w1 = snd (f a w2)" using assms(1) r by (auto simp: catch_api_def api_bind_def split: prod.splits sum.splits)
    then show ?thesis using assms(2) by simp
  qed (use assms(1) r in \<open>auto simp: catch_api_def api_bind_def\<close>)
  have "x \<noteq> Ok v" if "r = Inl e" for e v
    using assms(1,3) r that by (auto simp: catch_api_def api_bind_def)
  with apiFetch_log [OF r] s show ?thesis by (auto simp: new_calls_def posted_def)
qed

lemmas action_defs = prepareDeploymentAction_def finalizeDeploymentAction_def publishVersionAction_def
  prepareSkillUploadAction_def finalizeSkillUploadAction_def
  api_prepareDeployment_def api_finalizeDeployment_def api_publish_def api_prepareSkillUpload_def api_finalizeSkillUpload_def

lemma prepared_sent: "aw_sent (snd (prepared res w)) = aw_sent w"
  by (simp add: prepared_def split: sum.splits)

lemma new_calls_refl [simp]: "new_calls w w = []"
  by (simp add: new_calls_def)

definition manifest_body :: "json \<Rightarrow> json" where
  "manifest_body manifest = js_obj [(''manifest'', Some manifest)]"

definition finalize_body :: "json \<Rightarrow> string \<Rightarrow> json" where
  "finalize_body manifest dig = js_obj [(''manifest'', Some manifest), (''digest'', Some (JStr dig))]"

lemma prepare_log:
  assumes "prepareDeploymentAction rt pf siteId manifest w = (x, w1)"
  shows "(new_calls w w1 = [] \<or> posted rt pf (''/v1/sites/'' @ siteId @ ''/deployments/prepare'') (manifest_body manifest) (new_calls w w1)) \<and>
    (\<forall>v. x = Ok v \<longrightarrow> posted rt pf (''/v1/sites/'' @ siteId @ ''/deployments/prepare'') (manifest_body manifest) (new_calls w w1))"
proof (cases "json_list (Some manifest) = []")
  case False
  with assms have "catch_api (api_bind (apiFetch rt pf (''/v1/sites/'' @ siteId @ ''/deployments/prepare'')
      (with_json ''POST'' (manifest_body manifest)) w) prepared)
      (\<lambda>err. Refused (deployErrorMessage err ''Could not start the deploy. Try again.'') None) = (x, w1)"
    by (simp add: action_defs manifest_body_def)
  then show ?thesis by (rule action_log) (simp_all add: prepared_sent)
qed (use assms in \<open>auto simp: prepareDeploymentAction_def refuse_def\<close>)

lemma finalize_log:
  assumes "finalizeDeploymentAction rt pf siteId manifest dig w = (x, w1)"
  shows "(new_calls w w1 = [] \<or> posted rt pf (''/v1/sites/'' @ siteId @ ''/deployments'') (finalize_body manifest dig) (new_calls w w1)) \<and>
    (\<forall>v. x = Ok v \<longrightarrow> posted rt pf (''/v1/sites/'' @ siteId @ ''/deployments'') (finalize_body manifest dig) (new_calls w w1))"
  using assms unfolding action_defs finalize_body_def
  by (rule action_log) (simp_all split: option.splits)

lemma publish_log:
  assumes "publishVersionAction rt pf siteId version w = (x, w1)"
  shows "(new_calls w w1 = [] \<or>
      posted rt pf (''/v1/sites/'' @ siteId @ ''/publish'') (js_obj [(''version_id'', Some (JStr (js_trim version)))]) (new_calls w w1)) \<and>
    (\<forall>v. x = Ok v \<longrightarrow>
      posted rt pf (''/v1/sites/'' @ siteId @ ''/publish'') (js_obj [(''version_id'', Some (JStr (js_trim version)))]) (new_calls w w1))"
proof (cases "js_trim version = []")
  case False
  with assms have "catch_api (api_bind (apiFetch rt pf (''/v1/sites/'' @ siteId @ ''/publish'')
      (with_json ''POST'' (js_obj [(''version_id'', Some (JStr (js_trim version)))])) w)
      (\<lambda>result w1. (Inr (Ok result), revalidatePath ''/dashboard'' (revalidatePath (''/sites/'' @ siteId) w1))))
      (\<lambda>err. Refused (publish_error err) None) = (x, w1)"
    by (simp add: action_defs)
  then show ?thesis by (rule action_log) (simp_all add: revalidatePath_def)
qed (use assms in \<open>auto simp: publishVersionAction_def refuse_def\<close>)

lemma skill_prepare_log:
  assumes "prepareSkillUploadAction rt pf skillId manifest w = (x, w1)"
  shows "(new_calls w w1 = [] \<or> posted rt pf (''/v1/skills/'' @ skillId @ ''/uploads/prepare'') (manifest_body manifest) (new_calls w w1)) \<and>
    (\<forall>v. x = Ok v \<longrightarrow> posted rt pf (''/v1/skills/'' @ skillId @ ''/uploads/prepare'') (manifest_body manifest) (new_calls w w1))"
  using assms unfolding action_defs manifest_body_def
  by (rule action_log) (simp_all add: prepared_sent)

lemma skill_finalize_log:
  assumes "finalizeSkillUploadAction rt pf skillId manifest dig w = (x, w1)"
  shows "(new_calls w w1 = [] \<or> posted rt pf (''/v1/skills/'' @ skillId @ ''/uploads'') (finalize_body manifest dig) (new_calls w w1)) \<and>
    (\<forall>v. x = Ok v \<longrightarrow> posted rt pf (''/v1/skills/'' @ skillId @ ''/uploads'') (finalize_body manifest dig) (new_calls w w1))"
  using assms unfolding action_defs finalize_body_def
  by (rule action_log) (simp_all add: revalidatePath_def)

end
