(* ===== verification/Dash_Deploy.thy ===== *)
theory Dash_Deploy
  imports Dash_Actions Dash_Manifest
begin

text \<open>
  \<open>apps/dashboard/lib/deploy.ts\<close> and \<open>skill-upload.ts\<close>: the upload of a folder from the browser. The
  browser hashes the files, asks the server through an action which blobs are missing, puts them
  directly into the object store with a pool of six workers, and finalizes (and publishes) through
  further actions.

  What lies between browser and server is a parameter: \<open>br_wire\<close> serializes a manifest for an
  action (it fails on a value that is no data), \<open>br_call\<close> says whether the call and its answer
  arrive, and \<open>br_put\<close> is the \<open>PUT\<close> to the object store. One log has, in their order, the \<open>PUT\<close>s
  and the requests that the server sent for each action.
\<close>

section \<open>The browser\<close>

datatype delivery = Delivered | NotSent js_error | ReplyLost js_error

record 's browser =
  br_call :: "'s \<Rightarrow> delivery \<times> 's"
  br_wire :: "DashManifestFile list \<Rightarrow> json result"
  br_put :: "string \<Rightarrow> string \<Rightarrow> 's \<Rightarrow> nat result \<times> 's"

datatype deploy_event = PutEv string string "nat result" | ActionEv "api_call list"

datatype progress =
    Hashing nat nat
  | Creating
  | Preparing
  | Uploading nat nat
  | Finalizing
  | Publishing

record ('n, 's) deploy_world =
  dw_server :: "'n api_world"
  dw_store :: 's
  dw_log :: "deploy_event list"
  dw_progress :: "progress list"
  dw_uploaded :: nat

definition report :: "progress \<Rightarrow> ('n, 's) deploy_world \<Rightarrow> ('n, 's) deploy_world" where
  "report p d = d\<lparr>dw_progress := dw_progress d @ [p]\<rparr>"

text \<open>An action runs as a request of its own, outside of a render.\<close>

definition action_request :: "'n api_world \<Rightarrow> 'n api_world" where
  "action_request w = w\<lparr>aw_rendering := False, aw_session := None, aw_bearer := None, aw_gets := [], aw_revalidated := []\<rparr>"

definition call_action ::
  "'s browser \<Rightarrow> ('n api_world \<Rightarrow> 'a \<times> 'n api_world) \<Rightarrow> ('n, 's) deploy_world \<Rightarrow> 'a result \<times> ('n, 's) deploy_world" where
  "call_action br act d =
     (case br_call br (dw_store d) of
        (NotSent e, s1) \<Rightarrow> (Inl e, d\<lparr>dw_store := s1\<rparr>)
      | (dl, s1) \<Rightarrow>
          (case act (action_request (dw_server d)) of
             (r, w1) \<Rightarrow>
               (case dl of ReplyLost e \<Rightarrow> Inl e | _ \<Rightarrow> Inr r,
                d\<lparr>dw_store := s1, dw_server := w1, dw_log := dw_log d @ [ActionEv (new_calls (dw_server d) w1)]\<rparr>)))"

section \<open>Uploads\<close>

definition runPool ::
  "(nat \<Rightarrow> nat) \<Rightarrow> 'i list \<Rightarrow> nat \<Rightarrow> ('i \<Rightarrow> 'w \<Rightarrow> ('e + unit) \<times> 'w) \<Rightarrow> 'w \<Rightarrow> ('e + unit) \<times> 'w" where
  "runPool sched items limit fn w = pool_run sched fn items 0 (pool_start (min limit (length items)) items) w"

definition put_file ::
  "'s browser \<Rightarrow> json \<Rightarrow> (string \<times> File) list \<Rightarrow> nat \<Rightarrow> string \<Rightarrow> ('n, 's) deploy_world
   \<Rightarrow> unit result \<times> ('n, 's) deploy_world" where
  "put_file br uploads byHash n_all sha d =
     (case (as_string (body_prop (Some uploads) sha), map_of byHash sha) of
        (Some url, Some file) \<Rightarrow>
          if url = [] then (Inl (JsError (''no upload target for '' @ sha)), d)
          else
            (case file_bytes file of
               Inl e \<Rightarrow> (Inl e, d)
             | Inr bytes \<Rightarrow>
                 (case br_put br url bytes (dw_store d) of
                    (r, s1) \<Rightarrow>
                      (let d1 = d\<lparr>dw_store := s1, dw_log := dw_log d @ [PutEv url bytes r]\<rparr>
                       in (case r of
                             Inl e \<Rightarrow> (Inl e, d1)
                           | Inr status \<Rightarrow>
                               if \<not> statusOk status then (Inl (JsError (''upload '' @ nat_to_string status)), d1)
                               else (Inr (), report (Uploading (Suc (dw_uploaded d1)) n_all) (d1\<lparr>dw_uploaded := Suc (dw_uploaded d1)\<rparr>))))))
      | _ \<Rightarrow> (Inl (JsError (''no upload target for '' @ sha)), d))"

text \<open>Step 5: the missing blobs, read at their declared types; \<open>uploaded\<close> counts the transfers that are done.\<close>

definition upload_missing ::
  "'s browser \<Rightarrow> (nat \<Rightarrow> nat) \<Rightarrow> json \<Rightarrow> json \<Rightarrow> (string \<times> File) list \<Rightarrow> ('n, 's) deploy_world
   \<Rightarrow> unit result \<times> ('n, 's) deploy_world" where
  "upload_missing br sched missing uploads byHash d =
     (let shas = string_array (Some missing)
      in runPool sched shas 6 (put_file br uploads byHash (length shas))
           ((report (Uploading 0 (length shas)) d)\<lparr>dw_uploaded := 0\<rparr>))"

definition UPLOAD_FAILED :: string where
  "UPLOAD_FAILED = ''A file failed to upload to storage. Check your connection (and that the object store is reachable) and try again.''"

section \<open>Deploying a folder\<close>

record DeployDone =
  dd_liveUrl :: json
  dd_versionId :: json
  dd_fileCount :: nat

text \<open>Reading a member of an answer outside of any \<open>try\<close>.\<close>

definition read_member :: "json option \<Rightarrow> string \<Rightarrow> json \<Rightarrow> json result" where
  "read_member v key dflt =
     (case member v key of Inl e \<Rightarrow> Inl e | Inr m \<Rightarrow> Inr (case present m of Some j \<Rightarrow> j | None \<Rightarrow> dflt))"

text \<open>The string a version id is for \<open>trim\<close>; a value of another type has none.\<close>

definition version_text :: "json \<Rightarrow> string" where
  "version_text v = (case v of JStr s \<Rightarrow> s | _ \<Rightarrow> [])"

definition deploy_publish ::
  "runtime \<Rightarrow> 'n platform \<Rightarrow> 's browser \<Rightarrow> string \<Rightarrow> nat \<Rightarrow> json option \<Rightarrow> ('n, 's) deploy_world
   \<Rightarrow> DeployDone outcome result \<times> ('n, 's) deploy_world" where
  "deploy_publish rt pf br siteId fileCount version d =
     (case read_member version ''version_id'' (JStr []) of
        Inl e \<Rightarrow> (Inl e, d)
      | Inr versionId \<Rightarrow>
          (case call_action br (publishVersionAction rt pf siteId (version_text versionId)) (report Publishing d) of
             (Inl e, d1) \<Rightarrow> (Inl e, d1)
           | (Inr (Refused m q), d1) \<Rightarrow> (Inr (Refused m None), d1)
           | (Inr (Ok result), d1) \<Rightarrow>
               (case read_member result ''live_url'' (JStr []) of
                  Inl e \<Rightarrow> (Inl e, d1)
                | Inr liveUrl \<Rightarrow>
                    (Inr (Ok \<lparr>dd_liveUrl = liveUrl, dd_versionId = versionId, dd_fileCount = fileCount\<rparr>), d1))))"

definition deploy_finalize ::
  "runtime \<Rightarrow> 'n platform \<Rightarrow> 's browser \<Rightarrow> string \<Rightarrow> nat \<Rightarrow> json \<Rightarrow> string \<Rightarrow> ('n, 's) deploy_world
   \<Rightarrow> DeployDone outcome result \<times> ('n, 's) deploy_world" where
  "deploy_finalize rt pf br siteId fileCount manifest dig d =
     (case call_action br (finalizeDeploymentAction rt pf siteId manifest dig) (report Finalizing d) of
        (Inl e, d1) \<Rightarrow> (Inl e, d1)
      | (Inr (Refused m q), d1) \<Rightarrow> (Inr (Refused m q), d1)
      | (Inr (Ok version), d1) \<Rightarrow> deploy_publish rt pf br siteId fileCount version d1)"

text \<open>Steps 2 to 5: \<open>prepare\<close>, the uploads, and what follows them.\<close>

definition deploy_send ::
  "runtime \<Rightarrow> 'n platform \<Rightarrow> 's browser \<Rightarrow> (nat \<Rightarrow> nat) \<Rightarrow> string \<Rightarrow> nat \<Rightarrow> BuiltManifest \<Rightarrow> json \<Rightarrow> ('n, 's) deploy_world
   \<Rightarrow> DeployDone outcome result \<times> ('n, 's) deploy_world" where
  "deploy_send rt pf br sched siteId fileCount b manifest d =
     (case call_action br (prepareDeploymentAction rt pf siteId manifest) d of
        (Inl e, d2) \<Rightarrow> (Inl e, d2)
      | (Inr (Refused m q), d2) \<Rightarrow> (Inr (Refused m None), d2)
      | (Inr (Ok (missing, uploads)), d2) \<Rightarrow>
          (case upload_missing br sched missing uploads (built_byHash b) d2 of
             (Inl e, d3) \<Rightarrow> (Inr (Refused (JStr UPLOAD_FAILED) None), d3)
           | (Inr u, d3) \<Rightarrow> deploy_finalize rt pf br siteId fileCount manifest (built_digest b) d3))"

definition deployFolder ::
  "runtime \<Rightarrow> 'n platform \<Rightarrow> 's browser \<Rightarrow> (nat \<Rightarrow> nat) \<Rightarrow> string \<Rightarrow> DroppedFile list \<Rightarrow> ('n, 's) deploy_world
   \<Rightarrow> DeployDone outcome result \<times> ('n, 's) deploy_world" where
  "deployFolder rt pf br sched siteId dropped d =
     (if dropped = [] then (Inr (Refused (JStr ''That folder has no files to deploy.'') None), d)
      else
        (case dash_buildManifest dropped of
           (built, calls) \<Rightarrow>
             (let d1 = d\<lparr>dw_progress := dw_progress d @ map (\<lambda>(k, n). Hashing k n) calls\<rparr>
              in (case built of
                    Inl e \<Rightarrow> (Inl e, d1)
                  | Inr b \<Rightarrow>
                      (case br_wire br (built_manifest_files b) of
                         Inl e \<Rightarrow> (Inl e, report Preparing d1)
                       | Inr manifest \<Rightarrow>
                           deploy_send rt pf br sched siteId (length dropped) b manifest (report Preparing d1))))))"

section \<open>Uploading a skill\<close>

definition hasRootSkillMD :: "DroppedFile list \<Rightarrow> bool" where
  "hasRootSkillMD fs = list_ex (\<lambda>f. dropped_path f = ''SKILL.md'') fs"

definition MAX_SKILL_FILES :: nat where
  "MAX_SKILL_FILES = 200"

definition MAX_SKILL_BYTES :: nat where
  "MAX_SKILL_BYTES = 5 * 1024 * 1024"

definition precheckSkillFolder :: "DroppedFile list \<Rightarrow> string option" where
  "precheckSkillFolder fs =
     (if fs = [] then Some ''That folder has no files.''
      else if \<not> hasRootSkillMD fs then
        Some ''A skill needs a SKILL.md at the top level of the folder. If your SKILL.md is inside a subfolder, upload that subfolder instead.''
      else if MAX_SKILL_FILES < length fs then
        Some (''A skill can have at most '' @ nat_to_string MAX_SKILL_FILES @ '' files (this folder has '' @ nat_to_string (length fs) @ '').'')
      else if MAX_SKILL_BYTES < sum_list (map (\<lambda>f. file_size (dropped_file f)) fs) then
        Some ''A skill can be at most 5 MiB in total.''
      else None)"

record SkillDone =
  sd_skillId :: json
  sd_versionNo :: json
  sd_warnings :: json
  sd_fileCount :: nat

text \<open>A refusal carries the id of the skill once it is known.\<close>

datatype skill_outcome = Uploaded SkillDone | NotUploaded json "json option" "json option"

record skill_create =
  sc_slug :: string
  sc_title :: "string option"
  sc_folders :: "string list option"

text \<open>The target skill: given, created, or found again when its slug was taken.\<close>

definition resolve_skill ::
  "runtime \<Rightarrow> 'n platform \<Rightarrow> 's browser \<Rightarrow> string option \<Rightarrow> skill_create option \<Rightarrow> ('n, 's) deploy_world
   \<Rightarrow> (skill_outcome + json) result \<times> ('n, 's) deploy_world" where
  "resolve_skill rt pf br skillId newSkill d =
     (if skillId \<noteq> None \<and> skillId \<noteq> Some [] then (Inr (Inr (JStr (the skillId))), d)
      else
        (case newSkill of
           None \<Rightarrow> (Inr (Inl (NotUploaded (JStr ''The skill needs a name.'') None None)), d)
         | Some c \<Rightarrow>
             if sc_slug c = [] then (Inr (Inl (NotUploaded (JStr ''The skill needs a name.'') None None)), d)
             else
               (case call_action br (createSkillAction rt pf (sc_slug c) (sc_title c) (sc_folders c)) (report Creating d) of
                  (Inl e, d1) \<Rightarrow> (Inl e, d1)
                | (Inr (Created skill), d1) \<Rightarrow>
                    (Inr (if truthy (body_prop (Some skill) ''id'') then Inr (the (body_prop (Some skill) ''id''))
                          else Inl (NotUploaded (JStr (''The API did not return the new skill'' @ CHR 0x27 # ''s id.'')) None None)), d1)
                | (Inr (NotCreated message quota slugTaken), d1) \<Rightarrow>
                    if \<not> slugTaken then (Inr (Inl (NotUploaded message quota None)), d1)
                    else
                      (case call_action br (resolveSkillIdBySlugAction rt pf (sc_slug c)) d1 of
                         (Inl e, d2) \<Rightarrow> (Inl e, d2)
                       | (Inr (Ok i), d2) \<Rightarrow>
                           (Inr (if truthy (Some i) then Inr i else Inl (NotUploaded message None None)), d2)
                       | (Inr (Refused m q), d2) \<Rightarrow> (Inr (Inl (NotUploaded m None None)), d2)))))"

definition skill_finalize ::
  "runtime \<Rightarrow> 'n platform \<Rightarrow> 's browser \<Rightarrow> json \<Rightarrow> nat \<Rightarrow> json \<Rightarrow> string \<Rightarrow> ('n, 's) deploy_world
   \<Rightarrow> skill_outcome result \<times> ('n, 's) deploy_world" where
  "skill_finalize rt pf br skillId fileCount manifest dig d =
     (case call_action br (finalizeSkillUploadAction rt pf (version_text skillId) manifest dig) (report Finalizing d) of
        (Inl e, d1) \<Rightarrow> (Inl e, d1)
      | (Inr (Refused m q), d1) \<Rightarrow> (Inr (NotUploaded m q (Some skillId)), d1)
      | (Inr (Ok result), d1) \<Rightarrow>
          (case read_member result ''version_no'' (JNum (Fin 0)) of
             Inl e \<Rightarrow> (Inl e, d1)
           | Inr versionNo \<Rightarrow>
               (Inr (Uploaded \<lparr>sd_skillId = skillId, sd_versionNo = versionNo,
                  sd_warnings = (case present (body_prop result ''warnings'') of Some j \<Rightarrow> j | None \<Rightarrow> JArr []),
                  sd_fileCount = fileCount\<rparr>), d1)))"

definition skill_push ::
  "runtime \<Rightarrow> 'n platform \<Rightarrow> 's browser \<Rightarrow> (nat \<Rightarrow> nat) \<Rightarrow> json \<Rightarrow> DroppedFile list \<Rightarrow> ('n, 's) deploy_world
   \<Rightarrow> skill_outcome result \<times> ('n, 's) deploy_world" where
  "skill_push rt pf br sched skillId dropped d =
     (case dash_buildManifest dropped of
        (built, calls) \<Rightarrow>
          (let d1 = d\<lparr>dw_progress := dw_progress d @ map (\<lambda>(k, n). Hashing k n) calls\<rparr>
           in (case built of
                 Inl e \<Rightarrow> (Inl e, d1)
               | Inr b \<Rightarrow>
                   (case br_wire br (built_manifest_files b) of
                      Inl e \<Rightarrow> (Inl e, report Preparing d1)
                    | Inr manifest \<Rightarrow>
                        (case call_action br (prepareSkillUploadAction rt pf (version_text skillId) manifest) (report Preparing d1) of
                           (Inl e, d2) \<Rightarrow> (Inl e, d2)
                         | (Inr (Refused m q), d2) \<Rightarrow> (Inr (NotUploaded m None (Some skillId)), d2)
                         | (Inr (Ok (missing, uploads)), d2) \<Rightarrow>
                             (case upload_missing br sched missing uploads (built_byHash b) d2 of
                                (Inl e, d3) \<Rightarrow> (Inr (NotUploaded (JStr UPLOAD_FAILED) None (Some skillId)), d3)
                              | (Inr u, d3) \<Rightarrow>
                                  skill_finalize rt pf br skillId (length dropped) manifest (built_digest b) d3))))))"

definition uploadSkillFolder ::
  "runtime \<Rightarrow> 'n platform \<Rightarrow> 's browser \<Rightarrow> (nat \<Rightarrow> nat) \<Rightarrow> string option \<Rightarrow> skill_create option \<Rightarrow> DroppedFile list
   \<Rightarrow> ('n, 's) deploy_world \<Rightarrow> skill_outcome result \<times> ('n, 's) deploy_world" where
  "uploadSkillFolder rt pf br sched skillId newSkill dropped d =
     (case precheckSkillFolder dropped of
        Some message \<Rightarrow> (Inr (NotUploaded (JStr message) None None), d)
      | None \<Rightarrow>
          (case resolve_skill rt pf br skillId newSkill d of
             (Inl e, d1) \<Rightarrow> (Inl e, d1)
           | (Inr (Inl refused), d1) \<Rightarrow> (Inr refused, d1)
           | (Inr (Inr i), d1) \<Rightarrow> skill_push rt pf br sched i dropped d1))"

section \<open>What the uploads do\<close>

fun is_put :: "deploy_event \<Rightarrow> bool" where
  "is_put (PutEv url bytes r) = True"
| "is_put (ActionEv cs) = False"

definition only_put_events :: "('n, 's) deploy_world \<Rightarrow> ('n, 's) deploy_world \<Rightarrow> bool" where
  "only_put_events d d1 \<longleftrightarrow> dw_server d1 = dw_server d \<and> (\<exists>ps. dw_log d1 = dw_log d @ ps \<and> list_all is_put ps)"

lemma report_simps [simp]:
  "dw_server (report p d) = dw_server d" "dw_store (report p d) = dw_store d" "dw_log (report p d) = dw_log d"
  by (simp_all add: report_def)

interpretation put: transfer "put_file br uploads byHash n_all" only_put_events for br uploads byHash n_all
proof (unfold_locales, goal_cases)
  case (1 w)
  show ?case by (simp add: only_put_events_def)
next
  case (2 u v w)
  then show ?case by (fastforce simp: only_put_events_def)
next
  case (3 x w r w1)
  then show ?case
    by (auto simp: put_file_def only_put_events_def Let_def report_def split: option.splits if_splits sum.splits prod.splits)
qed

text \<open>The upload of one blob: one \<open>PUT\<close> to its address with bytes of that hash, answered with a 2xx status.\<close>

definition put_of :: "json \<Rightarrow> string \<Rightarrow> deploy_event \<Rightarrow> bool" where
  "put_of uploads sha ev \<longleftrightarrow>
     (\<exists>url bytes status. ev = PutEv url bytes (Inr status) \<and> 200 \<le> status \<and> status < 300 \<and>
        sha256Hex bytes = sha \<and> as_string (body_prop (Some uploads) sha) = Some url)"

definition files_addressed :: "(string \<times> File) list \<Rightarrow> bool" where
  "files_addressed byHash \<longleftrightarrow>
     (\<forall>sha file bytes. map_of byHash sha = Some file \<longrightarrow> file_bytes file = Inr bytes \<longrightarrow> sha256Hex bytes = sha)"

lemma hash_loop_addressed:
  assumes "hash_loop n ds manifest byHash k = (Inr (manifest', byHash'), calls)" "files_addressed byHash"
  shows "files_addressed byHash'"
  using assms
proof (induction ds arbitrary: manifest byHash k calls)
  case (Cons d ds)
  from Cons.prems(1) obtain bytes where b: "file_bytes (dropped_file d) = Inr bytes" by (auto split: sum.splits)
  let ?sha = "sha256Hex bytes"
  let ?bh = "if map_of byHash ?sha = None then byHash @ [(?sha, dropped_file d)] else byHash"
  have "files_addressed ?bh"
    using Cons.prems(2) b by (auto simp: files_addressed_def map_add_def split: option.splits if_splits)
  moreover obtain calls' m k' where "hash_loop n ds m ?bh k' = (Inr (manifest', byHash'), calls')"
    using Cons.prems(1) b by (auto simp: Let_def split: prod.splits)
  ultimately show ?case by (blast intro: Cons.IH)
qed simp

lemma built_files_addressed: "dash_buildManifest ds = (Inr b, calls) \<Longrightarrow> files_addressed (built_byHash b)"
  using hash_loop_addressed [of "length ds" ds "[]" "[]" 0]
  by (auto simp: dash_buildManifest_def files_addressed_def Let_def split: prod.splits sum.splits)

lemma put_file_ok:
  assumes "put_file br uploads byHash n_all sha d = (Inr (), d1)" "files_addressed byHash"
  shows "dw_server d1 = dw_server d \<and> (\<exists>ev. dw_log d1 = dw_log d @ [ev] \<and> put_of uploads sha ev)"
proof -
  from assms(1) obtain url fl bytes status where u: "as_string (body_prop (Some uploads) sha) = Some url" "map_of byHash sha = Some fl"
      "file_bytes fl = Inr bytes"
    and d1: "dw_server d1 = dw_server d" "dw_log d1 = dw_log d @ [PutEv url bytes (Inr status)]"
      "200 \<le> status" "status < 300"
    by (auto simp: put_file_def Let_def report_def statusOk_def split: option.splits if_splits sum.splits prod.splits)
  have "sha256Hex bytes = sha" using assms(2) u(2,3) by (auto simp: files_addressed_def)
  with u d1 show ?thesis by (auto simp: put_of_def)
qed

lemma seq_puts:
  assumes "seq_run (put_file br uploads byHash n_all) order d = (Inr (), d1)" "files_addressed byHash"
  shows "dw_server d1 = dw_server d \<and> (\<exists>puts. dw_log d1 = dw_log d @ puts \<and> list_all2 (put_of uploads) order puts)"
  using assms(1)
proof (induction order arbitrary: d)
  case (Cons sha order)
  then obtain d2 where u: "put_file br uploads byHash n_all sha d = (Inr (), d2)"
    and s: "seq_run (put_file br uploads byHash n_all) order d2 = (Inr (), d1)"
    by (auto split: prod.splits sum.splits)
  from put_file_ok [OF u assms(2)] Cons.IH [OF s] obtain ev puts where
    "dw_server d1 = dw_server d" "put_of uploads sha ev" "list_all2 (put_of uploads) order puts" "dw_log d1 = dw_log d @ ev # puts" by auto
  then show ?case by (intro conjI exI [of _ "ev # puts"]) simp_all
qed auto

lemma runPool_start: "0 < min 6 (length items) \<or> items = []"
  by (cases items) auto

lemma runPool_seq: "\<exists>order. mset order = mset items \<and> runPool sched items 6 fn w = seq_run fn order w"
  unfolding runPool_def
  using pool_run_sequential [OF live_start [OF runPool_start]] pending_start [OF runPool_start] by metis

lemma upload_missing_ok:
  assumes "upload_missing br sched missing uploads byHash d = (Inr (), d1)" "files_addressed byHash"
  shows "dw_server d1 = dw_server d \<and>
    (\<exists>order puts. mset order = mset (string_array (Some missing)) \<and> dw_log d1 = dw_log d @ puts \<and> list_all2 (put_of uploads) order puts)"
proof -
  let ?shas = "string_array (Some missing)"
  let ?fn = "put_file br uploads byHash (length ?shas)"
  let ?d = "(report (Uploading 0 (length ?shas)) d)\<lparr>dw_uploaded := 0\<rparr>"
  from runPool_seq [of ?shas sched ?fn ?d] assms(1) obtain order where
    o: "mset order = mset ?shas" and s: "seq_run ?fn order ?d = (Inr (), d1)"
    by (auto simp: upload_missing_def Let_def)
  from seq_puts [OF s assms(2)] o show ?thesis by auto
qed

lemma upload_missing_puts:
  assumes "upload_missing br sched missing uploads byHash d = (r, d1)"
  shows "only_put_events d d1"
proof -
  let ?shas = "string_array (Some missing)"
  let ?d = "(report (Uploading 0 (length ?shas)) d)\<lparr>dw_uploaded := 0\<rparr>"
  have "only_put_events ?d d1"
    using assms unfolding upload_missing_def Let_def runPool_def
    by (rule put.pool_keeps [OF live_start [OF runPool_start], rotated])
  then show ?thesis by (simp add: only_put_events_def)
qed

section \<open>The order of a deploy\<close>

lemma action_request_sent [simp]: "new_calls (action_request w) w1 = new_calls w w1"
  by (simp add: new_calls_def action_request_def)

lemma call_action_ok:
  assumes "call_action br act d = (Inr x, d1)"
  shows "act (action_request (dw_server d)) = (x, dw_server d1) \<and>
    dw_log d1 = dw_log d @ [ActionEv (new_calls (dw_server d) (dw_server d1))]"
  using assms by (auto simp: call_action_def split: prod.splits delivery.splits)

lemma call_action_any:
  assumes "call_action br act d = (r, d1)"
  shows "dw_log d1 = dw_log d \<or>
    (\<exists>x w1. act (action_request (dw_server d)) = (x, w1) \<and> dw_log d1 = dw_log d @ [ActionEv (new_calls (dw_server d) w1)])"
  using assms by (auto simp: call_action_def split: prod.splits delivery.splits)

text \<open>An action that sent this request or none, and one that sent it.\<close>

definition may_post :: "runtime \<Rightarrow> 'n platform \<Rightarrow> string \<Rightarrow> json \<Rightarrow> deploy_event \<Rightarrow> bool" where
  "may_post rt pf path body ev \<longleftrightarrow> (\<exists>cs. ev = ActionEv cs \<and> (cs = [] \<or> posted rt pf path body cs))"

definition posts :: "runtime \<Rightarrow> 'n platform \<Rightarrow> string \<Rightarrow> json \<Rightarrow> deploy_event \<Rightarrow> bool" where
  "posts rt pf path body ev \<longleftrightarrow> (\<exists>cs. ev = ActionEv cs \<and> posted rt pf path body cs)"

definition prepare_path :: "string \<Rightarrow> string" where
  "prepare_path siteId = ''/v1/sites/'' @ siteId @ ''/deployments/prepare''"

definition finalize_path :: "string \<Rightarrow> string" where
  "finalize_path siteId = ''/v1/sites/'' @ siteId @ ''/deployments''"

definition publish_path :: "string \<Rightarrow> string" where
  "publish_path siteId = ''/v1/sites/'' @ siteId @ ''/publish''"

definition publish_body :: "json \<Rightarrow> json" where
  "publish_body versionId = js_obj [(''version_id'', Some (JStr (js_trim (version_text versionId))))]"

lemmas path_defs = prepare_path_def finalize_path_def publish_path_def publish_body_def

text \<open>All blobs that the server named as missing were put, each once and with success, with bytes of its hash.\<close>

definition all_put :: "json \<Rightarrow> json \<Rightarrow> deploy_event list \<Rightarrow> bool" where
  "all_put missing uploads puts \<longleftrightarrow>
     (\<exists>order. mset order = mset (string_array (Some missing)) \<and> list_all2 (put_of uploads) order puts)"

lemma deploy_publish_ok:
  assumes "deploy_publish rt pf br siteId n version d = (Inr (Ok dd), d1)"
  shows "\<exists>pub. dw_log d1 = dw_log d @ [pub] \<and> posts rt pf (publish_path siteId) (publish_body (dd_versionId dd)) pub"
proof -
  from assms obtain v result where c: "call_action br (publishVersionAction rt pf siteId (version_text v)) (report Publishing d) = (Inr (Ok result), d1)"
    and v: "dd_versionId dd = v"
    by (auto simp: deploy_publish_def split: sum.splits prod.splits outcome.splits)
  from call_action_ok [OF c] have
    a: "publishVersionAction rt pf siteId (version_text v) (action_request (dw_server d)) = (Ok result, dw_server d1)"
    and l: "dw_log d1 = dw_log d @ [ActionEv (new_calls (dw_server d) (dw_server d1))]" by simp_all
  from publish_log [OF a] l v show ?thesis by (simp add: posts_def path_defs)
qed

lemma deploy_publish_any:
  assumes "deploy_publish rt pf br siteId n version d = (r, d1)"
  shows "dw_log d1 = dw_log d \<or>
    (\<exists>v pub. dw_log d1 = dw_log d @ [pub] \<and> may_post rt pf (publish_path siteId) (publish_body v) pub)"
proof (cases "read_member version ''version_id'' (JStr [])")
  case (Inr v)
  obtain r2 d2 where c: "call_action br (publishVersionAction rt pf siteId (version_text v)) (report Publishing d) = (r2, d2)" by fastforce
  have "d1 = d2" using assms Inr c by (auto simp: deploy_publish_def split: sum.splits outcome.splits)
  with call_action_any [OF c] publish_log show ?thesis by (fastforce simp: may_post_def path_defs)
qed (use assms in \<open>simp add: deploy_publish_def\<close>)

lemma deploy_finalize_ok:
  assumes "deploy_finalize rt pf br siteId n manifest dig d = (Inr (Ok dd), d1)"
  shows "\<exists>fin pub. dw_log d1 = dw_log d @ [fin, pub] \<and> posts rt pf (finalize_path siteId) (finalize_body manifest dig) fin \<and>
    posts rt pf (publish_path siteId) (publish_body (dd_versionId dd)) pub"
proof -
  from assms obtain version d2 where
    c: "call_action br (finalizeDeploymentAction rt pf siteId manifest dig) (report Finalizing d) = (Inr (Ok version), d2)"
    and p: "deploy_publish rt pf br siteId n version d2 = (Inr (Ok dd), d1)"
    by (auto simp: deploy_finalize_def split: sum.splits prod.splits outcome.splits)
  from call_action_ok [OF c] have
    a: "finalizeDeploymentAction rt pf siteId manifest dig (action_request (dw_server d)) = (Ok version, dw_server d2)"
    and l: "dw_log d2 = dw_log d @ [ActionEv (new_calls (dw_server d) (dw_server d2))]" by simp_all
  from finalize_log [OF a] l deploy_publish_ok [OF p] show ?thesis by (auto simp: posts_def path_defs)
qed

lemma deploy_finalize_any:
  assumes "deploy_finalize rt pf br siteId n manifest dig d = (r, d1)"
  shows "\<exists>cs. dw_log d1 = dw_log d @ cs \<and> list_all (\<lambda>ev. \<not> is_put ev) cs"
proof -
  obtain r2 d2 where c: "call_action br (finalizeDeploymentAction rt pf siteId manifest dig) (report Finalizing d) = (r2, d2)" by fastforce
  from call_action_any [OF c] obtain cs where l: "dw_log d2 = dw_log d @ cs" "list_all (\<lambda>ev. \<not> is_put ev) cs" by fastforce
  have "d1 = d2 \<or> (\<exists>version. deploy_publish rt pf br siteId n version d2 = (r, d1))"
    using assms c by (auto simp: deploy_finalize_def split: sum.splits outcome.splits)
  then show ?thesis
  proof
    assume "\<exists>version. deploy_publish rt pf br siteId n version d2 = (r, d1)"
    then show ?thesis using deploy_publish_any [of rt pf br siteId n _ d2 r d1] l by (fastforce simp: may_post_def)
  qed (use l in blast)
qed

lemma deploy_send_ok:
  assumes "deploy_send rt pf br sched siteId n b manifest d = (Inr (Ok dd), d1)" "files_addressed (built_byHash b)"
  shows "\<exists>missing uploads prep puts fin pub.
    fst (prepareDeploymentAction rt pf siteId manifest (action_request (dw_server d))) = Ok (missing, uploads) \<and>
    dw_log d1 = dw_log d @ prep # puts @ [fin, pub] \<and>
    posts rt pf (prepare_path siteId) (manifest_body manifest) prep \<and> all_put missing uploads puts \<and>
    posts rt pf (finalize_path siteId) (finalize_body manifest (built_digest b)) fin \<and>
    posts rt pf (publish_path siteId) (publish_body (dd_versionId dd)) pub"
proof -
  from assms(1) obtain missing uploads d2 d3 where
    c: "call_action br (prepareDeploymentAction rt pf siteId manifest) d = (Inr (Ok (missing, uploads)), d2)"
    and u: "upload_missing br sched missing uploads (built_byHash b) d2 = (Inr (), d3)"
    and f: "deploy_finalize rt pf br siteId n manifest (built_digest b) d3 = (Inr (Ok dd), d1)"
    by (auto simp: deploy_send_def split: sum.splits prod.splits outcome.splits)
  note a = call_action_ok [OF c]
  from upload_missing_ok [OF u assms(2)] obtain puts where l: "dw_log d3 = dw_log d2 @ puts" "all_put missing uploads puts"
    by (auto simp: all_put_def)
  moreover from prepare_log [OF conjunct1 [OF a]] have
    "posts rt pf (prepare_path siteId) (manifest_body manifest) (ActionEv (new_calls (dw_server d) (dw_server d2)))"
    by (simp add: posts_def path_defs)
  ultimately show ?thesis using a deploy_finalize_ok [OF f] by fastforce
qed

lemma deploy_send_any:
  assumes "deploy_send rt pf br sched siteId n b manifest d = (r, d1)" "files_addressed (built_byHash b)"
  shows "\<exists>preps puts commits. dw_log d1 = dw_log d @ preps @ puts @ commits \<and> length preps \<le> 1 \<and>
    list_all (may_post rt pf (prepare_path siteId) (manifest_body manifest)) preps \<and> list_all is_put puts \<and>
    (commits \<noteq> [] \<longrightarrow> (\<exists>missing uploads.
       fst (prepareDeploymentAction rt pf siteId manifest (action_request (dw_server d))) = Ok (missing, uploads) \<and>
       all_put missing uploads puts))"
proof -
  obtain r2 d2 where c: "call_action br (prepareDeploymentAction rt pf siteId manifest) d = (r2, d2)" by fastforce
  obtain preps where p: "dw_log d2 = dw_log d @ preps" "length preps \<le> 1"
      "list_all (may_post rt pf (prepare_path siteId) (manifest_body manifest)) preps"
    using call_action_any [OF c] prepare_log by (fastforce simp: may_post_def path_defs)
  show ?thesis
  proof (cases "d1 = d2")
    case True
    with p show ?thesis by fastforce
  next
    case False
    then obtain missing uploads where r2: "r2 = Inr (Ok (missing, uploads))"
      using assms(1) c by (auto simp: deploy_send_def split: sum.splits outcome.splits)
    obtain ru d3 where u: "upload_missing br sched missing uploads (built_byHash b) d2 = (ru, d3)" by fastforce
    obtain puts where l: "dw_log d3 = dw_log d2 @ puts" "list_all is_put puts"
      using upload_missing_puts [OF u] by (auto simp: only_put_events_def)
    show ?thesis
    proof (cases ru)
      case (Inl e)
      then have "d1 = d3" using assms(1) c r2 u by (simp add: deploy_send_def)
      with p l show ?thesis by (intro exI [of _ preps] exI [of _ puts] exI [of _ "[]"]) simp
    next
      case (Inr x)
      then have f: "deploy_finalize rt pf br siteId n manifest (built_digest b) d3 = (r, d1)"
        using assms(1) c r2 u by (simp add: deploy_send_def)
      obtain commits where "dw_log d1 = dw_log d3 @ commits" using deploy_finalize_any [OF f] by blast
      moreover have "all_put missing uploads puts"
        using upload_missing_ok [OF _ assms(2)] u Inr l(1) by (fastforce simp: all_put_def)
      moreover have "fst (prepareDeploymentAction rt pf siteId manifest (action_request (dw_server d))) = Ok (missing, uploads)"
        using call_action_ok c r2 by (metis fst_conv)
      ultimately show ?thesis using p l by (intro exI [of _ preps] exI [of _ puts] exI [of _ commits]) auto
    qed
  qed
qed

section \<open>Sample\<close>

definition store_reply :: "api_call \<Rightarrow> string" where
  "store_reply call =
     (if ac_url call = ''http://api:8080/v1/sites/s1/deployments/prepare'' then
        ''{\"missing\":[\"'' @ abc_hash @ ''\"],\"uploads\":{\"'' @ abc_hash @ ''\":\"https://store.example.com/1\"}}''
      else if ac_url call = ''http://api:8080/v1/sites/s1/deployments'' then ''{\"version_id\":\"v1\"}''
      else ''{\"live_url\":\"https://docs.dropway.site\"}'')"

definition store_platform :: "bool platform" where
  "store_platform = sample_platform\<lparr>pf_fetch := \<lambda>call n. (Inr \<lparr>ar_status = 200, ar_text = Inr (store_reply call)\<rparr>, n)\<rparr>"

definition sample_browser :: "nat browser" where
  "sample_browser =
     \<lparr>br_call = \<lambda>n. (Delivered, Suc n), br_wire = \<lambda>fs. Inr (JArr (map (\<lambda>f. JObj [(''path'', JStr (df_path f)), (''sha256'', JStr (df_sha256 f))]) fs)),
      br_put = \<lambda>url bytes n. (Inr 200, Suc n)\<rparr>"

definition abc_folder :: "DroppedFile list" where
  "abc_folder = [\<lparr>dropped_path = ''index.html'', dropped_file =
     \<lparr>file_name = ''index.html'', webkitRelativePath = [], file_type = [], file_size = 3, file_bytes = Inr ''abc''\<rparr>\<rparr>]"

definition start_world :: "(bool, nat) deploy_world" where
  "start_world = \<lparr>dw_server = booted, dw_store = 0, dw_log = [], dw_progress = [], dw_uploaded = 0\<rparr>"

lemma store_bearer: "aw_bearer w = None \<Longrightarrow> \<exists>t w1. bearerToken store_platform w = (Inr t, w1)"
  by (simp add: bearerToken_def find_bearer_def mintBearerToken_def store_platform_def sample_platform_def Let_def split: prod.splits)

lemma store_fetch:
  assumes "aw_bearer w = None" "JSON_parse (store_reply (api_call_of rt store_platform path None init)) = Some j"
  shows "\<exists>w1. apiFetch rt store_platform path init w = (Inr (Some j), w1)"
proof -
  obtain t w1 where "bearerToken store_platform w = (Inr t, w1)" using store_bearer [OF assms(1)] by blast
  moreover have "store_reply (api_call_of rt store_platform path t init) = store_reply (api_call_of rt store_platform path None init)"
    by (simp add: store_reply_def api_call_of_def)
  moreover have "pf_fetch store_platform call n = (Inr \<lparr>ar_status = 200, ar_text = Inr (store_reply call)\<rparr>, n)" for call n
    by (simp add: store_platform_def)
  ultimately show ?thesis using assms(2) by (simp add: apiFetch_def api_send_def read_reply_def reply_json_def statusOk_def)
qed

lemma store_url [simp]: "ac_url (api_call_of rt store_platform path t init) = ''http://api:8080'' @ path"
  by (simp add: api_call_of_def store_platform_def sample_platform_def)

lemma store_replies:
  "JSON_parse (store_reply (api_call_of rt store_platform (prepare_path ''s1'') None init)) =
     Some (JObj [(''missing'', JArr [JStr abc_hash]), (''uploads'', JObj [(abc_hash, JStr ''https://store.example.com/1'')])])"
  "JSON_parse (store_reply (api_call_of rt store_platform (finalize_path ''s1'') None init)) =
     Some (JObj [(''version_id'', JStr ''v1'')])"
  "JSON_parse (store_reply (api_call_of rt store_platform (publish_path ''s1'') None init)) =
     Some (JObj [(''live_url'', JStr ''https://docs.dropway.site'')])"
  unfolding store_reply_def store_url by code_simp+

lemma sample_call: "call_action sample_browser act d = (case act (action_request (dw_server d)) of (r, w1) \<Rightarrow>
    (Inr r, d\<lparr>dw_store := Suc (dw_store d), dw_server := w1, dw_log := dw_log d @ [ActionEv (new_calls (dw_server d) w1)]\<rparr>))"
  by (simp add: call_action_def sample_browser_def)

lemma sample_prepare:
  assumes "json_list (Some manifest) \<noteq> []"
  shows "\<exists>w1. prepareDeploymentAction rt store_platform ''s1'' manifest (action_request w) =
    (Ok (JArr [JStr abc_hash], JObj [(abc_hash, JStr ''https://store.example.com/1'')]), w1)"
  using assms store_fetch [OF _ store_replies(1), of "action_request w" rt "with_json ''POST'' (manifest_body manifest)"]
  by (auto simp: action_defs manifest_body_def catch_api_def api_bind_def prepared_def member_def body_prop_def
      prepare_path_def action_request_def)

lemma sample_finalize:
  "\<exists>w1. finalizeDeploymentAction rt store_platform ''s1'' manifest dig (action_request w) = (Ok (Some (JObj [(''version_id'', JStr ''v1'')])), w1)"
  using store_fetch [OF _ store_replies(2), of "action_request w" rt "with_json ''POST'' (finalize_body manifest dig)"]
  by (auto simp: action_defs finalize_body_def catch_api_def api_bind_def finalize_path_def action_request_def)

lemma sample_publish:
  "\<exists>w1. publishVersionAction rt store_platform ''s1'' ''v1'' (action_request w) =
    (Ok (Some (JObj [(''live_url'', JStr ''https://docs.dropway.site'')])), w1)"
proof -
  have "js_trim ''v1'' = ''v1''" by code_simp
  then show ?thesis
    using store_fetch [OF _ store_replies(3), of "action_request w" rt "with_json ''POST'' (js_obj [(''version_id'', Some (JStr ''v1''))])"]
    by (auto simp: action_defs catch_api_def api_bind_def publish_path_def action_request_def)
qed

lemma sample_pool_of_one:
  "runPool sched [x] 6 fn w = (case fn x w of (Inl e, w1) \<Rightarrow> (Inl e, w1) | (Inr u, w1) \<Rightarrow> (Inr (), w1))"
  using runPool_seq [of "[x]" sched fn w] by (auto split: prod.splits sum.splits)

lemma sample_upload:
  assumes "map_of byHash abc_hash = Some fl" "file_bytes fl = Inr ''abc''"
  shows "\<exists>d1. upload_missing sample_browser sched (JArr [JStr abc_hash]) (JObj [(abc_hash, JStr ''https://store.example.com/1'')]) byHash d =
    (Inr (), d1)"
proof -
  have "as_string (body_prop (Some (JObj [(abc_hash, JStr ''https://store.example.com/1'')])) abc_hash) = Some ''https://store.example.com/1''"
    by (simp add: body_prop_def)
  then have p: "\<exists>d1. put_file sample_browser (JObj [(abc_hash, JStr ''https://store.example.com/1'')]) byHash n abc_hash d = (Inr (), d1)" for n d
    using assms by (simp add: put_file_def sample_browser_def statusOk_def Let_def)
  have "string_array (Some (JArr [JStr abc_hash])) = [abc_hash]" by (simp add: string_array_def)
  then show ?thesis
    using p [of 1 "(report (Uploading 0 1) d)\<lparr>dw_uploaded := 0\<rparr>"] by (auto simp: upload_missing_def sample_pool_of_one Let_def)
qed

lemma sample_commit:
  "\<exists>dd d1. deploy_finalize rt store_platform sample_browser ''s1'' n manifest dig d = (Inr (Ok dd), d1) \<and> dd_versionId dd = JStr ''v1''"
proof -
  obtain w1 where f: "finalizeDeploymentAction rt store_platform ''s1'' manifest dig (action_request (dw_server d)) =
    (Ok (Some (JObj [(''version_id'', JStr ''v1'')])), w1)" using sample_finalize by blast
  obtain w2 where "publishVersionAction rt store_platform ''s1'' ''v1'' (action_request w1) =
    (Ok (Some (JObj [(''live_url'', JStr ''https://docs.dropway.site'')])), w2)" using sample_publish by blast
  with f show ?thesis
    by (simp add: deploy_finalize_def sample_call deploy_publish_def read_member_def member_def body_prop_def version_text_def)
qed

lemma abc_build:
  "\<exists>b. dash_buildManifest abc_folder = (Inr b, [(1, 1)]) \<and> length (built_manifest_files b) = 1 \<and>
    map_of (built_byHash b) abc_hash = Some (dropped_file (hd abc_folder))"
  by (simp add: dash_buildManifest_def abc_folder_def sha256Hex_def sha256_abc abc_hash_def sort_byPath_def sort_by_def Let_def)

lemma sample_send:
  assumes "map_of (built_byHash b) abc_hash = Some (dropped_file (hd abc_folder))" "json_list (Some manifest) \<noteq> []"
  shows "\<exists>dd d1. deploy_send rt store_platform sample_browser sched ''s1'' n b manifest d = (Inr (Ok dd), d1) \<and> dd_versionId dd = JStr ''v1''"
proof -
  obtain w1 where p: "prepareDeploymentAction rt store_platform ''s1'' manifest (action_request (dw_server d)) =
    (Ok (JArr [JStr abc_hash], JObj [(abc_hash, JStr ''https://store.example.com/1'')]), w1)" using sample_prepare [OF assms(2)] by blast
  have "file_bytes (dropped_file (hd abc_folder)) = Inr ''abc''" by (simp add: abc_folder_def)
  from sample_upload [OF assms(1) this] obtain d3 where
    "upload_missing sample_browser sched (JArr [JStr abc_hash]) (JObj [(abc_hash, JStr ''https://store.example.com/1'')]) (built_byHash b)
       (d\<lparr>dw_store := Suc (dw_store d), dw_server := w1, dw_log := dw_log d @ [ActionEv (new_calls (dw_server d) w1)]\<rparr>) = (Inr (), d3)"
    by blast
  with p sample_commit show ?thesis by (simp add: deploy_send_def sample_call)
qed

lemma sample_deployFolder:
  "\<exists>dd d1. deployFolder rt store_platform sample_browser sched ''s1'' abc_folder start_world = (Inr (Ok dd), d1) \<and> dd_versionId dd = JStr ''v1''"
proof -
  obtain b where b: "dash_buildManifest abc_folder = (Inr b, [(1, 1)])" "length (built_manifest_files b) = 1"
    "map_of (built_byHash b) abc_hash = Some (dropped_file (hd abc_folder))" using abc_build by blast
  obtain manifest where m: "br_wire sample_browser (built_manifest_files b) = Inr manifest" "json_list (Some manifest) \<noteq> []"
    using b(2) by (cases "built_manifest_files b") (simp_all add: sample_browser_def json_list_def)
  have "abc_folder \<noteq> []" by (simp add: abc_folder_def)
  with b(1) m(1) sample_send [OF b(3) m(2)] show ?thesis by (simp add: deployFolder_def Let_def)
qed

section \<open>Properties\<close>

text \<open>
  C21. A folder deploy runs in order. When \<open>deployFolder\<close> succeeds, the log shows exactly: the
  \<open>prepare\<close> with the manifest of the folder; one \<open>PUT\<close> of bytes with the right hash to the given
  address for every blob that the server called missing, in some order; the \<open>finalize\<close> with the
  manifest and its digest; and the \<open>publish\<close> of the version that the result names.
\<close>

theorem folder_deploy_runs_in_order:
  assumes "deployFolder rt pf br sched siteId dropped d = (Inr (Ok dd), d1)"
  shows "\<exists>b calls manifest missing uploads prep puts fin pub.
    dash_buildManifest dropped = (Inr b, calls) \<and> br_wire br (built_manifest_files b) = Inr manifest \<and>
    fst (prepareDeploymentAction rt pf siteId manifest (action_request (dw_server d))) = Ok (missing, uploads) \<and>
    dw_log d1 = dw_log d @ prep # puts @ [fin, pub] \<and>
    posts rt pf (prepare_path siteId) (manifest_body manifest) prep \<and> all_put missing uploads puts \<and>
    posts rt pf (finalize_path siteId) (finalize_body manifest (built_digest b)) fin \<and>
    posts rt pf (publish_path siteId) (publish_body (dd_versionId dd)) pub"
proof -
  from assms obtain b calls manifest d2 where b: "dash_buildManifest dropped = (Inr b, calls)" "br_wire br (built_manifest_files b) = Inr manifest"
    and s: "deploy_send rt pf br sched siteId (length dropped) b manifest d2 = (Inr (Ok dd), d1)"
    and d: "dw_server d2 = dw_server d" "dw_log d2 = dw_log d"
    by (auto simp: deployFolder_def Let_def split: if_splits prod.splits sum.splits)
  from deploy_send_ok [OF s built_files_addressed [OF b(1)]] b d show ?thesis by auto
qed

theorem folder_deploy_runs_in_order_witness:
  "\<exists>dd d1 prep put fin pub. deployFolder sample_runtime store_platform sample_browser (\<lambda>t. 0) ''s1'' abc_folder start_world = (Inr (Ok dd), d1) \<and>
     dw_log d1 = prep # put @ [fin, pub] \<and>
     posts sample_runtime store_platform (publish_path ''s1'') (publish_body (JStr ''v1'')) pub"
proof -
  obtain dd d1 where d: "deployFolder sample_runtime store_platform sample_browser (\<lambda>t. 0) ''s1'' abc_folder start_world = (Inr (Ok dd), d1)"
    and v: "dd_versionId dd = JStr ''v1''" using sample_deployFolder by blast
  have "dw_log start_world = []" by (simp add: start_world_def)
  with folder_deploy_runs_in_order [OF d] d v show ?thesis by auto
qed

text \<open>
  C22. No version without its blobs. Whatever \<open>deployFolder\<close> does, also when it throws, the log is at
  most one \<open>prepare\<close>, then \<open>PUT\<close>s, then a rest that is empty unless every blob that the server
  called missing was put: after a failed upload nothing is finalized or published.
\<close>

theorem folder_deploy_commits_after_uploads:
  assumes "deployFolder rt pf br sched siteId dropped d = (r, d1)"
  shows "\<exists>preps puts commits. dw_log d1 = dw_log d @ preps @ puts @ commits \<and> length preps \<le> 1 \<and>
    (\<forall>ev \<in> set preps. \<exists>manifest. may_post rt pf (prepare_path siteId) (manifest_body manifest) ev) \<and> list_all is_put puts \<and>
    (commits \<noteq> [] \<longrightarrow> (\<exists>manifest missing uploads.
       fst (prepareDeploymentAction rt pf siteId manifest (action_request (dw_server d))) = Ok (missing, uploads) \<and>
       all_put missing uploads puts))"
proof (cases "dw_log d1 = dw_log d")
  case False
  with assms obtain b calls manifest d2 where b: "dash_buildManifest dropped = (Inr b, calls)"
    and s: "deploy_send rt pf br sched siteId (length dropped) b manifest d2 = (r, d1)"
    and d: "dw_server d2 = dw_server d" "dw_log d2 = dw_log d"
    by (auto simp: deployFolder_def Let_def split: if_splits prod.splits sum.splits)
  from deploy_send_any [OF s built_files_addressed [OF b]] obtain preps puts commits where
    "dw_log d1 = dw_log d @ preps @ puts @ commits" "length preps \<le> 1"
    "list_all (may_post rt pf (prepare_path siteId) (manifest_body manifest)) preps" "list_all is_put puts"
    "commits \<noteq> [] \<longrightarrow> (\<exists>missing uploads.
       fst (prepareDeploymentAction rt pf siteId manifest (action_request (dw_server d))) = Ok (missing, uploads) \<and>
       all_put missing uploads puts)" unfolding d by blast
  then show ?thesis by (intro exI [of _ preps] exI [of _ puts] exI [of _ commits]) (auto simp: list_all_iff)
qed force

theorem folder_deploy_commits_after_uploads_witness:
  "\<exists>r d1 preps puts commits. deployFolder sample_runtime store_platform sample_browser (\<lambda>t. 0) ''s1'' abc_folder start_world = (r, d1) \<and>
     dw_log d1 = preps @ puts @ commits \<and> length preps \<le> 1 \<and> list_all is_put puts"
proof -
  obtain dd d1 where d: "deployFolder sample_runtime store_platform sample_browser (\<lambda>t. 0) ''s1'' abc_folder start_world = (Inr (Ok dd), d1)"
    using sample_deployFolder by blast
  have "dw_log start_world = []" by (simp add: start_world_def)
  with folder_deploy_commits_after_uploads [OF d] d show ?thesis by auto
qed

end
