(* ===== verification/Query.thy ===== *)
theory Query
  imports Web
begin

text \<open>
  Laws of \<open>URLSearchParams\<close>: what is set is read back. The serializer and the parser are those of
  the URL Standard; they agree on every text that is well-formed UTF-8, and the parser produces
  only such texts.
\<close>

section \<open>Escapes\<close>

abbreviation plus_to_space :: "string \<Rightarrow> string" where
  "plus_to_space \<equiv> map (\<lambda>c. if c = CHR ''+'' then CHR '' '' else c)"

definition form_char :: "char \<Rightarrow> string" where
  "form_char c = (if is_alnum c \<or> c \<in> set ''*-._'' then [c] else if c = CHR '' '' then ''+'' else pct_byte c)"

lemma form_encode_Cons: "form_encode (c # s) = form_char c @ form_encode s"
  by (simp add: form_encode_def form_char_def)

lemma pct_decode_plain: "c \<noteq> CHR ''%'' \<Longrightarrow> pct_decode (c # s) = c # pct_decode s"
  by (cases s; cases "tl s") auto

lemma hex_digit_plain: "d < 16 \<Longrightarrow> hex_digit d \<notin> {CHR ''+'', CHR ''&'', CHR ''=''}"
proof -
  assume "d < 16"
  moreover have "hex_val (CHR ''+'') = None" "hex_val (CHR ''&'') = None" "hex_val (CHR ''='') = None" by code_simp+
  ultimately show ?thesis using hex_val_hex_digit [of d] by (metis empty_iff insert_iff option.distinct(1))
qed

lemma nibbles: "(of_char c :: nat) div 16 < 16" "(of_char c :: nat) mod 16 < 16"
  using nat_of_char_less_256 [of c] by (simp_all add: div_less_iff_less_mult)

lemmas pct_digits_plain = hex_digit_plain [OF nibbles(1)] hex_digit_plain [OF nibbles(2)]

lemma pct_decode_pct_byte: "pct_decode (plus_to_space (pct_byte c) @ s) = c # pct_decode s"
proof -
  have "hex_val (hex_digit (of_char c div 16)) = Some (of_char c div 16)" "hex_val (hex_digit (of_char c mod 16)) = Some (of_char c mod 16)"
    by (rule hex_val_hex_digit, rule nibbles)+
  then show ?thesis using pct_digits_plain [of c] by (simp add: pct_byte_def)
qed

lemma pct_decode_form_char: "pct_decode (plus_to_space (form_char c) @ s) = c # pct_decode s"
proof (cases "is_alnum c \<or> c \<in> set ''*-._''")
  case True
  then have "c \<noteq> CHR ''%''" "c \<noteq> CHR ''+''" by (auto simp: is_alnum_def)
  with True show ?thesis by (simp add: form_char_def pct_decode_plain)
qed (simp_all add: form_char_def pct_decode_pct_byte pct_decode_plain)

lemma pct_decode_form_encode: "pct_decode (plus_to_space (form_encode s)) = s"
proof (induction s)
  case (Cons c s)
  then show ?case using pct_decode_form_char [of c "plus_to_space (form_encode s)"] by (simp add: form_encode_Cons)
qed (simp add: form_encode_def)

lemma form_decode_encode: "utf8_valid s \<Longrightarrow> form_decode (form_encode s) = s"
  by (simp add: form_decode_def pct_decode_form_encode utf8_valid_def utf8_decode_valid)

lemma form_encode_plain: "CHR ''&'' \<notin> set (form_encode s) \<and> CHR ''='' \<notin> set (form_encode s)"
proof (induction s)
  case (Cons c s)
  have "CHR ''&'' \<notin> set (form_char c) \<and> CHR ''='' \<notin> set (form_char c)"
    using pct_digits_plain [of c]
    by (auto simp: form_char_def pct_byte_def is_alnum_def)
  with Cons show ?case by (simp add: form_encode_Cons)
qed (simp add: form_encode_def)

section \<open>Parsing a query\<close>

lemma form_pair_encoded:
  assumes "utf8_valid k" "utf8_valid v"
  shows "form_pair (form_encode k @ ''='' @ form_encode v) = (k, v)"
proof -
  have "indexOf (form_encode k @ ''='' @ form_encode v) ''='' = Some (length (form_encode k))"
    using indexOf_char [of "CHR ''=''" "form_encode k" "form_encode v"] form_encode_plain by simp
  then show ?thesis using assms by (simp add: form_pair_def form_decode_encode)
qed

definition valid_params :: "(string \<times> string) list \<Rightarrow> bool" where
  "valid_params ps \<longleftrightarrow> (\<forall>(k, v) \<in> set ps. utf8_valid k \<and> utf8_valid v)"

text \<open>\<open>toString\<close>, then the parser.\<close>

lemma searchParams_string:
  assumes "valid_params ps"
  shows "searchParams (u\<lparr>url_search := (if params_string ps = [] then [] else ''?'' @ params_string ps)\<rparr>) = ps"
proof (cases "ps = []")
  case False
  let ?pair = "\<lambda>(k, v). form_encode k @ ''='' @ form_encode v"
  have s: "split_on (CHR ''&'') (params_string ps) = map ?pair ps"
    unfolding params_string_def using False form_encode_plain by (intro split_on_join) auto
  then have "params_string ps \<noteq> []" using False by (cases ps; cases "tl ps") auto
  moreover have "filter (\<lambda>p. p \<noteq> []) (map ?pair ps) = map ?pair ps" by (auto simp: filter_id_conv)
  moreover have "map form_pair (map ?pair ps) = ps"
    using assms by (auto simp: valid_params_def form_pair_encoded [simplified] intro!: map_idI)
  ultimately show ?thesis by (simp add: searchParams_def s)
qed (simp add: params_string_def searchParams_def)

text \<open>What the decoder returns is well-formed, whatever its input is.\<close>

lemma utf8_run_zero: "utf8_run (0, lo, up) s = utf8_run utf8_init s"
  by (cases s) simp_all

lemma utf8_valid_replacement [simp]: "utf8_valid (replacement @ s) = utf8_valid s"
proof -
  have "utf8_valid replacement" by code_simp
  then show ?thesis by simp
qed

lemma utf8_decode_is_valid:
  assumes "\<And>t. utf8_run utf8_init (rev pend @ t) = utf8_run st t" "fst st = 0 \<Longrightarrow> pend = []"
  shows "utf8_valid (utf8_decode pend st s)"
  using assms
proof (induction pend st s rule: utf8_decode.induct)
  case (1 pend n lo up)
  have "utf8_valid replacement" by code_simp
  then show ?case by (simp add: utf8_valid_def)
next
  case (2 pend lo up c cs)
  show ?case
  proof (cases "utf8_lead (of_char c)")
    case None
    then show ?thesis using 2(1) by simp
  next
    case (Some st)
    have lead: "utf8_run utf8_init (c # t) = utf8_run st t" for t using Some by simp
    obtain k lo' up' where st: "st = (k, lo', up')" by (cases st)
    show ?thesis
    proof (cases k)
      case 0
      have v: "utf8_valid (utf8_decode [] utf8_init cs)" by (rule 2(2) [OF Some [unfolded st 0]]) simp_all
      have "utf8_decode pend (0, lo, up) (c # cs) = c # utf8_decode [] utf8_init cs" using Some st 0 by simp
      then show ?thesis using v lead [of "utf8_decode [] utf8_init cs"] unfolding utf8_valid_def st 0 utf8_run_zero [of lo' up'] by simp
    next
      case (Suc k')
      have "utf8_valid (utf8_decode [c] (k, lo', up') cs)"
        using 2(3) [OF Some [unfolded st]] st Suc lead by auto
      then show ?thesis using Some st Suc by simp
    qed
  qed
next
  case (3 pend n lo up c cs)
  show ?case
  proof (cases "lo \<le> of_char c \<and> of_char c \<le> up")
    case True
    have run: "utf8_run utf8_init (rev (c # pend) @ t) = utf8_run (n, 128, 191) t" for t
      using 3(4) [of "c # t"] True by simp
    show ?thesis
    proof (cases "n = 0")
      case True
      have v: "utf8_valid (utf8_decode [] utf8_init cs)" by (rule 3(1)) (use \<open>lo \<le> of_char c \<and> of_char c \<le> up\<close> True in simp_all)
      have "utf8_decode pend (Suc n, lo, up) (c # cs) = rev (c # pend) @ utf8_decode [] utf8_init cs"
        using \<open>lo \<le> of_char c \<and> of_char c \<le> up\<close> True by simp
      then show ?thesis
        using v run [of "utf8_decode [] utf8_init cs"] by (simp add: utf8_valid_def True)
    next
      case False
      then show ?thesis using 3(2) run True by simp
    qed
  next
    case False
    then have "utf8_decode pend (Suc n, lo, up) (c # cs) = replacement @ utf8_decode [] utf8_init (c # cs)" by auto
    moreover have "utf8_valid (utf8_decode [] utf8_init (c # cs))" by (rule 3(3)) (use False in simp_all)
    ultimately show ?thesis by (simp del: utf8_decode.simps)
  qed
qed

lemma form_decode_is_valid: "utf8_valid (form_decode s)"
  unfolding form_decode_def by (rule utf8_decode_is_valid) simp_all

lemma form_pair_is_valid: "form_pair s = (k, v) \<Longrightarrow> utf8_valid k \<and> utf8_valid v"
proof -
  assume p: "form_pair s = (k, v)"
  have "utf8_valid []" by code_simp
  with p show ?thesis by (auto simp: form_pair_def form_decode_is_valid split: option.splits)
qed

lemma valid_searchParams: "valid_params (searchParams u)"
proof -
  have "form_pair s = p \<Longrightarrow> case p of (k, v) \<Rightarrow> utf8_valid k \<and> utf8_valid v" for s p
    using form_pair_is_valid by (cases p) simp
  then show ?thesis by (simp add: valid_params_def searchParams_def Let_def)
qed

section \<open>A store of parameters\<close>

lemma params_put_valid: "valid_params ps \<Longrightarrow> utf8_valid k \<Longrightarrow> utf8_valid v \<Longrightarrow> valid_params (params_put k v ps)"
  by (induction ps rule: params_put.induct) (auto simp: valid_params_def)

lemma map_of_params_put: "map_of (params_put k v ps) k' = (if k = k' then Some v else map_of ps k')"
proof (induction k v ps rule: params_put.induct)
  case (2 k v a b ps)
  have "map_of (filter (\<lambda>p. fst p \<noteq> k) ps) k' = (if k = k' then None else map_of ps k')"
    by (induction ps) auto
  with 2 show ?case by auto
qed simp

text \<open>
  The contract of \<open>get\<close> and \<open>set\<close>, for names and values that are texts, and what two settings
  give.
\<close>

locale param_store =
  fixes get :: "'u \<Rightarrow> string \<Rightarrow> string option"
    and put :: "'u \<Rightarrow> string \<Rightarrow> string \<Rightarrow> 'u"
    and ok :: "string \<Rightarrow> bool"
  assumes get_put: "ok k \<Longrightarrow> ok v \<Longrightarrow> get (put u k v) k' = (if k = k' then Some v else get u k')"
begin

lemma get_put_two:
  assumes "ok k" "ok v" "ok k2" "ok v2" "k \<noteq> k2"
  shows "get (put (put u k v) k2 v2) k = Some v" "get (put (put u k v) k2 v2) k2 = Some v2"
  using assms by (simp_all add: get_put)

end

interpretation params: param_store params_get params_set utf8_valid
proof
  fix k v k' :: string and u :: url
  assume v: "utf8_valid k" "utf8_valid v"
  let ?ps = "params_put k v (searchParams u)"
  have "searchParams (params_set u k v) = ?ps"
    using searchParams_string [OF params_put_valid [OF valid_searchParams v], of u u] by (simp add: params_set_def Let_def)
  then show "params_get (params_set u k v) k' = (if k = k' then Some v else params_get u k')"
    by (simp add: params_get_def map_of_params_put)
qed

lemma params_set_keeps [simp]:
  "url_protocol (params_set u k v) = url_protocol u" "url_host (params_set u k v) = url_host u"
  "url_pathname (params_set u k v) = url_pathname u" "url_hash (params_set u k v) = url_hash u"
  by (simp_all add: params_set_def Let_def)

end
