(* ===== verification/Dash_Authz.thy ===== *)
theory Dash_Authz
  imports Dash_Actions Authz Query
begin

text \<open>
  The dashboard's side of the viewer exchange: \<open>lib/authz-host.ts\<close>, the page \<open>app/authz/page.tsx\<close>
  and the password action \<open>app/authz/actions.ts\<close>. The edge sends a viewer without a token to
  \<open>/authz?host=&next=\<close>; the dashboard validates both parameters, lets the API mint a token for
  that host, and sends the viewer to the callback of the host, where \<open>handleAuthzCallback\<close> of the
  edge takes over. The theory composes the two sides.
\<close>

section \<open>Validation\<close>

definition CONTENT_SUFFIX :: string where
  "CONTENT_SUFFIX = ''.dropwaycontent.com''"

text \<open>\<open>HOSTNAME_RE\<close>: at least two labels, none of them with a hyphen at an end.\<close>

definition label_char :: "char \<Rightarrow> bool" where
  "label_char c = (let n = (of_char c :: nat) in (97 \<le> n \<and> n \<le> 122) \<or> (48 \<le> n \<and> n \<le> 57) \<or> c = CHR ''-'')"

definition host_label :: "string \<Rightarrow> bool" where
  "host_label l = (l \<noteq> [] \<and> length l \<le> 63 \<and> list_all label_char l \<and> hd l \<noteq> CHR ''-'' \<and> last l \<noteq> CHR ''-'')"

definition HOSTNAME_RE_test :: "string \<Rightarrow> bool" where
  "HOSTNAME_RE_test h =
     (1 \<le> length h \<and> length h \<le> 253 \<and>
      (let ls = split_on (CHR ''.'') h in 2 \<le> length ls \<and> list_all host_label ls))"

text \<open>\<open>HOST_FORBIDDEN_RE\<close>; white space outside ASCII is refused by \<open>HOSTNAME_RE\<close>.\<close>

definition HOST_FORBIDDEN_RE_test :: "string \<Rightarrow> bool" where
  "HOST_FORBIDDEN_RE_test h = list_ex (\<lambda>c. c \<in> set (CHR 0x5C # ''/:@?#*[]'') \<or> is_ws c) h"

definition normalizeContentHost :: "string option \<Rightarrow> string option" where
  "normalizeContentHost raw =
     (case raw of
        None \<Rightarrow> None
      | Some r \<Rightarrow>
          if r = [] then None
          else
            (let host = toLowerCase (js_trim r)
             in if HOST_FORBIDDEN_RE_test host then None
                else if \<not> HOSTNAME_RE_test host then None
                else if host = drop 1 CONTENT_SUFFIX then None
                else Some host))"

definition isPlatformContentHost :: "string \<Rightarrow> bool" where
  "isPlatformContentHost host = (endsWith host CONTENT_SUFFIX \<and> length CONTENT_SUFFIX < length host)"

definition hasControlChar :: "string \<Rightarrow> bool" where
  "hasControlChar s = list_ex (\<lambda>c. let n = (of_char c :: nat) in n \<le> 0x20 \<or> n = 0x7f) s"

definition dash_safeNextPath :: "string option \<Rightarrow> string" where
  "dash_safeNextPath raw =
     (case raw of
        None \<Rightarrow> ''/''
      | Some r \<Rightarrow>
          if r = [] then ''/''
          else
            (let n = js_trim r
             in if \<not> startsWith n ''/'' then ''/''
                else if startsWith n ''//'' \<or> startsWith n (CHR ''/'' # [CHR 0x5C]) then ''/''
                else if hasControlChar n then ''/''
                else n))"

section \<open>Resuming an OAuth login\<close>

datatype param_value = OneValue string | ManyValues "string list"

definition is_str :: "(string \<times> param_value) list \<Rightarrow> string \<Rightarrow> bool" where
  "is_str params k = (case map_of params k of Some (OneValue v) \<Rightarrow> v \<noteq> [] | _ \<Rightarrow> False)"

fun resume_params :: "(string \<times> param_value) list \<Rightarrow> (string \<times> string) list \<Rightarrow> (string \<times> string) list" where
  "resume_params [] qs = qs"
| "resume_params ((k, OneValue v) # ps) qs = resume_params ps (params_put k v qs)"
| "resume_params ((k, ManyValues vs) # ps) qs = resume_params ps (qs @ map (Pair k) vs)"

definition oauthResumePath :: "(string \<times> param_value) list \<Rightarrow> string option" where
  "oauthResumePath params =
     (if \<not> (is_str params ''client_id'' \<and> is_str params ''redirect_uri'' \<and> is_str params ''response_type'') then None
      else Some (''/api/auth/oauth2/authorize?'' @ params_string (resume_params params [])))"

section \<open>The callback\<close>

record content_env =
  CONTENT_SCHEME :: "string option"
  CONTENT_PORT :: "string option"

definition env_or :: "string option \<Rightarrow> string \<Rightarrow> string" where
  "env_or v dflt = (case v of Some s \<Rightarrow> if s = [] then dflt else s | None \<Rightarrow> dflt)"

definition content_origin :: "content_env \<Rightarrow> string \<Rightarrow> string" where
  "content_origin ce host =
     (let scheme = env_or (CONTENT_SCHEME ce) ''https''; port = env_or (CONTENT_PORT ce) []
      in scheme @ ''://'' @ host @ (if port = [] then [] else CHR '':'' # port))"

definition callbackUrl :: "runtime \<Rightarrow> content_env \<Rightarrow> string \<Rightarrow> string \<Rightarrow> string \<Rightarrow> string result" where
  "callbackUrl rt ce host token nxt =
     (case new_url rt (content_origin ce host @ ''/__authz/callback'') None of
        None \<Rightarrow> Inl (JsTypeError ''Invalid URL'')
      | Some u \<Rightarrow> Inr (url_href (params_set (params_set u ''token'' token) ''next'' nxt)))"

section \<open>The page and the password action\<close>

definition authz_return :: "string \<Rightarrow> string \<Rightarrow> string" where
  "authz_return host nxt = ''/authz?host='' @ encodeURIComponent host @ ''&next='' @ encodeURIComponent nxt"

datatype authz_view =
    InvalidLink
  | RedirectTo string
  | PasswordForm string string
  | NoAccess
  | UnknownSite
  | SomethingWrong

text \<open>The token of an answer, read at its declared type; destructuring nothing throws.\<close>

definition minted_token :: "json option \<Rightarrow> string option result" where
  "minted_token v =
     (case member v ''token'' of
        Inl e \<Rightarrow> Inl e
      | Inr t \<Rightarrow> Inr (case as_string t of Some s \<Rightarrow> if s = [] then None else Some s | None \<Rightarrow> None))"

text \<open>\<open>listOrgs\<close>: how many organisations Better Auth lists, or nothing after a failure.\<close>

definition authz_refused ::
  "('n \<Rightarrow> nat option \<times> 'n) \<Rightarrow> string \<Rightarrow> string \<Rightarrow> api_error \<Rightarrow> 'n api_world \<Rightarrow> authz_view api_result \<times> 'n api_world" where
  "authz_refused listOrgs host nxt err w =
     (case err of
        OtherError e \<Rightarrow> (Inl err, w)
      | ApiError status m body \<Rightarrow>
          if status = 400 then (Inr (PasswordForm host nxt), w)
          else if status = 403 then (Inr NoAccess, w)
          else if status = 404 then (Inr UnknownSite, w)
          else if status = 401 then
            (case listOrgs (aw_net w) of
               (orgs, n1) \<Rightarrow>
                 (Inr (RedirectTo
                    ((if orgs = Some 0 then ''/onboarding?next='' else ''/sign-in?callbackURL='') @
                     encodeURIComponent (authz_return host nxt))), w\<lparr>aw_net := n1\<rparr>))
          else (Inl err, w))"

definition AuthzPage ::
  "runtime \<Rightarrow> 'n platform \<Rightarrow> content_env \<Rightarrow> ('n \<Rightarrow> nat option \<times> 'n) \<Rightarrow> string option \<Rightarrow> string option \<Rightarrow> 'n api_world
   \<Rightarrow> authz_view api_result \<times> 'n api_world" where
  "AuthzPage rt pf ce listOrgs rawHost rawNext w =
     (case normalizeContentHost rawHost of
        None \<Rightarrow> (Inr InvalidLink, w)
      | Some host \<Rightarrow>
          (let nxt = dash_safeNextPath rawNext
           in (case pf_getSession pf (aw_net w) of
                 (None, n1) \<Rightarrow>
                   (Inr (RedirectTo (''/sign-in?callbackURL='' @ encodeURIComponent (authz_return host nxt))), w\<lparr>aw_net := n1\<rparr>)
               | (Some s, n1) \<Rightarrow>
                   (case api_authzMint rt pf host (Some nxt) (w\<lparr>aw_net := n1\<rparr>) of
                      (Inl err, w2) \<Rightarrow> authz_refused listOrgs host nxt err w2
                    | (Inr v, w2) \<Rightarrow>
                        (case minted_token v of
                           Inl e \<Rightarrow> (Inl (OtherError e), w2)
                         | Inr None \<Rightarrow> (Inr SomethingWrong, w2)
                         | Inr (Some token) \<Rightarrow>
                             (case callbackUrl rt ce host token nxt of
                                Inl e \<Rightarrow> (Inl (OtherError e), w2)
                              | Inr l \<Rightarrow> (Inr (RedirectTo l), w2)))))))"

fun password_error :: "api_error \<Rightarrow> string" where
  "password_error (ApiError status m body) =
     (if status = 401 then ''Incorrect password.''
      else if status = 403 then ''This link has expired.''
      else ''Could not unlock this site. Try again.'')"
| "password_error (OtherError e) = ''Could not reach the server. Try again.''"

definition submitPasswordAction ::
  "runtime \<Rightarrow> 'n platform \<Rightarrow> content_env \<Rightarrow> string \<Rightarrow> string \<Rightarrow> string \<Rightarrow> 'n api_world \<Rightarrow> string outcome \<times> 'n api_world" where
  "submitPasswordAction rt pf ce rawHost rawNext password w =
     (case normalizeContentHost (Some rawHost) of
        None \<Rightarrow> refuse ''That link is invalid.'' w
      | Some host \<Rightarrow>
          (let nxt = dash_safeNextPath (Some rawNext)
           in if password = [] then refuse ''Enter the password to continue.'' w
              else
                catch_api
                  (api_bind (api_authzPassword rt pf host password w)
                    (\<lambda>v w1.
                       (case minted_token v of
                          Inl e \<Rightarrow> Inl (OtherError e)
                        | Inr None \<Rightarrow> Inr (Refused (JStr ''Could not unlock this site. Try again.'') None)
                        | Inr (Some token) \<Rightarrow>
                            (case callbackUrl rt ce host token nxt of
                               Inl e \<Rightarrow> Inl (OtherError e)
                             | Inr l \<Rightarrow> Inr (Ok l)), w1)))
                  (\<lambda>err. Refused (JStr (password_error err)) None)))"

section \<open>What validation gives\<close>

lemma host_chars:
  assumes "HOSTNAME_RE_test h" "c \<in> set h"
  shows "label_char c \<or> c = CHR ''.''"
proof -
  have "set (join ''.'' (split_on (CHR ''.'') h)) \<subseteq> set ''.'' \<union> (\<Union>l \<in> set (split_on (CHR ''.'') h). set l)" by (rule set_join)
  then obtain l where "c = CHR ''.'' \<or> (l \<in> set (split_on (CHR ''.'') h) \<and> c \<in> set l)" using assms(2) by auto
  then show ?thesis using assms(1) by (auto simp: HOSTNAME_RE_test_def host_label_def list_all_iff Let_def)
qed

lemma host_char_code: "label_char c \<or> c = CHR ''.'' \<Longrightarrow> 45 \<le> (of_char c :: nat) \<and> (of_char c :: nat) \<le> 122 \<and> c \<notin> set ''/:@?#%''"
  by (auto simp: label_char_def Let_def)

lemma normalizeContentHost_ok: "normalizeContentHost raw = Some host \<Longrightarrow> HOSTNAME_RE_test host"
  by (auto simp: normalizeContentHost_def Let_def split: option.splits if_splits)

lemma lower_label: "label_char c \<or> c = CHR ''.'' \<Longrightarrow> lower_char c = c"
  by (auto simp: label_char_def lower_char_def Let_def)

lemma host_is_fixed:
  assumes "HOSTNAME_RE_test host"
  shows "toLowerCase (js_trim host) = host" "\<not> HOST_FORBIDDEN_RE_test host" "utf8_valid host" "CHR ''/'' \<notin> set host"
proof -
  note c = host_chars [OF assms]
  have "js_trim host = host" by (rule js_trim_id) (use c host_char_code in \<open>fastforce simp: is_ws_def Let_def\<close>)
  moreover have "map lower_char host = host" using c lower_label by (intro map_idI) blast
  ultimately show "toLowerCase (js_trim host) = host" by (simp add: toLowerCase_def)
  show "\<not> HOST_FORBIDDEN_RE_test host"
    using c by (fastforce simp: HOST_FORBIDDEN_RE_test_def list_ex_iff is_ws_def label_char_def Let_def)
  show "utf8_valid host" by (rule utf8_valid_ascii) (use c host_char_code in fastforce)
  show "CHR ''/'' \<notin> set host" using c host_char_code by fastforce
qed

lemma normalizeContentHost_idem: "normalizeContentHost raw = Some host \<Longrightarrow> normalizeContentHost (Some host) = Some host"
  using normalizeContentHost_ok [of raw host] host_is_fixed [of host]
  by (auto simp: normalizeContentHost_def HOSTNAME_RE_test_def Let_def split: option.splits if_splits)



section \<open>Sending the token\<close>

text \<open>
  What the URL Standard says of the address of the callback: for a DNS name whose last label is
  not numeric (the parser reads such names as IPv4 addresses), the parts are as written.
\<close>

definition dns_name :: "string \<Rightarrow> bool" where
  "dns_name host \<longleftrightarrow> HOSTNAME_RE_test host \<and> hd (last (split_on (CHR ''.'') host)) \<notin> set ''0123456789''"

definition callback_at :: "string \<Rightarrow> url" where
  "callback_at host =
     \<lparr>url_protocol = ''https:'', url_host = host, url_pathname = AUTHZ_CALLBACK_PATH, url_search = [], url_hash = []\<rparr>"

definition callback_contract :: "runtime \<Rightarrow> bool" where
  "callback_contract rt \<longleftrightarrow>
     (\<forall>host u. dns_name host \<longrightarrow> new_url rt (''https://'' @ host @ ''/__authz/callback'') None = Some u \<longrightarrow> u = callback_at host)"

definition production :: content_env where
  "production = \<lparr>CONTENT_SCHEME = None, CONTENT_PORT = None\<rparr>"


lemma callbackUrl_parts:
  assumes "callbackUrl rt ce host token nxt = Inr l"
  obtains u where "new_url rt (content_origin ce host @ ''/__authz/callback'') None = Some u"
    "l = url_href (params_set (params_set u ''token'' token) ''next'' nxt)"
  using assms by (auto simp: callbackUrl_def split: option.splits)

lemma production_origin: "content_origin production host = ''https://'' @ host"
  by (simp add: content_origin_def production_def env_or_def)





section \<open>Properties\<close>

text \<open>Addresses of the dashboard itself.\<close>

definition own_page :: "string \<Rightarrow> bool" where
  "own_page l \<longleftrightarrow> startsWith l ''/sign-in?callbackURL='' \<or> startsWith l ''/onboarding?next=''"

lemma own_pages: "own_page (''/sign-in?callbackURL='' @ s)" "own_page (''/onboarding?next='' @ s)"
  by (simp_all add: own_page_def)

text \<open>
  A redirect with the token of the answer \<open>v\<close>: the parser's reading of the origin configured for the
  host, with the path of the callback, and nothing but the token and the return path in its query. In
  production and for a DNS name it is the callback of exactly this host; a name whose last label is
  numeric is accepted too, and the parser may read it as another one.
\<close>

definition sends_token :: "runtime \<Rightarrow> content_env \<Rightarrow> string option \<Rightarrow> string option \<Rightarrow> string \<Rightarrow> json option \<Rightarrow> string \<Rightarrow> bool" where
  "sends_token rt ce rawHost rawNext host v l \<longleftrightarrow>
     normalizeContentHost rawHost = Some host \<and>
     (\<exists>token u. minted_token v = Inr (Some token) \<and>
       new_url rt (content_origin ce host @ ''/__authz/callback'') None = Some u \<and>
       l = url_href (params_set (params_set u ''token'' token) ''next'' (dash_safeNextPath rawNext)) \<and>
       (ce = production \<longrightarrow> dns_name host \<longrightarrow> u = callback_at host))"

lemma numeric_host_is_accepted:
  "normalizeContentHost (Some ''0177.0.0.1'') = Some ''0177.0.0.1'' \<and> \<not> dns_name ''0177.0.0.1''"
  by code_simp

lemma sends_tokenI:
  assumes "callback_contract rt" "normalizeContentHost rawHost = Some host" "minted_token v = Inr (Some token)"
    "callbackUrl rt ce host token (dash_safeNextPath rawNext) = Inr l"
  shows "sends_token rt ce rawHost rawNext host v l"
proof -
  from callbackUrl_parts [OF assms(4)] obtain u where
    u: "new_url rt (content_origin ce host @ ''/__authz/callback'') None = Some u"
      "l = url_href (params_set (params_set u ''token'' token) ''next'' (dash_safeNextPath rawNext))" .
  have "u = callback_at host" if "ce = production" "dns_name host"
    using assms(1) u(1) that unfolding callback_contract_def by (simp add: production_origin)
  with u assms(2,3) show ?thesis unfolding sends_token_def by blast
qed

lemma authz_refused_redirect: "authz_refused listOrgs host nxt err w = (Inr (RedirectTo l), w1) \<Longrightarrow> own_page l"
  by (auto simp: authz_refused_def own_page_def split: api_error.splits if_splits prod.splits)

lemma page_redirect:
  assumes "callback_contract rt" "AuthzPage rt pf ce listOrgs rawHost rawNext w = (Inr (RedirectTo l), w1)" "\<not> own_page l"
  shows "\<exists>host v w0. api_authzMint rt pf host (Some (dash_safeNextPath rawNext)) w0 = (Inr v, w1) \<and> sends_token rt ce rawHost rawNext host v l"
proof -
  let ?nxt = "dash_safeNextPath rawNext"
  from assms(2) obtain host where h: "normalizeContentHost rawHost = Some host" by (auto simp: AuthzPage_def split: option.splits)
  obtain ses n1 where g: "pf_getSession pf (aw_net w) = (ses, n1)" by fastforce
  have "ses \<noteq> None"
  proof
    assume "ses = None"
    then have "l = ''/sign-in?callbackURL='' @ encodeURIComponent (authz_return host ?nxt)"
      using assms(2) h g by (simp add: AuthzPage_def Let_def)
    then show False using assms(3) own_pages(1) by metis
  qed
  then obtain r w2 where m: "api_authzMint rt pf host (Some ?nxt) (w\<lparr>aw_net := n1\<rparr>) = (r, w2)"
    and rest: "AuthzPage rt pf ce listOrgs rawHost rawNext w =
      (case r of Inl err \<Rightarrow> authz_refused listOrgs host ?nxt err w2
       | Inr v \<Rightarrow> (case minted_token v of Inl e \<Rightarrow> (Inl (OtherError e), w2) | Inr None \<Rightarrow> (Inr SomethingWrong, w2)
          | Inr (Some token) \<Rightarrow> (case callbackUrl rt ce host token ?nxt of
              Inl e \<Rightarrow> (Inl (OtherError e), w2) | Inr l \<Rightarrow> (Inr (RedirectTo l), w2))))"
    using h g by (cases "api_authzMint rt pf host (Some ?nxt) (w\<lparr>aw_net := n1\<rparr>)") (auto simp: AuthzPage_def Let_def split: sum.splits)
  have "r \<noteq> Inl err" for err
    using rest assms(2,3) authz_refused_redirect [of listOrgs host ?nxt err w2 l w1] by auto
  with rest assms(2,3) obtain v token where "r = Inr v" "minted_token v = Inr (Some token)"
      "callbackUrl rt ce host token ?nxt = Inr l" "w1 = w2"
    by (cases r) (auto split: sum.splits option.splits)
  with m sends_tokenI [OF assms(1) h] show ?thesis by blast
qed

lemma password_redirect:
  assumes "callback_contract rt" "submitPasswordAction rt pf ce h n password w = (Ok l, w1)"
  shows "\<exists>host v. api_authzPassword rt pf host password w = (Inr v, w1) \<and> sends_token rt ce (Some h) (Some n) host v l"
proof -
  from assms(2) obtain host token v where "normalizeContentHost (Some h) = Some host"
    "api_authzPassword rt pf host password w = (Inr v, w1)" "minted_token v = Inr (Some token)"
    "callbackUrl rt ce host token (dash_safeNextPath (Some n)) = Inr l"
    by (auto simp: submitPasswordAction_def refuse_def catch_api_def api_bind_def Let_def
        split: option.splits prod.splits sum.splits if_splits)
  with sends_tokenI [OF assms(1)] show ?thesis by blast
qed

lemma password_is_anonymous:
  "api_authzPassword rt pf host password w = (r, w1) \<Longrightarrow> call \<in> set (new_calls w w1) \<Longrightarrow> (''Authorization'', a) \<notin> set (ac_headers call)"
  by (auto simp: api_authzPassword_def apiFetchPublic_def api_send_def api_call_of_def new_calls_def split: prod.splits)

text \<open>
  C24. No token leaves for another host. Wherever the exchange page redirects, whatever the query
  of the link was, the target is a page of the dashboard itself, or the callback below the origin
  configured for the host for which the API minted the token, with this token and a return path on
  that host. In production, for a DNS name, this is the callback of exactly that host; a host whose
  last label starts with a digit is accepted as well, and is only sent where the URL parser takes it
  (\<open>numeric_host_is_accepted\<close>). The password action sends its token only there too, after requests that
  carry no identity.
\<close>

theorem token_goes_to_the_minting_host:
  assumes "callback_contract rt"
  shows "(\<forall>w1 l. AuthzPage rt pf ce listOrgs rawHost rawNext w = (Inr (RedirectTo l), w1) \<longrightarrow>
      own_page l \<or> (\<exists>host v w0. api_authzMint rt pf host (Some (dash_safeNextPath rawNext)) w0 = (Inr v, w1) \<and>
        sends_token rt ce rawHost rawNext host v l)) \<and>
    (\<forall>w1 l. submitPasswordAction rt pf ce h n password w = (Ok l, w1) \<longrightarrow>
      (\<exists>host v. api_authzPassword rt pf host password w = (Inr v, w1) \<and> sends_token rt ce (Some h) (Some n) host v l) \<and>
      (\<forall>call \<in> set (new_calls w w1). \<forall>a. (''Authorization'', a) \<notin> set (ac_headers call)))"
  using page_redirect [OF assms] password_redirect [OF assms] password_is_anonymous by metis

text \<open>A platform whose API answers every request with a token.\<close>

definition exchange_platform :: "bool platform" where
  "exchange_platform = sample_platform\<lparr>pf_fetch := \<lambda>call n. (Inr \<lparr>ar_status = 200, ar_text = Inr ''{\"token\":\"good\"}''\<rparr>, n)\<rparr>"

lemma sample_callback_contract: "callback_contract sample_runtime"
proof -
  have "u = callback_at host"
    if "dns_name host" "sample_new_url (''https://'' @ host @ ''/__authz/callback'') None = Some u" for host u
  proof -
    have h: "CHR ''/'' \<notin> set host" using that(1) host_is_fixed(4) by (simp add: dns_name_def)
    have "takeWhile (\<lambda>c. c \<noteq> CHR ''/'') (host @ ''/__authz/callback'') = host"
      "dropWhile (\<lambda>c. c \<noteq> CHR ''/'') (host @ ''/__authz/callback'') = ''/__authz/callback''"
      using h by (subst takeWhile_append2 dropWhile_append2; auto)+
    then show ?thesis
      using that(2) by (auto simp: sample_new_url_def sample_parse_url_def callback_at_def AUTHZ_CALLBACK_PATH_def Let_def)
  qed
  then show ?thesis by (simp add: callback_contract_def sample_runtime_def)
qed

theorem token_goes_to_the_minting_host_witness:
  "\<exists>l w1. AuthzPage sample_runtime exchange_platform production (\<lambda>n. (None, n)) (Some ''Docs.Example.com'') (Some ''/guide'') booted =
      (Inr (RedirectTo l), w1) \<and>
    (\<exists>host v. sends_token sample_runtime production (Some ''Docs.Example.com'') (Some ''/guide'') host v l)"
proof -
  let ?page = "AuthzPage sample_runtime exchange_platform production (\<lambda>n. (None, n)) (Some ''Docs.Example.com'') (Some ''/guide'') booted"
  let ?l = "''https://docs.example.com/__authz/callback?token=good&next=%2Fguide''"
  have "fst ?page = Inr (RedirectTo ?l)" by code_simp
  then obtain w1 where p: "?page = (Inr (RedirectTo ?l), w1)" by (cases ?page) simp
  have "\<not> own_page ?l" by code_simp
  with token_goes_to_the_minting_host [OF sample_callback_contract, THEN conjunct1, rule_format, OF p]
  have "\<exists>host v. sends_token sample_runtime production (Some ''Docs.Example.com'') (Some ''/guide'') host v ?l" by blast
  with p show ?thesis by blast
qed



text \<open>
  Escapes do not survive: the edge decodes the path before it checks it, and once more after the
  exchange. A file whose name has a space, or a query with an escaped percent sign, leads back to
  the root of the site.
\<close>

lemma escaped_paths_are_lost:
  "safeNextPath (Some ''/my%20file.html'') = ''/''"
  "safeNextPath (Some (dash_safeNextPath (Some (safeNextPath (Some ''/search?q=100%25''))))) = ''/''"
  by code_simp+

end
