(* ===== verification/Dash_Skills.thy ===== *)
theory Dash_Skills
  imports Dash_Deploy Dash_Zip Dash_Authz
begin

text \<open>
  Authoring and downloading skills and sites: \<open>lib/skills-shared.ts\<close>, \<open>lib/skill-authoring.ts\<close> and
  the decoder of \<open>lib/site-download.ts\<close>. The lemmas show which slugs come out, that what the editor
  composes is accepted by the checks of the upload, and that no entry of a downloaded archive can
  leave its folder when it is unpacked.
\<close>

section \<open>Slugs and paths (\<open>skills-shared.ts\<close>)\<close>

definition SKILL_SEED_OWNER :: string where
  "SKILL_SEED_OWNER = ''00000000-0000-0000-0000-000000000000''"

text \<open>A global replacement of the runs of characters with property \<open>P\<close> by one \<open>c\<close>.\<close>

fun squash :: "(char \<Rightarrow> bool) \<Rightarrow> char \<Rightarrow> bool \<Rightarrow> string \<Rightarrow> string" where
  "squash P c inside [] = []"
| "squash P c inside (x # xs) =
     (if P x then (if inside then squash P c True xs else c # squash P c True xs) else x # squash P c False xs)"

definition strip_hyphens :: "string \<Rightarrow> string" where
  "strip_hyphens s = rev (dropWhile (\<lambda>c. c = CHR ''-'') (rev (dropWhile (\<lambda>c. c = CHR ''-'') s)))"

definition slug_text :: "string \<Rightarrow> string" where
  "slug_text name =
     strip_hyphens (squash (\<lambda>c. c = CHR ''-'') (CHR ''-'') False (squash (\<lambda>c. \<not> label_char c) (CHR ''-'') False (toLowerCase name)))"

definition slugify :: "string \<Rightarrow> string" where
  "slugify name = take 63 (slug_text name)"

definition isSafeSkillPath :: "string \<Rightarrow> bool" where
  "isSafeSkillPath p =
     (if p = [] \<or> 512 < js_length p \<or> str_includes p [CHR 0x00] \<or> str_includes p [CHR 0x5C] then False
      else if startsWith p ''/'' \<or> str_includes p ''//'' then False
      else list_all (\<lambda>seg. seg \<noteq> [] \<and> seg \<noteq> ''.'' \<and> seg \<noteq> ''..'') (split_on (CHR ''/'') p))"

section \<open>Authoring (\<open>skill-authoring.ts\<close>)\<close>

record AuthoredFile =
  af_path :: string
  af_content :: string

text \<open>\<open>new File([content], name, { type })\<close>.\<close>

definition new_File :: "string \<Rightarrow> string \<Rightarrow> string \<Rightarrow> File" where
  "new_File content name type =
     \<lparr>file_name = name, webkitRelativePath = [], file_type = type, file_size = length content, file_bytes = Inr content\<rparr>"

fun compose_loop ::
  "AuthoredFile list \<Rightarrow> string list \<Rightarrow> DroppedFile list \<Rightarrow> DroppedFile list \<times> string option" where
  "compose_loop [] seen fs = (fs, None)"
| "compose_loop (extra # extras) seen fs =
     (let path = js_trim (af_path extra)
      in if path = [] then compose_loop extras seen fs
         else if path = ''SKILL.md'' \<or> \<not> isSafeSkillPath path then
           ([], Some (''Invalid file path: '' @ CHR 0x22 # af_path extra @ [CHR 0x22] @ ''.''))
         else if path \<in> set seen then
           ([], Some (''Duplicate file path: '' @ CHR 0x22 # path @ [CHR 0x22] @ ''.''))
         else
           (let name = (let l = last_segment (CHR ''/'') path in if l = [] then path else l)
            in compose_loop extras (seen @ [path])
                 (fs @ [\<lparr>dropped_path = path, dropped_file = new_File (af_content extra) name ''text/plain''\<rparr>])))"

definition composeSkillFiles :: "string \<Rightarrow> AuthoredFile list \<Rightarrow> DroppedFile list \<times> string option" where
  "composeSkillFiles skillMd extras =
     (if js_trim skillMd = [] then ([], Some (''The SKILL.md can'' @ CHR 0x27 # ''t be empty.''))
      else compose_loop extras [''SKILL.md'']
             [\<lparr>dropped_path = ''SKILL.md'', dropped_file = new_File skillMd ''SKILL.md'' ''text/markdown''\<rparr>])"

section \<open>Downloads (\<open>site-download.ts\<close>)\<close>

text \<open>\<open>atob\<close>: the forgiving base64 decoder of the Infra Standard.\<close>

definition base64_val :: "char \<Rightarrow> nat option" where
  "base64_val c =
     (let n = (of_char c :: nat)
      in if 65 \<le> n \<and> n \<le> 90 then Some (n - 65)
         else if 97 \<le> n \<and> n \<le> 122 then Some (n - 71)
         else if 48 \<le> n \<and> n \<le> 57 then Some (n + 4)
         else if c = CHR ''+'' then Some 62
         else if c = CHR ''/'' then Some 63
         else None)"

fun base64_groups :: "nat list \<Rightarrow> string" where
  "base64_groups (a # b # c # d # vs) =
     (let n = ((a * 64 + b) * 64 + c) * 64 + d
      in char_of (n div 65536) # char_of (n div 256 mod 256) # char_of (n mod 256) # base64_groups vs)"
| "base64_groups [a, b, c] = (let n = (a * 64 + b) * 64 + c in [char_of (n div 1024), char_of (n div 4 mod 256)])"
| "base64_groups [a, b] = [char_of ((a * 64 + b) div 16)]"
| "base64_groups _ = []"

definition atob :: "string \<Rightarrow> string result" where
  "atob s =
     (let t = filter (\<lambda>c. c \<notin> {CHR 0x09, CHR 0x0A, CHR 0x0C, CHR 0x0D, CHR 0x20}) s;
          u = (if length t mod 4 \<noteq> 0 then t
               else if endsWith t ''=='' then take (length t - 2) t
               else if endsWith t ''='' then take (length t - 1) t else t);
          vs = map base64_val u
      in if length u mod 4 = 1 \<or> None \<in> set vs then Inl (JsError ''The string to be decoded is not correctly encoded.'')
         else Inr (base64_groups (map the vs)))"

record SiteFilePayload =
  sf_path :: "string option"
  sf_content :: "string option"
  sf_encoding :: "string option"

definition payload_data :: "SiteFilePayload \<Rightarrow> string result" where
  "payload_data f =
     (let content = (case sf_content f of Some c \<Rightarrow> c | None \<Rightarrow> [])
      in if sf_encoding f = Some ''base64'' then atob content else Inr content)"

fun decode_loop :: "string \<Rightarrow> SiteFilePayload list \<Rightarrow> (ZipEntry list \<times> string list) result" where
  "decode_loop prefix [] = Inr ([], [])"
| "decode_loop prefix (f # fs) =
     (case sf_path f of
        None \<Rightarrow> decode_loop prefix fs
      | Some p \<Rightarrow>
          if p = [] then decode_loop prefix fs
          else if \<not> isSafeSkillPath p then map_sum id (\<lambda>(es, sk). (es, p # sk)) (decode_loop prefix fs)
          else
            (case payload_data f of
               Inl e \<Rightarrow> Inl e
             | Inr data \<Rightarrow>
                 map_sum id (\<lambda>(es, sk). (\<lparr>ze_path = prefix @ p, ze_data = data\<rparr> # es, sk)) (decode_loop prefix fs)))"

definition decodeSiteFiles :: "SiteFilePayload list \<Rightarrow> string \<Rightarrow> (ZipEntry list \<times> string list) result" where
  "decodeSiteFiles fs prefix = decode_loop prefix fs"

section \<open>Which slugs come out\<close>

text \<open>No two hyphens in a row.\<close>

fun single_hyphens :: "string \<Rightarrow> bool" where
  "single_hyphens (a # b # s) = (\<not> (a = CHR ''-'' \<and> b = CHR ''-'') \<and> single_hyphens (b # s))"
| "single_hyphens s = True"

lemma squash_hyphens:
  "single_hyphens (squash (\<lambda>c. c = CHR ''-'') (CHR ''-'') inside s) \<and>
   (inside \<longrightarrow> squash (\<lambda>c. c = CHR ''-'') (CHR ''-'') inside s \<noteq> [] \<longrightarrow> hd (squash (\<lambda>c. c = CHR ''-'') (CHR ''-'') inside s) \<noteq> CHR ''-'')"
proof (induction s arbitrary: inside)
  case (Cons x xs)
  have one: "single_hyphens (a # t)" if "single_hyphens t" "a = CHR ''-'' \<Longrightarrow> t \<noteq> [] \<Longrightarrow> hd t \<noteq> CHR ''-''" for a t
    using that by (cases t) auto
  show ?case using Cons.IH [of True] Cons.IH [of False] by (auto intro: one)
qed simp

lemma set_squash: "set (squash P c inside s) \<subseteq> insert c {x \<in> set s. \<not> P x}"
proof (induction s arbitrary: inside)
  case (Cons x xs)
  show ?case using Cons.IH [of True] Cons.IH [of False] by auto
qed simp

lemma single_hyphens_suffix: "single_hyphens (u @ s) \<Longrightarrow> single_hyphens s"
proof (induction u)
  case (Cons a u)
  then have "single_hyphens (u @ s)" by (cases "u @ s") simp_all
  then show ?case by (rule Cons.IH)
qed simp

lemma single_hyphens_prefix: "single_hyphens (s @ v) \<Longrightarrow> single_hyphens s"
  by (induction s rule: single_hyphens.induct) auto

lemma strip_hyphens_infix: "\<exists>u v. s = u @ strip_hyphens s @ v"
proof -
  let ?h = "\<lambda>c. c = CHR ''-''"
  let ?t = "dropWhile ?h s"
  have "s = takeWhile ?h s @ ?t" by simp
  moreover have "rev ?t = takeWhile ?h (rev ?t) @ dropWhile ?h (rev ?t)" by simp
  then have "?t = strip_hyphens s @ rev (takeWhile ?h (rev ?t))"
    unfolding strip_hyphens_def by (metis rev_append rev_rev_ident)
  ultimately show ?thesis by (intro exI [of _ "takeWhile ?h s"] exI [of _ "rev (takeWhile ?h (rev ?t))"]) simp
qed

lemma strip_hyphens_ends:
  assumes "strip_hyphens s \<noteq> []"
  shows "hd (strip_hyphens s) \<noteq> CHR ''-'' \<and> last (strip_hyphens s) \<noteq> CHR ''-''"
proof -
  let ?h = "\<lambda>c. c = CHR ''-''"
  let ?t = "dropWhile ?h s"
  have l: "last (strip_hyphens s) \<noteq> CHR ''-''"
    using assms hd_dropWhile [of ?h "rev ?t"] by (simp add: strip_hyphens_def last_rev)
  have "rev ?t = takeWhile ?h (rev ?t) @ dropWhile ?h (rev ?t)" by simp
  then obtain w where w: "?t = strip_hyphens s @ w"
    unfolding strip_hyphens_def by (metis rev_append rev_rev_ident)
  then have "hd (strip_hyphens s) = hd ?t" "?t \<noteq> []" using assms by auto
  with hd_dropWhile [of ?h s] l show ?thesis by auto
qed

lemma slug_text_ok:
  "list_all label_char (slug_text s) \<and> single_hyphens (slug_text s) \<and>
   (slug_text s \<noteq> [] \<longrightarrow> hd (slug_text s) \<noteq> CHR ''-'' \<and> last (slug_text s) \<noteq> CHR ''-'')"
proof -
  let ?a = "squash (\<lambda>c. \<not> label_char c) (CHR ''-'') False (toLowerCase s)"
  let ?b = "squash (\<lambda>c. c = CHR ''-'') (CHR ''-'') False ?a"
  have hyphen: "label_char (CHR ''-'')" by code_simp
  obtain u v where uv: "?b = u @ slug_text s @ v" using strip_hyphens_infix [of ?b] by (auto simp: slug_text_def)
  have "set ?a \<subseteq> insert (CHR ''-'') {x \<in> set (toLowerCase s). \<not> \<not> label_char x}" by (rule set_squash)
  moreover have "set ?b \<subseteq> insert (CHR ''-'') {x \<in> set ?a. x \<noteq> CHR ''-''}" by (rule set_squash)
  ultimately have "\<forall>x \<in> set ?b. label_char x" using hyphen by auto
  moreover have "single_hyphens ?b" using squash_hyphens by blast
  ultimately show ?thesis
    using uv single_hyphens_suffix [of u "slug_text s @ v"] single_hyphens_prefix [of "slug_text s" v] strip_hyphens_ends [of ?b]
    unfolding list_all_iff slug_text_def [symmetric] by auto
qed

lemma slugify_label:
  "slugify s = [] \<or> host_label (slugify s) \<or> (63 < length (slug_text s) \<and> last (slugify s) = CHR ''-'')"
proof (cases "slug_text s = []")
  case False
  have "list_all label_char (slugify s)" using slug_text_ok [of s] by (auto simp: slugify_def list_all_iff dest: in_set_takeD)
  moreover have "hd (slugify s) \<noteq> CHR ''-''" using False slug_text_ok [of s] by (simp add: slugify_def hd_take)
  moreover have "length (slugify s) \<le> 63" "slugify s \<noteq> []" using False by (simp_all add: slugify_def)
  moreover have "last (slugify s) \<noteq> CHR ''-''" if "length (slug_text s) \<le> 63" using that slug_text_ok [of s] False by (simp add: slugify_def)
  ultimately show ?thesis unfolding host_label_def by (meson not_le)
qed (simp add: slugify_def)

lemma cut_slug_ends_in_a_hyphen:
  "slugify (replicate 62 (CHR ''a'') @ '' b'') = replicate 62 (CHR ''a'') @ ''-''"
  by code_simp

section \<open>Unpacking\<close>

text \<open>A name that cannot lead out of the folder in which an archive is unpacked.\<close>

definition stays_inside :: "string \<Rightarrow> bool" where
  "stays_inside p \<longleftrightarrow> CHR 0x00 \<notin> set p \<and> CHR 0x5C \<notin> set p \<and>
     (\<forall>seg \<in> set (split_on (CHR ''/'') p). seg \<noteq> [] \<and> seg \<noteq> ''.'' \<and> seg \<noteq> ''..'')"

lemma safe_path_stays_inside: "isSafeSkillPath p \<Longrightarrow> stays_inside p"
  by (auto simp: isSafeSkillPath_def stays_inside_def list_all_iff split: if_splits)

text \<open>The base64 of RFC 4648, with padding: what the API writes for a file that is not text.\<close>

fun sextets :: "string \<Rightarrow> nat list" where
  "sextets (a # b # c # s) =
     (let n = (of_char a * 256 + of_char b) * 256 + of_char c
      in [n div 262144, n div 4096 mod 64, n div 64 mod 64, n mod 64] @ sextets s)"
| "sextets [a, b] = (let n = of_char a * 256 + of_char b in [n div 1024, n div 16 mod 64, n mod 16 * 4])"
| "sextets [a] = (let n = of_char a in [n div 4, n mod 4 * 16])"
| "sextets [] = []"

definition base64_char :: "nat \<Rightarrow> char" where
  "base64_char v =
     (if v < 26 then char_of (v + 65) else if v < 52 then char_of (v + 71) else if v < 62 then char_of (v - 4)
      else if v = 62 then CHR ''+'' else CHR ''/'')"

definition base64_encode :: "string \<Rightarrow> string" where
  "base64_encode s = map base64_char (sextets s) @ replicate ((3 - length s mod 3) mod 3) (CHR ''='')"

lemma base64_chars:
  assumes "v < 64"
  shows "base64_val (base64_char v) = Some v" "base64_char v \<noteq> CHR ''=''"
    "base64_char v \<notin> {CHR 0x09, CHR 0x0A, CHR 0x0C, CHR 0x0D, CHR 0x20}"
proof -
  show v: "base64_val (base64_char v) = Some v" using assms by (auto simp: base64_char_def base64_val_def Let_def)
  have "base64_val c = None" if "c \<in> {CHR ''='', CHR 0x09, CHR 0x0A, CHR 0x0C, CHR 0x0D, CHR 0x20}" for c
    using that by (auto simp: base64_val_def)
  with v show "base64_char v \<noteq> CHR ''=''" "base64_char v \<notin> {CHR 0x09, CHR 0x0A, CHR 0x0C, CHR 0x0D, CHR 0x20}"
    by fastforce+
qed

lemma quotient_below:
  fixes a b c :: nat
  assumes "a < 256" "b < 256" "c < 256"
  shows "((a * 256 + b) * 256 + c) div 262144 < 64" "(a * 256 + b) div 1024 < 64" "a div 4 < 64"
proof -
  have two: "a * 256 + b < 65536" using assms by linarith
  then have "(a * 256 + b) * 256 + 256 \<le> 65536 * 256" using mult_le_mono1 [of "Suc (a * 256 + b)" 65536 256] by simp
  then have "(a * 256 + b) * 256 + c < 16777216" using assms(3) by linarith
  note two this
  then show "((a * 256 + b) * 256 + c) div 262144 < 64" "(a * 256 + b) div 1024 < 64" "a div 4 < 64"
    using assms(1) by (simp_all add: div_less_iff_less_mult del: distrib_right_numeral)
qed

lemma remainder_below: "n mod 16 * 4 < (64 :: nat)" "n mod 4 * 16 < (64 :: nat)"
  using mod_less_divisor [of 16 n] mod_less_divisor [of 4 n] by linarith+

lemma sextets_range: "v \<in> set (sextets s) \<Longrightarrow> v < 64"
proof (induction s rule: sextets.induct)
  case (1 a b c s)
  from 1 show ?case
    using quotient_below(1) [OF nat_of_char_less_256 nat_of_char_less_256 nat_of_char_less_256, of a b c]
    by (auto simp only: sextets.simps Let_def set_append set_simps Un_iff insert_iff empty_iff mod_less_divisor zero_less_numeral)
next
  case (2 a b)
  then show ?case
    using quotient_below(2) [OF nat_of_char_less_256 nat_of_char_less_256 nat_of_char_less_256, of a b]
    by (auto simp only: sextets.simps Let_def set_simps insert_iff empty_iff mod_less_divisor zero_less_numeral remainder_below)
next
  case (3 a)
  then show ?case
    using quotient_below(3) [OF nat_of_char_less_256 nat_of_char_less_256 nat_of_char_less_256, of a]
    by (auto simp only: sextets.simps Let_def set_simps insert_iff empty_iff remainder_below)
qed simp

lemma sextets_length: "length (sextets s) mod 4 = (if length s mod 3 = 0 then 0 else Suc (length s mod 3))"
proof (induction s rule: sextets.induct)
  case (1 a b c s)
  have "length (sextets (a # b # c # s)) = length (sextets s) + 4" by (simp add: Let_def)
  moreover have "length (a # b # c # s) = length s + 3" by simp
  ultimately show ?case using 1 by (metis mod_add_self2)
qed (simp_all add: Let_def)

lemma three_bytes:
  fixes a b c n :: nat
  assumes "b < 256" "c < 256" "n = (a * 256 + b) * 256 + c"
  shows "n div 65536 = a" "n div 256 mod 256 = b" "n mod 256 = c"
    and "((n div 262144 * 64 + n div 4096 mod 64) * 64 + n div 64 mod 64) * 64 + n mod 64 = n"
proof -
  have d: "n div 256 = a * 256 + b" and m: "n mod 256 = c"
    using div_mult_self3 [of 256 "a * 256 + b" c] assms(2) by (simp_all only: assms(3) mod_mult_self3 mod_less div_less)
  have "n div 65536 = n div 256 div 256" by (simp flip: div_mult2_eq)
  then show "n div 65536 = a" using assms(1) by (simp add: d)
  show "n div 256 mod 256 = b" using assms(1) by (simp add: d)
  show "n mod 256 = c" by (rule m)
  have "n div 262144 = n div 64 div 64 div 64" "n div 4096 = n div 64 div 64" by (simp_all flip: div_mult2_eq)
  then show "((n div 262144 * 64 + n div 4096 mod 64) * 64 + n div 64 mod 64) * 64 + n mod 64 = n"
    by (simp only: div_mult_mod_eq)
qed

lemma two_bytes:
  fixes a b n :: nat
  assumes "b < 256" "n = a * 256 + b"
  shows "((n div 1024 * 64 + n div 16 mod 64) * 64 + n mod 16 * 4) div 1024 = a"
    and "((n div 1024 * 64 + n div 16 mod 64) * 64 + n mod 16 * 4) div 4 mod 256 = b"
proof -
  have "n div 1024 = n div 16 div 64" by (simp flip: div_mult2_eq)
  then have "n div 1024 * 64 + n div 16 mod 64 = n div 16" by (simp only: div_mult_mod_eq)
  moreover have "n div 16 * 16 + n mod 16 = n" by (rule div_mult_mod_eq)
  ultimately have m: "(n div 1024 * 64 + n div 16 mod 64) * 64 + n mod 16 * 4 = n * 4" by (simp only:)
  have "n * 4 div 1024 = n * 4 div 4 div 256" by (simp only: div_mult2_eq [symmetric]) simp
  then have q: "n * 4 div 1024 = a" "n * 4 div 4 mod 256 = b" using assms by simp_all
  show "((n div 1024 * 64 + n div 16 mod 64) * 64 + n mod 16 * 4) div 1024 = a"
    "((n div 1024 * 64 + n div 16 mod 64) * 64 + n mod 16 * 4) div 4 mod 256 = b"
    unfolding m by (rule q)+
qed

lemma one_byte: "(a div 4 * 64 + a mod 4 * 16) div 16 = (a :: nat)"
proof -
  have "a div 4 * 64 + a mod 4 * 16 = a * 16" using div_mult_mod_eq [of a 4] by linarith
  then show ?thesis by simp
qed

lemma base64_groups_sextets: "base64_groups (sextets s) = s"
proof (induction s rule: sextets.induct)
  case (1 a b c s)
  have "of_char b < (256 :: nat)" "of_char c < (256 :: nat)" by (rule nat_of_char_less_256)+
  note t = three_bytes [OF this refl, of "of_char a"]
  show ?case using 1 by (simp only: sextets.simps base64_groups.simps Let_def append.simps t char_of_char)
next
  case (2 a b)
  have "of_char b < (256 :: nat)" by (rule nat_of_char_less_256)
  note t = two_bytes [OF this refl, of "of_char a"]
  show ?case by (simp only: sextets.simps base64_groups.simps Let_def t char_of_char)
next
  case (3 a)
  show ?case by (simp only: sextets.simps base64_groups.simps Let_def one_byte char_of_char)
qed simp

text \<open>\<open>atob\<close> reads it back.\<close>

lemma padding_removed:
  assumes "length (v @ ps) mod 4 = 0" "ps = [] \<or> ps = ''='' \<or> ps = ''==''" "\<not> endsWith v ''=''"
  shows "(if length (v @ ps) mod 4 \<noteq> 0 then v @ ps
      else if endsWith (v @ ps) ''=='' then take (length (v @ ps) - 2) (v @ ps)
      else if endsWith (v @ ps) ''='' then take (length (v @ ps) - 1) (v @ ps) else v @ ps) = v"
proof -
  have two: "\<not> endsWith v ''==''" using assms(3) by (metis append_Cons append_Nil append_assoc endsWith_iff)
  have one: "\<not> endsWith (v @ ''='') ''==''"
  proof
    assume "endsWith (v @ ''='') ''==''"
    then obtain t where "v @ ''='' = (t @ ''='') @ ''=''" by (auto simp: endsWith_iff)
    then have "v = t @ ''=''" by (rule append_same_eq [THEN iffD1])
    with assms(3) show False by (auto simp: endsWith_iff)
  qed
  have "endsWith (v @ ''='') ''=''" "endsWith (v @ ''=='') ''==''" by (auto simp: endsWith_iff)
  note ends = this two one
  from assms(2) show ?thesis
  proof (elim disjE)
    assume "ps = []"
    then show ?thesis using assms(3) two by simp
  next
    assume ps: "ps = ''=''"
    have "take (length (v @ ''='') - 1) (v @ ''='') = v" by simp
    then show ?thesis using assms(1) ends unfolding ps by (simp only: if_True if_False not_False_eq_True not_True_eq_False simp_thms)
  next
    assume ps: "ps = ''==''"
    have "take (length (v @ ''=='') - 2) (v @ ''=='') = v" by simp
    then show ?thesis using assms(1) ends unfolding ps by (simp only: if_True if_False not_False_eq_True not_True_eq_False simp_thms)
  qed
qed

lemma padding_chars:
  assumes "m < 3"
  shows "replicate ((3 - m) mod 3) c = [] \<or> replicate ((3 - m) mod 3) c = [c] \<or> replicate ((3 - m) mod 3) c = [c, c]"
proof -
  from assms consider "m = 0" | "m = 1" | "m = 2" by linarith
  then show ?thesis by cases (simp_all add: numeral_2_eq_2)
qed

lemma atob_encode: "atob (base64_encode s) = Inr s"
proof -
  let ?v = "map base64_char (sextets s)" and ?pad = "replicate ((3 - length s mod 3) mod 3) (CHR ''='')"
  let ?ws = "{CHR 0x09, CHR 0x0A, CHR 0x0C, CHR 0x0D, CHR 0x20}"
  have keep: "filter (\<lambda>c. c \<notin> ?ws) (base64_encode s) = ?v @ ?pad"
    unfolding base64_encode_def using base64_chars sextets_range by (intro filter_True) fastforce
  have "length s mod 3 < 3" by simp
  then consider "length s mod 3 = 0" | "length s mod 3 = 1" | "length s mod 3 = 2" by linarith
  then have len: "length (?v @ ?pad) mod 4 = 0"
    using sextets_length [of s] by cases (simp_all add: mod_simps mod_Suc mod_add_left_eq [symmetric])
  have no: "\<not> endsWith ?v ''=''"
  proof (cases "sextets s" rule: rev_cases)
    case (snoc ys y)
    then show ?thesis using base64_chars [of y] sextets_range [of y s] by (simp add: endsWith_char)
  qed (simp add: endsWith_char)
  have "?pad = [] \<or> ?pad = ''='' \<or> ?pad = ''==''"
    by (rule padding_chars) simp
  note u = padding_removed [OF len this no]
  have vals: "map base64_val ?v = map Some (sextets s)" using base64_chars sextets_range by simp
  have "length ?v mod 4 \<noteq> 1" using sextets_length [of s] by simp
  then show ?thesis
    unfolding atob_def Let_def keep u vals by (simp add: base64_groups_sextets comp_def)
qed

text \<open>
  What the API promises of a payload: it carries the bytes \<open>d\<close> of the file, in base64 where it says
  so and as text otherwise.
\<close>

definition carries :: "SiteFilePayload \<Rightarrow> string \<Rightarrow> bool" where
  "carries f d \<longleftrightarrow>
     (if sf_encoding f = Some ''base64'' then sf_content f = Some (base64_encode d)
      else sf_content f = Some d \<or> sf_content f = None \<and> d = [])"

lemma payload_carries: "carries f d \<Longrightarrow> payload_data f = Inr d"
  by (auto simp: carries_def payload_data_def atob_encode split: if_splits)

text \<open>The files with a path, and their bytes.\<close>

definition named_files :: "SiteFilePayload list \<Rightarrow> string list \<Rightarrow> (string \<times> string) list" where
  "named_files fs ds = List.map_filter (\<lambda>(f, d). case sf_path f of Some p \<Rightarrow> if p = [] then None else Some (p, d) | None \<Rightarrow> None) (zip fs ds)"

lemma decode_loop_carried:
  "list_all2 carries fs ds \<Longrightarrow>
     decode_loop prefix fs =
       Inr (map (\<lambda>(p, d). \<lparr>ze_path = prefix @ p, ze_data = d\<rparr>) (filter (isSafeSkillPath \<circ> fst) (named_files fs ds)),
         filter (\<lambda>p. \<not> isSafeSkillPath p) (map fst (named_files fs ds)))"
proof (induction rule: list_all2_induct)
  case (Cons f fs d ds)
  then show ?case
    by (cases "sf_path f") (auto simp: named_files_def List.map_filter_simps payload_carries)
qed (simp add: named_files_def List.map_filter_simps)

lemma compose_loop_ok:
  assumes "compose_loop extras seen fs = (gs, None)" "map dropped_path fs = seen" "distinct seen" "\<forall>p \<in> set seen. isSafeSkillPath p"
  shows "(\<exists>hs. gs = fs @ hs) \<and> distinct (map dropped_path gs) \<and> (\<forall>p \<in> dropped_path ` set gs. isSafeSkillPath p)"
  using assms
proof (induction extras arbitrary: seen fs)
  case (Cons e es)
  let ?p = "js_trim (af_path e)"
  show ?case
  proof (cases "?p = []")
    case True
    with Cons show ?thesis by simp
  next
    case False
    with Cons.prems have ok: "isSafeSkillPath ?p" "?p \<notin> set seen" by (auto simp: Let_def split: if_splits)
    obtain f where "compose_loop es (seen @ [?p]) (fs @ [\<lparr>dropped_path = ?p, dropped_file = f\<rparr>]) = (gs, None)"
      using Cons.prems(1) False by (auto simp: Let_def split: if_splits)
    from Cons.IH [OF this] ok Cons.prems(2-4) show ?thesis by auto
  qed
qed auto

lemma skill_md_is_safe: "isSafeSkillPath ''SKILL.md''"
  by (simp add: isSafeSkillPath_def js_length_def Let_def)

section \<open>Properties\<close>

text \<open>
  C26. A download stays in its folder and is complete. Of files whose payloads carry their bytes, those
  without a path (or with an empty one) are left out; of the others, exactly those with a safe path
  become entries of the archive, in order, below the prefix and with exactly the bytes of the file,
  whether they came as text or as base64, and the other paths are reported. No entry has, below the
  prefix, a segment \<open>..\<close>, a backslash or a NUL. If names are below 64 KiB, the archive below 4 GiB and
  the entries fewer than 65536, a reader of the archive finds exactly these entries.
\<close>

theorem downloads_stay_in_their_folder:
  assumes "list_all2 carries fs ds"
  shows "\<exists>entries skipped. decodeSiteFiles fs prefix = Inr (entries, skipped) \<and>
    map (\<lambda>e. (ze_path e, ze_data e)) entries =
      map (\<lambda>(p, d). (prefix @ p, d)) (filter (isSafeSkillPath \<circ> fst) (named_files fs ds)) \<and>
    skipped = filter (\<lambda>p. \<not> isSafeSkillPath p) (map fst (named_files fs ds)) \<and>
    (\<forall>e \<in> set entries. \<exists>p. ze_path e = prefix @ p \<and> stays_inside p) \<and>
    ((\<forall>e \<in> set entries. length (ze_path e) < 65536) \<longrightarrow> length (buildZip entries) < 4294967296 \<longrightarrow> length entries < 65536 \<longrightarrow>
     unzip (buildZip entries) = Some entries)"
proof -
  let ?es = "map (\<lambda>(p, d). \<lparr>ze_path = prefix @ p, ze_data = d\<rparr>) (filter (isSafeSkillPath \<circ> fst) (named_files fs ds))"
  have "decodeSiteFiles fs prefix = Inr (?es, filter (\<lambda>p. \<not> isSafeSkillPath p) (map fst (named_files fs ds)))"
    unfolding decodeSiteFiles_def by (rule decode_loop_carried [OF assms])
  moreover have "\<forall>e \<in> set ?es. \<exists>p. ze_path e = prefix @ p \<and> stays_inside p"
    using safe_path_stays_inside by auto
  moreover have "map (\<lambda>e. (ze_path e, ze_data e)) ?es = map (\<lambda>(p, d). (prefix @ p, d)) (filter (isSafeSkillPath \<circ> fst) (named_files fs ds))"
    by auto
  ultimately show ?thesis using unzip_buildZip [of ?es] by (intro exI conjI) (assumption | simp)+
qed

definition sample_download :: "SiteFilePayload list" where
  "sample_download =
     [\<lparr>sf_path = Some ''index.html'', sf_content = Some ''aGk='', sf_encoding = Some ''base64''\<rparr>,
      \<lparr>sf_path = Some ''../../etc/passwd'', sf_content = Some ''x'', sf_encoding = Some ''utf8''\<rparr>,
      \<lparr>sf_path = Some ''api..reference.md'', sf_content = Some ''ref'', sf_encoding = None\<rparr>]"

theorem downloads_stay_in_their_folder_witness:
  "\<exists>entries. decodeSiteFiles sample_download ''docs/'' = Inr (entries, [''../../etc/passwd'']) \<and>
     map (\<lambda>e. (ze_path e, ze_data e)) entries = [(''docs/index.html'', ''hi''), (''docs/api..reference.md'', ''ref'')]"
proof -
  have "base64_encode ''hi'' = ''aGk=''" by (simp add: base64_encode_def base64_char_def Let_def char_of_eq_iff)
  then have "list_all2 carries sample_download [''hi'', ''x'', ''ref'']" by (simp add: sample_download_def carries_def)
  from downloads_stay_in_their_folder [OF this, of "''docs/''"] obtain entries skipped where
    d: "decodeSiteFiles sample_download ''docs/'' = Inr (entries, skipped)"
    and e: "map (\<lambda>e. (ze_path e, ze_data e)) entries =
       map (\<lambda>(p, d). (''docs/'' @ p, d)) (filter (isSafeSkillPath \<circ> fst) (named_files sample_download [''hi'', ''x'', ''ref'']))"
    and s: "skipped = filter (\<lambda>p. \<not> isSafeSkillPath p) (map fst (named_files sample_download [''hi'', ''x'', ''ref'']))" by blast
  have n: "named_files sample_download [''hi'', ''x'', ''ref''] = [(''index.html'', ''hi''), (''../../etc/passwd'', ''x''), (''api..reference.md'', ''ref'')]"
    by (simp add: sample_download_def named_files_def List.map_filter_simps)
  have "isSafeSkillPath ''index.html''" "\<not> isSafeSkillPath ''../../etc/passwd''" "isSafeSkillPath ''api..reference.md''"
    by (simp_all add: isSafeSkillPath_def js_length_def Let_def)
  with d e s show ?thesis unfolding n by auto
qed

text \<open>
  What the editor composes can be uploaded. If \<open>composeSkillFiles\<close> reports no error, the first
  file is the \<open>SKILL.md\<close>, the paths are distinct and safe, and the check before the upload has
  nothing to object but the number and the size of the files.
\<close>

theorem authored_skill_passes_the_check:
  assumes "composeSkillFiles skillMd extras = (fs, None)"
  shows "dropped_path (hd fs) = ''SKILL.md'' \<and> distinct (map dropped_path fs) \<and>
    (\<forall>p \<in> dropped_path ` set fs. isSafeSkillPath p) \<and>
    (precheckSkillFolder fs = None \<longleftrightarrow>
      length fs \<le> MAX_SKILL_FILES \<and> sum_list (map (\<lambda>f. file_size (dropped_file f)) fs) \<le> MAX_SKILL_BYTES)"
proof -
  let ?md = "\<lparr>dropped_path = ''SKILL.md'', dropped_file = new_File skillMd ''SKILL.md'' ''text/markdown''\<rparr>"
  have "compose_loop extras [''SKILL.md''] [?md] = (fs, None)" using assms by (simp add: composeSkillFiles_def split: if_splits)
  then have ok: "(\<exists>hs. fs = [?md] @ hs) \<and> distinct (map dropped_path fs) \<and> (\<forall>p \<in> dropped_path ` set fs. isSafeSkillPath p)"
    by (rule compose_loop_ok) (simp_all add: skill_md_is_safe)
  then obtain hs where fs: "fs = ?md # hs" by auto
  then have "hasRootSkillMD fs" "dropped_path (hd fs) = ''SKILL.md''" "fs \<noteq> []" by (simp_all add: hasRootSkillMD_def)
  moreover from this have "precheckSkillFolder fs = None \<longleftrightarrow>
      length fs \<le> MAX_SKILL_FILES \<and> sum_list (map (\<lambda>f. file_size (dropped_file f)) fs) \<le> MAX_SKILL_BYTES"
    unfolding precheckSkillFolder_def by (simp only: if_False simp_thms not_less option.distinct split: if_splits) auto
  ultimately show ?thesis using ok by blast
qed

theorem authored_skill_passes_the_check_witness:
  "\<exists>fs. composeSkillFiles ''# Hi'' [\<lparr>af_path = '' refs/a.md '', af_content = ''a''\<rparr>] = (fs, None) \<and>
     map dropped_path fs = [''SKILL.md'', ''refs/a.md''] \<and> distinct (map dropped_path fs) \<and> precheckSkillFolder fs = None"
proof -
  have "isSafeSkillPath ''refs/a.md''" by (simp add: isSafeSkillPath_def js_length_def Let_def)
  moreover have "js_trim '' refs/a.md '' = ''refs/a.md''" "js_trim ''# Hi'' = ''# Hi''" by code_simp+
  moreover let ?fs = "[\<lparr>dropped_path = ''SKILL.md'', dropped_file = new_File ''# Hi'' ''SKILL.md'' ''text/markdown''\<rparr>,
      \<lparr>dropped_path = ''refs/a.md'', dropped_file = new_File ''a'' ''a.md'' ''text/plain''\<rparr>]"
  have "last_segment (CHR ''/'') ''refs/a.md'' = ''a.md''" by code_simp
  ultimately have c: "composeSkillFiles ''# Hi'' [\<lparr>af_path = '' refs/a.md '', af_content = ''a''\<rparr>] = (?fs, None)"
    by (simp add: composeSkillFiles_def Let_def)
  have "sum_list (map (\<lambda>f. file_size (dropped_file f)) ?fs) \<le> MAX_SKILL_BYTES" "length ?fs \<le> MAX_SKILL_FILES"
    by (simp_all add: new_File_def MAX_SKILL_BYTES_def MAX_SKILL_FILES_def)
  with authored_skill_passes_the_check [OF c] c show ?thesis by auto
qed

end
