(* ===== verification/Dash_Plans.thy ===== *)
theory Dash_Plans
  imports Dash_Actions Query Embed
begin

text \<open>
  Plans and embeds in the dashboard: \<open>lib/billing.ts\<close>, \<open>lib/billing-server.ts\<close> and \<open>lib/embed.ts\<close>.
  The plans are ordered by the ladder; the lemmas show that the tables, the calls to action and the
  limits agree with that order, and that the embed link which the dashboard builds is read by the
  edge as it is meant.
\<close>

section \<open>The ladder (\<open>billing.ts\<close>)\<close>

datatype PlanTier = FreeTier | ProTier | BusinessTier | EnterpriseTier

datatype DisplayTier = Plan PlanTier | ContactSales

fun tier_text :: "PlanTier \<Rightarrow> string" where
  "tier_text FreeTier = ''free''"
| "tier_text ProTier = ''pro''"
| "tier_text BusinessTier = ''business''"
| "tier_text EnterpriseTier = ''enterprise''"

fun TIER_LABEL :: "DisplayTier \<Rightarrow> string" where
  "TIER_LABEL (Plan FreeTier) = ''Free''"
| "TIER_LABEL (Plan ProTier) = ''Pro''"
| "TIER_LABEL (Plan BusinessTier) = ''Business''"
| "TIER_LABEL (Plan EnterpriseTier) = ''Enterprise''"
| "TIER_LABEL ContactSales = ''Enterprise+''"

fun nextTier :: "PlanTier \<Rightarrow> DisplayTier" where
  "nextTier FreeTier = Plan ProTier"
| "nextTier ProTier = Plan BusinessTier"
| "nextTier BusinessTier = Plan EnterpriseTier"
| "nextTier EnterpriseTier = ContactSales"

definition isCheckoutTier :: "string option \<Rightarrow> bool" where
  "isCheckoutTier tier = (tier = Some ''pro'' \<or> tier = Some ''business'')"

record PlanFeatureRow =
  row_label :: string
  row_value :: "PlanTier \<Rightarrow> string"

definition plan_row :: "string \<Rightarrow> string \<Rightarrow> string \<Rightarrow> string \<Rightarrow> string \<Rightarrow> PlanFeatureRow" where
  "plan_row label f p b e =
     \<lparr>row_label = label, row_value = case_PlanTier f p b e\<rparr>"

definition PLAN_MATRIX :: "PlanFeatureRow list" where
  "PLAN_MATRIX =
    [
     plan_row (''Sites / workspace'')
       (''Up to 10'') (''Up to 100'') (''Unlimited'') (''Unlimited''),
     plan_row (''Skills / workspace'')
       (''Up to 10'') (''Unlimited'') (''Unlimited'') (''Unlimited''),
     plan_row (''Team members'')
       (''Unlimited'') (''Unlimited'') (''Unlimited'') (''Unlimited''),
     plan_row (''Deploy via dashboard, CLI & MCP'')
       (''Included'') (''Included'') (''Included'') (''Included''),
     plan_row (''Sharing tiers'')
       (''Public '' @ [CHR 0xC2, CHR 0xB7] @ '' org '' @ [CHR 0xC2, CHR 0xB7] @ '' password '' @ [CHR 0xC2, CHR 0xB7] @ '' allowlist'') (''All tiers'') (''All tiers'') (''All tiers''),
     plan_row (''Custom domains'')
       (''Not included'') (''Included'') (''Included'') (''Included''),
     plan_row (''Version history & instant rollback'')
       (''Included'') (''Included'') (''Included'') (''Included''),
     plan_row (''SSO / SAML & SCIM'')
       (''Not included'') (''Not included'') (''Not included'') (''Included''),
     plan_row (''Audit logs & advanced RBAC'')
       (''Not included'') (''Not included'') (''Not included'') (''Included''),
     plan_row (''Support'')
       (''Community'') (''Priority email'') (''Priority email'') (''Priority + 99.9% SLA & DPA''),
     plan_row (''Price'')
       (''$0'') (''$25 / mo'') (''$150 / mo'') (''Custom'')]"

definition MATRIX_TIERS :: "PlanTier list" where
  "MATRIX_TIERS = [FreeTier, ProTier, BusinessTier, EnterpriseTier]"

definition customDomainsEntitled :: "PlanTier \<Rightarrow> bool" where
  "customDomainsEntitled tier = (tier \<noteq> FreeTier)"

definition embedBadgeRemovable :: "PlanTier \<Rightarrow> bool" where
  "embedBadgeRemovable tier = (tier \<noteq> FreeTier)"

fun SITE_LIMIT :: "PlanTier \<Rightarrow> nat option" where
  "SITE_LIMIT FreeTier = Some 10"
| "SITE_LIMIT ProTier = Some 100"
| "SITE_LIMIT BusinessTier = None"
| "SITE_LIMIT EnterpriseTier = None"

definition SALES_URL :: string where
  "SALES_URL = ''https://forms.gle/vDvNzdfrKRvtGYPG8''"

definition TIER_ORDER :: "PlanTier list" where
  "TIER_ORDER = [FreeTier, ProTier, BusinessTier, EnterpriseTier]"

fun index_of :: "'a list \<Rightarrow> 'a \<Rightarrow> int" where
  "index_of [] x = - 1"
| "index_of (y # ys) x = (if x = y then 0 else let i = index_of ys x in if i < 0 then - 1 else i + 1)"

datatype PlanAction = CurrentPlan | UpgradePlan | ContactPlan | DowngradePlan

definition planAction :: "PlanTier \<Rightarrow> PlanTier \<Rightarrow> PlanAction" where
  "planAction tier current =
     (if tier = current then CurrentPlan
      else if \<not> index_of TIER_ORDER current < index_of TIER_ORDER tier then DowngradePlan
      else if tier = EnterpriseTier then ContactPlan else UpgradePlan)"

section \<open>The state of the account (\<open>billing-server.ts\<close>)\<close>

definition isRestricted :: "json \<Rightarrow> bool" where
  "isRestricted status = (status \<in> {JStr ''over_limit'', JStr ''past_due'', JStr ''suspended''})"

record OrgBillingState =
  ob_orgStatus :: json
  ob_readOnly :: bool

definition loadOrgBillingState :: "runtime \<Rightarrow> 'n platform \<Rightarrow> 'n api_world \<Rightarrow> OrgBillingState \<times> 'n api_world" where
  "loadOrgBillingState rt pf w =
     (case api_getBilling rt pf w of
        (Inl e, w1) \<Rightarrow> (\<lparr>ob_orgStatus = JStr ''active'', ob_readOnly = False\<rparr>, w1)
      | (Inr plan, w1) \<Rightarrow>
          (case member plan ''org_status'' of
             Inl e \<Rightarrow> (\<lparr>ob_orgStatus = JStr ''active'', ob_readOnly = False\<rparr>, w1)
           | Inr s \<Rightarrow>
               (let orgStatus = (case present s of Some j \<Rightarrow> j | None \<Rightarrow> JStr ''active'')
                in (\<lparr>ob_orgStatus = orgStatus, ob_readOnly = isRestricted orgStatus\<rparr>, w1))))"

section \<open>Embeds (\<open>embed.ts\<close>)\<close>

definition DEFAULT_EMBED_HEIGHT :: int where
  "DEFAULT_EMBED_HEIGHT = 600"

definition DEFAULT_EMBED_WIDTH :: string where
  "DEFAULT_EMBED_WIDTH = ''100%''"

definition buildEmbedUrl :: "runtime \<Rightarrow> string \<Rightarrow> bool \<Rightarrow> string" where
  "buildEmbedUrl rt liveUrl removeBadge =
     (case new_url rt liveUrl None of
        Some u \<Rightarrow>
          (let u = params_set u ''embed'' ''1'';
               u = (if removeBadge then params_set u ''badge'' ''0'' else u)
           in url_href u)
      | None \<Rightarrow>
          (let sep = (if str_includes liveUrl ''?'' then ''&'' else ''?'')
           in liveUrl @ sep @ ''embed=1'' @ (if removeBadge then ''&badge=0'' else [])))"

text \<open>\<open>Number.parseInt(s, 10)\<close>, with \<open>NaN\<close> as \<^const>\<open>None\<close>.\<close>

definition dash_parseInt :: "string \<Rightarrow> int option" where
  "dash_parseInt s =
     (let t = trimStart s;
          neg = startsWith t ''-'';
          u = (if neg \<or> startsWith t ''+'' then drop 1 t else t);
          ds = takeWhile (\<lambda>c. c \<in> set ''0123456789'') u;
          n = foldl (\<lambda>acc c. acc * 10 + (int (of_char c) - 48)) 0 ds
      in if ds = [] then None else Some (if neg then - n else n))"

definition escape_title :: "string \<Rightarrow> string" where
  "escape_title title =
     replace_all_char (CHR ''<'') ''&lt;'' (replace_all_char (CHR 0x22) ''&quot;'' (replace_all_char (CHR ''&'') ''&amp;'' title))"

definition buildEmbedSnippet :: "string \<Rightarrow> string \<Rightarrow> string \<Rightarrow> string \<Rightarrow> string" where
  \<open>buildEmbedSnippet embedUrl width height title =
     (let w = (if js_trim width = [] then DEFAULT_EMBED_WIDTH else js_trim width);
          h = int_to_string (case dash_parseInt height of Some n \<Rightarrow> if n = 0 then DEFAULT_EMBED_HEIGHT else n | None \<Rightarrow> DEFAULT_EMBED_HEIGHT)
      in ''<iframe src="'' @ embedUrl @ ''" width="'' @ w @ ''" height="'' @ h @ ''" '' @
         ''style="border:0;border-radius:8px;max-width:100%" loading="lazy" '' @
         ''title="'' @ escape_title title @ ''"></iframe>'')\<close>

section \<open>The order of the plans\<close>

fun tier_rank :: "PlanTier \<Rightarrow> nat" where
  "tier_rank FreeTier = 0"
| "tier_rank ProTier = 1"
| "tier_rank BusinessTier = 2"
| "tier_rank EnterpriseTier = 3"

lemma tier_rank_inj [simp]: "tier_rank a = tier_rank b \<longleftrightarrow> a = b"
  by (cases a; cases b) simp_all

instantiation PlanTier :: linorder
begin

definition less_eq_PlanTier :: "PlanTier \<Rightarrow> PlanTier \<Rightarrow> bool" where
  "a \<le> b \<longleftrightarrow> tier_rank a \<le> tier_rank b"

definition less_PlanTier :: "PlanTier \<Rightarrow> PlanTier \<Rightarrow> bool" where
  "a < b \<longleftrightarrow> tier_rank a < tier_rank b"

instance
  by standard (auto simp: less_eq_PlanTier_def less_PlanTier_def)

end

lemmas tier_order = less_eq_PlanTier_def less_PlanTier_def

lemma all_tiers: "(\<forall>t. P t) \<longleftrightarrow> P FreeTier \<and> P ProTier \<and> P BusinessTier \<and> P EnterpriseTier"
  using PlanTier.exhaust by metis

text \<open>Two numeric limits, where \<^const>\<open>None\<close> is no limit.\<close>

fun limit_le :: "nat option \<Rightarrow> nat option \<Rightarrow> bool" where
  "limit_le _ None = True"
| "limit_le None (Some n) = False"
| "limit_le (Some m) (Some n) = (m \<le> n)"

definition limit_text :: "nat option \<Rightarrow> string" where
  "limit_text l = (case l of None \<Rightarrow> ''Unlimited'' | Some n \<Rightarrow> ''Up to '' @ nat_to_string n)"

definition matrix_row :: "string \<Rightarrow> PlanFeatureRow option" where
  "matrix_row label = find (\<lambda>r. row_label r = label) PLAN_MATRIX"

lemma matrix_rows:
  "map_option row_value (matrix_row ''Sites / workspace'') = Some (limit_text \<circ> SITE_LIMIT)"
  "map_option row_value (matrix_row ''Custom domains'') = Some (\<lambda>t. if customDomainsEntitled t then ''Included'' else ''Not included'')"
proof -
  have "limit_text (Some 10) = ''Up to 10''" "limit_text (Some 100) = ''Up to 100''" "limit_text None = ''Unlimited''" by code_simp+
  then show "map_option row_value (matrix_row ''Sites / workspace'') = Some (limit_text \<circ> SITE_LIMIT)"
    by (auto simp: matrix_row_def PLAN_MATRIX_def plan_row_def fun_eq_iff all_tiers)
  show "map_option row_value (matrix_row ''Custom domains'') = Some (\<lambda>t. if customDomainsEntitled t then ''Included'' else ''Not included'')"
    by (auto simp: matrix_row_def PLAN_MATRIX_def plan_row_def fun_eq_iff all_tiers customDomainsEntitled_def)
qed

lemma planAction_order:
  "planAction t c = (if c < t then if isCheckoutTier (Some (tier_text t)) then UpgradePlan else ContactPlan
                     else if t < c then DowngradePlan else CurrentPlan)"
  by (cases t; cases c) (simp_all add: planAction_def TIER_ORDER_def isCheckoutTier_def tier_order Let_def)

lemma params_has_get: "params_has u k \<longleftrightarrow> params_get u k \<noteq> None"
  by (simp add: params_has_def params_get_def map_of_eq_None_iff)

section \<open>Properties\<close>

text \<open>
  The tables of the plans agree. With the plans ordered by the ladder: the next tier is the
  least greater one, and only the top has none; the call to action of a plan follows the order, and
  an upgrade is offered exactly for the greater plans that have a checkout; greater plans have
  greater site limits; and the rows of the matrix say what the limits and entitlements are.
\<close>

theorem plan_tables_agree:
  "(case nextTier t of Plan u \<Rightarrow> t < u \<and> (\<forall>v. t < v \<longrightarrow> u \<le> v) | ContactSales \<Rightarrow> \<forall>v. v \<le> t) \<and>
   planAction t c = (if c < t then if isCheckoutTier (Some (tier_text t)) then UpgradePlan else ContactPlan
                     else if t < c then DowngradePlan else CurrentPlan) \<and>
   (c \<le> t \<longrightarrow> limit_le (SITE_LIMIT c) (SITE_LIMIT t)) \<and>
   map_option row_value (matrix_row ''Sites / workspace'') = Some (limit_text \<circ> SITE_LIMIT) \<and>
   map_option row_value (matrix_row ''Custom domains'') = Some (\<lambda>t. if customDomainsEntitled t then ''Included'' else ''Not included'')"
proof (intro conjI planAction_order matrix_rows)
  show "case nextTier t of Plan u \<Rightarrow> t < u \<and> (\<forall>v. t < v \<longrightarrow> u \<le> v) | ContactSales \<Rightarrow> \<forall>v. v \<le> t"
    by (cases t) (simp_all add: all_tiers tier_order)
  show "c \<le> t \<longrightarrow> limit_le (SITE_LIMIT c) (SITE_LIMIT t)" by (cases c; cases t) (simp_all add: tier_order)
qed

theorem plan_tables_agree_witness:
  "limit_le (SITE_LIMIT FreeTier) (SITE_LIMIT ProTier) \<and> planAction ProTier FreeTier = UpgradePlan \<and> planAction FreeTier ProTier = DowngradePlan"
proof -
  have "FreeTier \<le> ProTier" by (simp add: tier_order)
  with plan_tables_agree [of ProTier FreeTier] show ?thesis
    by (simp add: planAction_def TIER_ORDER_def Let_def)
qed

lemma tier_text_facts:
  "norm_tier (Some (tier_text t)) = Some (tier_text t)" "tier_text t \<noteq> []"
  "badgeRemovable (Some (tier_text t)) = embedBadgeRemovable t"
proof -
  have "norm_tier (Some ''free'') = Some ''free''" "norm_tier (Some ''pro'') = Some ''pro''"
    "norm_tier (Some ''business'') = Some ''business''" "norm_tier (Some ''enterprise'') = Some ''enterprise''" by code_simp+
  then show n: "norm_tier (Some (tier_text t)) = Some (tier_text t)" by (cases t) simp_all
  show "tier_text t \<noteq> []" by (cases t) simp_all
  show "badgeRemovable (Some (tier_text t)) = embedBadgeRemovable t"
    using n by (cases t) (simp_all add: badgeRemovable_def BADGE_REMOVABLE_TIERS_def embedBadgeRemovable_def)
qed

text \<open>
  The edge reads the embed link. For a live URL that parses, the link which the dashboard builds
  keeps host and path, asks the edge for the embed view, and, when the badge is to be removed, the
  edge shows it exactly on the plans that the dashboard says cannot remove it.
\<close>

theorem embed_link_reaches_the_edge:
  assumes "new_url rt liveUrl None = Some u"
  shows "\<exists>v. buildEmbedUrl rt liveUrl removeBadge = url_href v \<and>
    url_protocol v = url_protocol u \<and> url_host v = url_host u \<and> url_pathname v = url_pathname u \<and>
    isEmbedRequested v \<and>
    (\<forall>route t. plan_tier route = Some (tier_text t) \<longrightarrow> removeBadge \<longrightarrow>
       (shouldShowEmbedBadge route v \<longleftrightarrow> \<not> embedBadgeRemovable t))"
proof -
  let ?v = "params_set u ''embed'' ''1''"
  let ?w = "if removeBadge then params_set ?v ''badge'' ''0'' else ?v"
  have ok: "utf8_valid ''embed''" "utf8_valid ''1''" "utf8_valid ''badge''" "utf8_valid ''0''" by code_simp+
  have e: "params_get ?w ''embed'' \<noteq> None"
    using params.get_put_two(1) [of "''embed''" "''1''" "''badge''" "''0''" u] params.get_put [of "''embed''" "''1''" u "''embed''"] ok
    by simp
  have b: "removeBadge \<Longrightarrow> params_get ?w ''badge'' = Some ''0''"
    using params.get_put_two(2) [of "''embed''" "''1''" "''badge''" "''0''" u] ok by simp
  have zero: "toLowerCase (js_trim ''0'') = ''0''" by code_simp
  have "shouldShowEmbedBadge route ?w \<longleftrightarrow> \<not> embedBadgeRemovable t" if "plan_tier route = Some (tier_text t)" "removeBadge" for route t
    using that b tier_text_facts [of t] zero
    by (simp add: shouldShowEmbedBadge_def badgeSuppressed_def EMBED_BADGE_PARAM_def)
  moreover have "isEmbedRequested ?w"
    using e by (simp add: isEmbedRequested_def EMBED_QUERY_PARAM_def params_has_get)
  moreover have "buildEmbedUrl rt liveUrl removeBadge = url_href ?w" using assms by (simp add: buildEmbedUrl_def Let_def)
  ultimately show ?thesis by (intro exI [of _ ?w]) auto
qed

theorem embed_link_reaches_the_edge_witness:
  "\<exists>v. buildEmbedUrl sample_runtime ''https://docs.dropway.site/guide'' True = url_href v \<and> url_host v = ''docs.dropway.site'' \<and> isEmbedRequested v"
proof -
  have u: "new_url sample_runtime ''https://docs.dropway.site/guide'' None =
    Some \<lparr>url_protocol = ''https:'', url_host = ''docs.dropway.site'', url_pathname = ''/guide'', url_search = [], url_hash = []\<rparr>"
    by (simp add: sample_runtime_def sample_new_url_def sample_parse_url_def Let_def)
  from embed_link_reaches_the_edge [OF u, of True] show ?thesis by auto
qed

end
