(* ===== verification/Dash_Env.thy ===== *)
theory Dash_Env
  imports Dash_Authz
begin

text \<open>
  The environment and the telemetry of the dashboard: \<open>lib/env.ts\<close>, \<open>lib/analytics-shared.ts\<close>,
  \<open>lib/analytics-server.ts\<close> and \<open>lib/db-capacity.ts\<close>. The environment is a map of variables and
  says whether the code runs in a browser, where the server's variables must not be read. What is
  handed to PostHog is a list of captures; a capture that fails is swallowed by the code, so only
  the attempt is recorded. Properties that are \<open>undefined\<close> are left out.
\<close>

section \<open>The environment\<close>

record server_env =
  se_vars :: "string \<Rightarrow> string option"
  se_window :: bool

definition requireServer :: "server_env \<Rightarrow> 'a \<Rightarrow> 'a result" where
  "requireServer env v =
     (if se_window env then Inl (JsError ''Server-only environment variable accessed on the client'') else Inr v)"

text \<open>\<open>a ?? b\<close> on variables, and \<open>v || undefined\<close>.\<close>

definition or_var :: "string option \<Rightarrow> string option \<Rightarrow> string option" where
  "or_var a b = (case a of Some v \<Rightarrow> Some v | None \<Rightarrow> b)"

definition or_text :: "string option \<Rightarrow> string \<Rightarrow> string" where
  "or_text a d = (case a of Some v \<Rightarrow> v | None \<Rightarrow> d)"

definition set_var :: "string option \<Rightarrow> string option" where
  "set_var v = (case v of Some s \<Rightarrow> if s = [] then None else Some s | None \<Rightarrow> None)"

text \<open>A server variable that must be set.\<close>

definition required :: "server_env \<Rightarrow> string option \<Rightarrow> string \<Rightarrow> string result" where
  "required env v message =
     (case requireServer env () of
        Inl e \<Rightarrow> Inl e
      | Inr u \<Rightarrow> (case set_var v of None \<Rightarrow> Inl (JsError message) | Some s \<Rightarrow> Inr s))"

definition databaseUrl :: "server_env \<Rightarrow> string result" where
  "databaseUrl env =
     required env (or_var (se_vars env ''BETTER_AUTH_DATABASE_URL'') (se_vars env ''DATABASE_URL''))
       ''BETTER_AUTH_DATABASE_URL / DATABASE_URL is not set''"

definition betterAuthSecret :: "server_env \<Rightarrow> string result" where
  "betterAuthSecret env = required env (se_vars env ''BETTER_AUTH_SECRET'') ''BETTER_AUTH_SECRET is not set''"

definition betterAuthUrl :: "server_env \<Rightarrow> string" where
  "betterAuthUrl env =
     or_text (or_var (se_vars env ''BETTER_AUTH_URL'') (se_vars env ''NEXT_PUBLIC_BETTER_AUTH_URL'')) ''http://localhost:3000''"

definition landingUrl :: "server_env \<Rightarrow> string option" where
  "landingUrl env = set_var (se_vars env ''NEXT_PUBLIC_LANDING_URL'')"

definition jwtIssuer :: "server_env \<Rightarrow> string result" where
  "jwtIssuer env = requireServer env (or_text (se_vars env ''JWT_ISSUER'') (betterAuthUrl env))"

definition jwtAudience :: "server_env \<Rightarrow> string result" where
  "jwtAudience env = requireServer env (or_text (se_vars env ''JWT_AUDIENCE'') ''http://localhost:8080'')"

definition requireEmailVerification :: "server_env \<Rightarrow> bool result" where
  "requireEmailVerification env = requireServer env (se_vars env ''REQUIRE_EMAIL_VERIFICATION'' = Some ''true'')"

definition mailSmtpUrl :: "server_env \<Rightarrow> string option result" where
  "mailSmtpUrl env = requireServer env (set_var (se_vars env ''MAIL_SMTP_URL''))"

definition mailFrom :: "server_env \<Rightarrow> string result" where
  "mailFrom env = requireServer env (or_text (se_vars env ''MAIL_FROM'') ''Dropway <no-reply@localhost>'')"

definition supportEmail :: "server_env \<Rightarrow> string option result" where
  "supportEmail env = requireServer env (set_var (se_vars env ''SUPPORT_EMAIL''))"

definition googleClientId :: "server_env \<Rightarrow> string result" where
  "googleClientId env = requireServer env (or_text (se_vars env ''GOOGLE_CLIENT_ID'') [])"

definition googleClientSecret :: "server_env \<Rightarrow> string result" where
  "googleClientSecret env = requireServer env (or_text (se_vars env ''GOOGLE_CLIENT_SECRET'') [])"

definition appEnvironment :: "server_env \<Rightarrow> string" where
  "appEnvironment env = env_or (se_vars env ''ENVIRONMENT'') (env_or (se_vars env ''NODE_ENV'') ''development'')"

definition posthogClientKey :: "server_env \<Rightarrow> string option" where
  "posthogClientKey env = set_var (se_vars env ''NEXT_PUBLIC_POSTHOG_KEY'')"

definition posthogServerKey :: "server_env \<Rightarrow> string option result" where
  "posthogServerKey env =
     requireServer env (or_var (set_var (se_vars env ''POSTHOG_KEY'')) (set_var (se_vars env ''NEXT_PUBLIC_POSTHOG_KEY'')))"

definition posthogHost :: "server_env \<Rightarrow> string" where
  "posthogHost env = env_or (se_vars env ''NEXT_PUBLIC_POSTHOG_HOST'') ''https://us.posthog.com''"

definition API_URL :: "server_env \<Rightarrow> string" where
  "API_URL env = or_text (or_var (se_vars env ''API_URL'') (se_vars env ''NEXT_PUBLIC_API_URL'')) ''http://localhost:8080''"

definition MCP_URL :: "server_env \<Rightarrow> string" where
  "MCP_URL env = or_text (se_vars env ''NEXT_PUBLIC_MCP_URL'') ''http://localhost:8092''"

text \<open>\<open>s.replace(/\/$/, "")\<close>.\<close>

definition strip_slash :: "string \<Rightarrow> string" where
  "strip_slash s = (if s \<noteq> [] \<and> last s = CHR ''/'' then butlast s else s)"

definition mcpResourceUrl :: "server_env \<Rightarrow> string" where
  "mcpResourceUrl env =
     strip_slash (or_text (or_var (se_vars env ''MCP_PUBLIC_URL'') (se_vars env ''NEXT_PUBLIC_MCP_URL'')) ''http://localhost:8092'')"

section \<open>Events\<close>

definition NO_ORGANIZATION :: string where
  "NO_ORGANIZATION = ''none''"

definition buildEventProperties ::
  "string \<Rightarrow> string option \<Rightarrow> string option \<Rightarrow> (string \<times> json option) list \<Rightarrow> (string \<times> json) list" where
  "buildEventProperties environment organization organizationName properties =
     (let base = [(''environment'', JStr environment), (''organization'', JStr (env_or organization NO_ORGANIZATION))]
                 @ (case set_var organizationName of Some n \<Rightarrow> [(''organization_name'', JStr n)] | None \<Rightarrow> [])
      in fold (\<lambda>(key, v) ps. case v of Some j \<Rightarrow> assoc_put key j ps | None \<Rightarrow> ps) properties base)"

text \<open>
  A capture: an event with its group, or an exception. The client is not yet resolved, resolved
  to disabled, or a key with the host it posts to.
\<close>

datatype capture =
    EventCapture string string "(string \<times> json) list" "string option"
  | ExceptionCapture string string "(string \<times> json) list"

record telemetry =
  tm_client :: "(string \<times> string) option option"
  tm_captured :: "((string \<times> string) \<times> capture) list"

definition getClient :: "server_env \<Rightarrow> telemetry \<Rightarrow> (string \<times> string) option result \<times> telemetry" where
  "getClient env tm =
     (case tm_client tm of
        Some c \<Rightarrow> (Inr c, tm)
      | None \<Rightarrow>
          (case posthogServerKey env of
             Inl e \<Rightarrow> (Inl e, tm)
           | Inr key \<Rightarrow>
               (let c = map_option (\<lambda>k. (k, posthogHost env)) key
                in (Inr c, tm\<lparr>tm_client := Some c\<rparr>))))"

definition capture_with :: "server_env \<Rightarrow> capture \<Rightarrow> telemetry \<Rightarrow> unit result \<times> telemetry" where
  "capture_with env c tm =
     (case getClient env tm of
        (Inl e, tm1) \<Rightarrow> (Inl e, tm1)
      | (Inr None, tm1) \<Rightarrow> (Inr (), tm1)
      | (Inr (Some ph), tm1) \<Rightarrow> (Inr (), tm1\<lparr>tm_captured := tm_captured tm1 @ [(ph, c)]\<rparr>))"

definition captureServerEvent ::
  "server_env \<Rightarrow> string \<Rightarrow> string \<Rightarrow> string option \<Rightarrow> string option \<Rightarrow> (string \<times> json option) list
   \<Rightarrow> telemetry \<Rightarrow> unit result \<times> telemetry" where
  "captureServerEvent env event distinctId organization organizationName properties =
     capture_with env
       (EventCapture event distinctId
          (buildEventProperties (appEnvironment env) organization organizationName properties)
          (set_var organization))"

definition dash_SYSTEM_DISTINCT_ID :: string where
  "dash_SYSTEM_DISTINCT_ID = ''system''"

text \<open>\<open>{...input.properties, environment}\<close>.\<close>

definition captureServerException ::
  "server_env \<Rightarrow> string \<Rightarrow> string option \<Rightarrow> (string \<times> json option) list \<Rightarrow> telemetry \<Rightarrow> unit result \<times> telemetry" where
  "captureServerException env error distinctId properties =
     capture_with env
       (ExceptionCapture error (env_or distinctId dash_SYSTEM_DISTINCT_ID)
          (assoc_put ''environment'' (JStr (appEnvironment env))
             (fold (\<lambda>(key, v) ps. case v of Some j \<Rightarrow> assoc_put key j ps | None \<Rightarrow> ps) properties [])))"

abbreviation str_prop_of :: "string option \<Rightarrow> json option" where
  "str_prop_of v \<equiv> map_option JStr v"

abbreviation nat_prop :: "nat \<Rightarrow> json option" where
  "nat_prop n \<equiv> Some (JNum (Fin (of_nat n)))"

definition captureSignup ::
  "server_env \<Rightarrow> string \<Rightarrow> string option \<Rightarrow> string option \<Rightarrow> string option \<Rightarrow> telemetry \<Rightarrow> unit result \<times> telemetry" where
  "captureSignup env userId email organization method =
     captureServerEvent env ''user_signed_up'' userId organization None
       [(''email'', str_prop_of email), (''method'', str_prop_of method)]"

definition captureSignInSucceeded ::
  "server_env \<Rightarrow> string \<Rightarrow> string option \<Rightarrow> string option \<Rightarrow> telemetry \<Rightarrow> unit result \<times> telemetry" where
  "captureSignInSucceeded env userId organization method =
     captureServerEvent env ''sign_in_succeeded'' userId organization None [(''method'', str_prop_of method)]"

definition failed_login :: "nat \<Rightarrow> string option \<Rightarrow> string option \<Rightarrow> string option \<Rightarrow> (string \<times> json option) list" where
  "failed_login status code method email =
     [(''status'', nat_prop status), (''code'', str_prop_of code), (''method'', str_prop_of method), (''email'', str_prop_of email)]"

definition captureSignInFailed ::
  "server_env \<Rightarrow> nat \<Rightarrow> string option \<Rightarrow> string option \<Rightarrow> string option \<Rightarrow> telemetry \<Rightarrow> unit result \<times> telemetry" where
  "captureSignInFailed env status code method email =
     captureServerEvent env ''sign_in_failed'' dash_SYSTEM_DISTINCT_ID None None (failed_login status code method email)"

definition captureSignUpFailed ::
  "server_env \<Rightarrow> nat \<Rightarrow> string option \<Rightarrow> string option \<Rightarrow> string option \<Rightarrow> telemetry \<Rightarrow> unit result \<times> telemetry" where
  "captureSignUpFailed env status code method email =
     captureServerEvent env ''sign_up_failed'' dash_SYSTEM_DISTINCT_ID None None (failed_login status code method email)"

definition captureOrganizationCreated ::
  "server_env \<Rightarrow> string \<Rightarrow> string \<Rightarrow> string option \<Rightarrow> telemetry \<Rightarrow> unit result \<times> telemetry" where
  "captureOrganizationCreated env userId organization organizationName =
     captureServerEvent env ''organization_created'' userId (Some organization) organizationName []"

definition captureSiteCreated ::
  "server_env \<Rightarrow> string \<Rightarrow> string \<Rightarrow> json option \<Rightarrow> json option \<Rightarrow> telemetry \<Rightarrow> unit result \<times> telemetry" where
  "captureSiteCreated env userId organization siteId slug =
     captureServerEvent env ''site_created'' userId (Some organization) None
       [(''site_id'', siteId), (''site_slug'', slug)]"

definition captureDomainAdded ::
  "server_env \<Rightarrow> string \<Rightarrow> string \<Rightarrow> string \<Rightarrow> json option \<Rightarrow> json option \<Rightarrow> telemetry \<Rightarrow> unit result \<times> telemetry" where
  "captureDomainAdded env userId organization siteId domainId hostname =
     captureServerEvent env ''domain_added'' userId (Some organization) None
       [(''site_id'', Some (JStr siteId)), (''domain_id'', domainId), (''hostname'', hostname)]"

definition captureDbCapacityIssue ::
  "server_env \<Rightarrow> string \<Rightarrow> string \<Rightarrow> string \<Rightarrow> string option \<Rightarrow> telemetry \<Rightarrow> unit result \<times> telemetry" where
  "captureDbCapacityIssue env why source error distinctId =
     captureServerException env error distinctId
       [(''issue'', Some (JStr ''db_connection_capacity'')), (''db_capacity_reason'', Some (JStr why)),
        (''source'', Some (JStr source))]"

text \<open>The net of \<open>instrumentation.ts\<close> under errors that the code does not handle, on the Node runtime only.\<close>

definition error_properties ::
  "string \<Rightarrow> string \<Rightarrow> string \<Rightarrow> string \<Rightarrow> string \<Rightarrow> string option \<Rightarrow> (string \<times> json option) list" where
  "error_properties path method router route route_type render_source =
     [(''path'', Some (JStr path)), (''method'', Some (JStr method)), (''router'', Some (JStr router)),
      (''route'', Some (JStr route)), (''route_type'', Some (JStr route_type)), (''render_source'', str_prop_of render_source)]"

definition onRequestError ::
  "server_env \<Rightarrow> string \<Rightarrow> string \<Rightarrow> string \<Rightarrow> string \<Rightarrow> string \<Rightarrow> string \<Rightarrow> string option \<Rightarrow> telemetry \<Rightarrow>
   unit result \<times> telemetry" where
  "onRequestError env error path method router route route_type render_source tm =
     (if se_vars env ''NEXT_RUNTIME'' \<noteq> Some ''nodejs'' then (Inr (), tm)
      else captureServerException env error None (error_properties path method router route route_type render_source) tm)"

definition ALERTABLE_OAUTH_ERRORS :: "string list" where
  "ALERTABLE_OAUTH_ERRORS =
     [''invalid_scope'', ''invalid_client'', ''invalid_redirect'', ''invalid_request'', ''unsupported_response_type'',
      ''unauthorized_client'', ''invalid_grant'', ''server_error'']"

text \<open>
  \<open>s.slice(0, n)\<close>: the first \<open>n\<close> code units. Half of a surrogate pair at the cut has no UTF-8
  form and is written as U+FFFD.
\<close>

fun take_units :: "nat \<Rightarrow> string \<Rightarrow> string" where
  "take_units n [] = []"
| "take_units n (a # s) =
     (let k = (of_char a :: nat)
      in if n = 0 then []
         else if k < 128 then a # take_units (n - 1) s
         else if k < 224
         then (case s of b # t \<Rightarrow> a # b # take_units (n - 1) t | _ \<Rightarrow> utf8_of_code 65533)
         else if k < 240
         then (case s of b # c # t \<Rightarrow> a # b # c # take_units (n - 1) t | _ \<Rightarrow> utf8_of_code 65533)
         else if n = 1 then utf8_of_code 65533
         else (case s of b # c # d # t \<Rightarrow> a # b # c # d # take_units (n - 2) t | _ \<Rightarrow> utf8_of_code 65533))"

record oauth_error =
  oe_endpoint :: string
  oe_error :: string
  oe_description :: "string option"
  oe_status :: "nat option"
  oe_clientId :: "string option"
  oe_scope :: "string option"
  oe_resource :: "string option"
  oe_redirectUri :: "string option"
  oe_distinctId :: "string option"

definition oauth_properties :: "oauth_error \<Rightarrow> (string \<times> json option) list" where
  "oauth_properties i =
     [(''oauth_endpoint'', Some (JStr (oe_endpoint i))), (''oauth_error'', Some (JStr (oe_error i))),
      (''oauth_error_description'', str_prop_of (oe_description i)), (''status'', map_option (\<lambda>n. JNum (Fin (of_nat n))) (oe_status i)),
      (''client_id'', str_prop_of (oe_clientId i)), (''scope'', str_prop_of (oe_scope i)),
      (''resource'', str_prop_of (oe_resource i)),
      (''redirect_uri'', str_prop_of (map_option (take_units 512) (set_var (oe_redirectUri i))))]"

definition captureOAuthError :: "server_env \<Rightarrow> oauth_error \<Rightarrow> telemetry \<Rightarrow> unit result \<times> telemetry" where
  "captureOAuthError env i tm =
     (case captureServerEvent env ''oauth_error'' (env_or (oe_distinctId i) dash_SYSTEM_DISTINCT_ID) None None (oauth_properties i) tm of
        (Inl e, tm1) \<Rightarrow> (Inl e, tm1)
      | (Inr u, tm1) \<Rightarrow>
          if oe_error i \<in> set ALERTABLE_OAUTH_ERRORS
          then captureServerException env (''oauth '' @ oe_endpoint i @ '' failed: '' @ oe_error i) (oe_distinctId i)
                 ((''issue'', Some (JStr ''oauth_connect_error'')) # oauth_properties i) tm1
          else (Inr (), tm1))"

definition captureOAuthScopeDropped ::
  "server_env \<Rightarrow> string \<Rightarrow> string list \<Rightarrow> string list \<Rightarrow> string option \<Rightarrow> telemetry \<Rightarrow> unit result \<times> telemetry" where
  "captureOAuthScopeDropped env endpoint dropped kept clientId =
     captureServerEvent env ''oauth_scope_dropped'' dash_SYSTEM_DISTINCT_ID None None
       [(''oauth_endpoint'', Some (JStr endpoint)), (''dropped_scopes'', Some (JStr (join '' '' dropped))),
        (''kept_scopes'', Some (JStr (join '' '' kept))), (''client_id'', str_prop_of clientId)]"

section \<open>Connection capacity\<close>

text \<open>
  A thrown value as the classifier sees it: an object, an \<open>Error\<close> or not, with what is a string in
  \<open>code\<close> and \<open>message\<close> and with its \<open>cause\<close>; a string; or something else, with its \<open>String(v)\<close>.
\<close>

datatype thrown =
    ThrownObj bool "string option" "string option" "thrown option"
  | ThrownText string
  | ThrownOther string

text \<open>The walk along the causes, at most \<open>depth\<close> objects deep.\<close>

fun error_parts :: "nat \<Rightarrow> thrown option \<Rightarrow> string list" where
  "error_parts (Suc depth) (Some (ThrownObj is_error code message cause)) =
     (case code of Some c \<Rightarrow> [''code='' @ c] | None \<Rightarrow> []) @ (case message of Some m \<Rightarrow> [m] | None \<Rightarrow> []) @
     error_parts depth cause"
| "error_parts depth e = []"

definition word_char :: "char \<Rightarrow> bool" where
  "word_char c = (let n = (of_char c :: nat) in (97 \<le> n \<and> n \<le> 122) \<or> (65 \<le> n \<and> n \<le> 90) \<or> (48 \<le> n \<and> n \<le> 57) \<or> n = 95)"

text \<open>\<open>/\bw\b/i\<close> for a word \<open>w\<close> in lower case; \<open>before\<close> says whether a word character precedes.\<close>

fun has_word :: "bool \<Rightarrow> string \<Rightarrow> string \<Rightarrow> bool" where
  "has_word before [] w = False"
| "has_word before (c # cs) w =
     ((\<not> before \<and> startsWith (toLowerCase (c # cs)) w \<and>
       (case drop (length w) (c # cs) of [] \<Rightarrow> True | d # ds \<Rightarrow> \<not> word_char d)) \<or>
      has_word (word_char c) cs w)"

definition includes_any :: "string \<Rightarrow> string list \<Rightarrow> bool" where
  "includes_any hay needles = list_ex (str_includes (toLowerCase hay)) needles"

definition connectionCapacityReason :: "thrown \<Rightarrow> string option" where
  "connectionCapacityReason err =
     (let parts = error_parts 5 (Some err) @ (case err of ThrownText s \<Rightarrow> [s] | _ \<Rightarrow> []);
          hay = join '' | '' parts
      in if includes_any hay [''emaxconnsession'', ''max clients reached in session mode''] then Some ''pooler_session_exhausted''
         else if has_word False hay ''code=53300'' \<or> includes_any hay [''too many clients'', ''remaining connection slots'']
         then Some ''too_many_connections''
         else if includes_any hay [''timeout exceeded when trying to connect'', ''connection terminated due to connection timeout'']
         then Some ''pool_acquire_timeout''
         else None)"

text \<open>\<open>err instanceof Error ? err.message : String(err)\<close>.\<close>

fun thrown_text :: "thrown \<Rightarrow> string" where
  "thrown_text (ThrownObj True code message cause) = or_text message []"
| "thrown_text (ThrownObj False code message cause) = ''[object Object]''"
| "thrown_text (ThrownText s) = s"
| "thrown_text (ThrownOther s) = s"

definition logIfConnectionCapacity :: "string \<Rightarrow> thrown \<Rightarrow> string list \<Rightarrow> string option \<times> string list" where
  "logIfConnectionCapacity whence err console =
     (case connectionCapacityReason err of
        None \<Rightarrow> (None, console)
      | Some why \<Rightarrow>
          (Some why, console @ [''[db-capacity] '' @ why @ '' at '' @ whence @ '': '' @ thrown_text err]))"

section \<open>What is captured\<close>

text \<open>
  Every capture is labelled with the deployment, an event also with its organization, and all of
  them go to the client of the configured key.
\<close>

fun stamped :: "server_env \<Rightarrow> capture \<Rightarrow> bool" where
  "stamped env (EventCapture event distinctId props grp) =
     (map_of props ''environment'' = Some (JStr (appEnvironment env)) \<and>
      map_of props ''organization'' = Some (JStr (env_or grp NO_ORGANIZATION)) \<and> grp \<noteq> Some [])"
| "stamped env (ExceptionCapture error distinctId props) =
     (map_of props ''environment'' = Some (JStr (appEnvironment env)))"

definition telemetry_ok :: "server_env \<Rightarrow> telemetry \<Rightarrow> bool" where
  "telemetry_ok env tm \<longleftrightarrow>
     (\<forall>c. tm_client tm = Some c \<longrightarrow> posthogServerKey env = Inr (map_option fst c)) \<and>
     (\<forall>(ph, c) \<in> set (tm_captured tm). tm_client tm = Some (Some ph) \<and> stamped env c)"

definition no_telemetry :: telemetry where
  "no_telemetry = \<lparr>tm_client = None, tm_captured = []\<rparr>"

lemma no_telemetry_ok: "telemetry_ok env no_telemetry"
  by (simp add: telemetry_ok_def no_telemetry_def)

lemma capture_with_ok:
  assumes "telemetry_ok env tm" "stamped env c"
  shows "telemetry_ok env (snd (capture_with env c tm))"
  using assms by (auto simp: capture_with_def getClient_def telemetry_ok_def Let_def split: option.splits sum.splits)

text \<open>The names that the callers give their properties are not those of the labels.\<close>

lemma put_properties:
  assumes "\<forall>(k, v) \<in> set properties. k \<noteq> name"
  shows "map_of (fold (\<lambda>(key, v) ps. case v of Some j \<Rightarrow> assoc_put key j ps | None \<Rightarrow> ps) properties base) name = map_of base name"
  using assms by (induction properties arbitrary: base) (auto simp: map_of_assoc_put split: option.splits)

lemma event_ok:
  assumes "telemetry_ok env tm" "\<forall>(k, v) \<in> set properties. k \<notin> {''environment'', ''organization''}"
  shows "telemetry_ok env (snd (captureServerEvent env event d org name properties tm))"
proof -
  have "\<forall>(k, v) \<in> set properties. k \<noteq> ''environment''" "\<forall>(k, v) \<in> set properties. k \<noteq> ''organization''"
    using assms(2) by auto
  then show ?thesis
    unfolding captureServerEvent_def
    by (intro capture_with_ok assms(1))
      (simp add: buildEventProperties_def put_properties set_var_def env_or_def split: option.splits)
qed

lemma exception_ok:
  "telemetry_ok env tm \<Longrightarrow> telemetry_ok env (snd (captureServerException env e d properties tm))"
  unfolding captureServerException_def by (intro capture_with_ok) (simp_all add: map_of_assoc_put)

lemmas capture_defs = captureSignup_def captureSignInSucceeded_def captureSignInFailed_def captureSignUpFailed_def
  captureOrganizationCreated_def captureSiteCreated_def captureDomainAdded_def captureOAuthScopeDropped_def
  failed_login_def oauth_properties_def

lemma oauth_ok:
  assumes "telemetry_ok env tm"
  shows "telemetry_ok env (snd (captureOAuthError env i tm))"
proof -
  have "telemetry_ok env (snd (captureServerEvent env ''oauth_error'' (env_or (oe_distinctId i) dash_SYSTEM_DISTINCT_ID) None None (oauth_properties i) tm))"
    by (rule event_ok [OF assms]) (simp add: oauth_properties_def)
  then show ?thesis
    using exception_ok by (auto simp: captureOAuthError_def split: prod.splits sum.splits)
qed

text \<open>
  Telemetry is labelled. Every capture function keeps this of the telemetry: whatever was captured
  carries the label of the deployment, every event also its organization or the mark for none,
  and went to the client of the configured key; without a key nothing is captured.
\<close>

theorem telemetry_is_labelled:
  assumes "telemetry_ok env tm"
  shows "telemetry_ok env (snd (captureSignup env u email org m tm)) \<and>
    telemetry_ok env (snd (captureSignInSucceeded env u org m tm)) \<and>
    telemetry_ok env (snd (captureSignInFailed env status code m email tm)) \<and>
    telemetry_ok env (snd (captureSignUpFailed env status code m email tm)) \<and>
    telemetry_ok env (snd (captureOrganizationCreated env u o1 name tm)) \<and>
    telemetry_ok env (snd (captureSiteCreated env u o1 site slug tm)) \<and>
    telemetry_ok env (snd (captureDomainAdded env u o1 s1 domain host tm)) \<and>
    telemetry_ok env (snd (captureDbCapacityIssue env why source error d tm)) \<and>
    telemetry_ok env (snd (captureOAuthError env i tm)) \<and>
    telemetry_ok env (snd (captureOAuthScopeDropped env endpoint dropped kept client tm)) \<and>
    (posthogServerKey env = Inr None \<longrightarrow> tm_captured tm = [])"
proof -
  have "tm_captured tm = []" if "posthogServerKey env = Inr None"
    using assms that by (cases "tm_captured tm") (auto simp: telemetry_ok_def)
  then show ?thesis
    using assms by (simp add: capture_defs event_ok captureDbCapacityIssue_def exception_ok oauth_ok)
qed

theorem telemetry_is_labelled_witness:
  "\<exists>env. telemetry_ok env no_telemetry \<and>
     (\<exists>tm. snd (captureSignup env ''u1'' (Some ''a@b.c'') None None no_telemetry) = tm \<and> telemetry_ok env tm \<and>
        tm_captured tm \<noteq> [])"
proof -
  let ?env = "\<lparr>se_vars = (\<lambda>k. if k = ''POSTHOG_KEY'' then Some ''phc'' else None), se_window = False\<rparr>"
  let ?tm = "snd (captureSignup ?env ''u1'' (Some ''a@b.c'') None None no_telemetry)"
  have "telemetry_ok ?env ?tm" by (rule conjunct1 [OF telemetry_is_labelled [OF no_telemetry_ok]])
  moreover have "tm_captured ?tm \<noteq> []"
    by (simp add: captureSignup_def captureServerEvent_def capture_with_def getClient_def no_telemetry_def
        posthogServerKey_def requireServer_def set_var_def or_var_def Let_def)
  ultimately show ?thesis using no_telemetry_ok by blast
qed

end
