(* ===== verification/Dash_Settings.thy ===== *)
theory Dash_Settings
  imports Dash_Env
begin

text \<open>
  The server actions behind the settings pages of the dashboard: access, feed and allowlist of a
  site (\<open>sites/[id]/settings/actions.ts\<close>), custom domains (\<open>sites/[id]/domains/actions.ts\<close>), the
  policies of the organisation (\<open>settings/actions.ts\<close>), API keys (\<open>settings/api-keys/actions.ts\<close>),
  company memory (\<open>settings/memory/actions.ts\<close>) and billing (\<open>billing/actions.ts\<close>).
\<close>

section \<open>Shared parts\<close>

definition revalidate :: "string list \<Rightarrow> 'n api_world \<Rightarrow> 'n api_world" where
  "revalidate paths w = fold revalidatePath paths w"

text \<open>
  The message of a refusal: the one of the API if it has one, otherwise that of a table by
  status and body; and a fixed one if there was no answer.
\<close>

definition api_message :: "api_error \<Rightarrow> (nat \<Rightarrow> json \<Rightarrow> string) \<Rightarrow> string \<Rightarrow> json" where
  "api_message err table unreachable =
     (case err of
        ApiError status m body \<Rightarrow> if truthy (body_message body) then the (body_message body) else JStr (table status body)
      | OtherError e \<Rightarrow> JStr unreachable)"

definition API_UNREACHABLE :: string where
  "API_UNREACHABLE = ''Could not reach the API. Try again.''"

definition role_message :: "api_error \<Rightarrow> string \<Rightarrow> string \<Rightarrow> json" where
  "role_message err forbidden failed = api_message err (\<lambda>status body. if status = 403 then forbidden else failed) API_UNREACHABLE"

text \<open>\<open>result.key\<close> as the value of the action.\<close>

definition value_of :: "string \<Rightarrow> json option \<Rightarrow> json option outcome api_result" where
  "value_of key res = (case member res key of Inl e \<Rightarrow> Inl (OtherError e) | Inr v \<Rightarrow> Inr (Ok v))"

section \<open>Access of a site\<close>

definition access_message :: "api_error \<Rightarrow> string \<Rightarrow> json" where
  "access_message err fallback =
     apiErrorMessage err fallback
       [(403, ''You don'' @ CHR 0x27 # ''t have permission to change this site'' @ CHR 0x27 # ''s access, or external sharing is disabled for your org.''),
        (400, ''That access configuration is invalid.'')]"

text \<open>The expiry that goes to the API, or why the chosen one is refused.\<close>

definition access_expiry ::
  "runtime \<Rightarrow> 'n platform \<Rightarrow> string option \<Rightarrow> 'n api_world \<Rightarrow> (string + string option) \<times> 'n api_world" where
  "access_expiry rt pf expiresAt w =
     (case set_var expiresAt of
        None \<Rightarrow> (Inr None, w)
      | Some s \<Rightarrow>
          (case date_parse rt s of
             None \<Rightarrow> (Inl ''Enter a valid expiry date.'', w)
           | Some t \<Rightarrow>
               (case pf_now pf (aw_net w) of
                  (now, n1) \<Rightarrow>
                    (if t \<le> now then Inl ''The expiry must be in the future.'' else Inr (Some (toISOString t)),
                     w\<lparr>aw_net := n1\<rparr>))))"

definition access_body :: "string \<Rightarrow> bool \<Rightarrow> string option \<Rightarrow> string option \<Rightarrow> json" where
  "access_body mode unlisted password expiry =
     js_obj [(''mode'', Some (JStr mode)), (''unlisted'', Some (JBool unlisted)),
             (''password'', if mode = ''password'' then str_prop_of (set_var password) else None),
             (''expires_at'', str_prop_of (set_var expiry))]"

definition setAccessAction ::
  "runtime \<Rightarrow> 'n platform \<Rightarrow> string \<Rightarrow> string \<Rightarrow> string option \<Rightarrow> string option \<Rightarrow> 'n api_world
   \<Rightarrow> json option outcome \<times> 'n api_world" where
  "setAccessAction rt pf siteId selection password expiresAt w =
     (let mode = (if selection = ''unlisted'' then ''public'' else selection);
          unlisted = (selection = ''unlisted'')
      in if mode = ''password'' \<and> set_var password = None
         then refuse ''Set a password for password-protected access.'' w
         else
           (case access_expiry rt pf expiresAt w of
              (Inl message, w1) \<Rightarrow> refuse message w1
            | (Inr expiry, w1) \<Rightarrow>
                catch_api
                  (api_bind (api_setSiteAccess rt pf siteId (access_body mode unlisted password expiry) w1)
                    (\<lambda>result w2. (Inr (Ok result),
                       revalidate [''/sites/'' @ siteId @ ''/settings'', ''/sites/'' @ siteId, ''/dashboard''] w2)))
                  (\<lambda>err. Refused (access_message err ''Could not update access. Try again.'') None)))"

definition setFeedVisibilityAction ::
  "runtime \<Rightarrow> 'n platform \<Rightarrow> string \<Rightarrow> bool \<Rightarrow> 'n api_world \<Rightarrow> json outcome \<times> 'n api_world" where
  "setFeedVisibilityAction rt pf siteId visible w =
     catch_api
       (api_bind (api_setSiteFeedVisibility rt pf siteId visible w)
         (\<lambda>res w1. (ok_of (member_or ''feed_visible'' (JBool visible) res),
            revalidate [''/sites/'' @ siteId @ ''/settings'', ''/sites/'' @ siteId, ''/feed'', ''/dashboard''] w1)))
       (\<lambda>err. Refused (access_message err ''Could not update feed sharing. Try again.'') None)"

text \<open>The title and the description that the API kept.\<close>

definition kept_meta :: "string \<Rightarrow> string \<Rightarrow> json option \<Rightarrow> (json \<times> json) outcome api_result" where
  "kept_meta title description res =
     (case member_or ''title'' (JStr title) res of
        Inl e \<Rightarrow> Inl e
      | Inr t \<Rightarrow> (case member_or ''description'' (JStr description) res of Inl e \<Rightarrow> Inl e | Inr d \<Rightarrow> Inr (Ok (t, d))))"

definition setFeedMetaAction ::
  "runtime \<Rightarrow> 'n platform \<Rightarrow> string \<Rightarrow> string \<Rightarrow> string \<Rightarrow> 'n api_world \<Rightarrow> (json \<times> json) outcome \<times> 'n api_world" where
  "setFeedMetaAction rt pf siteId rawTitle rawDescription w =
     (let title = js_trim rawTitle; description = js_trim rawDescription
      in if 120 < js_length title then refuse ''Title must be at most 120 characters.'' w
         else if 500 < js_length description then refuse ''Description must be at most 500 characters.'' w
         else
           catch_api
             (api_bind (api_setSiteFeedMeta rt pf siteId title description w)
               (\<lambda>res w1. (kept_meta title description res,
                  revalidate [''/sites/'' @ siteId @ ''/settings'', ''/sites/'' @ siteId, ''/feed''] w1)))
             (\<lambda>err. Refused (access_message err ''Could not update feed details. Try again.'') None))"

text \<open>\<open>/^[^\s@]+@[^\s@]+\.[^\s@]+$/\<close>.\<close>

definition email_shape :: "string \<Rightarrow> bool" where
  "email_shape s =
     (list_all (\<lambda>c. \<not> is_ws c) s \<and>
      (case split_on (CHR ''@'') s of
         [name, domain] \<Rightarrow> name \<noteq> [] \<and> list_ex (\<lambda>i. domain ! i = CHR ''.'') [1..<length domain - 1]
       | _ \<Rightarrow> False))"

definition addAllowlistAction ::
  "runtime \<Rightarrow> 'n platform \<Rightarrow> string \<Rightarrow> string \<Rightarrow> 'n api_world \<Rightarrow> json option outcome \<times> 'n api_world" where
  "addAllowlistAction rt pf siteId rawEmail w =
     (let email = toLowerCase (js_trim rawEmail)
      in if \<not> email_shape email then refuse ''Enter a valid email address.'' w
         else
           catch_api
             (api_bind (api_addAllowlistEntry rt pf siteId email w)
               (\<lambda>entry w1. (Inr (Ok entry), revalidate [''/sites/'' @ siteId @ ''/settings''] w1)))
             (\<lambda>err. Refused (access_message err ''Could not add that email. Try again.'') None))"

definition removeAllowlistAction ::
  "runtime \<Rightarrow> 'n platform \<Rightarrow> string \<Rightarrow> string \<Rightarrow> 'n api_world \<Rightarrow> unit outcome \<times> 'n api_world" where
  "removeAllowlistAction rt pf siteId email w =
     catch_api
       (api_bind (api_removeAllowlistEntry rt pf siteId email w)
         (\<lambda>r w1. (Inr (Ok ()), revalidate [''/sites/'' @ siteId @ ''/settings''] w1)))
       (\<lambda>err. Refused (access_message err ''Could not remove that email. Try again.'') None)"

definition setSiteCollabAction ::
  "runtime \<Rightarrow> 'n platform \<Rightarrow> string \<Rightarrow> bool \<Rightarrow> 'n api_world \<Rightarrow> json outcome \<times> 'n api_world" where
  "setSiteCollabAction rt pf i allowMemberEdits w =
     catch_api
       (api_bind (api_setSiteCollab rt pf i allowMemberEdits w)
         (\<lambda>site w1. (ok_of (member_or ''allow_member_edits'' (JBool allowMemberEdits) site),
            revalidate [''/sites/'' @ i, ''/sites/'' @ i @ ''/settings''] w1)))
       (\<lambda>err. Refused (apiErrorMessage err ''Could not update the collaboration setting.''
                 [(403, ''Only the creator or an admin can change this.'')]) None)"

fun delete_message :: "api_error \<Rightarrow> json" where
  "delete_message (ApiError status m body) =
     apiErrorMessage (ApiError status m body) ''Could not delete this site.''
       [(403, ''You don'' @ CHR 0x27 # ''t have permission to delete this site. Only the site'' @ CHR 0x27 # ''s owner or an org admin can.''),
        (404, ''This site no longer exists.'')]"
| "delete_message (OtherError e) = JStr ''Could not delete this site. Please try again.''"

definition deleteSiteAction ::
  "runtime \<Rightarrow> 'n platform \<Rightarrow> string \<Rightarrow> 'n api_world \<Rightarrow> unit outcome \<times> 'n api_world" where
  "deleteSiteAction rt pf siteId w =
     catch_api
       (api_bind (api_deleteSite rt pf siteId w) (\<lambda>r w1. (Inr (Ok ()), revalidate [''/dashboard''] w1)))
       (\<lambda>err. Refused (delete_message err) None)"

section \<open>Custom domains\<close>

text \<open>\<open>input.hostname.trim().toLowerCase().replace(/\.$/, "")\<close>.\<close>

definition typed_hostname :: "string \<Rightarrow> string" where
  "typed_hostname raw =
     (let h = toLowerCase (js_trim raw) in if endsWith h ''.'' then butlast h else h)"

definition recordDomainAdded ::
  "'n platform \<Rightarrow> server_env \<Rightarrow> string \<Rightarrow> json option \<Rightarrow> string \<Rightarrow> 'n api_world \<Rightarrow> telemetry \<Rightarrow> 'n api_world \<times> telemetry" where
  "recordDomainAdded pf env siteId domain hostname w tm =
     (case getCurrentSession pf w of
        (session, w1) \<Rightarrow>
          (let userId = (case session of Some s \<Rightarrow> ss_user s | None \<Rightarrow> None);
               organization = (case session of Some s \<Rightarrow> ss_activeOrg s | None \<Rightarrow> None)
           in (case (set_var userId, set_var organization) of
                 (Some u, Some org) \<Rightarrow>
                   (case member domain ''id'' of
                      Inl e \<Rightarrow> (w1, tm)
                    | Inr i \<Rightarrow>
                        (w1, snd (captureDomainAdded env u org siteId i
                           (Some (case present (body_prop domain ''hostname'') of Some h \<Rightarrow> h | None \<Rightarrow> JStr hostname)) tm)))
               | _ \<Rightarrow> (w1, tm))))"

definition domain_table :: "nat \<Rightarrow> json \<Rightarrow> string" where
  "domain_table status body =
     (if status = 409 then ''That domain is already in use by another site.''
      else if status = 403 then ''Only owners and admins can add custom domains.''
      else if status = 503 then ''Custom domains aren'' @ CHR 0x27 # ''t available right now. Try again later.''
      else ''Could not add the domain. Try again.'')"

fun add_domain_message :: "api_error \<Rightarrow> json" where
  "add_domain_message (ApiError status m body) =
     (if status = 402 then JStr ''Custom domains require a paid plan. Upgrade to add one.''
      else api_message (ApiError status m body) domain_table API_UNREACHABLE)"
| "add_domain_message (OtherError e) = JStr API_UNREACHABLE"

definition addDomainAction ::
  "runtime \<Rightarrow> 'n platform \<Rightarrow> server_env \<Rightarrow> string \<Rightarrow> string \<Rightarrow> 'n api_world \<Rightarrow> telemetry
   \<Rightarrow> json option outcome \<times> 'n api_world \<times> telemetry" where
  "addDomainAction rt pf env siteId raw w tm =
     (let hostname = typed_hostname raw
      in if \<not> HOSTNAME_RE_test hostname
         then (Refused (JStr ''Enter a valid domain, e.g. docs.acme.com.'') None, w, tm)
         else if endsWith hostname ''.dropwaycontent.com''
         then (Refused (JStr (''That'' @ CHR 0x27 # ''s a platform domain. Add your own custom domain instead.'')) None, w, tm)
         else
           (case api_addDomain rt pf siteId hostname w of
              (Inl err, w1) \<Rightarrow> (Refused (add_domain_message err) None, w1, tm)
            | (Inr domain, w1) \<Rightarrow>
                (Ok domain, recordDomainAdded pf env siteId domain hostname (revalidate [''/sites/'' @ siteId @ ''/domains''] w1) tm)))"

text \<open>A domain that is gone already counts as removed.\<close>

fun removed_domain :: "api_error \<Rightarrow> unit outcome" where
  "removed_domain (ApiError status m body) =
     (if status = 403 then Refused (JStr ''Only owners and admins can remove custom domains.'') None
      else if status = 404 then Ok ()
      else Refused (JStr ''Could not remove the domain. Try again.'') None)"
| "removed_domain (OtherError e) = Refused (JStr API_UNREACHABLE) None"

definition removeDomainAction ::
  "runtime \<Rightarrow> 'n platform \<Rightarrow> string \<Rightarrow> string \<Rightarrow> 'n api_world \<Rightarrow> unit outcome \<times> 'n api_world" where
  "removeDomainAction rt pf siteId domainId w =
     catch_api
       (api_bind (api_deleteDomain rt pf domainId w)
         (\<lambda>r w1. (Inr (Ok ()), revalidate [''/sites/'' @ siteId @ ''/domains''] w1)))
       removed_domain"

fun status_message :: "api_error \<Rightarrow> string" where
  "status_message (ApiError status m body) =
     (if status = 404 then ''This domain was removed.'' else ''Couldn'' @ CHR 0x27 # ''t refresh status. Try again.'')"
| "status_message (OtherError e) = API_UNREACHABLE"

definition refreshDomainStatusAction ::
  "runtime \<Rightarrow> 'n platform \<Rightarrow> string \<Rightarrow> 'n api_world \<Rightarrow> json option outcome \<times> 'n api_world" where
  "refreshDomainStatusAction rt pf domainId w =
     catch_api (api_bind (api_getDomainStatus rt pf domainId w) (\<lambda>domain w1. (Inr (Ok domain), w1)))
       (\<lambda>err. Refused (JStr (status_message err)) None)"

section \<open>What an action sends\<close>

text \<open>
  An endpoint \<open>sends\<close> a request if it sends exactly this one, or fails before it; an action
  \<open>requests\<close> one if it has sent exactly this one whenever it succeeds, and otherwise at most it.
\<close>

definition sends :: "runtime \<Rightarrow> 'n platform \<Rightarrow> string \<Rightarrow> request_init \<Rightarrow> ('n api_world \<Rightarrow> 'a api_result \<times> 'n api_world) \<Rightarrow> bool" where
  "sends rt pf path init m \<longleftrightarrow>
     (\<forall>w r w1. m w = (r, w1) \<longrightarrow>
        (\<exists>token. aw_sent w1 = aw_sent w @ [api_call_of rt pf path token init]) \<or> (aw_sent w1 = aw_sent w \<and> (\<exists>e. r = Inl e)))"

definition requests :: "runtime \<Rightarrow> 'n platform \<Rightarrow> string \<Rightarrow> request_init \<Rightarrow> ('n api_world \<Rightarrow> 'a outcome \<times> 'n api_world) \<Rightarrow> bool" where
  "requests rt pf path init act \<longleftrightarrow>
     (\<forall>w x w1. act w = (x, w1) \<longrightarrow>
        (\<exists>token. new_calls w w1 = [api_call_of rt pf path token init]) \<or> (new_calls w w1 = [] \<and> (\<forall>v. x \<noteq> Ok v)))"

lemma sends_apiFetch: "sends rt pf path init (apiFetch rt pf path init)"
  unfolding sends_def using apiFetch_log by blast

lemma sends_through:
  assumes "sends rt pf path init m" "\<And>r w. snd (k (r, w)) = w" "\<And>e w. \<exists>e1. fst (k (Inl e, w)) = Inl e1"
  shows "sends rt pf path init (k \<circ> m)"
  unfolding sends_def
proof (intro allI impI)
  fix w r w1 assume "(k \<circ> m) w = (r, w1)"
  moreover obtain r0 w0 where m: "m w = (r0, w0)" by fastforce
  ultimately have k: "k (r0, w0) = (r, w1)" by simp
  then have "w1 = w0" using assms(2) [of r0 w0] by simp
  moreover have "\<exists>e1. r = Inl e1" if "r0 = Inl e" for e using assms(3) [of e w0] k that by simp
  ultimately show "(\<exists>token. aw_sent w1 = aw_sent w @ [api_call_of rt pf path token init]) \<or> (aw_sent w1 = aw_sent w \<and> (\<exists>e. r = Inl e))"
    using assms(1) m unfolding sends_def by (metis (no_types))
qed

lemma sends_field: "sends rt pf path init (field key \<circ> apiFetch rt pf path init)"
  by (rule sends_through [OF sends_apiFetch]) (auto simp: field_def split: sum.splits)

lemma sends_field_or: "sends rt pf path init (field_or key dflt \<circ> apiFetch rt pf path init)"
  by (rule sends_through [OF sends_apiFetch]) (auto simp: field_or_def field_def split: sum.splits)

lemma sends_no_value: "sends rt pf path init (no_value \<circ> apiFetch rt pf path init)"
  by (rule sends_through [OF sends_apiFetch]) (auto simp: no_value_def split: sum.splits)

lemmas sends_rules = sends_apiFetch sends_field sends_field_or sends_no_value

lemma requests_action:
  assumes "sends rt pf path init m" "\<And>a w. aw_sent (snd (f a w)) = aw_sent w" "\<And>e v. h e \<noteq> Ok v"
  shows "requests rt pf path init (\<lambda>w. catch_api (api_bind (m w) f) h)"
  unfolding requests_def
proof (intro allI impI)
  fix w x w1 assume act: "catch_api (api_bind (m w) f) h = (x, w1)"
  obtain r w2 where r: "m w = (r, w2)" by fastforce
  show "(\<exists>token. new_calls w w1 = [api_call_of rt pf path token init]) \<or> (new_calls w w1 = [] \<and> (\<forall>v. x \<noteq> Ok v))"
  proof (cases r)
    case (Inl e)
    with act r have "w1 = w2" "x = h e" by (auto simp: catch_api_def api_bind_def)
    with assms(1) r assms(3) show ?thesis unfolding sends_def new_calls_def by fastforce
  next
    case (Inr a)
    with act r have "w1 = snd (f a w2)" by (auto simp: catch_api_def api_bind_def split: prod.splits sum.splits)
    with assms(2) have "aw_sent w1 = aw_sent w2" by simp
    with assms(1) r Inr show ?thesis unfolding sends_def new_calls_def by fastforce
  qed
qed

lemma requests_guard: "requests rt pf path init act \<Longrightarrow> requests rt pf path init (\<lambda>w. if c then refuse message w else act w)"
  by (auto simp: requests_def refuse_def)

lemma revalidate_sent [simp]: "aw_sent (revalidate paths w) = aw_sent w"
  by (induction paths arbitrary: w) (simp_all add: revalidate_def revalidatePath_def)

lemmas settings_defs = setFeedVisibilityAction_def setFeedMetaAction_def addAllowlistAction_def removeAllowlistAction_def
  setSiteCollabAction_def deleteSiteAction_def
  api_setSiteFeedVisibility_def api_setSiteFeedMeta_def api_addAllowlistEntry_def api_removeAllowlistEntry_def
  api_setSiteCollab_def api_deleteSite_def

section \<open>Access\<close>

lemma access_body_props:
  "body_prop (Some (access_body mode unlisted password expiry)) ''mode'' = Some (JStr mode)"
  "body_prop (Some (access_body mode unlisted password expiry)) ''unlisted'' = Some (JBool unlisted)"
  "body_prop (Some (access_body mode unlisted password expiry)) ''password'' =
     (if mode = ''password'' then str_prop_of (set_var password) else None)"
  "body_prop (Some (access_body mode unlisted password expiry)) ''expires_at'' = str_prop_of (set_var expiry)"
  by (simp_all add: access_body_def js_obj_def body_prop_def map_filter_simps set_var_def
      split: option.splits)

lemma toISOString_not_Nil: "toISOString t \<noteq> []"
  by (simp add: toISOString_def Let_def split: prod.splits)

lemma access_expiry_sent: "access_expiry rt pf expiresAt w = (r, w1) \<Longrightarrow> aw_sent w1 = aw_sent w"
  by (auto simp: access_expiry_def split: option.splits prod.splits if_splits)

lemma access_expiry_ok:
  assumes "access_expiry rt pf expiresAt w = (Inr expiry, w1)"
  shows "(set_var expiresAt = None \<and> expiry = None) \<or>
    (\<exists>s t. set_var expiresAt = Some s \<and> date_parse rt s = Some t \<and> fst (pf_now pf (aw_net w)) < t \<and> expiry = Some (toISOString t))"
  using assms by (auto simp: access_expiry_def split: option.splits prod.splits if_splits)

text \<open>A fetch that succeeds was sent, and the API answered it with a 2xx status.\<close>

lemma apiFetch_answer:
  assumes "apiFetch rt pf path init w = (Inr v, w1)"
  shows "\<exists>token n0 res. aw_sent w1 = aw_sent w @ [api_call_of rt pf path token init] \<and>
    pf_fetch pf (api_call_of rt pf path token init) n0 = (Inr res, aw_net w1) \<and> 200 \<le> ar_status res \<and> ar_status res < 300"
proof -
  obtain q w2 where q: "bearerToken pf w = (q, w2)" by fastforce
  then have "aw_sent w2 = aw_sent w" using bearerToken_same(2) [of pf w] by simp
  moreover obtain token where "api_send rt pf path (api_call_of rt pf path token init) w2 = (Inr v, w1)"
    using assms q by (cases q) (auto simp: apiFetch_def)
  ultimately show ?thesis
    by (fastforce simp: api_send_def read_reply_def statusOk_def split: prod.splits sum.splits if_splits)
qed

lemma revalidate_net [simp]: "aw_net (revalidate ps w) = aw_net w"
  by (induction ps arbitrary: w) (auto simp: revalidate_def revalidatePath_def)

lemma action_answer:
  assumes "catch_api (api_bind (apiFetch rt pf path init w2) (\<lambda>result w3. (Inr (Ok result), revalidate ps w3))) h = (Ok v, w1)"
    and "aw_sent w2 = aw_sent w" "\<And>e. h e \<noteq> Ok v"
  shows "\<exists>token n0 reply. new_calls w w1 = [api_call_of rt pf path token init] \<and>
    pf_fetch pf (api_call_of rt pf path token init) n0 = (Inr reply, aw_net w1) \<and> 200 \<le> ar_status reply \<and> ar_status reply < 300"
proof -
  from assms(1,3) obtain y w3 where f: "apiFetch rt pf path init w2 = (Inr y, w3)" and w1: "w1 = revalidate ps w3"
    by (auto simp: catch_api_def api_bind_def split: prod.splits sum.splits)
  with apiFetch_answer [OF f] assms(2) revalidate_net [of ps w3] show ?thesis by (fastforce simp: new_calls_def)
qed

text \<open>
  C27. Access is changed to what was chosen. \<open>setAccessAction\<close> sends at most one request, a \<open>PUT\<close> to
  the site's access, and succeeds only after it. Its body has the mode and the flag of the
  selection, a password exactly in password mode and then the one that was entered, and an expiry
  exactly if one was entered: the instant it denotes, later than the clock of the server. The action
  succeeds only if the API answered this request with a 2xx status.
\<close>

theorem access_change_is_what_was_chosen:
  assumes "setAccessAction rt pf siteId selection password expiresAt w = (x, w1)"
  shows "(new_calls w w1 = [] \<and> (\<forall>v. x \<noteq> Ok v)) \<or>
    (\<exists>token body.
       new_calls w w1 = [api_call_of rt pf (''/v1/sites/'' @ siteId @ ''/access'') token (with_json ''PUT'' body)] \<and>
       body_prop (Some body) ''mode'' = Some (JStr (if selection = ''unlisted'' then ''public'' else selection)) \<and>
       body_prop (Some body) ''unlisted'' = Some (JBool (selection = ''unlisted'')) \<and>
       (if selection = ''password''
        then \<exists>p. password = Some p \<and> p \<noteq> [] \<and> body_prop (Some body) ''password'' = Some (JStr p)
        else body_prop (Some body) ''password'' = None) \<and>
       (case set_var expiresAt of
          None \<Rightarrow> body_prop (Some body) ''expires_at'' = None
        | Some s \<Rightarrow> \<exists>t. date_parse rt s = Some t \<and> fst (pf_now pf (aw_net w)) < t \<and>
            body_prop (Some body) ''expires_at'' = Some (JStr (toISOString t))) \<and>
       (\<forall>v. x = Ok v \<longrightarrow>
          (\<exists>n0 reply. pf_fetch pf (api_call_of rt pf (''/v1/sites/'' @ siteId @ ''/access'') token (with_json ''PUT'' body)) n0 =
              (Inr reply, aw_net w1) \<and> 200 \<le> ar_status reply \<and> ar_status reply < 300)))"
proof -
  let ?mode = "if selection = ''unlisted'' then ''public'' else selection"
  let ?body = "\<lambda>expiry. access_body ?mode (selection = ''unlisted'') password expiry"
  obtain r w2 where e: "access_expiry rt pf expiresAt w = (r, w2)" by fastforce
  show ?thesis
  proof (cases "(?mode = ''password'' \<and> set_var password = None) \<or> (\<exists>m. r = Inl m)")
    case True
    with assms e access_expiry_sent [OF e] show ?thesis
      by (auto simp: setAccessAction_def refuse_def new_calls_def split: if_splits)
  next
    case False
    then obtain expiry where r: "r = Inr expiry" by (cases r) auto
    let ?act = "\<lambda>w. catch_api (api_bind (apiFetch rt pf (''/v1/sites/'' @ siteId @ ''/access'') (with_json ''PUT'' (?body expiry)) w)
        (\<lambda>result w2. (Inr (Ok result), revalidate [''/sites/'' @ siteId @ ''/settings'', ''/sites/'' @ siteId, ''/dashboard''] w2)))
        (\<lambda>err. Refused (access_message err ''Could not update access. Try again.'') None)"
    have act: "?act w2 = (x, w1)"
      using assms e r False unfolding setAccessAction_def api_setSiteAccess_def by (auto simp: Let_def)
    have "requests rt pf (''/v1/sites/'' @ siteId @ ''/access'') (with_json ''PUT'' (?body expiry)) ?act"
      by (rule requests_action [OF sends_apiFetch]) simp_all
    with act have log: "(\<exists>token. new_calls w w1 = [api_call_of rt pf (''/v1/sites/'' @ siteId @ ''/access'') token (with_json ''PUT'' (?body expiry))]) \<or>
        (new_calls w w1 = [] \<and> (\<forall>v. x \<noteq> Ok v))"
      using access_expiry_sent [OF e] unfolding requests_def new_calls_def by fastforce
    have pw: "if selection = ''password''
        then \<exists>p. password = Some p \<and> p \<noteq> [] \<and> body_prop (Some (?body expiry)) ''password'' = Some (JStr p)
        else body_prop (Some (?body expiry)) ''password'' = None"
      using False by (auto simp: access_body_props set_var_def split: option.splits if_splits)
    have ex: "case set_var expiresAt of
          None \<Rightarrow> body_prop (Some (?body expiry)) ''expires_at'' = None
        | Some s \<Rightarrow> \<exists>t. date_parse rt s = Some t \<and> fst (pf_now pf (aw_net w)) < t \<and>
            body_prop (Some (?body expiry)) ''expires_at'' = Some (JStr (toISOString t))"
      using access_expiry_ok [OF e [unfolded r]]
      by (auto simp: access_body_props set_var_def toISOString_not_Nil)
    let ?call = "\<lambda>token. api_call_of rt pf (''/v1/sites/'' @ siteId @ ''/access'') token (with_json ''PUT'' (?body expiry))"
    have ok: "\<exists>token n0 reply. new_calls w w1 = [?call token] \<and> pf_fetch pf (?call token) n0 = (Inr reply, aw_net w1) \<and>
        200 \<le> ar_status reply \<and> ar_status reply < 300" if "x = Ok v" for v
      by (rule action_answer [OF act [unfolded that] access_expiry_sent [OF e]]) simp
    have "(new_calls w w1 = [] \<and> (\<forall>v. x \<noteq> Ok v)) \<or>
        (\<exists>token. new_calls w w1 = [?call token] \<and> (\<forall>v. x = Ok v \<longrightarrow>
           (\<exists>n0 reply. pf_fetch pf (?call token) n0 = (Inr reply, aw_net w1) \<and> 200 \<le> ar_status reply \<and> ar_status reply < 300)))"
    proof (cases "\<exists>v. x = Ok v")
      case True
      then obtain v where "x = Ok v" by (rule exE)
      from ok [OF this] obtain token n0 reply where "new_calls w w1 = [?call token]"
        "pf_fetch pf (?call token) n0 = (Inr reply, aw_net w1)" "200 \<le> ar_status reply" "ar_status reply < 300"
        by (elim exE conjE) (rule that)
      then show ?thesis by (intro disjI2 exI [of _ token] conjI allI impI exI [of _ n0] exI [of _ reply])
    next
      case False
      then have "\<forall>v. x \<noteq> Ok v" by simp
      with log show ?thesis by (elim disjE exE conjE) (rule disjI2, rule exI, rule conjI, assumption, simp, rule disjI1, rule conjI)
    qed
    then show ?thesis
    proof (elim disjE exE conjE)
      fix token assume "new_calls w w1 = [?call token]" and a: "\<forall>v. x = Ok v \<longrightarrow>
           (\<exists>n0 reply. pf_fetch pf (?call token) n0 = (Inr reply, aw_net w1) \<and> 200 \<le> ar_status reply \<and> ar_status reply < 300)"
      then show ?thesis
        by (intro disjI2 exI [of _ token] exI [of _ "?body expiry"] conjI access_body_props(1,2) pw ex)
    qed (rule disjI1, rule conjI)
  qed
qed

text \<open>A password with an expiry in the future, on a platform whose clock stands at zero.\<close>

theorem access_change_is_what_was_chosen_witness:
  "\<exists>x w1 token body. setAccessAction sample_runtime sample_platform ''s1'' ''password'' (Some ''hunter2'') (Some ''2030-01-01T00:00:00Z'') booted = (x, w1) \<and>
     new_calls booted w1 = [api_call_of sample_runtime sample_platform ''/v1/sites/s1/access'' token (with_json ''PUT'' body)] \<and>
     body_prop (Some body) ''password'' = Some (JStr ''hunter2'')"
proof -
  let ?run = "setAccessAction sample_runtime sample_platform ''s1'' ''password'' (Some ''hunter2'') (Some ''2030-01-01T00:00:00Z'') booted"
  obtain x w1 where r: "?run = (x, w1)" by fastforce
  have "new_calls booted (snd ?run) \<noteq> []" by code_simp
  with access_change_is_what_was_chosen [OF r] r show ?thesis by auto
qed

section \<open>Hosts of custom domains\<close>

lemma host_no_dot_end:
  assumes "HOSTNAME_RE_test h"
  shows "\<not> endsWith h ''.''" "normalizeHost h = h"
proof -
  note f = host_is_fixed [OF assms]
  show dot: "\<not> endsWith h ''.''"
  proof
    assume "endsWith h ''.''"
    then obtain u where "h = u @ ''.''" by (auto simp: endsWith_iff)
    then have "[] \<in> set (split_on (CHR ''.'') h)" by (simp add: split_on_snoc)
    with assms show False by (auto simp: HOSTNAME_RE_test_def host_label_def list_all_iff Let_def)
  qed
  have "CHR '':'' \<notin> set h"
    using host_chars [OF assms] host_char_code by fastforce
  then have "lastIndexOf h (CHR '':'') = None" by (rule lastIndexOf_None)
  with f(1) dot show "normalizeHost h = h" by (simp add: normalizeHost_def Let_def)
qed

lemma recorded_domain:
  assumes "recordDomainAdded pf env siteId domain h w tm = (w1, tm1)"
  shows "aw_sent w1 = aw_sent w \<and> (telemetry_ok env tm \<longrightarrow> telemetry_ok env tm1)"
proof -
  obtain session w2 where s: "getCurrentSession pf w = (session, w2)" by fastforce
  then have "aw_sent w2 = aw_sent w" by (auto simp: getCurrentSession_def split: option.splits prod.splits)
  moreover have "w1 = w2" "tm1 = tm \<or> (\<exists>u org i host. tm1 = snd (captureDomainAdded env u org siteId i host tm))"
    using assms s by (auto simp: recordDomainAdded_def Let_def split: option.splits sum.splits)
  moreover have "telemetry_ok env (snd (captureDomainAdded env u org siteId i host tm))" if "telemetry_ok env tm" for u org i host
    using that by (simp add: captureDomainAdded_def event_ok)
  ultimately show ?thesis by auto
qed

text \<open>
  C35. A custom domain is one that the edge can find. \<open>addDomainAction\<close> sends at most one request,
  and only for a host name that is a DNS name outside the platform's own domain and that the edge
  leaves as it is, so that the route is found under it for every spelling in the Host header; the
  event for it is captured only after the API has accepted the domain, and is labelled.
\<close>

theorem custom_domain_is_found_by_the_edge:
  assumes "addDomainAction rt pf env siteId raw w tm = (x, w1, tm1)"
  shows "(new_calls w w1 = [] \<or>
      (\<exists>token. new_calls w w1 = [api_call_of rt pf (''/v1/sites/'' @ siteId @ ''/domains'') token
           (with_json ''POST'' (js_obj [(''hostname'', Some (JStr (typed_hostname raw)))]))] \<and>
         HOSTNAME_RE_test (typed_hostname raw) \<and> \<not> isPlatformContentHost (typed_hostname raw) \<and>
         (\<forall>host. toLowerCase host = typed_hostname raw \<longrightarrow> routeKey host = ''route:'' @ typed_hostname raw))) \<and>
    (tm1 \<noteq> tm \<longrightarrow> (\<exists>v. x = Ok v) \<and> new_calls w w1 \<noteq> []) \<and>
    (telemetry_ok env tm \<longrightarrow> telemetry_ok env tm1)"
proof (cases "HOSTNAME_RE_test (typed_hostname raw) \<and> \<not> endsWith (typed_hostname raw) ''.dropwaycontent.com''")
  case False
  with assms show ?thesis by (auto simp: addDomainAction_def new_calls_def Let_def split: if_splits)
next
  case True
  let ?h = "typed_hostname raw"
  obtain r w2 where r: "api_addDomain rt pf siteId ?h w = (r, w2)" by fastforce
  note sent = apiFetch_log [OF r [unfolded api_addDomain_def]]
  have key: "routeKey host = ''route:'' @ ?h" if "toLowerCase host = ?h" for host
    using host_no_dot_end(2) [of ?h] True normalizeHost_lower [of host] that by (simp add: routeKey_def)
  have plat: "\<not> isPlatformContentHost ?h" using True by (simp add: isPlatformContentHost_def CONTENT_SUFFIX_def)
  show ?thesis
  proof (cases r)
    case (Inl e)
    with assms r True have "w1 = w2" "tm1 = tm" by (auto simp: addDomainAction_def Let_def)
    with sent True key plat show ?thesis by (auto simp: new_calls_def)
  next
    case (Inr domain)
    let ?w3 = "revalidate [''/sites/'' @ siteId @ ''/domains''] w2"
    from assms r True Inr have x: "x = Ok domain" "recordDomainAdded pf env siteId domain ?h ?w3 tm = (w1, tm1)"
      by (auto simp: addDomainAction_def Let_def)
    have "aw_sent w1 = aw_sent w2 \<and> (telemetry_ok env tm \<longrightarrow> telemetry_ok env tm1)"
      using recorded_domain [OF x(2)] by simp
    with sent Inr True key plat x(1) show ?thesis by (auto simp: new_calls_def)
  qed
qed

theorem custom_domain_is_found_by_the_edge_witness:
  "\<exists>x w1 tm1. addDomainAction sample_runtime sample_platform \<lparr>se_vars = (\<lambda>k. None), se_window = False\<rparr> ''s1'' '' Docs.Acme.com. '' booted no_telemetry = (x, w1, tm1) \<and>
     new_calls booted w1 \<noteq> [] \<and> typed_hostname '' Docs.Acme.com. '' = ''docs.acme.com'' \<and>
     routeKey ''DOCS.acme.com'' = ''route:docs.acme.com''"
proof -
  let ?run = "addDomainAction sample_runtime sample_platform \<lparr>se_vars = (\<lambda>k. None), se_window = False\<rparr> ''s1'' '' Docs.Acme.com. '' booted no_telemetry"
  obtain x w1 tm1 where r: "?run = (x, w1, tm1)" by (metis prod_cases3)
  have n: "new_calls booted (fst (snd ?run)) \<noteq> []" by code_simp
  have h: "typed_hostname '' Docs.Acme.com. '' = ''docs.acme.com''" "toLowerCase ''DOCS.acme.com'' = ''docs.acme.com''" by code_simp+
  from custom_domain_is_found_by_the_edge [OF r] n r h show ?thesis by auto
qed

end
