(* ===== verification/Dash_Policies.thy ===== *)
theory Dash_Policies
  imports Dash_Settings
begin

text \<open>
  The server actions for the organisation: its policies (\<open>settings/actions.ts\<close>), API keys
  (\<open>settings/api-keys/actions.ts\<close>), company memory (\<open>settings/memory/actions.ts\<close>) and billing
  (\<open>billing/actions.ts\<close>).
\<close>

section \<open>Policies\<close>

definition setAllowExternalSharingAction ::
  "runtime \<Rightarrow> 'n platform \<Rightarrow> bool \<Rightarrow> 'n api_world \<Rightarrow> json option outcome \<times> 'n api_world" where
  "setAllowExternalSharingAction rt pf enabled w =
     catch_api
       (api_bind (api_setAllowExternalSharing rt pf enabled w)
         (\<lambda>result w1. (Inr (Ok result), revalidate [''/settings'', ''/dashboard''] w1)))
       (\<lambda>err. Refused (role_message err ''Only owners and admins can change this policy.''
                 ''Could not update the policy. Try again.'') None)"

definition setMcpEnabledAction ::
  "runtime \<Rightarrow> 'n platform \<Rightarrow> bool \<Rightarrow> 'n api_world \<Rightarrow> json option outcome \<times> 'n api_world" where
  "setMcpEnabledAction rt pf enabled w =
     catch_api
       (api_bind (api_setMcpEnabled rt pf enabled w)
         (\<lambda>result w1. (value_of ''mcp_enabled'' result, revalidate [''/settings''] w1)))
       (\<lambda>err. Refused (role_message err ''Only owners and admins can change MCP access.''
                 ''Could not update MCP access. Try again.'') None)"

definition setMemoryEnabledAction ::
  "runtime \<Rightarrow> 'n platform \<Rightarrow> bool \<Rightarrow> 'n api_world \<Rightarrow> json option outcome \<times> 'n api_world" where
  "setMemoryEnabledAction rt pf enabled w =
     catch_api
       (api_bind (api_setMemoryEnabled rt pf enabled w)
         (\<lambda>result w1. (value_of ''memory_enabled'' result, revalidate [''/settings'', ''/settings/memory''] w1)))
       (\<lambda>err. Refused (role_message err ''Only owners and admins can change the memory setting.''
                 ''Could not update the memory setting. Try again.'') None)"

definition setChatLogsEnabledAction ::
  "runtime \<Rightarrow> 'n platform \<Rightarrow> bool \<Rightarrow> 'n api_world \<Rightarrow> json option outcome \<times> 'n api_world" where
  "setChatLogsEnabledAction rt pf enabled w =
     catch_api
       (api_bind (api_setChatSettings rt pf enabled w)
         (\<lambda>result w1. (value_of ''enabled'' result, revalidate [''/settings'', ''/chats''] w1)))
       (\<lambda>err. Refused (role_message err ''Only owners and admins can change chat-log sharing.''
                 ''Could not update the chat-logs setting. Try again.'') None)"

section \<open>API keys\<close>

definition key_message :: "api_error \<Rightarrow> string \<Rightarrow> string \<Rightarrow> json" where
  "key_message err fallback forbidden =
     api_message err
       (\<lambda>status body. if status = 403 then forbidden else if status = 404 then ''That key no longer exists.'' else fallback)
       API_UNREACHABLE"

definition createApiKeyAction ::
  "runtime \<Rightarrow> 'n platform \<Rightarrow> string \<Rightarrow> 'n api_world \<Rightarrow> json option outcome \<times> 'n api_world" where
  "createApiKeyAction rt pf rawName w =
     (let name = js_trim rawName
      in if name = [] then refuse ''Give the key a name.'' w
         else
           catch_api
             (api_bind (api_createApiKey rt pf name w) (\<lambda>key w1. (Inr (Ok key), revalidate [''/settings/api-keys''] w1)))
             (\<lambda>err. Refused (key_message err ''Could not create the key. Try again.''
                       ''Only owners and admins can create API keys.'') None))"

definition revokeApiKeyAction ::
  "runtime \<Rightarrow> 'n platform \<Rightarrow> string \<Rightarrow> 'n api_world \<Rightarrow> json option outcome \<times> 'n api_world" where
  "revokeApiKeyAction rt pf i w =
     catch_api
       (api_bind (api_revokeApiKey rt pf i w) (\<lambda>key w1. (Inr (Ok key), revalidate [''/settings/api-keys''] w1)))
       (\<lambda>err. Refused (key_message err ''Could not revoke the key. Try again.''
                 ''Only owners and admins can revoke API keys.'') None)"

definition setApiKeysEnabledAction ::
  "runtime \<Rightarrow> 'n platform \<Rightarrow> bool \<Rightarrow> 'n api_world \<Rightarrow> json option outcome \<times> 'n api_world" where
  "setApiKeysEnabledAction rt pf enabled w =
     catch_api
       (api_bind (api_setApiKeysEnabled rt pf enabled w)
         (\<lambda>result w1. (value_of ''api_keys_enabled'' result, revalidate [''/settings/api-keys'', ''/settings''] w1)))
       (\<lambda>err. Refused (key_message err ''Could not update the API-keys setting. Try again.''
                 ''Only owners and admins can change API-key access.'') None)"

section \<open>Company memory\<close>

definition isQuota :: "nat \<Rightarrow> json \<Rightarrow> bool" where
  "isQuota status body = (status = 422 \<and> body_prop (Some body) ''error'' = Some (JStr ''quota''))"

definition memory_message :: "api_error \<Rightarrow> string \<Rightarrow> string \<Rightarrow> json" where
  "memory_message err fallback forbidden =
     api_message err
       (\<lambda>status body. if status = 403 then forbidden
          else if status = 404 then ''That memory no longer exists.''
          else if isQuota status body
          then ''Your organization is at its memory limit. Delete or disable some memories to make room.''
          else fallback)
       API_UNREACHABLE"

definition createMemoryAction ::
  "runtime \<Rightarrow> 'n platform \<Rightarrow> string \<Rightarrow> string option \<Rightarrow> 'n api_world \<Rightarrow> (json option \<times> json) outcome \<times> 'n api_world" where
  "createMemoryAction rt pf rawContent kind w =
     (let content = js_trim rawContent
      in if content = [] then refuse ''Write something to remember.'' w
         else
           catch_api
             (api_bind (api_createMemory rt pf content kind w)
               (\<lambda>result w1. (Inr (Ok result), revalidate [''/settings/memory'', ''/settings''] w1)))
             (\<lambda>err. Refused (memory_message err ''Could not save the memory. Try again.''
                       ''Company memory is turned off for your organization.'') None))"

record memory_patch =
  mp_content :: "string option"
  mp_kind :: "string option"
  mp_pinned :: "bool option"
  mp_disabled :: "bool option"

definition patch_body :: "memory_patch \<Rightarrow> json" where
  "patch_body p =
     js_obj [(''content'', str_prop_of (mp_content p)), (''kind'', str_prop_of (mp_kind p)),
             (''pinned'', map_option JBool (mp_pinned p)), (''disabled'', map_option JBool (mp_disabled p))]"

definition patchMemoryAction ::
  "runtime \<Rightarrow> 'n platform \<Rightarrow> string \<Rightarrow> memory_patch \<Rightarrow> 'n api_world \<Rightarrow> json option outcome \<times> 'n api_world" where
  "patchMemoryAction rt pf i p w =
     (if (case mp_content p of Some c \<Rightarrow> js_trim c = [] | None \<Rightarrow> False)
      then refuse (''A memory can'' @ CHR 0x27 # ''t be empty.'') w
      else
        catch_api
          (api_bind (api_patchMemory rt pf i (patch_body p) w)
            (\<lambda>memory w1. (Inr (Ok memory), revalidate [''/settings/memory''] w1)))
          (\<lambda>err. Refused (memory_message err ''Could not update the memory. Try again.''
                    ''Only owners and admins can edit memories.'') None))"

definition deleteMemoryAction ::
  "runtime \<Rightarrow> 'n platform \<Rightarrow> string \<Rightarrow> 'n api_world \<Rightarrow> unit outcome \<times> 'n api_world" where
  "deleteMemoryAction rt pf i w =
     catch_api
       (api_bind (api_deleteMemory rt pf i w)
         (\<lambda>r w1. (Inr (Ok ()), revalidate [''/settings/memory'', ''/settings''] w1)))
       (\<lambda>err. Refused (memory_message err ''Could not delete the memory. Try again.''
                 ''Only owners and admins can delete memories.'') None)"

definition searchMemoriesAction ::
  "runtime \<Rightarrow> 'n platform \<Rightarrow> string \<Rightarrow> int option \<Rightarrow> 'n api_world \<Rightarrow> json outcome \<times> 'n api_world" where
  "searchMemoriesAction rt pf rawQuery k w =
     (let query = js_trim rawQuery
      in if query = [] then refuse ''Type something to search for.'' w
         else
           catch_api
             (api_bind (api_searchMemories rt pf query k w) (\<lambda>memories w1. (Inr (Ok memories), w1)))
             (\<lambda>err. Refused (memory_message err ''Could not search memories. Try again.''
                       ''Company memory is turned off for your organization.'') None))"

section \<open>Billing\<close>

definition BILLING_UNREACHABLE :: string where
  "BILLING_UNREACHABLE = ''Could not reach the billing API. Try again.''"

definition checkoutErrorMessage :: "api_error \<Rightarrow> json" where
  "checkoutErrorMessage err =
     api_message err
       (\<lambda>status body. if status = 403 then ''Only owners and admins can change the plan.'' else ''Could not start checkout. Try again.'')
       BILLING_UNREACHABLE"

definition writeErrorMessage :: "api_error \<Rightarrow> json" where
  "writeErrorMessage err =
     api_message err
       (\<lambda>status body. if status = 403 then ''Only owners and admins can manage billing.''
          else ''Could not open the billing portal. Try again.'')
       BILLING_UNREACHABLE"

text \<open>\<open>const { key } = result; if (!key) ...\<close>: the URL of a hosted page, or a message.\<close>

definition hosted_url :: "string \<Rightarrow> json option \<Rightarrow> string \<Rightarrow> json outcome api_result" where
  "hosted_url key result missing =
     (case member result key of
        Inl e \<Rightarrow> Inl (OtherError e)
      | Inr url \<Rightarrow> Inr (if truthy url then Ok (the url) else Refused (JStr missing) None))"

definition createCheckoutAction ::
  "runtime \<Rightarrow> 'n platform \<Rightarrow> string \<Rightarrow> int option \<Rightarrow> bool option \<Rightarrow> 'n api_world \<Rightarrow> json outcome \<times> 'n api_world" where
  "createCheckoutAction rt pf targetTier seats localCurrency w =
     catch_api
       (api_bind
         (api_createCheckout rt pf targetTier (if seats = Some 0 then None else seats)
            (if localCurrency = Some True then Some True else None) w)
         (\<lambda>result w1. (hosted_url ''checkout_url'' result ''Stripe did not return a checkout URL. Try again.'', w1)))
       (\<lambda>err. Refused (checkoutErrorMessage err) None)"

datatype portal_outcome = Portal json | NoPortal string json

fun portal_error :: "api_error \<Rightarrow> portal_outcome" where
  "portal_error (ApiError status m body) =
     (if status = 409 then NoPortal ''no_customer'' (JStr ''No subscription yet. Start a plan first to manage billing.'')
      else NoPortal ''error'' (writeErrorMessage (ApiError status m body)))"
| "portal_error (OtherError e) = NoPortal ''error'' (writeErrorMessage (OtherError e))"

definition createPortalAction ::
  "runtime \<Rightarrow> 'n platform \<Rightarrow> 'n api_world \<Rightarrow> portal_outcome \<times> 'n api_world" where
  "createPortalAction rt pf w =
     catch_api
       (api_bind (api_createPortal rt pf w)
         (\<lambda>result w1. (case hosted_url ''portal_url'' result ''Stripe did not return a portal URL. Try again.'' of
              Inl e \<Rightarrow> Inl e
            | Inr (Ok url) \<Rightarrow> Inr (Portal url)
            | Inr (Refused message quota) \<Rightarrow> Inr (NoPortal ''error'' message), w1)))
       portal_error"

text \<open>The plan, or \<open>None\<close> for unavailable.\<close>

definition getBillingPlanAction ::
  "runtime \<Rightarrow> 'n platform \<Rightarrow> 'n api_world \<Rightarrow> json option option \<times> 'n api_world" where
  "getBillingPlanAction rt pf w =
     catch_api (api_bind (api_getBilling rt pf w) (\<lambda>plan w1. (Inr (Some plan), w1))) (\<lambda>err. None)"

section \<open>One request each\<close>

lemma sends_created: "sends rt pf path init (created_memory \<circ> apiFetch rt pf path init)"
  by (rule sends_through [OF sends_apiFetch]) (auto simp: created_memory_def split: sum.splits)

lemmas policy_defs = setAllowExternalSharingAction_def setMcpEnabledAction_def setMemoryEnabledAction_def
  setChatLogsEnabledAction_def createApiKeyAction_def revokeApiKeyAction_def setApiKeysEnabledAction_def
  createMemoryAction_def patchMemoryAction_def deleteMemoryAction_def
  api_setAllowExternalSharing_def api_setMcpEnabled_def api_setMemoryEnabled_def api_setChatSettings_def
  api_createApiKey_def api_revokeApiKey_def api_setApiKeysEnabled_def api_createMemory_def api_patchMemory_def
  api_deleteMemory_def

abbreviation flag_body :: "string \<Rightarrow> bool \<Rightarrow> json" where
  "flag_body key b \<equiv> js_obj [(key, Some (JBool b))]"

text \<open>
  Each policy action sends one request. An action on the organisation's switches, keys and
  memories that reports success has sent exactly the request for it, with the value that was
  chosen, and otherwise has sent at most this request.
\<close>

theorem policy_actions_send_their_request:
  "requests rt pf ''/v1/orgs/allow-external-sharing'' (with_json ''PUT'' (flag_body ''enabled'' b)) (setAllowExternalSharingAction rt pf b) \<and>
   requests rt pf ''/v1/orgs/mcp'' (with_json ''PATCH'' (flag_body ''enabled'' b)) (setMcpEnabledAction rt pf b) \<and>
   requests rt pf ''/v1/orgs/memory'' (with_json ''PATCH'' (flag_body ''memory_enabled'' b)) (setMemoryEnabledAction rt pf b) \<and>
   requests rt pf ''/v1/api-keys'' (with_json ''POST'' (js_obj [(''name'', Some (JStr (js_trim name)))])) (createApiKeyAction rt pf name) \<and>
   requests rt pf (''/v1/api-keys/'' @ encodeURIComponent i) (without_body ''DELETE'') (revokeApiKeyAction rt pf i) \<and>
   requests rt pf ''/v1/orgs/api-keys'' (with_json ''PATCH'' (flag_body ''enabled'' b)) (setApiKeysEnabledAction rt pf b) \<and>
   requests rt pf (''/v1/ai/memories/'' @ encodeURIComponent i) (with_json ''PATCH'' (patch_body p)) (patchMemoryAction rt pf i p) \<and>
   requests rt pf (''/v1/ai/memories/'' @ encodeURIComponent i) (without_body ''DELETE'') (deleteMemoryAction rt pf i)"
  unfolding policy_defs Let_def
  by (intro conjI requests_guard requests_action sends_rules) simp_all

end
