(* ===== verification/Dash_Members.thy ===== *)
theory Dash_Members
  imports Dash_Settings
begin

text \<open>
  Members and oversight of an organisation: \<open>app/(app)/members/actions.ts\<close>, \<open>lib/org.ts\<close>,
  \<open>lib/sites-visibility.ts\<close>, \<open>lib/audit.ts\<close> and \<open>lib/audit-actions.ts\<close>.

  What the code calls of Better Auth is a parameter, the record \<open>auth_api\<close>, on the same outside
  state as the network; its answers are read at their declared types. The sessions that were
  deleted are a list beside the world.
\<close>

section \<open>Better Auth\<close>

datatype stamp = DateStamp int | TextStamp string

record auth_user =
  au_id :: "string option"
  au_email :: "string option"
  au_name :: "string option"

record auth_member =
  am_id :: "string option"
  am_role :: "string option"
  am_createdAt :: "stamp option"
  am_userId :: "string option"
  am_user :: "auth_user option"

record auth_invitation =
  ai_id :: "string option"
  ai_email :: "string option"
  ai_role :: "string option"
  ai_status :: "string option"
  ai_expiresAt :: "stamp option"

record auth_org =
  ao_id :: "string option"
  ao_name :: "string option"
  ao_slug :: "string option"
  ao_members :: "auth_member list option"
  ao_invitations :: "auth_invitation list option"

text \<open>
  \<open>removeMember\<close> answers with the member it removed or throws a value; \<open>deleteUserSessions\<close> may
  fail; the reads of the organisation and of the own membership are \<open>None\<close> when they fail.
\<close>

datatype removal_reply = MemberRemoved "json option" | RemovalThrew "json option"

record 'n auth_api =
  aa_removeMember :: "string \<Rightarrow> 'n \<Rightarrow> removal_reply \<times> 'n"
  aa_deleteUserSessions :: "string \<Rightarrow> 'n \<Rightarrow> unit result \<times> 'n"
  aa_getFullOrganization :: "'n \<Rightarrow> auth_org option \<times> 'n"
  aa_getActiveMember :: "'n \<Rightarrow> string option option \<times> 'n"

section \<open>Revocation\<close>

datatype revoke_outcome = RevokedSince "json option" | RevokeUnavailable | RevokeFailed json

fun revoke_error :: "api_error \<Rightarrow> revoke_outcome" where
  "revoke_error (ApiError status m body) =
     (if status = 404 then RevokeUnavailable
      else RevokeFailed (role_message (ApiError status m body) ''Only owners and admins can revoke access.''
                           ''Could not revoke access. Try again.''))"
| "revoke_error (OtherError e) = RevokeFailed (JStr API_UNREACHABLE)"

definition revokeAccessAction ::
  "runtime \<Rightarrow> 'n platform \<Rightarrow> string \<Rightarrow> string \<Rightarrow> 'n api_world \<Rightarrow> revoke_outcome \<times> 'n api_world" where
  "revokeAccessAction rt pf kind i w =
     (if i = [] then (RevokeFailed (JStr ''Nothing to revoke.''), w)
      else
        catch_api
          (api_bind (api_revokeAccess rt pf kind i w)
            (\<lambda>result w1. (case member result ''min_iat'' of Inl e \<Rightarrow> Inl (OtherError e) | Inr v \<Rightarrow> Inr (RevokedSince (present v)),
               revalidate [''/members'', ''/audit''] w1)))
          revoke_error)"

section \<open>Members\<close>

datatype preflight_outcome = MayInvite | MayNotInvite bool json "json option"

text \<open>The message and the link of a reached cap.\<close>

definition cap_message :: "runtime \<Rightarrow> json \<Rightarrow> string" where
  "cap_message rt body =
     (let limit_part = (if truthy (body_prop (Some body) ''max'') then '' ('' @ js_String rt (the (body_prop (Some body) ''max'')) @ '')'' else []);
          next_tier = body_prop (Some body) ''next_tier''
      in if next_tier = Some (JStr ''contact_sales'')
         then ''Your organization is at its member limit'' @ limit_part @ ''. Contact sales to add more members.''
         else ''Your organization is at its member limit'' @ limit_part @ ''. Upgrade'' @
           (if truthy next_tier then '' to '' @ js_String rt (the next_tier) else []) @ '' to invite more members.'')"

fun preflight_error :: "runtime \<Rightarrow> api_error \<Rightarrow> preflight_outcome" where
  "preflight_error rt (ApiError status m body) =
     (if status = 402
      then MayNotInvite True (JStr (cap_message rt body))
             (case present (body_prop (Some body) ''upgrade_url'') of
                Some u \<Rightarrow> Some u | None \<Rightarrow> body_prop (Some body) ''sales_url'')
      else MayNotInvite False (message_or body ''Could not check member limits. Try again.'') None)"
| "preflight_error rt (OtherError e) = MayNotInvite False (JStr API_UNREACHABLE) None"

definition preflightMembersAction ::
  "runtime \<Rightarrow> 'n platform \<Rightarrow> 'n api_world \<Rightarrow> preflight_outcome \<times> 'n api_world" where
  "preflightMembersAction rt pf w =
     catch_api (api_bind (api_preflightMembers rt pf w) (\<lambda>r w1. (Inr MayInvite, w1))) (preflight_error rt)"

definition recordInviteSentAction ::
  "runtime \<Rightarrow> 'n platform \<Rightarrow> string \<Rightarrow> string \<Rightarrow> 'n api_world \<Rightarrow> unit \<times> 'n api_world" where
  "recordInviteSentAction rt pf email role w =
     catch_api (api_bind (api_recordMemberInvite rt pf email role w) (\<lambda>r w1. (Inr (), revalidate [''/audit''] w1))) (\<lambda>err. ())"

definition recordMemberJoinAction :: "runtime \<Rightarrow> 'n platform \<Rightarrow> 'n api_world \<Rightarrow> unit \<times> 'n api_world" where
  "recordMemberJoinAction rt pf w =
     catch_api (api_bind (api_recordMemberJoin rt pf w) (\<lambda>r w1. (Inr (), w1))) (\<lambda>err. ())"

datatype removal = Removed revoke_outcome | NotRemoved json

text \<open>
  Sessions first, at best effort, then the denylist. \<open>killed\<close> is the list of the users whose
  sessions Better Auth was told to delete.
\<close>

definition finalizeMemberRevocation ::
  "runtime \<Rightarrow> 'n platform \<Rightarrow> 'n auth_api \<Rightarrow> string \<Rightarrow> 'n api_world \<Rightarrow> string list
   \<Rightarrow> revoke_outcome \<times> 'n api_world \<times> string list" where
  "finalizeMemberRevocation rt pf aa userId w killed =
     (case aa_deleteUserSessions aa userId (aw_net w) of
        (r, n1) \<Rightarrow>
          (case revokeAccessAction rt pf ''user'' userId (w\<lparr>aw_net := n1\<rparr>) of
             (x, w1) \<Rightarrow> (x, w1, killed @ [userId])))"

definition removed_user :: "json option \<Rightarrow> string option" where
  "removed_user res = set_var (as_string (body_prop (body_prop res ''member'') ''userId''))"

definition thrown_message :: "json option \<Rightarrow> json" where
  "thrown_message err =
     (case present (body_prop (body_prop err ''body'') ''message'') of
        Some m \<Rightarrow> m
      | None \<Rightarrow> (case present (body_prop err ''message'') of Some m \<Rightarrow> m | None \<Rightarrow> JStr ''Could not remove the member.''))"

definition removeMemberAction ::
  "runtime \<Rightarrow> 'n platform \<Rightarrow> 'n auth_api \<Rightarrow> string \<Rightarrow> 'n api_world \<Rightarrow> string list
   \<Rightarrow> removal \<times> 'n api_world \<times> string list" where
  "removeMemberAction rt pf aa memberId w killed =
     (if memberId = [] then (NotRemoved (JStr ''Missing member.''), w, killed)
      else
        (case aa_removeMember aa memberId (aw_net w) of
           (reply, n1) \<Rightarrow>
             (let w1 = w\<lparr>aw_net := n1\<rparr>
              in (case reply of
                    RemovalThrew err \<Rightarrow> (NotRemoved (thrown_message err), w1, killed)
                  | MemberRemoved res \<Rightarrow>
                      (case removed_user res of
                         None \<Rightarrow> (NotRemoved (JStr ''Could not remove the member. Try again.''), w1, killed)
                       | Some uid \<Rightarrow>
                           (case finalizeMemberRevocation rt pf aa uid w1 killed of
                              (x, w2, killed1) \<Rightarrow> (Removed x, w2, killed1)))))))"

section \<open>The active organisation\<close>

datatype Role = Owner | Admin | Member

definition asRole :: "string option \<Rightarrow> Role" where
  "asRole v = (if v = Some ''owner'' then Owner else if v = Some ''admin'' then Admin else Member)"

record OrgMember =
  om_id :: string
  om_userId :: string
  om_email :: string
  om_name :: "string option"
  om_role :: Role
  om_createdAt :: "string option"








text \<open>The outer option is a failed lookup, the inner one a missing role.\<close>

definition loadActiveRole :: "'n auth_api \<Rightarrow> 'n api_world \<Rightarrow> Role \<times> 'n api_world" where
  "loadActiveRole aa w =
     (case aa_getActiveMember aa (aw_net w) of
        (m, n1) \<Rightarrow> (asRole (case m of Some role \<Rightarrow> role | None \<Rightarrow> None), w\<lparr>aw_net := n1\<rparr>))"

section \<open>Who sees which site\<close>



definition ownerLabel :: "string option \<Rightarrow> string option \<Rightarrow> OrgMember list \<Rightarrow> string" where
  "ownerLabel ownerId viewerId members =
     (case set_var ownerId of
        None \<Rightarrow> ''A teammate''
      | Some owner \<Rightarrow>
          if set_var viewerId = Some owner then ''You''
          else
            (let m = find (\<lambda>m. om_userId m = owner) members;
                 label = (case m of Some m \<Rightarrow> or_text (om_name m) (om_email m) | None \<Rightarrow> [])
             in if label \<noteq> [] then label else ''A teammate''))"








section \<open>The audit log\<close>

definition AUDIT_PAGE_SIZE :: int where
  "AUDIT_PAGE_SIZE = 25"

record AuditLoad =
  al_available :: bool
  al_forbidden :: bool
  al_error :: "string option"
  al_events :: "json list"
  al_page :: int
  al_pageSize :: int
  al_total :: "rat option"
  al_hasNext :: bool
  al_hasPrev :: bool

definition safe_page :: "jsnum \<Rightarrow> int" where
  "safe_page page = (case page of Fin q \<Rightarrow> if 0 < q then \<lfloor>q\<rfloor> else 0 | _ \<Rightarrow> 0)"

fun audit_status :: "api_error \<Rightarrow> nat" where
  "audit_status (ApiError status m body) = status"
| "audit_status (OtherError e) = 0"

definition audit_failed :: "int \<Rightarrow> api_error \<Rightarrow> AuditLoad" where
  "audit_failed p err =
     (let status = audit_status err
      in \<lparr>al_available = (status \<noteq> 404 \<and> status \<noteq> 403), al_forbidden = (status = 403),
          al_error = (if status = 404 \<or> status = 403 then None else Some (''Couldn'' @ CHR 0x27 # ''t load the audit log. Try again.'')),
          al_events = [], al_page = p, al_pageSize = AUDIT_PAGE_SIZE, al_total = None,
          al_hasNext = False, al_hasPrev = (0 < p)\<rparr>)"

definition audit_loaded :: "int \<Rightarrow> AuditPage \<Rightarrow> AuditLoad" where
  "audit_loaded p res =
     (let total = (case ap_total res of Some (JNum (Fin q)) \<Rightarrow> Some q | _ \<Rightarrow> None);
          events = json_list (Some (ap_events res))
      in \<lparr>al_available = True, al_forbidden = False, al_error = None, al_events = events, al_page = p,
          al_pageSize = AUDIT_PAGE_SIZE, al_total = total,
          al_hasNext = (case total of Some t \<Rightarrow> of_int ((p + 1) * AUDIT_PAGE_SIZE) < t
                        | None \<Rightarrow> int (length events) = AUDIT_PAGE_SIZE),
          al_hasPrev = (0 < p)\<rparr>)"

definition loadAuditPage :: "runtime \<Rightarrow> 'n platform \<Rightarrow> jsnum \<Rightarrow> 'n api_world \<Rightarrow> AuditLoad \<times> 'n api_world" where
  "loadAuditPage rt pf page w =
     (let p = safe_page page
      in catch_api
           (api_bind (api_listAudit rt pf (Some AUDIT_PAGE_SIZE) (Some (p * AUDIT_PAGE_SIZE)) w)
             (\<lambda>res w1. (Inr (audit_loaded p res), w1)))
           (audit_failed p))"

text \<open>The patterns of \<open>SECURITY_ACTION_PATTERNS\<close>, as the texts they stand for, and the one prefix.\<close>

definition SECURITY_ACTION_PATTERNS :: "string list" where
  "SECURITY_ACTION_PATTERNS =
     [''revoke'', ''unshare'', ''external_sharing'', ''external.sharing'',
      ''access_mode'', ''access_change'', ''access.mode'', ''access.change'', ''.access_'', ''.access.'',
      ''allowlist'', ''suspend'', ''billing.suspended'', ''billing.past_due'', ''token.revoked'', ''token.issued'', ''password'']"

definition MEMBER_ACTIONS :: "string list" where
  "MEMBER_ACTIONS = [''member.removed'', ''member.role'', ''member.invite'', ''member.join'']"

definition isSecurityAction :: "string option \<Rightarrow> bool" where
  "isSecurityAction action =
     (case set_var action of
        None \<Rightarrow> False
      | Some a \<Rightarrow> includes_any a SECURITY_ACTION_PATTERNS \<or> list_ex (startsWith (toLowerCase a)) MEMBER_ACTIONS)"

section \<open>Removal\<close>

definition revoke_body :: "string \<Rightarrow> string \<Rightarrow> json" where
  "revoke_body kind i = js_obj [(''kind'', Some (JStr kind)), (''id'', Some (JStr i))]"

abbreviation revoke_call :: "runtime \<Rightarrow> 'n platform \<Rightarrow> string \<Rightarrow> string \<Rightarrow> string option \<Rightarrow> api_call" where
  "revoke_call rt pf kind i token \<equiv> api_call_of rt pf ''/v1/orgs/revoke-access'' token (with_json ''POST'' (revoke_body kind i))"

lemma revokeAccess_log:
  assumes "revokeAccessAction rt pf kind i w = (x, w1)"
  shows "new_calls w w1 = [] \<or> (\<exists>token. new_calls w w1 = [revoke_call rt pf kind i token])"
    and "x = RevokedSince v \<Longrightarrow> \<exists>token n0 res. new_calls w w1 = [revoke_call rt pf kind i token] \<and>
      pf_fetch pf (revoke_call rt pf kind i token) n0 = (Inr res, aw_net w1) \<and> 200 \<le> ar_status res \<and> ar_status res < 300"
proof -
  obtain r w2 where r: "api_revokeAccess rt pf kind i w = (r, w2)" by fastforce
  have same: "i \<noteq> [] \<Longrightarrow> aw_sent w1 = aw_sent w2 \<and> aw_net w1 = aw_net w2"
    using assms r by (auto simp: revokeAccessAction_def catch_api_def api_bind_def split: sum.splits prod.splits)
  note f = r [unfolded api_revokeAccess_def, folded revoke_body_def]
  show "new_calls w w1 = [] \<or> (\<exists>token. new_calls w w1 = [revoke_call rt pf kind i token])"
    using apiFetch_log [OF f] same assms by (cases "i = []") (auto simp: new_calls_def revokeAccessAction_def)
  assume x: "x = RevokedSince v"
  have no: "revoke_error e \<noteq> RevokedSince v" for e by (cases e) auto
  then have i: "i \<noteq> []" and "\<exists>y. r = Inr y"
    using assms r x by (auto simp: revokeAccessAction_def catch_api_def api_bind_def split: sum.splits prod.splits if_splits)
  then obtain y where "r = Inr y" by blast
  with apiFetch_answer f same [OF i]
  show "\<exists>token n0 res. new_calls w w1 = [revoke_call rt pf kind i token] \<and>
      pf_fetch pf (revoke_call rt pf kind i token) n0 = (Inr res, aw_net w1) \<and> 200 \<le> ar_status res \<and> ar_status res < 300"
    by (fastforce simp: new_calls_def)
qed

text \<open>
  C32. Removing a member revokes exactly the removed user. Either \<open>removeMemberAction\<close> reports that
  nothing was removed, and then no session is deleted and no request is sent; or Better Auth has
  confirmed the removal, the deletion of the sessions of exactly the user it names is asked for, and at most
  one request is sent, the one that puts this user on the denylist of the edge. The action reports
  this user as revoked only if that request was sent and the API answered it with a 2xx status;
  otherwise it reports that the revocation failed or is not available.
\<close>

theorem removal_revokes_the_removed_user:
  assumes "removeMemberAction rt pf aa memberId w killed = (x, w1, killed1)"
  shows "((\<exists>message. x = NotRemoved message) \<and> killed1 = killed \<and> new_calls w w1 = []) \<or>
    (\<exists>res uid n1 rv. aa_removeMember aa memberId (aw_net w) = (MemberRemoved res, n1) \<and> removed_user res = Some uid \<and>
       killed1 = killed @ [uid] \<and> x = Removed rv \<and>
       (new_calls w w1 = [] \<or> (\<exists>token. new_calls w w1 = [revoke_call rt pf ''user'' uid token])) \<and>
       (\<forall>since. rv = RevokedSince since \<longrightarrow>
          (\<exists>token n0 reply. new_calls w w1 = [revoke_call rt pf ''user'' uid token] \<and>
             pf_fetch pf (revoke_call rt pf ''user'' uid token) n0 = (Inr reply, aw_net w1) \<and>
             200 \<le> ar_status reply \<and> ar_status reply < 300)))"
proof -
  obtain reply n1 where rm: "aa_removeMember aa memberId (aw_net w) = (reply, n1)" by fastforce
  show ?thesis
  proof (cases "memberId \<noteq> [] \<and> (\<exists>res uid. reply = MemberRemoved res \<and> removed_user res = Some uid)")
    case True
    then obtain res uid where r: "reply = MemberRemoved res" "removed_user res = Some uid" "memberId \<noteq> []" by auto
    obtain q n2 where s: "aa_deleteUserSessions aa uid n1 = (q, n2)" by fastforce
    obtain rv w2 where rv: "revokeAccessAction rt pf ''user'' uid (w\<lparr>aw_net := n2\<rparr>) = (rv, w2)" by fastforce
    have "x = Removed rv" "w1 = w2" "killed1 = killed @ [uid]"
      using assms rm r s rv by (auto simp: removeMemberAction_def finalizeMemberRevocation_def Let_def)
    moreover have "new_calls (w\<lparr>aw_net := n2\<rparr>) w2 = new_calls w w2" by (simp add: new_calls_def)
    ultimately show ?thesis using revokeAccess_log [OF rv] rm r by auto
  next
    case False
    with assms rm show ?thesis
      by (auto simp: removeMemberAction_def new_calls_def Let_def split: removal_reply.splits option.splits if_splits)
  qed
qed

definition sample_auth :: "bool auth_api" where
  "sample_auth =
     \<lparr>aa_removeMember = (\<lambda>m n. (MemberRemoved (Some (JObj [(''member'', JObj [(''userId'', JStr ''u7'')])])), n)),
      aa_deleteUserSessions = (\<lambda>u n. (Inr (), n)),
      aa_getFullOrganization = (\<lambda>n. (None, n)),
      aa_getActiveMember = (\<lambda>n. (None, n))\<rparr>"

theorem removal_revokes_the_removed_user_witness:
  "\<exists>x w1. removeMemberAction sample_runtime sample_platform sample_auth ''m1'' booted [] = (x, w1, [''u7''])"
proof -
  obtain x w1 k where r: "removeMemberAction sample_runtime sample_platform sample_auth ''m1'' booted [] = (x, w1, k)"
    by (metis prod_cases3)
  have "removed_user (Some (JObj [(''member'', JObj [(''userId'', JStr ''u7'')])])) = Some ''u7''" by code_simp
  then have "x \<noteq> NotRemoved message" for message
    using r by (auto simp: removeMemberAction_def sample_auth_def Let_def split: prod.splits)
  with removal_revokes_the_removed_user [OF r] \<open>removed_user _ = Some ''u7''\<close> have "k = [''u7'']"
    by (auto simp: sample_auth_def)
  with r show ?thesis by blast
qed

section \<open>The listing\<close>








section \<open>Audit pages\<close>

text \<open>
  Paging is complete: if the API answers with the slice of a fixed log and its length, then the
  page says that there is a next one exactly if events are left, and the pages up to the first
  without a next one are the log.
\<close>

definition log_page :: "json list \<Rightarrow> nat \<Rightarrow> AuditLoad" where
  "log_page events p =
     audit_loaded (int p) \<lparr>ap_events = JArr (take 25 (drop (p * 25) events)),
       ap_total = Some (JNum (Fin (of_nat (length events)))), ap_next_cursor = JNull\<rparr>"

lemma log_page_next: "al_hasNext (log_page events p) \<longleftrightarrow> drop (Suc p * 25) events \<noteq> []"
proof -
  have "of_int ((int p + 1) * 25) < (of_nat (length events) :: rat) \<longleftrightarrow> (int p + 1) * 25 < int (length events)"
    by (metis of_int_less_iff of_int_of_nat_eq)
  then show ?thesis by (auto simp: log_page_def audit_loaded_def AUDIT_PAGE_SIZE_def)
qed

lemma log_pages_are_the_log:
  assumes "\<not> al_hasNext (log_page events n)"
  shows "concat (map (\<lambda>p. al_events (log_page events p)) [0..<Suc n]) = events"
proof -
  have pages: "concat (map (\<lambda>p. al_events (log_page events p)) [0..<k]) = take (k * 25) events" for k
  proof (induction k)
    case (Suc k)
    have "take (Suc k * 25) events = take (k * 25) events @ take 25 (drop (k * 25) events)"
      using take_add [of "k * 25" 25 events] by (simp add: add.commute)
    with Suc show ?case by (simp add: log_page_def audit_loaded_def json_list_def)
  qed simp
  show ?thesis using assms pages [of "Suc n"] by (simp add: log_page_next del: upt_Suc mult_Suc)
qed

end
