(* ===== verification/Dash_Auth.thy ===== *)
theory Dash_Auth
  imports Dash_Env Dash_Allowlist
begin

text \<open>
  The behaviour of \<open>lib/auth.ts\<close>, with \<open>lib/oauth-ratelimit.ts\<close> and \<open>lib/mcp-oauth-ttl.ts\<close>: the memo of a user's
  organization, the hooks around Better Auth's requests, the claims it puts into its tokens and
  what it reports. Better Auth, its database and the clock are the host, a parameter; what the
  code keeps and emits is the world it passes on. Telemetry is sent without being awaited; here it
  is recorded where the code starts it.
\<close>

section \<open>The host and the world\<close>

text \<open>
  The query for the first membership answers with the organization of its first row, if there is
  one, or throws. \<open>ah_clients\<close> are the operations on OAuth clients and consents, and
  \<open>ah_verification\<close> reads the stored value of an authorization code.
\<close>

record 'n auth_host =
  ah_now :: "'n \<Rightarrow> int"
  ah_memberOrg :: "string \<Rightarrow> 'n \<Rightarrow> (thrown + string option) \<times> 'n"
  ah_clients :: "'n client_db"
  ah_verification :: "'n \<Rightarrow> string \<Rightarrow> json option result"

record org_entry =
  og_orgId :: string
  og_expiresAt :: int

text \<open>The console holds the level of a line, its text and the values logged with it.\<close>

record 'n auth_world =
  iw_db :: 'n
  iw_orgs :: "(string \<times> org_entry) list"
  iw_answers :: "(string \<times> string \<times> int) list"
  iw_console :: "(string \<times> string \<times> thrown list) list"
  iw_telemetry :: telemetry

definition log_line :: "string \<Rightarrow> string \<Rightarrow> thrown list \<Rightarrow> 'n auth_world \<Rightarrow> 'n auth_world" where
  "log_line level text args w = w\<lparr>iw_console := iw_console w @ [(level, text, args)]\<rparr>"

text \<open>A capture inside \<open>try { ... } catch {}\<close>.\<close>

definition capture_quietly :: "(telemetry \<Rightarrow> unit result \<times> telemetry) \<Rightarrow> 'n auth_world \<Rightarrow> 'n auth_world" where
  "capture_quietly f w = w\<lparr>iw_telemetry := snd (f (iw_telemetry w))\<rparr>"

definition reportConnectionIssue :: "server_env \<Rightarrow> string \<Rightarrow> thrown \<Rightarrow> 'n auth_world \<Rightarrow> string option \<times> 'n auth_world" where
  "reportConnectionIssue env whence err w =
     (case logIfConnectionCapacity whence err [] of
        (None, console) \<Rightarrow> (None, w)
      | (Some why, console) \<Rightarrow>
          (Some why,
           capture_quietly (captureDbCapacityIssue env why whence (thrown_text err) None)
             (fold (\<lambda>line. log_line ''error'' line []) console w)))"

definition pool_error :: "server_env \<Rightarrow> thrown \<Rightarrow> 'n auth_world \<Rightarrow> 'n auth_world" where
  "pool_error env err w =
     (case reportConnectionIssue env ''authPool idle client'' err w of
        (Some why, w1) \<Rightarrow> w1
      | (None, w1) \<Rightarrow> log_line ''error'' (''[db-pool] idle client error: '' @ thrown_text err) [] w1)"

text \<open>The loop of the logger stops at the first value that is a capacity failure.\<close>

fun report_first :: "server_env \<Rightarrow> thrown list \<Rightarrow> 'n auth_world \<Rightarrow> 'n auth_world" where
  "report_first env [] w = w"
| "report_first env (candidate # rest) w =
     (case reportConnectionIssue env ''better-auth'' candidate w of
        (Some why, w1) \<Rightarrow> w1
      | (None, w1) \<Rightarrow> report_first env rest w1)"

definition better_auth_log :: "server_env \<Rightarrow> string \<Rightarrow> string \<Rightarrow> thrown list \<Rightarrow> 'n auth_world \<Rightarrow> 'n auth_world" where
  "better_auth_log env level message args w =
     log_line level (''[Better Auth] '' @ message) args
       (if level = ''error'' then report_first env (ThrownText message # args) w else w)"

section \<open>The organization of a user\<close>

definition ORG_CACHE_TTL_MS :: int where
  "ORG_CACHE_TTL_MS = 60000"

definition ORG_CACHE_MAX :: nat where
  "ORG_CACHE_MAX = 10000"

text \<open>What happens when the query has answered with an organization.\<close>

definition store_org :: "'n auth_host \<Rightarrow> string \<Rightarrow> string \<Rightarrow> 'n auth_world \<Rightarrow> 'n auth_world" where
  "store_org ah userId orgId w =
     (let kept = (if ORG_CACHE_MAX \<le> length (iw_orgs w) then [] else iw_orgs w);
          now = ah_now ah (iw_db w)
      in w\<lparr>iw_orgs := assoc_put userId \<lparr>og_orgId = orgId, og_expiresAt = now + ORG_CACHE_TTL_MS\<rparr> kept,
           iw_answers := iw_answers w @ [(userId, orgId, now)]\<rparr>)"

definition lookup_org :: "server_env \<Rightarrow> 'n auth_host \<Rightarrow> string \<Rightarrow> 'n auth_world \<Rightarrow> string option \<times> 'n auth_world" where
  "lookup_org env ah userId w =
     (case ah_memberOrg ah userId (iw_db w) of
        (Inl err, n1) \<Rightarrow> (None, snd (reportConnectionIssue env ''firstOrgId'' err (w\<lparr>iw_db := n1\<rparr>)))
      | (Inr orgId, n1) \<Rightarrow>
          (orgId,
           (case set_var orgId of
              None \<Rightarrow> w\<lparr>iw_db := n1\<rparr>
            | Some o1 \<Rightarrow> store_org ah userId o1 (w\<lparr>iw_db := n1\<rparr>))))"

definition firstOrgId :: "server_env \<Rightarrow> 'n auth_host \<Rightarrow> string \<Rightarrow> 'n auth_world \<Rightarrow> string option \<times> 'n auth_world" where
  "firstOrgId env ah userId w =
     (case map_of (iw_orgs w) userId of
        Some hit \<Rightarrow>
          if ah_now ah (iw_db w) < og_expiresAt hit then (Some (og_orgId hit), w)
          else lookup_org env ah userId (w\<lparr>iw_orgs := map_delete userId (iw_orgs w)\<rparr>)
      | None \<Rightarrow> lookup_org env ah userId w)"

section \<open>Users, sessions and claims\<close>

definition user_created ::
  "server_env \<Rightarrow> 'n auth_host \<Rightarrow> string \<Rightarrow> string option \<Rightarrow> 'n auth_world \<Rightarrow> 'n auth_world" where
  "user_created env ah userId email w =
     (case firstOrgId env ah userId w of
        (orgId, w1) \<Rightarrow> capture_quietly (captureSignup env userId email orgId None) w1)"

record auth_session =
  bs_userId :: string
  bs_activeOrganizationId :: "string option"

definition before_session ::
  "server_env \<Rightarrow> 'n auth_host \<Rightarrow> 'x auth_session_scheme \<Rightarrow> 'n auth_world \<Rightarrow> 'x auth_session_scheme \<times> 'n auth_world" where
  "before_session env ah s w =
     (if set_var (bs_activeOrganizationId s) \<noteq> None then (s, w)
      else
        (case firstOrgId env ah (bs_userId s) w of
           (orgId, w1) \<Rightarrow>
             (case set_var orgId of
                Some o1 \<Rightarrow> (s\<lparr>bs_activeOrganizationId := Some o1\<rparr>, w1)
              | None \<Rightarrow> (s, w1))))"

definition session_created :: "server_env \<Rightarrow> 'x auth_session_scheme \<Rightarrow> 'n auth_world \<Rightarrow> 'n auth_world" where
  "session_created env s w =
     capture_quietly (captureSignInSucceeded env (bs_userId s) (bs_activeOrganizationId s) None) w"

definition organization_created :: "server_env \<Rightarrow> string \<Rightarrow> string \<Rightarrow> string option \<Rightarrow> 'n auth_world \<Rightarrow> 'n auth_world" where
  "organization_created env userId organization name w =
     capture_quietly (captureOrganizationCreated env userId organization name) w"

definition definePayload ::
  "server_env \<Rightarrow> 'n auth_host \<Rightarrow> string \<Rightarrow> string \<Rightarrow> bool \<Rightarrow> 'x auth_session_scheme \<Rightarrow> 'n auth_world \<Rightarrow>
   jobj \<times> 'n auth_world" where
  "definePayload env ah userId email emailVerified s w =
     (case (case bs_activeOrganizationId s of Some a \<Rightarrow> (Some a, w) | None \<Rightarrow> firstOrgId env ah userId w) of
        (orgId, w1) \<Rightarrow>
          ([(''org_id'', JStr (or_text orgId [])), (''email'', JStr email), (''email_verified'', JBool emailVerified)], w1))"

definition shouldRedirect :: "server_env \<Rightarrow> 'n auth_host \<Rightarrow> string \<Rightarrow> 'n auth_world \<Rightarrow> bool \<times> 'n auth_world" where
  "shouldRedirect env ah userId w =
     (case firstOrgId env ah userId w of (orgId, w1) \<Rightarrow> (set_var orgId = None, w1))"


definition validAudiences :: "server_env \<Rightarrow> string list result" where
  "validAudiences env =
     (case jwtAudience env of
        Inl e \<Rightarrow> Inl e
      | Inr a \<Rightarrow> Inr [mcpResourceUrl env, mcpResourceUrl env @ ''/'', MCP_URL env, MCP_URL env @ ''/'', a, a @ ''/''])"

definition useSecureCookies :: "server_env \<Rightarrow> bool" where
  "useSecureCookies env = startsWith (betterAuthUrl env) ''https://''"

definition ipAddressHeaders :: "string list" where
  "ipAddressHeaders = [''x-vercel-forwarded-for'', ''fly-client-ip'', ''x-real-ip'', ''x-forwarded-for'']"

definition rate_limit_enabled :: "server_env \<Rightarrow> bool" where
  "rate_limit_enabled env \<longleftrightarrow> se_vars env ''NODE_ENV'' = Some ''production''"

record RateLimitRule =
  rr_window :: nat
  rr_max :: nat

definition oauthRateLimitRules :: "(string \<times> RateLimitRule) list" where
  "oauthRateLimitRules =
     [(''/oauth2/register'', \<lparr>rr_window = 3600, rr_max = 5\<rparr>), (''/oauth2/authorize'', \<lparr>rr_window = 60, rr_max = 30\<rparr>),
      (''/oauth2/consent'', \<lparr>rr_window = 60, rr_max = 30\<rparr>), (''/oauth2/token'', \<lparr>rr_window = 60, rr_max = 60\<rparr>)]"

definition MCP_OAUTH_ACCESS_TOKEN_EXPIRES_IN :: int where
  "MCP_OAUTH_ACCESS_TOKEN_EXPIRES_IN = 60 * 60 * 24 * 365 * 50"

definition MCP_OAUTH_REFRESH_TOKEN_EXPIRES_IN :: int where
  "MCP_OAUTH_REFRESH_TOKEN_EXPIRES_IN = 60 * 60 * 24 * 365 * 50"

definition MCP_OAUTH_EXPIRES_IN_MAX_SAFE :: int where
  "MCP_OAUTH_EXPIRES_IN_MAX_SAFE = 2147483647"

section \<open>The hook before an endpoint\<close>

definition SUPPORTED_SCOPES :: "string list" where
  "SUPPORTED_SCOPES = [''openid'', ''profile'', ''email'', ''offline_access'', ''mcp'']"

text \<open>The two redirect hooks of an authorization, in one \<open>try\<close>.\<close>

definition authorize_redirects ::
  "url_parser \<Rightarrow> 'n auth_host \<Rightarrow> json option \<Rightarrow> 'n auth_world \<Rightarrow> 'n auth_world" where
  "authorize_redirects parse ah source w =
     (let clientId = as_string (body_prop source ''client_id'');
          redirectUri = as_string (body_prop source ''redirect_uri'')
      in case registerChatgptAuthorizeRedirect parse (ah_clients ah) clientId redirectUri (iw_db w) of
           (Inl e, n1) \<Rightarrow> w\<lparr>iw_db := n1\<rparr>
         | (Inr r, n1) \<Rightarrow>
             w\<lparr>iw_db := snd (registerLoopbackAuthorizeRedirect parse (ah_clients ah) clientId redirectUri n1)\<rparr>)"

definition token_redirect :: "url_parser \<Rightarrow> 'n auth_host \<Rightarrow> string \<Rightarrow> json option \<Rightarrow> 'n auth_world \<Rightarrow> string option" where
  "token_redirect parse ah path source w =
     (if path = ''/oauth2/token'' \<and> body_prop source ''grant_type'' = Some (JStr ''authorization_code'')
      then (case authorizedCodexLoopbackRedirect parse (body_prop source ''client_id'') (body_prop source ''code'')
                   (body_prop source ''redirect_uri'') (ah_verification ah (iw_db w)) of
              Inl e \<Rightarrow> None
            | Inr r \<Rightarrow> set_var r)
      else None)"

definition requested_scopes :: "json option \<Rightarrow> string list" where
  "requested_scopes source =
     (case as_string (body_prop source ''scope'') of
        None \<Rightarrow> []
      | Some raw \<Rightarrow> if js_trim raw = [] then [] else filter (\<lambda>s. s \<noteq> []) (split_on (CHR '' '') raw))"

definition kept_scopes :: "json option \<Rightarrow> string list" where
  "kept_scopes source = filter (\<lambda>s. s \<in> set SUPPORTED_SCOPES) (requested_scopes source)"

definition dropped_scopes :: "json option \<Rightarrow> string list" where
  "dropped_scopes source = filter (\<lambda>s. s \<notin> set SUPPORTED_SCOPES) (requested_scopes source)"

definition narrowedScope :: "json option \<Rightarrow> string option" where
  "narrowedScope source =
     (if dropped_scopes source \<noteq> [] \<and> kept_scopes source \<noteq> [] then Some (join '' '' (kept_scopes source)) else None)"

definition put_if :: "string \<Rightarrow> json option \<Rightarrow> jobj \<Rightarrow> jobj" where
  "put_if key v obj = (case v of Some j \<Rightarrow> assoc_put key j obj | None \<Rightarrow> obj)"

definition obj_fields :: "json option \<Rightarrow> jobj" where
  "obj_fields source = (case source of Some (JObj kvs) \<Rightarrow> kvs | _ \<Rightarrow> [])"

text \<open>
  The query of an authorization, or the body of the other two requests, as an object; the answer is
  the object put in its place, if there is one.
\<close>

definition before_hook ::
  "server_env \<Rightarrow> url_parser \<Rightarrow> 'n auth_host \<Rightarrow> string \<Rightarrow> json option \<Rightarrow> json option \<Rightarrow> 'n auth_world \<Rightarrow>
   jobj option \<times> 'n auth_world" where
  "before_hook env parse ah path query body w =
     (if path \<noteq> ''/oauth2/authorize'' \<and> path \<noteq> ''/oauth2/register'' \<and> path \<noteq> ''/oauth2/token'' then (None, w)
      else
        (let source = (if path = ''/oauth2/authorize'' then query else body);
             w1 = (if path = ''/oauth2/authorize'' then authorize_redirects parse ah source w else w);
             registered = (if path = ''/oauth2/register''
                           then expandChatgptRegistrationRedirects parse (body_prop source ''redirect_uris'') else None);
             redirect = token_redirect parse ah path source w1;
             narrowed = narrowedScope source;
             w2 = (if narrowed = None then w1
                   else capture_quietly (captureOAuthScopeDropped env (drop 8 path) (dropped_scopes source) (kept_scopes source)
                          (as_string (body_prop source ''client_id''))) w1)
         in if narrowed = None \<and> registered = None \<and> redirect = None then (None, w2)
            else
              (Some (put_if ''redirect_uri'' (map_option JStr redirect)
                       (put_if ''scope'' (map_option JStr narrowed)
                          (put_if ''redirect_uris'' (map_option (\<lambda>us. JArr (map JStr us)) registered) (obj_fields source)))),
               w2)))"

section \<open>The hook after an endpoint\<close>

text \<open>An \<open>APIError\<close> of Better Auth, with the \<open>location\<close> among its headers.\<close>

record api_failure =
  fa_status :: string
  fa_statusCode :: nat
  fa_location :: "string option"
  fa_body :: "json option"

definition oauth_failure :: "runtime \<Rightarrow> api_failure \<Rightarrow> (string \<times> string option) option" where
  "oauth_failure rt returned =
     (if fa_status returned = ''FOUND''
      then (case set_var (fa_location returned) of
              None \<Rightarrow> None
            | Some loc \<Rightarrow>
                (case new_url rt loc (Some ''http://localhost'') of
                   None \<Rightarrow> None
                 | Some u \<Rightarrow> map_option (\<lambda>e. (e, params_get u ''error_description'')) (set_var (params_get u ''error''))))
      else if 400 \<le> fa_statusCode returned
      then (let text = \<lambda>key. as_string (body_prop (fa_body returned) key)
            in map_option (\<lambda>e. (e, or_var (text ''error_description'') (text ''message'')))
                 (set_var (or_var (text ''error'') (text ''code''))))
      else None)"

definition request_text :: "json option \<Rightarrow> json option \<Rightarrow> string \<Rightarrow> string option" where
  "request_text query body key = or_var (as_string (body_prop query key)) (as_string (body_prop body key))"

definition oauth_endpoint :: "string \<Rightarrow> string" where
  "oauth_endpoint path = (let leaf = hd (split_on (CHR ''/'') (drop 8 path)) in if leaf = [] then path else leaf)"

definition observe_oauth ::
  "runtime \<Rightarrow> server_env \<Rightarrow> string \<Rightarrow> json option \<Rightarrow> json option \<Rightarrow> api_failure \<Rightarrow> 'n auth_world \<Rightarrow> 'n auth_world" where
  "observe_oauth rt env path query body returned w =
     (case oauth_failure rt returned of
        None \<Rightarrow> w
      | Some (error, description) \<Rightarrow>
          capture_quietly
            (captureOAuthError env
               \<lparr>oe_endpoint = oauth_endpoint path, oe_error = error, oe_description = description,
                oe_status = Some (fa_statusCode returned), oe_clientId = request_text query body ''client_id'',
                oe_scope = request_text query body ''scope'', oe_resource = request_text query body ''resource'',
                oe_redirectUri = request_text query body ''redirect_uri'', oe_distinctId = None\<rparr>) w)"

definition sign_in_method :: "string \<Rightarrow> string" where
  "sign_in_method leaf = (if leaf = ''social'' then ''google'' else if leaf = ''magic-link'' then ''magic_link'' else leaf)"

definition observe_login :: "server_env \<Rightarrow> string \<Rightarrow> json option \<Rightarrow> api_failure \<Rightarrow> 'n auth_world \<Rightarrow> 'n auth_world" where
  "observe_login env path body returned w =
     (let method = sign_in_method (drop 9 path);
          email = as_string (body_prop body ''email'');
          code = as_string (body_prop (fa_body returned) ''code'')
      in capture_quietly
           ((if startsWith path ''/sign-up/'' then captureSignUpFailed else captureSignInFailed)
              env (fa_statusCode returned) code (Some method) email) w)"

definition after_hook ::
  "runtime \<Rightarrow> server_env \<Rightarrow> string option \<Rightarrow> json option \<Rightarrow> json option \<Rightarrow> api_failure option \<Rightarrow> 'n auth_world \<Rightarrow> 'n auth_world" where
  "after_hook rt env path query body returned w =
     (case (path, returned) of
        (Some p, Some r) \<Rightarrow>
          if startsWith p ''/oauth2/'' then observe_oauth rt env p query body r w
          else if startsWith p ''/sign-in/'' \<or> startsWith p ''/sign-up/'' then observe_login env p body r w
          else w
      | _ \<Rightarrow> w)"

section \<open>The memo of organizations\<close>








lemma log_lines [simp]:
  "iw_orgs (fold (\<lambda>line. log_line level line []) ls w) = iw_orgs w"
  "iw_answers (fold (\<lambda>line. log_line level line []) ls w) = iw_answers w"
  "iw_db (fold (\<lambda>line. log_line level line []) ls w) = iw_db w"
  by (induction ls arbitrary: w) (auto simp: log_line_def)

lemma quiet [simp]:
  "iw_orgs (capture_quietly f w) = iw_orgs w" "iw_answers (capture_quietly f w) = iw_answers w" "iw_db (capture_quietly f w) = iw_db w"
  by (simp_all add: capture_quietly_def)



lemma map_of_map_delete [simp]: "map_of (map_delete k l) k = None"
  by (auto simp: map_delete_def map_of_eq_None_iff)


text \<open>A host on which every user belongs to one organization and the clock is the state.\<close>

definition sample_clients :: "int client_db" where
  "sample_clients =
     \<lparr>findClient = \<lambda>cid n. (Inr None, n), updateRedirects = \<lambda>cid uris n. (Inr (), n), clientHasConsent = None\<rparr>"

definition sample_identity :: "int auth_host" where
  "sample_identity =
     \<lparr>ah_now = id, ah_memberOrg = \<lambda>u n. (Inr (Some ''o1''), n + 5), ah_clients = sample_clients,
      ah_verification = \<lambda>n h. Inr None\<rparr>"

definition empty_identity :: "int \<Rightarrow> int auth_world" where
  "empty_identity now =
     \<lparr>iw_db = now, iw_orgs = [], iw_answers = [], iw_console = [], iw_telemetry = no_telemetry\<rparr>"

definition server_process :: server_env where
  "server_process = \<lparr>se_vars = Map.empty, se_window = False\<rparr>"


section \<open>What the hook changes\<close>

lemma put_if_prop: "jprop (put_if key v obj) k = (if k = key \<and> v \<noteq> None then v else jprop obj k)"
  by (auto simp: put_if_def map_of_assoc_put split: option.splits)

lemma obj_fields_prop: "jprop (obj_fields source) k = body_prop source k"
  by (auto simp: obj_fields_def body_prop_def split: option.splits json.splits)

text \<open>The callbacks added to a registration are the stable ones on the hosts of registered callbacks.\<close>

definition stable_of :: "url_parser \<Rightarrow> string list \<Rightarrow> string \<Rightarrow> bool" where
  "stable_of parse uris a \<longleftrightarrow>
     (\<exists>raw \<in> set uris. \<exists>q. parseChatgptRedirect parse raw = Some q \<and> a = ''https://'' @ redirect_host q @ STABLE_PATH)"

lemma stable_additions_of:
  "\<forall>a \<in> set additions. stable_of parse uris a \<Longrightarrow> set raws \<subseteq> set uris \<Longrightarrow>
   \<forall>a \<in> set (stable_additions parse uris raws additions). stable_of parse uris a"
proof (induction raws arbitrary: additions)
  case (Cons raw raws)
  show ?case
  proof (cases "parseChatgptRedirect parse raw")
    case None
    with Cons show ?thesis by simp
  next
    case (Some q)
    define a where "a = ''https://'' @ redirect_host q @ STABLE_PATH"
    have "stable_of parse uris a"
      using Some Cons.prems(2) by (auto simp: stable_of_def a_def)
    then have "\<forall>x \<in> set (stable_additions parse uris raws (additions @ [a])). stable_of parse uris x"
      using Cons.prems by (intro Cons.IH) auto
    with Some Cons show ?thesis by (simp add: Let_def a_def)
  qed
qed simp

lemma expand_Some:
  assumes "expandChatgptRegistrationRedirects parse v = Some us"
  shows "\<exists>uris adds. coerceRedirectUris v = Some uris \<and> us = uris @ adds \<and> (\<forall>a \<in> set adds. stable_of parse uris a)"
  using assms stable_additions_of [of "[]" parse _ "_"]
  by (fastforce simp: expandChatgptRegistrationRedirects_def Let_def split: option.splits if_splits)

lemma token_redirect_Some:
  assumes "token_redirect parse ah path source w = Some r"
  shows "path = ''/oauth2/token'' \<and> (\<exists>uri. body_prop source ''redirect_uri'' = Some (JStr uri) \<and>
    equivalentCodexLoopbackCallbacks parse r uri)"
  using assms
  by (auto simp: token_redirect_def authorizedCodexLoopbackRedirect_def Let_def set_var_def
      split: if_splits sum.splits option.splits json.splits)

lemma narrowed_Some:
  assumes "narrowedScope source = Some s"
  shows "s = join '' '' (kept_scopes source) \<and> kept_scopes source \<noteq> [] \<and> split_on (CHR '' '') s = kept_scopes source \<and>
    (\<exists>raw. body_prop source ''scope'' = Some (JStr raw) \<and>
       kept_scopes source = filter (\<lambda>x. x \<in> set SUPPORTED_SCOPES) (split_on (CHR '' '') raw))"
proof -
  have k: "s = join '' '' (kept_scopes source)" "kept_scopes source \<noteq> []"
    using assms by (auto simp: narrowedScope_def split: if_splits)
  then obtain raw where raw: "body_prop source ''scope'' = Some (JStr raw)" "js_trim raw \<noteq> []"
    by (auto simp: kept_scopes_def requested_scopes_def as_string_Some split: option.splits if_splits)
  then have eq: "kept_scopes source = filter (\<lambda>x. x \<in> set SUPPORTED_SCOPES) (split_on (CHR '' '') raw)"
    by (auto simp: kept_scopes_def requested_scopes_def SUPPORTED_SCOPES_def intro!: filter_cong)
  have "split_on (CHR '' '') s = kept_scopes source"
    unfolding k(1) by (rule split_on_join) (use k(2) eq in \<open>auto simp: SUPPORTED_SCOPES_def\<close>)
  with k raw(1) eq show ?thesis by blast
qed

definition hook_source :: "string \<Rightarrow> json option \<Rightarrow> json option \<Rightarrow> json option" where
  "hook_source path query body = (if path = ''/oauth2/authorize'' then query else body)"

text \<open>
  C28. The hook only narrows. What it puts in the place of a request differs from it in three fields
  at most: the scope is the requested one, or, when it asks for something unsupported, exactly its
  supported part, which is not empty; the callbacks of a registration are the requested ones and
  stable ChatGPT callbacks on their hosts; the callback of a token exchange is the requested one or
  names the same loopback port and path.
\<close>

theorem hook_only_narrows:
  assumes "before_hook env parse ah path query body w = (Some p, w1)"
  shows "(\<forall>key. key \<notin> {''scope'', ''redirect_uris'', ''redirect_uri''} \<longrightarrow>
      jprop p key = body_prop (hook_source path query body) key) \<and>
    (jprop p ''scope'' = body_prop (hook_source path query body) ''scope'' \<or>
      (\<exists>raw new. body_prop (hook_source path query body) ''scope'' = Some (JStr raw) \<and> jprop p ''scope'' = Some (JStr new) \<and>
         split_on (CHR '' '') new = filter (\<lambda>x. x \<in> set SUPPORTED_SCOPES) (split_on (CHR '' '') raw) \<and> new \<noteq> [])) \<and>
    (jprop p ''redirect_uris'' = body_prop (hook_source path query body) ''redirect_uris'' \<or>
      path = ''/oauth2/register'' \<and>
      (\<exists>uris adds. coerceRedirectUris (body_prop body ''redirect_uris'') = Some uris \<and>
         jprop p ''redirect_uris'' = Some (JArr (map JStr (uris @ adds))) \<and> (\<forall>a \<in> set adds. stable_of parse uris a))) \<and>
    (jprop p ''redirect_uri'' = body_prop (hook_source path query body) ''redirect_uri'' \<or>
      path = ''/oauth2/token'' \<and>
      (\<exists>uri r. body_prop body ''redirect_uri'' = Some (JStr uri) \<and> jprop p ''redirect_uri'' = Some (JStr r) \<and>
         equivalentCodexLoopbackCallbacks parse r uri))"
proof -
  let ?s = "hook_source path query body"
  define registered where "registered = (if path = ''/oauth2/register''
    then expandChatgptRegistrationRedirects parse (body_prop ?s ''redirect_uris'') else None)"
  define wr where "wr = (if path = ''/oauth2/authorize'' then authorize_redirects parse ah ?s w else w)"
  define redirect where "redirect = token_redirect parse ah path ?s wr"
  define narrowed where "narrowed = narrowedScope ?s"
  note defs = registered_def wr_def redirect_def narrowed_def
  have p: "p = put_if ''redirect_uri'' (map_option JStr redirect) (put_if ''scope'' (map_option JStr narrowed)
      (put_if ''redirect_uris'' (map_option (\<lambda>us. JArr (map JStr us)) registered) (obj_fields ?s)))"
    using assms unfolding before_hook_def Let_def hook_source_def [symmetric] defs [symmetric]
    by (simp split: if_splits)
  have n: "narrowed = narrowedScope ?s" and r: "redirect = token_redirect parse ah path ?s wr"
    by (simp_all add: narrowed_def redirect_def)
  have g: "path = ''/oauth2/register'' \<and>
      expandChatgptRegistrationRedirects parse (body_prop body ''redirect_uris'') = Some us" if "registered = Some us" for us
    using that by (simp add: registered_def hook_source_def split: if_splits)
  have other: "jprop p key = body_prop ?s key" if "key \<notin> {''scope'', ''redirect_uris'', ''redirect_uri''}" for key
    using that by (simp add: p put_if_prop obj_fields_prop)
  have scope: "jprop p ''scope'' = (if narrowed = None then body_prop ?s ''scope'' else map_option JStr narrowed)"
    and uris: "jprop p ''redirect_uris'' =
      (if registered = None then body_prop ?s ''redirect_uris'' else map_option (\<lambda>us. JArr (map JStr us)) registered)"
    and uri: "jprop p ''redirect_uri'' = (if redirect = None then body_prop ?s ''redirect_uri'' else map_option JStr redirect)"
    by (simp_all add: p put_if_prop obj_fields_prop)
  have "new \<noteq> []" if "split_on (CHR '' '') new = filter (\<lambda>x. x \<in> set SUPPORTED_SCOPES) xs" for new xs
  proof
    assume "new = []"
    with that have "[] \<in> set (filter (\<lambda>x. x \<in> set SUPPORTED_SCOPES) xs)" by (metis list.set_intros(1) split_on.simps(1))
    then show False by (simp add: SUPPORTED_SCOPES_def)
  qed
  then have "jprop p ''scope'' = body_prop ?s ''scope'' \<or>
    (\<exists>raw new. body_prop ?s ''scope'' = Some (JStr raw) \<and> jprop p ''scope'' = Some (JStr new) \<and>
       split_on (CHR '' '') new = filter (\<lambda>x. x \<in> set SUPPORTED_SCOPES) (split_on (CHR '' '') raw) \<and> new \<noteq> [])"
    using narrowed_Some [of ?s] n scope by (cases narrowed) auto
  moreover have "jprop p ''redirect_uris'' = body_prop ?s ''redirect_uris'' \<or> path = ''/oauth2/register'' \<and>
      (\<exists>uris adds. coerceRedirectUris (body_prop body ''redirect_uris'') = Some uris \<and>
         jprop p ''redirect_uris'' = Some (JArr (map JStr (uris @ adds))) \<and> (\<forall>a \<in> set adds. stable_of parse uris a))"
  proof (cases registered)
    case (Some us)
    with g expand_Some obtain uris adds where e: "us = uris @ adds"
      "coerceRedirectUris (body_prop body ''redirect_uris'') = Some uris" "\<forall>a \<in> set adds. stable_of parse uris a"
      by metis
    with uris Some have "jprop p ''redirect_uris'' = Some (JArr (map JStr (uris @ adds)))" by simp
    with g [OF Some] e(2,3) show ?thesis by blast
  qed (use uris in simp)
  moreover have "jprop p ''redirect_uri'' = body_prop ?s ''redirect_uri'' \<or> path = ''/oauth2/token'' \<and>
      (\<exists>uri r. body_prop body ''redirect_uri'' = Some (JStr uri) \<and> jprop p ''redirect_uri'' = Some (JStr r) \<and>
         equivalentCodexLoopbackCallbacks parse r uri)"
    using uri r token_redirect_Some [of parse ah path ?s wr] by (cases redirect) (auto simp: hook_source_def)
  ultimately show ?thesis using other by blast
qed

theorem hook_only_narrows_witness:
  "\<exists>p w1. before_hook server_process sample_callback sample_identity ''/oauth2/authorize''
     (Some (JObj [(''client_id'', JStr ''c''), (''scope'', JStr ''openid admin'')])) None (empty_identity 0) = (Some p, w1) \<and>
     jprop p ''client_id'' = Some (JStr ''c'') \<and> jprop p ''scope'' = Some (JStr ''openid'')"
proof -
  let ?q = "Some (JObj [(''client_id'', JStr ''c''), (''scope'', JStr ''openid admin'')])"
  let ?r = "before_hook server_process sample_callback sample_identity ''/oauth2/authorize'' ?q None (empty_identity 0)"
  have n: "narrowedScope ?q = Some ''openid''" by code_simp
  have "fst ?r = Some [(''client_id'', JStr ''c''), (''scope'', JStr ''openid'')]"
    by (simp add: before_hook_def n token_redirect_def put_if_def obj_fields_def Let_def)
  then have r: "?r = (Some [(''client_id'', JStr ''c''), (''scope'', JStr ''openid'')], snd ?r)" by (metis prod.collapse)
  from hook_only_narrows [OF r] have "jprop [(''client_id'', JStr ''c''), (''scope'', JStr ''openid'')] ''client_id'' = Some (JStr ''c'')"
    by (simp add: hook_source_def body_prop_def)
  then show ?thesis using r by (intro exI [of _ "[(''client_id'', JStr ''c''), (''scope'', JStr ''openid'')]"] exI [of _ "snd ?r"]) simp
qed

text \<open>
  The other thing the hook does to an authorization, storing a redirect, is one of the steps of the
  allowlist: on the stored client it leads from reachable states to reachable states.
\<close>

lemma before_hook_db [simp]:
  "iw_db (snd (before_hook env parse ah path query body w)) =
     (if path = ''/oauth2/authorize'' then iw_db (authorize_redirects parse ah query w) else iw_db w)"
  by (auto simp: before_hook_def Let_def)

lemma hook_keeps_the_allowlist:
  assumes "ah_clients ah = auth_db skip" "allow_reach parse (skip = Some True) init (iw_db w)"
  shows "allow_reach parse (skip = Some True) init (iw_db (snd (before_hook env parse ah path query body w)))"
  using assms chatgpt_hook_reaches [OF assms(2)] loopback_hook_reaches
  by (auto simp: authorize_redirects_def Let_def split: prod.splits sum.splits)
    (metis snd_conv)+

text \<open>A lifetime fits into 32 signed bits.\<close>

lemma lifetimes_are_safe:
  "MCP_OAUTH_ACCESS_TOKEN_EXPIRES_IN \<le> MCP_OAUTH_EXPIRES_IN_MAX_SAFE"
  "MCP_OAUTH_REFRESH_TOKEN_EXPIRES_IN \<le> MCP_OAUTH_EXPIRES_IN_MAX_SAFE"
  by (simp_all add: MCP_OAUTH_ACCESS_TOKEN_EXPIRES_IN_def MCP_OAUTH_REFRESH_TOKEN_EXPIRES_IN_def
      MCP_OAUTH_EXPIRES_IN_MAX_SAFE_def)

section \<open>What is observed of a failure\<close>

text \<open>A property with a name of its own is what the caller gave.\<close>

lemma fold_property:
  assumes "map_of (rev properties) k = Some (Some v)"
  shows "map_of (fold (\<lambda>(key, v) ps. case v of Some j \<Rightarrow> assoc_put key j ps | None \<Rightarrow> ps) properties base) k = Some v"
  using assms
proof (induction properties arbitrary: base rule: rev_induct)
  case (snoc p ps)
  then show ?case by (cases p) (auto simp: map_of_assoc_put split: option.splits if_splits)
qed simp

lemma put_event_property:
  assumes "map_of (rev properties) k = Some (Some v)"
  shows "map_of (buildEventProperties e org name properties) k = Some v"
  unfolding buildEventProperties_def Let_def by (rule fold_property [OF assms])

definition captured_by :: "string \<times> string \<Rightarrow> capture \<Rightarrow> telemetry \<Rightarrow> telemetry" where
  "captured_by client c tm = tm\<lparr>tm_client := Some (Some client), tm_captured := tm_captured tm @ [(client, c)]\<rparr>"

lemma capture_with_key:
  assumes "telemetry_ok env tm" "posthogServerKey env = Inr (Some key)"
  shows "\<exists>client. \<forall>c. capture_with env c tm = (Inr (), captured_by client c tm)"
proof (cases "tm_client tm")
  case None
  with assms(2) show ?thesis
    by (intro exI [of _ "(key, posthogHost env)"]) (simp add: capture_with_def getClient_def captured_by_def Let_def)
next
  case (Some c)
  with assms obtain client where "tm_client tm = Some (Some client)" by (cases c) (auto simp: telemetry_ok_def)
  moreover from this have "tm\<lparr>tm_client := Some (Some client)\<rparr> = tm" by simp
  ultimately show ?thesis by (intro exI [of _ client]) (simp add: capture_with_def getClient_def captured_by_def)
qed

lemma capture_with_captured:
  "capture_with env d (captured_by client c tm) = (Inr (), captured_by client d (captured_by client c tm))"
  by (simp add: capture_with_def getClient_def captured_by_def)

text \<open>
  The code of a failed handshake, as OAuth has it: that of an error redirect, or that of an error
  answer, which Better Auth's own errors carry as \<open>code\<close>.
\<close>

definition failed_with :: "runtime \<Rightarrow> api_failure \<Rightarrow> string \<Rightarrow> bool" where
  "failed_with rt r code \<longleftrightarrow> code \<noteq> [] \<and>
     (if fa_status r = ''FOUND''
      then \<exists>loc u. fa_location r = Some loc \<and> loc \<noteq> [] \<and> new_url rt loc (Some ''http://localhost'') = Some u \<and>
             params_get u ''error'' = Some code
      else 400 \<le> fa_statusCode r \<and>
             (body_prop (fa_body r) ''error'' = Some (JStr code) \<or>
              ((\<forall>s. body_prop (fa_body r) ''error'' \<noteq> Some (JStr s)) \<and> body_prop (fa_body r) ''code'' = Some (JStr code))))"

lemma oauth_failure_iff: "failed_with rt r code \<longleftrightarrow> (\<exists>d. oauth_failure rt r = Some (code, d))"
proof -
  have s: "as_string v = Some c \<longleftrightarrow> v = Some (JStr c)" "as_string v = None \<longleftrightarrow> (\<forall>c. v \<noteq> Some (JStr c))" for v c
    by (cases v rule: as_string.cases; simp)+
  show ?thesis
  proof (cases "fa_status r = ''FOUND''")
    case True
    then show ?thesis by (auto simp: failed_with_def oauth_failure_def set_var_def split: option.splits)
  next
    case False
    then show ?thesis
      by (auto simp: failed_with_def oauth_failure_def set_var_def or_var_def Let_def s split: option.splits)
  qed
qed

lemma handshake_report:
  assumes "telemetry_ok env (iw_telemetry w)" "posthogServerKey env = Inr (Some key)" "startsWith path ''/oauth2/''"
  shows "after_hook rt env (Some path) query body None w = w \<and>
    (\<exists>client captured. tm_captured (iw_telemetry (after_hook rt env (Some path) query body (Some r) w)) =
        tm_captured (iw_telemetry w) @ map (Pair client) captured \<and>
      telemetry_ok env (iw_telemetry (after_hook rt env (Some path) query body (Some r) w)) \<and>
      (case oauth_failure rt r of
         None \<Rightarrow> captured = []
       | Some (code, description) \<Rightarrow>
           \<exists>props more. captured = EventCapture ''oauth_error'' ''system'' props None # more \<and>
             map_of props ''oauth_error'' = Some (JStr code) \<and> map_of props ''oauth_endpoint'' = Some (JStr (oauth_endpoint path)) \<and>
             (if code \<in> set ALERTABLE_OAUTH_ERRORS then \<exists>message details. more = [ExceptionCapture message ''system'' details] else more = [])))"
proof (cases "oauth_failure rt r")
  case None
  then show ?thesis using assms by (simp add: after_hook_def observe_oauth_def)
next
  case (Some cd)
  obtain code description where cd: "cd = (code, description)" by (cases cd)
  define i where "i = \<lparr>oe_endpoint = oauth_endpoint path, oe_error = code, oe_description = description,
     oe_status = Some (fa_statusCode r), oe_clientId = request_text query body ''client_id'',
     oe_scope = request_text query body ''scope'', oe_resource = request_text query body ''resource'',
     oe_redirectUri = request_text query body ''redirect_uri'', oe_distinctId = None\<rparr>"
  have o': "iw_telemetry (after_hook rt env (Some path) query body (Some r) w) =
      snd (captureOAuthError env i (iw_telemetry w))"
    using assms(3) Some by (simp add: after_hook_def observe_oauth_def cd i_def capture_quietly_def)
  define props where "props = buildEventProperties (appEnvironment env) None None (oauth_properties i)"
  define more where "more = (if code \<in> set ALERTABLE_OAUTH_ERRORS then
     [ExceptionCapture (''oauth '' @ oauth_endpoint path @ '' failed: '' @ code) ''system''
        (assoc_put ''environment'' (JStr (appEnvironment env))
           (fold (\<lambda>(key, v) ps. case v of Some j \<Rightarrow> assoc_put key j ps | None \<Rightarrow> ps)
              ((''issue'', Some (JStr ''oauth_connect_error'')) # oauth_properties i) []))] else [])"
  obtain client where c: "capture_with env (EventCapture ''oauth_error'' ''system'' props None) (iw_telemetry w) =
      (Inr (), captured_by client (EventCapture ''oauth_error'' ''system'' props None) (iw_telemetry w))"
    using capture_with_key [OF assms(1,2)] by blast
  have e: "captureServerEvent env ''oauth_error'' (env_or (oe_distinctId i) dash_SYSTEM_DISTINCT_ID) None None
      (oauth_properties i) = capture_with env (EventCapture ''oauth_error'' ''system'' props None)"
    by (simp add: captureServerEvent_def props_def i_def env_or_def set_var_def dash_SYSTEM_DISTINCT_ID_def)
  have x: "captureServerException env (''oauth '' @ oe_endpoint i @ '' failed: '' @ oe_error i) (oe_distinctId i)
      ((''issue'', Some (JStr ''oauth_connect_error'')) # oauth_properties i) = capture_with env (hd more)"
    if "code \<in> set ALERTABLE_OAUTH_ERRORS"
    using that by (simp add: captureServerException_def more_def i_def env_or_def dash_SYSTEM_DISTINCT_ID_def)
  have captured: "tm_captured (snd (captureOAuthError env i (iw_telemetry w))) =
      tm_captured (iw_telemetry w) @ map (Pair client) (EventCapture ''oauth_error'' ''system'' props None # more)"
  proof (cases "code \<in> set ALERTABLE_OAUTH_ERRORS")
    case True
    then obtain d where d: "more = [d]" by (simp add: more_def)
    have "snd (captureOAuthError env i (iw_telemetry w)) =
        snd (capture_with env d (captured_by client (EventCapture ''oauth_error'' ''system'' props None) (iw_telemetry w)))"
      using True unfolding captureOAuthError_def e c x [OF True] d by (simp add: i_def)
    then show ?thesis unfolding capture_with_captured d by (simp add: captured_by_def)
  next
    case False
    moreover have "oe_error i = code" by (simp add: i_def)
    ultimately show ?thesis unfolding captureOAuthError_def e c by (simp add: captured_by_def more_def)
  qed
  have "map_of props ''oauth_error'' = Some (JStr code)" "map_of props ''oauth_endpoint'' = Some (JStr (oauth_endpoint path))"
    unfolding props_def
    by (subst put_event_property [where v = "JStr code" and k = "''oauth_error''"], simp_all add: oauth_properties_def i_def)
      (subst put_event_property [where v = "JStr (oauth_endpoint path)" and k = "''oauth_endpoint''"], simp_all add: oauth_properties_def i_def)
  moreover have "(if code \<in> set ALERTABLE_OAUTH_ERRORS then \<exists>message details. more = [ExceptionCapture message ''system'' details] else more = [])" by (simp add: more_def)
  moreover have "telemetry_ok env (snd (captureOAuthError env i (iw_telemetry w)))" by (rule oauth_ok [OF assms(1)])
  ultimately have "\<exists>props' more'. EventCapture ''oauth_error'' ''system'' props None # more =
      EventCapture ''oauth_error'' ''system'' props' None # more' \<and>
      map_of props' ''oauth_error'' = Some (JStr code) \<and> map_of props' ''oauth_endpoint'' = Some (JStr (oauth_endpoint path)) \<and>
      (if code \<in> set ALERTABLE_OAUTH_ERRORS then \<exists>message details. more' = [ExceptionCapture message ''system'' details] else more' = [])"
    "telemetry_ok env (snd (captureOAuthError env i (iw_telemetry w)))" by blast+
  moreover have "after_hook rt env (Some path) query body None w = w" by (simp add: after_hook_def)
  ultimately show ?thesis
    unfolding o' Some cd option.case prod.case
    by (intro conjI exI [of _ client] exI [of _ "EventCapture ''oauth_error'' ''system'' props None # more"] captured)
qed

text \<open>
  C31. Failures are seen once. With a PostHog key and an OAuth endpoint: what comes back without an
  error code, a success, a redirect without \<open>error\<close> or an answer of 400 and more that carries none, is not
  reported; any failure with a code is reported as exactly one \<open>oauth_error\<close> event with this code and the
  endpoint, followed by one exception if the code is one of those that page someone, and by nothing
  otherwise.
\<close>

theorem handshake_failures_are_seen_once:
  assumes "telemetry_ok env (iw_telemetry w)" "posthogServerKey env = Inr (Some key)" "startsWith path ''/oauth2/''"
  shows "after_hook rt env (Some path) query body None w = w \<and>
    (\<exists>client captured. tm_captured (iw_telemetry (after_hook rt env (Some path) query body (Some r) w)) =
        tm_captured (iw_telemetry w) @ map (Pair client) captured \<and>
      telemetry_ok env (iw_telemetry (after_hook rt env (Some path) query body (Some r) w)) \<and>
      ((\<forall>code. \<not> failed_with rt r code) \<longrightarrow> captured = []) \<and>
      (\<forall>code. failed_with rt r code \<longrightarrow>
         (\<exists>props more. captured = EventCapture ''oauth_error'' ''system'' props None # more \<and>
            map_of props ''oauth_error'' = Some (JStr code) \<and> map_of props ''oauth_endpoint'' = Some (JStr (oauth_endpoint path)) \<and>
            (if code \<in> set ALERTABLE_OAUTH_ERRORS then \<exists>message details. more = [ExceptionCapture message ''system'' details]
             else more = []))))"
proof (cases "oauth_failure rt r")
  case None
  then have "\<not> failed_with rt r code" for code by (simp add: oauth_failure_iff)
  then show ?thesis using handshake_report [OF assms, of rt query body r] None by auto
next
  case (Some cd)
  obtain c d where cd: "cd = (c, d)" by (cases cd)
  then have "failed_with rt r code \<longleftrightarrow> code = c" for code using Some by (auto simp: oauth_failure_iff)
  then show ?thesis using handshake_report [OF assms, of rt query body r] unfolding Some cd option.case prod.case by auto
qed

theorem handshake_failures_are_seen_once_witness:
  "\<exists>env client captured. tm_captured (iw_telemetry (after_hook sample_runtime env (Some ''/oauth2/token'') None None
      (Some \<lparr>fa_status = ''BAD_REQUEST'', fa_statusCode = 400, fa_location = None,
             fa_body = Some (JObj [(''error'', JStr ''invalid_grant'')])\<rparr>) (empty_identity 0))) = map (Pair client) captured \<and>
     length captured = 2"
proof -
  let ?env = "\<lparr>se_vars = (\<lambda>k. if k = ''POSTHOG_KEY'' then Some ''phc'' else None), se_window = False\<rparr>"
  let ?r = "\<lparr>fa_status = ''BAD_REQUEST'', fa_statusCode = 400, fa_location = None,
             fa_body = Some (JObj [(''error'', JStr ''invalid_grant'')])\<rparr>"
  have f: "failed_with sample_runtime ?r ''invalid_grant''" by (simp add: failed_with_def body_prop_def)
  have t: "telemetry_ok ?env (iw_telemetry (empty_identity 0))" by (simp add: empty_identity_def no_telemetry_ok)
  have k: "posthogServerKey ?env = Inr (Some ''phc'')"
    by (simp add: posthogServerKey_def requireServer_def set_var_def or_var_def)
  have p: "startsWith ''/oauth2/token'' ''/oauth2/''" by simp
  have a: "''invalid_grant'' \<in> set ALERTABLE_OAUTH_ERRORS" by (simp add: ALERTABLE_OAUTH_ERRORS_def)
  have n: "tm_captured (iw_telemetry (empty_identity 0)) = []" by (simp add: empty_identity_def no_telemetry_def)
  obtain client captured where
    "tm_captured (iw_telemetry (after_hook sample_runtime ?env (Some ''/oauth2/token'') None None (Some ?r) (empty_identity 0))) =
       tm_captured (iw_telemetry (empty_identity 0)) @ map (Pair client) captured"
    and all: "\<forall>code. failed_with sample_runtime ?r code \<longrightarrow> (\<exists>props more. captured = EventCapture ''oauth_error'' ''system'' props None # more \<and>
       map_of props ''oauth_error'' = Some (JStr code) \<and> map_of props ''oauth_endpoint'' = Some (JStr (oauth_endpoint ''/oauth2/token'')) \<and>
       (if code \<in> set ALERTABLE_OAUTH_ERRORS then \<exists>message details. more = [ExceptionCapture message ''system'' details] else more = []))"
    using conjunct2 [OF handshake_failures_are_seen_once [OF t k p, of sample_runtime None None ?r]]
    by (elim exE conjE) (rule that)
  then have c: "tm_captured (iw_telemetry (after_hook sample_runtime ?env (Some ''/oauth2/token'') None None (Some ?r) (empty_identity 0))) =
       map (Pair client) captured" unfolding n by simp
  from all [rule_format, OF f] a have "length captured = 2" by auto
  with c show ?thesis by (intro exI [of _ ?env] exI [of _ client] exI [of _ captured]) simp
qed

end
