(* ===== verification/Dash_Social.thy ===== *)
theory Dash_Social
  imports Dash_Settings Markup Analytics
begin

text \<open>
  The remaining server actions of the dashboard: shared sessions (\<open>chats/actions.ts\<close>), the feed
  (\<open>feed/actions.ts\<close>), the creation of a site (\<open>dashboard/actions.ts\<close>) and the contact form
  (\<open>contact/actions.ts\<close>) with the mail it is sent by (\<open>lib/email.ts\<close>). The SMTP server is a
  parameter with its own state; it answers with the text of an error or with nothing.
\<close>

section \<open>Shared sessions\<close>

record CreatedChat =
  cc_chatLog :: json
  cc_appended :: json
  cc_pruned :: json
  cc_window :: json
  cc_dropped :: json

definition zero :: json where
  "zero = JNum (Fin 0)"

definition prop_or :: "json option \<Rightarrow> string \<Rightarrow> json \<Rightarrow> json" where
  "prop_or res key dflt = (case present (body_prop res key) of Some j \<Rightarrow> j | None \<Rightarrow> dflt)"

definition created_chat :: "json option \<Rightarrow> CreatedChat outcome api_result" where
  "created_chat res =
     (case member_or ''chat_log'' (JObj []) res of
        Inl e \<Rightarrow> Inl e
      | Inr chat \<Rightarrow>
          Inr (Ok \<lparr>cc_chatLog = chat, cc_appended = prop_or res ''appended'' zero, cc_pruned = prop_or res ''pruned'' zero,
                   cc_window = prop_or res ''window'' zero, cc_dropped = prop_or res ''dropped'' zero\<rparr>))"

text \<open>The page of a site, if there is one.\<close>

definition site_page :: "string option \<Rightarrow> string list" where
  "site_page siteId = (case set_var siteId of Some s \<Rightarrow> [''/sites/'' @ s] | None \<Rightarrow> [])"

definition createChatAction ::
  "runtime \<Rightarrow> 'n platform \<Rightarrow> json \<Rightarrow> 'n api_world \<Rightarrow> CreatedChat outcome \<times> 'n api_world" where
  "createChatAction rt pf input w =
     catch_api
       (api_bind (api_createChat rt pf input w)
         (\<lambda>res w1. (created_chat res,
            revalidate (''/chats'' # site_page (as_string (body_prop (Some input) ''site_id''))) w1)))
       (\<lambda>err. Refused (apiErrorMessage err ''Could not import the conversation. Try again.''
                 [(404, ''That site no longer exists.'')]) (quotaOf err))"

definition deleteChatAction ::
  "runtime \<Rightarrow> 'n platform \<Rightarrow> string \<Rightarrow> 'n api_world \<Rightarrow> unit outcome \<times> 'n api_world" where
  "deleteChatAction rt pf chatId w =
     catch_api
       (api_bind (api_deleteChat rt pf chatId w) (\<lambda>r w1. (Inr (Ok ()), revalidate [''/chats''] w1)))
       (\<lambda>err. Refused (apiErrorMessage err ''Could not delete the chat log.''
                 [(404, ''This chat log no longer exists.'')]) None)"

definition deleteChatMessageAction ::
  "runtime \<Rightarrow> 'n platform \<Rightarrow> string \<Rightarrow> int \<Rightarrow> 'n api_world \<Rightarrow> unit outcome \<times> 'n api_world" where
  "deleteChatMessageAction rt pf chatId seq w =
     catch_api
       (api_bind (api_deleteChatMessage rt pf chatId seq w) (\<lambda>r w1. (Inr (Ok ()), revalidate [''/chats/'' @ chatId] w1)))
       (\<lambda>err. Refused (apiErrorMessage err ''Could not delete the message.''
                 [(404, ''This message no longer exists.'')]) None)"

text \<open>The conflict of a site that has a log already.\<close>

fun attach_error :: "api_error \<Rightarrow> json" where
  "attach_error (ApiError status m body) =
     (if status = 409 then message_or body ''That site already has a chat log. Detach it first, then try again.''
      else apiErrorMessage (ApiError status m body) ''Could not update the site attachment.''
             [(404, ''This chat log (or site) no longer exists.'')])"
| "attach_error (OtherError e) = apiErrorMessage (OtherError e) ''Could not update the site attachment.'' []"

definition setChatSiteAction ::
  "runtime \<Rightarrow> 'n platform \<Rightarrow> string \<Rightarrow> string option \<Rightarrow> 'n api_world \<Rightarrow> json outcome \<times> 'n api_world" where
  "setChatSiteAction rt pf chatId siteId w =
     catch_api
       (api_bind (api_setChatSite rt pf chatId siteId w)
         (\<lambda>chatLog w1. (Inr (Ok chatLog), revalidate ([''/chats/'' @ chatId, ''/chats''] @ site_page siteId) w1)))
       (\<lambda>err. Refused (attach_error err) None)"

definition setChatPanelAction ::
  "runtime \<Rightarrow> 'n platform \<Rightarrow> string \<Rightarrow> bool \<Rightarrow> 'n api_world \<Rightarrow> json outcome \<times> 'n api_world" where
  "setChatPanelAction rt pf chatId enabled w =
     catch_api
       (api_bind (api_setChatPanel rt pf chatId enabled w)
         (\<lambda>chatLog w1. (Inr (Ok chatLog),
            revalidate ((''/chats/'' @ chatId) # site_page (as_string (body_prop (Some chatLog) ''site_id''))) w1)))
       (\<lambda>err. Refused (apiErrorMessage err ''Could not update the panel setting.''
                 [(404, ''This chat log no longer exists.'')]) None)"

definition setChatCollabAction ::
  "runtime \<Rightarrow> 'n platform \<Rightarrow> string \<Rightarrow> bool \<Rightarrow> 'n api_world \<Rightarrow> json outcome \<times> 'n api_world" where
  "setChatCollabAction rt pf i allowMemberEdits w =
     catch_api
       (api_bind (api_setChatCollab rt pf i allowMemberEdits w)
         (\<lambda>chatLog w1. (ok_of (member_or ''allow_member_edits'' (JBool allowMemberEdits) (Some chatLog)),
            revalidate [''/chats/'' @ i] w1)))
       (\<lambda>err. Refused (apiErrorMessage err ''Could not update the collaboration setting.''
                 [(403, ''Only the creator or an admin can change this.''), (404, ''This chat log no longer exists.'')]) None)"

section \<open>The feed\<close>

definition vote_result :: "json option \<Rightarrow> (json \<times> json) outcome api_result" where
  "vote_result res =
     (case member_or ''score'' zero res of Inl e \<Rightarrow> Inl e | Inr score \<Rightarrow> Inr (Ok (score, prop_or res ''my_vote'' zero)))"

definition voteAction ::
  "runtime \<Rightarrow> 'n platform \<Rightarrow> post_kind \<Rightarrow> string \<Rightarrow> int \<Rightarrow> 'n api_world \<Rightarrow> (json \<times> json) outcome \<times> 'n api_world" where
  "voteAction rt pf kind i vote w =
     catch_api (api_bind (api_setPostVote rt pf kind i vote w) (\<lambda>res w1. (vote_result res, w1)))
       (\<lambda>err. Refused (apiErrorMessage err ''Could not record your vote. Try again.'' []) None)"

definition setPostMetaAction ::
  "runtime \<Rightarrow> 'n platform \<Rightarrow> post_kind \<Rightarrow> string \<Rightarrow> string \<Rightarrow> string \<Rightarrow> 'n api_world
   \<Rightarrow> (json \<times> json) outcome \<times> 'n api_world" where
  "setPostMetaAction rt pf kind i rawTitle rawDescription w =
     (let title = js_trim rawTitle; description = js_trim rawDescription
      in if 120 < js_length title then refuse ''Title must be at most 120 characters.'' w
         else if 500 < js_length description then refuse ''Description must be at most 500 characters.'' w
         else
           catch_api
             (api_bind (api_setPostFeedMeta rt pf kind i title description w)
               (\<lambda>res w1. (kept_meta title description res, revalidate [''/feed''] w1)))
             (\<lambda>err. Refused (apiErrorMessage err ''Could not update the post. Try again.'' []) None))"

definition addFeedCommentAction ::
  "runtime \<Rightarrow> 'n platform \<Rightarrow> post_kind \<Rightarrow> string \<Rightarrow> string \<Rightarrow> string list \<Rightarrow> 'n api_world
   \<Rightarrow> json option outcome \<times> 'n api_world" where
  "addFeedCommentAction rt pf kind i text mentionedUserIds w =
     (let body = js_trim text
      in if body = [] then refuse ''Write something before posting.'' w
         else if 4000 < js_length body then refuse ''Comment is too long (max 4000 characters).'' w
         else
           catch_api
             (api_bind (api_addPostComment rt pf kind i body (Some mentionedUserIds) w)
               (\<lambda>comment w1. (Inr (Ok comment), revalidate [''/feed''] w1)))
             (\<lambda>err. Refused (apiErrorMessage err ''Could not post your comment. Try again.'' []) None))"

definition listFeedCommentsAction ::
  "runtime \<Rightarrow> 'n platform \<Rightarrow> post_kind \<Rightarrow> string \<Rightarrow> 'n api_world \<Rightarrow> json outcome \<times> 'n api_world" where
  "listFeedCommentsAction rt pf kind i w =
     catch_api (api_bind (api_listPostComments rt pf kind i w) (\<lambda>comments w1. (Inr (Ok comments), w1)))
       (\<lambda>err. Refused (apiErrorMessage err ''Could not load comments. Try again.'' []) None)"

section \<open>A new site\<close>

definition recordSiteCreated ::
  "'n platform \<Rightarrow> server_env \<Rightarrow> json option \<Rightarrow> string \<Rightarrow> 'n api_world \<Rightarrow> telemetry \<Rightarrow> 'n api_world \<times> telemetry" where
  "recordSiteCreated pf env site slug w tm =
     (case getCurrentSession pf w of
        (session, w1) \<Rightarrow>
          (let userId = (case session of Some s \<Rightarrow> ss_user s | None \<Rightarrow> None);
               organization = (case session of Some s \<Rightarrow> ss_activeOrg s | None \<Rightarrow> None)
           in (case (set_var userId, set_var organization) of
                 (Some u, Some org) \<Rightarrow>
                   (case member site ''id'' of
                      Inl e \<Rightarrow> (w1, tm)
                    | Inr i \<Rightarrow> (w1, snd (captureSiteCreated env u org i (Some (prop_or site ''slug'' (JStr slug))) tm)))
               | _ \<Rightarrow> (w1, tm))))"

text \<open>A quota opens the upgrade dialog; it comes before every message.\<close>

datatype site_outcome = SiteCreated "json option" | SiteQuota json | SiteRefused json

fun create_site_error :: "api_error \<Rightarrow> site_outcome" where
  "create_site_error (ApiError status m body) =
     (case asQuotaExceeded (ApiError status m body) of
        Some quota \<Rightarrow> SiteQuota quota
      | None \<Rightarrow>
          SiteRefused (message_or body
            (if status = 400 then ''That slug is unavailable. Try another.'' else ''Could not create the site. Try again.'')))"
| "create_site_error (OtherError e) = SiteRefused (JStr API_UNREACHABLE)"

definition createSiteAction ::
  "runtime \<Rightarrow> 'n platform \<Rightarrow> server_env \<Rightarrow> string \<Rightarrow> 'n api_world \<Rightarrow> telemetry \<Rightarrow> site_outcome \<times> 'n api_world \<times> telemetry" where
  "createSiteAction rt pf env rawSlug w tm =
     (let slug = js_trim rawSlug
      in if slug = [] then (SiteRefused (JStr ''Enter a slug for the site.''), w, tm)
         else
           (case api_createSite rt pf slug w of
              (Inl err, w1) \<Rightarrow> (create_site_error err, w1, tm)
            | (Inr site, w1) \<Rightarrow>
                (SiteCreated site, recordSiteCreated pf env site slug (revalidate [''/dashboard''] w1) tm)))"

section \<open>Mail\<close>

record EmailMessage =
  em_to :: string
  em_subject :: string
  em_text :: string
  em_html :: "string option"
  em_replyTo :: "string option"

record SentMail =
  sm_from :: string
  sm_to :: string
  sm_replyTo :: "string option"
  sm_subject :: string
  sm_text :: string
  sm_html :: string

text \<open>The cached transport is the URL it was created with; what is sent through it is logged with it.\<close>

record 'm mailer =
  ml_cached :: "string option"
  ml_smtp :: 'm
  ml_sent :: "(string \<times> SentMail) list"
  ml_log :: "string list"

definition transport :: "string \<Rightarrow> 'm mailer \<Rightarrow> string \<times> 'm mailer" where
  "transport url m =
     (case ml_cached m of Some t \<Rightarrow> (t, m) | None \<Rightarrow> (url, m\<lparr>ml_cached := Some url\<rparr>))"

definition not_sent_line :: "runtime \<Rightarrow> EmailMessage \<Rightarrow> string" where
  "not_sent_line rt msg =
     ''[email] NOT sent: MAIL_SMTP_URL is unset. to='' @ em_to msg @ '' subject='' @
     JSON_stringify rt (JStr (em_subject msg)) @ [CHR 0x0A] @ em_text msg"

definition sendEmail ::
  "runtime \<Rightarrow> (string \<Rightarrow> SentMail \<Rightarrow> 'm \<Rightarrow> string option \<times> 'm) \<Rightarrow> server_env \<Rightarrow> EmailMessage \<Rightarrow> 'm mailer
   \<Rightarrow> unit result \<times> 'm mailer" where
  "sendEmail rt smtp env msg m =
     (case mailSmtpUrl env of
        Inl e \<Rightarrow> (Inl e, m)
      | Inr None \<Rightarrow> (Inr (), m\<lparr>ml_log := ml_log m @ [not_sent_line rt msg]\<rparr>)
      | Inr (Some url) \<Rightarrow>
          (case transport url m of
             (t, m1) \<Rightarrow>
               (case mailFrom env of
                  Inl e \<Rightarrow>
                    (Inr (), m1\<lparr>ml_log := ml_log m1 @ [''[email] failed to send to '' @ em_to msg @ '': '' @ error_name e @ '': '' @ error_message e]\<rparr>)
                | Inr from_addr \<Rightarrow>
                    (let mail = \<lparr>sm_from = from_addr, sm_to = em_to msg, sm_replyTo = em_replyTo msg, sm_subject = em_subject msg,
                                 sm_text = em_text msg, sm_html = or_text (em_html msg) (em_text msg)\<rparr>
                     in (case smtp t mail (ml_smtp m1) of
                           (err, s1) \<Rightarrow>
                             (Inr (),
                              m1\<lparr>ml_smtp := s1, ml_sent := ml_sent m1 @ [(t, mail)],
                                 ml_log := ml_log m1 @ (case err of
                                   Some e \<Rightarrow> [''[email] failed to send to '' @ em_to msg @ '': '' @ e] | None \<Rightarrow> [])\<rparr>))))))"

lemma sendEmail_sent:
  assumes "sendEmail rt smtp env msg m = (Inr u, m1)"
  shows "if mailSmtpUrl env = Inr None then ml_sent m1 = ml_sent m \<and> ml_log m1 = ml_log m @ [not_sent_line rt msg]
    else \<exists>t mail. ml_sent m1 = ml_sent m @ [(t, mail)] \<and> mailFrom env = Inr (sm_from mail) \<and> sm_to mail = em_to msg \<and>
      sm_replyTo mail = em_replyTo msg \<and> sm_subject mail = em_subject msg \<and> sm_text mail = em_text msg \<and>
      sm_html mail = or_text (em_html msg) (em_text msg)"
proof (cases "mailSmtpUrl env = Inr None")
  case True
  with assms show ?thesis by (auto simp: sendEmail_def)
next
  case False
  then obtain url where url: "mailSmtpUrl env = Inr (Some url)"
    using assms by (auto simp: sendEmail_def split: sum.splits option.splits)
  then have "\<not> se_window env" by (simp add: mailSmtpUrl_def requireServer_def split: if_splits)
  then obtain f where f: "mailFrom env = Inr f" by (simp add: mailFrom_def requireServer_def)
  obtain t m2 where t: "transport url m = (t, m2)" by fastforce
  then have "ml_sent m2 = ml_sent m" by (auto simp: transport_def split: option.splits)
  with assms url f t False show ?thesis by (auto simp: sendEmail_def Let_def split: prod.splits)
qed

section \<open>The contact form\<close>

record contact_user =
  cu_email :: "string option"
  cu_name :: "string option"
  cu_id :: "string option"

definition MAX_SUBJECT :: nat where
  "MAX_SUBJECT = 200"

definition MAX_MESSAGE :: nat where
  "MAX_MESSAGE = 5000"

definition KIND_LABEL :: "string \<Rightarrow> string" where
  "KIND_LABEL kind = (if kind = ''feature'' then ''Feature request'' else ''Bug report'')"

text \<open>\<open>user?.name ? `${user.name} <${from}>` : from\<close>.\<close>

definition sender :: "contact_user option \<Rightarrow> string" where
  "sender user =
     (let from_addr = or_text (case user of Some u \<Rightarrow> cu_email u | None \<Rightarrow> None) ''unknown''
      in (case set_var (case user of Some u \<Rightarrow> cu_name u | None \<Rightarrow> None) of
            Some n \<Rightarrow> n @ '' <'' @ from_addr @ ''>''
          | None \<Rightarrow> from_addr))"

definition sender_id :: "contact_user option \<Rightarrow> string option" where
  "sender_id user = set_var (case user of Some u \<Rightarrow> cu_id u | None \<Rightarrow> None)"

definition contact_text :: "string \<Rightarrow> contact_user option \<Rightarrow> string \<Rightarrow> string \<Rightarrow> string" where
  "contact_text label user subject message =
     join [CHR 0x0A]
       ([''Type: '' @ label, ''From: '' @ sender user] @
        (case sender_id user of Some i \<Rightarrow> [''User ID: '' @ i] | None \<Rightarrow> []) @
        (if subject = [] then [] else [''Subject: '' @ subject]) @ [[], message])"

text \<open>\<open>escapeHtml\<close> of the action is the one of \<open>escapeHtml\<close> in the Worker: without the apostrophe.\<close>

definition contact_html :: "string \<Rightarrow> contact_user option \<Rightarrow> string \<Rightarrow> string \<Rightarrow> string" where
  "contact_html label user subject message =
     ''<p><strong>'' @ escapeHtml label @ ''</strong></p>'' @ [CHR 0x0A] @
     ''<p>From: '' @ escapeHtml (sender user) @
     (case sender_id user of Some i \<Rightarrow> ''<br/>User ID: '' @ escapeHtml i | None \<Rightarrow> []) @
     (if subject = [] then [] else ''<br/>Subject: '' @ escapeHtml subject) @ ''</p>'' @ [CHR 0x0A] @
     ''<p style='' @ [CHR 0x22] @ ''white-space:pre-wrap'' @ [CHR 0x22] @ ''>'' @ escapeHtml message @ ''</p>''"

definition contact_mail :: "string \<Rightarrow> string \<Rightarrow> contact_user option \<Rightarrow> string \<Rightarrow> string \<Rightarrow> EmailMessage" where
  "contact_mail to_addr kind user subject message =
     (let label = KIND_LABEL kind
      in \<lparr>em_to = to_addr, em_subject = ''['' @ label @ ''] '' @ (if subject = [] then label else subject),
          em_text = contact_text label user subject message, em_html = Some (contact_html label user subject message),
          em_replyTo = (case set_var (case user of Some u \<Rightarrow> cu_email u | None \<Rightarrow> None) of
                          Some e \<Rightarrow> if email_shape e then Some e else None
                        | None \<Rightarrow> None)\<rparr>)"

text \<open>The user is the one of the current session.\<close>

definition submitContactAction ::
  "runtime \<Rightarrow> (string \<Rightarrow> SentMail \<Rightarrow> 'm \<Rightarrow> string option \<times> 'm) \<Rightarrow> server_env \<Rightarrow> contact_user option
   \<Rightarrow> string \<Rightarrow> string \<Rightarrow> string \<Rightarrow> 'm mailer \<Rightarrow> unit outcome result \<times> 'm mailer" where
  "submitContactAction rt smtp env user kindInput rawSubject rawMessage m =
     (case supportEmail env of
        Inl e \<Rightarrow> (Inl e, m)
      | Inr None \<Rightarrow> (Inr (Refused (JStr ''Contact is not configured on this deployment.'') None), m)
      | Inr (Some to_addr) \<Rightarrow>
          (let kind = (if kindInput = ''feature'' then ''feature'' else ''bug'');
               subject = js_trim rawSubject; message = js_trim rawMessage
           in if message = [] then (Inr (Refused (JStr ''Please add a message before sending.'') None), m)
              else if MAX_SUBJECT < js_length subject \<or> MAX_MESSAGE < js_length message
              then (Inr (Refused (JStr ''Your message is too long. Please shorten it.'') None), m)
              else
                (case sendEmail rt smtp env (contact_mail to_addr kind user subject message) m of
                   (Inl e, m1) \<Rightarrow> (Inl e, m1)
                 | (Inr u, m1) \<Rightarrow> (Inr (Ok ()), m1))))"

section \<open>What the contact form sends\<close>

definition contact_tags :: "string list" where
  "contact_tags =
     [''<p><strong>'', ''<strong>'', ''</strong></p>'', ''</p>'', ''<p>From: '', ''<br/>User ID: '', ''<br/>Subject: '',
      ''<p style='' @ [CHR 0x22] @ ''white-space:pre-wrap'' @ [CHR 0x22] @ ''>'']"

interpretation contact: tag_language contact_tags "[]"
  by unfold_locales simp

lemma contact_literals:
  "only_tags contact_tags ''<p><strong>''" "only_tags contact_tags ''</strong></p>''" "only_tags contact_tags ''</p>''"
  "only_tags contact_tags ''<p>From: ''" "only_tags contact_tags ''<br/>User ID: ''" "only_tags contact_tags ''<br/>Subject: ''"
  "only_tags contact_tags (''<p style='' @ [CHR 0x22] @ ''white-space:pre-wrap'' @ [CHR 0x22] @ ''>'')"
  by code_simp+

lemma only_escaped: "only_tags contact_tags (escapeHtml s)"
  by (rule contact.only_plain) (rule esc4.escape_no_markup)

lemma contact_html_tags: "only_tags contact_tags (contact_html label user subject message)"
proof -
  have nl: "only_tags contact_tags [CHR 0x0A]" by (rule contact.only_plain) simp
  have i: "only_tags contact_tags (case sender_id user of Some i \<Rightarrow> ''<br/>User ID: '' @ escapeHtml i | None \<Rightarrow> [])"
    by (cases "sender_id user") (auto simp del: append.simps intro!: contact.only_append contact_literals only_escaped)
  have s: "only_tags contact_tags (if subject = [] then [] else ''<br/>Subject: '' @ escapeHtml subject)"
    by (auto simp del: append.simps intro!: contact.only_append contact_literals only_escaped)
  have "only_tags contact_tags
     (''<p><strong>'' @ escapeHtml label @ ''</strong></p>'' @ [CHR 0x0A] @ ''<p>From: '' @ escapeHtml (sender user) @
      (case sender_id user of Some i \<Rightarrow> ''<br/>User ID: '' @ escapeHtml i | None \<Rightarrow> []) @
      (if subject = [] then [] else ''<br/>Subject: '' @ escapeHtml subject) @ ''</p>'' @ [CHR 0x0A] @
      (''<p style='' @ [CHR 0x22] @ ''white-space:pre-wrap'' @ [CHR 0x22] @ ''>'') @ escapeHtml message @ ''</p>'')"
    by (intro contact.only_append contact_literals only_escaped nl i s)
  then show ?thesis by (simp add: contact_html_def)
qed

text \<open>
  C34. The contact form mails only support. A submission that reports success has handed at most one
  mail to the transport, and exactly one if there is an SMTP server (otherwise it is logged): from
  the configured sender to the support address, with the checked lengths, with markup that comes
  from the template alone, and with a Reply-To that is the user's address and only if that has
  one \<open>@\<close> and no white space, so that no header can be smuggled in.
\<close>

theorem contact_mail_is_harmless:
  assumes "submitContactAction rt smtp env user kind subject message m = (Inr (Ok u), m1)"
  shows "\<exists>support. supportEmail env = Inr (Some support) \<and>
    js_trim message \<noteq> [] \<and> js_length (js_trim message) \<le> MAX_MESSAGE \<and> js_length (js_trim subject) \<le> MAX_SUBJECT \<and>
    (if mailSmtpUrl env = Inr None then ml_sent m1 = ml_sent m \<and> length (ml_log m1) = Suc (length (ml_log m))
     else \<exists>t mail. ml_sent m1 = ml_sent m @ [(t, mail)] \<and> sm_to mail = support \<and> mailFrom env = Inr (sm_from mail) \<and>
       only_tags contact_tags (sm_html mail) \<and>
       (\<forall>r. sm_replyTo mail = Some r \<longrightarrow> (\<exists>c. user = Some c \<and> cu_email c = Some r) \<and>
          (\<forall>x \<in> set r. \<not> is_ws x) \<and> length (filter (\<lambda>x. x = CHR ''@'') r) = 1))"
proof -
  obtain support where s: "supportEmail env = Inr (Some support)"
    using assms by (auto simp: submitContactAction_def split: sum.splits option.splits)
  let ?mail = "contact_mail support (if kind = ''feature'' then ''feature'' else ''bug'') user (js_trim subject) (js_trim message)"
  from assms s have sent: "sendEmail rt smtp env ?mail m = (Inr (), m1)"
    and len: "js_trim message \<noteq> []" "js_length (js_trim message) \<le> MAX_MESSAGE" "js_length (js_trim subject) \<le> MAX_SUBJECT"
    by (auto simp: submitContactAction_def refuse_def Let_def split: sum.splits if_splits prod.splits)
  have reply: "(\<exists>c. user = Some c \<and> cu_email c = Some r) \<and> email_shape r" if "em_replyTo ?mail = Some r" for r
    using that by (auto simp: contact_mail_def Let_def set_var_def split: option.splits if_splits)
  have shape: "(\<forall>x \<in> set r. \<not> is_ws x) \<and> length (filter (\<lambda>x. x = CHR ''@'') r) = 1" if "email_shape r" for r
  proof -
    have "length (split_on (CHR ''@'') r) = Suc (length (filter (\<lambda>x. x = CHR ''@'') r))"
      by (induction r) (auto split: list.splits)
    with that show ?thesis by (auto simp: email_shape_def list_all_iff split: list.splits)
  qed
  have html: "em_html ?mail = Some (contact_html (KIND_LABEL (if kind = ''feature'' then ''feature'' else ''bug'')) user (js_trim subject) (js_trim message))"
    "em_to ?mail = support" by (simp_all add: contact_mail_def Let_def)
  show ?thesis
  proof (cases "mailSmtpUrl env = Inr None")
    case True
    with sent s len show ?thesis by (auto simp: sendEmail_def)
  next
    case False
    with sendEmail_sent [OF sent] obtain t mail where mail: "ml_sent m1 = ml_sent m @ [(t, mail)]" "sm_to mail = support"
        "mailFrom env = Inr (sm_from mail)" "sm_html mail = or_text (em_html ?mail) (em_text ?mail)" "sm_replyTo mail = em_replyTo ?mail"
      by (auto simp: html(2))
    have "only_tags contact_tags (sm_html mail)" using mail(4) html(1) contact_html_tags by (simp add: or_text_def)
    moreover have "\<forall>r. sm_replyTo mail = Some r \<longrightarrow> (\<exists>c. user = Some c \<and> cu_email c = Some r) \<and>
          (\<forall>x \<in> set r. \<not> is_ws x) \<and> length (filter (\<lambda>x. x = CHR ''@'') r) = 1"
      using mail(5) reply shape by metis
    ultimately show ?thesis using False s len mail(1-3) by auto
  qed
qed

definition mail_env :: server_env where
  "mail_env =
     \<lparr>se_vars = (\<lambda>k. if k = ''SUPPORT_EMAIL'' then Some ''help@acme.com'' else if k = ''MAIL_SMTP_URL'' then Some ''smtp://mail'' else None),
      se_window = False\<rparr>"

definition idle_mailer :: "unit mailer" where
  "idle_mailer = \<lparr>ml_cached = None, ml_smtp = (), ml_sent = [], ml_log = []\<rparr>"

theorem contact_mail_is_harmless_witness:
  "\<exists>m1 t mail. submitContactAction sample_runtime (\<lambda>t mail s. (None, s)) mail_env
       (Some \<lparr>cu_email = Some ''a@b.co'', cu_name = Some ''Al <b>'', cu_id = Some ''u1''\<rparr>) ''bug'' '' It fails '' ''<script>'' idle_mailer =
       (Inr (Ok ()), m1) \<and>
     ml_sent m1 = [(t, mail)] \<and> sm_to mail = ''help@acme.com'' \<and> sm_replyTo mail = Some ''a@b.co'' \<and> only_tags contact_tags (sm_html mail)"
proof -
  let ?run = "submitContactAction sample_runtime (\<lambda>t mail s. (None, s)) mail_env
       (Some \<lparr>cu_email = Some ''a@b.co'', cu_name = Some ''Al <b>'', cu_id = Some ''u1''\<rparr>) ''bug'' '' It fails '' ''<script>'' idle_mailer"
  have "fst ?run = Inr (Ok ())" "map (sm_replyTo \<circ> snd) (ml_sent (snd ?run)) = [Some ''a@b.co'']" by code_simp+
  moreover obtain r m1 where r: "?run = (r, m1)" by fastforce
  ultimately have m: "?run = (Inr (Ok ()), m1)" "map (sm_replyTo \<circ> snd) (ml_sent m1) = [Some ''a@b.co'']" by simp_all
  have "supportEmail mail_env = Inr (Some ''help@acme.com'')" "mailSmtpUrl mail_env \<noteq> Inr None" by code_simp+
  with contact_mail_is_harmless [OF m(1)] m show ?thesis by (auto simp: idle_mailer_def)
qed

end
