(* ===== verification/Dash_Mail.thy ===== *)
theory Dash_Mail
  imports Dash_Auth Dash_Social
begin

text \<open>
  The mails of the identity service: the templates of \<open>lib/email-templates.ts\<close>, and the callbacks of
  \<open>lib/auth.ts\<close> that render and send them. A template is a page around values that are escaped where
  they are put in; the last part shows that its markup does not depend on them.
\<close>

section \<open>The layout\<close>

record RenderedEmail =
  re_subject :: string
  re_html :: string
  re_text :: string


definition INK :: string where
  "INK = ''#171C29''"

definition INK2 :: string where
  "INK2 = ''#5C636C''"

definition INK3 :: string where
  "INK3 = ''#8A9099''"

definition INDIGO :: string where
  "INDIGO = ''#5647E1''"

definition BORDER :: string where
  "BORDER = ''#E4E7EC''"

definition BORDER_SOFT :: string where
  "BORDER_SOFT = ''#EEF0F4''"

definition MUTED :: string where
  "MUTED = ''#F5F7FA''"

definition PAGE :: string where
  "PAGE = ''#EDEFF3''"

definition SANS :: string where
  "SANS = [CHR 0x27] @
    ''Geist', -apple-system, BlinkMacSystemFont, 'Segoe UI', Helvetica, Arial, '' @
    ''sans-serif''"

definition MONO :: string where
  "MONO = [CHR 0x27] @
    ''Geist Mono', ui-monospace, 'SFMono-Regular', Menlo, Consolas, monospace''"

definition BRAND_URL :: string where
  "BRAND_URL = ''https://dropway.dev''"

definition PREHEADER_SPACER :: string where
  "PREHEADER_SPACER = concat (replicate 60 ''&#847;&zwnj;&nbsp;'')"

record LayoutInput =
  ly_preheader :: string
  ly_kicker :: string
  ly_heading :: string
  ly_bodyHtml :: string
  ly_buttonLabel :: string
  ly_url :: string
  ly_securityHtml :: string
  ly_footerReason :: string
  ly_appUrl :: string

definition logo_url :: "LayoutInput \<Rightarrow> string" where
  "logo_url i = esc (strip_slash (ly_appUrl i)) @ ''/email/dropway-mark.png''"

text \<open>One definition for each line of the template.\<close>

definition layout_head :: "LayoutInput \<Rightarrow> string" where
  \<open>layout_head i =
     ''<!doctype html><html lang="en" xmlns:v="urn:schemas-microsoft-com:vml" xmlns:o="urn:schemas-micr'' @
     ''osoft-com:office:office"><head><meta charset="utf-8"><meta name="viewport" '' @
     ''content="width=device-width,initial-scale=1"><meta name="x-apple-disable-message-reformatting">'' @
     ''<meta name="color-scheme" content="light"><meta name="supported-color-schemes" '' @
     ''content="light"><title>'' @
     esc (ly_heading i) @
     ''</title><!--[if mso]><noscript><xml><o:OfficeDocumentSettings><o:PixelsPerInch>'' @
     ''96</o:PixelsPerInch></o:OfficeDocumentSettings></xml></noscript><![endif]-->'' @
     ''<style>a{text-decoration:none}body,table,td{-webkit-text-size-adjust:100%;'' @
     ''-ms-text-size-adjust:100%}img{-ms-interpolation-mode:bicubic}@media only '' @
     ''screen and (max-width:620px){.cardpad{padding-left:24px!important;padding-right:24px!important}'' @
     ''.h{font-size:23px!important}.bodytext{font-size:15px!important}}</style>'' @
     ''</head><body style="margin:0;padding:0;background:'' @
     PAGE @
     '';width:100%;">''\<close>

definition layout_preheader :: "LayoutInput \<Rightarrow> string" where
  \<open>layout_preheader i =
     ''<div style="display:none;max-height:0;overflow:hidden;mso-hide:all;font-size:1px;'' @
     ''line-height:1px;color:'' @
     PAGE @
     '';opacity:0;">'' @
     esc (ly_preheader i) @
     ''&nbsp;'' @
     PREHEADER_SPACER @
     ''</div>''\<close>

definition layout_page :: "LayoutInput \<Rightarrow> string" where
  \<open>layout_page i =
     ''<table role="presentation" width="100%" cellpadding="0" cellspacing="0" '' @
     ''border="0" style="background:'' @
     PAGE @
     '';width:100%;"><tr><td align="center" style="padding:40px 14px;">''\<close>

definition layout_outlook_open :: "LayoutInput \<Rightarrow> string" where
  \<open>layout_outlook_open i =
     ''<!--[if mso | IE]><table role="presentation" width="600" align="center" '' @
     ''cellpadding="0" cellspacing="0" border="0"><tr><td><![endif]-->''\<close>

definition layout_card_open :: "LayoutInput \<Rightarrow> string" where
  \<open>layout_card_open i =
     ''<table role="presentation" align="center" cellpadding="0" cellspacing="0" '' @
     ''border="0" style="width:100%;max-width:600px;background:#ffffff;border:1px '' @
     ''solid '' @
     BORDER @
     '';border-radius:16px;overflow:hidden;">''\<close>

definition layout_logo_row :: "LayoutInput \<Rightarrow> string" where
  \<open>layout_logo_row i =
     ''<tr><td class="cardpad" style="padding:40px 48px 0;" align="center"><table '' @
     ''role="presentation" cellpadding="0" cellspacing="0" border="0" style="border-collapse:collapse;'' @
     ''"><tr><td style="padding-right:11px;vertical-align:middle;"><a href="'' @
     BRAND_URL @
     ''" style="text-decoration:none;"><img src="'' @
     logo_url i @
     ''" width="30" height="30" alt="Dropway" style="display:block;border:0;border-radius:6.6px;'' @
     ''"></a></td><td style="vertical-align:middle;font-family:'' @
     SANS @
     '';font-size:19.8px;font-weight:600;letter-spacing:-0.03em;color:'' @
     INK @
     '';"><a href="'' @
     BRAND_URL @
     ''" style="color:'' @
     INK @
     '';text-decoration:none;">Dropway</a></td></tr></table></td></tr>''\<close>

definition layout_kicker_row :: "LayoutInput \<Rightarrow> string" where
  \<open>layout_kicker_row i =
     ''<tr><td class="cardpad" style="padding:34px 48px 0;" align="center"><p style="margin:0;'' @
     ''font-family:'' @
     MONO @
     '';font-size:12px;letter-spacing:0.16em;text-transform:uppercase;color:'' @
     INDIGO @
     '';">'' @
     esc (ly_kicker i) @
     ''</p></td></tr>''\<close>

definition layout_heading_row :: "LayoutInput \<Rightarrow> string" where
  \<open>layout_heading_row i =
     ''<tr><td class="cardpad" style="padding:12px 48px 0;" align="center"><h1 '' @
     ''class="h" style="margin:0;font-family:'' @
     SANS @
     '';font-size:28px;line-height:1.18;letter-spacing:-0.025em;font-weight:600;'' @
     ''color:'' @
     INK @
     '';">'' @
     esc (ly_heading i) @
     ''</h1></td></tr>''\<close>

definition layout_body_row :: "LayoutInput \<Rightarrow> string" where
  \<open>layout_body_row i =
     ''<tr><td class="cardpad" style="padding:16px 52px 0;" align="center"><p class="bodytext" '' @
     ''style="margin:0;font-family:'' @
     SANS @
     '';font-size:16px;line-height:1.65;color:'' @
     INK2 @
     '';">'' @
     ly_bodyHtml i @
     ''</p></td></tr>''\<close>

definition layout_button_row :: "LayoutInput \<Rightarrow> string" where
  \<open>layout_button_row i =
     ''<tr><td class="cardpad" style="padding:32px 48px 0;" align="center"><!--[if '' @
     ''mso]><v:roundrect xmlns:v="urn:schemas-microsoft-com:vml" xmlns:w="urn:schemas-microsoft-com:off'' @
     ''ice:word" href="'' @
     esc (ly_url i) @
     ''" style="height:48px;v-text-anchor:middle;width:300px;" arcsize="22%" stroke="f" '' @
     ''fillcolor="'' @
     INDIGO @
     ''"><w:anchorlock/><center style="color:#ffffff;font-family:Helvetica,Arial,sans-serif;'' @
     ''font-size:15px;font-weight:600;">'' @
     esc (ly_buttonLabel i) @
     ''</center></v:roundrect><![endif]--><!--[if !mso]><!-- --><a href="'' @
     esc (ly_url i) @
     ''" style="display:inline-block;background:'' @
     INDIGO @
     '';color:#ffffff;font-family:'' @
     SANS @
     '';font-size:15px;font-weight:600;line-height:48px;text-decoration:none;border-radius:10px;'' @
     ''padding:0 34px;box-shadow:0 1px 2px rgba(23,28,41,0.18);">'' @
     esc (ly_buttonLabel i) @
     ''</a><!--<![endif]--></td></tr>''\<close>

definition layout_link_row :: "LayoutInput \<Rightarrow> string" where
  \<open>layout_link_row i =
     ''<tr><td class="cardpad" style="padding:26px 48px 0;" align="center"><p style="margin:0 '' @
     ''0 7px;font-family:'' @
     MONO @
     '';font-size:11px;letter-spacing:0.04em;text-transform:uppercase;color:'' @
     INK3 @
     '';text-align:center;">Button not working? Paste this link</p><p style="margin:0;'' @
     ''font-family:'' @
     MONO @
     '';font-size:12px;line-height:1.55;color:'' @
     INDIGO @
     '';word-break:break-all;text-align:center;"><a href="'' @
     esc (ly_url i) @
     ''" style="color:'' @
     INDIGO @
     '';text-decoration:none;">'' @
     esc (ly_url i) @
     ''</a></p></td></tr>''\<close>

definition layout_rule_row :: "LayoutInput \<Rightarrow> string" where
  \<open>layout_rule_row i =
     ''<tr><td class="cardpad" style="padding:32px 48px 0;"><div style="height:1px;'' @
     ''background:'' @
     BORDER_SOFT @
     '';line-height:1px;font-size:0;">&nbsp;</div></td></tr>''\<close>

definition layout_security_row :: "LayoutInput \<Rightarrow> string" where
  \<open>layout_security_row i =
     ''<tr><td class="cardpad" style="padding:24px 48px 40px;"><table role="presentation" '' @
     ''width="100%" cellpadding="0" cellspacing="0" border="0" style="background:'' @
     MUTED @
     '';border-radius:10px;"><tr><td style="padding:16px 18px;"><p style="margin:0 '' @
     ''0 4px;font-family:'' @
     MONO @
     '';font-size:10px;letter-spacing:0.12em;text-transform:uppercase;color:'' @
     INK3 @
     '';">Security</p><p style="margin:0;font-family:'' @
     SANS @
     '';font-size:13px;line-height:1.6;color:'' @
     INK2 @
     '';">'' @
     ly_securityHtml i @
     ''</p></td></tr></table></td></tr>''\<close>

definition layout_card_close :: "LayoutInput \<Rightarrow> string" where
  \<open>layout_card_close i =
     ''</table>''\<close>

definition layout_footer_row :: "LayoutInput \<Rightarrow> string" where
  \<open>layout_footer_row i =
     ''<table role="presentation" align="center" cellpadding="0" cellspacing="0" '' @
     ''border="0" style="width:100%;max-width:600px;"><tr><td class="cardpad" style="padding:28px '' @
     ''48px 8px;" align="center"><p style="margin:0 0 4px;font-family:'' @
     SANS @
     '';font-size:12px;line-height:1.6;color:'' @
     INK3 @
     '';text-align:center;">'' @
     esc (ly_footerReason i) @
     ''</p><p style="margin:0;font-family:'' @
     SANS @
     '';font-size:12px;line-height:1.6;color:'' @
     INK3 @
     '';text-align:center;"><a href="'' @
     BRAND_URL @
     ''" style="color:'' @
     INK3 @
     '';text-decoration:none;">Dropway</a></p></td></tr></table>''\<close>

definition layout_outlook_close :: "LayoutInput \<Rightarrow> string" where
  \<open>layout_outlook_close i =
     ''<!--[if mso | IE]></td></tr></table><![endif]-->''\<close>

definition layout_close :: "LayoutInput \<Rightarrow> string" where
  \<open>layout_close i =
     ''</td></tr></table></body></html>''\<close>

definition renderLayout :: "LayoutInput \<Rightarrow> string" where
  "renderLayout i =
     join [CHR 0x0A]
       [layout_head i, layout_preheader i, layout_page i, layout_outlook_open i,
        layout_card_open i, layout_logo_row i, layout_kicker_row i, layout_heading_row i,
        layout_body_row i, layout_button_row i, layout_link_row i, layout_rule_row i,
        layout_security_row i, layout_card_close i, layout_footer_row i, layout_outlook_close i,
        layout_close i]"


definition renderText :: "string \<Rightarrow> string \<Rightarrow> string \<Rightarrow> string \<Rightarrow> string \<Rightarrow> string" where
  "renderText heading body cta url security =
     heading @ [CHR 0x0A, CHR 0x0A] @ body @ [CHR 0x0A, CHR 0x0A] @ cta @ '':'' @ [CHR 0x0A] @ url @ [CHR 0x0A, CHR 0x0A] @
     security @ [CHR 0x0A, CHR 0x0A] @ ''Dropway''"

section \<open>The four mails\<close>

definition invitation_security :: string where
  "invitation_security =
     ''This invitation expires in 2 days. If you weren't expecting it, you can '' @
     ''safely ignore this email.''"

text \<open>The name of the inviter, trimmed, if it is not blank.\<close>

definition inviter_name :: "string option \<Rightarrow> string option" where
  "inviter_name name = set_var (map_option js_trim name)"

definition bold_name :: "string \<Rightarrow> string" where
  \<open>bold_name s = ''<b style="color:'' @ INK @ '';font-weight:600;">'' @ esc s @ ''</b>''\<close>

definition lead_html :: "string option \<Rightarrow> string \<Rightarrow> string" where
  "lead_html inviter orgName =
     (case inviter of
        Some n \<Rightarrow> bold_name n @ '' invited you to join the ''
      | None \<Rightarrow> ''You've been invited to join the '') @
     bold_name orgName @ '' workspace on Dropway. Accept to start shipping folders straight to live URLs.''"

definition lead_text :: "string option \<Rightarrow> string \<Rightarrow> string" where
  "lead_text inviter orgName =
     (case inviter of
        Some n \<Rightarrow> n @ '' invited you to join the ''
      | None \<Rightarrow> ''You've been invited to join the '') @
     orgName @ '' workspace on Dropway. Accept to start shipping folders straight to live URLs.''"

definition invitationEmail :: "string \<Rightarrow> string \<Rightarrow> string \<Rightarrow> string option \<Rightarrow> RenderedEmail" where
  "invitationEmail url appUrl orgName inviterName =
     (let inviter = inviter_name inviterName
      in \<lparr>re_subject = ''You're invited to join '' @ orgName @ '' on Dropway'',
          re_html = renderLayout
            \<lparr>ly_preheader = (case inviter of
               Some n \<Rightarrow> n @ '' invited you to the '' @ orgName @ '' workspace on Dropway.''
             | None \<Rightarrow> ''You've been invited to the '' @ orgName @ '' workspace on Dropway.''),
             ly_kicker = ''Invitation'', ly_heading = ''You're invited to Dropway'',
             ly_bodyHtml = lead_html inviter orgName, ly_buttonLabel = ''Accept invitation'', ly_url = url,
             ly_securityHtml = invitation_security,
             ly_footerReason = ''You received this email because you were invited to a Dropway workspace.'',
             ly_appUrl = appUrl\<rparr>,
          re_text = renderText (''You're invited to Dropway'') (lead_text inviter orgName)
            ''Accept the invitation'' url invitation_security\<rparr>)"

definition verifyEmail :: "string \<Rightarrow> string \<Rightarrow> RenderedEmail" where
  "verifyEmail url appUrl =
     (let security = ''This link expires in 1 hour. If you didn't create a Dropway account, you '' @
          ''can safely ignore this email.''
      in \<lparr>re_subject = ''Verify your email for Dropway'',
          re_html = renderLayout
            \<lparr>ly_preheader = ''Confirm your email to finish setting up your Dropway account.'',
             ly_kicker = ''Verify email'', ly_heading = ''Verify your email address'',
             ly_bodyHtml = ''Welcome to Dropway. Confirm this address to activate your account and deploy '' @
              ''your first project.'',
             ly_buttonLabel = ''Verify email'', ly_url = url, ly_securityHtml = security,
             ly_footerReason = ''You received this email because this address was used to sign up for Dropway.'',
             ly_appUrl = appUrl\<rparr>,
          re_text = renderText ''Verify your email address''
            (''Welcome to Dropway. Confirm this address to activate your account and deploy '' @
              ''your first project.'')
            ''Verify your email'' url security\<rparr>)"

definition magicLinkEmail :: "string \<Rightarrow> string \<Rightarrow> RenderedEmail" where
  "magicLinkEmail url appUrl =
     (let security = ''This link expires in 5 minutes and can be used once. If you didn't request '' @
          ''it, you can safely ignore this email. Your account stays secure.''
      in \<lparr>re_subject = ''Sign in to Dropway'',
          re_html = renderLayout
            \<lparr>ly_preheader = ''Your link to sign in to Dropway expires in 5 minutes.'',
             ly_kicker = ''Sign in'', ly_heading = ''Sign in to Dropway'',
             ly_bodyHtml = ''Use the button below to sign in to Dropway. No password needed.'',
             ly_buttonLabel = ''Sign in to Dropway'', ly_url = url, ly_securityHtml = security,
             ly_footerReason = ''You received this email because a sign in was requested for this address.'',
             ly_appUrl = appUrl\<rparr>,
          re_text = renderText ''Sign in to Dropway''
            (''Use the button below to sign in to Dropway. No password needed.'')
            ''Sign in to Dropway'' url security\<rparr>)"

definition passwordResetEmail :: "string \<Rightarrow> string \<Rightarrow> RenderedEmail" where
  "passwordResetEmail url appUrl =
     (let security = ''This link expires in 1 hour. If you didn't request a reset, your password '' @
          ''is unchanged and you can safely ignore this email.''
      in \<lparr>re_subject = ''Reset your Dropway password'',
          re_html = renderLayout
            \<lparr>ly_preheader = ''Reset the password for your Dropway account.'',
             ly_kicker = ''Reset password'', ly_heading = ''Reset your password'',
             ly_bodyHtml = ''We received a request to reset the password for your Dropway account. Choose '' @
              ''a new one using the button below.'',
             ly_buttonLabel = ''Reset password'', ly_url = url, ly_securityHtml = security,
             ly_footerReason = ''You received this email because a password reset was requested for this '' @
              ''address.'',
             ly_appUrl = appUrl\<rparr>,
          re_text = renderText ''Reset your password''
            (''We received a request to reset the password for your Dropway account. Choose '' @
              ''a new one using the button below.'')
            ''Reset your password'' url security\<rparr>)"

section \<open>The callbacks\<close>

definition rendered_message :: "string \<Rightarrow> RenderedEmail \<Rightarrow> EmailMessage" where
  "rendered_message to_addr mail =
     \<lparr>em_to = to_addr, em_subject = re_subject mail, em_text = re_text mail, em_html = Some (re_html mail), em_replyTo = None\<rparr>"

definition sendResetPassword ::
  "runtime \<Rightarrow> (string \<Rightarrow> SentMail \<Rightarrow> 'm \<Rightarrow> string option \<times> 'm) \<Rightarrow> server_env \<Rightarrow> string \<Rightarrow> string \<Rightarrow> 'm mailer \<Rightarrow> unit result \<times> 'm mailer" where
  "sendResetPassword rt smtp env email url m =
     sendEmail rt smtp env (rendered_message email (passwordResetEmail url (betterAuthUrl env))) m"

definition sendVerificationEmail ::
  "runtime \<Rightarrow> (string \<Rightarrow> SentMail \<Rightarrow> 'm \<Rightarrow> string option \<times> 'm) \<Rightarrow> server_env \<Rightarrow> string \<Rightarrow> string \<Rightarrow> 'm mailer \<Rightarrow> unit result \<times> 'm mailer" where
  "sendVerificationEmail rt smtp env email url m =
     sendEmail rt smtp env (rendered_message email (verifyEmail url (betterAuthUrl env))) m"

definition sendMagicLink ::
  "runtime \<Rightarrow> (string \<Rightarrow> SentMail \<Rightarrow> 'm \<Rightarrow> string option \<times> 'm) \<Rightarrow> server_env \<Rightarrow> string \<Rightarrow> string \<Rightarrow> 'm mailer \<Rightarrow> unit result \<times> 'm mailer" where
  "sendMagicLink rt smtp env email url m =
     sendEmail rt smtp env (rendered_message email (magicLinkEmail url (betterAuthUrl env))) m"

definition accept_url :: "server_env \<Rightarrow> string \<Rightarrow> string" where
  "accept_url env i = betterAuthUrl env @ ''/accept-invitation/'' @ i"

text \<open>The invitation is sent after the answer, and a failure is logged.\<close>

definition sendInvitationEmail ::
  "runtime \<Rightarrow> (string \<Rightarrow> SentMail \<Rightarrow> 'm \<Rightarrow> string option \<times> 'm) \<Rightarrow> server_env \<Rightarrow> string \<Rightarrow> string \<Rightarrow> string option \<Rightarrow>
   string option \<Rightarrow> 'm mailer \<Rightarrow> 'm mailer" where
  "sendInvitationEmail rt smtp env i email orgName inviterName m =
     (case sendEmail rt smtp env
             (rendered_message email
                (invitationEmail (accept_url env i) (betterAuthUrl env) (env_or orgName ''your team'') inviterName)) m of
        (Inr u, m1) \<Rightarrow> m1
      | (Inl e, m1) \<Rightarrow>
          m1\<lparr>ml_log := ml_log m1 @ [''[invite-email] failed to send to '' @ email @ '': '' @ error_name e @ '': '' @ error_message e]\<rparr>)"

section \<open>The markup of a mail\<close>

text \<open>The characters that open and close tags and attribute values, in order.\<close>

definition markup :: "string \<Rightarrow> string" where
  "markup s = filter (\<lambda>c. c = CHR ''<'' \<or> c = CHR ''>'' \<or> c = CHR 0x22 \<or> c = CHR 0x27) s"

lemma markup_append: "markup (u @ v) = markup u @ markup v"
  by (simp add: markup_def)

lemma markup_esc: "markup (esc s) = []"
  using esc5.escape_no_markup [of s] esc_no_apostrophe [of s] by (auto simp: markup_def filter_empty_conv)

lemma markup_join: "map markup xs = map markup ys \<Longrightarrow> markup (join sep xs) = markup (join sep ys)"
proof (induction sep xs arbitrary: ys rule: join.induct)
  case (3 sep x y zs)
  then obtain x' y' zs' where "ys = x' # y' # zs'" by (cases ys; cases "tl ys") auto
  with 3 show ?case by (simp add: markup_append)
qed (auto simp: markup_append map_eq_Cons_conv)

lemma markup_logo: "markup (logo_url i) = markup ''/email/dropway-mark.png''"
  by (simp only: logo_url_def markup_append markup_esc append_Nil)

lemmas layout_lines = layout_head_def layout_preheader_def layout_page_def layout_outlook_open_def layout_card_open_def
  layout_logo_row_def layout_kicker_row_def
  layout_heading_row_def layout_body_row_def layout_button_row_def layout_link_row_def
  layout_rule_row_def layout_security_row_def layout_card_close_def layout_footer_row_def layout_outlook_close_def layout_close_def

lemma layout_line_markup:
  "markup (layout_head i) = markup (layout_head j)"
  "markup (layout_preheader i) = markup (layout_preheader j)"
  "markup (layout_page i) = markup (layout_page j)"
  "markup (layout_outlook_open i) = markup (layout_outlook_open j)"
  "markup (layout_card_open i) = markup (layout_card_open j)"
  "markup (layout_logo_row i) = markup (layout_logo_row j)"
  "markup (layout_kicker_row i) = markup (layout_kicker_row j)"
  "markup (layout_heading_row i) = markup (layout_heading_row j)"
  "markup (layout_button_row i) = markup (layout_button_row j)"
  "markup (layout_link_row i) = markup (layout_link_row j)"
  "markup (layout_rule_row i) = markup (layout_rule_row j)"
  "markup (layout_card_close i) = markup (layout_card_close j)"
  "markup (layout_footer_row i) = markup (layout_footer_row j)"
  "markup (layout_outlook_close i) = markup (layout_outlook_close j)"
  "markup (layout_close i) = markup (layout_close j)"
  "markup (ly_bodyHtml i) = markup (ly_bodyHtml j) \<Longrightarrow> markup (layout_body_row i) = markup (layout_body_row j)"
  "markup (ly_securityHtml i) = markup (ly_securityHtml j) \<Longrightarrow> markup (layout_security_row i) = markup (layout_security_row j)"
  by (simp_all only: layout_lines markup_append markup_esc markup_logo)

lemma renderLayout_markup:
  assumes "markup (ly_bodyHtml i) = markup (ly_bodyHtml j)" "markup (ly_securityHtml i) = markup (ly_securityHtml j)"
  shows "markup (renderLayout i) = markup (renderLayout j)"
  unfolding renderLayout_def by (rule markup_join) (simp only: list.map layout_line_markup [of i j] assms)

lemma markup_bold: "markup (bold_name s) = markup (bold_name t)"
  by (simp only: bold_name_def markup_append markup_esc)

lemma invitation_markup:
  assumes "inviter_name n = None \<longleftrightarrow> inviter_name n' = None"
  shows "markup (re_html (invitationEmail url app org n)) = markup (re_html (invitationEmail url' app' org' n'))"
proof -
  have "markup (lead_html a org) = markup (lead_html b org')" if "a = None \<longleftrightarrow> b = None" for a b
  proof (cases a)
    case None
    with that have b: "b = None" by simp
    show ?thesis by (simp only: lead_html_def None b option.case markup_append markup_bold [of org org'])
  next
    case (Some x)
    with that obtain y where b: "b = Some y" by auto
    show ?thesis by (simp only: lead_html_def Some b option.case markup_append markup_bold [of org org'] markup_bold [of x y])
  qed
  from this [OF assms] show ?thesis
    unfolding invitationEmail_def Let_def RenderedEmail.select_convs
    by (intro renderLayout_markup) (simp_all only: LayoutInput.select_convs)
qed

lemma plain_mail_markup:
  "markup (re_html (verifyEmail url app)) = markup (re_html (verifyEmail url' app'))"
  "markup (re_html (magicLinkEmail url app)) = markup (re_html (magicLinkEmail url' app'))"
  "markup (re_html (passwordResetEmail url app)) = markup (re_html (passwordResetEmail url' app'))"
  unfolding verifyEmail_def magicLinkEmail_def passwordResetEmail_def Let_def RenderedEmail.select_convs
  by (rule renderLayout_markup; simp only: LayoutInput.select_convs)+

text \<open>The link of a mail stands in its text as it is, and escaped in its HTML as a target.\<close>

definition carries_link :: "string \<Rightarrow> string \<Rightarrow> string \<Rightarrow> bool" where
  "carries_link text html url \<longleftrightarrow>
     (\<exists>a b. text = a @ url @ b) \<and> (\<exists>a b. html = a @ ''<a href='' @ [CHR 0x22] @ esc url @ [CHR 0x22] @ b)"

lemma join_mem: "x \<in> set xs \<Longrightarrow> \<exists>a b. join sep xs = a @ x @ b"
proof (induction sep xs rule: join.induct)
  case (3 sep y z zs)
  show ?case
  proof (cases "x = y")
    case True
    then show ?thesis by (auto intro: exI [of _ "[]"])
  next
    case False
    with 3 obtain a b where "join sep (z # zs) = a @ x @ b" by auto
    then have "join sep (y # z # zs) = (y @ sep @ a) @ x @ b" by simp
    then show ?thesis by blast
  qed
qed (auto intro: exI [of _ "[]"])

lemma link_row: "\<exists>a b. layout_link_row i = a @ ''<a href='' @ [CHR 0x22] @ esc (ly_url i) @ [CHR 0x22] @ b"
proof -
  let ?a = \<open>''<tr><td class="cardpad" style="padding:26px 48px 0;" align="center"><p style="margin:0 '' @
     ''0 7px;font-family:'' @ MONO @ '';font-size:11px;letter-spacing:0.04em;text-transform:uppercase;color:'' @ INK3 @
     '';text-align:center;">Button not working? Paste this link</p><p style="margin:0;'' @
     ''font-family:'' @ MONO @ '';font-size:12px;line-height:1.55;color:'' @ INDIGO @
     '';word-break:break-all;text-align:center;">''\<close>
  let ?b = \<open>'' style="color:'' @ INDIGO @ '';text-decoration:none;">'' @ esc (ly_url i) @ ''</a></p></td></tr>''\<close>
  have "layout_link_row i = ?a @ ''<a href='' @ [CHR 0x22] @ esc (ly_url i) @ [CHR 0x22] @ ?b"
    by (simp add: layout_link_row_def)
  then show ?thesis by blast
qed

lemma renderLayout_link: "\<exists>a b. renderLayout i = a @ ''<a href='' @ [CHR 0x22] @ esc (ly_url i) @ [CHR 0x22] @ b"
proof -
  obtain a b where "renderLayout i = a @ layout_link_row i @ b"
    using join_mem [of "layout_link_row i"] unfolding renderLayout_def by (metis list.set_intros)
  moreover obtain c d where "layout_link_row i = c @ ''<a href='' @ [CHR 0x22] @ esc (ly_url i) @ [CHR 0x22] @ d"
    using link_row by blast
  ultimately have "renderLayout i = (a @ c) @ ''<a href='' @ [CHR 0x22] @ esc (ly_url i) @ [CHR 0x22] @ (d @ b)"
    by (simp only: append_assoc)
  then show ?thesis by blast
qed

lemma carried:
  "carries_link (re_text (verifyEmail url app)) (re_html (verifyEmail url app)) url"
  "carries_link (re_text (magicLinkEmail url app)) (re_html (magicLinkEmail url app)) url"
  "carries_link (re_text (passwordResetEmail url app)) (re_html (passwordResetEmail url app)) url"
  "carries_link (re_text (invitationEmail url app org n)) (re_html (invitationEmail url app org n)) url"
proof -
  have t: "\<exists>a b. renderText heading body cta url security = a @ url @ b" for heading body cta security
    by (intro exI [of _ "heading @ [CHR 0x0A, CHR 0x0A] @ body @ [CHR 0x0A, CHR 0x0A] @ cta @ '':'' @ [CHR 0x0A]"]
        exI [of _ "[CHR 0x0A, CHR 0x0A] @ security @ [CHR 0x0A, CHR 0x0A] @ ''Dropway''"])
      (simp only: renderText_def append_assoc)
  have c: "carries_link (renderText heading body cta url security) (renderLayout i) url" if "ly_url i = url"
    for heading body cta security i
    using t renderLayout_link [of i] unfolding that carries_link_def by blast
  show "carries_link (re_text (verifyEmail url app)) (re_html (verifyEmail url app)) url"
    "carries_link (re_text (magicLinkEmail url app)) (re_html (magicLinkEmail url app)) url"
    "carries_link (re_text (passwordResetEmail url app)) (re_html (passwordResetEmail url app)) url"
    "carries_link (re_text (invitationEmail url app org n)) (re_html (invitationEmail url app org n)) url"
    unfolding verifyEmail_def magicLinkEmail_def passwordResetEmail_def invitationEmail_def Let_def RenderedEmail.select_convs
    by (rule c, simp only: LayoutInput.select_convs)+
qed

text \<open>
  C30. An invitation is only its template. Whatever the name of the organization and the identifier are,
  and whether there is an inviter with a name or not, the one mail that goes to the invited address carries
  the link that accepts the invitation; its markup, every bracket and quote of the HTML in order, is the
  same as for any other names in the same one of the two templates (with and without an inviter), so
  nothing that a member chose can open a tag or leave an attribute. Without a mail server no mail is
  sent; it is only logged. The other mails have a fixed markup and carry their link too.
\<close>

theorem invitation_is_only_its_template:
  assumes "\<not> se_window env" "sendInvitationEmail rt smtp env i email orgName inviter m = m1"
  shows "(if mailSmtpUrl env = Inr None then ml_sent m1 = ml_sent m
     else \<exists>t mail. ml_sent m1 = ml_sent m @ [(t, mail)] \<and> sm_to mail = email \<and>
       carries_link (sm_text mail) (sm_html mail) (accept_url env i) \<and>
       markup (sm_html mail) =
         markup (re_html (invitationEmail [] [] ''Acme'' (if \<exists>n. inviter = Some n \<and> js_trim n \<noteq> [] then Some ''Ada'' else None)))) \<and>
    markup (re_html (verifyEmail url app)) = markup (re_html (verifyEmail [] [])) \<and>
    markup (re_html (magicLinkEmail url app)) = markup (re_html (magicLinkEmail [] [])) \<and>
    markup (re_html (passwordResetEmail url app)) = markup (re_html (passwordResetEmail [] [])) \<and>
    carries_link (re_text (verifyEmail url app)) (re_html (verifyEmail url app)) url \<and>
    carries_link (re_text (magicLinkEmail url app)) (re_html (magicLinkEmail url app)) url \<and>
    carries_link (re_text (passwordResetEmail url app)) (re_html (passwordResetEmail url app)) url"
proof -
  let ?mail = "invitationEmail (accept_url env i) (betterAuthUrl env) (env_or orgName ''your team'') inviter"
  let ?other = "if \<exists>n. inviter = Some n \<and> js_trim n \<noteq> [] then Some ''Ada'' else None"
  obtain r m2 where sent: "sendEmail rt smtp env (rendered_message email ?mail) m = (r, m2)" by fastforce
  have "mailSmtpUrl env \<noteq> Inl e" for e using assms(1) by (simp add: mailSmtpUrl_def requireServer_def)
  then obtain u where r: "r = Inr u"
    using sent by (auto simp: sendEmail_def Let_def split: sum.splits option.splits prod.splits)
  then have m1: "m1 = m2" using assms(2) sent by (simp add: sendInvitationEmail_def)
  have "inviter_name (Some ''Ada'') \<noteq> None" by (simp add: inviter_name_def set_var_def js_trim_def js_defs)
  then have names: "inviter_name inviter = None \<longleftrightarrow> inviter_name ?other = None"
    by (cases inviter) (auto simp: inviter_name_def set_var_def)
  have html: "em_html (rendered_message email ?mail) = Some (re_html ?mail)" "em_text (rendered_message email ?mail) = re_text ?mail"
    "em_to (rendered_message email ?mail) = email"
    by (simp_all only: rendered_message_def EmailMessage.select_convs)
  have "if mailSmtpUrl env = Inr None then ml_sent m1 = ml_sent m
     else \<exists>t mail. ml_sent m1 = ml_sent m @ [(t, mail)] \<and> sm_to mail = email \<and>
       carries_link (sm_text mail) (sm_html mail) (accept_url env i) \<and>
       markup (sm_html mail) = markup (re_html (invitationEmail [] [] ''Acme'' ?other))"
  proof (cases "mailSmtpUrl env = Inr None")
    case True
    with sendEmail_sent [OF sent [unfolded r]] m1 show ?thesis by simp
  next
    case False
    with sendEmail_sent [OF sent [unfolded r]] m1 obtain t mail where
      m: "ml_sent m1 = ml_sent m @ [(t, mail)]" "sm_to mail = email" "sm_text mail = re_text ?mail" "sm_html mail = re_html ?mail"
      unfolding html or_text_def option.case by auto
    have "carries_link (sm_text mail) (sm_html mail) (accept_url env i)" unfolding m(3,4) by (rule carried(4))
    moreover have "markup (sm_html mail) = markup (re_html (invitationEmail [] [] ''Acme'' ?other))"
      unfolding m(4) by (rule invitation_markup [OF names])
    ultimately show ?thesis using False m(1,2) by auto
  qed
  then show ?thesis
    by (intro conjI carried plain_mail_markup)
qed

theorem invitation_is_only_its_template_witness:
  "\<exists>m1 t mail. sendInvitationEmail sample_runtime (\<lambda>t mail s. (None, s)) mail_env ''i1'' ''new@acme.com'' (Some ''<b>'')
       (Some ''<script>'') idle_mailer = m1 \<and> ml_sent m1 = [(t, mail)] \<and> sm_to mail = ''new@acme.com'' \<and>
     markup (sm_html mail) = markup (re_html (invitationEmail [] [] ''Acme'' (Some ''Ada'')))"
proof -
  have p: "\<not> se_window mail_env" "mailSmtpUrl mail_env \<noteq> Inr None"
    by (simp_all add: mail_env_def mailSmtpUrl_def requireServer_def set_var_def)
  have n: "js_trim ''<script>'' \<noteq> []" by code_simp
  have e: "ml_sent idle_mailer = []" by (simp add: idle_mailer_def)
  from conjunct1 [OF invitation_is_only_its_template [OF p(1) refl,
      of sample_runtime "\<lambda>t mail s. (None, s)" "''i1''" "''new@acme.com''" "Some ''<b>''" "Some ''<script>''" idle_mailer]] n
  show ?thesis unfolding if_not_P [OF p(2)] e append_Nil by auto
qed

end
