(* ===== verification/Dash_Markdown.thy ===== *)
theory Dash_Markdown
  imports Markdown Dash_Env
begin

text \<open>
  Text that the dashboard shows: the preview of \<open>lib/markdown.ts\<close>, the error page of an authorization
  (\<open>lib/oauth-error-page.ts\<close>) and the age of a post (\<open>lib/utils.ts\<close>). The patterns are written out as
  matchers, with the corner of the viewer set aside: white space is ASCII white space. The preview
  shares the tags' locale with the viewer of the serving Worker, for tags of its own.
\<close>

section \<open>Inline transforms\<close>

definition safeHref :: "string \<Rightarrow> string option" where
  "safeHref url =
     (let trimmed = js_trim url
      in if startsWith (toLowerCase trimmed) ''http://'' \<or> startsWith (toLowerCase trimmed) ''https://'' \<or>
            startsWith trimmed ''/'' \<or> startsWith trimmed ''#''
         then Some trimmed
         else if url_scheme trimmed = None then Some trimmed
         else None)"

definition code_match :: "string \<Rightarrow> (string \<times> string) option" where
  "code_match s = map_option (\<lambda>(code, rest). (''<code>'' @ code @ ''</code>'', rest)) (code_span s)"

text \<open>
  The pass for \<open>/(^|[^*])\*([^*]+)\*/g\<close>. A star can open only at the start of the text or behind a
  character that is no star and not part of the previous match, which \<open>may_open\<close> remembers.
\<close>

function em_pass :: "bool \<Rightarrow> string \<Rightarrow> string" where
  "em_pass may_open [] = []"
| "em_pass may_open (c # cs) =
     (if c = CHR ''*'' then
        (let g = takeWhile (\<lambda>x. x \<noteq> CHR ''*'') cs; r = dropWhile (\<lambda>x. x \<noteq> CHR ''*'') cs
         in if may_open \<and> g \<noteq> [] \<and> r \<noteq> []
            then ''<em>'' @ g @ ''</em>'' @ em_pass False (tl r)
            else c # em_pass False cs)
      else c # em_pass True cs)"
  by pat_completeness auto
termination
proof (relation "measure (\<lambda>(may_open, s). length s)", goal_cases)
  case (2 may_open c cs g r)
  then show ?case using length_dropWhile_le [of "\<lambda>x. x \<noteq> CHR ''*''" cs] by auto
qed auto

definition preview_link :: "string \<Rightarrow> (string \<times> string) option" where
  \<open>preview_link s =
     (if startsWith s ''['' then
        (let label = takeWhile (\<lambda>x. x \<noteq> CHR '']'') (tl s); r = drop (length label) (tl s)
         in if label \<noteq> [] \<and> startsWith r ''](''  then
              (let url = takeWhile (\<lambda>x. x \<noteq> CHR '')'') (drop 2 r); r' = drop (length url) (drop 2 r)
               in if url \<noteq> [] \<and> startsWith r' '')''
                  then Some (case safeHref url of
                               Some (h # hs) \<Rightarrow>
                                 ''<a href="'' @ (h # hs) @ ''" rel="noreferrer noopener nofollow" target="_blank">'' @ label @ ''</a>''
                             | _ \<Rightarrow> ''['' @ label @ ''](''  @ url @ '')'', tl r')
                  else None)
            else None)
      else None)\<close>

definition preview_inline :: "string \<Rightarrow> string" where
  "preview_inline text =
     replace_matches preview_link
       (em_pass True
         (replace_matches (delim_match ''**'' (CHR ''*'') ''strong'')
           (replace_matches code_match text)))"

section \<open>Blocks\<close>

fun crlf_lines :: "string \<Rightarrow> string" where
  "crlf_lines (c # d # s) =
     (if c = CHR 0x0D \<and> d = CHR 0x0A then CHR 0x0A # crlf_lines s else c # crlf_lines (d # s))"
| "crlf_lines s = s"

text \<open>What the dot matches to the end of a line: no carriage return.\<close>

definition dots :: "string \<Rightarrow> string option" where
  "dots s = (if CHR 0x0D \<in> set s then None else Some s)"

definition preview_heading :: "string \<Rightarrow> (nat \<times> string) option" where
  "preview_heading line =
     (let n = length (takeWhile (\<lambda>c. c = CHR ''#'') line); r = drop n line
      in if 1 \<le> n \<and> n \<le> 6 \<and> r \<noteq> [] \<and> is_ws (hd r) then map_option (Pair n) (dots (dropWhile is_ws r)) else None)"

definition preview_rule :: "string \<Rightarrow> bool" where
  "preview_rule line =
     (case dropWhile is_ws line of
        c # cs \<Rightarrow> c \<in> set ''-*_'' \<and> 2 \<le> length (takeWhile (\<lambda>x. x = c) cs) \<and>
          dropWhile is_ws (dropWhile (\<lambda>x. x = c) cs) = []
      | [] \<Rightarrow> False)"

definition preview_quote :: "string \<Rightarrow> string option" where
  "preview_quote line =
     (if startsWith line ''&gt;'' then
        (let r = drop 4 line in dots (if r \<noteq> [] \<and> is_ws (hd r) then tl r else r))
      else None)"

definition preview_ul :: "string \<Rightarrow> string option" where
  "preview_ul line =
     (case dropWhile is_ws line of
        m # r \<Rightarrow> if m \<in> set ''-*'' \<and> r \<noteq> [] \<and> is_ws (hd r) then dots (dropWhile is_ws r) else None
      | [] \<Rightarrow> None)"

definition preview_ol :: "string \<Rightarrow> string option" where
  "preview_ol line =
     (let s = dropWhile is_ws line; n = length (takeWhile (\<lambda>c. digit_val c \<noteq> None) s)
      in (case drop n s of
            m # r \<Rightarrow> if 0 < n \<and> m = CHR ''.'' \<and> r \<noteq> [] \<and> is_ws (hd r) then dots (dropWhile is_ws r) else None
          | [] \<Rightarrow> None))"

record preview_state =
  pv_html :: "string list"
  pv_inCode :: bool
  pv_listType :: "string option"
  pv_para :: "string list"

definition push_html :: "string \<Rightarrow> preview_state \<Rightarrow> preview_state" where
  "push_html h s = s\<lparr>pv_html := pv_html s @ [h]\<rparr>"

definition flushPara :: "preview_state \<Rightarrow> preview_state" where
  "flushPara s =
     (if pv_para s = [] then s
      else (push_html (tagged ''p'' (preview_inline (join '' '' (pv_para s)))) s)\<lparr>pv_para := []\<rparr>)"

definition closeList :: "preview_state \<Rightarrow> preview_state" where
  "closeList s =
     (case pv_listType s of
        None \<Rightarrow> s
      | Some t \<Rightarrow> (push_html (''</'' @ t @ ''>'') s)\<lparr>pv_listType := None\<rparr>)"

definition list_item :: "string \<Rightarrow> string \<Rightarrow> preview_state \<Rightarrow> preview_state" where
  "list_item want item s =
     (let s1 = flushPara s;
          s2 = (if pv_listType s1 = Some want then s1
                else (push_html (''<'' @ want @ ''>'') (closeList s1))\<lparr>pv_listType := Some want\<rparr>)
      in push_html (tagged ''li'' (preview_inline item)) s2)"

definition preview_line :: "string \<Rightarrow> preview_state \<Rightarrow> preview_state" where
  "preview_line line s =
     (let ended = closeList (flushPara s)
      in if startsWith (js_trim line) ''```'' then
           (if pv_inCode s then (push_html ''</code></pre>'' ended)\<lparr>pv_inCode := False\<rparr>
            else (push_html ''<pre><code>'' ended)\<lparr>pv_inCode := True\<rparr>)
         else if pv_inCode s then push_html (line @ newline) s
         else
           (case preview_heading line of
              Some (level, text) \<Rightarrow> push_html (tagged (''h'' @ nat_to_string level) (preview_inline text)) ended
            | None \<Rightarrow>
              if preview_rule line then push_html ''<hr />'' ended
              else
                (case preview_quote line of
                   Some text \<Rightarrow> push_html (tagged ''blockquote'' (preview_inline text)) ended
                 | None \<Rightarrow>
                   (case preview_ul line of
                      Some item \<Rightarrow> list_item ''ul'' item s
                    | None \<Rightarrow>
                      (case preview_ol line of
                         Some item \<Rightarrow> list_item ''ol'' item s
                       | None \<Rightarrow>
                         if js_trim line = [] then ended
                         else s\<lparr>pv_para := pv_para s @ [js_trim line]\<rparr>)))))"

definition no_preview :: preview_state where
  "no_preview = \<lparr>pv_html = [], pv_inCode = False, pv_listType = None, pv_para = []\<rparr>"

definition renderMarkdownToHtml :: "string \<Rightarrow> string" where
  "renderMarkdownToHtml md =
     (let s = closeList (flushPara (fold preview_line (split_on (CHR 0x0A) (esc (crlf_lines md))) no_preview));
          done = (if pv_inCode s then push_html ''</code></pre>'' s else s)
      in join newline (pv_html done))"

section \<open>The markup of a preview\<close>

definition preview_tags :: "string list" where
  \<open>preview_tags =
     [''<code>'', ''</code>'', ''<strong>'', ''</strong>'', ''<em>'', ''</em>'', ''<a href="'', ''</a>'', ''<p>'', ''</p>'',
      ''<pre><code>'', ''</pre>'', ''<h1>'', ''</h1>'', ''<h2>'', ''</h2>'', ''<h3>'', ''</h3>'', ''<h4>'', ''</h4>'',
      ''<h5>'', ''</h5>'', ''<h6>'', ''</h6>'', ''<hr />'', ''<blockquote>'', ''</blockquote>'', ''<ul>'', ''</ul>'',
      ''<ol>'', ''</ol>'', ''<li>'', ''</li>'']\<close>

definition preview_delims :: string where
  "preview_delims = ''`*[]()''"

interpretation pv: tag_language preview_tags preview_delims
proof
  have "list_all (\<lambda>t. list_all (\<lambda>d. d \<notin> set t) preview_delims) preview_tags" by code_simp
  then show "d \<notin> set t" if "t \<in> set preview_tags" "d \<in> set preview_delims" for t d
    using that unfolding list_all_iff by blast
qed

lemma preview_literals:
  "only_tags preview_tags ''<code>''" "only_tags preview_tags ''</code>''" "only_tags preview_tags ''</a>''"
  "only_tags preview_tags ''<em>''" "only_tags preview_tags ''</em>''" "only_tags preview_tags (''<'' @ ''strong'' @ ''>'')"
  "only_tags preview_tags (''</'' @ ''strong'' @ ''>'')" "only_tags preview_tags ''</code></pre>''" "only_tags preview_tags ''<pre><code>''"
  "only_tags preview_tags ''<hr />''" "only_tags preview_tags newline" "only_tags preview_tags '' ''" "only_tags preview_tags ''[''"
  "only_tags preview_tags ''](''" "only_tags preview_tags '')''"
  \<open>only_tags preview_tags ''<a href="''\<close> \<open>only_tags preview_tags ''" rel="noreferrer noopener nofollow" target="_blank">''\<close>
  by code_simp+

definition preview_names :: "string list" where
  "preview_names = [''p'', ''li'', ''ul'', ''ol'', ''blockquote'', ''h1'', ''h2'', ''h3'', ''h4'', ''h5'', ''h6'']"

lemma preview_tag_names:
  assumes "tag \<in> set preview_names"
  shows "only_tags preview_tags (''<'' @ tag @ ''>'')" "only_tags preview_tags (''</'' @ tag @ ''>'')"
proof -
  have "list_all (\<lambda>tag. only_tags preview_tags (''<'' @ tag @ ''>'') \<and> only_tags preview_tags (''</'' @ tag @ ''>'')) preview_names"
    by code_simp
  with assms show "only_tags preview_tags (''<'' @ tag @ ''>'')" "only_tags preview_tags (''</'' @ tag @ ''>'')"
    unfolding list_all_iff by blast+
qed

lemma preview_tagged:
  assumes "tag \<in> set preview_names" "only_tags preview_tags s"
  shows "only_tags preview_tags (tagged tag s)"
  using pv.only_append [OF preview_tag_names(1) [OF assms(1)] pv.only_append [OF assms(2) preview_tag_names(2) [OF assms(1)]]]
  by (simp add: tagged_def)

lemma preview_delims_mem:
  "CHR ''`'' \<in> set preview_delims" "CHR ''*'' \<in> set preview_delims" "CHR ''['' \<in> set preview_delims"
  "CHR '']'' \<in> set preview_delims" "CHR '')'' \<in> set preview_delims" "CHR ''('' \<in> set preview_delims"
  by (simp_all add: preview_delims_def)

lemma takeWhile_split: "dropWhile (\<lambda>x. x \<noteq> c) s \<noteq> [] \<Longrightarrow> \<exists>r. s = takeWhile (\<lambda>x. x \<noteq> c) s @ c # r \<and> dropWhile (\<lambda>x. x \<noteq> c) s = c # r"
  by (induction s) auto

lemma only_code: "only_tags preview_tags s \<Longrightarrow> only_tags preview_tags (replace_matches code_match s)"
proof (rule pv.only_replace_matches)
  show "c \<in> set preview_delims" if "code_match (c # cs) = Some r" for c cs r
    using that by (auto simp: code_match_def code_span_def preview_delims_mem split: if_splits)
  show "only_tags preview_tags rep \<and> only_tags preview_tags rest"
    if o: "only_tags preview_tags s" and m: "code_match s = Some (rep, rest)" for s rep rest
  proof -
    obtain g where g: "code_span s = Some (g, rest)" "rep = ''<code>'' @ g @ ''</code>''"
      using m by (auto simp: code_match_def)
    then obtain cs where cs: "s = CHR ''`'' # cs" "g = takeWhile (\<lambda>x. x \<noteq> CHR ''`'') cs"
      "dropWhile (\<lambda>x. x \<noteq> CHR ''`'') cs \<noteq> []" "rest = tl (dropWhile (\<lambda>x. x \<noteq> CHR ''`'') cs)"
      by (auto simp: code_span_def Let_def split: list.splits if_splits)
    with takeWhile_split [OF cs(3)] have s: "s = ''`'' @ g @ CHR ''`'' # rest" by auto
    have "only_tags preview_tags g" using o s pv.only_between preview_delims_mem(1) by metis
    moreover have "only_tags preview_tags rest" using o s pv.only_suffix [of "''`'' @ g @ ''`''" rest] by simp
    ultimately show ?thesis unfolding g(2) by (intro conjI pv.only_append preview_literals)
  qed
qed

text \<open>The pass for emphasis leaves a piece without stars as it is.\<close>

lemma em_prefix: "CHR ''*'' \<notin> set p \<Longrightarrow> em_pass b (p @ z) = p @ em_pass (b \<or> p \<noteq> []) z"
  by (induction p arbitrary: b) auto

lemma only_em: "only_tags preview_tags s \<Longrightarrow> only_tags preview_tags (em_pass b s)"
proof (induction "length s" arbitrary: b s rule: less_induct)
  case less
  show ?case
  proof (cases s)
    case (Cons c cs)
    let ?g = "takeWhile (\<lambda>x. x \<noteq> CHR ''*'') cs" and ?r = "dropWhile (\<lambda>x. x \<noteq> CHR ''*'') cs"
    have cs: "only_tags preview_tags cs" using less.prems Cons by simp
    have tail: "only_tags preview_tags (em_pass b' cs)" for b' using less.hyps [of cs b'] cs Cons by simp
    show ?thesis
    proof (cases "c = CHR ''*''")
      case star: True
      show ?thesis
      proof (cases "b \<and> ?g \<noteq> [] \<and> ?r \<noteq> []")
        case True
        with takeWhile_split [of "CHR ''*''" cs] obtain r where r: "cs = ?g @ CHR ''*'' # r" "?r = CHR ''*'' # r" by auto
        have "only_tags preview_tags ?g" using cs r(1) pv.only_before [OF _ preview_delims_mem(2)] by metis
        moreover have "only_tags preview_tags r" using cs r(1) pv.only_suffix [of "?g @ ''*''" r] by (metis append.assoc append_Cons append_Nil)
        moreover have "length r < length s" using arg_cong [OF r(1), of length] Cons by simp
        ultimately have "only_tags preview_tags (''<em>'' @ ?g @ ''</em>'' @ em_pass False r)"
          using less.hyps [of r False] by (intro pv.only_append preview_literals) auto
        moreover have "em_pass b s = ''<em>'' @ ?g @ ''</em>'' @ em_pass False r"
          using True star r(2) by (simp add: Cons)
        ultimately show ?thesis by simp
      next
        case False
        then have "em_pass b s = c # em_pass False cs" using star by (auto simp: Cons)
        then show ?thesis using tail star by simp
      qed
    next
      case False
      then have eq: "em_pass b s = c # em_pass True cs" by (simp add: Cons)
      have "list_ex (startsWith (c # em_pass True cs)) preview_tags" if lt: "c = CHR ''<''"
      proof -
        obtain t where t: "t \<in> set preview_tags" "startsWith (c # cs) t"
          using less.prems Cons lt by (auto simp: list_ex_iff)
        have "t \<noteq> []" using t(1) by (auto simp: preview_tags_def)
        with t(2) obtain p z where z: "t = c # p" "cs = p @ z" by (cases t) (auto simp: startsWith_iff)
        have "CHR ''*'' \<notin> set p" using pv.tag_no_delim [OF t(1) preview_delims_mem(2)] z(1) by simp
        then have "startsWith (c # em_pass True cs) t" by (simp add: z em_prefix startsWith_iff)
        with t(1) show ?thesis by (auto simp: list_ex_iff)
      qed
      with tail show ?thesis by (simp add: eq)
    qed
  qed simp
qed

lemma preview_link_Some:
  assumes "preview_link s = Some (rep, rest)"
  obtains label url where "s = ''['' @ label @ CHR '']'' # ''('' @ url @ CHR '')'' # rest"
    \<open>rep = (case safeHref url of
              Some (h # hs) \<Rightarrow> ''<a href="'' @ (h # hs) @ ''" rel="noreferrer noopener nofollow" target="_blank">'' @ label @ ''</a>''
            | _ \<Rightarrow> ''['' @ label @ ''](''  @ url @ '')'')\<close>
proof -
  have "s \<noteq> []" using assms by (auto simp: preview_link_def)
  then obtain t where s: "s = CHR ''['' # t" using assms by (cases s) (auto simp: preview_link_def split: if_splits)
  define label where "label = takeWhile (\<lambda>x. x \<noteq> CHR '']'') t"
  obtain r where r: "drop (length label) t = CHR '']'' # CHR ''('' # r"
    using assms by (auto simp: preview_link_def s Let_def label_def [symmetric] startsWith_iff split: if_splits)
  define url where "url = takeWhile (\<lambda>x. x \<noteq> CHR '')'') r"
  have "startsWith (drop (length url) r) '')''" and
    rep: \<open>rep = (case safeHref url of
              Some (h # hs) \<Rightarrow> ''<a href="'' @ (h # hs) @ ''" rel="noreferrer noopener nofollow" target="_blank">'' @ label @ ''</a>''
            | _ \<Rightarrow> ''['' @ label @ ''](''  @ url @ '')'')\<close> and
    rest: "rest = tl (drop (length url) r)"
    using assms r by (simp_all add: preview_link_def s Let_def label_def [symmetric] url_def [symmetric] split: if_splits)
  then obtain r' where r': "drop (length url) r = CHR '')'' # r'" by (auto simp: startsWith_iff)
  have "t = label @ drop (length label) t" unfolding label_def by (metis takeWhile_dropWhile_id dropWhile_eq_drop)
  moreover have "r = url @ drop (length url) r" unfolding url_def by (metis takeWhile_dropWhile_id dropWhile_eq_drop)
  ultimately have "s = ''['' @ label @ CHR '']'' # ''('' @ url @ CHR '')'' # rest" using r r' rest s by simp
  with rep show ?thesis using that by blast
qed

text \<open>No tag ends in white space, so trimming does not cut one.\<close>

lemma only_before_ws:
  "only_tags preview_tags (u @ w) \<Longrightarrow> \<forall>x \<in> set w. is_ws x \<Longrightarrow> only_tags preview_tags u"
proof (induction u)
  case (Cons c cs)
  have ends: "t \<noteq> [] \<and> \<not> is_ws (last t)" if "t \<in> set preview_tags" for t
  proof -
    have "list_all (\<lambda>t. t \<noteq> [] \<and> \<not> is_ws (last t)) preview_tags" by code_simp
    with that show ?thesis unfolding list_all_iff by blast
  qed
  have "startsWith (c # cs) t" if t: "t \<in> set preview_tags" and s: "startsWith ((c # cs) @ w) t" for t
  proof -
    obtain z where z: "(c # cs) @ w = t @ z" using s by (auto simp: startsWith_iff)
    then obtain v where "(c # cs = t @ v) \<or> ((c # cs) @ v = t \<and> w = v @ z)"
      unfolding append_eq_append_conv2 by blast
    then consider "c # cs = t @ v" | "(c # cs) @ v = t" "w = v @ z" by blast
    then show ?thesis
    proof cases
      case 1
      then show ?thesis by (metis startsWith_append)
    next
      case 2
      show ?thesis
      proof (cases v rule: rev_cases)
        case Nil
        with 2 show ?thesis by (metis append_Nil2 startsWith_append)
      next
        case (snoc v' x)
        then have "last t = x" "x \<in> set w" using 2 by auto
        with ends [OF t] Cons.prems(2) show ?thesis by blast
      qed
    qed
  qed
  with Cons show ?case by (auto simp: list_ex_iff)
qed simp

lemma only_trim:
  assumes "only_tags preview_tags s"
  shows "only_tags preview_tags (js_trim s)"
proof -
  let ?d = "dropWhile is_ws s"
  have "only_tags preview_tags ?d" using assms pv.only_suffix by (metis takeWhile_dropWhile_id)
  moreover have "?d = js_trim s @ rev (takeWhile is_ws (rev ?d))"
    unfolding js_trim_def by (metis rev_append rev_rev_ident takeWhile_dropWhile_id)
  moreover have "\<forall>x \<in> set (rev (takeWhile is_ws (rev ?d))). is_ws x" by (auto dest: set_takeWhileD)
  ultimately show ?thesis using only_before_ws by metis
qed

lemma safeHref_only: "safeHref url = Some h \<Longrightarrow> only_tags preview_tags url \<Longrightarrow> only_tags preview_tags h"
  by (auto simp: safeHref_def Let_def only_trim split: if_splits)

lemma only_links: "only_tags preview_tags s \<Longrightarrow> only_tags preview_tags (replace_matches preview_link s)"
proof (rule pv.only_replace_matches)
  show "c \<in> set preview_delims" if "preview_link (c # cs) = Some r" for c cs r
    using that by (auto simp: preview_link_def preview_delims_mem split: if_splits)
  show "only_tags preview_tags rep \<and> only_tags preview_tags rest"
    if o: "only_tags preview_tags s" and m: "preview_link s = Some (rep, rest)" for s rep rest
  proof -
    obtain label url where s: "s = ''['' @ label @ CHR '']'' # ''('' @ url @ CHR '')'' # rest"
      and rep: \<open>rep = (case safeHref url of
              Some (h # hs) \<Rightarrow> ''<a href="'' @ (h # hs) @ ''" rel="noreferrer noopener nofollow" target="_blank">'' @ label @ ''</a>''
            | _ \<Rightarrow> ''['' @ label @ ''](''  @ url @ '')'')\<close>
      using m by (rule preview_link_Some)
    have label: "only_tags preview_tags label" using o s pv.only_between preview_delims_mem(4) by metis
    have "s = (''['' @ label @ '']('') @ url @ CHR '')'' # rest" using s by simp
    then have url: "only_tags preview_tags url" using o pv.only_between preview_delims_mem(5) by metis
    have "s = (''['' @ label @ ''](''  @ url @ '')'') @ rest" using s by simp
    then have rest: "only_tags preview_tags rest" using o pv.only_suffix by metis
    have "only_tags preview_tags rep"
    proof (cases "\<exists>h hs. safeHref url = Some (h # hs)")
      case True
      then obtain h hs where h: "safeHref url = Some (h # hs)" by blast
      show ?thesis unfolding rep h option.case list.case
        by (intro pv.only_append preview_literals label safeHref_only [OF h url])
    next
      case False
      then have "rep = ''['' @ label @ ''](''  @ url @ '')''" using rep by (auto split: option.splits list.splits)
      then show ?thesis using label url by (simp only:) (intro pv.only_append preview_literals)
    qed
    with rest show ?thesis by blast
  qed
qed

lemma only_inline: "CHR ''<'' \<notin> set s \<Longrightarrow> only_tags preview_tags (preview_inline s)"
  unfolding preview_inline_def
  by (intro only_links only_em only_code pv.only_plain
      pv.only_delim_match [OF refl preview_delims_mem(2) preview_literals(6,7)])

section \<open>The lines of a preview\<close>

definition preview_ok :: "preview_state \<Rightarrow> bool" where
  "preview_ok s \<longleftrightarrow> (\<forall>h \<in> set (pv_html s). only_tags preview_tags h) \<and> (\<forall>l \<in> set (pv_para s). CHR ''<'' \<notin> set l) \<and>
     pv_listType s \<in> {None, Some ''ul'', Some ''ol''}"

lemma push_ok: "preview_ok s \<Longrightarrow> only_tags preview_tags h \<Longrightarrow> preview_ok (push_html h s)"
  by (auto simp: preview_ok_def push_html_def)

lemma join_no_lt: "\<forall>l \<in> set ls. CHR ''<'' \<notin> set l \<Longrightarrow> CHR ''<'' \<notin> set (join '' '' ls)"
  by (induction "'' ''" ls rule: join.induct) auto

lemma flushPara_ok:
  assumes "preview_ok s"
  shows "preview_ok (flushPara s)"
proof -
  have "CHR ''<'' \<notin> set (join '' '' (pv_para s))" using assms by (auto simp: preview_ok_def intro!: join_no_lt)
  then have "only_tags preview_tags (tagged ''p'' (preview_inline (join '' '' (pv_para s))))"
    by (intro preview_tagged only_inline) (simp_all add: preview_names_def)
  from push_ok [OF assms this] show ?thesis using assms by (simp add: flushPara_def preview_ok_def)
qed

lemma closeList_ok: "preview_ok s \<Longrightarrow> preview_ok (closeList s)"
proof (cases "pv_listType s")
  case (Some t)
  assume s: "preview_ok s"
  then have "t \<in> set preview_names" using Some by (auto simp: preview_ok_def preview_names_def)
  then have "preview_ok (push_html (''</'' @ t @ ''>'') s)" using s push_ok preview_tag_names by blast
  then show ?thesis using Some by (auto simp: closeList_def preview_ok_def)
qed (simp add: closeList_def)

lemma list_item_ok:
  assumes "preview_ok s" "want \<in> {''ul'', ''ol''}" "CHR ''<'' \<notin> set item"
  shows "preview_ok (list_item want item s)"
proof -
  have w: "want \<in> set preview_names" "''li'' \<in> set preview_names" using assms(2) by (auto simp: preview_names_def)
  have p: "preview_ok (flushPara s)" by (rule flushPara_ok [OF assms(1)])
  have "preview_ok ((push_html (''<'' @ want @ ''>'') (closeList (flushPara s)))\<lparr>pv_listType := Some want\<rparr>)"
    using push_ok [OF closeList_ok [OF p] preview_tag_names(1) [OF w(1)]] assms(2) by (auto simp: preview_ok_def)
  with p have "preview_ok (if pv_listType (flushPara s) = Some want then flushPara s
     else (push_html (''<'' @ want @ ''>'') (closeList (flushPara s)))\<lparr>pv_listType := Some want\<rparr>)" by simp
  from push_ok [OF this preview_tagged [OF w(2) only_inline [OF assms(3)]]] show ?thesis
    by (simp only: list_item_def Let_def)
qed

text \<open>What the patterns take from a line are characters of the line.\<close>

lemma dots_Some: "dots s = Some t \<Longrightarrow> t = s"
  by (auto simp: dots_def split: if_splits)

lemma taken:
  "preview_heading line = Some (n, t) \<Longrightarrow> set t \<subseteq> set line \<and> 1 \<le> n \<and> n \<le> 6"
  "preview_quote line = Some t \<Longrightarrow> set t \<subseteq> set line"
  "preview_ul line = Some t \<Longrightarrow> set t \<subseteq> set line"
  "preview_ol line = Some t \<Longrightarrow> set t \<subseteq> set line"
proof -
  have d: "x \<in> set s" if "x \<in> set (dropWhile is_ws s)" for x s using that by (rule set_dropWhileD)
  show "preview_heading line = Some (n, t) \<Longrightarrow> set t \<subseteq> set line \<and> 1 \<le> n \<and> n \<le> 6"
    by (auto simp: preview_heading_def Let_def split: if_splits dest!: dots_Some dest: d in_set_dropD)
  show "preview_quote line = Some t \<Longrightarrow> set t \<subseteq> set line"
    using set_drop_subset [of 4 line] set_drop_subset [of 5 line]
    by (auto simp: preview_quote_def Let_def tl_drop drop_Suc [symmetric] numeral_eq_Suc simp del: drop_Suc_Cons
        split: if_splits dest!: dots_Some)
  have m: "set (dropWhile is_ws r) \<subseteq> set line" if "dropWhile is_ws line = c # r" for c r
    using that d by (metis set_dropWhileD list.set_intros(2) subsetI)
  show "preview_ul line = Some t \<Longrightarrow> set t \<subseteq> set line"
    using m by (auto simp: preview_ul_def split: list.splits if_splits dest!: dots_Some)
  show "preview_ol line = Some t \<Longrightarrow> set t \<subseteq> set line"
  proof -
    assume "preview_ol line = Some t"
    then obtain c r n where r: "drop n (dropWhile is_ws line) = c # r" "t = dropWhile is_ws r"
      by (auto simp: preview_ol_def Let_def split: list.splits if_splits dest!: dots_Some)
    then have "x \<in> set line" if "x \<in> set t" for x
      using that d [of x r] d [of x line] in_set_dropD [of x n "dropWhile is_ws line"] by auto
    then show "set t \<subseteq> set line" by blast
  qed
qed

lemma preview_line_ok:
  assumes "preview_ok s" "CHR ''<'' \<notin> set line"
  shows "preview_ok (preview_line line s)"
proof -
  have e: "preview_ok (closeList (flushPara s))" by (intro closeList_ok flushPara_ok assms(1))
  have code: "preview_ok (s'\<lparr>pv_inCode := b\<rparr>)" if "preview_ok s'" for s' b using that by (simp add: preview_ok_def)
  have level: "''h'' @ nat_to_string n \<in> set preview_names" if "1 \<le> n" "n \<le> 6" for n
  proof -
    have "n \<in> {1, 2, 3, 4, 5, 6}" using that by auto
    moreover have "list_all (\<lambda>n. ''h'' @ nat_to_string n \<in> set preview_names) [1, 2, 3, 4, 5, 6]" by code_simp
    ultimately show ?thesis by (auto simp: list_all_iff)
  qed
  have plain: "CHR ''<'' \<notin> set t" if "set t \<subseteq> set line" for t using that assms(2) by blast
  have para: "preview_ok (s\<lparr>pv_para := pv_para s @ [js_trim line]\<rparr>)"
    using assms plain [OF set_js_trim] by (auto simp: preview_ok_def)
  have quote: "''blockquote'' \<in> set preview_names" by (simp add: preview_names_def)
  have raw: "only_tags preview_tags (line @ newline)" by (intro pv.only_append pv.only_plain assms(2) preview_literals)
  have head: "preview_ok (push_html (tagged (''h'' @ nat_to_string n) (preview_inline t)) (closeList (flushPara s)))"
    if "preview_heading line = Some (n, t)" for n t
    using taken(1) [OF that] level [of n] plain [of t] e by (intro push_ok preview_tagged only_inline) auto
  have item: "preview_ok (list_item want t s)" if "want \<in> {''ul'', ''ol''}" "set t \<subseteq> set line" for want t
    using list_item_ok [OF assms(1) that(1) plain [OF that(2)]] .
  have rest: "preview_ok (if preview_rule line then push_html ''<hr />'' (closeList (flushPara s))
     else (case preview_quote line of
         Some text \<Rightarrow> push_html (tagged ''blockquote'' (preview_inline text)) (closeList (flushPara s))
       | None \<Rightarrow>
         (case preview_ul line of
            Some item \<Rightarrow> list_item ''ul'' item s
          | None \<Rightarrow>
            (case preview_ol line of
               Some item \<Rightarrow> list_item ''ol'' item s
             | None \<Rightarrow>
               if js_trim line = [] then closeList (flushPara s)
               else s\<lparr>pv_para := pv_para s @ [js_trim line]\<rparr>))))"
    using e para
    by (auto simp del: append.simps split: option.splits intro!: push_ok preview_literals preview_tagged quote only_inline plain item
        dest: taken)
  have fence: "preview_ok (if pv_inCode s then (push_html ''</code></pre>'' (closeList (flushPara s)))\<lparr>pv_inCode := False\<rparr>
     else (push_html ''<pre><code>'' (closeList (flushPara s)))\<lparr>pv_inCode := True\<rparr>)"
    using code [OF push_ok [OF e preview_literals(8)]] code [OF push_ok [OF e preview_literals(9)]] by simp
  show ?thesis
  proof (cases "preview_heading line")
    case None
    show ?thesis unfolding preview_line_def Let_def None option.case using fence rest push_ok [OF assms(1) raw] by presburger
  next
    case (Some nt)
    obtain n t where nt: "nt = (n, t)" by (cases nt)
    show ?thesis
      unfolding preview_line_def Let_def Some nt option.case prod.case
      using fence head [OF Some [unfolded nt]] push_ok [OF assms(1) raw] by presburger
  qed
qed

text \<open>
  A preview has only known tags. Whatever the Markdown source is, every opening bracket in the
  rendered HTML begins one of the fixed tags of the renderer.
\<close>

theorem preview_has_only_known_tags: "only_tags preview_tags (renderMarkdownToHtml md)"
proof -
  let ?lines = "split_on (CHR 0x0A) (esc (crlf_lines md))"
  have lines: "CHR ''<'' \<notin> set l" if "l \<in> set ?lines" for l
    using that set_split_on [of _ l] esc5.escape_no_markup(1) by blast
  have run: "\<forall>l \<in> set ls. CHR ''<'' \<notin> set l \<Longrightarrow> preview_ok s \<Longrightarrow> preview_ok (fold preview_line ls s)" for ls s
    by (induction ls arbitrary: s) (auto intro: preview_line_ok)
  define final where "final = closeList (flushPara (fold preview_line ?lines no_preview))"
  have "preview_ok no_preview" by (simp add: preview_ok_def no_preview_def)
  with run [of ?lines] lines have ok: "preview_ok final" unfolding final_def by (blast intro: closeList_ok flushPara_ok)
  have "preview_ok (if pv_inCode final then push_html ''</code></pre>'' final else final)"
    using ok push_ok [OF ok preview_literals(8)] by presburger
  then show ?thesis
    unfolding renderMarkdownToHtml_def Let_def final_def [symmetric]
    by (intro pv.only_join preview_literals) (simp add: preview_ok_def)
qed

text \<open>
  A link target has the scheme http or https or none; but a tab in the scheme, which browsers
  remove, hides it.
\<close>

lemma safeHref_scheme:
  "safeHref url = Some h \<Longrightarrow> startsWith (toLowerCase h) ''http://'' \<or> startsWith (toLowerCase h) ''https://'' \<or>
     startsWith h ''/'' \<or> startsWith h ''#'' \<or> url_scheme h = None"
  by (auto simp: safeHref_def Let_def split: if_splits)

lemma tab_hides_the_scheme:
  "safeHref (''java'' @ [CHR 0x09] @ ''script:alert(1)'') = Some (''java'' @ [CHR 0x09] @ ''script:alert(1)'')"
  by code_simp

section \<open>The error page of an authorization\<close>

fun first_nonblank :: "string list \<Rightarrow> string option" where
  "first_nonblank [] = None"
| "first_nonblank (item # items) = (if js_trim item \<noteq> [] then Some (js_trim item) else first_nonblank items)"

definition firstQueryValue :: "param_value option \<Rightarrow> string option" where
  "firstQueryValue v =
     (case v of None \<Rightarrow> None | Some (OneValue s) \<Rightarrow> first_nonblank [s] | Some (ManyValues items) \<Rightarrow> first_nonblank items)"

definition ERROR_CODE_test :: "string \<Rightarrow> bool" where
  "ERROR_CODE_test s \<longleftrightarrow> 1 \<le> length s \<and> length s \<le> 64 \<and> list_all (\<lambda>c. is_alnum c \<or> c = CHR ''_'' \<or> c = CHR ''-'') s"

definition description_char :: "char \<Rightarrow> bool" where
  "description_char c \<longleftrightarrow> is_alnum c \<or> c \<in> set ('' .,:'' @ [CHR 0x27] @ ''+_/=()-'')"

text \<open>The number of characters of a text in the class of the pattern; U+2019 has three bytes.\<close>

fun description_length :: "string \<Rightarrow> nat option" where
  "description_length [] = Some 0"
| "description_length (c # s) =
     (if description_char c then map_option Suc (description_length s)
      else
        (case s of
           d # e # r \<Rightarrow>
             if c = CHR 0xE2 \<and> d = CHR 0x80 \<and> e = CHR 0x99 then map_option Suc (description_length r) else None
         | _ \<Rightarrow> None))"

definition ERROR_DESCRIPTION_test :: "string \<Rightarrow> bool" where
  "ERROR_DESCRIPTION_test s = (case description_length s of Some n \<Rightarrow> 1 \<le> n \<and> n \<le> 200 | None \<Rightarrow> False)"

definition safeOAuthErrorCode :: "param_value option \<Rightarrow> string option" where
  "safeOAuthErrorCode v =
     (case firstQueryValue v of None \<Rightarrow> None | Some raw \<Rightarrow> if ERROR_CODE_test raw then Some raw else None)"

definition safeOAuthErrorDescription :: "param_value option \<Rightarrow> string option" where
  "safeOAuthErrorDescription v =
     (case firstQueryValue v of
        None \<Rightarrow> None
      | Some raw \<Rightarrow>
          if 200 < js_length raw then None
          else if list_ex (\<lambda>c. (of_char c :: nat) < 32 \<or> (of_char c :: nat) = 127) raw then None
          else if str_includes raw ''://'' \<or> str_includes raw ''<'' \<or> str_includes raw ''>'' then None
          else if \<not> ERROR_DESCRIPTION_test raw then None
          else Some raw)"

record OAuthErrorPresentation =
  oe_title :: string
  oe_body :: string
  oe_hint :: string

definition oauthErrorPresentation :: "string option \<Rightarrow> OAuthErrorPresentation" where
  "oauthErrorPresentation error =
     (if error = Some ''invalid_redirect'' then
       \<lparr>oe_title = ''Callback URL not accepted'',
        oe_body = ''The callback URL from this connection is not one Dropway has registered '' @
          ''for this app.'',
        oe_hint = ''Go back to the app that sent you here and start the connection again. For '' @
          ''ChatGPT, start authentication once more from the connector.''\<rparr>
     else if error = Some ''invalid_client'' then
       \<lparr>oe_title = ''This app is not registered'',
        oe_body = ''Dropway does not recognize the client that started this connection.'',
        oe_hint = ''Start the connection again from the app that sent you here so it can register '' @
          ''with Dropway.''\<rparr>
     else if error = Some ''invalid_scope'' then
       \<lparr>oe_title = ''Requested permission was not granted'',
        oe_body = ''The app asked for a permission Dropway does not grant on this connection.'',
        oe_hint = ''Start the connection again from the app that sent you here.''\<rparr>
     else if error = Some ''access_denied'' then
       \<lparr>oe_title = ''Access was denied'',
        oe_body = ''This connection was not approved.'',
        oe_hint = ''Return to the app that sent you here and try connecting again if you still '' @
          ''want to authorize Dropway.''\<rparr>
     else if error = Some ''server_error'' then
       \<lparr>oe_title = ''Authorization hit an error'',
        oe_body = ''Dropway could not finish authorizing this app.'',
        oe_hint = ''Wait a moment and start the connection again from the app that sent you '' @
          ''here.''\<rparr>
     else \<lparr>oe_title = ''Authorization didn't finish'',
        oe_body = ''Dropway could not complete this sign-in or authorization request.'',
        oe_hint = ''Return to the app that sent you here and try again. You can also go back '' @
          ''to your sites.''\<rparr>)"

text \<open>What the page shows: the copy, and the code and the description if they are safe.\<close>

definition OAuthErrorPage :: "(string \<times> param_value) list \<Rightarrow> OAuthErrorPresentation \<times> string option \<times> string option" where
  "OAuthErrorPage sp =
     (let error = safeOAuthErrorCode (map_of sp ''error'')
      in (oauthErrorPresentation error, error, safeOAuthErrorDescription (map_of sp ''error_description'')))"

text \<open>
  The error page reflects only harmless text. Whatever the query of the link is, the copy is one of
  six fixed ones, the code is a short word, and the description has no bracket, no quotation mark, no
  ampersand, no control character and no URL.
\<close>

lemma description_chars:
  "description_length s = Some n \<Longrightarrow> c \<in> set s \<Longrightarrow> description_char c \<or> c \<in> {CHR 0xE2, CHR 0x80, CHR 0x99}"
  by (induction s arbitrary: n rule: description_length.induct) (auto split: if_splits list.splits)

lemma error_page_reflects_harmless_text:
  assumes "OAuthErrorPage sp = (copy, code, description)"
  shows "copy \<in> oauthErrorPresentation ` {Some ''invalid_redirect'', Some ''invalid_client'', Some ''invalid_scope'',
      Some ''access_denied'', Some ''server_error'', None} \<and>
    (\<forall>s. code = Some s \<longrightarrow> length s \<le> 64 \<and> (\<forall>c \<in> set s. is_alnum c \<or> c = CHR ''_'' \<or> c = CHR ''-'')) \<and>
    (\<forall>s. description = Some s \<longrightarrow> js_length s \<le> 200 \<and> \<not> str_includes s ''://'' \<and>
       (\<forall>c \<in> set s. c \<notin> {CHR ''<'', CHR ''>'', CHR 0x22, CHR ''&''} \<and> 32 \<le> (of_char c :: nat)))"
proof (intro conjI allI impI)
  show "copy \<in> oauthErrorPresentation ` {Some ''invalid_redirect'', Some ''invalid_client'', Some ''invalid_scope'',
      Some ''access_denied'', Some ''server_error'', None}"
  proof (cases "safeOAuthErrorCode (map_of sp ''error'') \<in> {Some ''invalid_redirect'', Some ''invalid_client'', Some ''invalid_scope'',
      Some ''access_denied'', Some ''server_error''}")
    case True
    with assms show ?thesis by (auto simp: OAuthErrorPage_def Let_def)
  next
    case False
    then have "oauthErrorPresentation (safeOAuthErrorCode (map_of sp ''error'')) = oauthErrorPresentation None"
      by (simp add: oauthErrorPresentation_def)
    with assms show ?thesis by (simp add: OAuthErrorPage_def Let_def)
  qed
next
  fix s assume "code = Some s"
  then have "ERROR_CODE_test s"
    using assms by (auto simp: OAuthErrorPage_def Let_def safeOAuthErrorCode_def split: option.splits if_splits)
  then show "length s \<le> 64" "\<forall>c \<in> set s. is_alnum c \<or> c = CHR ''_'' \<or> c = CHR ''-''"
    by (auto simp: ERROR_CODE_test_def list_all_iff)
next
  fix s assume "description = Some s"
  then have s: "js_length s \<le> 200" "\<not> str_includes s ''://''" "ERROR_DESCRIPTION_test s"
    "\<not> list_ex (\<lambda>c. (of_char c :: nat) < 32 \<or> (of_char c :: nat) = 127) s"
    using assms by (auto simp: OAuthErrorPage_def Let_def safeOAuthErrorDescription_def split: option.splits if_splits)
  then show "js_length s \<le> 200" "\<not> str_includes s ''://''" by auto
  from s(3) obtain n where n: "description_length s = Some n" by (auto simp: ERROR_DESCRIPTION_test_def split: option.splits)
  show "\<forall>c \<in> set s. c \<notin> {CHR ''<'', CHR ''>'', CHR 0x22, CHR ''&''} \<and> 32 \<le> (of_char c :: nat)"
  proof
    fix c assume c: "c \<in> set s"
    have "\<not> description_char (CHR ''<'')" "\<not> description_char (CHR ''>'')" "\<not> description_char (CHR 0x22)"
      "\<not> description_char (CHR ''&'')" by code_simp+
    then have "c \<notin> {CHR ''<'', CHR ''>'', CHR 0x22, CHR ''&''}" using description_chars [OF n c] by auto
    moreover have "32 \<le> (of_char c :: nat)" using s(4) c by (auto simp: list_ex_iff)
    ultimately show "c \<notin> {CHR ''<'', CHR ''>'', CHR 0x22, CHR ''&''} \<and> 32 \<le> (of_char c :: nat)" by blast
  qed
qed

section \<open>The age of a post\<close>

text \<open>\<open>toLocaleDateString\<close> of the browser is a parameter.\<close>

definition formatRelativeTime :: "runtime \<Rightarrow> (int \<Rightarrow> string) \<Rightarrow> string option \<Rightarrow> string \<Rightarrow> int \<Rightarrow> string" where
  "formatRelativeTime rt localeDate posted_at fallback now =
     (case set_var posted_at of
        None \<Rightarrow> fallback
      | Some i \<Rightarrow>
          (case date_parse rt i of
             None \<Rightarrow> fallback
           | Some since \<Rightarrow>
               (let sec = (now - since) div 1000; min = sec div 60; hr = min div 60; day = hr div 24
                in if sec < 60 then ''just now''
                   else if min < 60 then int_to_string min @ ''m ago''
                   else if hr < 24 then int_to_string hr @ ''h ago''
                   else if day < 7 then int_to_string day @ ''d ago''
                   else localeDate since)))"

end
