(* ===== verification/Dash_Forms.thy ===== *)
theory Dash_Forms
  imports Dash_Deploy Dash_Skills Dash_Social Manifest
begin

text \<open>
  The dashboard's client components that hold logic of their own: the drop zone of a site
  (\<open>components/sites/deploy-dropzone.tsx\<close>) over \<open>deployFolder\<close>, and the upload dialog of a skill
  (\<open>components/skills/skill-upload-dialog.tsx\<close>) over \<open>uploadSkillFolder\<close>. The state of a component is
  a datatype or a record with its \<open>useState\<close> values, its handlers are functions on that state, and
  what it renders is left out; reading the dropped entries and acting on them is one step. The
  percentages of the progress bars are exact rationals: rounding to doubles keeps their order.
\<close>

section \<open>The drop zone\<close>

datatype dropzone =
    Idle
  | Confirm "DroppedFile list"
  | Working progress nat
  | Live json
  | Failed json

definition ROOT_INDEX_PATH :: string where
  "ROOT_INDEX_PATH = ''index.html''"

definition hasRootIndex :: "DroppedFile list \<Rightarrow> bool" where
  "hasRootIndex fs = list_ex (\<lambda>f. dropped_path f = ROOT_INDEX_PATH) fs"

text \<open>\<open>Creating\<close> is no phase of a deploy.\<close>

definition share :: "nat \<Rightarrow> nat \<Rightarrow> rat \<Rightarrow> rat" where
  "share k n width = of_nat k / of_nat n * width"

fun overallPercent :: "progress \<Rightarrow> rat" where
  "overallPercent (Hashing k n) = (if n \<noteq> 0 then share k n 40 else 0)"
| "overallPercent Preparing = 45"
| "overallPercent (Uploading k n) = 45 + (if n \<noteq> 0 then share k n 40 else 40)"
| "overallPercent Finalizing = 90"
| "overallPercent Publishing = 96"

definition ellipsis :: string where
  "ellipsis = [CHR 0xE2, CHR 0x80, CHR 0xA6]"

definition of_files :: "nat \<Rightarrow> nat \<Rightarrow> string" where
  "of_files k n = nat_to_string k @ ''/'' @ nat_to_string n"

fun phaseLabel :: "progress \<Rightarrow> string" where
  "phaseLabel (Hashing k n) = ''Hashing files'' @ ellipsis @ '' '' @ of_files k n"
| "phaseLabel Preparing = ''Checking which files are new'' @ ellipsis"
| "phaseLabel (Uploading k n) =
     (if 0 < n then ''Uploading '' @ of_files k n @ '' new files'' @ ellipsis else ''No new files to upload'' @ ellipsis)"
| "phaseLabel Finalizing = ''Finalizing version'' @ ellipsis"
| "phaseLabel Publishing = ''Publishing'' @ ellipsis"

text \<open>
  A handler returns the states that the component goes through. \<open>onProgress\<close> is the updater that
  \<open>runDeploy\<close> hands to \<open>deployFolder\<close>. A rejected deploy sets no state: nothing catches it.
\<close>

fun onProgress :: "dropzone \<Rightarrow> progress \<Rightarrow> dropzone" where
  "onProgress (Working q n) p = Working p n"
| "onProgress s p = s"

fun states_of :: "dropzone \<Rightarrow> progress list \<Rightarrow> dropzone list" where
  "states_of s [] = [s]"
| "states_of s (p # ps) = s # states_of (onProgress s p) ps"

definition runDeploy ::
  "runtime \<Rightarrow> 'n platform \<Rightarrow> 's browser \<Rightarrow> (nat \<Rightarrow> nat) \<Rightarrow> string \<Rightarrow> DroppedFile list \<Rightarrow> ('n, 's) deploy_world
   \<Rightarrow> dropzone list \<times> ('n, 's) deploy_world" where
  "runDeploy rt pf br sched siteId fs d =
     (case deployFolder rt pf br sched siteId fs d of
        (r, d1) \<Rightarrow>
          (let shown = states_of (Working (Hashing 0 (length fs)) (length fs)) (drop (length (dw_progress d)) (dw_progress d1))
           in (shown @ (case r of
                          Inl e \<Rightarrow> []
                        | Inr (Ok dd) \<Rightarrow> [Live (dd_liveUrl dd)]
                        | Inr (Refused m q) \<Rightarrow> [Failed m]), d1)))"

definition drop_start ::
  "runtime \<Rightarrow> 'n platform \<Rightarrow> 's browser \<Rightarrow> (nat \<Rightarrow> nat) \<Rightarrow> string \<Rightarrow> DroppedFile list \<Rightarrow> ('n, 's) deploy_world
   \<Rightarrow> dropzone list \<times> ('n, 's) deploy_world" where
  "drop_start rt pf br sched siteId fs d =
     (if fs = [] then ([Failed (JStr ''No files found. Drop a folder of static files (with an index.html at its root).'')], d)
      else if \<not> hasRootIndex fs then ([Confirm fs], d)
      else runDeploy rt pf br sched siteId fs d)"

fun working :: "dropzone \<Rightarrow> bool" where
  "working (Working p n) = True"
| "working s = False"

definition onDrop ::
  "runtime \<Rightarrow> 'n platform \<Rightarrow> 's browser \<Rightarrow> (nat \<Rightarrow> nat) \<Rightarrow> string \<Rightarrow> dropzone \<Rightarrow> DataTransferItem list \<Rightarrow> ('n, 's) deploy_world
   \<Rightarrow> dropzone list \<times> ('n, 's) deploy_world" where
  "onDrop rt pf br sched siteId s items d =
     (if working s then ([], d)
      else
        (case collectDataTransferItems items of
           Inl e \<Rightarrow> ([], d)
         | Inr fs \<Rightarrow> drop_start rt pf br sched siteId fs d))"

definition onInputChange ::
  "runtime \<Rightarrow> 'n platform \<Rightarrow> 's browser \<Rightarrow> (nat \<Rightarrow> nat) \<Rightarrow> string \<Rightarrow> File list \<Rightarrow> ('n, 's) deploy_world
   \<Rightarrow> dropzone list \<times> ('n, 's) deploy_world" where
  "onInputChange rt pf br sched siteId picked d =
     (if picked = [] then ([], d) else drop_start rt pf br sched siteId (collectInputFiles picked) d)"

section \<open>The bar of a deploy never goes back\<close>

text \<open>\<open>climbs lo ps hi\<close>: the percentages of the reports \<open>ps\<close> rise from \<open>lo\<close> to at most \<open>hi\<close>.\<close>

fun climbs :: "rat \<Rightarrow> progress list \<Rightarrow> rat \<Rightarrow> bool" where
  "climbs lo [] hi \<longleftrightarrow> lo \<le> hi"
| "climbs lo (p # ps) hi \<longleftrightarrow> lo \<le> overallPercent p \<and> climbs (overallPercent p) ps hi"

lemma climbs_le: "climbs lo ps hi \<Longrightarrow> lo \<le> hi"
  by (induction ps arbitrary: lo) (auto intro: order_trans)

lemma climbs_append: "climbs lo ps mid \<Longrightarrow> climbs mid qs hi \<Longrightarrow> climbs lo (ps @ qs) hi"
proof (induction ps arbitrary: lo)
  case Nil
  then show ?case by (cases qs) (auto intro: order_trans)
qed auto

lemma climbs_higher: "climbs lo ps hi \<Longrightarrow> hi \<le> hi' \<Longrightarrow> climbs lo ps hi'"
  by (induction ps arbitrary: lo) auto

lemma climbs_bounds: "climbs lo ps hi \<Longrightarrow> \<forall>p \<in> set ps. lo \<le> overallPercent p \<and> overallPercent p \<le> hi"
  by (induction ps arbitrary: lo) (auto dest: climbs_le intro: order_trans)

lemma climbs_sorted: "climbs lo ps hi \<Longrightarrow> sorted (map overallPercent ps)"
  by (induction ps arbitrary: lo) (auto dest: climbs_bounds)

lemma climbs_upt:
  assumes "i \<le> j" "lo \<le> hi"
    and "\<And>k. i \<le> k \<Longrightarrow> k < j \<Longrightarrow> lo \<le> overallPercent (f k) \<and> overallPercent (f k) \<le> hi"
    and "\<And>k. i \<le> k \<Longrightarrow> Suc k < j \<Longrightarrow> overallPercent (f k) \<le> overallPercent (f (Suc k))"
  shows "climbs lo (map f [i..<j]) hi"
  using assms
proof (induction "j - i" arbitrary: i lo)
  case (Suc m)
  then have "i < j" by simp
  moreover have "climbs (overallPercent (f i)) (map f [Suc i..<j]) hi"
  proof (rule Suc.hyps(1))
    fix k assume k: "Suc i \<le> k" "k < j"
    have "overallPercent (f i) \<le> overallPercent (f k)"
      using k
    proof (induction k rule: dec_induct)
      case base
      then show ?case using Suc.prems(4) [of i] by simp
    next
      case (step k)
      then show ?case using Suc.prems(4) [of k] by (fastforce intro: order_trans)
    qed
    then show "overallPercent (f i) \<le> overallPercent (f k) \<and> overallPercent (f k) \<le> hi"
      using Suc.prems(3) [of k] k by simp
  qed (use Suc in auto)
  ultimately show ?case using Suc.prems(3) [of i] by (simp add: upt_conv_Cons)
qed simp

lemma share_mono: "i \<le> k \<Longrightarrow> 0 \<le> w \<Longrightarrow> share i n w \<le> share k n w"
  unfolding share_def by (intro mult_right_mono divide_right_mono) simp_all

lemma share_bounds:
  assumes "k \<le> n" "0 \<le> w"
  shows "0 \<le> share k n w \<and> share k n w \<le> w"
proof -
  have "of_nat k / (of_nat n :: rat) \<le> 1" using assms(1) by (cases "n = 0") (simp_all add: divide_le_eq)
  then show ?thesis using assms(2) mult_right_mono [of "of_nat k / of_nat n" "1 :: rat" w] by (simp add: share_def)
qed

lemma hashing_climbs: "j \<le> Suc n \<Longrightarrow> climbs 0 (map (\<lambda>k. Hashing k n) [0..<j]) 40"
  using share_bounds [of _ n 40] by (intro climbs_upt) (auto intro: share_mono)

lemma uploading_climbs: "j \<le> Suc n \<Longrightarrow> climbs 45 (map (\<lambda>k. Uploading k n) [0..<j]) 85"
  using share_bounds [of _ n 40] by (intro climbs_upt) (fastforce intro: share_mono)+

lemma call_action_progress: "call_action br act d = (r, d1) \<Longrightarrow> dw_progress d1 = dw_progress d"
  by (auto simp: call_action_def split: prod.splits delivery.splits)

lemma hash_loop_calls:
  "hash_loop n ds manifest byHash k = (r, calls) \<Longrightarrow> \<exists>j \<le> length ds. calls = map (\<lambda>i. (i, n)) [Suc k..<Suc (k + j)]"
proof (induction ds arbitrary: manifest byHash k calls)
  case (Cons d ds)
  show ?case
  proof (cases "file_bytes (dropped_file d)")
    case (Inl e)
    with Cons.prems show ?thesis by (intro exI [of _ 0]) simp
  next
    case (Inr bytes)
    with Cons.prems obtain calls' m bh where "hash_loop n ds m bh (Suc k) = (r, calls')" "calls = (Suc k, n) # calls'"
      by (auto simp: Let_def split: prod.splits)
    with Cons.IH obtain j where "j \<le> length ds" "calls = (Suc k, n) # map (\<lambda>i. (i, n)) [Suc (Suc k)..<Suc (Suc k + j)]" by blast
    then show ?thesis by (intro exI [of _ "Suc j"]) (simp add: upt_conv_Cons)
  qed
qed simp

lemma built_calls:
  assumes "dash_buildManifest ds = (r, calls)"
  shows "\<exists>j \<le> length ds. calls = map (\<lambda>i. (i, length ds)) [Suc 0..<Suc j]"
proof -
  obtain r' where "hash_loop (length ds) ds [] [] 0 = (r', calls)"
    using assms by (auto simp: dash_buildManifest_def Let_def split: prod.splits sum.splits)
  from hash_loop_calls [OF this] show ?thesis by simp
qed

lemma put_file_progress:
  "put_file br uploads byHash n sha d = (r, d1) \<Longrightarrow>
     (case r of
        Inl e \<Rightarrow> dw_progress d1 = dw_progress d
      | Inr u \<Rightarrow> dw_progress d1 = dw_progress d @ [Uploading (Suc (dw_uploaded d)) n] \<and> dw_uploaded d1 = Suc (dw_uploaded d))"
  by (auto simp: put_file_def report_def Let_def split: option.splits if_splits sum.splits prod.splits)

lemma seq_progress:
  "seq_run (put_file br uploads byHash n) order d = (r, d1) \<Longrightarrow>
     \<exists>j \<le> length order. dw_progress d1 = dw_progress d @ map (\<lambda>k. Uploading k n) [Suc (dw_uploaded d)..<Suc (dw_uploaded d + j)]"
proof (induction order arbitrary: d)
  case (Cons sha order)
  obtain r2 d2 where p: "put_file br uploads byHash n sha d = (r2, d2)" by fastforce
  show ?case
  proof (cases r2)
    case (Inl e)
    with p Cons.prems put_file_progress [OF p] show ?thesis by (intro exI [of _ 0]) auto
  next
    case (Inr u)
    then have "seq_run (put_file br uploads byHash n) order d2 = (r, d1)" using p Cons.prems by simp
    from Cons.IH [OF this] obtain j where "j \<le> length order"
      "dw_progress d1 = dw_progress d2 @ map (\<lambda>k. Uploading k n) [Suc (dw_uploaded d2)..<Suc (dw_uploaded d2 + j)]" by blast
    then show ?thesis using put_file_progress [OF p] Inr by (intro exI [of _ "Suc j"]) (simp add: upt_conv_Cons)
  qed
qed simp

lemma upload_progress:
  assumes "upload_missing br sched missing uploads byHash d = (r, d1)"
  shows "\<exists>ps. dw_progress d1 = dw_progress d @ ps \<and> climbs 45 ps 85"
proof -
  let ?shas = "string_array (Some missing)"
  let ?n = "length ?shas"
  let ?d = "(report (Uploading 0 ?n) d)\<lparr>dw_uploaded := 0\<rparr>"
  obtain order where o: "mset order = mset ?shas" and s: "seq_run (put_file br uploads byHash ?n) order ?d = (r, d1)"
    using runPool_seq [of ?shas sched "put_file br uploads byHash ?n" ?d] assms by (auto simp: upload_missing_def Let_def)
  from seq_progress [OF s] obtain j where j: "j \<le> length order"
    "dw_progress d1 = dw_progress ?d @ map (\<lambda>k. Uploading k ?n) [Suc 0..<Suc j]" by auto
  moreover have "length order = ?n" using o by (metis size_mset)
  moreover have "map (\<lambda>k. Uploading k ?n) [0..<Suc j] = Uploading 0 ?n # map (\<lambda>k. Uploading k ?n) [Suc 0..<Suc j]"
    by (simp only: upt_conv_Cons zero_less_Suc) simp
  ultimately show ?thesis
    using uploading_climbs [of "Suc j" ?n] by (intro exI [of _ "map (\<lambda>k. Uploading k ?n) [0..<Suc j]"]) (simp add: report_def del: upt_Suc)
qed

lemma publish_progress:
  assumes "deploy_publish rt pf br siteId n version d = (r, d1)"
  shows "\<exists>ps. dw_progress d1 = dw_progress d @ ps \<and> climbs 90 ps 96"
proof (cases "read_member version ''version_id'' (JStr [])")
  case (Inr v)
  obtain r2 d2 where c: "call_action br (publishVersionAction rt pf siteId (version_text v)) (report Publishing d) = (r2, d2)" by fastforce
  have "d1 = d2" using assms Inr c by (auto simp: deploy_publish_def split: sum.splits outcome.splits)
  with call_action_progress [OF c] show ?thesis by (simp add: report_def)
qed (use assms in \<open>simp add: deploy_publish_def\<close>)

lemma finalize_progress:
  assumes "deploy_finalize rt pf br siteId n manifest dig d = (r, d1)"
  shows "\<exists>ps. dw_progress d1 = dw_progress d @ ps \<and> climbs 85 ps 96"
proof -
  obtain r2 d2 where c: "call_action br (finalizeDeploymentAction rt pf siteId manifest dig) (report Finalizing d) = (r2, d2)" by fastforce
  note p = call_action_progress [OF c]
  have "d1 = d2 \<or> (\<exists>version. deploy_publish rt pf br siteId n version d2 = (r, d1))"
    using assms c by (auto simp: deploy_finalize_def split: sum.splits outcome.splits)
  then show ?thesis
  proof
    assume "\<exists>version. deploy_publish rt pf br siteId n version d2 = (r, d1)"
    then obtain ps where "dw_progress d1 = dw_progress d2 @ ps" "climbs 90 ps 96" using publish_progress by blast
    with p show ?thesis by (intro exI [of _ "Finalizing # ps"]) (simp add: report_def)
  qed (use p in \<open>simp add: report_def\<close>)
qed

lemma send_progress:
  assumes "deploy_send rt pf br sched siteId n b manifest d = (r, d1)"
  shows "\<exists>ps. dw_progress d1 = dw_progress d @ ps \<and> climbs 45 ps 96"
proof -
  obtain r2 d2 where c: "call_action br (prepareDeploymentAction rt pf siteId manifest) d = (r2, d2)" by fastforce
  note p = call_action_progress [OF c]
  show ?thesis
  proof (cases "d1 = d2")
    case False
    then obtain missing uploads where r2: "r2 = Inr (Ok (missing, uploads))"
      using assms c by (auto simp: deploy_send_def split: sum.splits outcome.splits)
    obtain ru d3 where u: "upload_missing br sched missing uploads (built_byHash b) d2 = (ru, d3)" by fastforce
    from upload_progress [OF u] obtain us where us: "dw_progress d3 = dw_progress d2 @ us" "climbs 45 us 85" by blast
    have "d1 = d3 \<or> deploy_finalize rt pf br siteId n manifest (built_digest b) d3 = (r, d1)"
      using assms c r2 u by (auto simp: deploy_send_def split: sum.splits)
    then show ?thesis
    proof
      assume "deploy_finalize rt pf br siteId n manifest (built_digest b) d3 = (r, d1)"
      then obtain fs where "dw_progress d1 = dw_progress d3 @ fs" "climbs 85 fs 96" using finalize_progress by blast
      with us p climbs_append show ?thesis by (intro exI [of _ "us @ fs"]) simp
    qed (use us p climbs_higher in fastforce)
  qed (use p in simp)
qed

text \<open>The reports of a deploy, after the \<open>Hashing 0\<close> that \<open>runDeploy\<close> shows first.\<close>

lemma deployFolder_progress:
  assumes "deployFolder rt pf br sched siteId fs d = (r, d1)"
  shows "\<exists>ps. dw_progress d1 = dw_progress d @ ps \<and> climbs 0 (Hashing 0 (length fs) # ps) 96"
proof (cases "fs = []")
  case False
  obtain built calls where b: "dash_buildManifest fs = (built, calls)" by fastforce
  from built_calls [OF b] obtain j where j: "j \<le> length fs" "calls = map (\<lambda>i. (i, length fs)) [Suc 0..<Suc j]" by blast
  let ?n = "length fs"
  let ?hs = "map (\<lambda>k. Hashing k ?n) [Suc 0..<Suc j]"
  let ?d1 = "d\<lparr>dw_progress := dw_progress d @ ?hs\<rparr>"
  have calls: "map (\<lambda>(k, n). Hashing k n) calls = ?hs" using j(2) by simp
  have "map (\<lambda>k. Hashing k ?n) [0..<Suc j] = Hashing 0 ?n # ?hs" by (simp only: upt_conv_Cons zero_less_Suc) simp
  then have h: "climbs 0 (Hashing 0 ?n # ?hs) 40" using hashing_climbs [of "Suc j" ?n] j(1) by (simp del: upt_Suc climbs.simps)
  have "(\<exists>ps. dw_progress d1 = dw_progress ?d1 @ ps \<and> climbs 40 ps 96)"
  proof (cases "\<exists>b manifest. built = Inr b \<and> br_wire br (built_manifest_files b) = Inr manifest")
    case True
    then obtain b' manifest where "built = Inr b'" "br_wire br (built_manifest_files b') = Inr manifest" by blast
    then have "deploy_send rt pf br sched siteId ?n b' manifest (report Preparing ?d1) = (r, d1)"
      using assms False b calls by (simp add: deployFolder_def Let_def)
    from send_progress [OF this] obtain ps where "dw_progress d1 = dw_progress ?d1 @ Preparing # ps" "climbs 45 ps 96"
      by (auto simp: report_def simp del: upt_Suc)
    then show ?thesis by (intro exI [of _ "Preparing # ps"]) simp
  next
    case no: False
    then have "d1 = ?d1 \<or> d1 = report Preparing ?d1"
      using assms False b calls by (auto simp: deployFolder_def Let_def simp del: upt_Suc split: sum.splits)
    then show ?thesis by (auto simp: report_def simp del: upt_Suc)
  qed
  then obtain ps where ps: "dw_progress d1 = dw_progress d @ ?hs @ ps" "climbs 40 ps 96" by (auto simp del: upt_Suc)
  from climbs_append [OF h ps(2)] ps(1) show ?thesis by (intro exI [of _ "?hs @ ps"]) (simp del: climbs.simps upt_Suc)
qed (use assms in \<open>simp add: deployFolder_def\<close>)

text \<open>The values of the bar, one for each state that shows it.\<close>

definition bar_value :: "dropzone \<Rightarrow> rat option" where
  "bar_value s = (case s of Working p n \<Rightarrow> Some (overallPercent p) | _ \<Rightarrow> None)"

definition bar :: "dropzone list \<Rightarrow> rat list" where
  "bar ss = List.map_filter bar_value ss"

lemma bar_append: "bar (ss @ ts) = bar ss @ bar ts"
  by (simp add: bar_def map_filter_def)

lemma bar_states: "bar (states_of (Working p n) ps) = map overallPercent (p # ps)"
  by (induction ps arbitrary: p) (simp_all add: bar_def bar_value_def map_filter_def)

lemma states_working: "list_all working (states_of (Working p n) ps)"
  by (induction ps arbitrary: p) simp_all

lemma runDeploy_shown:
  "\<exists>ps t. climbs 0 (Hashing 0 (length fs) # ps) 96 \<and> bar t = [] \<and> length t \<le> 1 \<and>
     fst (runDeploy rt pf br sched siteId fs d) = states_of (Working (Hashing 0 (length fs)) (length fs)) ps @ t"
proof -
  obtain r d1 where r: "deployFolder rt pf br sched siteId fs d = (r, d1)" by fastforce
  from deployFolder_progress [OF r] obtain ps where ps: "dw_progress d1 = dw_progress d @ ps"
    "climbs 0 (Hashing 0 (length fs) # ps) 96" by blast
  have "\<exists>t. bar t = [] \<and> length t \<le> 1 \<and>
      fst (runDeploy rt pf br sched siteId fs d) = states_of (Working (Hashing 0 (length fs)) (length fs)) ps @ t"
    using r ps(1) by (auto simp: runDeploy_def Let_def bar_def bar_value_def map_filter_def split: sum.splits outcome.splits)
  with ps(2) show ?thesis by blast
qed

text \<open>
  Over a whole deploy, whatever the server and the store answer, the bar starts at 0, only moves
  forward and stays within 0 to 96; after the last state that shows it comes at most one more.
\<close>

theorem deploy_bar_never_goes_back:
  "sorted (bar (fst (runDeploy rt pf br sched siteId fs d))) \<and>
   set (bar (fst (runDeploy rt pf br sched siteId fs d))) \<subseteq> {0..96} \<and>
   list_all working (butlast (fst (runDeploy rt pf br sched siteId fs d)))"
proof -
  from runDeploy_shown [of fs rt pf br sched siteId d] obtain ps t where c: "climbs 0 (Hashing 0 (length fs) # ps) 96"
    and t: "bar t = []" "length t \<le> 1"
    and s: "fst (runDeploy rt pf br sched siteId fs d) = states_of (Working (Hashing 0 (length fs)) (length fs)) ps @ t" by blast
  have b: "bar (fst (runDeploy rt pf br sched siteId fs d)) = map overallPercent (Hashing 0 (length fs) # ps)"
    by (simp only: s bar_append bar_states t(1) append_Nil2)
  have "t = [] \<or> butlast t = [] \<and> t \<noteq> []" using t(2) by (cases t) auto
  then have "list_all working (butlast (fst (runDeploy rt pf br sched siteId fs d)))"
    using states_working unfolding s list_all_iff by (auto simp: butlast_append dest: in_set_butlastD split: if_splits)
  then show ?thesis unfolding b using climbs_sorted [OF c] climbs_bounds [OF c] by fastforce
qed

text \<open>
  A file that cannot be read rejects the deploy, and no state follows: the component stays in
  \<open>Working\<close>, where it takes no further drop.
\<close>

lemma unreadable_file_leaves_it_working:
  assumes "dash_buildManifest fs = (Inl e, calls)" "fs \<noteq> []"
  shows "working (last (fst (runDeploy rt pf br sched siteId fs d)))"
    and "onDrop rt pf br sched siteId (last (fst (runDeploy rt pf br sched siteId fs d))) items d2 = ([], d2)"
proof -
  let ?ss = "\<lambda>ps. states_of (Working (Hashing 0 (length fs)) (length fs)) ps"
  have "?ss ps \<noteq> []" for ps by (cases ps) simp_all
  then have "working (last (?ss ps))" for ps
    using states_working [of "Hashing 0 (length fs)" "length fs" ps] by (simp add: list_all_iff del: states_of.simps)
  moreover obtain ps where "fst (runDeploy rt pf br sched siteId fs d) = ?ss ps"
    using assms by (simp add: runDeploy_def deployFolder_def Let_def)
  ultimately show w: "working (last (fst (runDeploy rt pf br sched siteId fs d)))" by simp
  show "onDrop rt pf br sched siteId (last (fst (runDeploy rt pf br sched siteId fs d))) items d2 = ([], d2)"
    by (simp add: onDrop_def w)
qed

text \<open>What \<open>start\<close> deploys without a question has the file that the Worker takes for the root of the site.\<close>

lemma hash_loop_paths:
  "hash_loop n ds manifest byHash k = (Inr (manifest', byHash'), calls) \<Longrightarrow>
     map df_path manifest' = map df_path manifest @ map dropped_path ds"
proof (induction ds arbitrary: manifest byHash k calls)
  case (Cons d ds)
  then obtain bytes where "file_bytes (dropped_file d) = Inr bytes" by (auto split: sum.splits)
  with Cons show ?case by (fastforce simp: Let_def split: prod.splits)
qed simp

lemma built_paths:
  assumes "dash_buildManifest ds = (Inr b, calls)"
  shows "df_path ` set (built_manifest_files b) = dropped_path ` set ds"
proof -
  from assms obtain m bh where h: "hash_loop (length ds) ds [] [] 0 = (Inr (m, bh), calls)" and b: "built_manifest_files b = sort_byPath m"
    by (auto simp: dash_buildManifest_def Let_def split: prod.splits sum.splits)
  have "set (sort_byPath m) = set m" by (simp add: sort_byPath_def)
  then have "df_path ` set (built_manifest_files b) = set (map df_path m)" using b by simp
  then show ?thesis using hash_loop_paths [OF h] by simp
qed

lemma direct_deploy_has_the_root:
  assumes "drop_start rt pf br sched siteId fs d = (shown, d1)" "dw_log d1 \<noteq> dw_log d" "dash_buildManifest fs = (Inr b, calls)"
  shows "\<exists>f \<in> set (built_manifest_files b). candidatePaths [] = [df_path f]"
proof -
  have "hasRootIndex fs" using assms(1,2) by (auto simp: drop_start_def split: if_splits)
  then have "''index.html'' \<in> df_path ` set (built_manifest_files b)"
    unfolding built_paths [OF assms(3)] by (force simp: hasRootIndex_def ROOT_INDEX_PATH_def list_ex_iff)
  then show ?thesis by (auto simp: candidatePaths_def)
qed

section \<open>The upload dialog of a skill\<close>

text \<open>The ids are read at their declared type, \<open>string\<close>; \<open>sk_selected\<close> is the set in the order of insertion.\<close>

record skill_dialog =
  sk_files :: "DroppedFile list"
  sk_folderName :: string
  sk_nameInput :: string
  sk_selected :: "string list"
  sk_progress :: "progress option"
  sk_error :: "json option"
  sk_warnings :: json
  sk_uploading :: bool
  sk_createdSkillId :: "string option"

definition progressLabel :: "progress option \<Rightarrow> string" where
  "progressLabel p =
     (case p of
        Some (Hashing k n) \<Rightarrow> ''Hashing files'' @ ellipsis @ '' '' @ of_files k n
      | Some Creating \<Rightarrow> ''Creating the skill'' @ ellipsis
      | Some Preparing \<Rightarrow> ''Preparing upload'' @ ellipsis
      | Some (Uploading k n) \<Rightarrow> ''Uploading'' @ ellipsis @ '' '' @ of_files k n
      | Some Finalizing \<Rightarrow> ''Finalizing'' @ ellipsis
      | _ \<Rightarrow> [])"

definition progressValue :: "progress option \<Rightarrow> rat" where
  "progressValue p =
     (case p of
        Some (Hashing k n) \<Rightarrow> if n \<noteq> 0 then share k n 30 else 10
      | Some Creating \<Rightarrow> 35
      | Some Preparing \<Rightarrow> 40
      | Some (Uploading k n) \<Rightarrow> 45 + (if n \<noteq> 0 then share k n 45 else 45)
      | Some Finalizing \<Rightarrow> 95
      | _ \<Rightarrow> 0)"

definition dialog_reset :: skill_dialog where
  "dialog_reset =
     \<lparr>sk_files = [], sk_folderName = [], sk_nameInput = [], sk_selected = [], sk_progress = None, sk_error = None,
      sk_warnings = JArr [], sk_uploading = False, sk_createdSkillId = None\<rparr>"

definition dialog_accept :: "DroppedFile list \<Rightarrow> string \<Rightarrow> skill_dialog \<Rightarrow> skill_dialog" where
  "dialog_accept dropped name s =
     s\<lparr>sk_error := map_option JStr (precheckSkillFolder dropped), sk_files := dropped, sk_folderName := name,
       sk_createdSkillId := None,
       sk_nameInput := (if js_trim (sk_nameInput s) = [] then name else sk_nameInput s)\<rparr>"

definition root_name :: "string \<Rightarrow> string" where
  "root_name r = (if r = [] then ''skill'' else r)"

definition dialog_drop :: "DataTransferItem list \<Rightarrow> skill_dialog \<Rightarrow> skill_dialog" where
  "dialog_drop items s =
     (case collectDataTransferItems items of
        Inl e \<Rightarrow> s
      | Inr dropped \<Rightarrow> dialog_accept dropped (root_name (dropRootName items)) s)"

definition dialog_pick :: "File list \<Rightarrow> skill_dialog \<Rightarrow> skill_dialog" where
  "dialog_pick picked s =
     (if picked = [] then s else dialog_accept (collectInputFiles picked) (root_name (inputRootName picked)) s)"

definition dialog_toggle :: "string \<Rightarrow> skill_dialog \<Rightarrow> skill_dialog" where
  "dialog_toggle i s =
     s\<lparr>sk_selected := (if i \<in> set (sk_selected s) then removeAll i (sk_selected s) else sk_selected s @ [i])\<rparr>"

text \<open>The button, then \<open>start\<close> up to the \<open>await\<close>, the upload, and \<open>start\<close> from its answer on (with whether it closes).\<close>

definition can_share :: "skill_dialog \<Rightarrow> bool" where
  "can_share s \<longleftrightarrow>
     \<not> (sk_uploading s \<or> sk_files s = [] \<or> slugify (sk_nameInput s) = [] \<or> precheckSkillFolder (sk_files s) \<noteq> None)"

definition dialog_begin :: "skill_dialog \<Rightarrow> skill_dialog" where
  "dialog_begin s = s\<lparr>sk_uploading := True, sk_error := None, sk_warnings := JArr []\<rparr>"

definition dialog_upload ::
  "runtime \<Rightarrow> 'n platform \<Rightarrow> 's browser \<Rightarrow> (nat \<Rightarrow> nat) \<Rightarrow> skill_dialog \<Rightarrow> ('n, 's) deploy_world
   \<Rightarrow> skill_outcome result \<times> ('n, 's) deploy_world" where
  "dialog_upload rt pf br sched s d =
     uploadSkillFolder rt pf br sched (sk_createdSkillId s)
       (Some \<lparr>sc_slug = slugify (sk_nameInput s), sc_title = None, sc_folders = Some (sk_selected s)\<rparr>) (sk_files s) d"

definition dialog_progress :: "progress \<Rightarrow> skill_dialog \<Rightarrow> skill_dialog" where
  "dialog_progress p s = s\<lparr>sk_progress := Some p\<rparr>"

definition remember :: "json option \<Rightarrow> skill_dialog \<Rightarrow> skill_dialog" where
  "remember i s = (if truthy i then s\<lparr>sk_createdSkillId := Some (version_text (the i))\<rparr> else s)"

fun dialog_end :: "skill_outcome \<Rightarrow> skill_dialog \<Rightarrow> skill_dialog \<times> bool" where
  "dialog_end (NotUploaded m q i) s =
     ((remember i (s\<lparr>sk_uploading := False\<rparr>))\<lparr>sk_error := Some m, sk_progress := None\<rparr>, False)"
| "dialog_end (Uploaded sd) s =
     (if sd_warnings sd = JArr [] then (dialog_reset, True)
      else ((remember (Some (sd_skillId sd)) (s\<lparr>sk_uploading := False\<rparr>))\<lparr>sk_warnings := sd_warnings sd\<rparr>, False))"

definition dialog_openChange :: "bool \<Rightarrow> skill_dialog \<Rightarrow> skill_dialog \<times> bool" where
  "dialog_openChange next s =
     (if sk_uploading s then (s, False) else (if next then s else dialog_reset, \<not> next))"

section \<open>The remembered skill and the folder\<close>

text \<open>
  The reachable states when no folder is accepted during an upload; \<open>own\<close> is the folder that the last
  upload was started with.
\<close>

inductive dialog_reach :: "skill_dialog \<Rightarrow> DroppedFile list \<Rightarrow> bool" where
  opened: "dialog_reach dialog_reset []"
| accepted: "dialog_reach s own \<Longrightarrow> \<not> sk_uploading s \<Longrightarrow> dialog_reach (dialog_accept dropped name s) own"
| named: "dialog_reach s own \<Longrightarrow> dialog_reach (s\<lparr>sk_nameInput := name\<rparr>) own"
| toggled: "dialog_reach s own \<Longrightarrow> dialog_reach (dialog_toggle i s) own"
| begun: "dialog_reach s own \<Longrightarrow> can_share s \<Longrightarrow> dialog_reach (dialog_begin s) (sk_files s)"
| progressed: "dialog_reach s own \<Longrightarrow> sk_uploading s \<Longrightarrow> dialog_reach (dialog_progress p s) own"
| ended: "dialog_reach s own \<Longrightarrow> sk_uploading s \<Longrightarrow> dialog_reach (fst (dialog_end r s)) own"
| changed: "dialog_reach s own \<Longrightarrow> dialog_reach (fst (dialog_openChange next s)) own"

lemmas dialog_defs =
  dialog_reset_def dialog_accept_def dialog_toggle_def dialog_begin_def dialog_progress_def dialog_openChange_def remember_def

lemma created_skill_is_of_these_files:
  "dialog_reach s own \<Longrightarrow> (sk_uploading s \<or> sk_createdSkillId s \<noteq> None \<longrightarrow> sk_files s = own)"
proof (induction rule: dialog_reach.induct)
  case (ended s own r)
  then show ?case by (cases r) (auto simp: dialog_defs)
qed (auto simp: dialog_defs can_share_def)

text \<open>
  The drop surface stays active during an upload. A folder dropped there takes over the id of the
  skill when the upload then fails: the retry uploads the new folder into the old skill.
\<close>

lemma drop_during_an_upload_takes_the_skill:
  assumes "i \<noteq> []" "s1 = fst (dialog_end (NotUploaded m q (Some (JStr i))) (dialog_accept dropped name (dialog_begin s)))"
  shows "dialog_upload rt pf br sched s1 d =
    uploadSkillFolder rt pf br sched (Some i)
      (Some \<lparr>sc_slug = slugify (sk_nameInput s1), sc_title = None, sc_folders = Some (sk_selected s)\<rparr>) dropped d"
  using assms by (simp add: dialog_upload_def dialog_defs version_text_def)

text \<open>An upload that is rejected never ends, and until then the dialog does not close.\<close>

lemma dialog_stays_open: "sk_uploading s \<Longrightarrow> dialog_openChange next s = (s, False)"
  by (simp add: dialog_openChange_def)

lemma unreadable_file_rejects_the_upload:
  assumes "dash_buildManifest fs = (Inl e, calls)" "precheckSkillFolder fs = None" "i \<noteq> []"
  shows "fst (uploadSkillFolder rt pf br sched (Some i) c fs d) = Inl e"
  using assms by (simp add: uploadSkillFolder_def resolve_skill_def skill_push_def Let_def)

text \<open>A new skill is created before its files are hashed, but its bar has the hashing first.\<close>

lemma resolve_skill_progress:
  assumes "resolve_skill rt pf br None c d = (Inr (Inr i), d1)"
  shows "dw_progress d1 = dw_progress d @ [Creating]"
proof -
  obtain sk where c: "c = Some sk" "sc_slug sk \<noteq> []"
    using assms by (auto simp: resolve_skill_def split: option.splits if_splits)
  obtain r2 d2 where a: "call_action br (createSkillAction rt pf (sc_slug sk) (sc_title sk) (sc_folders sk)) (report Creating d) = (r2, d2)"
    by fastforce
  have "d1 = d2 \<or> (\<exists>r3. call_action br (resolveSkillIdBySlugAction rt pf (sc_slug sk)) d2 = (r3, d1))"
    using assms c a by (auto simp: resolve_skill_def split: sum.splits prod.splits if_splits outcome.splits create_outcome.splits)
  with call_action_progress [OF a] show ?thesis by (auto simp: report_def dest: call_action_progress)
qed

lemma skill_finalize_progress:
  assumes "skill_finalize rt pf br i n manifest dig d = (r, d1)"
  shows "\<exists>ps. dw_progress d1 = dw_progress d @ ps"
proof -
  obtain r2 d2 where c: "call_action br (finalizeSkillUploadAction rt pf (version_text i) manifest dig) (report Finalizing d) = (r2, d2)"
    by fastforce
  have "d1 = d2" using assms c by (auto simp: skill_finalize_def split: sum.splits outcome.splits)
  with call_action_progress [OF c] show ?thesis by (simp add: report_def)
qed

lemma skill_push_progress:
  assumes "dash_buildManifest fs = (built, calls)"
  shows "\<exists>ps. dw_progress (snd (skill_push rt pf br sched i fs d)) = dw_progress d @ map (\<lambda>(k, n). Hashing k n) calls @ ps"
proof (cases "\<exists>b manifest. built = Inr b \<and> br_wire br (built_manifest_files b) = Inr manifest")
  case True
  then obtain b manifest where b: "built = Inr b" "br_wire br (built_manifest_files b) = Inr manifest" by blast
  let ?d1 = "report Preparing (d\<lparr>dw_progress := dw_progress d @ map (\<lambda>(k, n). Hashing k n) calls\<rparr>)"
  obtain r2 d2 where c: "call_action br (prepareSkillUploadAction rt pf (version_text i) manifest) ?d1 = (r2, d2)" by fastforce
  have p: "dw_progress d2 = dw_progress d @ map (\<lambda>(k, n). Hashing k n) calls @ [Preparing]"
    using call_action_progress [OF c] by (simp add: report_def)
  show ?thesis
  proof (cases "\<exists>missing uploads. r2 = Inr (Ok (missing, uploads))")
    case True
    then obtain missing uploads where r2: "r2 = Inr (Ok (missing, uploads))" by blast
    obtain ru d3 where u: "upload_missing br sched missing uploads (built_byHash b) d2 = (ru, d3)" by fastforce
    obtain r4 d4 where f: "skill_finalize rt pf br i (length fs) manifest (built_digest b) d3 = (r4, d4)" by fastforce
    have "snd (skill_push rt pf br sched i fs d) \<in> {d3, d4}"
      using assms b c r2 u f by (auto simp: skill_push_def Let_def split: sum.splits)
    then show ?thesis using upload_progress [OF u] skill_finalize_progress [OF f] p by auto
  next
    case False
    then have "snd (skill_push rt pf br sched i fs d) = d2"
      using assms b c by (auto simp: skill_push_def Let_def split: sum.splits outcome.splits)
    then show ?thesis using p by simp
  qed
qed (use assms in \<open>auto simp: skill_push_def Let_def report_def split: sum.splits\<close>)

lemma skill_bar_goes_back:
  assumes "precheckSkillFolder fs = None" "resolve_skill rt pf br None c d = (Inr (Inr i), d1)"
    and "dash_buildManifest fs = (built, (k, n) # calls)"
  shows "\<exists>rest. dw_progress (snd (uploadSkillFolder rt pf br sched None c fs d)) = dw_progress d @ Creating # Hashing k n # rest"
    and "progressValue (Some (Hashing k n)) < progressValue (Some Creating)"
proof -
  from skill_push_progress [OF assms(3), of rt pf br sched i d1] obtain ps where
    p: "dw_progress (snd (skill_push rt pf br sched i fs d1)) = dw_progress d1 @ map (\<lambda>(k, n). Hashing k n) ((k, n) # calls) @ ps" by blast
  have u: "uploadSkillFolder rt pf br sched None c fs d = skill_push rt pf br sched i fs d1"
    using assms(1,2) by (simp add: uploadSkillFolder_def)
  show "\<exists>rest. dw_progress (snd (uploadSkillFolder rt pf br sched None c fs d)) = dw_progress d @ Creating # Hashing k n # rest"
    unfolding u p resolve_skill_progress [OF assms(2)] by simp
  obtain j where j: "j \<le> length fs" "(k, n) # calls = map (\<lambda>i. (i, length fs)) [Suc 0..<Suc j]"
    using built_calls [OF assms(3)] by (elim exE conjE that)
  from j(2) have "(k, n) \<in> set (map (\<lambda>i. (i, length fs)) [Suc 0..<Suc j])" by (metis list.set_intros(1))
  then have "k \<le> n" using j(1) by auto
  then show "progressValue (Some (Hashing k n)) < progressValue (Some Creating)"
    using share_bounds [of k n 30] by (simp add: progressValue_def)
qed

end
