(* ===== verification/Spec2Isabelle.thy ===== *)
theory Spec2Isabelle
  imports Sample_Site Sdk_Sites Dash_Manifest Dash_TokenCache Dash_Allowlist Dash_Zip Dash_Deploy Dash_Skills Dash_Plans Dash_Policies Dash_Members Dash_Mail Dash_Markdown Dash_Forms
begin

text \<open>
  Dropway publishes static sites. Three TypeScript programs make up the part verified here: the
  serving Worker between a visitor and the tenants' content (\<open>edge/serving-worker/src\<close>), the SDK that
  deploys sites (\<open>packages/sdk/src\<close>), and the dashboard with its identity service
  (\<open>apps/dashboard\<close>: \<open>lib\<close> and the server actions under \<open>app\<close>). They meet in the route projection of
  the contract package (\<open>contracts/src/index.ts\<close>), in the manifest and its digest, in the edge token and
  its exchange, and in the Go API, which is not TypeScript and appears as the answers to requests.

  \<^bold>\<open>How a visitor's request flows.\<close> \<open>fetch\<close> calls \<open>serve\<close>, which calls \<open>dispatch\<close>: the method and
  service-worker refusals, the rate limiter (\<open>ratelimit.ts\<close>), the route of the host from the
  key-value projection (\<open>route.ts\<close>, the contract), link expiry, the status of the
  organisation, the language-model surface (\<open>llm.ts\<close>), the embed surface (\<open>embed.ts\<close>), and
  then the access mode: a public site is served through the cache of the point of presence, a
  gated one only behind the gate (\<open>gated.ts\<close>, \<open>authz.ts\<close>, \<open>edgetoken.ts\<close>, \<open>revoke.ts\<close>).
  Both resolve the path against the deploy manifest (\<open>manifest.ts\<close>) to a blob of the bucket,
  with Markdown (\<open>markdown.ts\<close>), directory listings (\<open>listing.ts\<close>), the shared session page
  (\<open>chat.ts\<close>) and the attribution banner (\<open>banner.ts\<close>) on the way, and the header sets of
  \<open>security.ts\<close> and \<open>http.ts\<close> on the answer. A visitor without a token is sent to the dashboard's
  page \<open>app/authz\<close>, which mints one and sends it back to the host (\<open>lib/authz-host.ts\<close>).

  \<^bold>\<open>How a deploy flows.\<close> The client hashes the files, sends the manifest, uploads the blobs the server
  misses through a pool of workers, finalizes with the digest and publishes; the SDK does this over its
  own transport with retries, the dashboard in the browser over server actions, which call the API with
  a bearer token minted for the session.

  \<^bold>\<open>The theories: language and platform.\<close>
  \<^item> \<open>Prelude\<close>, \<open>Unicode\<close>, \<open>Utf16\<close>, \<open>Json\<close>, \<open>Web\<close>, \<open>Query\<close>, \<open>Sha256\<close>: strings as UTF-8 byte lists and
    their order as UTF-16; JSON values, \<open>JSON.parse\<close> and \<open>JSON.stringify\<close>; headers, URLs, search
    parameters, requests, responses, dates and key-value namespaces; SHA-256. What comes from outside
    the repository (the URL parser, \<open>Date.parse\<close>, \<open>jose\<close>, collation, error texts) is a field of the
    record \<open>runtime\<close> that the definitions take as an argument.

  \<^bold>\<open>The theories: the Worker.\<close>
  \<^item> \<open>Contracts\<close>, \<open>Route\<close>, \<open>Manifest\<close>, \<open>Security\<close> (with \<open>http.ts\<close>), \<open>RateLimit\<close>, \<open>Revoke\<close>,
    \<open>EdgeToken\<close>, \<open>Authz\<close> (with \<open>config.ts\<close> and \<open>gated.ts\<close>), \<open>Html\<close>, \<open>Banner\<close>, \<open>Embed\<close>, \<open>Llm\<close>,
    \<open>Listing\<close>, \<open>Markup\<close>, \<open>Markdown\<close>, \<open>Chat\<close>, \<open>Analytics\<close> (with \<open>errtrack.ts\<close>), \<open>Env\<close>, \<open>Pages\<close>
    and \<open>Worker\<close>: one theory per source module, definitions under the names of the source.
  \<^item> \<open>Serving\<close>, \<open>Posture\<close>, \<open>PopCache\<close> and \<open>HeadGet\<close>: properties of the whole Worker. Which parts of state
    and bucket a request may depend on; the invariants of every response; the cache as a refinement of
    a cold one; \<open>HEAD\<close> against \<open>GET\<close>. \<open>Sample_Site\<close> is the site the witnesses use.

  \<^bold>\<open>The theories: the SDK.\<close>
  \<^item> \<open>Sdk_Client\<close> (errors, transport, retry loop), \<open>Sdk_Manifest\<close> (paths, manifest, digest, and the server's
    digest it must equal), \<open>Pool\<close> (the upload pool as a state machine: bounds, completion, progress) and
    \<open>Sdk_Sites\<close> (the operations on sites and the deploy).

  \<^bold>\<open>The theories: the dashboard.\<close>
  \<^item> \<open>Dash_Manifest\<close>, \<open>Dash_Zip\<close>, \<open>Dash_Deploy\<close>, \<open>Dash_Skills\<close>: the folder of a browser, its manifest and
    digest, the archive writer with a reader as its specification, the deploy and the skill upload, the
    files of the editor and the downloads, with the base64 of RFC 4648 as the specification of what a
    payload carries.
  \<^item> \<open>Dash_TokenCache\<close>, \<open>Dash_Api\<close>, \<open>Dash_Endpoints\<close>: the token cache, the transport of the API client with
    session and token lookup, and one definition per endpoint.
  \<^item> \<open>Dash_Actions\<close>, \<open>Dash_Settings\<close>, \<open>Dash_Policies\<close>, \<open>Dash_Social\<close>, \<open>Dash_Members\<close>: the server actions with
    their validation, requests, revalidated pages and messages; mail transport and contact form; the
    organisation of the viewer, the rule of the site listing and the audit pages.
  \<^item> \<open>Dash_Authz\<close>: the dashboard's side of the viewer exchange, proved against the Worker's side.
  \<^item> \<open>Dash_OAuth\<close>, \<open>Dash_Allowlist\<close>, \<open>Dash_Auth\<close>: the redirect rules of the authorization server, the stored
    allowlist under interleaved requests, and the hooks, claims and memo of \<open>auth.ts\<close>.
  \<^item> \<open>Dash_Env\<close>, \<open>Dash_Mail\<close>, \<open>Dash_Plans\<close>, \<open>Dash_Markdown\<close>: environment and telemetry; the mails, line by
    line of their templates; plans and embeds; the Markdown preview and the error page.
  \<^item> \<open>Dash_Forms\<close>: the states and progress bars of the deploy drop zone and of the skill upload dialog.

  \<^bold>\<open>State and effects.\<close> A request of the Worker reads the environment (record \<open>Env\<close>) and changes the state
  of the isolate (record \<open>world\<close>): the limiter's namespace, the JWKS cache, the PoP cache and
  the list of posted events. A handler is a function to the response or the thrown error
  (\<open>js_error + response\<close>) and the next state. In the SDK and the dashboard the network, the services and
  the clock are a platform parameter over a state of its own; what was sent is a log, so that a property
  can say which requests an operation made and in which order. An error is a value: \<open>Inl\<close> of a sum,
  \<open>Refused\<close> of an outcome, or a constructor of the result. Where operations really interleave (the upload
  pools, the allowlist, the memo of organizations) they are step relations with reachable states.

  \<^bold>\<open>Recursion.\<close> All definitions are total. The JSON parser and the block renderer recurse on
  fuel or a measure that is the length of their input; the parser's fuel is one more than the
  length, each step consumes a character, and the round trip theorem shows it is enough for
  every serialized route. The retry loop recurses on the attempts left.

  \<^bold>\<open>Interfaces.\<close> \<open>header_store\<close>, \<open>kv_cache\<close> and \<open>param_store\<close> are the laws of headers, of the cached namespaces
  and of search parameters; \<open>html_escape\<close>, \<open>tag_language\<close> and \<open>markup_inserter\<close> those of the text passes;
  \<open>window_counter\<close> that of the limiter; \<open>response_invariant\<close> and \<open>embed_invariant\<close> those of the response
  builders; \<open>transfer\<close> that of one upload in a pool. Each is interpreted on the definitions of the code.

  \<^bold>\<open>Not modelled.\<close> The Go services and the command line tool (another language; the server's digest
  alone is modelled, as what the clients must agree with). React rendering: but for the two
  components of \<open>Dash_Forms\<close>, the components and pages
  build markup out of the values modelled here, and their behaviour is that of React and the browser;
  of the pages, \<open>app/authz\<close>, \<open>app/oauth/error\<close> and the listing of \<open>app/(app)/dashboard\<close> are modelled up to
  their markup. Generated type declarations, the example sites, configuration of build tools, the texts
  of the changelog and of the terms, and the construction of the browser's auth client, which have no
  behaviour of their own; \<open>formatBytes\<close>, which depends on a floating-point logarithm. Within the
  Worker: concurrency of requests inside one isolate (each request is atomic), the Unicode tables of
  \<open>trim\<close> and \<open>toLowerCase\<close>, and the rejection of header values with line breaks. Within the SDK:
  \<open>maxRetries\<close> is an integer (with \<open>Infinity\<close> the retry loop need not end); the limit of concurrency is
  any number of JavaScript, \<open>NaN\<close> and the infinities included.
\<close>

section \<open>Access control\<close>

text \<open>
  C1. Confidentiality of gated sites. If the host's route is not public and the request does not
  carry an edge cookie that verifies for this route and is not revoked, the answer, the events
  and every other effect are the same for every content of the bucket: not one byte of the
  tenant reaches the visitor, through any path, header, query (\<open>?embed\<close>, \<open>?raw\<close>), crawler page,
  error page or length.
\<close>

theorem gated_site_is_confidential:
  assumes "new_url rt (req_url req) None = Some url"
    and "routes_get_json rt env (routeKey (url_host url)) = Inr raw"
    and "parseRouteValue rt raw = Some route" and "access_mode route \<noteq> ''public''"
    and "\<not> admitted rt req env route url opts w"
  shows "serve rt req (env\<lparr>BUCKET := b\<rparr>) opts w = serve rt req env opts w"
  using assms by (rule gated_serve_bucket)

theorem gated_site_is_confidential_witness:
  "serve sample_runtime (sample_get ''/app.js'') ((sample_env ''password'')\<lparr>BUCKET := (\<lambda>_. Inr None)\<rparr>)
     sample_opts empty_world =
   serve sample_runtime (sample_get ''/app.js'') (sample_env ''password'') sample_opts empty_world"
  by (rule gated_site_is_confidential [OF sample_reads(1) _ sample_route_read(2) _ sample_not_admitted])
     (simp_all add: sample_reads sample_route_read, simp add: sample_site_def)

text \<open>
  C5. A gated site never meets the cache of the point of presence: its answers do not depend on
  what the cache holds, and serving it leaves the cache as it was, so protected bytes never
  enter it.
\<close>

theorem gated_site_bypasses_pop_cache:
  assumes "new_url rt (req_url req) None = Some url"
    and "routes_get_json rt env (routeKey (url_host url)) = Inr raw"
    and "parseRouteValue rt raw = Some route" and "access_mode route \<noteq> ''public''"
  shows "fst (serve rt req env opts (w\<lparr>w_pop := p\<rparr>)) = fst (serve rt req env opts w) \<and>
         w_pop (snd (serve rt req env opts w)) = w_pop w"
proof -
  have *: "serve rt req env opts (with_pop q w) = apsnd (with_pop q) (serve rt req env opts w)" for q
    using assms by (rule gated_serve_pop)
  from * [of "w_pop w"] have "snd (serve rt req env opts w) = with_pop (w_pop w) (snd (serve rt req env opts w))"
    by (metis snd_apsnd world.surjective world.update_convs(3))
  from arg_cong [OF this, of w_pop] have "w_pop (snd (serve rt req env opts w)) = w_pop w" by simp
  with * [of p] show ?thesis by simp
qed

theorem gated_site_bypasses_pop_cache_witness:
  "w_pop (snd (serve sample_runtime (sample_get ''/app.js'') (sample_env ''password'') sample_opts empty_world)) =
   w_pop empty_world"
proof -
  have "routes_get_json sample_runtime (sample_env ''password'') (routeKey (url_host (sample_target ''/app.js''))) =
      Inr (the (JSON_parse (sample_site_text ''password'')))"
    by (simp add: sample_reads sample_route_read)
  from gated_site_bypasses_pop_cache [OF sample_reads(1) this sample_route_read(2)] show ?thesis
    by (simp add: sample_site_def)
qed

text \<open>
  C2. Tenant isolation. What another organisation stores, under any key of its own, has no
  influence on the answer: two buckets that differ only in objects of another organisation give
  the same response, events and state.
\<close>

theorem tenants_are_isolated:
  assumes r: "reaches rt req env opts w url route w1"
    and o: "UUID_RE_test other" "other \<noteq> org_id route"
    and b: "\<And>key. \<not> owned_by other key \<Longrightarrow> b key = BUCKET env key"
  shows "serve rt req (env\<lparr>BUCKET := b\<rparr>) opts w = serve rt req env opts w"
proof -
  have "UUID_RE_test (org_id route)"
    using reaches_route_ok [OF r] by (simp add: route_ok_def)
  with o b have "agree_on (org_id route) b (BUCKET env)"
    using owned_by_unique by (fastforce simp: agree_on_def)
  moreover have "reaches rt req (env\<lparr>BUCKET := b\<rparr>) opts w url route w1"
    using r by (simp add: reaches_def bucket_free)
  ultimately show ?thesis using r by (simp add: serve_reaches isolated_route)
qed

theorem tenants_are_isolated_witness:
  "serve sample_runtime (sample_get ''/app.js'') ((sample_env ''public'')\<lparr>BUCKET :=
     (\<lambda>key. if key = ''blobs/99999999-9999-9999-9999-999999999999/x'' then Inl (JsError ''gone'') else sample_bucket key)\<rparr>)
     sample_opts empty_world =
   serve sample_runtime (sample_get ''/app.js'') (sample_env ''public'') sample_opts empty_world"
proof (rule tenants_are_isolated [OF sample_reaches(1), of "''99999999-9999-9999-9999-999999999999''"])
  show "UUID_RE_test ''99999999-9999-9999-9999-999999999999''" by code_simp
  have "owned_by ''99999999-9999-9999-9999-999999999999'' ''blobs/99999999-9999-9999-9999-999999999999/x''"
    using owned_keys(2) [of "''99999999-9999-9999-9999-999999999999''" "''x''"] by (simp add: blobKey_def)
  then show "(if key = ''blobs/99999999-9999-9999-9999-999999999999/x'' then Inl (JsError ''gone'') else sample_bucket key) =
      BUCKET (sample_env ''public'') key"
    if "\<not> owned_by ''99999999-9999-9999-9999-999999999999'' key" for key
    using that by (auto simp: sample_env_def)
qed (simp add: sample_site_def)

section \<open>Refusals\<close>

text \<open>
  C10. Expired links and blocked organisations. A request that reaches the route of an expired
  link is answered with the 410 page, and one for a suspended or over-limit organisation with
  the 503 page, whatever the access mode, path, cookie, cache and bucket; nothing but the
  limiter's counter changes.
\<close>

theorem blocked_site_serves_platform_page:
  assumes "reaches rt req env opts w url route w1"
  shows "(isRouteExpired rt route (so_now opts) \<longrightarrow>
            serve rt req env opts w = (Inr (framed url linkExpired), w1)) \<and>
         (\<not> isRouteExpired rt route (so_now opts) \<longrightarrow>
          readOrgStatus (LIMITS env) (w_limits w1) (org_id route) = Some st \<longrightarrow> isBlockingStatus (Some st) \<longrightarrow>
            serve rt req env opts w = (Inr (framed url (accountSuspended st)), w1))"
  using serve_reaches [OF assms] by (simp add: blocked_route)

theorem blocked_site_serves_platform_page_witness:
  "\<exists>w1. serve sample_runtime (sample_get ''/app.js'') (sample_env ''public'') sample_opts
     (empty_world\<lparr>w_limits := [''org_status:11111111-1111-1111-1111-111111111111'' \<mapsto> ''suspended'']\<rparr>) =
   (Inr (framed (sample_target ''/app.js'') (accountSuspended ''suspended'')), w1)"
proof -
  let ?w = "empty_world\<lparr>w_limits := [''org_status:11111111-1111-1111-1111-111111111111'' \<mapsto> ''suspended'']\<rparr>"
  let ?w1 = "snd (rate_limit (sample_env ''public'') (sample_get ''/app.js'') (sample_target ''/app.js'') sample_opts ?w)"
  have "allowed (fst (rate_limit (sample_env ''public'') (sample_get ''/app.js'') (sample_target ''/app.js'') sample_opts ?w))"
    by code_simp
  then have r: "reaches sample_runtime (sample_get ''/app.js'') (sample_env ''public'') sample_opts ?w
      (sample_target ''/app.js'') (sample_site ''public'') ?w1"
    unfolding reaches_def by (simp add: sample_reads sample_route_read) (simp add: sample_get_def)
  have "\<not> isRouteExpired sample_runtime (sample_site ''public'') (so_now sample_opts)"
    by (simp add: isRouteExpired_def sample_site_def)
  moreover have "readOrgStatus (LIMITS (sample_env ''public'')) (w_limits ?w1) (org_id (sample_site ''public'')) =
      Some ''suspended''"
    by code_simp
  moreover have "isBlockingStatus (Some ''suspended'')" by (simp add: isBlockingStatus_def)
  ultimately show ?thesis using blocked_site_serves_platform_page [OF r] by blast
qed

text \<open>
  Service workers. A service-worker fetch is refused under every path with the platform's
  404, before the route and the bucket are read; and a path with a conventional service-worker
  file name never resolves to a blob, even when the manifest lists it.
\<close>

theorem service_workers_are_refused:
  assumes "new_url rt (req_url req) None = Some url" and "req_method req \<in> {''GET'', ''HEAD''}"
  shows "(isServiceWorkerRequest req \<longrightarrow>
            fst (serve rt req env opts w) = Inr (framed url (default_404 ''service_worker_blocked''))) \<and>
         (cleanPath (url_pathname url) = Some clean \<longrightarrow> isServiceWorkerScript clean \<longrightarrow>
            fst (resolveBlob rt req env route url opts w) = Inr (BlobNotFound (default_404 ''service_worker_blocked'')))"
  using assms
  by (auto simp: serve_def dispatch_def notFound_def resolveBlob_def framed_def Let_def blob_not_found_def
      split: option.splits)

theorem service_workers_are_refused_witness:
  "fst (serve sample_runtime ((sample_get ''/app.js'')\<lparr>req_headers := [(''service-worker'', ''script'')]\<rparr>)
     (sample_env ''public'') sample_opts empty_world) =
   Inr (framed (sample_target ''/app.js'') (default_404 ''service_worker_blocked''))"
proof -
  let ?r = "(sample_get ''/app.js'')\<lparr>req_headers := [(''service-worker'', ''script'')]\<rparr>"
  have "new_url sample_runtime (req_url ?r) None = Some (sample_target ''/app.js'')" using sample_reads(1) by simp
  moreover have "req_method ?r \<in> {''GET'', ''HEAD''}" by (simp add: sample_get_def)
  moreover have "isServiceWorkerRequest ?r" by code_simp
  ultimately show ?thesis using service_workers_are_refused by blast
qed

section \<open>Every response\<close>

text \<open>
  C4. The header posture of every response. In every reachable state of the isolate, each response
  of \<open>serve\<close> (content, error page, redirect or cached copy) carries the hardening headers; if
  the request asked for an embed it can be framed by any page, and otherwise it forbids framing
  or, for the transcript page, allows it to its own origin only.
\<close>

theorem every_response_is_hardened:
  assumes "reachable rt w" and "serve rt req env opts w = (Inr r, w')"
    and "new_url rt (req_url req) None = Some url"
  shows "hardened (resp_headers r) \<and>
         (if isEmbedRequested url then framable (resp_headers r)
          else frame_denied (resp_headers r) \<or> same_origin_only (resp_headers r))"
proof -
  obtain r0 where d: "fst (dispatch rt req env opts w) = Inr r0" and r: "r = framed url r0"
    using assms(2,3) by (auto simp: serve_def framed_def split: prod.splits sum.splits if_splits)
  note c = reachable_guarded [OF assms(1)]
  then have "cached_all postured w" by (auto simp: cached_all_def postured_def)
  then have "postured r0" using post.dispatch d by (metis holds_simps(1))
  moreover have "guarded r0" if "\<not> isEmbedRequested url"
    using guard.dispatch_good [OF c] guard.plain_route that d assms(3) by (metis holds_simps(1) option.inject)
  ultimately show ?thesis
    using asFramable_postured [of r0] sealed_frame_denied
    by (auto simp: r framed_def guarded_def same_origin_only_def)
qed

theorem every_response_is_hardened_witness:
  "\<exists>r. fst (serve sample_runtime (sample_get ''/app.js'') (sample_env ''public'') sample_opts empty_world) = Inr r \<and>
     hardened (resp_headers r)"
proof -
  let ?s = "serve sample_runtime (sample_get ''/app.js'') (sample_env ''public'') sample_opts empty_world"
  have "(case fst ?s of Inr r \<Rightarrow> resp_body r | Inl e \<Rightarrow> None) = Some ''let x = 1''" by code_simp
  then obtain r where r: "fst ?s = Inr r" by (auto split: sum.splits)
  have "reachable sample_runtime empty_world" by (rule reachable.start) (simp add: empty_world_def)
  moreover have "?s = (Inr r, snd ?s)" using r by (metis prod.collapse)
  ultimately show ?thesis
    using every_response_is_hardened [of sample_runtime empty_world "sample_get ''/app.js''"] sample_reads(1) r by blast
qed

text \<open>
  C36. The entry point always answers, and with one of nine status codes; an error thrown
  anywhere below becomes the generic 500, whose body and headers do not depend on the error.
\<close>

theorem fetch_answers_with_known_status:
  assumes "reachable rt w"
  shows "resp_status (fst (fetch rt req env opts w)) \<in> {200, 302, 403, 404, 405, 410, 429, 500, 503} \<and>
         (\<forall>e. fst (serve rt req env opts w) = Inl e \<longrightarrow> fst (fetch rt req env opts w) = internal_error)"
proof -
  have k: "holds known_status (fst (dispatch rt req env opts w))"
    using status.dispatch [OF reachable_status [OF assms]] .
  have f: "known_status (asFramable r) = known_status r" for r by (simp add: known_status_def asFramable_def Let_def)
  obtain y w1 where y: "dispatch rt req env opts w = (y, w1)" by (cases "dispatch rt req env opts w")
  with k f have "holds known_status (fst (serve rt req env opts w))"
    by (cases y; cases "new_url rt (req_url req) None") (simp_all add: serve_def)
  moreover have "known_status internal_error" by (simp add: known_status_def internal_error_def)
  moreover obtain x w' where x: "serve rt req env opts w = (x, w')" by (cases "serve rt req env opts w")
  ultimately have "known_status (fst (fetch rt req env opts w))" by (cases x) (simp_all add: fetch_def)
  with x show ?thesis by (cases x) (simp_all add: fetch_def known_status_def)
qed

theorem fetch_answers_with_known_status_witness:
  "resp_status (fst (fetch sample_runtime (sample_get ''/app.js'') (sample_env ''public'') sample_opts empty_world))
     \<in> {200, 302, 403, 404, 405, 410, 429, 500, 503}"
proof -
  have "reachable sample_runtime empty_world" by (rule reachable.start) (simp add: empty_world_def)
  from fetch_answers_with_known_status [OF this] show ?thesis by blast
qed

section \<open>Content\<close>

text \<open>
  C3. Transparency of the PoP cache. Take any run of requests over a deployment (immutable
  content of which each request sees some part, routes that change freely, a banner setting that
  stays, entries that may be dropped at any time) whose keys are exact: no path lies under
  \<open>/raw/\<close>, no URL has a fragment, and no plan tier has a slash or is an underscore. If a public
  \<open>GET\<close> is then answered from the cache, the answer is the one a cold point of presence that sees
  the whole content would give for the current route. Without the condition on the path this is
  false, because the key of \<open>/raw/x\<close> is also the key of \<open>/x?raw\<close> (\<open>raw_paths_share_keys\<close>).
\<close>

theorem pop_cache_is_transparent:
  assumes "warm rt d w" and "route_ok rt route" and "in_deployment rt d env route url"
    and hit: "w_pop w (cacheKey rt route url) = Some hit" and "so_cache opts" and get: "req_method req = ''GET''"
    and chat: "serveChatIfRequested rt env route url = Inr None" "serveChatIfRequested rt env' route url = Inr None"
    and cold: "shows_all_of (BUCKET env') (d_content d)" "ATTRIBUTION_BANNER env' = d_banner d"
      "w_pop w' (cacheKey rt route url) = None"
  shows "fst (servePublic rt req env route url opts w) = fst (servePublic rt req env' route url opts' w')"
proof -
  have "published rt (d_content d) env route url = Some hit"
    using warm_cache_ok [OF assms(1)] assms(2,3) hit by (auto simp: cache_ok_def)
  moreover have "published rt (d_content d) env route url = published rt (d_content d) env' route url"
    using assms(3) cold(2) by (intro published_cong) (simp_all add: in_deployment_def)
  ultimately have "fst (servePublic rt req env' route url opts' w') = Inr hit"
    using servePublic_miss [OF chat(2) cold(1) _ get cold(3)] by simp
  moreover have "bodyFor req hit = hit" using get by (simp add: bodyFor_def)
  ultimately show ?thesis using servePublic_hit [OF chat(1) assms(5) hit] by simp
qed

theorem pop_cache_is_transparent_witness:
  "fst (servePublic sample_runtime (sample_get ''/app.js'') (sample_env ''public'') (sample_site ''public'')
      (sample_target ''/app.js'') sample_opts sample_warm) =
   fst (servePublic sample_runtime (sample_get ''/app.js'') (sample_env ''public'') (sample_site ''public'')
      (sample_target ''/app.js'') sample_opts empty_world)"
proof -
  have "w_pop sample_warm (cacheKey sample_runtime (sample_site ''public'') (sample_target ''/app.js'')) \<noteq> None"
    by code_simp
  then obtain hit where
    "w_pop sample_warm (cacheKey sample_runtime (sample_site ''public'') (sample_target ''/app.js'')) = Some hit" by blast
  from pop_cache_is_transparent [OF sample_warm sample_site_ok sample_in_deployment this _ _ sample_no_chat sample_no_chat
      sample_shows_all]
  show ?thesis
    by (simp add: sample_opts_def sample_get_def sample_env_def sample_deployment_def empty_world_def)
qed

text \<open>The sample request asks for content, and the cache is cold.\<close>

lemma sample_asks_content:
  "asks_content sample_runtime (sample_env ''public'') (sample_site ''public'') (sample_target ''/app.js'') sample_opts
     (snd (rate_limit (sample_env ''public'') (sample_get ''/app.js'') (sample_target ''/app.js'') sample_opts empty_world))"
proof -
  let ?w1 = "snd (rate_limit (sample_env ''public'') (sample_get ''/app.js'') (sample_target ''/app.js'') sample_opts empty_world)"
  have "cleanPath (url_pathname (sample_target ''/app.js'')) = Some ''app.js''" by code_simp
  moreover have "\<not> isEmbedRequested (sample_target ''/app.js'')" by code_simp
  moreover have "readOrgStatus (LIMITS (sample_env ''public'')) (w_limits ?w1) (org_id (sample_site ''public'')) = None"
    by code_simp
  ultimately show ?thesis
    unfolding asks_content_def using sample_no_chat
    by (simp add: isRouteExpired_def isBlockingStatus_def) (simp add: sample_site_def)
qed

text \<open>
  C11. \<open>HEAD\<close> agrees with \<open>GET\<close>. Let a request resolve to a stored document that is valid UTF-8
  without a byte order mark and whose recorded size is its length. Then \<open>HEAD\<close> is answered with
  exactly the status and the headers of the \<open>GET\<close>, \<open>Content-Length\<close> included, and no body: on the
  gated path, on the public path with and without a cached copy, and by \<open>serve\<close> for every public
  request for content. The banner and the pill are never inserted for \<open>HEAD\<close>, only counted.
\<close>

theorem head_agrees_with_get:
  assumes "serveChatIfRequested rt env route url = Inr None"
    and "fst (resolveBlob rt req env route url opts w) = Inr (BlobOk rb)" and "honest_blob rb"
    and "req_method req = ''GET''"
  shows "(\<exists>r. fst (servePublicBody rt req env route url opts w') = Inr r \<and>
      fst (servePublicBody rt (req\<lparr>req_method := ''HEAD''\<rparr>) env route url opts w') = Inr (head_of r)) \<and>
    (\<exists>r. fst (servePublic rt req env route url opts w') = Inr r \<and>
      fst (servePublic rt (req\<lparr>req_method := ''HEAD''\<rparr>) env route url opts w') = Inr (head_of r)) \<and>
    (reaches rt req env opts w0 url route w' \<longrightarrow> asks_content rt env route url opts w' \<longrightarrow>
      (\<exists>r. fst (serve rt req env opts w0) = Inr r \<and>
        fst (serve rt (req\<lparr>req_method := ''HEAD''\<rparr>) env opts w0) = Inr (head_of r)))"
proof -
  have "\<exists>r. fst (servePublicBody rt req env route url opts w') = Inr r \<and>
      fst (servePublicBody rt (req\<lparr>req_method := ''HEAD''\<rparr>) env route url opts w') = Inr (head_of r)"
    using servePublicBody_ok [OF assms(1,2)] head_of_content [OF assms(3)] assms(4) by (simp add: bodyFor_simps)
  with servePublic_head [OF assms] serve_content reaches_head show ?thesis by metis
qed

theorem head_agrees_with_get_witness:
  "\<exists>r. fst (serve sample_runtime (sample_get ''/app.js'') (sample_env ''public'') sample_opts empty_world) = Inr r \<and>
     fst (serve sample_runtime ((sample_get ''/app.js'')\<lparr>req_method := ''HEAD''\<rparr>) (sample_env ''public'')
       sample_opts empty_world) = Inr (head_of r)"
proof -
  let ?rb = "\<lparr>servedPath = ''app.js'', rb_contentType = Some ''text/javascript'', rb_body = Some ''let x = 1'',
      rb_etag = None, rb_lastModified = None, rb_contentLength = Some 9\<rparr> :: ResolvedBlob"
  have b: "fst (resolveBlob sample_runtime (sample_get ''/app.js'') (sample_env ''public'') (sample_site ''public'')
      (sample_target ''/app.js'') sample_opts empty_world) = Inr (BlobOk ?rb)"
    by code_simp
  have "utf8_valid ''let x = 1''" "\<not> startsWith ''let x = 1'' bom" by code_simp+
  then have h: "honest_blob ?rb" by (simp add: honest_blob_def)
  have g: "req_method (sample_get ''/app.js'') = ''GET''" by (simp add: sample_get_def)
  from head_agrees_with_get [OF sample_no_chat b h g, THEN conjunct2, THEN conjunct2, rule_format,
      OF sample_reaches(1) sample_asks_content] show ?thesis .
qed

text \<open>
  C9. Assets are served verbatim. A public request for content (the link has not expired, the
  organisation is not blocked, no special page, embed or transcript is asked for), on a cache miss,
  whose path resolves to an entry of the manifest that is not HTML and, if it is Markdown, is asked
  for with \<open>?raw\<close>,
  is answered 200 with exactly the bytes stored under the entry's hash, the content type of the
  manifest and the cache policy of the path (without the bytes for \<open>HEAD\<close>).
\<close>

theorem assets_are_served_verbatim:
  assumes r: "reaches rt req env opts w url route w1" and f: "falls_through rt env route url opts w1"
    and c: "cleanPath (url_pathname url) = Some clean" "\<not> isServiceWorkerScript clean"
    and m: "loadManifest rt env route = Inr (Some m)"
    and e: "resolveManifestEntry m clean = Some (path, Entry e)"
    and o: "BUCKET env (blobKey (org_id route) (sha256 e)) = Inr (Some obj)"
    and p: "\<not> isHtml path" "isMarkdownPath path \<Longrightarrow> isRawRequested url"
  shows "\<exists>r w'. serve rt req env opts w = (Inr r, w') \<and> resp_status r = 200 \<and>
     resp_body r = (if req_method req = ''HEAD'' then None else r2_body obj) \<and>
     header_get (resp_headers r) ''Content-Type'' = Some (content_type e) \<and>
     header_get (resp_headers r) ''Cache-Control'' = Some (cacheControlFor path)"
proof -
  let ?rb = "serve_object url path (Entry e) obj"
  have rb: "servedPath ?rb = path" "rb_contentType ?rb = Some (content_type e)" "rb_body ?rb = r2_body obj"
    using p(2) by (auto simp: serve_object_def Let_def)
  have b: "resolveBlob rt req env route url opts w1 = (Inr (BlobOk ?rb), w1)"
    using c m e o by (simp add: resolveBlob_def)
  from serve_falls_through [OF r f b] bannerize_plain [of ?rb env route] p(1) rb(1)
  have "fst (serve rt req env opts w) = Inr (bodyFor req (contentResponse rt path (passthrough ?rb)))"
    by simp
  then show ?thesis
    by (cases "serve rt req env opts w")
       (simp add: bodyFor_def content_headers publicResponseHeaders_type publicResponseHeaders_cache
         passthrough_opts rb)
qed

theorem assets_are_served_verbatim_witness:
  "\<exists>r w'. serve sample_runtime (sample_get ''/app.js'') (sample_env ''public'') sample_opts empty_world = (Inr r, w') \<and>
     resp_status r = 200 \<and> resp_body r = Some ''let x = 1'' \<and>
     header_get (resp_headers r) ''Content-Type'' = Some ''text/javascript''"
proof -
  let ?e = "\<lparr>sha256 = sample_hash, content_type = ''text/javascript'', size = None\<rparr> :: ManifestEntry"
  let ?m = "\<lparr>files = [(''app.js'', ?e)], files_proto = None\<rparr> :: Manifest"
  let ?obj = "\<lparr>r2_body = Some ''let x = 1'', r2_httpEtag = None, r2_uploaded = None, r2_size = Some 9, r2_json = True\<rparr> :: R2Object"
  let ?w1 = "snd (rate_limit (sample_env ''public'') (sample_get ''/app.js'') (sample_target ''/app.js'') sample_opts empty_world)"
  have c: "cleanPath (url_pathname (sample_target ''/app.js'')) = Some ''app.js''" by code_simp
  have f: "falls_through sample_runtime (sample_env ''public'') (sample_site ''public'') (sample_target ''/app.js'') sample_opts ?w1"
    unfolding falls_through_def using sample_asks_content by (simp add: empty_world_def)
  have sw: "\<not> isServiceWorkerScript ''app.js''" by code_simp
  have m: "loadManifest sample_runtime (sample_env ''public'') (sample_site ''public'') = Inr (Some ?m)" by code_simp
  have e: "resolveManifestEntry ?m ''app.js'' = Some (''app.js'', Entry ?e)" by code_simp
  have o: "BUCKET (sample_env ''public'') (blobKey (org_id (sample_site ''public'')) (sha256 ?e)) = Inr (Some ?obj)" by code_simp
  have h: "\<not> isHtml ''app.js''" "\<not> isMarkdownPath ''app.js''" by code_simp+
  from assets_are_served_verbatim [OF sample_reaches(1) f c sw m e o h(1)] h(2) show ?thesis
    by (auto simp: sample_get_def)
qed

end
